(* ===== verification/Py_Json.thy ===== *)
theory Py_Json
  imports Prelude "HOL-Library.List_Lexorder" "HOL-Library.Char_ord"
begin

text \<open>
  The fragment of Python's \<open>json\<close> module that the program's records, queue entries, audit
  lines and tokens go through: \<open>json.dumps\<close> (with \<open>separators\<close>, \<open>indent\<close> and
  \<open>sort_keys\<close>) and \<open>json.loads\<close>.  Values are the ones these records hold: \<open>None\<close>,
  booleans, unbounded integers, strings, lists and string-keyed dictionaries; floating
  point literals are outside the fragment and do not parse.  The main result is that
  parsing a printed value gives the value back (\<open>loads_dumps\<close>), for every layout.
\<close>

datatype json =
    JNull
  | JBool bool
  | JInt int
  | JStr string
  | JList "json list"
  | JObj "(string \<times> json) list"

section \<open>Numbers\<close>

definition digit_char :: "nat \<Rightarrow> char" where
  "digit_char d = char_of (48 + d)"

definition digit_val :: "char \<Rightarrow> nat" where
  "digit_val c = of_char c - 48"

definition is_digit :: "char \<Rightarrow> bool" where
  "is_digit c \<longleftrightarrow> (let n = of_char c :: nat in 48 \<le> n \<and> n \<le> 57)"

fun nat_str :: "nat \<Rightarrow> string" where
  "nat_str n = (if n < 10 then [digit_char n] else nat_str (n div 10) @ [digit_char (n mod 10)])"

declare nat_str.simps [simp del]

definition int_str :: "int \<Rightarrow> string" where
  "int_str i = (if i < 0 then CHR ''-'' # nat_str (nat (- i)) else nat_str (nat i))"

definition nat_val :: "string \<Rightarrow> nat" where
  "nat_val s = foldl (\<lambda>a c. 10 * a + digit_val c) 0 s"

lemma digit_val_char [simp]: "d < 10 \<Longrightarrow> digit_val (digit_char d) = d"
  by (simp add: digit_val_def digit_char_def)

lemma is_digit_char [simp]: "d < 10 \<Longrightarrow> is_digit (digit_char d)"
  by (simp add: is_digit_def digit_char_def Let_def)

lemma nat_str_digits: "list_all is_digit (nat_str n)"
proof (induction n rule: nat_str.induct)
  case (1 n)
  then show ?case by (subst nat_str.simps) auto
qed

lemma nat_str_nonempty [simp]: "nat_str n \<noteq> []"
  by (subst nat_str.simps) simp

lemma nat_val_str [simp]: "nat_val (nat_str n) = n"
proof (induction n rule: nat_str.induct)
  case (1 n)
  show ?case
  proof (cases "n < 10")
    case True
    then show ?thesis by (subst nat_str.simps) (simp add: nat_val_def)
  next
    case False
    with 1 have "foldl (\<lambda>a c. 10 * a + digit_val c) 0 (nat_str (n div 10)) = n div 10"
      by (simp add: nat_val_def)
    with False show ?thesis by (subst nat_str.simps) (simp add: nat_val_def)
  qed
qed

lemma nat_str_leading_zero: "hd (nat_str n) = CHR ''0'' \<Longrightarrow> n = 0"
proof (induction n rule: nat_str.induct)
  case (1 n)
  show ?case
  proof (cases "n < 10")
    case True
    with 1(2) have "digit_val (digit_char n) = digit_val CHR ''0''"
      by (simp add: nat_str.simps[of n])
    with True show ?thesis by (simp add: digit_val_def digit_char_def)
  next
    case False
    with 1 have "n div 10 = 0" by (simp add: nat_str.simps[of n])
    with False show ?thesis by simp
  qed
qed

text \<open>The decoder's number pattern \<open>-?(0|[1-9][0-9]*)\<close>; a fraction or exponent that follows
  makes the literal a float.\<close>

definition float_mark :: "char \<Rightarrow> bool" where
  "float_mark c \<longleftrightarrow> c = CHR ''.'' \<or> c = CHR ''e'' \<or> c = CHR ''E''"

definition parse_nat :: "string \<Rightarrow> (nat \<times> string) option" where
  "parse_nat s =
     (case s of [] \<Rightarrow> None
      | c # r \<Rightarrow>
          if \<not> is_digit c then None
          else let (ds, rest) = (if c = CHR ''0'' then ([c], r)
                                 else (takeWhile is_digit s, dropWhile is_digit s))
               in (case rest of [] \<Rightarrow> Some (nat_val ds, rest)
                   | f # _ \<Rightarrow> if float_mark f then None else Some (nat_val ds, rest)))"

definition parse_int :: "string \<Rightarrow> (int \<times> string) option" where
  "parse_int s =
     (case s of [] \<Rightarrow> None
      | c # r \<Rightarrow>
          if c = CHR ''-'' then map_option (\<lambda>(n, t). (- int n, t)) (parse_nat r)
          else map_option (\<lambda>(n, t). (int n, t)) (parse_nat s))"

definition number_end :: "string \<Rightarrow> bool" where
  "number_end s \<longleftrightarrow> (case s of [] \<Rightarrow> True | c # _ \<Rightarrow> \<not> is_digit c \<and> \<not> float_mark c)"

lemma takeWhile_digits_app:
  "list_all is_digit ds \<Longrightarrow> number_end s \<Longrightarrow>
   takeWhile is_digit (ds @ s) = ds \<and> dropWhile is_digit (ds @ s) = s"
  by (induction ds) (auto simp: number_end_def split: list.splits)

lemma parse_nat_str:
  assumes "number_end s"
  shows "parse_nat (nat_str n @ s) = Some (n, s)"
proof (cases "nat_str n")
  case Nil
  then show ?thesis by simp
next
  case (Cons c ds)
  have dig: "list_all is_digit (c # ds)" using nat_str_digits[of n] by (simp add: Cons)
  have val: "nat_val (c # ds) = n" using nat_val_str[of n] by (simp add: Cons)
  have fm: "case s of [] \<Rightarrow> True | f # _ \<Rightarrow> \<not> float_mark f"
    using assms by (auto simp: number_end_def split: list.splits)
  show ?thesis
  proof (cases "c = CHR ''0''")
    case True
    with nat_str_leading_zero[of n] Cons have "n = 0" by simp
    with Cons have "ds = []" by (auto simp: nat_str.simps[of 0])
    with dig val fm True Cons show ?thesis
      by (auto simp: parse_nat_def split: list.splits)
  next
    case False
    from takeWhile_digits_app[OF dig assms] dig val fm False Cons show ?thesis
      by (auto simp: parse_nat_def split: list.splits)
  qed
qed

lemma hd_nat_str_digit: "is_digit (hd (nat_str n))"
  using nat_str_digits[of n] by (cases "nat_str n") simp_all

lemma parse_int_str:
  assumes "number_end s"
  shows "parse_int (int_str i @ s) = Some (i, s)"
proof (cases "i < 0")
  case True
  then show ?thesis by (simp add: parse_int_def int_str_def parse_nat_str[OF assms])
next
  case False
  obtain c ds where c: "nat_str (nat i) = c # ds"
    using nat_str_nonempty by (cases "nat_str (nat i)") blast+
  then have "c \<noteq> CHR ''-''" using hd_nat_str_digit[of "nat i"] by (auto simp: is_digit_def)
  with False c show ?thesis
    using parse_nat_str[OF assms, of "nat i"] by (simp add: parse_int_def int_str_def)
qed

section \<open>Strings\<close>

definition hex_char :: "nat \<Rightarrow> char" where
  "hex_char d = (if d < 10 then char_of (48 + d) else char_of (87 + d))"

definition hex_val :: "char \<Rightarrow> nat option" where
  "hex_val c = (let n = of_char c :: nat in
     if 48 \<le> n \<and> n \<le> 57 then Some (n - 48)
     else if 97 \<le> n \<and> n \<le> 102 then Some (n - 87)
     else if 65 \<le> n \<and> n \<le> 70 then Some (n - 55)
     else None)"

lemma hex_val_char [simp]: "d < 16 \<Longrightarrow> hex_val (hex_char d) = Some d"
  by (simp add: hex_val_def hex_char_def Let_def)

abbreviation dquote :: char where "dquote \<equiv> CHR 0x22"
abbreviation bslash :: char where "bslash \<equiv> CHR 0x5C"

text \<open>\<open>ensure_ascii\<close> escaping: everything outside \<open>space..tilde\<close>, the quote and the backslash.\<close>

definition escape_char :: "char \<Rightarrow> string" where
  "escape_char c =
     (let n = of_char c :: nat in
      if c = dquote then [bslash, dquote]
      else if c = bslash then [bslash, bslash]
      else if n = 10 then [bslash, CHR ''n'']
      else if n = 13 then [bslash, CHR ''r'']
      else if n = 9 then [bslash, CHR ''t'']
      else if n = 12 then [bslash, CHR ''f'']
      else if n = 8 then [bslash, CHR ''b'']
      else if 32 \<le> n \<and> n \<le> 126 then [c]
      else [bslash, CHR ''u'', CHR ''0'', CHR ''0'', hex_char (n div 16), hex_char (n mod 16)])"

definition quote_json :: "string \<Rightarrow> string" where
  "quote_json s = dquote # concat (map escape_char s) @ [dquote]"

definition unescape :: "char \<Rightarrow> char option" where
  "unescape c =
     (if c = dquote then Some dquote
      else if c = bslash then Some bslash
      else if c = CHR ''/'' then Some (CHR ''/'')
      else if c = CHR ''n'' then Some (char_of (10::nat))
      else if c = CHR ''r'' then Some (char_of (13::nat))
      else if c = CHR ''t'' then Some (char_of (9::nat))
      else if c = CHR ''f'' then Some (char_of (12::nat))
      else if c = CHR ''b'' then Some (char_of (8::nat))
      else None)"

definition hex4 :: "char \<Rightarrow> char \<Rightarrow> char \<Rightarrow> char \<Rightarrow> char option" where
  "hex4 a b c d =
     (case (hex_val a, hex_val b, hex_val c, hex_val d) of
        (Some x, Some y, Some z, Some w) \<Rightarrow>
          let n = 4096 * x + 256 * y + 16 * z + w in if n < 256 then Some (char_of n) else None
      | _ \<Rightarrow> None)"

text \<open>\<open>parse_str\<close> reads after the opening quote up to and over the closing one.\<close>

fun parse_str :: "string \<Rightarrow> (string \<times> string) option" where
  "parse_str [] = None"
| "parse_str (c # s) =
     (if c = dquote then Some ([], s)
      else if c = bslash then
        (case s of
           [] \<Rightarrow> None
         | e # s1 \<Rightarrow>
             if e = CHR ''u'' then
               (case s1 of
                  a # b # x # y # s2 \<Rightarrow>
                    (case hex4 a b x y of None \<Rightarrow> None
                     | Some d \<Rightarrow> map_option (\<lambda>(w, r). (d # w, r)) (parse_str s2))
                | _ \<Rightarrow> None)
             else
               (case unescape e of None \<Rightarrow> None
                | Some d \<Rightarrow> map_option (\<lambda>(w, r). (d # w, r)) (parse_str s1)))
      else if (of_char c :: nat) < 32 then None
      else map_option (\<lambda>(w, r). (c # w, r)) (parse_str s))"

lemma char_of_of_char_eq [simp]: "of_char c = (n::nat) \<Longrightarrow> char_of n = c"
  by auto

lemma hex4_roundtrip:
  "hex4 (CHR ''0'') (CHR ''0'') (hex_char ((of_char c :: nat) div 16)) (hex_char (of_char c mod 16))
   = Some c"
proof -
  have z: "hex_val (CHR ''0'') = Some 0" by (simp add: hex_val_def)
  have "(of_char c :: nat) < 256" by simp
  then have "(of_char c :: nat) div 16 < 16" by arith
  then have h: "hex_val (hex_char ((of_char c :: nat) div 16)) = Some (of_char c div 16)"
    by (rule hex_val_char)
  have l: "hex_val (hex_char ((of_char c :: nat) mod 16)) = Some (of_char c mod 16)"
    by (rule hex_val_char) simp
  have "16 * ((of_char c :: nat) div 16) + of_char c mod 16 = of_char c" by simp
  then show ?thesis by (simp add: hex4_def z h l Let_def)
qed

lemma parse_str_escape:
  "parse_str (escape_char c @ s) = map_option (\<lambda>(w, r). (c # w, r)) (parse_str s)"
proof -
  have "(of_char dquote :: nat) = 34" "(of_char bslash :: nat) = 92" by simp_all
  consider "c = dquote" | "c = bslash" | "of_char c = (10::nat)" | "of_char c = (13::nat)"
    | "of_char c = (9::nat)" | "of_char c = (12::nat)" | "of_char c = (8::nat)"
    | (plain) "c \<noteq> dquote" "c \<noteq> bslash" "32 \<le> (of_char c :: nat)" "(of_char c :: nat) \<le> 126"
    | (hex) "c \<noteq> dquote" "c \<noteq> bslash"
        "\<not> (32 \<le> (of_char c :: nat) \<and> (of_char c :: nat) \<le> 126)"
        "of_char c \<noteq> (10::nat)" "of_char c \<noteq> (13::nat)" "of_char c \<noteq> (9::nat)"
        "of_char c \<noteq> (12::nat)" "of_char c \<noteq> (8::nat)"
    by blast
  then show ?thesis
  proof cases
    case plain
    then show ?thesis by (simp add: escape_char_def Let_def)
  next
    case hex
    then have "escape_char c = [bslash, CHR ''u'', CHR ''0'', CHR ''0'',
        hex_char ((of_char c :: nat) div 16), hex_char (of_char c mod 16)]"
      by (auto simp: escape_char_def Let_def)
    then show ?thesis by (simp add: hex4_roundtrip del: parse_str.simps(2) add: parse_str.simps(2)[of bslash])
  qed (auto simp: escape_char_def unescape_def Let_def)
qed

lemma parse_str_quote: "parse_str (concat (map escape_char w) @ dquote # s) = Some (w, s)"
  by (induction w) (simp_all add: parse_str_escape)

section \<open>Values\<close>

text \<open>
  A layout fixes the separators and the text before each nested item; \<open>compact_layout\<close>
  is \<open>separators=(",", ":")\<close>, \<open>plain_layout\<close> the default, \<open>indent_layout\<close> is
  \<open>indent=2\<close>.
\<close>

record layout =
  item_sep :: string
  key_sep :: string
  line_sep :: "nat \<Rightarrow> string"

definition compact_layout :: layout where
  "compact_layout = \<lparr>item_sep = '','', key_sep = '':'', line_sep = (\<lambda>_. [])\<rparr>"

definition plain_layout :: layout where
  "plain_layout = \<lparr>item_sep = '', '', key_sep = '': '', line_sep = (\<lambda>_. [])\<rparr>"

definition indent_layout :: layout where
  "indent_layout = \<lparr>item_sep = '','', key_sep = '': '',
     line_sep = (\<lambda>n. char_of (10::nat) # replicate (2 * n) (CHR '' ''))\<rparr>"

fun print_json :: "layout \<Rightarrow> nat \<Rightarrow> json \<Rightarrow> string" where
  "print_json l n JNull = ''null''"
| "print_json l n (JBool b) = (if b then ''true'' else ''false'')"
| "print_json l n (JInt i) = int_str i"
| "print_json l n (JStr s) = quote_json s"
| "print_json l n (JList xs) =
     (if xs = [] then ''[]''
      else ''['' @ line_sep l (Suc n)
           @ join_with (item_sep l @ line_sep l (Suc n)) (map (print_json l (Suc n)) xs)
           @ line_sep l n @ '']'')"
| "print_json l n (JObj kvs) =
     (if kvs = [] then ''{}''
      else ''{'' @ line_sep l (Suc n)
           @ join_with (item_sep l @ line_sep l (Suc n))
               (map (\<lambda>(k, v). quote_json k @ key_sep l @ print_json l (Suc n) v) kvs)
           @ line_sep l n @ ''}'')"

definition dumps_with :: "layout \<Rightarrow> json \<Rightarrow> string" where
  "dumps_with l j = print_json l 0 j"

definition json_ws :: "char \<Rightarrow> bool" where
  "json_ws c \<longleftrightarrow> (let n = of_char c :: nat in n = 32 \<or> n = 9 \<or> n = 10 \<or> n = 13)"

definition skip_ws :: "string \<Rightarrow> string" where
  "skip_ws s = dropWhile json_ws s"

fun dict_of_pairs :: "(string \<times> json) list \<Rightarrow> (string \<times> json) list \<Rightarrow> (string \<times> json) list" where
  "dict_of_pairs d [] = d"
| "dict_of_pairs d ((k, v) # ps) = dict_of_pairs (dict_put k v d) ps"

text \<open>
  Recursive descent as in the library's decoder; the first argument bounds the nesting and
  the number of items, and \<open>loads\<close> passes one more than the length of the text, which is
  always enough (\<open>json_need_le\<close>).
\<close>

fun parse_value :: "nat \<Rightarrow> string \<Rightarrow> (json \<times> string) option"
  and parse_items :: "nat \<Rightarrow> string \<Rightarrow> (json list \<times> string) option"
  and parse_pairs :: "nat \<Rightarrow> string \<Rightarrow> ((string \<times> json) list \<times> string) option" where
  "parse_value 0 s = None"
| "parse_value (Suc n) s =
     (case s of
        [] \<Rightarrow> None
      | c # r \<Rightarrow>
          if c = dquote then map_option (\<lambda>(w, t). (JStr w, t)) (parse_str r)
          else if c = CHR ''{'' then
            (case skip_ws r of [] \<Rightarrow> None
             | d # r' \<Rightarrow> if d = CHR ''}'' then Some (JObj [], r')
                else map_option (\<lambda>(ps, t). (JObj (dict_of_pairs [] ps), t)) (parse_pairs n (d # r')))
          else if c = CHR ''['' then
            (case skip_ws r of [] \<Rightarrow> None
             | d # r' \<Rightarrow> if d = CHR '']'' then Some (JList [], r')
                else map_option (\<lambda>(xs, t). (JList xs, t)) (parse_items n (d # r')))
          else if starts_with ''null'' s then Some (JNull, drop 4 s)
          else if starts_with ''true'' s then Some (JBool True, drop 4 s)
          else if starts_with ''false'' s then Some (JBool False, drop 5 s)
          else map_option (\<lambda>(i, t). (JInt i, t)) (parse_int s))"
| "parse_items 0 s = None"
| "parse_items (Suc n) s =
     (case parse_value n s of None \<Rightarrow> None
      | Some (v, r) \<Rightarrow>
          (case skip_ws r of [] \<Rightarrow> None
           | d # r' \<Rightarrow>
               if d = CHR '']'' then Some ([v], r')
               else if d = CHR '','' then
                 map_option (\<lambda>(vs, t). (v # vs, t)) (parse_items n (skip_ws r'))
               else None))"
| "parse_pairs 0 s = None"
| "parse_pairs (Suc n) s =
     (case s of [] \<Rightarrow> None
      | q # s' \<Rightarrow>
          if q \<noteq> dquote then None
          else (case parse_str s' of None \<Rightarrow> None
            | Some (k, r) \<Rightarrow>
                (case skip_ws r of [] \<Rightarrow> None
                 | c # r1 \<Rightarrow>
                     if c \<noteq> CHR '':'' then None
                     else (case parse_value n (skip_ws r1) of None \<Rightarrow> None
                       | Some (v, r2) \<Rightarrow>
                           (case skip_ws r2 of [] \<Rightarrow> None
                            | d # r3 \<Rightarrow>
                                if d = CHR ''}'' then Some ([(k, v)], r3)
                                else if d = CHR '','' then
                                  map_option (\<lambda>(ps, t). ((k, v) # ps, t)) (parse_pairs n (skip_ws r3))
                                else None)))))"

definition loads :: "string \<Rightarrow> json option" where
  "loads s =
     (case parse_value (Suc (length s)) (skip_ws s) of
        None \<Rightarrow> None
      | Some (j, r) \<Rightarrow> if skip_ws r = [] then Some j else None)"

section \<open>Parsing what was printed\<close>

definition wf_layout :: "layout \<Rightarrow> bool" where
  "wf_layout l \<longleftrightarrow>
     (\<exists>w. item_sep l = CHR '','' # w \<and> list_all json_ws w) \<and>
     (\<exists>w. key_sep l = CHR '':'' # w \<and> list_all json_ws w) \<and>
     (\<forall>n. list_all json_ws (line_sep l n))"

lemma wf_layouts [simp]: "wf_layout compact_layout" "wf_layout plain_layout" "wf_layout indent_layout"
  by (simp_all add: wf_layout_def compact_layout_def plain_layout_def indent_layout_def
      json_ws_def list_all_iff)

text \<open>A Python dictionary has distinct keys.\<close>

fun wf_json :: "json \<Rightarrow> bool" where
  "wf_json (JList xs) = (\<forall>x \<in> set xs. wf_json x)"
| "wf_json (JObj kvs) = (distinct (map fst kvs) \<and> (\<forall>kv \<in> set kvs. wf_json (snd kv)))"
| "wf_json j = True"

fun json_need :: "json \<Rightarrow> nat" where
  "json_need (JList xs) = Suc (sum_list (map (\<lambda>x. Suc (json_need x)) xs))"
| "json_need (JObj kvs) = Suc (sum_list (map (\<lambda>kv. Suc (json_need (snd kv))) kvs))"
| "json_need j = 1"

lemma json_need_pos [simp]: "0 < json_need j"
  by (cases j) simp_all

lemma skip_ws_app: "list_all json_ws w \<Longrightarrow> skip_ws (w @ s) = skip_ws s"
  by (induction w) (simp_all add: skip_ws_def)

lemma skip_ws_stop [simp]: "\<not> json_ws c \<Longrightarrow> skip_ws (c # s) = c # s"
  by (simp add: skip_ws_def)

lemma json_ws_marks [simp]:
  "\<not> json_ws (CHR '','')" "\<not> json_ws (CHR '':'')" "\<not> json_ws (CHR '']'')" "\<not> json_ws (CHR ''}'')"
  "\<not> json_ws dquote"
  by (simp_all add: json_ws_def)

lemma number_end_ws: "list_all json_ws w \<Longrightarrow> number_end s \<Longrightarrow> number_end (w @ s)"
  by (cases w) (auto simp: number_end_def json_ws_def is_digit_def float_mark_def Let_def)

lemma number_end_marks [simp]:
  "number_end []" "number_end (CHR '','' # s)" "number_end (CHR '']'' # s)" "number_end (CHR ''}'' # s)"
  by (simp_all add: number_end_def is_digit_def float_mark_def)

definition lead_ok :: "string \<Rightarrow> bool" where
  "lead_ok s \<longleftrightarrow> s \<noteq> [] \<and> \<not> json_ws (hd s) \<and> hd s \<noteq> CHR '']'' \<and> hd s \<noteq> CHR ''}''"

lemma lead_ok_int: "lead_ok (int_str i)"
proof -
  have "is_digit c \<Longrightarrow> \<not> json_ws c \<and> c \<noteq> CHR '']'' \<and> c \<noteq> CHR ''}''" for c
    by (auto simp: is_digit_def json_ws_def Let_def)
  then have "lead_ok (nat_str n)" for n
    using hd_nat_str_digit[of n] by (simp add: lead_ok_def)
  then show ?thesis by (simp add: int_str_def lead_ok_def json_ws_def)
qed

lemma lead_ok_print [simp]: "lead_ok (print_json l n j)"
  by (cases j) (simp_all add: lead_ok_int, simp_all add: lead_ok_def json_ws_def quote_json_def)

lemma skip_ws_lead: "lead_ok p \<Longrightarrow> skip_ws (p @ s) = p @ s"
  by (cases p) (simp_all add: lead_ok_def skip_ws_def)

lemma parse_items_print:
  assumes "\<And>x f s. x \<in> set xs \<Longrightarrow> json_need x \<le> f \<Longrightarrow> number_end s \<Longrightarrow>
             parse_value f (P x @ s) = Some (x, s)"
    and "\<And>x. x \<in> set xs \<Longrightarrow> lead_ok (P x)"
    and "xs \<noteq> []" and w: "list_all json_ws w" and w': "list_all json_ws w'"
    and "sum_list (map (\<lambda>x. Suc (json_need x)) xs) \<le> f"
  shows "parse_items f (join_with (CHR '','' # w) (map P xs) @ w' @ CHR '']'' # s) = Some (xs, s)"
  using assms(1,2,3,6)
proof (induction xs arbitrary: f)
  case Nil
  then show ?case by simp
next
  case (Cons x xs)
  from Cons.prems(4) obtain f' where f: "f = Suc f'" by (cases f) auto
  with Cons.prems(4) have nx: "json_need x \<le> f'" by simp
  note P = Cons.prems(1)[of x f', OF _ nx]
  show ?case
  proof (cases xs)
    case Nil
    have "number_end (w' @ CHR '']'' # s)" by (simp add: number_end_ws w')
    then show ?thesis using P by (simp add: Nil f skip_ws_app w')
  next
    case (Cons y ys)
    have lead: "lead_ok (P y)" using Cons.prems(2) Cons by simp
    let ?r = "join_with (CHR '','' # w) (map P xs) @ w' @ CHR '']'' # s"
    have "\<exists>t. ?r = P y @ t" by (cases ys) (simp_all add: Cons)
    then have skip: "skip_ws (w @ ?r) = ?r"
      using lead by (auto simp: skip_ws_app[OF w] skip_ws_lead)
    have "parse_items f' ?r = Some (xs, s)"
      using Cons.prems Cons by (intro Cons.IH) (auto simp: f)
    moreover have "join_with (CHR '','' # w) (map P (x # xs)) @ w' @ CHR '']'' # s
        = P x @ CHR '','' # w @ ?r" by (simp add: Cons)
    ultimately show ?thesis using P[of "CHR '','' # w @ ?r"] skip by (simp add: f)
  qed
qed

lemma parse_pairs_print:
  assumes "\<And>kv f s. kv \<in> set kvs \<Longrightarrow> json_need (snd kv) \<le> f \<Longrightarrow> number_end s \<Longrightarrow>
             parse_value f (P (snd kv) @ s) = Some (snd kv, s)"
    and "\<And>v. lead_ok (P v)"
    and "kvs \<noteq> []" and w: "list_all json_ws w" and w': "list_all json_ws w'" and u: "list_all json_ws u"
    and "sum_list (map (\<lambda>kv. Suc (json_need (snd kv))) kvs) \<le> f"
  shows "parse_pairs f (join_with (CHR '','' # w)
           (map (\<lambda>(k, v). quote_json k @ (CHR '':'' # u) @ P v) kvs) @ w' @ CHR ''}'' # s) = Some (kvs, s)"
  using assms(1,2,3,7)
proof (induction kvs arbitrary: f)
  case Nil
  then show ?case by simp
next
  case (Cons kv kvs)
  obtain k v where kv: "kv = (k, v)" by (cases kv)
  let ?pp = "\<lambda>(k, v). quote_json k @ (CHR '':'' # u) @ P v"
  from Cons.prems(4) obtain f' where f: "f = Suc f'" by (cases f) auto
  with Cons.prems(4) kv have nx: "json_need v \<le> f'" by simp
  have P: "number_end t \<Longrightarrow> parse_value f' (P v @ t) = Some (v, t)" for t
    using Cons.prems(1)[of kv f' t] nx kv by simp
  have key: "quote_json k = dquote # concat (map escape_char k) @ [dquote]"
    by (simp add: quote_json_def)
  have lv: "skip_ws (u @ P v @ t) = P v @ t" for t
    using Cons.prems(2)[of v] by (simp add: skip_ws_app[OF u] skip_ws_lead)
  show ?case
  proof (cases kvs)
    case Nil
    have "number_end (w' @ CHR ''}'' # s)" by (simp add: number_end_ws w')
    then show ?thesis using P lv by (simp add: Nil f kv key parse_str_quote skip_ws_app w')
  next
    case (Cons kv' ys)
    let ?r = "join_with (CHR '','' # w) (map ?pp kvs) @ w' @ CHR ''}'' # s"
    have "\<exists>t. ?r = dquote # t"
      by (cases ys) (auto simp: Cons quote_json_def split: prod.splits)
    then have skip: "skip_ws (w @ ?r) = ?r" by (auto simp: skip_ws_app[OF w])
    have "parse_pairs f' ?r = Some (kvs, s)"
      using Cons.prems Cons by (intro Cons.IH) (auto simp: f)
    moreover have "join_with (CHR '','' # w) (map ?pp (kv # kvs)) @ w' @ CHR ''}'' # s
        = quote_json k @ CHR '':'' # u @ P v @ CHR '','' # w @ ?r" by (simp add: Cons kv)
    ultimately show ?thesis using P[of "CHR '','' # w @ ?r"] skip lv
      by (simp add: f kv key parse_str_quote)
  qed
qed

lemma starts_with_marks [simp]:
  "starts_with ''null'' (CHR ''n'' # CHR ''u'' # CHR ''l'' # CHR ''l'' # s)"
  "starts_with ''true'' (CHR ''t'' # CHR ''r'' # CHR ''u'' # CHR ''e'' # s)"
  "starts_with ''false'' (CHR ''f'' # CHR ''a'' # CHR ''l'' # CHR ''s'' # CHR ''e'' # s)"
  "c \<noteq> CHR ''n'' \<Longrightarrow> \<not> starts_with ''null'' (c # s)"
  "c \<noteq> CHR ''t'' \<Longrightarrow> \<not> starts_with ''true'' (c # s)"
  "c \<noteq> CHR ''f'' \<Longrightarrow> \<not> starts_with ''false'' (c # s)"
  by (simp_all add: starts_with_def)

lemma parse_value_int:
  assumes "number_end s"
  shows "parse_value (Suc n) (int_str i @ s) = Some (JInt i, s)"
proof -
  obtain c r where c: "int_str i = c # r" using lead_ok_int[of i] by (cases "int_str i") (auto simp: lead_ok_def)
  have "is_digit c \<or> c = CHR ''-''"
    using c hd_nat_str_digit[of "nat i"] by (auto simp: int_str_def split: if_splits)
  then have "c \<noteq> dquote \<and> c \<noteq> CHR ''{'' \<and> c \<noteq> CHR ''['' \<and> c \<noteq> CHR ''n'' \<and> c \<noteq> CHR ''t'' \<and> c \<noteq> CHR ''f''"
    by (auto simp: is_digit_def)
  with parse_int_str[OF assms, of i] c show ?thesis by simp
qed

lemma dict_of_pairs_distinct:
  "distinct (map fst (d @ ps)) \<Longrightarrow> dict_of_pairs d ps = d @ ps"
  by (induction d ps rule: dict_of_pairs.induct) (auto simp: dict_put_fresh)

lemma parse_value_print:
  assumes l: "wf_layout l"
  shows "wf_json j \<Longrightarrow> json_need j \<le> f \<Longrightarrow> number_end s \<Longrightarrow>
         parse_value f (print_json l n j @ s) = Some (j, s)"
proof (induction j arbitrary: f n s)
  case (JInt i)
  then show ?case by (cases f) (simp_all add: parse_value_int del: parse_value.simps(2))
next
  case (JStr w)
  then show ?case by (cases f) (simp_all add: quote_json_def parse_str_quote)
next
  case (JList xs)
  from JList.prems obtain f' where f: "f = Suc f'" by (cases f) auto
  obtain w where w: "item_sep l = CHR '','' # w" "list_all json_ws w" and ls: "\<And>n. list_all json_ws (line_sep l n)"
    using l by (auto simp: wf_layout_def)
  show ?case
  proof (cases xs)
    case Nil
    then show ?thesis by (simp add: f)
  next
    case (Cons y ys)
    let ?P = "print_json l (Suc n)"
    let ?body = "join_with (CHR '','' # w @ line_sep l (Suc n)) (map ?P xs) @ line_sep l n @ CHR '']'' # s"
    have "parse_items f' ?body = Some (xs, s)"
      using JList w(2) ls Cons by (intro parse_items_print) (auto simp: f list_all_append)
    moreover obtain d t where dt: "?body = d # t" and d: "\<not> json_ws d" "d \<noteq> CHR '']''"
    proof -
      have "lead_ok (?P y)" by simp
      moreover have "\<exists>t. ?body = ?P y @ t" by (cases ys) (simp_all add: Cons)
      ultimately show ?thesis using that by (cases "?P y") (auto simp: lead_ok_def)
    qed
    moreover have "print_json l n (JList xs) @ s = CHR ''['' # line_sep l (Suc n) @ ?body"
      by (simp add: Cons w(1))
    moreover have "skip_ws (line_sep l (Suc n) @ ?body) = d # t"
      by (simp only: skip_ws_app[OF ls] dt) (simp add: d)
    ultimately show ?thesis using d by (simp only: f dt) simp
  qed
next
  case (JObj kvs)
  from JObj.prems obtain f' where f: "f = Suc f'" by (cases f) auto
  obtain w where w: "item_sep l = CHR '','' # w" "list_all json_ws w" and ls: "\<And>n. list_all json_ws (line_sep l n)"
    using l by (auto simp: wf_layout_def)
  obtain u where u: "key_sep l = CHR '':'' # u" "list_all json_ws u"
    using l by (auto simp: wf_layout_def)
  show ?case
  proof (cases kvs)
    case Nil
    then show ?thesis by (simp add: f)
  next
    case (Cons y ys)
    let ?P = "print_json l (Suc n)"
    let ?pp = "\<lambda>(k, v). quote_json k @ (CHR '':'' # u) @ ?P v"
    let ?body = "join_with (CHR '','' # w @ line_sep l (Suc n)) (map ?pp kvs) @ line_sep l n @ CHR ''}'' # s"
    have "parse_value f (?P (snd kv) @ s) = Some (snd kv, s)"
      if "kv \<in> set kvs" "json_need (snd kv) \<le> f" "number_end s" for kv f s
      using JObj.IH[of kv "snd kv" f s "Suc n"] JObj.prems(1) that by (cases kv) auto
    then have body: "parse_pairs f' ?body = Some (kvs, s)"
      using JObj.prems w(2) u(2) ls Cons by (intro parse_pairs_print) (auto simp: f list_all_append)
    have "dict_of_pairs [] kvs = kvs" using JObj.prems(1) dict_of_pairs_distinct[of "[]" kvs] by simp
    moreover have "\<exists>t. ?body = dquote # t"
      by (cases ys) (auto simp: Cons quote_json_def split: prod.splits)
    ultimately show ?thesis
      using Cons body by (auto simp: f w(1) u(1) skip_ws_app[OF ls])
  qed
qed (case_tac [!] f, simp_all)

lemma length_join_with:
  "sep \<noteq> [] \<Longrightarrow> sum_list (map (\<lambda>x. Suc (length x)) xs) \<le> Suc (length (join_with sep xs))"
  by (induction sep xs rule: join_with.induct) (auto simp: Suc_le_eq neq_Nil_conv)

lemma sum_list_map_le: "(\<And>x. x \<in> set xs \<Longrightarrow> f x \<le> (g x :: nat)) \<Longrightarrow> sum_list (map f xs) \<le> sum_list (map g xs)"
  by (induction xs) (auto intro: add_mono)

text \<open>The text of a value is long enough to pay for reading it back.\<close>

lemma json_need_le:
  assumes l: "wf_layout l"
  shows "json_need j \<le> length (print_json l n j)"
proof (induction j arbitrary: n)
  case (JList xs)
  let ?sep = "item_sep l @ line_sep l (Suc n)"
  have sep: "?sep \<noteq> []" using l by (auto simp: wf_layout_def)
  have "sum_list (map (\<lambda>x. Suc (json_need x)) xs)
      \<le> sum_list (map (\<lambda>x. Suc (length x)) (map (print_json l (Suc n)) xs))"
    using sum_list_map_le[of xs "\<lambda>x. Suc (json_need x)" "\<lambda>x. Suc (length (print_json l (Suc n) x))"] JList
    by (simp add: o_def)
  also have "\<dots> \<le> Suc (length (join_with ?sep (map (print_json l (Suc n)) xs)))"
    by (rule length_join_with[OF sep])
  finally show ?case by auto
next
  case (JObj kvs)
  let ?sep = "item_sep l @ line_sep l (Suc n)"
  let ?pp = "\<lambda>(k, v). quote_json k @ key_sep l @ print_json l (Suc n) v"
  have sep: "?sep \<noteq> []" using l by (auto simp: wf_layout_def)
  have "json_need (snd kv) \<le> length (?pp kv)" if "kv \<in> set kvs" for kv
    using JObj[of kv "snd kv" "Suc n"] that by (cases kv) auto
  then have "sum_list (map (\<lambda>kv. Suc (json_need (snd kv))) kvs)
      \<le> sum_list (map (\<lambda>x. Suc (length x)) (map ?pp kvs))"
    using sum_list_map_le[of kvs "\<lambda>kv. Suc (json_need (snd kv))" "\<lambda>x. Suc (length (?pp x))"]
    by (simp add: o_def)
  also have "\<dots> \<le> Suc (length (join_with ?sep (map ?pp kvs)))"
    by (rule length_join_with[OF sep])
  finally show ?case by auto
qed (auto simp: int_str_def quote_json_def Suc_le_eq)

lemma loads_dumps:
  assumes "wf_layout l" and "wf_json j"
  shows "loads (dumps_with l j) = Some j"
proof -
  define t where "t = print_json l 0 j"
  have "json_need j \<le> Suc (length t)" unfolding t_def using json_need_le[OF assms(1)] by (rule le_SucI)
  from parse_value_print[OF assms this number_end_marks(1), of 0]
  have p: "parse_value (Suc (length t)) t = Some (j, [])" unfolding t_def append_Nil2 .
  have s: "skip_ws t = t" unfolding t_def using skip_ws_lead[OF lead_ok_print, of l 0 j "[]"] unfolding append_Nil2 .
  have e: "skip_ws [] = []" by (simp add: skip_ws_def)
  have d: "dumps_with l j = t" by (simp add: dumps_with_def t_def)
  show ?thesis unfolding d loads_def s p by (simp add: e)
qed

lemma dumps_inj:
  assumes "wf_layout l" "wf_json j" "wf_json j'" and "dumps_with l j = dumps_with l j'"
  shows "j = j'"
proof -
  have "Some j = loads (dumps_with l j)" by (rule loads_dumps[OF assms(1,2), symmetric])
  also have "\<dots> = Some j'" unfolding assms(4) by (rule loads_dumps[OF assms(1,3)])
  finally show ?thesis by (rule option.inject[THEN iffD1])
qed

section \<open>Sorted keys\<close>

text \<open>\<open>sort_keys=True\<close> prints every dictionary in the order of its keys.\<close>

fun sort_json :: "json \<Rightarrow> json" where
  "sort_json (JList xs) = JList (map sort_json xs)"
| "sort_json (JObj kvs) = JObj (sort_key fst (map (\<lambda>(k, v). (k, sort_json v)) kvs))"
| "sort_json j = j"

definition canonical_json :: "json \<Rightarrow> string" where
  "canonical_json j = dumps_with compact_layout (sort_json j)"

lemma distinct_map_sort: "distinct (map f (sort_key g xs)) = distinct (map f xs)"
  by (simp add: distinct_map distinct_sort)

lemma wf_sort_json: "wf_json j \<Longrightarrow> wf_json (sort_json j)"
proof (induction j)
  case (JObj kvs)
  have "map fst (map (\<lambda>(k, v). (k, sort_json v)) kvs) = map fst kvs" by (simp add: case_prod_beta o_def)
  then have "distinct (map fst (sort_key fst (map (\<lambda>(k, v). (k, sort_json v)) kvs)))"
    using JObj.prems by (simp only: distinct_map_sort wf_json.simps)
  with JObj show ?case by fastforce
qed auto

lemma loads_canonical: "wf_json j \<Longrightarrow> loads (canonical_json j) = Some (sort_json j)"
  by (simp add: canonical_json_def loads_dumps wf_sort_json)

lemma canonical_inj:
  "wf_json j \<Longrightarrow> wf_json j' \<Longrightarrow> canonical_json j = canonical_json j' \<Longrightarrow> sort_json j = sort_json j'"
  by (metis loads_canonical option.inject)

section \<open>One line per value\<close>

text \<open>Without \<open>indent\<close> the text is a single line of printable ASCII.\<close>

definition printable :: "char \<Rightarrow> bool" where
  "printable c \<longleftrightarrow> (let n = of_char c :: nat in 32 \<le> n \<and> n \<le> 126)"

definition one_line_layout :: "layout \<Rightarrow> bool" where
  "one_line_layout l \<longleftrightarrow> list_all printable (item_sep l) \<and> list_all printable (key_sep l) \<and> (\<forall>n. line_sep l n = [])"

lemma one_line_layouts [simp]: "one_line_layout compact_layout" "one_line_layout plain_layout"
  by (simp_all add: one_line_layout_def compact_layout_def plain_layout_def printable_def)

lemma printable_marks [simp]:
  "printable (CHR ''['')" "printable (CHR '']'')" "printable (CHR ''{'')" "printable (CHR ''}'')"
  "printable (CHR '','')" "printable (CHR '':'')" "printable (CHR '' '')" "printable dquote" "printable (CHR ''-'')"
  "printable (CHR ''n'')" "printable (CHR ''u'')" "printable (CHR ''l'')" "printable (CHR ''t'')"
  "printable (CHR ''r'')" "printable (CHR ''e'')" "printable (CHR ''f'')" "printable (CHR ''a'')"
  "printable (CHR ''s'')"
  by (simp_all add: printable_def)

lemma printable_escape: "list_all printable (escape_char c)"
proof -
  have "printable (hex_char d)" if "d < 16" for d using that by (auto simp: hex_char_def printable_def)
  moreover have "(of_char c :: nat) div 16 < 16" using nat_of_char_less_256[of c] by arith
  ultimately show ?thesis by (auto simp: escape_char_def printable_def Let_def)
qed

lemma printable_quote: "list_all printable (quote_json s)"
  by (induction s) (auto simp: quote_json_def printable_escape list_all_append)

lemma printable_int: "list_all printable (int_str i)"
proof -
  have "list_all printable (nat_str n)" for n
    using nat_str_digits[of n] by (auto simp: list_all_iff is_digit_def printable_def Let_def)
  then show ?thesis by (simp add: int_str_def)
qed

lemma list_all_join_with:
  "list_all p sep \<Longrightarrow> (\<And>x. x \<in> set xs \<Longrightarrow> list_all p x) \<Longrightarrow> list_all p (join_with sep xs)"
  by (induction sep xs rule: join_with.induct) (auto simp: list_all_append)

lemma printable_print: "one_line_layout l \<Longrightarrow> list_all printable (print_json l n j)"
proof (induction j arbitrary: n)
  case (JList xs)
  then show ?case
    by (auto simp: list_all_append one_line_layout_def intro!: list_all_join_with)
next
  case (JObj kvs)
  have "list_all printable (quote_json k @ key_sep l @ print_json l (Suc n) v)" if "(k, v) \<in> set kvs" for k v
    using JObj that by (auto simp: list_all_append printable_quote one_line_layout_def)
  with JObj.prems show ?case
    by (auto simp: list_all_append one_line_layout_def intro!: list_all_join_with)
qed (auto simp: printable_quote printable_int)

lemma printable_dumps [simp]: "one_line_layout l \<Longrightarrow> list_all printable (dumps_with l j)"
  by (simp add: dumps_with_def printable_print del: print_json.simps)

end
