(* ===== verification/Jsonl.thy ===== *)
theory Jsonl
  imports Py_Json
begin

text \<open>
  Line-oriented text files: the event stream \<open>events.jsonl\<close> and the audit trail
  \<open>audit.jsonl\<close> are both one JSON text per line, appended and read back with
  \<open>splitlines\<close>, \<open>strip\<close> and a per-line parse whose failures are skipped.  The locale
  \<open>line_codec\<close> states what such a file needs of its record type; the lemmas about
  appending and loading are proved once in it.
\<close>

definition linebreak :: "char \<Rightarrow> bool" where
  "linebreak c \<longleftrightarrow> (let n = of_char c :: nat in
     (10 \<le> n \<and> n \<le> 13) \<or> (28 \<le> n \<and> n \<le> 30) \<or> n = 133)"

abbreviation LF :: char where "LF \<equiv> CHR 0x0A"

text \<open>\<open>str.splitlines()\<close> of a text whose \<open>\r\n\<close> the file layer has already turned into \<open>\n\<close>.\<close>

fun split_lines :: "string \<Rightarrow> string list" where
  "split_lines [] = []"
| "split_lines (c # s) =
     (if linebreak c then [] # split_lines s
      else (case split_lines s of [] \<Rightarrow> [[c]] | w # ws \<Rightarrow> (c # w) # ws))"

text \<open>The non-blank lines, stripped.\<close>

definition text_lines :: "string \<Rightarrow> string list" where
  "text_lines t = filter (\<lambda>l. l \<noteq> []) (map py_strip (split_lines t))"

text \<open>A file whose last line is complete.\<close>

definition line_closed :: "string \<Rightarrow> bool" where
  "line_closed t \<longleftrightarrow> t = [] \<or> last t = LF"

lemma linebreak_LF [simp]: "linebreak LF"
  by (simp add: linebreak_def)

lemma printable_not_linebreak: "printable c \<Longrightarrow> \<not> linebreak c"
  by (auto simp: printable_def linebreak_def Let_def)

lemma printable_not_space: "printable c \<Longrightarrow> c \<noteq> CHR '' '' \<Longrightarrow> \<not> py_space c"
proof
  assume c: "printable c" "c \<noteq> CHR '' ''" and "py_space c"
  then have "(of_char c :: nat) = 32" by (auto simp: printable_def py_space_def Let_def)
  then have "char_of (of_char c :: nat) = (char_of (32::nat) :: char)" by simp
  with c(2) show False by simp
qed

lemma split_lines_line: "list_all printable l \<Longrightarrow> split_lines (l @ LF # s) = l # split_lines s"
  by (induction l) (auto simp: printable_not_linebreak)

lemma split_lines_append:
  "line_closed t \<Longrightarrow> split_lines (t @ s) = split_lines t @ split_lines s"
proof (induction t)
  case (Cons c t)
  show ?case
  proof (cases "t = []")
    case True
    with Cons.prems show ?thesis by (simp add: line_closed_def)
  next
    case False
    then have "split_lines t \<noteq> []" by (cases t) (auto split: list.splits)
    with Cons False show ?thesis by (auto simp: line_closed_def split: list.splits)
  qed
qed simp

lemma text_lines_append: "line_closed t \<Longrightarrow> text_lines (t @ s) = text_lines t @ text_lines s"
  by (simp add: text_lines_def split_lines_append)

lemma text_lines_Nil [simp]: "text_lines [] = []"
  by (simp add: text_lines_def)

section \<open>The interface of a record type\<close>

locale line_codec =
  fixes encode :: "'a \<Rightarrow> string"
    and decode :: "string \<Rightarrow> 'a option"
    and valid :: "'a \<Rightarrow> bool"
  assumes decode_encode: "valid x \<Longrightarrow> decode (encode x) = Some x"
    and encode_printable: "valid x \<Longrightarrow> list_all printable (encode x)"
    and encode_ends: "valid x \<Longrightarrow> encode x \<noteq> [] \<and> hd (encode x) \<noteq> CHR '' '' \<and> last (encode x) \<noteq> CHR '' ''"
begin

definition append_record :: "string \<Rightarrow> 'a \<Rightarrow> string" where
  "append_record t x = t @ encode x @ [LF]"

definition load_records :: "string \<Rightarrow> 'a list" where
  "load_records t = collect decode (text_lines t)"

lemma strip_encode: "valid x \<Longrightarrow> py_strip (encode x) = encode x"
  using encode_ends[of x] encode_printable[of x]
  by (intro py_strip_id) (simp_all add: list_all_iff printable_not_space)

lemma text_lines_encode: "valid x \<Longrightarrow> text_lines (encode x @ [LF]) = [encode x]"
  using encode_ends[of x]
  by (simp add: text_lines_def split_lines_line encode_printable strip_encode)

lemma closed_append [simp]: "line_closed (append_record t x)"
  by (simp add: append_record_def line_closed_def)

lemma text_lines_append_record:
  "line_closed t \<Longrightarrow> valid x \<Longrightarrow> text_lines (append_record t x) = text_lines t @ [encode x]"
  by (simp add: append_record_def text_lines_append text_lines_encode)

lemma load_append:
  "line_closed t \<Longrightarrow> valid x \<Longrightarrow> load_records (append_record t x) = load_records t @ [x]"
  by (simp add: load_records_def text_lines_append_record decode_encode)

lemma load_Nil [simp]: "load_records [] = []"
  by (simp add: load_records_def)

lemma load_fold_append:
  "line_closed t \<Longrightarrow> (\<And>x. x \<in> set xs \<Longrightarrow> valid x) \<Longrightarrow>
   load_records (fold (\<lambda>x t. append_record t x) xs t) = load_records t @ xs"
  by (induction xs arbitrary: t) (simp_all add: load_append)

end

end
