(* ===== verification/Op_Models.thy ===== *)
theory Op_Models
  imports Jsonl
begin

text \<open>
  \<open>odooctl/operations/models.py\<close>: operations, events and audit entries with their JSON
  forms.  Timestamps are the strings \<open>_utcnow()\<close> returned.  Fields hold the types their
  annotations give; a JSON field of another type does not load.
\<close>

datatype OperationKind =
    K_DEPLOY | K_BACKUP | K_RESTORE | K_CLONE | K_ENV_CREATE | K_ENV_DESTROY | K_UPDATE_MODULES
  | K_ROLLBACK | K_PROMOTE | K_DR_DRILL | K_SNAPSHOT_CREATE | K_SNAPSHOT_RECONCILE
  | K_SNAPSHOT_RESTORE | K_PITR_BASE_CREATE | K_PITR_RESTORE | K_PITR_CUTOVER | K_PITR_RECONCILE
  | K_FILESTORE_MIGRATE | K_MIGRATE_REHEARSAL | K_SERVICE_LOGS | K_SERVICE_RESTART

definition kind_table :: "(OperationKind \<times> string) list" where
  "kind_table =
     [(K_DEPLOY, ''deploy''), (K_BACKUP, ''backup''), (K_RESTORE, ''restore''), (K_CLONE, ''clone''),
      (K_ENV_CREATE, ''env_create''), (K_ENV_DESTROY, ''env_destroy''),
      (K_UPDATE_MODULES, ''update_modules''), (K_ROLLBACK, ''rollback''), (K_PROMOTE, ''promote''),
      (K_DR_DRILL, ''dr_drill''), (K_SNAPSHOT_CREATE, ''snapshot_create''),
      (K_SNAPSHOT_RECONCILE, ''snapshot_reconcile''), (K_SNAPSHOT_RESTORE, ''snapshot_restore''),
      (K_PITR_BASE_CREATE, ''pitr_base_create''), (K_PITR_RESTORE, ''pitr_restore''),
      (K_PITR_CUTOVER, ''pitr_cutover''), (K_PITR_RECONCILE, ''pitr_reconcile''),
      (K_FILESTORE_MIGRATE, ''filestore_migrate''), (K_MIGRATE_REHEARSAL, ''migrate_rehearsal''),
      (K_SERVICE_LOGS, ''service_logs''), (K_SERVICE_RESTART, ''service_restart'')]"

definition kind_value :: "OperationKind \<Rightarrow> string" where
  "kind_value k = the (map_of kind_table k)"

definition OperationKind_of :: "string \<Rightarrow> OperationKind option" where
  "OperationKind_of v = map_of (map (\<lambda>(k, s). (s, k)) kind_table) v"

datatype OperationStatus = QUEUED | RUNNING | SUCCEEDED | FAILED | CANCELLED

fun status_value :: "OperationStatus \<Rightarrow> string" where
  "status_value QUEUED = ''queued''"
| "status_value RUNNING = ''running''"
| "status_value SUCCEEDED = ''succeeded''"
| "status_value FAILED = ''failed''"
| "status_value CANCELLED = ''cancelled''"

definition OperationStatus_of :: "string \<Rightarrow> OperationStatus option" where
  "OperationStatus_of v = (if v = ''queued'' then Some QUEUED else if v = ''running'' then Some RUNNING
     else if v = ''succeeded'' then Some SUCCEEDED else if v = ''failed'' then Some FAILED
     else if v = ''cancelled'' then Some CANCELLED else None)"

lemma OperationKind_of_value [simp]: "OperationKind_of (kind_value k) = Some k"
  by (cases k) (simp_all add: OperationKind_of_def kind_value_def kind_table_def)

lemma OperationStatus_of_value [simp]: "OperationStatus_of (status_value s) = Some s"
  by (cases s) (simp_all add: OperationStatus_of_def)

section \<open>Reading fields\<close>

definition req_field :: "(string \<times> json) list \<Rightarrow> string \<Rightarrow> (py_error, json) result" where
  "req_field d k = (case dict_get d k of None \<Rightarrow> Inl (KeyError k) | Some v \<Rightarrow> Inr v)"

definition as_str :: "json \<Rightarrow> (py_error, string) result" where
  "as_str j = (case j of JStr s \<Rightarrow> Inr s | _ \<Rightarrow> Inl (TypeErr ''str''))"

definition as_int :: "json \<Rightarrow> (py_error, int) result" where
  "as_int j = (case j of JInt i \<Rightarrow> Inr i | _ \<Rightarrow> Inl (TypeErr ''int''))"

definition as_opt_str :: "json \<Rightarrow> (py_error, string option) result" where
  "as_opt_str j = (case j of JNull \<Rightarrow> Inr None | JStr s \<Rightarrow> Inr (Some s) | _ \<Rightarrow> Inl (TypeErr ''str''))"

definition req_str :: "(string \<times> json) list \<Rightarrow> string \<Rightarrow> (py_error, string) result" where
  "req_str d k = bindE (req_field d k) as_str"

definition opt_field :: "(string \<times> json) list \<Rightarrow> string \<Rightarrow> json \<Rightarrow> json" where
  "opt_field d k dflt = (case dict_get d k of None \<Rightarrow> dflt | Some v \<Rightarrow> v)"

definition json_opt_str :: "string option \<Rightarrow> json" where
  "json_opt_str o' = (case o' of None \<Rightarrow> JNull | Some s \<Rightarrow> JStr s)"

lemma as_simps [simp, result_simps]:
  "as_str (JStr s) = Inr s" "as_int (JInt i) = Inr i" "as_opt_str (json_opt_str x) = Inr x"
  by (simp_all add: as_str_def as_int_def as_opt_str_def json_opt_str_def split: option.split)

lemma wf_json_opt_str [simp]: "wf_json (json_opt_str x)"
  by (simp add: json_opt_str_def split: option.split)

definition parse_object :: "string \<Rightarrow> (py_error, (string \<times> json) list) result" where
  "parse_object t = (case loads t of None \<Rightarrow> Inl JSONDecodeErr
     | Some (JObj d) \<Rightarrow> Inr d | Some _ \<Rightarrow> Inl (TypeErr ''object''))"

definition result_option :: "('e, 'a) result \<Rightarrow> 'a option" where
  "result_option r = (case r of Inl _ \<Rightarrow> None | Inr x \<Rightarrow> Some x)"

lemma result_option_simps [simp]: "result_option (Inl e) = None" "result_option (Inr x) = Some x"
  by (simp_all add: result_option_def)

lemmas field_defs = req_field_def req_str_def opt_field_def

section \<open>Operations\<close>

record Operation =
  op_ident :: string
  op_kind :: OperationKind
  op_project :: string
  op_environment :: string
  op_status :: OperationStatus
  op_actor :: string
  op_params_redacted :: json
  op_created_at :: string
  op_updated_at :: string
  op_result_ref :: "string option"
  op_error :: "string option"

definition operation_dict :: "Operation \<Rightarrow> (string \<times> json) list" where
  "operation_dict op =
     [(''id'', JStr (op_ident op)), (''kind'', JStr (kind_value (op_kind op))),
      (''project'', JStr (op_project op)), (''environment'', JStr (op_environment op)),
      (''status'', JStr (status_value (op_status op))), (''actor'', JStr (op_actor op)),
      (''params_redacted'', op_params_redacted op), (''created_at'', JStr (op_created_at op)),
      (''updated_at'', JStr (op_updated_at op)), (''result_ref'', json_opt_str (op_result_ref op)),
      (''error'', json_opt_str (op_error op))]"

definition operation_to_json :: "Operation \<Rightarrow> string" where
  "operation_to_json op = dumps_with indent_layout (JObj (operation_dict op))"

definition operation_from_dict :: "(string \<times> json) list \<Rightarrow> (py_error, Operation) result" where
  "operation_from_dict d =
     bindE (req_str d ''id'') (\<lambda>i.
     bindE (req_str d ''kind'') (\<lambda>kv.
     bindE (case OperationKind_of kv of None \<Rightarrow> Inl (ValueErr kv) | Some k \<Rightarrow> Inr k) (\<lambda>k.
     bindE (req_str d ''project'') (\<lambda>p.
     bindE (req_str d ''environment'') (\<lambda>e.
     bindE (req_str d ''status'') (\<lambda>sv.
     bindE (case OperationStatus_of sv of None \<Rightarrow> Inl (ValueErr sv) | Some s \<Rightarrow> Inr s) (\<lambda>s.
     bindE (req_str d ''actor'') (\<lambda>a.
     bindE (req_str d ''created_at'') (\<lambda>c.
     bindE (as_str (opt_field d ''updated_at'' (JStr []))) (\<lambda>u.
     bindE (as_opt_str (opt_field d ''result_ref'' JNull)) (\<lambda>r.
     bindE (as_opt_str (opt_field d ''error'' JNull)) (\<lambda>err.
       Inr \<lparr>op_ident = i, op_kind = k, op_project = p, op_environment = e, op_status = s,
            op_actor = a, op_params_redacted = opt_field d ''params_redacted'' (JObj []),
            op_created_at = c, op_updated_at = u, op_result_ref = r, op_error = err\<rparr>))))))))))))"

definition operation_from_json :: "string \<Rightarrow> (py_error, Operation) result" where
  "operation_from_json t = bindE (parse_object t) operation_from_dict"

text \<open>\<open>Operation.create\<close>; \<open>uid\<close> is the hexadecimal text of the fresh UUID.\<close>

definition operation_create ::
  "string \<Rightarrow> string \<Rightarrow> OperationKind \<Rightarrow> string \<Rightarrow> string \<Rightarrow> string \<Rightarrow> json \<Rightarrow> Operation" where
  "operation_create uid now kind project environment actor params =
     \<lparr>op_ident = take 12 uid, op_kind = kind, op_project = project, op_environment = environment,
      op_status = QUEUED, op_actor = actor, op_params_redacted = params,
      op_created_at = now, op_updated_at = now, op_result_ref = None, op_error = None\<rparr>"

definition operation_wf :: "Operation \<Rightarrow> bool" where
  "operation_wf op \<longleftrightarrow> wf_json (op_params_redacted op)"

lemma operation_from_dict_dict [simp]: "operation_from_dict (operation_dict op) = Inr op"
  by (simp add: operation_from_dict_def operation_dict_def field_defs)

lemma operation_json_roundtrip:
  assumes "operation_wf op"
  shows "operation_from_json (operation_to_json op) = Inr op"
proof -
  have "wf_json (JObj (operation_dict op))"
    using assms by (simp add: operation_dict_def operation_wf_def)
  then show ?thesis
    by (simp add: operation_from_json_def operation_to_json_def parse_object_def loads_dumps
        del: wf_json.simps)
qed

section \<open>Events\<close>

record Event =
  ev_op_id :: string
  ev_seq :: int
  ev_timestamp :: string
  ev_level :: string
  ev_phase :: string
  ev_message :: string
  ev_data :: json

definition event_dict :: "Event \<Rightarrow> (string \<times> json) list" where
  "event_dict e =
     [(''op_id'', JStr (ev_op_id e)), (''seq'', JInt (ev_seq e)), (''timestamp'', JStr (ev_timestamp e)),
      (''level'', JStr (ev_level e)), (''phase'', JStr (ev_phase e)), (''message'', JStr (ev_message e)),
      (''data'', ev_data e)]"

definition event_to_json :: "Event \<Rightarrow> string" where
  "event_to_json e = dumps_with plain_layout (JObj (event_dict e))"

definition event_from_dict :: "(string \<times> json) list \<Rightarrow> (py_error, Event) result" where
  "event_from_dict d =
     bindE (req_str d ''op_id'') (\<lambda>i.
     bindE (bindE (req_field d ''seq'') as_int) (\<lambda>n.
     bindE (req_str d ''timestamp'') (\<lambda>t.
     bindE (as_str (opt_field d ''level'' (JStr ''info''))) (\<lambda>l.
     bindE (as_str (opt_field d ''phase'' (JStr []))) (\<lambda>p.
     bindE (req_str d ''message'') (\<lambda>m.
       Inr \<lparr>ev_op_id = i, ev_seq = n, ev_timestamp = t, ev_level = l, ev_phase = p,
            ev_message = m, ev_data = opt_field d ''data'' (JObj [])\<rparr>))))))"

definition event_from_json :: "string \<Rightarrow> (py_error, Event) result" where
  "event_from_json t = bindE (parse_object t) event_from_dict"

definition event_decode :: "string \<Rightarrow> Event option" where
  "event_decode t = result_option (event_from_json t)"

definition event_wf :: "Event \<Rightarrow> bool" where
  "event_wf e \<longleftrightarrow> wf_json (ev_data e)"

lemma dumps_obj_ends:
  "kvs \<noteq> [] \<Longrightarrow> dumps_with plain_layout (JObj kvs) \<noteq> [] \<and>
    hd (dumps_with plain_layout (JObj kvs)) = CHR ''{'' \<and> last (dumps_with plain_layout (JObj kvs)) = CHR ''}''"
  by (simp add: dumps_with_def)

interpretation events: line_codec event_to_json event_decode event_wf
proof
  fix e assume "event_wf e"
  then have "wf_json (JObj (event_dict e))" by (simp add: event_dict_def event_wf_def)
  then show "event_decode (event_to_json e) = Some e"
    by (simp add: event_decode_def event_from_json_def event_to_json_def parse_object_def loads_dumps
        event_from_dict_def event_dict_def field_defs del: wf_json.simps)
  show "list_all printable (event_to_json e)"
    by (simp add: event_to_json_def)
  show "event_to_json e \<noteq> [] \<and> hd (event_to_json e) \<noteq> CHR '' '' \<and> last (event_to_json e) \<noteq> CHR '' ''"
    using dumps_obj_ends[of "event_dict e"] by (simp add: event_to_json_def event_dict_def)
qed

section \<open>Audit entries\<close>

record AuditEntry =
  au_actor :: string
  au_action :: string
  au_target :: string
  au_params_redacted :: json
  au_outcome :: string
  au_op_id :: string
  au_timestamp :: string
  au_prev_hash :: string
  au_current_hash :: string

definition audit_dict :: "AuditEntry \<Rightarrow> (string \<times> json) list" where
  "audit_dict e =
     [(''prev_hash'', JStr (au_prev_hash e)), (''actor'', JStr (au_actor e)), (''action'', JStr (au_action e)),
      (''target'', JStr (au_target e)), (''params_redacted'', au_params_redacted e),
      (''outcome'', JStr (au_outcome e)), (''op_id'', JStr (au_op_id e)),
      (''timestamp'', JStr (au_timestamp e))]"

definition audit_to_json :: "AuditEntry \<Rightarrow> string" where
  "audit_to_json e =
     dumps_with plain_layout (JObj (dict_put ''current_hash'' (JStr (au_current_hash e)) (audit_dict e)))"

definition audit_from_dict :: "(string \<times> json) list \<Rightarrow> (py_error, AuditEntry) result" where
  "audit_from_dict d =
     bindE (as_str (opt_field d ''prev_hash'' (JStr []))) (\<lambda>ph.
     bindE (as_str (opt_field d ''current_hash'' (JStr []))) (\<lambda>ch.
     bindE (req_str d ''actor'') (\<lambda>a.
     bindE (req_str d ''action'') (\<lambda>ac.
     bindE (req_str d ''target'') (\<lambda>t.
     bindE (req_str d ''outcome'') (\<lambda>out.
     bindE (as_str (opt_field d ''op_id'' (JStr []))) (\<lambda>i.
     bindE (req_str d ''timestamp'') (\<lambda>ts.
       Inr \<lparr>au_actor = a, au_action = ac, au_target = t,
            au_params_redacted = opt_field d ''params_redacted'' (JObj []),
            au_outcome = out, au_op_id = i, au_timestamp = ts,
            au_prev_hash = ph, au_current_hash = ch\<rparr>))))))))"

definition audit_decode :: "string \<Rightarrow> AuditEntry option" where
  "audit_decode t = result_option (bindE (parse_object t) audit_from_dict)"

definition audit_wf :: "AuditEntry \<Rightarrow> bool" where
  "audit_wf e \<longleftrightarrow> wf_json (au_params_redacted e)"

lemma audit_full_dict:
  "dict_put ''current_hash'' h (audit_dict e) = audit_dict e @ [(''current_hash'', h)]"
  by (rule dict_put_fresh) (simp add: audit_dict_def)

lemma audit_json_value:
  "audit_wf e \<Longrightarrow> loads (audit_to_json e) = Some (JObj (audit_dict e @ [(''current_hash'', JStr (au_current_hash e))]))"
  unfolding audit_to_json_def audit_full_dict
  by (rule loads_dumps) (simp_all add: audit_dict_def audit_wf_def)

interpretation audits: line_codec audit_to_json audit_decode audit_wf
proof
  fix e assume "audit_wf e"
  from audit_json_value[OF this] show "audit_decode (audit_to_json e) = Some e"
    by (simp add: audit_decode_def parse_object_def audit_from_dict_def audit_dict_def field_defs)
  show "list_all printable (audit_to_json e)"
    by (simp add: audit_to_json_def)
  show "audit_to_json e \<noteq> [] \<and> hd (audit_to_json e) \<noteq> CHR '' '' \<and> last (audit_to_json e) \<noteq> CHR '' ''"
    using dumps_obj_ends[of "audit_dict e @ [(''current_hash'', JStr (au_current_hash e))]"]
    by (simp add: audit_to_json_def audit_full_dict)
qed

end
