(* ===== verification/Op_Store.thy ===== *)
theory Op_Store
  imports Op_Models
begin

text \<open>
  \<open>odooctl/operations/store.py\<close>: one directory per operation under
  \<open>{state_dir}/operations\<close> with the texts \<open>operation.json\<close> and \<open>events.jsonl\<close>.
  The directory's modification time changes when a file is created in it; \<open>mt\<close> is the file
  system's clock at the call.  The locale \<open>record_store\<close> is the store as its callers see
  it: what is read after a write, and that other keys are left alone.
\<close>

section \<open>The interface of a keyed store\<close>

locale record_store =
  fixes key :: "'v \<Rightarrow> 'k"
    and put :: "'v \<Rightarrow> 's \<Rightarrow> 's"
    and get :: "'s \<Rightarrow> 'k \<Rightarrow> ('e, 'v) result"
    and storable :: "'v \<Rightarrow> bool"
  assumes get_put_same: "storable v \<Longrightarrow> get (put v s) (key v) = Inr v"
    and get_put_other: "k \<noteq> key v \<Longrightarrow> get (put v s) k = get s k"
begin

definition modify :: "'k \<Rightarrow> ('v \<Rightarrow> 'v) \<Rightarrow> 's \<Rightarrow> ('e, 's \<times> 'v) result" where
  "modify k f s = bindE (get s k) (\<lambda>v. Inr (put (f v) s, f v))"

lemma modify_get:
  assumes "modify k f s = Inr (s', v')" and "\<And>v. get s k = Inr v \<Longrightarrow> key (f v) = k \<and> storable (f v)"
  shows "\<exists>v. get s k = Inr v \<and> v' = f v \<and> get s' k = Inr (f v)"
  using assms get_put_same by (fastforce simp: modify_def bindE_eq_Inr_iff)

lemma modify_other:
  assumes "modify k f s = Inr (s', v')" and "\<And>v. get s k = Inr v \<Longrightarrow> key (f v) = k" and "k' \<noteq> k"
  shows "get s' k' = get s k'"
  using assms get_put_other by (auto simp: modify_def bindE_eq_Inr_iff)

lemma put_twice_get: "storable v \<Longrightarrow> key v = key u \<Longrightarrow> get (put v (put u s)) k = get (put v s) k"
  by (metis get_put_same get_put_other)

end

section \<open>The store\<close>

record op_dir =
  od_json :: "string option"
  od_events :: "string option"
  od_mtime :: int

type_synonym op_store = "(string, op_dir) dict"

text \<open>\<open>mkdir(parents=True, exist_ok=True)\<close>.\<close>

definition ensure_dir :: "int \<Rightarrow> string \<Rightarrow> op_store \<Rightarrow> op_dir" where
  "ensure_dir mt i s = (case dict_get s i of
     None \<Rightarrow> \<lparr>od_json = None, od_events = None, od_mtime = mt\<rparr> | Some d \<Rightarrow> d)"

definition store_save :: "int \<Rightarrow> Operation \<Rightarrow> op_store \<Rightarrow> op_store" where
  "store_save mt op s =
     (let d = ensure_dir mt (op_ident op) s in
      dict_put (op_ident op)
        (d\<lparr>od_json := Some (operation_to_json op),
           od_mtime := (if od_json d = None then mt else od_mtime d)\<rparr>) s)"

definition store_load :: "op_store \<Rightarrow> string \<Rightarrow> (py_error, Operation) result" where
  "store_load s i =
     (case Option.bind (dict_get s i) od_json of
        None \<Rightarrow> Inl (KeyError (''Operation not found: '' @ i))
      | Some t \<Rightarrow> operation_from_json t)"

fun list_loop :: "int \<Rightarrow> Operation list \<Rightarrow> op_dir list \<Rightarrow> Operation list" where
  "list_loop limit ops [] = ops"
| "list_loop limit ops (d # ds) =
     (let ops' = (case od_json d of None \<Rightarrow> ops
                  | Some t \<Rightarrow> (case operation_from_json t of Inl _ \<Rightarrow> ops | Inr op \<Rightarrow> ops @ [op]))
          ; skipped = (case od_json d of None \<Rightarrow> False
                  | Some t \<Rightarrow> (case operation_from_json t of Inl _ \<Rightarrow> True | Inr _ \<Rightarrow> False))
      in if skipped then list_loop limit ops' ds
         else if limit \<le> int (length ops') then ops'
         else list_loop limit ops' ds)"

definition store_list_all :: "int \<Rightarrow> op_store \<Rightarrow> Operation list" where
  "store_list_all limit s = list_loop limit [] (sort_key (\<lambda>d. - od_mtime d) (map snd s))"

definition set_status ::
  "string \<Rightarrow> OperationStatus \<Rightarrow> string option \<Rightarrow> string option \<Rightarrow> Operation \<Rightarrow> Operation" where
  "set_status now status error result_ref op =
     op\<lparr>op_status := status, op_updated_at := now,
        op_error := (case error of None \<Rightarrow> op_error op | Some e \<Rightarrow> Some e),
        op_result_ref := (case result_ref of None \<Rightarrow> op_result_ref op | Some r \<Rightarrow> Some r)\<rparr>"

definition store_update_status ::
  "int \<Rightarrow> string \<Rightarrow> string \<Rightarrow> OperationStatus \<Rightarrow> string option \<Rightarrow> string option \<Rightarrow> op_store
   \<Rightarrow> (py_error, op_store \<times> Operation) result" where
  "store_update_status mt now i status error result_ref s =
     bindE (store_load s i) (\<lambda>op.
       let op' = set_status now status error result_ref op
       in Inr (store_save mt op' s, op'))"

definition store_append_event :: "int \<Rightarrow> string \<Rightarrow> Event \<Rightarrow> op_store \<Rightarrow> op_store" where
  "store_append_event mt i e s =
     (let d = ensure_dir mt i s;
          old = (case od_events d of None \<Rightarrow> [] | Some t \<Rightarrow> t)
      in dict_put i
        (d\<lparr>od_events := Some (events.append_record old e),
           od_mtime := (if od_events d = None then mt else od_mtime d)\<rparr>) s)"

definition store_load_events :: "op_store \<Rightarrow> string \<Rightarrow> Event list" where
  "store_load_events s i =
     (case Option.bind (dict_get s i) od_events of None \<Rightarrow> [] | Some t \<Rightarrow> events.load_records t)"

section \<open>Reading back what was written\<close>

lemma load_save_same: "operation_wf op \<Longrightarrow> store_load (store_save mt op s) (op_ident op) = Inr op"
  by (simp add: store_load_def store_save_def Let_def operation_json_roundtrip)

lemma load_save_other: "i \<noteq> op_ident op \<Longrightarrow> store_load (store_save mt op s) i = store_load s i"
  by (simp add: store_load_def store_save_def Let_def)

interpretation ops: record_store op_ident "store_save mt" store_load operation_wf for mt
  by unfold_locales (simp_all add: load_save_same load_save_other)

text \<open>A loaded operation always has a dictionary for parameters that can be written again.\<close>

lemma loads_wf_dict: "distinct (map fst d) \<Longrightarrow> distinct (map fst (dict_put k v d))"
  using dict_wf_put by (auto simp: dict_wf_def)

lemma ensure_dir_events [simp]:
  "od_events (ensure_dir mt i s) = Option.bind (dict_get s i) od_events"
  by (simp add: ensure_dir_def split: option.split)

lemma ensure_dir_json [simp]:
  "od_json (ensure_dir mt i s) = Option.bind (dict_get s i) od_json"
  by (simp add: ensure_dir_def split: option.split)

lemma append_event_load_op [simp]: "store_load (store_append_event mt i e s) j = store_load s j"
  by (cases "j = i") (simp_all add: store_load_def store_append_event_def Let_def)

lemma save_load_events [simp]: "store_load_events (store_save mt op s) j = store_load_events s j"
  by (cases "j = op_ident op") (simp_all add: store_load_events_def store_save_def Let_def)

text \<open>The event files the program writes end in a line break.\<close>

definition events_closed :: "op_store \<Rightarrow> bool" where
  "events_closed s \<longleftrightarrow> (\<forall>i t. Option.bind (dict_get s i) od_events = Some t \<longrightarrow> line_closed t)"

lemma events_closed_Nil [simp]: "events_closed []"
  by (simp add: events_closed_def)

lemma events_closed_append [simp]: "events_closed s \<Longrightarrow> events_closed (store_append_event mt i e s)"
  by (auto simp: events_closed_def store_append_event_def Let_def)

lemma events_closed_save [simp]: "events_closed s \<Longrightarrow> events_closed (store_save mt op s)"
  by (auto simp: events_closed_def store_save_def Let_def)

lemma load_events_append:
  assumes "events_closed s" and "event_wf e"
  shows "store_load_events (store_append_event mt i e s) j =
     (if j = i then store_load_events s i @ [e] else store_load_events s j)"
proof (cases "Option.bind (dict_get s i) od_events")
  case None
  then show ?thesis
    using events.load_append[of "[]" e] assms(2)
    by (simp add: store_load_events_def store_append_event_def Let_def line_closed_def)
next
  case (Some t)
  with assms(1) have "line_closed t" by (auto simp: events_closed_def)
  with Some show ?thesis
    using events.load_append[of t e] assms(2)
    by (simp add: store_load_events_def store_append_event_def Let_def)
qed

lemma update_status_modify:
  "store_update_status mt now i st err ref s = ops.modify mt i (set_status now st err ref) s"
  by (simp add: store_update_status_def ops.modify_def Let_def)

lemma set_status_simps [simp]:
  "op_ident (set_status now st err ref op) = op_ident op"
  "op_status (set_status now st err ref op) = st"
  "op_kind (set_status now st err ref op) = op_kind op"
  "operation_wf (set_status now st err ref op) = operation_wf op"
  by (simp_all add: set_status_def operation_wf_def)

end
