(* ===== verification/Encoding.thy ===== *)
theory Encoding
  imports Prelude
begin

text \<open>
  The byte encodings of the token module (\<open>odooctl/security/tokens.py\<close>): UTF-8 and
  unpadded URL-safe base64.  \<open>a2b_base64\<close> is the standard library's lenient decoder,
  state by state (position in the group of four, bits left over, padding seen); the
  round trip \<open>b64decode (b64encode raw) = Some raw\<close> is \<open>b64_roundtrip\<close>.
\<close>

section \<open>UTF-8\<close>

definition utf8_char :: "char \<Rightarrow> string" where
  "utf8_char c = (let n = of_char c :: nat in
     if n < 128 then [c] else [char_of (192 + n div 64), char_of (128 + n mod 64)])"

definition utf8_encode :: "string \<Rightarrow> string" where
  "utf8_encode s = concat (map utf8_char s)"

definition is_ascii :: "string \<Rightarrow> bool" where
  "is_ascii s \<longleftrightarrow> list_all (\<lambda>c. (of_char c :: nat) < 128) s"

lemma utf8_ascii [simp]: "is_ascii s \<Longrightarrow> utf8_encode s = s"
  by (induction s) (simp_all add: is_ascii_def utf8_encode_def utf8_char_def)

lemma is_ascii_simps [simp]:
  "is_ascii []" "is_ascii (c # s) \<longleftrightarrow> (of_char c :: nat) < 128 \<and> is_ascii s"
  "is_ascii (s @ t) \<longleftrightarrow> is_ascii s \<and> is_ascii t"
  by (simp_all add: is_ascii_def list_all_append)

text \<open>UTF-8 keeps texts apart.\<close>

lemma utf8_char_cases:
  "((of_char c :: nat) < 128 \<and> utf8_char c = [c]) \<or>
   (128 \<le> (of_char c :: nat) \<and> utf8_char c = [char_of (192 + of_char c div 64 :: nat), char_of (128 + of_char c mod 64 :: nat)])"
  by (auto simp: utf8_char_def Let_def)

lemma utf8_char_hd:
  "(of_char (hd (utf8_char c)) :: nat) < 128 \<longleftrightarrow> (of_char c :: nat) < 128"
proof -
  have "(of_char c :: nat) < 256" by simp
  then have "192 + (of_char c :: nat) div 64 < 256" by arith
  then show ?thesis using utf8_char_cases[of c] by auto
qed

lemma utf8_char_inj_app:
  assumes "utf8_char c @ s = utf8_char d @ t"
  shows "c = d \<and> s = t"
proof -
  have "(of_char c :: nat) < 256" "(of_char d :: nat) < 256" by simp_all
  then have b: "192 + (of_char c :: nat) div 64 < 256" "192 + (of_char d :: nat) div 64 < 256"
    "128 + (of_char c :: nat) mod 64 < 256" "128 + (of_char d :: nat) mod 64 < 256"
    by arith+
  have "hd (utf8_char c) = hd (utf8_char d)"
    using assms utf8_char_cases[of c] utf8_char_cases[of d] by auto
  then have iff: "(of_char c :: nat) < 128 \<longleftrightarrow> (of_char d :: nat) < 128"
    using utf8_char_hd by metis
  show ?thesis
  proof (cases "(of_char c :: nat) < 128")
    case True
    then show ?thesis using assms iff utf8_char_cases[of c] utf8_char_cases[of d] by auto
  next
    case False
    then have e: "(char_of (192 + of_char c div 64 :: nat) :: char) = char_of (192 + of_char d div 64 :: nat)"
      "(char_of (128 + of_char c mod 64 :: nat) :: char) = char_of (128 + of_char d mod 64 :: nat)" "s = t"
      using assms iff utf8_char_cases[of c] utf8_char_cases[of d] by auto
    from e(1) b have "(of_char c :: nat) div 64 = of_char d div 64"
      by (metis add_left_cancel of_char_of_small)
    moreover from e(2) b have "(of_char c :: nat) mod 64 = of_char d mod 64"
      by (metis add_left_cancel of_char_of_small)
    ultimately have "(of_char c :: nat) = of_char d" by (metis div_mult_mod_eq)
    then show ?thesis using e(3) by simp
  qed
qed

lemma utf8_char_nonempty [simp]: "utf8_char c \<noteq> []"
  using utf8_char_cases[of c] by auto

lemma utf8_inj: "utf8_encode s = utf8_encode t \<Longrightarrow> s = t"
proof (induction s arbitrary: t)
  case Nil
  then show ?case by (cases t) (auto simp: utf8_encode_def)
next
  case (Cons c s)
  then obtain d u where t: "t = d # u" by (cases t) (auto simp: utf8_encode_def)
  with Cons.prems have "utf8_char c @ utf8_encode s = utf8_char d @ utf8_encode u"
    by (simp add: utf8_encode_def)
  from utf8_char_inj_app[OF this] Cons.IH t show ?case by simp
qed

section \<open>URL-safe base64\<close>

definition b64_char :: "nat \<Rightarrow> char" where
  "b64_char v = (if v < 26 then char_of (65 + v) else if v < 52 then char_of (71 + v)
     else if v < 62 then char_of (v - 4) else if v = 62 then CHR ''-'' else CHR ''_'')"

text \<open>The decoder's table after the translation of \<open>-\<close> and \<open>_\<close>; \<open>+\<close> and \<open>/\<close> stay in it.\<close>

definition b64_val :: "char \<Rightarrow> nat option" where
  "b64_val c = (let n = of_char c :: nat in
     if 65 \<le> n \<and> n \<le> 90 then Some (n - 65)
     else if 97 \<le> n \<and> n \<le> 122 then Some (n - 71)
     else if 48 \<le> n \<and> n \<le> 57 then Some (n + 4)
     else if c = CHR ''-'' \<or> c = CHR ''+'' then Some 62
     else if c = CHR ''_'' \<or> c = CHR ''/'' then Some 63
     else None)"

fun b64encode :: "string \<Rightarrow> string" where
  "b64encode [] = []"
| "b64encode [a] = (let x = of_char a :: nat in [b64_char (x div 4), b64_char (x mod 4 * 16)])"
| "b64encode [a, b] = (let x = of_char a :: nat; y = of_char b :: nat in
     [b64_char (x div 4), b64_char (x mod 4 * 16 + y div 16), b64_char (y mod 16 * 4)])"
| "b64encode (a # b # c # s) = (let x = of_char a :: nat; y = of_char b :: nat; z = of_char c :: nat in
     b64_char (x div 4) # b64_char (x mod 4 * 16 + y div 16) # b64_char (y mod 16 * 4 + z div 64)
       # b64_char (z mod 64) # b64encode s)"

fun a2b_base64 :: "nat \<Rightarrow> nat \<Rightarrow> nat \<Rightarrow> string \<Rightarrow> string option" where
  "a2b_base64 quad left pads [] = (if quad = 0 then Some [] else None)"
| "a2b_base64 quad left pads (c # s) =
     (if c = CHR ''='' then
        (if 2 \<le> quad \<and> 4 \<le> quad + Suc pads then Some []
         else a2b_base64 quad left (if 2 \<le> quad then Suc pads else pads) s)
      else (case b64_val c of
          None \<Rightarrow> a2b_base64 quad left pads s
        | Some v \<Rightarrow>
            if quad = 0 then a2b_base64 1 v 0 s
            else if quad = 1 then map_option ((#) (char_of (left * 4 + v div 16))) (a2b_base64 2 (v mod 16) 0 s)
            else if quad = 2 then map_option ((#) (char_of (left * 16 + v div 4))) (a2b_base64 3 (v mod 4) 0 s)
            else map_option ((#) (char_of (left * 64 + v))) (a2b_base64 0 0 0 s)))"

definition b64decode :: "string \<Rightarrow> string option" where
  "b64decode t = a2b_base64 0 0 0 (t @ replicate ((4 - length t mod 4) mod 4) (CHR ''=''))"

lemma b64_val_char [simp]: "v < 64 \<Longrightarrow> b64_val (b64_char v) = Some v"
  by (auto simp: b64_val_def b64_char_def Let_def)

lemma b64_char_plain: "b64_char v \<noteq> CHR ''='' \<and> b64_char v \<noteq> CHR ''.'' \<and> (of_char (b64_char v) :: nat) < 128"
proof -
  have "v < 26 \<or> (26 \<le> v \<and> v < 52) \<or> (52 \<le> v \<and> v < 62) \<or> v = 62 \<or> v > 62" by arith
  then have "(of_char (b64_char v) :: nat) \<noteq> 61 \<and> (of_char (b64_char v) :: nat) \<noteq> 46 \<and> (of_char (b64_char v) :: nat) < 128"
    by (elim disjE conjE) (simp_all add: b64_char_def, arith)
  then show ?thesis by auto
qed

lemma b64encode_chars: "set (b64encode s) \<subseteq> range b64_char"
  by (induction s rule: b64encode.induct) (auto simp: Let_def)

lemma b64encode_no_dot [simp]: "CHR ''.'' \<notin> set (b64encode s)"
  using b64encode_chars[of s] b64_char_plain by fastforce

lemma b64encode_ascii [simp]: "is_ascii (b64encode s)"
  using b64encode_chars[of s] b64_char_plain by (fastforce simp: is_ascii_def list_all_iff)

lemma group_div_mod: "(r::nat) < m \<Longrightarrow> (q * m + r) div m = q \<and> (q * m + r) mod m = r"
  by simp

lemma nat_group_bounds:
  fixes x y z :: nat
  assumes "x < 256" "y < 256" "z < 256"
  shows "x div 4 < 64" "x mod 4 * 16 + y div 16 < 64" "y mod 16 * 4 + z div 64 < 64" "z mod 64 < 64"
    "x mod 4 * 16 < 64" "y mod 16 * 4 < 64" "y div 16 < 16" "z div 64 < 4"
proof -
  show y: "y div 16 < 16" and z: "z div 64 < 4" and "x div 4 < 64" using assms by arith+
  have "x mod 4 < 4" "y mod 16 < 16" by simp_all
  then show "x mod 4 * 16 + y div 16 < 64" "y mod 16 * 4 + z div 64 < 64" "x mod 4 * 16 < 64" "y mod 16 * 4 < 64"
    using y z by linarith+
qed simp

lemma nat_group:
  fixes x y z :: nat
  assumes "x < 256" "y < 256" "z < 256"
  shows
    "x div 4 * 4 + (x mod 4 * 16 + y div 16) div 16 = x"
    "x div 4 * 4 + x mod 4 * 16 div 16 = x"
    "(x mod 4 * 16 + y div 16) mod 16 * 16 + (y mod 16 * 4 + z div 64) div 4 = y"
    "(x mod 4 * 16 + y div 16) mod 16 * 16 + y mod 16 * 4 div 4 = y"
    "(y mod 16 * 4 + z div 64) mod 4 * 64 + z mod 64 = z"
  using nat_group_bounds(7,8)[OF assms]
    group_div_mod[of "y div 16" 16 "x mod 4"] group_div_mod[of "z div 64" 4 "y mod 16"]
  by (simp_all only: simp_thms div_mult_mod_eq div_mult_self_is_m)

lemma a2b_value:
  "v < 64 \<Longrightarrow> a2b_base64 quad left pads (b64_char v # s) =
     (if quad = 0 then a2b_base64 1 v 0 s
      else if quad = 1 then map_option ((#) (char_of (left * 4 + v div 16))) (a2b_base64 2 (v mod 16) 0 s)
      else if quad = 2 then map_option ((#) (char_of (left * 16 + v div 4))) (a2b_base64 3 (v mod 4) 0 s)
      else map_option ((#) (char_of (left * 64 + v))) (a2b_base64 0 0 0 s))"
  using b64_char_plain[of v] by simp

lemmas group_facts = nat_group[OF nat_of_char_less_256 nat_of_char_less_256 nat_of_char_less_256]
  nat_group_bounds[OF nat_of_char_less_256 nat_of_char_less_256 nat_of_char_less_256]

lemma a2b_encode:
  "a2b_base64 0 0 0 (b64encode s @ replicate ((4 - length (b64encode s) mod 4) mod 4) (CHR ''='')) = Some s"
proof (induction s rule: b64encode.induct)
  case (2 a)
  show ?case
    by (simp add: Let_def a2b_value group_facts numeral_2_eq_2 del: a2b_base64.simps(2)) simp
next
  case (3 a b)
  show ?case by (simp add: Let_def a2b_value group_facts del: a2b_base64.simps(2)) simp
next
  case (4 a b c s)
  then show ?case by (simp add: Let_def a2b_value group_facts del: a2b_base64.simps(2))
qed simp

lemma b64_roundtrip [simp]: "b64decode (b64encode s) = Some s"
  by (simp add: b64decode_def a2b_encode)

end
