(* ===== verification/Audit_Log.thy ===== *)
theory Audit_Log
  imports Op_Models Encoding
begin

text \<open>
  \<open>odooctl/operations/audit.py\<close>: the append-only hash chain with its high-water mark.
  The digest functions are arguments: \<open>sha h m\<close> is SHA-256 and \<open>mac h k m\<close> HMAC-SHA256,
  both as hexadecimal text.  Tamper evidence is proved by reduction: two chains that verify
  with the same last hash are equal or exhibit a collision of the digest.
\<close>

record hashes =
  sha :: "string \<Rightarrow> string"
  mac :: "string \<Rightarrow> string \<Rightarrow> string"

text \<open>\<open>_resolve_key\<close>: an explicit key, else a non-empty \<open>ODOOCTL_AUDIT_KEY\<close>.\<close>

definition resolve_audit_key :: "string option \<Rightarrow> string option \<Rightarrow> string option" where
  "resolve_audit_key key env =
     (case key of Some k \<Rightarrow> Some (utf8_encode k)
      | None \<Rightarrow> (case env of None \<Rightarrow> None | Some e \<Rightarrow> if e = [] then None else Some (utf8_encode e)))"

definition digest :: "hashes \<Rightarrow> string option \<Rightarrow> string \<Rightarrow> string" where
  "digest H key m = (case key of None \<Rightarrow> sha H m | Some k \<Rightarrow> if k = [] then sha H m else mac H k m)"

definition hash_payload :: "AuditEntry \<Rightarrow> string \<Rightarrow> string" where
  "hash_payload e prev = canonical_json (JObj (dict_put ''prev_hash'' (JStr prev) (audit_dict e)))"

definition hash_entry :: "hashes \<Rightarrow> AuditEntry \<Rightarrow> string \<Rightarrow> string option \<Rightarrow> string" where
  "hash_entry H e prev key = digest H key (utf8_encode (hash_payload e prev))"

fun verify_links :: "hashes \<Rightarrow> string option \<Rightarrow> string \<Rightarrow> AuditEntry list \<Rightarrow> bool" where
  "verify_links H key prev [] = True"
| "verify_links H key prev (e # es) =
     (if au_prev_hash e \<noteq> prev then False
      else if au_current_hash e \<noteq> hash_entry H e prev key then False
      else verify_links H key (au_current_hash e) es)"

definition verify_chain :: "hashes \<Rightarrow> AuditEntry list \<Rightarrow> string option \<Rightarrow> string option \<Rightarrow> bool" where
  "verify_chain H entries key env = verify_links H (resolve_audit_key key env) [] entries"

section \<open>The store\<close>

record audit_fs =
  au_text :: "string option"
  au_hwm :: "string option"

definition audit_file_text :: "audit_fs \<Rightarrow> string" where
  "audit_file_text s = (case au_text s of None \<Rightarrow> [] | Some t \<Rightarrow> t)"

definition last_hash :: "audit_fs \<Rightarrow> string" where
  "last_hash s =
     (case rev (text_lines (audit_file_text s)) of
        [] \<Rightarrow> []
      | l # _ \<Rightarrow> (case loads l of
                   Some (JObj d) \<Rightarrow> (case dict_get d ''current_hash'' of Some (JStr h) \<Rightarrow> h | _ \<Rightarrow> [])
                 | _ \<Rightarrow> []))"

definition count_lines :: "audit_fs \<Rightarrow> int" where
  "count_lines s = int (length (text_lines (audit_file_text s)))"

definition hwm_mac :: "hashes \<Rightarrow> string option \<Rightarrow> int \<Rightarrow> string \<Rightarrow> string" where
  "hwm_mac H key count lh = digest H key (utf8_encode (int_str count @ '':'' @ lh))"

definition hwm_dict :: "hashes \<Rightarrow> string option \<Rightarrow> int \<Rightarrow> string \<Rightarrow> (string \<times> json) list" where
  "hwm_dict H key count lh =
     [(''count'', JInt count), (''last_hash'', JStr lh), (''mac'', JStr (hwm_mac H key count lh))]"

definition write_hwm :: "hashes \<Rightarrow> string option \<Rightarrow> int \<Rightarrow> string \<Rightarrow> audit_fs \<Rightarrow> audit_fs" where
  "write_hwm H key count lh s = s\<lparr>au_hwm := Some (dumps_with plain_layout (JObj (hwm_dict H key count lh)))\<rparr>"

definition read_hwm :: "audit_fs \<Rightarrow> json option" where
  "read_hwm s = Option.bind (au_hwm s) loads"

definition seal_entry :: "hashes \<Rightarrow> string option \<Rightarrow> string \<Rightarrow> AuditEntry \<Rightarrow> AuditEntry" where
  "seal_entry H key prev e =
     (let e1 = e\<lparr>au_prev_hash := prev\<rparr> in e1\<lparr>au_current_hash := hash_entry H e1 prev key\<rparr>)"

definition audit_append :: "hashes \<Rightarrow> string option \<Rightarrow> AuditEntry \<Rightarrow> audit_fs \<Rightarrow> audit_fs \<times> AuditEntry" where
  "audit_append H key entry s =
     (let prev = last_hash s;
          e = seal_entry H key prev entry;
          count = count_lines s + 1;
          s1 = s\<lparr>au_text := Some (audits.append_record (audit_file_text s) e)\<rparr>
      in (write_hwm H key count (au_current_hash e) s1, e))"

definition load_chain :: "audit_fs \<Rightarrow> AuditEntry list" where
  "load_chain s = audits.load_records (audit_file_text s)"

text \<open>\<open>hwm.get\<close> fails on a value that is no object; \<open>compare_digest\<close> on non-ASCII text.\<close>

definition audit_verify :: "hashes \<Rightarrow> string option \<Rightarrow> audit_fs \<Rightarrow> (py_error, bool) result" where
  "audit_verify H key s =
     (let entries = load_chain s in
      if \<not> verify_links H key [] entries then Inr False
      else (case read_hwm s of
              None \<Rightarrow> Inr True
            | Some JNull \<Rightarrow> Inr True
            | Some (JObj d) \<Rightarrow>
                bindE (as_int (opt_field d ''count'' (JInt 0))) (\<lambda>count.
                bindE (as_str (opt_field d ''last_hash'' (JStr []))) (\<lambda>lh.
                bindE (as_str (opt_field d ''mac'' (JStr []))) (\<lambda>m.
                  if \<not> is_ascii m \<or> \<not> is_ascii (hwm_mac H key count lh) then Inl (TypeErr ''compare_digest'')
                  else if m \<noteq> hwm_mac H key count lh then Inr False
                  else if int (length entries) < count then Inr False
                  else if 0 < count \<and> au_current_hash (entries ! nat (count - 1)) \<noteq> lh then Inr False
                  else Inr True)))
            | Some _ \<Rightarrow> Inl (AttributeErr ''get'')))"

section \<open>Appending keeps the chain verified\<close>

lemma hash_entry_ignores_links [simp]:
  "hash_entry H (e\<lparr>au_current_hash := c\<rparr>) prev key = hash_entry H e prev key"
  "hash_entry H (e\<lparr>au_prev_hash := p\<rparr>) prev key = hash_entry H e prev key"
  by (simp_all add: hash_entry_def hash_payload_def audit_dict_def dict_put_def)

lemma verify_links_append:
  "verify_links H key prev (es @ [e]) \<longleftrightarrow> verify_links H key prev es \<and>
     (let p = (if es = [] then prev else au_current_hash (last es)) in
      au_prev_hash e = p \<and> au_current_hash e = hash_entry H e p key)"
  by (induction es arbitrary: prev) auto

lemma seal_entry_links [simp]:
  "au_prev_hash (seal_entry H key prev e) = prev"
  "au_current_hash (seal_entry H key prev e) = hash_entry H (seal_entry H key prev e) prev key"
  "audit_wf (seal_entry H key prev e) = audit_wf e"
  by (simp_all add: seal_entry_def Let_def audit_wf_def)

text \<open>
  The state the store keeps: every line is a record, the chain verifies, and the
  high-water mark describes it.
\<close>

definition audit_inv :: "hashes \<Rightarrow> string option \<Rightarrow> audit_fs \<Rightarrow> bool" where
  "audit_inv H key s \<longleftrightarrow>
     line_closed (audit_file_text s) \<and>
     (\<exists>es. (\<forall>e \<in> set es. audit_wf e) \<and> text_lines (audit_file_text s) = map audit_to_json es \<and>
        verify_links H key [] es \<and>
        (if es = [] then au_hwm s = None
         else au_hwm s = Some (dumps_with plain_layout
                 (JObj (hwm_dict H key (int (length es)) (au_current_hash (last es)))))))"

definition audit_init :: audit_fs where
  "audit_init = \<lparr>au_text = None, au_hwm = None\<rparr>"

lemma audit_inv_init: "audit_inv H key audit_init"
  by (simp add: audit_inv_def audit_init_def audit_file_text_def line_closed_def)

lemma load_chain_lines:
  "(\<forall>e \<in> set es. audit_wf e) \<Longrightarrow> text_lines (audit_file_text s) = map audit_to_json es \<Longrightarrow> load_chain s = es"
  by (simp add: load_chain_def audits.load_records_def collect_all_Some audits.decode_encode)

lemma last_hash_lines:
  assumes "\<forall>e \<in> set es. audit_wf e" and "text_lines (audit_file_text s) = map audit_to_json es"
  shows "last_hash s = (if es = [] then [] else au_current_hash (last es))"
proof (cases es rule: rev_cases)
  case Nil
  with assms show ?thesis by (simp add: last_hash_def)
next
  case (snoc es' e)
  with assms have "loads (audit_to_json e) = Some (JObj (audit_dict e @ [(''current_hash'', JStr (au_current_hash e))]))"
    by (intro audit_json_value) simp
  with assms snoc show ?thesis by (simp add: last_hash_def audit_dict_def)
qed

lemma audit_inv_append:
  assumes inv: "audit_inv H key s" and wf: "audit_wf e"
  shows "audit_inv H key (fst (audit_append H key e s))"
    and "load_chain (fst (audit_append H key e s)) = load_chain s @ [snd (audit_append H key e s)]"
proof -
  obtain es where es: "\<forall>e \<in> set es. audit_wf e" "text_lines (audit_file_text s) = map audit_to_json es"
    "verify_links H key [] es" and closed: "line_closed (audit_file_text s)"
    using inv by (auto simp: audit_inv_def)
  let ?e = "seal_entry H key (last_hash s) e"
  let ?s = "fst (audit_append H key e s)"
  have body: "audit_file_text ?s = audits.append_record (audit_file_text s) ?e"
    by (simp add: audit_append_def Let_def write_hwm_def audit_file_text_def)
  then have lines: "text_lines (audit_file_text ?s) = map audit_to_json (es @ [?e])"
    using audits.text_lines_append_record[OF closed, of ?e] es wf by simp
  have links: "verify_links H key [] (es @ [?e])"
    using es last_hash_lines[OF es(1,2)] by (simp add: verify_links_append Let_def)
  have "count_lines s + 1 = int (length (es @ [?e]))" by (simp add: count_lines_def es)
  then have "au_hwm ?s = Some (dumps_with plain_layout
      (JObj (hwm_dict H key (int (length (es @ [?e]))) (au_current_hash (last (es @ [?e]))))))"
    by (simp add: audit_append_def Let_def write_hwm_def add.commute)
  then show "audit_inv H key ?s"
    unfolding audit_inv_def using lines links body es(1) wf
    by (auto intro!: exI[of _ "es @ [?e]"])
  show "load_chain ?s = load_chain s @ [snd (audit_append H key e s)]"
    using load_chain_lines[OF es(1,2)] load_chain_lines[of "es @ [?e]" ?s] lines es(1) wf
    by (simp add: audit_append_def Let_def)
qed

text \<open>Digests are ASCII text, which the comparison needs.\<close>

definition ascii_digest :: "hashes \<Rightarrow> string option \<Rightarrow> bool" where
  "ascii_digest H key \<longleftrightarrow> (\<forall>m. is_ascii (digest H key m))"

lemma wf_hwm_dict [simp]: "wf_json (JObj (hwm_dict H key c lh))"
  by (simp add: hwm_dict_def)

lemma hwm_dict_fields [simp]:
  "as_int (opt_field (hwm_dict H key c lh) ''count'' x) = Inr c"
  "as_str (opt_field (hwm_dict H key c lh) ''last_hash'' y) = Inr lh"
  "as_str (opt_field (hwm_dict H key c lh) ''mac'' z) = Inr (hwm_mac H key c lh)"
  by (simp_all add: hwm_dict_def opt_field_def)

lemma verify_with_hwm:
  assumes "ascii_digest H key"
    and "au_hwm s = Some (dumps_with plain_layout (JObj (hwm_dict H key c lh)))"
  shows "audit_verify H key s = Inr (verify_links H key [] (load_chain s) \<and> c \<le> int (length (load_chain s)) \<and>
     (0 < c \<longrightarrow> au_current_hash (load_chain s ! nat (c - 1)) = lh))"
proof -
  have "read_hwm s = Some (JObj (hwm_dict H key c lh))"
    using assms(2) by (simp add: read_hwm_def loads_dumps del: wf_json.simps)
  moreover have "is_ascii (hwm_mac H key c lh)" using assms(1) by (simp add: ascii_digest_def hwm_mac_def)
  ultimately show ?thesis by (auto simp: audit_verify_def Let_def)
qed

lemma audit_inv_verify:
  assumes "ascii_digest H key" and inv: "audit_inv H key s"
  shows "audit_verify H key s = Inr True"
proof -
  obtain es where es: "\<forall>e \<in> set es. audit_wf e" "text_lines (audit_file_text s) = map audit_to_json es"
    "verify_links H key [] es"
    "if es = [] then au_hwm s = None else au_hwm s = Some (dumps_with plain_layout
                 (JObj (hwm_dict H key (int (length es)) (au_current_hash (last es)))))"
    using inv by (auto simp: audit_inv_def)
  have chain: "load_chain s = es" by (rule load_chain_lines[OF es(1,2)])
  show ?thesis
  proof (cases "es = []")
    case True
    with es(4) chain show ?thesis by (simp add: audit_verify_def Let_def read_hwm_def)
  next
    case False
    with es(4) have "au_hwm s = Some (dumps_with plain_layout
        (JObj (hwm_dict H key (int (length es)) (au_current_hash (last es)))))" by simp
    moreover have "nat (int (length es) - 1) = length es - Suc 0" by arith
    ultimately show ?thesis using verify_with_hwm[OF assms(1)] es(3) chain False
      by (simp add: last_conv_nth)
  qed
qed

section \<open>Tampering\<close>

definition digest_collision :: "hashes \<Rightarrow> string option \<Rightarrow> bool" where
  "digest_collision H key \<longleftrightarrow> (\<exists>m m'. m \<noteq> m' \<and> digest H key m = digest H key m')"

text \<open>What the hash of an entry covers: every field but the link to the predecessor,
  with the parameters up to the order of dictionary keys.\<close>

definition same_content :: "AuditEntry \<Rightarrow> AuditEntry \<Rightarrow> bool" where
  "same_content e f \<longleftrightarrow>
     au_actor e = au_actor f \<and> au_action e = au_action f \<and> au_target e = au_target f \<and>
     sort_json (au_params_redacted e) = sort_json (au_params_redacted f) \<and>
     au_outcome e = au_outcome f \<and> au_op_id e = au_op_id f \<and> au_timestamp e = au_timestamp f \<and>
     au_prev_hash e = au_prev_hash f \<and> au_current_hash e = au_current_hash f"

lemma dict_get_sort_map:
  "dict_wf d \<Longrightarrow> dict_get (sort_key fst (map (\<lambda>(k, v). (k, f v)) d)) k = map_option f (dict_get d k)"
proof -
  assume wf: "dict_wf d"
  let ?m = "map (\<lambda>(k, v). (k, f v)) d"
  have wfm: "dict_wf ?m" using wf by (simp add: dict_wf_def case_prod_beta o_def)
  then have wfs: "dict_wf (sort_key fst ?m)" by (simp add: dict_wf_def distinct_map_sort)
  have "dict_get (sort_key fst ?m) k = Some v \<longleftrightarrow> dict_get ?m k = Some v" for v
    using dict_get_iff_mem[OF wfm] dict_get_iff_mem[OF wfs] by simp
  then have "dict_get (sort_key fst ?m) k = dict_get ?m k" by (metis not_None_eq)
  also have "\<dots> = map_option f (dict_get d k)" by (induction d) auto
  finally show ?thesis .
qed

lemma hash_payload_dict: "dict_put ''prev_hash'' (JStr p) (audit_dict e) = audit_dict (e\<lparr>au_prev_hash := p\<rparr>)"
  by (simp add: audit_dict_def dict_put_def)

lemma dict_wf_audit [simp]: "dict_wf (audit_dict e)"
  by (simp add: dict_wf_def audit_dict_def)

lemma hash_payload_inj:
  assumes wf: "audit_wf e" "audit_wf f" and eq: "hash_payload e p = hash_payload f q"
  shows "p = q \<and> au_actor e = au_actor f \<and> au_action e = au_action f \<and> au_target e = au_target f \<and>
     sort_json (au_params_redacted e) = sort_json (au_params_redacted f) \<and>
     au_outcome e = au_outcome f \<and> au_op_id e = au_op_id f \<and> au_timestamp e = au_timestamp f"
proof -
  let ?d = "audit_dict (e\<lparr>au_prev_hash := p\<rparr>)" and ?d' = "audit_dict (f\<lparr>au_prev_hash := q\<rparr>)"
  have "wf_json (JObj ?d)" "wf_json (JObj ?d')" using wf by (simp_all add: audit_dict_def audit_wf_def)
  with eq have "sort_json (JObj ?d) = sort_json (JObj ?d')"
    by (intro canonical_inj) (simp_all add: hash_payload_def hash_payload_dict del: wf_json.simps)
  then have "sort_key fst (map (\<lambda>(k, v). (k, sort_json v)) ?d) = sort_key fst (map (\<lambda>(k, v). (k, sort_json v)) ?d')"
    by simp
  then have "map_option sort_json (dict_get ?d k) = map_option sort_json (dict_get ?d' k)" for k
    using dict_get_sort_map[OF dict_wf_audit] by metis
  from this[of "''prev_hash''"] this[of "''actor''"] this[of "''action''"] this[of "''target''"]
    this[of "''params_redacted''"] this[of "''outcome''"] this[of "''op_id''"] this[of "''timestamp''"]
  show ?thesis by (simp add: audit_dict_def)
qed

lemma hash_entry_eq:
  assumes "audit_wf e" "audit_wf f" and "hash_entry H e p key = hash_entry H f q key"
    and "\<not> digest_collision H key"
  shows "hash_payload e p = hash_payload f q"
  using assms(3,4) utf8_inj unfolding hash_entry_def digest_collision_def by blast

text \<open>Two verified chains with one last hash have the same content, newest entry first.\<close>

lemma chains_agree:
  assumes "verify_links H key [] es" "verify_links H key [] fs"
    and "\<forall>e \<in> set es. audit_wf e" "\<forall>f \<in> set fs. audit_wf f"
    and "es \<noteq> []" "fs \<noteq> []" "au_current_hash (last es) = au_current_hash (last fs)"
    and "\<not> digest_collision H key" and nonempty: "\<forall>m. digest H key m \<noteq> []"
  shows "list_all2 same_content es fs"
  using assms(1-7)
proof (induction es arbitrary: fs rule: rev_induct)
  case (snoc e es)
  obtain fs' f where fs: "fs = fs' @ [f]" using snoc.prems(6) by (cases fs rule: rev_cases) auto
  let ?p = "if es = [] then [] else au_current_hash (last es)"
  let ?q = "if fs' = [] then [] else au_current_hash (last fs')"
  have e: "verify_links H key [] es" "au_prev_hash e = ?p" "au_current_hash e = hash_entry H e ?p key"
    using snoc.prems(1) by (simp_all add: verify_links_append Let_def)
  have f: "verify_links H key [] fs'" "au_prev_hash f = ?q" "au_current_hash f = hash_entry H f ?q key"
    using snoc.prems(2) by (simp_all add: fs verify_links_append Let_def)
  have cur: "au_current_hash e = au_current_hash f" using snoc.prems(7) by (simp add: fs)
  have wf: "audit_wf e" "audit_wf f" using snoc.prems(3,4) by (simp_all add: fs)
  have "hash_payload e ?p = hash_payload f ?q"
    by (rule hash_entry_eq[OF wf _ assms(8)]) (use cur e(3) f(3) in simp)
  from hash_payload_inj[OF wf this] have pq: "?p = ?q" and "same_content e f"
    using cur e(2) f(2) by (simp_all add: same_content_def)
  have ne: "au_current_hash x \<noteq> []" if "verify_links H key [] xs" "xs \<noteq> []" "x = last xs" for x xs
    using that nonempty by (cases xs rule: rev_cases)
      (simp_all add: verify_links_append Let_def hash_entry_def)
  show ?case
  proof (cases "es = []")
    case True
    with pq ne[OF f(1)] have "fs' = []" by (auto split: if_splits)
    with True \<open>same_content e f\<close> show ?thesis by (simp add: fs)
  next
    case False
    with pq ne[OF e(1)] have "fs' \<noteq> []" by (auto split: if_splits)
    with False pq have "au_current_hash (last es) = au_current_hash (last fs')" by simp
    with snoc.IH[of fs'] e f snoc.prems False \<open>fs' \<noteq> []\<close> have "list_all2 same_content es fs'"
      by (simp add: fs)
    with \<open>same_content e f\<close> show ?thesis by (simp add: fs list_all2_appendI)
  qed
qed simp

end
