(* ===== verification/Py_Text.thy ===== *)
theory Py_Text
  imports Py_Json
begin

text \<open>
  \<open>str(x)\<close> and \<open>repr(x)\<close> of the values \<open>json.loads\<close> returns, for messages and for keys
  that are coerced to text.
\<close>

definition hex_escape :: "nat \<Rightarrow> string" where
  "hex_escape n = [CHR 0x5C, CHR ''x'', hex_char (n div 16), hex_char (n mod 16)]"

definition repr_char :: "char \<Rightarrow> char \<Rightarrow> string" where
  "repr_char q c =
     (let n = of_char c :: nat in
      if c = q \<or> n = 92 then [CHR 0x5C, c]
      else if n = 9 then [CHR 0x5C, CHR ''t'']
      else if n = 10 then [CHR 0x5C, CHR ''n'']
      else if n = 13 then [CHR 0x5C, CHR ''r'']
      else if n < 32 \<or> (127 \<le> n \<and> n \<le> 160) \<or> n = 173 then hex_escape n
      else [c])"

definition repr_str :: "string \<Rightarrow> string" where
  "repr_str s =
     (let q = (if squote \<in> set s \<and> CHR 0x22 \<notin> set s then CHR 0x22 else squote)
      in q # concat (map (repr_char q) s) @ [q])"

fun repr_json :: "json \<Rightarrow> string" where
  "repr_json JNull = ''None''"
| "repr_json (JBool b) = (if b then ''True'' else ''False'')"
| "repr_json (JInt i) = int_str i"
| "repr_json (JStr s) = repr_str s"
| "repr_json (JList xs) = ''['' @ join_with '', '' (map repr_json xs) @ '']''"
| "repr_json (JObj kvs) = ''{'' @ join_with '', '' (map (\<lambda>(k, v). repr_str k @ '': '' @ repr_json v) kvs) @ ''}''"

definition str_json :: "json \<Rightarrow> string" where
  "str_json j = (case j of JStr s \<Rightarrow> s | _ \<Rightarrow> repr_json j)"

lemma str_json_JStr [simp]: "str_json (JStr s) = s"
  by (simp add: str_json_def)

text \<open>\<open>bool(x)\<close>.\<close>

fun truthy :: "json \<Rightarrow> bool" where
  "truthy JNull = False"
| "truthy (JBool b) = b"
| "truthy (JInt i) = (i \<noteq> 0)"
| "truthy (JStr s) = (s \<noteq> [])"
| "truthy (JList xs) = (xs \<noteq> [])"
| "truthy (JObj kvs) = (kvs \<noteq> [])"

text \<open>\<open>int(v)\<close> on a JSON value; of texts, the notation \<open>str(i)\<close> writes, with white space around it.\<close>

definition py_int :: "json \<Rightarrow> int option" where
  "py_int j = (case j of
      JInt i \<Rightarrow> Some i
    | JBool b \<Rightarrow> Some (if b then 1 else 0)
    | JStr s \<Rightarrow> (case parse_int (py_strip s) of Some (i, []) \<Rightarrow> Some i | _ \<Rightarrow> None)
    | _ \<Rightarrow> None)"

text \<open>Iterating over a value: a text gives its characters, a dictionary its keys.\<close>

definition json_iter :: "json \<Rightarrow> json list option" where
  "json_iter j = (case j of
      JList xs \<Rightarrow> Some xs
    | JStr s \<Rightarrow> Some (map (\<lambda>c. JStr [c]) s)
    | JObj kvs \<Rightarrow> Some (map (\<lambda>(k, _). JStr k) kvs)
    | _ \<Rightarrow> None)"

text \<open>The text of \<open>bytes.hex()\<close> and its inverse.\<close>

definition hex_text :: "string \<Rightarrow> string" where
  "hex_text b = concat (map (\<lambda>c. let n = of_char c :: nat in [hex_char (n div 16), hex_char (n mod 16)]) b)"

fun from_hex :: "string \<Rightarrow> string option" where
  "from_hex [] = Some []"
| "from_hex (a # b # s) =
     (case (hex_val a, hex_val b, from_hex s) of
        (Some x, Some y, Some r) \<Rightarrow> Some (char_of (16 * x + y) # r)
      | _ \<Rightarrow> None)"
| "from_hex [a] = None"

lemma from_hex_text [simp]: "from_hex (hex_text b) = Some b"
proof (induction b)
  case (Cons c b)
  have "(of_char c :: nat) < 256" by simp
  then have "of_char c div 16 < (16::nat)" "of_char c mod 16 < (16::nat)" by (linarith, simp)
  with Cons show ?case by (simp add: hex_text_def Let_def)
qed (simp add: hex_text_def)

lemma hex_char_plain: "d < 16 \<Longrightarrow> hex_char d \<noteq> CHR 0x24"
proof
  assume "d < 16" "hex_char d = CHR 0x24"
  moreover have "hex_val (CHR 0x24) = None" by (simp add: hex_val_def)
  ultimately show False using hex_val_char[of d] by simp
qed

end
