(* ===== verification/Env_Locks.thy ===== *)
theory Env_Locks
  imports Op_Models Py_Text
begin

text \<open>
  \<open>odooctl/operations/locks.py\<close>: the per-environment lock file.  The first part is the lock
  as one thread runs it, on the texts of the lock files and the thread's set of held paths;
  the second part interleaves the system calls of several processes on one lock file.
\<close>

section \<open>One thread\<close>

text \<open>The environment names the path \<open>locks/{environment}.lock\<close>.\<close>

type_synonym lock_files = "(string, string) dict"

record thread =
  th_pid :: int
  th_held :: "string set"

record env_lock =
  el_env :: string
  el_op_id :: string
  el_reentrant :: bool

datatype lock_error = LockAcquisitionError string | LockOSError

text \<open>The outcomes of \<open>os.kill(pid, 0)\<close>.\<close>

datatype kill_result = KillOk | KillNoProcess | KillNoPermission | KillOther

definition new_lock :: "string \<Rightarrow> string \<Rightarrow> env_lock" where
  "new_lock env op_id = \<lparr>el_env = env, el_op_id = op_id, el_reentrant = False\<rparr>"

definition lock_payload :: "int \<Rightarrow> string \<Rightarrow> string" where
  "lock_payload pid op_id = dumps_with plain_layout (JObj [(''pid'', JInt pid), (''op_id'', JStr op_id)])"

definition read_lock :: "string \<Rightarrow> (int \<times> json) option" where
  "read_lock t = (case loads t of
      Some (JObj d) \<Rightarrow> map_option (\<lambda>pid. (pid, opt_field d ''op_id'' (JStr []))) (py_int (opt_field d ''pid'' (JInt 0)))
    | _ \<Rightarrow> None)"

text \<open>\<open>_handle_existing\<close> followed by the retry of \<open>_try_create\<close>; \<open>kill\<close> is the system call.\<close>

definition try_create ::
  "(int \<Rightarrow> kill_result) \<Rightarrow> int \<Rightarrow> env_lock \<Rightarrow> lock_files \<Rightarrow> (lock_error, lock_files) result" where
  "try_create kill pid l files =
     (let env = el_env l; payload = lock_payload pid (el_op_id l);
          locked = (\<lambda>why. LockAcquisitionError (''Environment '' @ quoted env @ '' is locked '' @ why)) in
      case dict_get files env of
        None \<Rightarrow> Inr (dict_put env payload files)
      | Some t \<Rightarrow>
          (case read_lock t of
             None \<Rightarrow> Inl (locked ''(unreadable lock file)'')
           | Some (owner, op_id) \<Rightarrow>
               (case kill owner of
                  KillNoProcess \<Rightarrow>
                    (let files' = dict_del env files in
                     case dict_get files' env of
                       None \<Rightarrow> Inr (dict_put env payload files')
                     | Some _ \<Rightarrow> Inl (locked ''(race on stale lock removal)''))
                | KillOther \<Rightarrow> Inl LockOSError
                | _ \<Rightarrow> Inl (locked (''by operation '' @ repr_json op_id @ '' (PID '' @ int_str owner @ '')'')))))"

definition lock_enter ::
  "(int \<Rightarrow> kill_result) \<Rightarrow> env_lock \<Rightarrow> thread \<times> lock_files
   \<Rightarrow> (lock_error, env_lock \<times> thread \<times> lock_files) result" where
  "lock_enter kill l s =
     (case s of (th, files) \<Rightarrow>
       if el_env l \<in> th_held th then Inr (l\<lparr>el_reentrant := True\<rparr>, th, files)
       else bindE (try_create kill (th_pid th) l files) (\<lambda>files'.
              Inr (l, th\<lparr>th_held := insert (el_env l) (th_held th)\<rparr>, files')))"

definition lock_exit :: "env_lock \<Rightarrow> thread \<times> lock_files \<Rightarrow> thread \<times> lock_files" where
  "lock_exit l s =
     (case s of (th, files) \<Rightarrow>
       if el_reentrant l then (th, files)
       else (th\<lparr>th_held := th_held th - {el_env l}\<rparr>, dict_del (el_env l) files))"

lemma read_lock_payload [simp]: "read_lock (lock_payload pid op_id) = Some (pid, JStr op_id)"
proof -
  have "loads (lock_payload pid op_id) = Some (JObj [(''pid'', JInt pid), (''op_id'', JStr op_id)])"
    unfolding lock_payload_def by (rule loads_dumps) simp_all
  then show ?thesis by (simp add: read_lock_def opt_field_def py_int_def)
qed

text \<open>A lock file whose owner answers stops every other thread and stays as it is.\<close>

lemma try_create_blocked:
  assumes "dict_get files (el_env l) = Some (lock_payload owner op_id)"
    and "kill owner = KillOk \<or> kill owner = KillNoPermission"
  shows "\<exists>m. try_create kill pid l files = Inl (LockAcquisitionError m)"
  using assms by (auto simp: try_create_def Let_def)

lemma try_create_owner:
  assumes "try_create kill pid l files = Inr files'"
  shows "dict_get files' (el_env l) = Some (lock_payload pid (el_op_id l))"
    and "env \<noteq> el_env l \<Longrightarrow> dict_get files' env = dict_get files env"
  using assms by (auto simp: try_create_def Let_def split: option.splits prod.splits kill_result.splits)

lemma enter_other_env:
  "lock_enter kill l (th, files) = Inr (l', th', files') \<Longrightarrow> env \<noteq> el_env l \<Longrightarrow>
   dict_get files' env = dict_get files env \<and> (env \<in> th_held th' \<longleftrightarrow> env \<in> th_held th)"
  using try_create_owner(2)
  by (auto simp: lock_enter_def bindE_eq_Inr_iff split: if_splits)

lemma dict_del_put_fresh: "dict_get files k = None \<Longrightarrow> dict_del k (dict_put k v files) = files"
proof -
  assume "dict_get files k = None"
  then have k: "k \<notin> fst ` set files" by (simp add: dict_get_None_iff)
  then have "filter (\<lambda>(k', _). k' \<noteq> k) files = files" by (force simp: filter_id_conv)
  with k show ?thesis by (simp add: dict_put_fresh dict_del_def)
qed

text \<open>Entering a free lock, or one this thread already holds, and leaving it changes nothing;
  inside, the file of a fresh entry names this process and the operation.\<close>

lemma enter_exit_restores:
  assumes "el_env l \<in> th_held th \<or> dict_get files (el_env l) = None" and "\<not> el_reentrant l"
  obtains l' th' files' where "lock_enter kill l (th, files) = Inr (l', th', files')"
    "lock_exit l' (th', files') = (th, files)" "el_env l \<in> th_held th'"
    "el_env l \<notin> th_held th \<Longrightarrow> dict_get files' (el_env l) = Some (lock_payload (th_pid th) (el_op_id l))"
proof (cases "el_env l \<in> th_held th")
  case True
  then show ?thesis by (intro that[of "l\<lparr>el_reentrant := True\<rparr>" th files]) (simp_all add: lock_enter_def lock_exit_def)
next
  case False
  with assms(1) have free: "dict_get files (el_env l) = None" by simp
  let ?files = "dict_put (el_env l) (lock_payload (th_pid th) (el_op_id l)) files"
  have "try_create kill (th_pid th) l files = Inr ?files" by (simp add: try_create_def free Let_def)
  with False assms(2) free show ?thesis
    by (intro that[of l "th\<lparr>th_held := insert (el_env l) (th_held th)\<rparr>" ?files])
      (simp_all add: lock_enter_def lock_exit_def dict_del_put_fresh insert_Diff_if)
qed

section \<open>Several processes\<close>

text \<open>
  The system calls of \<open>__enter__\<close> and \<open>__exit__\<close> as steps of a process on one lock file:
  the exclusive create, the write of the payload, the read of an existing file, the
  \<open>kill\<close>, the unlink of a stale file, the unlink at release.  A process may die at any
  point and leaves the file behind.  \<open>LCreate r\<close> is \<open>_try_create(retried=r)\<close>.
\<close>

datatype lock_pc = LIdle | LCreate bool | LWrite | LRead | LKill nat | LUnlink | LHeld | LFailed | LDead

datatype lock_file = NoFile | EmptyFile | OwnedBy nat

record lock_sys =
  lpc :: "nat \<Rightarrow> lock_pc"
  lfile :: lock_file

datatype lock_event = Step nat | Release nat | Crash nat

definition lock_init :: lock_sys where
  "lock_init = \<lparr>lpc = (\<lambda>_. LIdle), lfile = NoFile\<rparr>"

definition goto :: "nat \<Rightarrow> lock_pc \<Rightarrow> lock_sys \<Rightarrow> lock_sys" where
  "goto p c s = s\<lparr>lpc := (lpc s)(p := c)\<rparr>"

fun lock_move :: "lock_event \<Rightarrow> lock_sys \<Rightarrow> lock_sys option" where
  "lock_move (Step p) s =
     (case lpc s p of
        LIdle \<Rightarrow> Some (goto p (LCreate False) s)
      | LCreate retried \<Rightarrow>
          (if lfile s = NoFile then Some ((goto p LWrite s)\<lparr>lfile := EmptyFile\<rparr>)
           else if retried then Some (goto p LFailed s)
           else Some (goto p LRead s))
      | LWrite \<Rightarrow> Some ((goto p LHeld s)\<lparr>lfile := (if lfile s = EmptyFile then OwnedBy p else lfile s)\<rparr>)
      | LRead \<Rightarrow>
          (case lfile s of
             OwnedBy q \<Rightarrow> Some (goto p (LKill q) s)
           | _ \<Rightarrow> Some (goto p LFailed s))
      | LKill q \<Rightarrow> Some (goto p (if lpc s q = LDead then LUnlink else LFailed) s)
      | LUnlink \<Rightarrow> Some ((goto p (LCreate True) s)\<lparr>lfile := NoFile\<rparr>)
      | _ \<Rightarrow> None)"
| "lock_move (Release p) s =
     (if lpc s p = LHeld then Some ((goto p LIdle s)\<lparr>lfile := NoFile\<rparr>) else None)"
| "lock_move (Crash p) s = (if lpc s p = LDead then None else Some (goto p LDead s))"

fun lock_run :: "lock_event list \<Rightarrow> lock_sys \<Rightarrow> lock_sys option" where
  "lock_run [] s = Some s"
| "lock_run (e # es) s = Option.bind (lock_move e s) (lock_run es)"

definition no_crash :: "lock_event list \<Rightarrow> bool" where
  "no_crash es \<longleftrightarrow> (\<forall>e \<in> set es. \<forall>p. e \<noteq> Crash p)"

definition lock_excl :: "lock_sys \<Rightarrow> bool" where
  "lock_excl s \<longleftrightarrow> (\<forall>p q. lpc s p = LHeld \<longrightarrow> lpc s q = LHeld \<longrightarrow> p = q)"

text \<open>
  While nobody dies, the file tells who is inside: nobody, the process that has created it
  and not written it yet, or the holder; and no process is about to unlink a stale file.
\<close>

definition lock_owner :: "lock_sys \<Rightarrow> bool" where
  "lock_owner s \<longleftrightarrow>
     (\<forall>p. lpc s p \<noteq> LDead \<and> lpc s p \<noteq> LUnlink \<and> lpc s p \<noteq> LCreate True) \<and>
     (\<forall>p. lpc s p = LHeld \<longrightarrow> lfile s = OwnedBy p) \<and>
     (\<forall>p. lpc s p = LWrite \<longrightarrow> lfile s = EmptyFile) \<and>
     (\<forall>p q. lpc s p = LWrite \<longrightarrow> lpc s q = LWrite \<longrightarrow> p = q)"

lemma lock_owner_init: "lock_owner lock_init"
  by (simp add: lock_owner_def lock_init_def)

lemma lock_owner_step:
  assumes inv: "lock_owner s" and m: "lock_move e s = Some t" and nc: "\<forall>p. e \<noteq> Crash p"
  shows "lock_owner t"
proof (cases e)
  case (Step p)
  have pc: "lpc s p \<noteq> LDead" "lpc s p \<noteq> LUnlink" "lpc s p \<noteq> LCreate True"
    using inv by (auto simp: lock_owner_def)
  note d = lock_owner_def goto_def
  show ?thesis
  proof (cases "lpc s p")
    case LIdle
    with Step m inv show ?thesis by (auto simp: d split: if_splits lock_file.splits)
  next
    case (LCreate r)
    with pc have "\<not> r" by auto
    with LCreate Step m inv show ?thesis by (auto simp: d split: if_splits lock_file.splits)
  next
    case LWrite
    with Step m inv show ?thesis by (auto simp: d split: if_splits lock_file.splits)
  next
    case LRead
    with Step m inv show ?thesis by (auto simp: d split: if_splits lock_file.splits)
  next
    case (LKill q)
    with Step m inv show ?thesis by (auto simp: d split: if_splits lock_file.splits)
  qed (use Step m pc in auto)
next
  case (Release p)
  with m inv show ?thesis by (auto simp: lock_owner_def goto_def split: if_splits) (metis lock_file.inject)
qed (use nc in simp)

lemma lock_owner_run:
  "lock_owner s \<Longrightarrow> no_crash es \<Longrightarrow> lock_run es s = Some t \<Longrightarrow> lock_owner t"
proof (induction es arbitrary: s)
  case (Cons e es)
  then obtain u where u: "lock_move e s = Some u" "lock_run es u = Some t"
    by (auto simp: bind_eq_Some_conv)
  with Cons show ?case using lock_owner_step[of s e u] by (auto simp: no_crash_def)
qed simp

lemma lock_owner_excl: "lock_owner s \<Longrightarrow> lock_excl s"
  unfolding lock_owner_def lock_excl_def by (metis lock_file.inject)

end
