(* ===== verification/Redaction.thy ===== *)
theory Redaction
  imports Py_Json
begin

text \<open>
  Secret masking: \<open>redact\<close> of \<open>odooctl/utils/shell.py\<close> (environment values in command
  output and error texts) and \<open>odooctl/security/redaction.py\<close> (interpolation defaults and
  values under secret-looking keys in request parameters).
\<close>

section \<open>\<open>str.replace\<close>\<close>

text \<open>Only non-empty texts are ever replaced.\<close>

function replace_all :: "string \<Rightarrow> string \<Rightarrow> string \<Rightarrow> string" where
  "replace_all old new s =
     (if old = [] then s
      else (case s of [] \<Rightarrow> []
            | c # cs \<Rightarrow> if starts_with old s then new @ replace_all old new (drop (length old) s)
                        else c # replace_all old new cs))"
  by pat_completeness auto
termination
  by (relation "measure (\<lambda>(old, new, s). length s)") (auto simp: length_greater_0_conv[symmetric] simp del: length_greater_0_conv)

declare replace_all.simps [simp del]

lemma replace_all_Nil [simp]: "replace_all old new [] = []"
  by (simp add: replace_all.simps)

lemma replace_all_match:
  assumes "old \<noteq> []" and "starts_with old s"
  shows "replace_all old new s = new @ replace_all old new (drop (length old) s)"
proof -
  obtain c cs where "s = c # cs" using assms by (cases s) (auto simp: starts_with_def)
  with assms show ?thesis by (subst replace_all.simps) simp
qed

lemma replace_all_skip:
  assumes "\<not> starts_with old (c # cs)"
  shows "replace_all old new (c # cs) = c # replace_all old new cs"
proof -
  have "old \<noteq> []" using assms by (auto simp: starts_with_def)
  with assms show ?thesis by (subst replace_all.simps) simp
qed

lemma replace_all_induct [consumes 1, case_names Nil Match Skip]:
  assumes ne: "old \<noteq> []" and "P []"
    and match: "\<And>s. s \<noteq> [] \<Longrightarrow> starts_with old s \<Longrightarrow> P (drop (length old) s) \<Longrightarrow> P s"
    and skip: "\<And>c cs. \<not> starts_with old (c # cs) \<Longrightarrow> P cs \<Longrightarrow> P (c # cs)"
  shows "P s"
proof (induction "length s" arbitrary: s rule: less_induct)
  case less
  show ?case
  proof (cases s)
    case Nil
    with assms(2) show ?thesis by simp
  next
    case (Cons c cs)
    show ?thesis
    proof (cases "starts_with old s")
      case True
      have "length (drop (length old) s) < length s" using ne Cons by (cases old) simp_all
      from less[OF this] True Cons show ?thesis using match[of s] by simp
    next
      case False
      have "length cs < length s" by (simp add: Cons)
      from less[OF this] False show ?thesis unfolding Cons by (rule skip[rotated])
    qed
  qed
qed

lemma starts_with_Nil [simp]: "starts_with [] s"
  by (simp add: starts_with_def)

lemma starts_with_Cons [simp]: "starts_with (b # p) (c # s) \<longleftrightarrow> b = c \<and> starts_with p s"
  by (auto simp: starts_with_def)

lemma starts_with_empty [simp]: "starts_with p [] \<longleftrightarrow> p = []"
  by (cases p) (simp_all add: starts_with_def)

lemma contains_drop: "contains_str b (drop n s) \<Longrightarrow> b \<noteq> [] \<Longrightarrow> contains_str b s"
proof (induction n arbitrary: s)
  case (Suc n)
  then show ?case by (cases s) auto
qed simp

section \<open>Environment values\<close>

text \<open>Code points below 256 whose upper case stays below 256; \<open>ss\<close> for the sharp s.\<close>

definition upper_char :: "char \<Rightarrow> string" where
  "upper_char c = (let n = of_char c :: nat in
     if (97 \<le> n \<and> n \<le> 122) \<or> (224 \<le> n \<and> n \<le> 254 \<and> n \<noteq> 247) then [char_of (n - 32)]
     else if n = 223 then ''SS'' else [c])"

definition py_upper :: "string \<Rightarrow> string" where
  "py_upper s = concat (map upper_char s)"

definition SENSITIVE_MARKERS :: "string list" where
  "SENSITIVE_MARKERS = [''PASSWORD'', ''SECRET'', ''TOKEN'', ''KEY'', ''PASSWD'']"

definition REDACTION_MIN_LENGTH :: nat where "REDACTION_MIN_LENGTH = 6"

definition REDACTION_IGNORE :: "string list" where
  "REDACTION_IGNORE = [''odoo'', ''admin'', ''postgres'', ''password'', ''secret'', ''changeme'']"

definition SHELL_PLACEHOLDER :: string where "SHELL_PLACEHOLDER = ''***REDACTED***''"

definition is_sensitive :: "string \<Rightarrow> string \<Rightarrow> bool" where
  "is_sensitive k v \<longleftrightarrow> v \<noteq> [] \<and> (\<exists>m \<in> set SENSITIVE_MARKERS. contains_str m (py_upper k)) \<and>
     \<not> length v < REDACTION_MIN_LENGTH \<and> v \<notin> set REDACTION_IGNORE"

fun shell_redact :: "(string \<times> string) list \<Rightarrow> string \<Rightarrow> string" where
  "shell_redact [] t = t"
| "shell_redact ((k, v) # env) t =
     shell_redact env (if is_sensitive k v then replace_all v SHELL_PLACEHOLDER t else t)"

text \<open>
  The placeholder begins and ends with \<open>*\<close>, so a value without \<open>*\<close> that occurs after a
  replacement occurred before it, unless it is part of the word between the stars.
\<close>

definition star_free :: "string \<Rightarrow> bool" where
  "star_free b \<longleftrightarrow> b \<noteq> [] \<and> CHR ''*'' \<notin> set b \<and> \<not> contains_str b ''REDACTED''"

lemma replace_prefix:
  assumes "b \<noteq> []" "CHR ''*'' \<notin> set b" "old \<noteq> []"
  shows "starts_with b (replace_all old SHELL_PLACEHOLDER s) \<Longrightarrow> starts_with b s \<and> \<not> starts_with old s"
  using assms(1,2)
proof (induction s arbitrary: b)
  case (Cons c cs)
  obtain x b' where b: "b = x # b'" using Cons.prems(2) by (cases b) auto
  have no: "\<not> starts_with old (c # cs)"
  proof
    assume "starts_with old (c # cs)"
    from replace_all_match[OF assms(3) this] Cons.prems(1,3) b show False
      by (simp add: SHELL_PLACEHOLDER_def)
  qed
  with Cons b show ?case by (cases "b' = []") (auto simp: replace_all_skip)
qed simp

lemma starts_with_star: "CHR ''*'' \<notin> set b \<Longrightarrow> starts_with b (w @ CHR ''*'' # r) \<Longrightarrow> starts_with b w"
proof (induction b arbitrary: w)
  case (Cons x b)
  then show ?case by (cases w) auto
qed simp

lemma contains_star:
  "b \<noteq> [] \<Longrightarrow> CHR ''*'' \<notin> set b \<Longrightarrow> contains_str b (w @ CHR ''*'' # r) \<Longrightarrow>
   contains_str b w \<or> contains_str b r"
proof (induction w)
  case Nil
  then show ?case by (cases b) auto
next
  case (Cons c w)
  from Cons.prems(3) consider "starts_with b ((c # w) @ CHR ''*'' # r)" | "contains_str b (w @ CHR ''*'' # r)"
    by auto
  then show ?case
  proof cases
    case 1
    from starts_with_star[OF Cons.prems(2) this] show ?thesis by simp
  next
    case 2
    with Cons show ?thesis by auto
  qed
qed

lemma contains_placeholder:
  assumes "star_free b" and "contains_str b (SHELL_PLACEHOLDER @ r)"
  shows "contains_str b r"
proof -
  have b: "b \<noteq> []" "CHR ''*'' \<notin> set b" "\<not> contains_str b ''REDACTED''"
    using assms(1) by (simp_all add: star_free_def)
  have star: "contains_str b t" if "contains_str b (CHR ''*'' # t)" for t
    using contains_star[OF b(1,2), of "[]" t] that b(1) by simp
  have "contains_str b (CHR ''*'' # CHR ''*'' # CHR ''*'' # (''REDACTED'' @ CHR ''*'' # CHR ''*'' # CHR ''*'' # r))"
    using assms(2) by (simp only: SHELL_PLACEHOLDER_def append.simps)
  then have "contains_str b (''REDACTED'' @ CHR ''*'' # CHR ''*'' # CHR ''*'' # r)"
    by (rule star[OF star[OF star]])
  from contains_star[OF b(1,2) this] b(3) have "contains_str b (CHR ''*'' # CHR ''*'' # r)" by (elim disjE) simp_all
  then show ?thesis by (rule star[OF star])
qed

lemma replace_absent_other:
  assumes "old \<noteq> []" "star_free b"
  shows "contains_str b (replace_all old SHELL_PLACEHOLDER s) \<Longrightarrow> contains_str b s"
  using assms(1)
proof (induction s rule: replace_all_induct)
  case (Match s)
  then have "contains_str b (drop (length old) s)"
    using replace_all_match[OF assms(1)] contains_placeholder[OF assms(2)] by auto
  with assms(2) show ?case by (auto simp: star_free_def intro: contains_drop)
next
  case (Skip c cs)
  then have "starts_with b (replace_all old SHELL_PLACEHOLDER (c # cs)) \<or> contains_str b (replace_all old SHELL_PLACEHOLDER cs)"
    by (simp add: replace_all_skip)
  with Skip replace_prefix[of b old "c # cs"] assms show ?case by (auto simp: star_free_def)
qed simp_all

lemma replace_absent_same:
  assumes "star_free v"
  shows "\<not> contains_str v (replace_all v SHELL_PLACEHOLDER s)"
proof -
  have "v \<noteq> []" using assms by (simp add: star_free_def)
  then show ?thesis
  proof (induction s rule: replace_all_induct)
    case Nil
    then show ?case using \<open>v \<noteq> []\<close> by simp
  next
    case (Match s)
    then show ?case using replace_all_match[OF \<open>v \<noteq> []\<close>] contains_placeholder[OF assms] by auto
  next
    case (Skip c cs)
    then show ?case using replace_prefix[of v v "c # cs"] assms
      by (auto simp: replace_all_skip star_free_def)
  qed
qed

lemma shell_redact_keeps_absent:
  assumes "star_free b"
  shows "\<not> contains_str b t \<Longrightarrow> \<not> contains_str b (shell_redact env t)"
proof (induction env arbitrary: t)
  case (Cons kv env)
  obtain k v where kv: "kv = (k, v)" by (cases kv)
  have "is_sensitive k v \<Longrightarrow> v \<noteq> []" by (simp add: is_sensitive_def)
  with Cons.prems replace_absent_other[OF _ assms] have
    "\<not> contains_str b (if is_sensitive k v then replace_all v SHELL_PLACEHOLDER t else t)" by auto
  then show ?case unfolding kv shell_redact.simps by (rule Cons.IH)
qed simp

lemma shell_redact_absent:
  assumes "is_sensitive k v" "star_free v"
  shows "(k, v) \<in> set env \<Longrightarrow> \<not> contains_str v (shell_redact env t)"
proof (induction env arbitrary: t)
  case (Cons kv env)
  show ?case
  proof (cases "kv = (k, v)")
    case True
    have "\<not> contains_str v (shell_redact env (replace_all v SHELL_PLACEHOLDER t))"
      by (rule shell_redact_keeps_absent[OF assms(2) replace_absent_same[OF assms(2)]])
    with True assms(1) show ?thesis by simp
  next
    case False
    with Cons.prems have "(k, v) \<in> set env" by simp
    from Cons.IH[OF this] show ?thesis by (cases kv) simp
  qed
qed simp

section \<open>Request parameters\<close>

definition REDACT_PLACEHOLDER :: string where "REDACT_PLACEHOLDER = ''***''"

definition SECRET_KEY_TOKENS :: "string list" where
  "SECRET_KEY_TOKENS = [''password'', ''secret'', ''token'', ''key'', ''passwd'', ''pass'']"

definition ident_start :: "char \<Rightarrow> bool" where
  "ident_start c \<longleftrightarrow> (let n = of_char c :: nat in
     (65 \<le> n \<and> n \<le> 90) \<or> (97 \<le> n \<and> n \<le> 122) \<or> n = 95)"

definition ident_char :: "char \<Rightarrow> bool" where
  "ident_char c \<longleftrightarrow> ident_start c \<or> (let n = of_char c :: nat in 48 \<le> n \<and> n \<le> 57)"

abbreviation DOLLAR :: char where "DOLLAR \<equiv> CHR 0x24"

text \<open>\<open>[^}]*\}\<close>: what follows the first closing brace.\<close>

fun after_brace :: "string \<Rightarrow> string option" where
  "after_brace [] = None"
| "after_brace (c # s) = (if c = CHR ''}'' then Some s else after_brace s)"

lemma after_brace_shorter: "after_brace s = Some r \<Longrightarrow> length r < length s"
  by (induction s) (auto split: if_splits)

text \<open>
  One match of \<open>_ENV_DEFAULT_RE\<close> at the start of the text: the opening, a maximal
  identifier, one of \<open>:-\<close>, \<open>-\<close>, \<open>:\<close>, and everything to the first closing brace.
  The result is the identifier and the text after the match.
\<close>

definition match_env_default :: "string \<Rightarrow> (string \<times> string) option" where
  "match_env_default s =
     (case s of
        d # b # c # r \<Rightarrow>
          if d = DOLLAR \<and> b = CHR ''{'' \<and> ident_start c then
            (let ident = c # takeWhile ident_char r; rest = dropWhile ident_char r in
             case rest of
               [] \<Rightarrow> None
             | x # r1 \<Rightarrow>
                 (let body = (if x = CHR '':'' then (case r1 of y # r2 \<Rightarrow> Some (if y = CHR ''-'' then r2 else r1) | [] \<Rightarrow> Some r1)
                              else if x = CHR ''-'' then Some r1 else None)
                  in case body of None \<Rightarrow> None
                     | Some t \<Rightarrow>
                         map_option (Pair ident) (after_brace t)))
          else None
      | _ \<Rightarrow> None)"

lemma match_env_default_shorter: "match_env_default s = Some (i, r) \<Longrightarrow> length r < length s"
proof -
  assume m: "match_env_default s = Some (i, r)"
  obtain d b c t where s: "s = d # b # c # t"
    using m by (auto simp: match_env_default_def split: list.splits)
  obtain x r1 where x: "dropWhile ident_char t = x # r1"
    using m by (auto simp: s match_env_default_def Let_def split: list.splits if_splits)
  have r1: "length r1 < length t" using length_dropWhile_le[of ident_char t] x by simp
  have "after_brace r1 = Some r \<or> (\<exists>y r2. r1 = y # r2 \<and> after_brace r2 = Some r)"
    using m x by (auto simp: s match_env_default_def Let_def split: list.splits if_splits)
  with r1 s show ?thesis by (auto dest: after_brace_shorter)
qed

function strip_env_defaults :: "string \<Rightarrow> string" where
  "strip_env_defaults s =
     (case match_env_default s of
        Some (ident, rest) \<Rightarrow> [DOLLAR, CHR ''{''] @ ident @ ''}'' @ strip_env_defaults rest
      | None \<Rightarrow> (case s of [] \<Rightarrow> [] | c # cs \<Rightarrow> c # strip_env_defaults cs))"
  by pat_completeness auto
termination
  by (relation "measure length") (auto dest: match_env_default_shorter)

declare strip_env_defaults.simps [simp del]

definition is_secret_key :: "string \<Rightarrow> bool" where
  "is_secret_key k \<longleftrightarrow> (\<exists>tok \<in> set SECRET_KEY_TOKENS. contains_str tok (py_lower k))"

text \<open>Longer values first; \<open>remdups\<close> is the set of the values.\<close>

definition redact_text :: "string \<Rightarrow> string list \<Rightarrow> string" where
  "redact_text t secrets =
     fold (\<lambda>v out. replace_all v REDACT_PLACEHOLDER out)
       (sort_key (\<lambda>v. - int (length v)) (remdups (filter (\<lambda>v. v \<noteq> []) secrets)))
       (strip_env_defaults t)"

definition keep_reference :: "string \<Rightarrow> json" where
  "keep_reference v =
     (let stripped = strip_env_defaults v in
      JStr (if starts_with [DOLLAR, CHR ''{''] stripped \<and> ends_with ''}'' stripped then stripped
            else REDACT_PLACEHOLDER))"

fun redact_json :: "string list \<Rightarrow> json \<Rightarrow> json" where
  "redact_json secrets (JStr s) = JStr (redact_text s secrets)"
| "redact_json secrets (JObj kvs) =
     JObj (map (\<lambda>(k, v). (k, if is_secret_key k
            then (case v of JStr s \<Rightarrow> keep_reference s | _ \<Rightarrow> JStr REDACT_PLACEHOLDER)
            else redact_json secrets v)) kvs)"
| "redact_json secrets (JList xs) = JList (map (redact_json secrets) xs)"
| "redact_json secrets v = v"

lemma redact_json_wf: "wf_json j \<Longrightarrow> wf_json (redact_json secrets j)"
proof (induction j)
  case (JObj kvs)
  let ?g = "\<lambda>(k, v). (k, if is_secret_key k
      then (case v of JStr s \<Rightarrow> keep_reference s | _ \<Rightarrow> JStr REDACT_PLACEHOLDER) else redact_json secrets v)"
  have "map fst (map ?g kvs) = map fst kvs" by (simp add: case_prod_beta o_def)
  then have "distinct (map fst (map ?g kvs))" using JObj.prems by (simp only: wf_json.simps)
  moreover have "wf_json (snd (?g kv))" if kv_in: "kv \<in> set kvs" for kv
  proof -
    obtain k v where kv: "kv = (k, v)" by (cases kv)
    with kv_in JObj have "wf_json (redact_json secrets v)" by fastforce
    then show ?thesis by (simp add: kv keep_reference_def Let_def split: json.split)
  qed
  ultimately show ?case by (simp only: redact_json.simps wf_json.simps set_map) blast
qed auto

text \<open>What may stay under a secret-looking key: the mask, or a text in interpolation brackets.\<close>

definition masked :: "json \<Rightarrow> bool" where
  "masked v \<longleftrightarrow> v = JStr REDACT_PLACEHOLDER \<or>
     (\<exists>s. v = JStr s \<and> starts_with [DOLLAR, CHR ''{''] s \<and> ends_with ''}'' s)"

fun secrets_masked :: "json \<Rightarrow> bool" where
  "secrets_masked (JList xs) = (\<forall>x \<in> set xs. secrets_masked x)"
| "secrets_masked (JObj kvs) =
     (\<forall>kv \<in> set kvs. if is_secret_key (fst kv) then masked (snd kv) else secrets_masked (snd kv))"
| "secrets_masked j = True"

lemma redact_secrets_masked: "secrets_masked (redact_json secrets j)"
proof (induction j)
  case (JObj kvs)
  then show ?case
    by (force simp: masked_def keep_reference_def Let_def split: json.splits)
qed auto

end
