(* ===== verification/Op_Engine.thy ===== *)
theory Op_Engine
  imports Op_Store Audit_Log Env_Locks Redaction
begin

text \<open>
  \<open>odooctl/operations/engine.py\<close>: \<open>run_operation\<close> wraps a service call as a durable
  operation.  The world holds what the call writes (operation store, audit trail, lock files
  and this thread's held locks) and a tick that counts the calls of the clock; the runtime
  holds what stays fixed (digests, audit key, \<open>kill\<close>, the process environment used for
  redaction, and the clocks as functions of the tick).
\<close>

record runtime =
  rt_hashes :: hashes
  rt_audit_key :: "string option"
  rt_kill :: "int \<Rightarrow> kill_result"
  rt_environ :: "(string \<times> string) list"
  rt_clock :: "nat \<Rightarrow> string"
  rt_mtime :: "nat \<Rightarrow> int"

record op_world =
  w_ops :: op_store
  w_audit :: audit_fs
  w_locks :: lock_files
  w_thread :: thread
  w_tick :: nat

text \<open>\<open>OperationContext\<close>: the operation and the next sequence number.\<close>

record op_context =
  oc_op_id :: string
  oc_seq :: int

definition new_context :: "Operation \<Rightarrow> op_context" where
  "new_context op = \<lparr>oc_op_id = op_ident op, oc_seq = 0\<rparr>"

record emission =
  em_message :: string
  em_phase :: string
  em_level :: string
  em_data :: json

text \<open>\<open>emit(...)\<close> with the defaults of its keyword arguments; \<open>data or {}\<close>.\<close>

definition plain_emission :: "string \<Rightarrow> string \<Rightarrow> string \<Rightarrow> emission" where
  "plain_emission msg phase level = \<lparr>em_message = msg, em_phase = phase, em_level = level, em_data = JObj []\<rparr>"

definition tick :: "op_world \<Rightarrow> op_world" where
  "tick w = w\<lparr>w_tick := Suc (w_tick w)\<rparr>"

definition write_event :: "runtime \<Rightarrow> string \<Rightarrow> int \<Rightarrow> emission \<Rightarrow> op_world \<Rightarrow> op_world" where
  "write_event rt i seq em w =
     tick (w\<lparr>w_ops := store_append_event (rt_mtime rt (w_tick w)) i
        \<lparr>ev_op_id = i, ev_seq = seq, ev_timestamp = rt_clock rt (w_tick w), ev_level = em_level em,
         ev_phase = em_phase em, ev_message = em_message em, ev_data = em_data em\<rparr> (w_ops w)\<rparr>)"

definition emit :: "runtime \<Rightarrow> emission \<Rightarrow> op_context \<times> op_world \<Rightarrow> op_context \<times> op_world" where
  "emit rt em cw =
     (case cw of (c, w) \<Rightarrow> (c\<lparr>oc_seq := oc_seq c + 1\<rparr>, write_event rt (oc_op_id c) (oc_seq c) em w))"

definition save_op :: "runtime \<Rightarrow> Operation \<Rightarrow> op_world \<Rightarrow> op_world" where
  "save_op rt op w = w\<lparr>w_ops := store_save (rt_mtime rt (w_tick w)) op (w_ops w)\<rparr>"

definition update_op ::
  "runtime \<Rightarrow> string \<Rightarrow> OperationStatus \<Rightarrow> string option \<Rightarrow> op_world \<Rightarrow> (py_error, op_world) result" where
  "update_op rt i st err w =
     bindE (store_update_status (rt_mtime rt (w_tick w)) (rt_clock rt (w_tick w)) i st err None (w_ops w))
       (\<lambda>(s, _). Inr (tick (w\<lparr>w_ops := s\<rparr>)))"

definition audit_op ::
  "runtime \<Rightarrow> string \<Rightarrow> string \<Rightarrow> string \<Rightarrow> json \<Rightarrow> string \<Rightarrow> string \<Rightarrow> op_world \<Rightarrow> op_world" where
  "audit_op rt actor action target params outcome i w =
     tick (w\<lparr>w_audit := fst (audit_append (rt_hashes rt) (rt_audit_key rt)
       \<lparr>au_actor = actor, au_action = action, au_target = target, au_params_redacted = params,
        au_outcome = outcome, au_op_id = i, au_timestamp = rt_clock rt (w_tick w),
        au_prev_hash = [], au_current_hash = []\<rparr> (w_audit w))\<rparr>)"

text \<open>
  The body of the \<open>with\<close> statement: what it emits, and whether it returns, raises an
  \<open>Exception\<close> with the given text, or is interrupted by a \<open>BaseException\<close>.
\<close>

datatype block_end = BlockOk | BlockRaises string | BlockInterrupted

record block =
  bl_emits :: "emission list"
  bl_end :: block_end

datatype run_outcome =
    Completed
  | RaisedLock string
  | RaisedLockOS
  | RaisedBody block_end
  | RaisedStore py_error

definition engine_lock_failed ::
  "runtime \<Rightarrow> string \<Rightarrow> Operation \<Rightarrow> op_world \<Rightarrow> op_world" where
  "engine_lock_failed rt msg op w =
     (let w1 = save_op rt (op\<lparr>op_status := FAILED,
                 op_error := Some (''Could not acquire lock for environment '' @ quoted (op_environment op)),
                 op_updated_at := rt_clock rt (w_tick w)\<rparr>) (tick w);
          w2 = write_event rt (op_ident op) 0
                 (plain_emission (''lock acquisition failed: '' @ msg) ''end'' ''error'') w1
      in audit_op rt (op_actor op) (kind_value (op_kind op)) (op_environment op) (op_params_redacted op)
           ''failed'' (op_ident op) w2)"

text \<open>The \<open>finally\<close> branch: release the lock, emit the end event, set the status, audit.\<close>

definition engine_finish ::
  "runtime \<Rightarrow> env_lock \<Rightarrow> Operation \<Rightarrow> block_end \<Rightarrow> op_context \<times> op_world \<Rightarrow> op_world \<times> run_outcome" where
  "engine_finish rt l op e cw =
     (case cw of (c, w) \<Rightarrow>
       let (th, files) = lock_exit l (w_thread w, w_locks w);
           w1 = w\<lparr>w_thread := th, w_locks := files\<rparr>;
           ok = (e = BlockOk);
           msg = (case e of BlockRaises m \<Rightarrow> Some (shell_redact (rt_environ rt) m) | _ \<Rightarrow> None);
           text = (case msg of None \<Rightarrow> ''None'' | Some m \<Rightarrow> m);
           em = (if ok then plain_emission ''operation completed'' ''end'' ''info''
                 else plain_emission (''operation failed: '' @ text) ''end'' ''error'');
           (c2, w2) = emit rt em (c, w1)
       in case update_op rt (op_ident op) (if ok then SUCCEEDED else FAILED) (if ok then None else msg) w2 of
            Inl err \<Rightarrow> (w2, RaisedStore err)
          | Inr w3 \<Rightarrow>
              (audit_op rt (op_actor op) (kind_value (op_kind op)) (op_environment op) (op_params_redacted op)
                 (if ok then ''succeeded'' else ''failed'') (op_ident op) w3,
               if ok then Completed else RaisedBody e))"

definition run_operation ::
  "runtime \<Rightarrow> string \<Rightarrow> OperationKind \<Rightarrow> string \<Rightarrow> string \<Rightarrow> string \<Rightarrow> json \<Rightarrow> block \<Rightarrow> op_world
   \<Rightarrow> op_world \<times> run_outcome" where
  "run_operation rt uid kind project environment actor params blk w =
     (let op = operation_create uid (rt_clock rt (w_tick w)) kind project environment actor params;
          w1 = save_op rt op (tick w);
          l = new_lock environment (op_ident op)
      in case lock_enter (rt_kill rt) l (w_thread w1, w_locks w1) of
           Inl (LockAcquisitionError m) \<Rightarrow> (engine_lock_failed rt m op w1, RaisedLock m)
         | Inl LockOSError \<Rightarrow> (w1, RaisedLockOS)
         | Inr (l', th, files) \<Rightarrow>
             (let running = op\<lparr>op_status := RUNNING, op_updated_at := rt_clock rt (w_tick w1)\<rparr>;
                  w2 = save_op rt running (tick (w1\<lparr>w_thread := th, w_locks := files\<rparr>));
                  cw = emit rt (plain_emission (''operation started: '' @ kind_value kind @ '' on '' @ environment)
                         ''start'' ''info'') (new_context running, w2);
                  cw' = fold (emit rt) (bl_emits blk) cw
              in engine_finish rt l' running (bl_end blk) cw'))"

section \<open>Effects of the single steps\<close>

lemma tick_simps [simp]:
  "w_ops (tick w) = w_ops w" "w_audit (tick w) = w_audit w" "w_locks (tick w) = w_locks w"
  "w_thread (tick w) = w_thread w" "w_tick (tick w) = Suc (w_tick w)"
  by (simp_all add: tick_def)

lemma write_event_frame [simp]:
  "w_audit (write_event rt i n em w) = w_audit w" "w_locks (write_event rt i n em w) = w_locks w"
  "w_thread (write_event rt i n em w) = w_thread w"
  "store_load (w_ops (write_event rt i n em w)) j = store_load (w_ops w) j"
  "events_closed (w_ops w) \<Longrightarrow> events_closed (w_ops (write_event rt i n em w))"
  by (simp_all add: write_event_def)

lemma save_op_frame [simp]:
  "w_audit (save_op rt op w) = w_audit w" "w_locks (save_op rt op w) = w_locks w"
  "w_thread (save_op rt op w) = w_thread w"
  "store_load_events (w_ops (save_op rt op w)) j = store_load_events (w_ops w) j"
  "events_closed (w_ops w) \<Longrightarrow> events_closed (w_ops (save_op rt op w))"
  by (simp_all add: save_op_def)

lemma save_op_load:
  "operation_wf op \<Longrightarrow> store_load (w_ops (save_op rt op w)) (op_ident op) = Inr op"
  "j \<noteq> op_ident op \<Longrightarrow> store_load (w_ops (save_op rt op w)) j = store_load (w_ops w) j"
  by (simp_all add: save_op_def load_save_same load_save_other)

lemma audit_op_frame [simp]:
  "w_ops (audit_op rt a b c d e f w) = w_ops w" "w_locks (audit_op rt a b c d e f w) = w_locks w"
  "w_thread (audit_op rt a b c d e f w) = w_thread w"
  by (simp_all add: audit_op_def)

lemma update_op_known:
  assumes "store_load (w_ops w) i = Inr op" and "op_ident op = i" and "operation_wf op"
  shows "\<exists>w'. update_op rt i st err w = Inr w' \<and>
     store_load (w_ops w') i = Inr (set_status (rt_clock rt (w_tick w)) st err None op) \<and>
     (\<forall>j. j \<noteq> i \<longrightarrow> store_load (w_ops w') j = store_load (w_ops w) j) \<and>
     (\<forall>j. store_load_events (w_ops w') j = store_load_events (w_ops w) j) \<and>
     (events_closed (w_ops w) \<longrightarrow> events_closed (w_ops w')) \<and>
     w_audit w' = w_audit w \<and> w_locks w' = w_locks w \<and> w_thread w' = w_thread w"
proof -
  let ?op' = "set_status (rt_clock rt (w_tick w)) st err None op"
  have "operation_wf ?op'" "op_ident ?op' = i" using assms by simp_all
  with load_save_same[of ?op'] load_save_other[of _ ?op'] show ?thesis
    using assms by (simp add: update_op_def store_update_status_def Let_def)
qed

definition world_inv :: "runtime \<Rightarrow> op_world \<Rightarrow> bool" where
  "world_inv rt w \<longleftrightarrow> events_closed (w_ops w) \<and> audit_inv (rt_hashes rt) (rt_audit_key rt) (w_audit w)"

lemma audit_op_inv:
  assumes "audit_inv (rt_hashes rt) (rt_audit_key rt) (w_audit w)" and "wf_json params"
  shows "audit_inv (rt_hashes rt) (rt_audit_key rt) (w_audit (audit_op rt actor action target params outcome i w))"
    and "\<exists>e. load_chain (w_audit (audit_op rt actor action target params outcome i w)) = load_chain (w_audit w) @ [e] \<and>
       au_actor e = actor \<and> au_action e = action \<and> au_target e = target \<and> au_params_redacted e = params \<and>
       au_outcome e = outcome \<and> au_op_id e = i"
proof -
  let ?e = "\<lparr>au_actor = actor, au_action = action, au_target = target, au_params_redacted = params,
        au_outcome = outcome, au_op_id = i, au_timestamp = rt_clock rt (w_tick w),
        au_prev_hash = [], au_current_hash = []\<rparr>"
  have "audit_wf ?e" using assms(2) by (simp add: audit_wf_def)
  note a = audit_inv_append[OF assms(1) this]
  show "audit_inv (rt_hashes rt) (rt_audit_key rt) (w_audit (audit_op rt actor action target params outcome i w))"
    using a(1) by (simp add: audit_op_def)
  show "\<exists>e. load_chain (w_audit (audit_op rt actor action target params outcome i w)) = load_chain (w_audit w) @ [e] \<and>
       au_actor e = actor \<and> au_action e = action \<and> au_target e = target \<and> au_params_redacted e = params \<and>
       au_outcome e = outcome \<and> au_op_id e = i"
    using a(2) by (simp add: audit_op_def audit_append_def seal_entry_def Let_def)
qed

text \<open>The numbers of the events an operation has written.\<close>

definition event_seqs :: "op_store \<Rightarrow> string \<Rightarrow> int list" where
  "event_seqs s i = map ev_seq (store_load_events s i)"

definition seqs_ok :: "op_context \<times> op_world \<Rightarrow> bool" where
  "seqs_ok cw \<longleftrightarrow> events_closed (w_ops (snd cw)) \<and> 0 \<le> oc_seq (fst cw) \<and>
     event_seqs (w_ops (snd cw)) (oc_op_id (fst cw)) = map int [0..<nat (oc_seq (fst cw))]"

lemma write_event_seqs:
  assumes "events_closed (w_ops w)" "wf_json (em_data em)"
  shows "event_seqs (w_ops (write_event rt i n em w)) j =
     (if j = i then event_seqs (w_ops w) i @ [n] else event_seqs (w_ops w) j)"
  using assms by (simp add: event_seqs_def write_event_def load_events_append event_wf_def)

lemma emit_simps [simp]:
  "oc_op_id (fst (emit rt em cw)) = oc_op_id (fst cw)"
  "oc_seq (fst (emit rt em cw)) = oc_seq (fst cw) + 1"
  "snd (emit rt em cw) = write_event rt (oc_op_id (fst cw)) (oc_seq (fst cw)) em (snd cw)"
  by (simp_all add: emit_def case_prod_beta)

lemma emit_seqs:
  assumes "seqs_ok cw" "wf_json (em_data em)" shows "seqs_ok (emit rt em cw)"
proof -
  have "0 \<le> oc_seq (fst cw)" using assms(1) by (simp add: seqs_ok_def)
  then have n: "nat (oc_seq (fst cw) + 1) = Suc (nat (oc_seq (fst cw)))" by simp
  show ?thesis
    using assms by (simp add: seqs_ok_def write_event_seqs n upt_Suc_append)
qed

lemma fold_emit_keeps:
  "w_audit (snd (fold (emit rt) ems cw)) = w_audit (snd cw)"
  "w_locks (snd (fold (emit rt) ems cw)) = w_locks (snd cw)"
  "w_thread (snd (fold (emit rt) ems cw)) = w_thread (snd cw)"
  "store_load (w_ops (snd (fold (emit rt) ems cw))) j = store_load (w_ops (snd cw)) j"
  "oc_op_id (fst (fold (emit rt) ems cw)) = oc_op_id (fst cw)"
  "oc_seq (fst (fold (emit rt) ems cw)) = oc_seq (fst cw) + int (length ems)"
  "events_closed (w_ops (snd cw)) \<Longrightarrow> events_closed (w_ops (snd (fold (emit rt) ems cw)))"
  by (induction ems arbitrary: cw) simp_all

lemma fold_emit_seqs:
  "seqs_ok cw \<Longrightarrow> (\<forall>em \<in> set ems. wf_json (em_data em)) \<Longrightarrow> seqs_ok (fold (emit rt) ems cw)"
  by (induction ems arbitrary: cw) (simp_all add: emit_seqs)

section \<open>The whole wrapper\<close>

lemma finish_spec:
  assumes seq: "seqs_ok cw" and i: "oc_op_id (fst cw) = op_ident op"
    and ld: "store_load (w_ops (snd cw)) (op_ident op) = Inr op" and wf: "operation_wf op"
    and aud: "audit_inv (rt_hashes rt) (rt_audit_key rt) (w_audit (snd cw))"
  shows "\<exists>w' op' e'. engine_finish rt l op e cw = (w', if e = BlockOk then Completed else RaisedBody e) \<and>
     store_load (w_ops w') (op_ident op) = Inr op' \<and>
     op_status op' = (if e = BlockOk then SUCCEEDED else FAILED) \<and>
     (\<forall>m. e = BlockRaises m \<longrightarrow> op_error op' = Some (shell_redact (rt_environ rt) m)) \<and>
     event_seqs (w_ops w') (op_ident op) = map int [0..<Suc (nat (oc_seq (fst cw)))] \<and>
     world_inv rt w' \<and>
     (w_thread w', w_locks w') = lock_exit l (w_thread (snd cw), w_locks (snd cw)) \<and>
     load_chain (w_audit w') = load_chain (w_audit (snd cw)) @ [e'] \<and>
     au_op_id e' = op_ident op \<and> au_actor e' = op_actor op \<and> au_target e' = op_environment op \<and>
     au_action e' = kind_value (op_kind op) \<and>
     au_outcome e' = (if e = BlockOk then ''succeeded'' else ''failed'')"
proof -
  obtain c w where cw: "cw = (c, w)" by (cases cw)
  obtain th files where le: "lock_exit l (w_thread w, w_locks w) = (th, files)" by (cases "lock_exit l (w_thread w, w_locks w)")
  let ?w1 = "w\<lparr>w_thread := th, w_locks := files\<rparr>"
  let ?msg = "case e of BlockRaises m \<Rightarrow> Some (shell_redact (rt_environ rt) m) | _ \<Rightarrow> None"
  let ?em = "if e = BlockOk then plain_emission ''operation completed'' ''end'' ''info''
       else plain_emission (''operation failed: '' @ (case ?msg of None \<Rightarrow> ''None'' | Some m \<Rightarrow> m)) ''end'' ''error''"
  let ?st = "if e = BlockOk then SUCCEEDED else FAILED" and ?err = "if e = BlockOk then None else ?msg"
  have em: "wf_json (em_data ?em)" by (simp add: plain_emission_def)
  have s1: "seqs_ok (emit rt ?em (c, ?w1))"
    by (rule emit_seqs) (use seq em in \<open>simp_all add: seqs_ok_def cw\<close>)
  let ?w2 = "snd (emit rt ?em (c, ?w1))"
  have "store_load (w_ops ?w2) (op_ident op) = Inr op" using ld by (simp add: cw)
  from update_op_known[OF this refl wf, of rt ?st ?err] obtain w3 where
    w3: "update_op rt (op_ident op) ?st ?err ?w2 = Inr w3"
    and l3: "store_load (w_ops w3) (op_ident op) = Inr (set_status (rt_clock rt (w_tick ?w2)) ?st ?err None op)"
    and e3: "\<And>j. store_load_events (w_ops w3) j = store_load_events (w_ops ?w2) j"
    and c3: "events_closed (w_ops ?w2) \<Longrightarrow> events_closed (w_ops w3)"
    and f3: "w_audit w3 = w_audit ?w2" "w_locks w3 = w_locks ?w2" "w_thread w3 = w_thread ?w2"
    by blast
  let ?w' = "audit_op rt (op_actor op) (kind_value (op_kind op)) (op_environment op) (op_params_redacted op)
       (if e = BlockOk then ''succeeded'' else ''failed'') (op_ident op) w3"
  have aud3: "audit_inv (rt_hashes rt) (rt_audit_key rt) (w_audit w3)" using aud by (simp add: f3 cw)
  have wfp: "wf_json (op_params_redacted op)" using wf by (simp add: operation_wf_def)
  have fin: "engine_finish rt l op e cw = (?w', if e = BlockOk then Completed else RaisedBody e)"
    using w3 by (simp add: engine_finish_def cw le Let_def emit_def)
  have "event_seqs (w_ops w3) (op_ident op) = map int [0..<Suc (nat (oc_seq c))]"
    using s1 seq i by (simp add: event_seqs_def e3 seqs_ok_def cw nat_add_distrib)
  moreover have "op_error (set_status (rt_clock rt (w_tick ?w2)) ?st ?err None op)
      = Some (shell_redact (rt_environ rt) m)" if "e = BlockRaises m" for m
    using that by (simp add: set_status_def)
  moreover have "events_closed (w_ops w3)" using c3 s1 by (simp add: seqs_ok_def)
  moreover note audit_op_inv[OF aud3 wfp, of "op_actor op" "kind_value (op_kind op)" "op_environment op"
      "if e = BlockOk then ''succeeded'' else ''failed''" "op_ident op"]
  ultimately show ?thesis
    using fin l3 le f3 by (auto simp: world_inv_def cw event_seqs_def)
qed

lemma operation_create_simps [simp]:
  "op_ident (operation_create uid now k p e a params) = take 12 uid"
  "op_kind (operation_create uid now k p e a params) = k"
  "op_environment (operation_create uid now k p e a params) = e"
  "op_actor (operation_create uid now k p e a params) = a"
  "op_params_redacted (operation_create uid now k p e a params) = params"
  "op_status (operation_create uid now k p e a params) = QUEUED"
  by (simp_all add: operation_create_def)

lemma new_lock_simps [simp]:
  "el_env (new_lock e i) = e" "el_op_id (new_lock e i) = i" "\<not> el_reentrant (new_lock e i)"
  by (simp_all add: new_lock_def)

text \<open>\<open>run_ok\<close>: what the record, the events and the audit trail say after a run that got the lock.\<close>

definition run_recorded ::
  "runtime \<Rightarrow> string \<Rightarrow> block \<Rightarrow> op_world \<Rightarrow> op_world \<Rightarrow> bool" where
  "run_recorded rt i blk w w' \<longleftrightarrow>
     (\<exists>op e. store_load (w_ops w') i = Inr op \<and>
        op_status op = (if bl_end blk = BlockOk then SUCCEEDED else FAILED) \<and>
        (\<forall>m. bl_end blk = BlockRaises m \<longrightarrow> op_error op = Some (shell_redact (rt_environ rt) m)) \<and>
        event_seqs (w_ops w') i = map int [0..<length (bl_emits blk) + 2] \<and>
        load_chain (w_audit w') = load_chain (w_audit w) @ [e] \<and> au_op_id e = i \<and>
        au_outcome e = (if bl_end blk = BlockOk then ''succeeded'' else ''failed'') \<and>
        w_locks w' = w_locks w \<and> w_thread w' = w_thread w \<and> world_inv rt w')"

lemma run_operation_acquired:
  assumes inv: "world_inv rt w" and fresh: "store_load_events (w_ops w) (take 12 uid) = []"
    and lock: "environment \<in> th_held (w_thread w) \<or> dict_get (w_locks w) environment = None"
    and wf: "wf_json params" "\<forall>em \<in> set (bl_emits blk). wf_json (em_data em)"
  shows "\<exists>w'. run_operation rt uid kind project environment actor params blk w
       = (w', if bl_end blk = BlockOk then Completed else RaisedBody (bl_end blk)) \<and>
     run_recorded rt (take 12 uid) blk w w'"
proof -
  let ?op = "operation_create uid (rt_clock rt (w_tick w)) kind project environment actor params"
  let ?w1 = "save_op rt ?op (tick w)"
  let ?l = "new_lock environment (take 12 uid)"
  have "el_env ?l \<in> th_held (w_thread w) \<or> dict_get (w_locks w) (el_env ?l) = None" "\<not> el_reentrant ?l"
    using lock by simp_all
  from enter_exit_restores[OF this, where kill = "rt_kill rt"] obtain l' th files where
    enter: "lock_enter (rt_kill rt) ?l (w_thread w, w_locks w) = Inr (l', th, files)"
    and exit_l: "lock_exit l' (th, files) = (w_thread w, w_locks w)"
    by metis
  let ?run = "?op\<lparr>op_status := RUNNING, op_updated_at := rt_clock rt (w_tick ?w1)\<rparr>"
  let ?w2 = "save_op rt ?run (tick (?w1\<lparr>w_thread := th, w_locks := files\<rparr>))"
  let ?em = "plain_emission (''operation started: '' @ kind_value kind @ '' on '' @ environment) ''start'' ''info''"
  let ?cw = "emit rt ?em (new_context ?run, ?w2)"
  let ?cw' = "fold (emit rt) (bl_emits blk) ?cw"
  have run: "run_operation rt uid kind project environment actor params blk w
      = engine_finish rt l' ?run (bl_end blk) ?cw'"
    using enter by (simp add: run_operation_def Let_def)
  have closed: "events_closed (w_ops w)" using inv by (simp add: world_inv_def)
  have ev2: "event_seqs (w_ops ?w2) (take 12 uid) = []" using fresh by (simp add: event_seqs_def)
  have s2: "seqs_ok (new_context ?run, ?w2)"
    using closed ev2 by (simp add: seqs_ok_def new_context_def)
  have s: "seqs_ok ?cw'"
    by (intro fold_emit_seqs emit_seqs s2 wf(2)) (simp add: plain_emission_def)
  have opwf: "operation_wf ?run" using wf(1) by (simp add: operation_wf_def)
  have ld: "store_load (w_ops (snd ?cw')) (op_ident ?run) = Inr ?run"
    using save_op_load(1)[OF opwf, of rt "tick (?w1\<lparr>w_thread := th, w_locks := files\<rparr>)"]
    by (simp add: fold_emit_keeps)
  have keep: "w_audit (snd ?cw') = w_audit w" "w_locks (snd ?cw') = files" "w_thread (snd ?cw') = th"
    by (simp_all add: fold_emit_keeps)
  have sq: "oc_seq (fst ?cw') = int (Suc (length (bl_emits blk)))"
    by (simp add: fold_emit_keeps new_context_def)
  have i: "oc_op_id (fst ?cw') = op_ident ?run" by (simp add: fold_emit_keeps new_context_def)
  have aud: "audit_inv (rt_hashes rt) (rt_audit_key rt) (w_audit (snd ?cw'))"
    unfolding keep(1) using inv by (simp add: world_inv_def)
  have idn: "op_ident ?run = take 12 uid" by simp
  have sqn: "Suc (nat (oc_seq (fst ?cw'))) = length (bl_emits blk) + 2" unfolding sq by (simp only: nat_int)
  note F = finish_spec[OF s i ld opwf aud, of l' "bl_end blk", unfolded keep exit_l sqn idn prod.inject]
  show ?thesis unfolding run run_recorded_def using F by blast
qed

lemma run_operation_locked:
  assumes inv: "world_inv rt w" and fresh: "store_load_events (w_ops w) (take 12 uid) = []"
    and free: "environment \<notin> th_held (w_thread w)"
    and lock: "dict_get (w_locks w) environment = Some (lock_payload owner oid)"
    and alive: "rt_kill rt owner = KillOk \<or> rt_kill rt owner = KillNoPermission"
    and wf: "wf_json params"
  shows "\<exists>w' m op e. run_operation rt uid kind project environment actor params blk w = (w', RaisedLock m) \<and>
     store_load (w_ops w') (take 12 uid) = Inr op \<and> op_status op = FAILED \<and>
     map ev_level (store_load_events (w_ops w') (take 12 uid)) = [''error''] \<and>
     load_chain (w_audit w') = load_chain (w_audit w) @ [e] \<and> au_outcome e = ''failed'' \<and>
     w_locks w' = w_locks w \<and> w_thread w' = w_thread w \<and> world_inv rt w'"
proof -
  let ?op = "operation_create uid (rt_clock rt (w_tick w)) kind project environment actor params"
  let ?w1 = "save_op rt ?op (tick w)"
  let ?l = "new_lock environment (take 12 uid)"
  have "dict_get (w_locks w) (el_env ?l) = Some (lock_payload owner oid)" using lock by simp
  from try_create_blocked[where l = ?l and files = "w_locks w" and kill = "rt_kill rt" and owner = owner
      and op_id = oid and pid = "th_pid (w_thread w)", OF this alive] obtain m where
    "try_create (rt_kill rt) (th_pid (w_thread w)) ?l (w_locks w) = Inl (LockAcquisitionError m)" by blast
  then have enter: "lock_enter (rt_kill rt) ?l (w_thread w, w_locks w) = Inl (LockAcquisitionError m)"
    using free by (simp add: lock_enter_def)
  have run: "run_operation rt uid kind project environment actor params blk w
      = (engine_lock_failed rt m ?op ?w1, RaisedLock m)"
    using enter by (simp add: run_operation_def Let_def)
  let ?failed = "?op\<lparr>op_status := FAILED,
      op_error := Some (''Could not acquire lock for environment '' @ quoted environment),
      op_updated_at := rt_clock rt (w_tick ?w1)\<rparr>"
  have fwf: "operation_wf ?failed" using wf by (simp add: operation_wf_def)
  let ?w2 = "save_op rt ?failed (tick ?w1)"
  let ?w3 = "write_event rt (take 12 uid) 0 (plain_emission (''lock acquisition failed: '' @ m) ''end'' ''error'') ?w2"
  have fin: "engine_lock_failed rt m ?op ?w1 = audit_op rt actor (kind_value kind) environment params ''failed'' (take 12 uid) ?w3"
    by (simp add: engine_lock_failed_def Let_def)
  have closed: "events_closed (w_ops ?w2)" using inv by (simp add: world_inv_def)
  have ev: "map ev_level (store_load_events (w_ops ?w3) (take 12 uid)) = [''error'']"
    using load_events_append[OF closed] fresh
    by (simp add: write_event_def event_wf_def plain_emission_def)
  have ld: "store_load (w_ops ?w3) (take 12 uid) = Inr ?failed"
    using save_op_load(1)[OF fwf, of rt "tick ?w1"] by simp
  have aud: "audit_inv (rt_hashes rt) (rt_audit_key rt) (w_audit ?w3)" using inv by (simp add: world_inv_def)
  from audit_op_inv[OF aud wf, of actor "kind_value kind" environment "''failed''" "take 12 uid"]
  show ?thesis using run fin ev ld closed
    by (auto simp: world_inv_def)
qed

end
