(* ===== verification/Principals.thy ===== *)
theory Principals
  imports Prelude
begin

text \<open>
  \<open>odooctl/security/principals.py\<close>: roles with their privilege order, and the identity
  object that authorization and audit reason about.  A \<open>frozenset[Role]\<close> is a
  \<open>Role set\<close>.
\<close>

datatype Role = OWNER | ADMIN | OPERATOR | VIEWER

fun role_value :: "Role \<Rightarrow> string" where
  "role_value OWNER = ''owner''"
| "role_value ADMIN = ''admin''"
| "role_value OPERATOR = ''operator''"
| "role_value VIEWER = ''viewer''"

text \<open>\<open>Role(v)\<close>: the lookup by value, \<open>None\<close> where Python raises \<open>ValueError\<close>.\<close>

definition Role_of :: "string \<Rightarrow> Role option" where
  "Role_of v = (if v = ''owner'' then Some OWNER else if v = ''admin'' then Some ADMIN
     else if v = ''operator'' then Some OPERATOR else if v = ''viewer'' then Some VIEWER else None)"

fun role_rank :: "Role \<Rightarrow> nat" where
  "role_rank VIEWER = 0"
| "role_rank OPERATOR = 1"
| "role_rank ADMIN = 2"
| "role_rank OWNER = 3"

lemma Role_of_value [simp]: "Role_of (role_value r) = Some r"
  by (cases r) (simp_all add: Role_of_def)

lemma Role_of_Some: "Role_of v = Some r \<Longrightarrow> v = role_value r"
  by (auto simp: Role_of_def split: if_splits)

lemma role_rank_inj: "role_rank r = role_rank r' \<Longrightarrow> r = r'"
  by (cases r; cases r') simp_all

text \<open>The rank makes the roles a finite linear order, so that \<open>max(roles, key=role_rank)\<close> is \<open>Max\<close>.\<close>

instantiation Role :: linorder
begin

definition less_eq_Role :: "Role \<Rightarrow> Role \<Rightarrow> bool" where
  "less_eq_Role r r' \<longleftrightarrow> role_rank r \<le> role_rank r'"

definition less_Role :: "Role \<Rightarrow> Role \<Rightarrow> bool" where
  "less_Role r r' \<longleftrightarrow> role_rank r < role_rank r'"

instance
  by standard (auto simp: less_eq_Role_def less_Role_def intro: role_rank_inj)

end

instance Role :: finite
proof
  have "(UNIV :: Role set) = {OWNER, ADMIN, OPERATOR, VIEWER}"
    by (auto intro: Role.exhaust)
  then show "finite (UNIV :: Role set)" by (metis finite.emptyI finite.insertI)
qed

datatype PrincipalKind = USER | SERVICE | TOKEN

fun principal_kind_value :: "PrincipalKind \<Rightarrow> string" where
  "principal_kind_value USER = ''user''"
| "principal_kind_value SERVICE = ''service''"
| "principal_kind_value TOKEN = ''token''"

record Org =
  org_ident :: string
  org_name :: string

record User =
  user_id :: string
  user_org_id :: string
  user_name :: string
  user_email :: string

record Principal =
  principal_id :: string
  principal_org_id :: string
  principal_kind :: PrincipalKind
  principal_roles :: "Role set"
  principal_display :: string

definition identity :: "Principal \<Rightarrow> string" where
  "identity p = principal_kind_value (principal_kind p) @ '':'' @ principal_id p @ ''@'' @ principal_org_id p"

definition has_role :: "Principal \<Rightarrow> Role \<Rightarrow> bool" where
  "has_role p r \<longleftrightarrow> r \<in> principal_roles p"

definition max_role :: "Role set \<Rightarrow> Role option" where
  "max_role rs = (if rs = {} then None else Some (Max rs))"

definition has_at_least :: "Principal \<Rightarrow> Role \<Rightarrow> bool" where
  "has_at_least p r \<longleftrightarrow> (\<exists>r' \<in> principal_roles p. role_rank r \<le> role_rank r')"

text \<open>\<open>name or email or id\<close> takes the first non-empty string.\<close>

definition py_or :: "string \<Rightarrow> string \<Rightarrow> string" where
  "py_or a b = (if a = [] then b else a)"

definition for_user :: "User \<Rightarrow> Role set \<Rightarrow> Principal" where
  "for_user u rs = \<lparr>principal_id = user_id u, principal_org_id = user_org_id u,
     principal_kind = USER, principal_roles = rs,
     principal_display = py_or (user_name u) (py_or (user_email u) (user_id u))\<rparr>"

definition service_principal :: "string \<Rightarrow> string \<Rightarrow> Role set \<Rightarrow> Principal" where
  "service_principal i org rs = \<lparr>principal_id = i, principal_org_id = org,
     principal_kind = SERVICE, principal_roles = rs, principal_display = i\<rparr>"

text \<open>
  \<open>local_actor\<close>: the value of \<open>ODOOCTL_ACTOR\<close> (\<open>None\<close> when unset) wins; \<open>getuser\<close>
  is \<open>None\<close> where the call raises \<open>OSError\<close>.
\<close>

definition local_actor :: "string option \<Rightarrow> string option \<Rightarrow> string" where
  "local_actor env getuser =
     (let override = py_strip (case env of None \<Rightarrow> [] | Some v \<Rightarrow> v) in
      if override \<noteq> [] then override
      else ''local:'' @ (case getuser of None \<Rightarrow> ''unknown'' | Some u \<Rightarrow> u))"

text \<open>The floor test of authorization is the comparison with the most privileged role.\<close>

lemma has_at_least_iff_max_role:
  "has_at_least p r \<longleftrightarrow> (\<exists>m. max_role (principal_roles p) = Some m \<and> r \<le> m)"
proof (cases "principal_roles p = {}")
  case True
  then show ?thesis by (simp add: has_at_least_def max_role_def)
next
  case False
  have fin: "finite (principal_roles p)" by (rule finite)
  have "(\<exists>r' \<in> principal_roles p. r \<le> r') \<longleftrightarrow> r \<le> Max (principal_roles p)"
    using fin False by (simp add: Max_ge_iff)
  then show ?thesis using False by (simp add: has_at_least_def max_role_def less_eq_Role_def)
qed

lemma has_at_least_mono: "has_at_least p r \<Longrightarrow> r' \<le> r \<Longrightarrow> has_at_least p r'"
  by (auto simp: has_at_least_def less_eq_Role_def intro: order_trans)

end
