(* ===== verification/Rbac.thy ===== *)
theory Rbac
  imports Principals
begin

text \<open>
  \<open>odooctl/security/rbac.py\<close>: the role/action matrix, the floor for destructive actions on
  protected environments, and the checks built on them.
\<close>

named_theorems rbac_defs \<open>the constant sets and maps of the policy\<close>

datatype Action =
    A_READ | A_STATUS | A_LOGS | A_BACKUPS | A_OPERATIONS | A_AUDIT
  | A_BACKUP | A_DEPLOY | A_CLONE | A_RESTORE | A_PROMOTE | A_ENV | A_SECRETS | A_CANCEL | A_USERS

fun action_value :: "Action \<Rightarrow> string" where
  "action_value A_READ = ''read''"
| "action_value A_STATUS = ''status''"
| "action_value A_LOGS = ''logs''"
| "action_value A_BACKUPS = ''backups''"
| "action_value A_OPERATIONS = ''operations''"
| "action_value A_AUDIT = ''audit''"
| "action_value A_BACKUP = ''backup''"
| "action_value A_DEPLOY = ''deploy''"
| "action_value A_CLONE = ''clone''"
| "action_value A_RESTORE = ''restore''"
| "action_value A_PROMOTE = ''promote''"
| "action_value A_ENV = ''env''"
| "action_value A_SECRETS = ''secrets''"
| "action_value A_CANCEL = ''cancel''"
| "action_value A_USERS = ''users''"

definition all_actions :: "Action list" where
  "all_actions = [A_READ, A_STATUS, A_LOGS, A_BACKUPS, A_OPERATIONS, A_AUDIT,
     A_BACKUP, A_DEPLOY, A_CLONE, A_RESTORE, A_PROMOTE, A_ENV, A_SECRETS, A_CANCEL, A_USERS]"

definition READ_ACTIONS :: "Action set" where [rbac_defs]:
  "READ_ACTIONS = {A_READ, A_STATUS, A_LOGS, A_BACKUPS, A_OPERATIONS, A_AUDIT}"

definition WRITE_ACTIONS :: "Action set" where [rbac_defs]:
  "WRITE_ACTIONS = {A_BACKUP, A_DEPLOY, A_CLONE, A_RESTORE, A_PROMOTE, A_ENV, A_SECRETS, A_CANCEL, A_USERS}"

definition DESTRUCTIVE_ON_PROTECTED :: "Action set" where [rbac_defs]:
  "DESTRUCTIVE_ON_PROTECTED = {A_DEPLOY, A_CLONE, A_RESTORE, A_PROMOTE, A_ENV, A_SECRETS}"

definition PROJECT_WIDE_DISRUPTION_KINDS :: "string set" where
  "PROJECT_WIDE_DISRUPTION_KINDS = {''service_restart''}"

text \<open>
  The configuration is used through \<open>environments\<close> and \<open>is_protected\<close>
  (\<open>OdooCtlConfig.is_protected\<close> in \<open>odooctl/config.py\<close>): an explicit flag wins, otherwise
  the name or the tier \<open>production\<close> decides; an unknown environment raises \<open>KeyError\<close>.
\<close>

record EnvCfg =
  env_protected :: "bool option"
  env_tier :: string
  env_db_name :: string

type_synonym EnvMap = "(string, EnvCfg) dict"

definition is_protected :: "EnvMap \<Rightarrow> string \<Rightarrow> bool option" where
  "is_protected envs name =
     (case dict_get envs name of
        None \<Rightarrow> None
      | Some env \<Rightarrow>
          (case env_protected env of
             Some b \<Rightarrow> Some b
           | None \<Rightarrow> Some (name = ''production'' \<or> env_tier env = ''production'')))"

definition kind_protected :: "EnvMap \<Rightarrow> string \<Rightarrow> string \<Rightarrow> bool option" where
  "kind_protected envs kind environment =
     (if kind \<in> PROJECT_WIDE_DISRUPTION_KINDS
      then Some (\<exists>name \<in> set (map fst envs). is_protected envs name = Some True)
      else is_protected envs environment)"

definition PROTECTED_FLOOR :: Role where
  "PROTECTED_FLOOR = ADMIN"

fun ROLE_ACTIONS :: "Role \<Rightarrow> Action set" where
  "ROLE_ACTIONS VIEWER = READ_ACTIONS"
| "ROLE_ACTIONS OPERATOR = READ_ACTIONS \<union> {A_BACKUP, A_DEPLOY, A_CLONE, A_RESTORE, A_CANCEL}"
| "ROLE_ACTIONS ADMIN = READ_ACTIONS \<union> WRITE_ACTIONS"
| "ROLE_ACTIONS OWNER = READ_ACTIONS \<union> WRITE_ACTIONS"

text \<open>\<open>AccessDenied\<close> carries the message that callers print.\<close>

datatype AccessDenied = AccessDenied (denied_principal: Principal) (denied_action: Action) (denied_reason: string)

definition access_denied_message :: "AccessDenied \<Rightarrow> string" where
  "access_denied_message e = ''Access denied: '' @ identity (denied_principal e) @ '' cannot perform ''
     @ quoted (action_value (denied_action e)) @ '' ('' @ denied_reason e @ '')''"

definition roles_allow :: "Principal \<Rightarrow> Action \<Rightarrow> bool" where
  "roles_allow p a \<longleftrightarrow> (\<exists>r \<in> principal_roles p. a \<in> ROLE_ACTIONS r)"

definition is_allowed :: "Principal \<Rightarrow> Action \<Rightarrow> bool \<Rightarrow> bool" where
  "is_allowed p a protected =
     (if \<not> roles_allow p a then False
      else if protected \<and> a \<in> DESTRUCTIVE_ON_PROTECTED then has_at_least p PROTECTED_FLOOR
      else True)"

definition require_rbac :: "Principal \<Rightarrow> Action \<Rightarrow> bool \<Rightarrow> (AccessDenied, unit) result" where
  "require_rbac p a protected =
     (if \<not> roles_allow p a then Inl (AccessDenied p a ''role lacks this action'')
      else if protected \<and> a \<in> DESTRUCTIVE_ON_PROTECTED \<and> \<not> has_at_least p PROTECTED_FLOOR
      then Inl (AccessDenied p a (''protected environment requires '' @ role_value PROTECTED_FLOOR @ '' or higher''))
      else Inr ())"

definition allowed_actions :: "Role \<Rightarrow> bool \<Rightarrow> Action set" where
  "allowed_actions r protected =
     (let base = ROLE_ACTIONS r in
      if \<not> protected then base
      else if role_rank PROTECTED_FLOOR \<le> role_rank r then base
      else {a \<in> base. a \<notin> DESTRUCTIVE_ON_PROTECTED})"

definition role_matrix :: "(string, (string, bool) dict) dict" where
  "role_matrix = map (\<lambda>r. (role_value r, map (\<lambda>a. (action_value a, a \<in> ROLE_ACTIONS r)) all_actions))
     [OWNER, ADMIN, OPERATOR, VIEWER]"

section \<open>The policy\<close>

lemma all_actions_complete: "set all_actions = UNIV"
proof -
  have "a \<in> set all_actions" for a by (cases a) (simp_all add: all_actions_def)
  then show ?thesis by blast
qed

lemma require_iff_allowed: "require_rbac p a protected = Inr () \<longleftrightarrow> is_allowed p a protected"
  by (simp add: require_rbac_def is_allowed_def)

text \<open>Authorization is the union of what the single roles may do, except that the floor
  looks at all roles of the principal together.\<close>

lemma ROLE_ACTIONS_mono: "r \<le> r' \<Longrightarrow> ROLE_ACTIONS r \<subseteq> ROLE_ACTIONS r'"
  by (cases r; cases r') (auto simp: less_eq_Role_def rbac_defs)

lemma roles_allow_max:
  "roles_allow p a \<longleftrightarrow> (\<exists>m. max_role (principal_roles p) = Some m \<and> a \<in> ROLE_ACTIONS m)"
proof (cases "principal_roles p = {}")
  case True
  then show ?thesis by (simp add: roles_allow_def max_role_def)
next
  case False
  have fin: "finite (principal_roles p)" by (rule finite)
  have "(\<exists>r \<in> principal_roles p. a \<in> ROLE_ACTIONS r) \<longleftrightarrow> a \<in> ROLE_ACTIONS (Max (principal_roles p))"
    using Max_ge[OF fin] Max_in[OF fin False] ROLE_ACTIONS_mono by blast
  then show ?thesis using False by (simp add: roles_allow_def max_role_def)
qed

lemma is_allowed_allowed_actions:
  "is_allowed p a protected \<longleftrightarrow>
     (\<exists>m. max_role (principal_roles p) = Some m \<and> a \<in> allowed_actions m protected)"
  by (auto simp: is_allowed_def roles_allow_max has_at_least_iff_max_role allowed_actions_def
      Let_def less_eq_Role_def)

lemma allowed_actions_mono: "r \<le> r' \<Longrightarrow> allowed_actions r protected \<subseteq> allowed_actions r' protected"
  using ROLE_ACTIONS_mono[of r r'] by (auto simp: allowed_actions_def Let_def less_eq_Role_def)

lemma destructive_needs_admin:
  "require_rbac p a True = Inr () \<Longrightarrow> a \<in> DESTRUCTIVE_ON_PROTECTED \<Longrightarrow> has_at_least p ADMIN"
  by (auto simp: require_rbac_def PROTECTED_FLOOR_def split: if_splits)

lemma is_protected_None_iff: "is_protected envs name = None \<longleftrightarrow> name \<notin> set (map fst envs)"
  by (auto simp: is_protected_def dict_get_None_iff[symmetric] split: option.splits)

end
