(* ===== verification/Api_Queue.thy ===== *)
theory Api_Queue
  imports Op_Models "HOL-Library.Multiset"
begin

text \<open>
  \<open>odooctl/api/queue.py\<close>: the durable queue between the API and the runner, one file per
  entry whose suffix is its state.  The directory is modelled by one dictionary per suffix,
  keyed by the stem of the file name; a rename moves an entry between dictionaries and keeps
  its text and modification time.  Stems are non-empty.  The locale \<open>fifo_queue\<close> is the
  queue as the API and the runner use it.
\<close>

section \<open>Entries\<close>

record QueueEntry =
  qe_op_id :: string
  qe_kind :: string
  qe_project :: string
  qe_environment :: string
  qe_actor :: string
  qe_params_redacted :: json
  qe_token :: string
  qe_created_at :: string

definition entry_dict :: "QueueEntry \<Rightarrow> (string \<times> json) list" where
  "entry_dict e =
     [(''op_id'', JStr (qe_op_id e)), (''kind'', JStr (qe_kind e)), (''project'', JStr (qe_project e)),
      (''environment'', JStr (qe_environment e)), (''actor'', JStr (qe_actor e)),
      (''params_redacted'', qe_params_redacted e), (''token'', JStr (qe_token e)),
      (''created_at'', JStr (qe_created_at e))]"

definition entry_to_json :: "QueueEntry \<Rightarrow> string" where
  "entry_to_json e = dumps_with indent_layout (JObj (entry_dict e))"

definition entry_from_json :: "string \<Rightarrow> (py_error, QueueEntry) result" where
  "entry_from_json t =
     bindE (parse_object t) (\<lambda>d.
     bindE (req_str d ''op_id'') (\<lambda>i.
     bindE (req_str d ''kind'') (\<lambda>k.
     bindE (req_str d ''project'') (\<lambda>p.
     bindE (req_str d ''environment'') (\<lambda>en.
     bindE (req_str d ''actor'') (\<lambda>a.
     bindE (req_str d ''token'') (\<lambda>t.
     bindE (as_str (opt_field d ''created_at'' (JStr []))) (\<lambda>c.
       Inr \<lparr>qe_op_id = i, qe_kind = k, qe_project = p, qe_environment = en, qe_actor = a,
            qe_params_redacted = opt_field d ''params_redacted'' (JObj []), qe_token = t,
            qe_created_at = c\<rparr>))))))))"

definition entry_create ::
  "string \<Rightarrow> string \<Rightarrow> string \<Rightarrow> string \<Rightarrow> string \<Rightarrow> string \<Rightarrow> json \<Rightarrow> string \<Rightarrow> QueueEntry" where
  "entry_create now op_id kind project environment actor params token =
     \<lparr>qe_op_id = op_id, qe_kind = kind, qe_project = project, qe_environment = environment,
      qe_actor = actor, qe_params_redacted = params, qe_token = token, qe_created_at = now\<rparr>"

definition entry_wf :: "QueueEntry \<Rightarrow> bool" where
  "entry_wf e \<longleftrightarrow> wf_json (qe_params_redacted e)"

lemma entry_json_roundtrip: "entry_wf e \<Longrightarrow> entry_from_json (entry_to_json e) = Inr e"
proof -
  assume "entry_wf e"
  then have "wf_json (JObj (entry_dict e))" by (simp add: entry_dict_def entry_wf_def)
  then show ?thesis
    by (simp add: entry_from_json_def entry_to_json_def parse_object_def loads_dumps
        entry_dict_def field_defs del: wf_json.simps)
qed

section \<open>The directory\<close>

record qfile =
  qf_text :: string
  qf_mtime :: int

record queue_dir =
  q_pending :: "(string, qfile) dict"
  q_running :: "(string, qfile) dict"
  q_failed :: "(string, qfile) dict"
  q_corrupt :: "(string, qfile) dict"

definition queue_init :: queue_dir where
  "queue_init = \<lparr>q_pending = [], q_running = [], q_failed = [], q_corrupt = []\<rparr>"

text \<open>\<open>mt\<close> is the time the temporary file is written.\<close>

definition enqueue :: "int \<Rightarrow> QueueEntry \<Rightarrow> queue_dir \<Rightarrow> queue_dir" where
  "enqueue mt e q = q\<lparr>q_pending := dict_put (qe_op_id e) \<lparr>qf_text = entry_to_json e, qf_mtime = mt\<rparr> (q_pending q)\<rparr>"

definition queue_cancel :: "string \<Rightarrow> queue_dir \<Rightarrow> queue_dir" where
  "queue_cancel i q = q\<lparr>q_pending := dict_del i (q_pending q)\<rparr>"

text \<open>
  One turn of the loop of \<open>claim_next\<close>: rename to \<open>.running\<close>, read, and on any failure
  rename to \<open>.corrupt\<close>.  \<open>None\<close> is the \<open>continue\<close> of the loop.
\<close>

definition claim_try :: "string \<Rightarrow> queue_dir \<Rightarrow> queue_dir \<times> QueueEntry option" where
  "claim_try i q =
     (case dict_get (q_pending q) i of
        None \<Rightarrow> (q, None)
      | Some f \<Rightarrow>
          (let q1 = q\<lparr>q_pending := dict_del i (q_pending q), q_running := dict_put i f (q_running q)\<rparr> in
           case entry_from_json (qf_text f) of
             Inr e \<Rightarrow> (q1, Some e)
           | Inl _ \<Rightarrow> (q1\<lparr>q_running := dict_del i (q_running q1), q_corrupt := dict_put i f (q_corrupt q1)\<rparr>, None)))"

fun claim_loop :: "string list \<Rightarrow> queue_dir \<Rightarrow> queue_dir \<times> QueueEntry option" where
  "claim_loop [] q = (q, None)"
| "claim_loop (i # is) q =
     (case claim_try i q of
        (q', Some e) \<Rightarrow> (q', Some e)
      | (q', None) \<Rightarrow> claim_loop is q')"

definition claim_candidates :: "queue_dir \<Rightarrow> string list" where
  "claim_candidates q = map fst (sort_key (\<lambda>(_, f). qf_mtime f) (q_pending q))"

definition claim_next :: "queue_dir \<Rightarrow> queue_dir \<times> QueueEntry option" where
  "claim_next q = claim_loop (claim_candidates q) q"

definition queue_complete :: "string \<Rightarrow> queue_dir \<Rightarrow> queue_dir" where
  "queue_complete i q = q\<lparr>q_running := dict_del i (q_running q)\<rparr>"

definition queue_fail :: "string \<Rightarrow> queue_dir \<Rightarrow> queue_dir" where
  "queue_fail i q =
     (case dict_get (q_running q) i of
        None \<Rightarrow> q
      | Some f \<Rightarrow> q\<lparr>q_running := dict_del i (q_running q), q_failed := dict_put i f (q_failed q)\<rparr>)"

section \<open>The queue as its users see it\<close>

locale fifo_queue =
  fixes enq :: "'j \<Rightarrow> 's \<Rightarrow> 's"
    and deq :: "'s \<Rightarrow> 's \<times> 'e option"
    and items :: "'s \<Rightarrow> 'e list"
    and payload :: "'j \<Rightarrow> 'e"
    and fits :: "'j \<Rightarrow> 's \<Rightarrow> bool"
    and inv :: "'s \<Rightarrow> bool"
  assumes items_enq: "inv s \<Longrightarrow> fits j s \<Longrightarrow> items (enq j s) = items s @ [payload j]"
    and inv_enq: "inv s \<Longrightarrow> fits j s \<Longrightarrow> inv (enq j s)"
    and deq_empty: "inv s \<Longrightarrow> items s = [] \<Longrightarrow> deq s = (s, None)"
    and deq_first: "inv s \<Longrightarrow> items s = e # es \<Longrightarrow>
       snd (deq s) = Some e \<and> items (fst (deq s)) = es \<and> inv (fst (deq s))"
begin

text \<open>A run of enqueues (\<open>Some j\<close>) and dequeues (\<open>None\<close>), with what the dequeues return.\<close>

fun queue_run :: "'j option list \<Rightarrow> 's \<Rightarrow> 'e list \<times> 's" where
  "queue_run [] s = ([], s)"
| "queue_run (Some j # acts) s = queue_run acts (enq j s)"
| "queue_run (None # acts) s =
     (case deq s of (s', r) \<Rightarrow>
        (case queue_run acts s' of (out, t) \<Rightarrow> ((case r of None \<Rightarrow> out | Some e \<Rightarrow> e # out), t)))"

fun all_fit :: "'j option list \<Rightarrow> 's \<Rightarrow> bool" where
  "all_fit [] s = True"
| "all_fit (Some j # acts) s = (fits j s \<and> all_fit acts (enq j s))"
| "all_fit (None # acts) s = all_fit acts (fst (deq s))"

lemma fifo:
  assumes "inv s" "all_fit acts s" "queue_run acts s = (out, t)"
  shows "out @ items t = items s @ map payload (concat (map (case_option [] (\<lambda>j. [j])) acts)) \<and> inv t"
  using assms
proof (induction acts s arbitrary: out rule: queue_run.induct)
  case (2 j acts s)
  then show ?case by (auto simp: items_enq inv_enq)
next
  case (3 acts s)
  obtain s' r where d: "deq s = (s', r)" by (cases "deq s")
  obtain out' t' where q: "queue_run acts s' = (out', t')" by (cases "queue_run acts s'")
  have t: "t' = t" using 3(4) d q by simp
  show ?case
  proof (cases "items s")
    case Nil
    with deq_empty[OF 3(2)] d have "s' = s" "r = None" by simp_all
    with 3(1)[OF d[symmetric], of out'] 3 d q t show ?thesis by simp
  next
    case (Cons e es)
    with deq_first[OF 3(2) this] d have "r = Some e" "items s' = es" "inv s'" by simp_all
    with 3(1)[OF d[symmetric], of out'] 3 d q t Cons show ?thesis by auto
  qed
qed simp

end

definition pending_ok :: "queue_dir \<Rightarrow> bool" where
  "pending_ok q \<longleftrightarrow> dict_wf (q_pending q) \<and>
     (\<forall>(i, f) \<in> set (q_pending q). \<exists>e. entry_wf e \<and> qe_op_id e = i \<and> qf_text f = entry_to_json e)"

definition file_entry :: "qfile \<Rightarrow> QueueEntry option" where
  "file_entry f = result_option (entry_from_json (qf_text f))"

definition queued_entries :: "queue_dir \<Rightarrow> QueueEntry list" where
  "queued_entries q = collect file_entry (map snd (sort_key (\<lambda>(_, f). qf_mtime f) (q_pending q)))"

text \<open>A fresh operation id and a file time later than those of the waiting entries.\<close>

definition queue_fits :: "int \<times> QueueEntry \<Rightarrow> queue_dir \<Rightarrow> bool" where
  "queue_fits j q \<longleftrightarrow> entry_wf (snd j) \<and> dict_get (q_pending q) (qe_op_id (snd j)) = None \<and>
     (\<forall>(i, f) \<in> set (q_pending q). qf_mtime f < fst j)"

lemma sort_key_snoc:
  assumes "\<And>y. y \<in> set xs \<Longrightarrow> f y \<le> f x"
  shows "sort_key f (xs @ [x]) = sort_key f xs @ [x]"
proof (rule properties_for_sort_key)
  show "mset (sort_key f xs @ [x]) = mset (xs @ [x])" by simp
  show "filter (\<lambda>y. f k = f y) (sort_key f xs @ [x]) = filter (\<lambda>y. f k = f y) (xs @ [x])" for k
    using sort_key_stable[of f "f k" xs] by (simp add: eq_commute[of "f k"])
  show "sorted (map f (sort_key f xs @ [x]))" using assms by (auto simp: sorted_append)
qed

lemma sort_key_tail:
  assumes "sort_key f d = (i, v) # rest" and "distinct (map fst d)"
  shows "sort_key f (dict_del i d) = rest"
proof -
  have "distinct (map fst ((i, v) # rest))" using assms distinct_map_sort[of fst f d] by simp
  then have "filter (\<lambda>(k, _). k \<noteq> i) rest = rest" by (force simp: filter_id_conv)
  then show ?thesis using assms(1) by (simp add: dict_del_def flip: filter_sort)
qed

lemma enqueue_items:
  assumes "queue_fits (mt, e) q"
  shows "queued_entries (enqueue mt e q) = queued_entries q @ [e]"
proof -
  have put: "q_pending (enqueue mt e q) = q_pending q @ [(qe_op_id e, \<lparr>qf_text = entry_to_json e, qf_mtime = mt\<rparr>)]"
    using assms by (simp add: enqueue_def queue_fits_def dict_put_fresh dict_get_None_iff)
  have "sort_key (\<lambda>(_, f). qf_mtime f) (q_pending (enqueue mt e q))
      = sort_key (\<lambda>(_, f). qf_mtime f) (q_pending q) @ [(qe_op_id e, \<lparr>qf_text = entry_to_json e, qf_mtime = mt\<rparr>)]"
    unfolding put using assms by (intro sort_key_snoc) (fastforce simp: queue_fits_def)
  moreover have "entry_wf e" using assms by (simp add: queue_fits_def)
  ultimately show ?thesis by (simp add: queued_entries_def file_entry_def entry_json_roundtrip)
qed

lemma enqueue_ok: "pending_ok q \<Longrightarrow> entry_wf e \<Longrightarrow> pending_ok (enqueue mt e q)"
proof -
  have "set (dict_put k v d) \<subseteq> insert (k, v) (set d)" for k :: string and v :: qfile and d
    by (induction d) (auto simp: dict_put_def)
  then show "pending_ok q \<Longrightarrow> entry_wf e \<Longrightarrow> pending_ok (enqueue mt e q)"
    by (fastforce simp: pending_ok_def enqueue_def)
qed

lemma pending_ok_del: "pending_ok q \<Longrightarrow> q_pending q' = dict_del i (q_pending q) \<Longrightarrow> pending_ok q'"
  by (auto simp: pending_ok_def dict_del_def dict_wf_del[unfolded dict_del_def])

text \<open>A waiting file is claimed with the entry that was enqueued under its name.\<close>

lemma claim_try_hit:
  assumes "pending_ok q" and "dict_get (q_pending q) i = Some f"
  shows "\<exists>e. file_entry f = Some e \<and> qe_op_id e = i \<and> snd (claim_try i q) = Some e \<and>
     q_pending (fst (claim_try i q)) = dict_del i (q_pending q) \<and>
     dict_get (q_running (fst (claim_try i q))) i = Some f"
proof -
  have "(i, f) \<in> set (q_pending q)" using assms by (simp add: pending_ok_def dict_get_iff_mem)
  with assms(1) obtain e where e: "entry_wf e" "qe_op_id e = i" "qf_text f = entry_to_json e"
    by (force simp: pending_ok_def)
  then show ?thesis using assms(2)
    by (simp add: claim_try_def file_entry_def entry_json_roundtrip Let_def)
qed

lemma claim_next_first:
  assumes ok: "pending_ok q" and items: "queued_entries q = e # es"
  shows "snd (claim_next q) = Some e \<and> queued_entries (fst (claim_next q)) = es \<and> pending_ok (fst (claim_next q)) \<and>
     dict_has (q_running (fst (claim_next q))) (qe_op_id e) \<and> \<not> dict_has (q_pending (fst (claim_next q))) (qe_op_id e)"
proof (cases "sort_key (\<lambda>(_, f). qf_mtime f) (q_pending q)")
  case Nil
  with items show ?thesis by (simp add: queued_entries_def)
next
  case (Cons p rest)
  obtain i f where p: "p = (i, f)" by (cases p)
  have wf: "distinct (map fst (q_pending q))" using ok by (simp add: pending_ok_def dict_wf_def)
  have "(i, f) \<in> set (sort_key (\<lambda>(_, f). qf_mtime f) (q_pending q))" using Cons p by simp
  then have "dict_get (q_pending q) i = Some f" using ok by (simp add: pending_ok_def dict_get_iff_mem)
  from claim_try_hit[OF ok this] obtain e' where e': "file_entry f = Some e'" "qe_op_id e' = i"
    "snd (claim_try i q) = Some e'" "q_pending (fst (claim_try i q)) = dict_del i (q_pending q)"
    "dict_get (q_running (fst (claim_try i q))) i = Some f" by blast
  have "claim_next q = claim_try i q"
    using e'(3) Cons p by (cases "claim_try i q") (simp add: claim_next_def claim_candidates_def)
  moreover have "e' = e" "collect file_entry (map snd rest) = es" using items Cons p e'(1) by (simp_all add: queued_entries_def)
  moreover have "sort_key (\<lambda>(_, f). qf_mtime f) (dict_del i (q_pending q)) = rest"
    using sort_key_tail[OF _ wf] Cons p by simp
  ultimately show ?thesis using e' pending_ok_del[OF ok e'(4)] by (simp add: queued_entries_def)
qed

lemma claim_next_empty: "pending_ok q \<Longrightarrow> queued_entries q = [] \<Longrightarrow> claim_next q = (q, None)"
proof -
  assume ok: "pending_ok q" and items: "queued_entries q = []"
  show ?thesis
  proof (cases "sort_key (\<lambda>(_, f). qf_mtime f) (q_pending q)")
    case Nil
    then show ?thesis by (simp add: claim_next_def claim_candidates_def)
  next
    case (Cons p rest)
    obtain i f where p: "p = (i, f)" by (cases p)
    have "(i, f) \<in> set (sort_key (\<lambda>(_, f). qf_mtime f) (q_pending q))" using Cons p by simp
    then have "dict_get (q_pending q) i = Some f" using ok by (simp add: pending_ok_def dict_get_iff_mem)
    from claim_try_hit[OF ok this] items Cons p show ?thesis by (auto simp: queued_entries_def)
  qed
qed

interpretation api_queue: fifo_queue "\<lambda>(mt, e). enqueue mt e" claim_next queued_entries snd queue_fits pending_ok
proof
  fix s and j :: "int \<times> QueueEntry"
  assume ok: "pending_ok s" and fits: "queue_fits j s"
  obtain mt e where j: "j = (mt, e)" by (cases j)
  show "queued_entries ((case j of (mt, e) \<Rightarrow> enqueue mt e) s) = queued_entries s @ [snd j]"
    using enqueue_items fits j by simp
  show "pending_ok ((case j of (mt, e) \<Rightarrow> enqueue mt e) s)"
    using enqueue_ok[OF ok] fits j by (simp add: queue_fits_def)
next
  fix s e es
  assume "pending_ok s" "queued_entries s = e # es"
  from claim_next_first[OF this]
  show "snd (claim_next s) = Some e \<and> queued_entries (fst (claim_next s)) = es \<and> pending_ok (fst (claim_next s))"
    by simp
qed (simp add: claim_next_empty)

section \<open>Several runners and the API\<close>

text \<open>
  The atomic file operations of concurrent processes in any order: an enqueue, a cancel, one
  turn of some runner's claim loop on some candidate of its (perhaps outdated) listing, and
  the ends of executions.
\<close>

datatype queue_act =
    ActEnqueue int QueueEntry | ActCancel string | ActTry string | ActComplete string | ActFail string

fun queue_step :: "queue_act \<Rightarrow> queue_dir \<Rightarrow> queue_dir \<times> QueueEntry option" where
  "queue_step (ActEnqueue mt e) q = (enqueue mt e q, None)"
| "queue_step (ActCancel i) q = (queue_cancel i q, None)"
| "queue_step (ActTry i) q = claim_try i q"
| "queue_step (ActComplete i) q = (queue_complete i q, None)"
| "queue_step (ActFail i) q = (queue_fail i q, None)"

fun queue_acts :: "queue_act list \<Rightarrow> queue_dir \<Rightarrow> queue_dir \<times> QueueEntry list" where
  "queue_acts [] q = (q, [])"
| "queue_acts (a # as) q =
     (case queue_step a q of (q', r) \<Rightarrow>
        (case queue_acts as q' of (t, es) \<Rightarrow> (t, (case r of None \<Rightarrow> es | Some e \<Rightarrow> e # es))))"

definition enqueues_of :: "string \<Rightarrow> queue_act list \<Rightarrow> nat" where
  "enqueues_of i as = length (filter (\<lambda>a. case a of ActEnqueue _ e \<Rightarrow> qe_op_id e = i | _ \<Rightarrow> False) as)"

definition claims_of :: "string \<Rightarrow> QueueEntry list \<Rightarrow> nat" where
  "claims_of i es = length (filter (\<lambda>e. qe_op_id e = i) es)"

definition acts_wf :: "queue_act list \<Rightarrow> bool" where
  "acts_wf as \<longleftrightarrow> (\<forall>a \<in> set as. case a of ActEnqueue _ e \<Rightarrow> entry_wf e | _ \<Rightarrow> True)"

definition waiting :: "string \<Rightarrow> queue_dir \<Rightarrow> nat" where
  "waiting i q = (if dict_has (q_pending q) i then 1 else 0)"

lemma queue_fail_pending [simp]: "q_pending (queue_fail i q) = q_pending q"
  by (simp add: queue_fail_def split: option.split)

lemma claim_try_miss: "dict_get (q_pending q) i = None \<Longrightarrow> claim_try i q = (q, None)"
  by (simp add: claim_try_def)

lemma queue_step_ok: "pending_ok q \<Longrightarrow> acts_wf [a] \<Longrightarrow> pending_ok (fst (queue_step a q))"
proof (cases a)
  case (ActTry i)
  assume ok: "pending_ok q"
  show ?thesis
  proof (cases "dict_get (q_pending q) i")
    case None
    with ok ActTry show ?thesis by (simp add: claim_try_miss)
  next
    case (Some f)
    from claim_try_hit[OF ok this] pending_ok_del[OF ok] ActTry show ?thesis by auto
  qed
next
  case (ActEnqueue mt e)
  assume "pending_ok q" "acts_wf [a]"
  with ActEnqueue show ?thesis by (simp add: acts_wf_def enqueue_ok)
next
  case (ActCancel i)
  assume "pending_ok q"
  from pending_ok_del[OF this] ActCancel show ?thesis by (simp add: queue_cancel_def)
qed (simp_all add: pending_ok_def queue_complete_def)

lemma queue_step_count:
  assumes "pending_ok q" and "queue_step a q = (q', r)"
  shows "claims_of i (case r of None \<Rightarrow> [] | Some e \<Rightarrow> [e]) + waiting i q' \<le> enqueues_of i [a] + waiting i q"
proof (cases a)
  case (ActTry j)
  show ?thesis
  proof (cases "dict_get (q_pending q) j")
    case None
    with assms ActTry show ?thesis by (simp add: claim_try_miss claims_of_def)
  next
    case (Some f)
    from claim_try_hit[OF assms(1) this] obtain e where "qe_op_id e = j" "r = Some e"
      "q_pending q' = dict_del j (q_pending q)" using assms ActTry by auto
    with Some show ?thesis by (cases "i = j") (simp_all add: claims_of_def waiting_def)
  qed
qed (use assms in \<open>auto simp: claims_of_def waiting_def enqueues_of_def enqueue_def queue_cancel_def queue_complete_def
    split: if_splits\<close>)

lemma claims_bounded:
  "pending_ok q \<Longrightarrow> acts_wf as \<Longrightarrow> queue_acts as q = (t, es) \<Longrightarrow>
   claims_of i es + waiting i t \<le> enqueues_of i as + waiting i q"
proof (induction as arbitrary: q es)
  case (Cons a as)
  obtain q' r where st: "queue_step a q = (q', r)" by (cases "queue_step a q")
  obtain t' es' where rest: "queue_acts as q' = (t', es')" by (cases "queue_acts as q'")
  have t: "t' = t" and es: "es = (case r of None \<Rightarrow> es' | Some e \<Rightarrow> e # es')"
    using Cons.prems(3) st rest by (simp_all split: option.splits)
  have wf: "acts_wf [a]" "acts_wf as" using Cons.prems(2) by (simp_all add: acts_wf_def)
  have "pending_ok q'" using queue_step_ok[OF Cons.prems(1) wf(1)] st by simp
  from Cons.IH[OF this wf(2)] rest t have "claims_of i es' + waiting i t \<le> enqueues_of i as + waiting i q'" by simp
  moreover note queue_step_count[OF Cons.prems(1) st, of i]
  ultimately show ?case
    by (auto simp: es claims_of_def enqueues_of_def split: option.splits if_splits)
qed (simp add: claims_of_def enqueues_of_def)

end
