(* ===== verification/Dispatch.thy ===== *)
theory Dispatch
  imports Op_Engine Rbac Api_Queue
begin

text \<open>
  \<open>_dispatch\<close> of \<open>odooctl/runner/worker.py\<close>: from a claimed queue entry to the service
  call of its kind, with the checks of its parameters and the events it emits.  The services
  are a record of functions from the arguments of the call to its result or the way it ends
  otherwise; an action is the list of the calls it made, the events it emitted and its
  outcome, so that statements can speak of the calls that were made.
\<close>

section \<open>Services\<close>

record backup_result =
  br_backup_id :: string
  br_remote_uri :: "string option"
  br_remote_status :: string
  br_remote_error :: "string option"

record run_result =
  rr_status :: string
  rr_message :: "string option"
  rr_reference :: string

record snapshot_manifest =
  sm_snapshot_id :: string
  sm_provider :: string
  sm_status :: string
  sm_source_resource_id :: string

record snapshot_plan =
  sp_provider :: string
  sp_source_resource_id :: string
  sp_commands :: "string list list"
  sp_destructive :: bool
  sp_notes :: "string list"

record snapshot_outcome =
  so_plan :: snapshot_plan
  so_executed :: bool
  so_restored :: "string list"
  so_message :: "string option"
  so_status :: string

record base_manifest =
  bm_base_backup_id :: string
  bm_system_identifier :: string
  bm_end_wal :: string
  bm_remote_uri :: "string option"

record retention_result =
  re_retained :: "string list"
  re_deleted :: "string list"
  re_deleted_wal :: "string list"

record restore_manifest =
  rm_restore_id :: string
  rm_database :: string
  rm_new_database :: string
  rm_target_time :: string
  rm_recovered_lsn :: "string option"
  rm_filestore_consistency :: string

record migration_manifest =
  mm_migration_id :: string
  mm_inventory_sha256 :: string
  mm_object_count :: int
  mm_total_size :: int
  mm_source_deleted :: bool

record migration_path =
  mp_from :: string
  mp_to :: string
  mp_requires_openupgrade :: bool

text \<open>The calls, with the arguments that are not fixed by the project.\<close>

datatype service_call =
    CallBackup string
  | CallClone json string
  | CallDrDrill string
  | CallSnapshotCreate string
  | CallSnapshotReconcile string string
  | CallSnapshotRestore string bool json json string
  | CallPitrBase string
  | CallPitrReconcile string
  | CallPitrRestore string string
  | CallPitrCutover string string string string bool
  | CallPlanMigration string
  | CallSyncMigration string string
  | CallVerifyMigration string string
  | CallCutoverMigration string string string bool
  | CallDownloadMigration string string "string list"
  | CallDeleteSource string string string string bool
  | CallDeleteMarker string string string
  | CallDbAdapter
  | CallRehearsal string string string string bool bool bool
  | CallLogs string int
  | CallRestart string
  | CallPs

text \<open>What a service does with a call: a value, or the end of the dispatch.\<close>

type_synonym 'a served = "(block_end, 'a) result"

record services =
  sv_backup :: "string \<Rightarrow> backup_result served"
  sv_clone :: "json \<Rightarrow> string \<Rightarrow> string served"
  sv_dr_drill :: "string \<Rightarrow> run_result served"
  sv_snapshot_create :: "string \<Rightarrow> snapshot_manifest served"
  sv_snapshot_reconcile :: "string \<Rightarrow> string \<Rightarrow> snapshot_manifest served"
  sv_snapshot_restore :: "string \<Rightarrow> bool \<Rightarrow> json \<Rightarrow> json \<Rightarrow> string \<Rightarrow> snapshot_outcome served"
  sv_pitr_base :: "string \<Rightarrow> base_manifest served"
  sv_pitr_reconcile :: "string \<Rightarrow> retention_result served"
  sv_pitr_restore :: "string \<Rightarrow> string \<Rightarrow> restore_manifest served"
  sv_pitr_cutover :: "string \<Rightarrow> string \<Rightarrow> string \<Rightarrow> string \<Rightarrow> bool \<Rightarrow> restore_manifest served"
  sv_plan_migration :: "string \<Rightarrow> migration_manifest served"
  sv_sync_migration :: "string \<Rightarrow> string \<Rightarrow> migration_manifest served"
  sv_verify_migration :: "string \<Rightarrow> string \<Rightarrow> migration_manifest served"
  sv_cutover_migration :: "string \<Rightarrow> string \<Rightarrow> string \<Rightarrow> bool \<Rightarrow> migration_manifest served"
  sv_download_migration :: "string \<Rightarrow> string \<Rightarrow> string list \<Rightarrow> string served"
  sv_delete_source :: "string \<Rightarrow> string \<Rightarrow> string \<Rightarrow> string \<Rightarrow> bool \<Rightarrow> migration_manifest served"
  sv_delete_marker :: "string \<Rightarrow> string \<Rightarrow> string \<Rightarrow> string served"
  sv_db_adapter :: "unit served"
  sv_rehearsal :: "string \<Rightarrow> string \<Rightarrow> string \<Rightarrow> string \<Rightarrow> bool \<Rightarrow> bool \<Rightarrow> bool \<Rightarrow> run_result served"
  sv_logs :: "string \<Rightarrow> int \<Rightarrow> string served"
  sv_restart :: "string \<Rightarrow> unit served"
  sv_ps :: "string served"

text \<open>
  What a dispatch reads of its project: the fields of the configuration it uses (a Kubernetes
  runtime has no compose file), the migration matrix, the root directory and \<open>Path.resolve\<close>
  as functions on path parts, and the environment of the process for redaction.
\<close>

record dispatch_config =
  dc_envs :: EnvMap
  dc_odoo_service :: string
  dc_postgres_service :: string
  dc_compose_file :: "string option"
  dc_odoo_version :: string
  dc_matrix :: "migration_path list"
  dc_root :: "string list"
  dc_resolve :: "string list \<Rightarrow> string list"
  dc_environ :: "(string \<times> string) list"

section \<open>Actions\<close>

type_synonym 'a act = "service_call list \<times> emission list \<times> 'a served"

definition act_return :: "'a \<Rightarrow> 'a act" where
  "act_return x = ([], [], Inr x)"

definition act_raise :: "string \<Rightarrow> 'a act" where
  "act_raise m = ([], [], Inl (BlockRaises m))"

definition act_call :: "service_call \<Rightarrow> 'a served \<Rightarrow> 'a act" where
  "act_call c r = ([c], [], r)"

definition act_say :: "string \<Rightarrow> string \<Rightarrow> (string \<times> json) list \<Rightarrow> unit act" where
  "act_say msg phase kvs = ([], [\<lparr>em_message = msg, em_phase = phase, em_level = ''info'', em_data = JObj kvs\<rparr>], Inr ())"

definition act_bind :: "'a act \<Rightarrow> ('a \<Rightarrow> 'b act) \<Rightarrow> 'b act" where
  "act_bind m f = (case m of
     (cs, es, Inl e) \<Rightarrow> (cs, es, Inl e)
   | (cs, es, Inr x) \<Rightarrow> (case f x of (cs', es', r) \<Rightarrow> (cs @ cs', es @ es', r)))"

definition act_check :: "bool \<Rightarrow> string \<Rightarrow> unit act" where
  "act_check ok m = (if ok then act_return () else act_raise m)"

definition calls_of :: "'a act \<Rightarrow> service_call list" where
  "calls_of a = fst a"

definition says_of :: "'a act \<Rightarrow> emission list" where
  "says_of a = fst (snd a)"

section \<open>Parameters\<close>

definition json_type_name :: "json \<Rightarrow> string" where
  "json_type_name j = (case j of JNull \<Rightarrow> ''NoneType'' | JBool _ \<Rightarrow> ''bool'' | JInt _ \<Rightarrow> ''int'' | JStr _ \<Rightarrow> ''str''
     | JList _ \<Rightarrow> ''list'' | JObj _ \<Rightarrow> ''dict'')"

text \<open>\<open>params.get(k, d)\<close>; parameters that are no object have no \<open>get\<close>.\<close>

definition param :: "QueueEntry \<Rightarrow> string \<Rightarrow> json \<Rightarrow> json act" where
  "param e k d =
     (case qe_params_redacted e of
        JObj kvs \<Rightarrow> act_return (opt_field kvs k d)
      | j \<Rightarrow> act_raise (quoted (json_type_name j) @ '' object has no attribute '' @ quoted ''get''))"

definition text_param :: "QueueEntry \<Rightarrow> string \<Rightarrow> string \<Rightarrow> string act" where
  "text_param e k m = act_bind (param e k JNull) (\<lambda>j. case j of JStr s \<Rightarrow> act_return s | _ \<Rightarrow> act_raise m)"

definition bool_param :: "QueueEntry \<Rightarrow> string \<Rightarrow> string \<Rightarrow> bool act" where
  "bool_param e k m = act_bind (param e k JNull) (\<lambda>j. case j of JBool b \<Rightarrow> act_return b | _ \<Rightarrow> act_raise m)"

text \<open>A text that must not be empty.\<close>

definition id_param :: "QueueEntry \<Rightarrow> string \<Rightarrow> string \<Rightarrow> string act" where
  "id_param e k m = act_bind (text_param e k m) (\<lambda>s. act_bind (act_check (s \<noteq> []) m) (\<lambda>_. act_return s))"

definition unknown_env_message :: "EnvMap \<Rightarrow> string \<Rightarrow> string" where
  "unknown_env_message envs name =
     ''Unknown environment '' @ quoted name @ ''. Known: '' @ join_with '', '' (sort (map fst envs))"

text \<open>\<open>cfg.env(name)\<close>; \<open>str\<close> of the \<open>KeyError\<close> is the \<open>repr\<close> of its message.\<close>

definition env_config :: "dispatch_config \<Rightarrow> string \<Rightarrow> EnvCfg act" where
  "env_config c name =
     (case dict_get (dc_envs c) name of
        None \<Rightarrow> act_raise (repr_str (unknown_env_message (dc_envs c) name))
      | Some env \<Rightarrow> act_return env)"

definition resolve_service_param :: "dispatch_config \<Rightarrow> json \<Rightarrow> string act" where
  "resolve_service_param c requested =
     (if requested = JNull \<or> requested = JStr [] then act_return (dc_odoo_service c)
      else
        (let service = str_json requested in
         if service \<in> {dc_odoo_service c, dc_postgres_service c} then act_return service
         else act_raise (''Service '' @ repr_str service @ '' not allowed; expected one of: ''
                @ join_with '', '' (sort (remdups [dc_odoo_service c, dc_postgres_service c])))))"

text \<open>\<open>DockerComposeAdapter(cfg.runtime.compose_file, ...)\<close>.\<close>

definition compose_adapter :: "dispatch_config \<Rightarrow> unit act" where
  "compose_adapter c =
     act_check (dc_compose_file c \<noteq> None)
       (quoted ''KubernetesRuntimeConfig'' @ '' object has no attribute '' @ quoted ''compose_file'')"

section \<open>The kinds\<close>

definition opt_text :: "string option \<Rightarrow> string" where
  "opt_text v = (case v of None \<Rightarrow> ''None'' | Some t \<Rightarrow> t)"

definition texts :: "string list \<Rightarrow> json" where
  "texts xs = JList (map JStr xs)"

definition dispatch_backup :: "services \<Rightarrow> QueueEntry \<Rightarrow> unit act" where
  "dispatch_backup S e =
     act_bind (act_call (CallBackup (qe_environment e)) (sv_backup S (qe_environment e))) (\<lambda>r.
     act_bind (act_say (''backup complete: '' @ br_backup_id r) ''backup''
       [(''backup_id'', JStr (br_backup_id r)), (''remote_uri'', json_opt_str (br_remote_uri r)),
        (''remote_status'', JStr (br_remote_status r))]) (\<lambda>_.
     (case br_remote_error r of
        Some (ch # rest) \<Rightarrow>
          ([], [\<lparr>em_message = ''remote backup warning: '' @ ch # rest, em_phase = ''remote_backup'', em_level = ''warning'',
            em_data = JObj [(''remote_status'', JStr (br_remote_status r))]\<rparr>], Inr ())
      | _ \<Rightarrow> act_return ())))"

definition dispatch_clone :: "services \<Rightarrow> QueueEntry \<Rightarrow> unit act" where
  "dispatch_clone S e =
     act_bind (param e ''source'' (JStr ''production'')) (\<lambda>source.
     act_bind (act_call (CallClone source (qe_environment e)) (sv_clone S source (qe_environment e))) (\<lambda>url.
     act_say (''clone complete: '' @ url) ''clone'' []))"

definition dispatch_dr_drill :: "dispatch_config \<Rightarrow> services \<Rightarrow> QueueEntry \<Rightarrow> unit act" where
  "dispatch_dr_drill c S e =
     act_bind (env_config c (qe_environment e)) (\<lambda>_.
     act_bind (act_call (CallDrDrill (qe_environment e)) (sv_dr_drill S (qe_environment e))) (\<lambda>r.
     act_bind (act_check (rr_status r = ''success'')
       (case rr_message r of Some (ch # rest) \<Rightarrow> ch # rest | _ \<Rightarrow> ''DR drill failed'')) (\<lambda>_.
     act_say (''DR drill complete: '' @ rr_reference r) ''dr_drill'' [])))"

definition dispatch_snapshot_create :: "services \<Rightarrow> QueueEntry \<Rightarrow> unit act" where
  "dispatch_snapshot_create S e =
     act_bind (act_call (CallSnapshotCreate (qe_environment e)) (sv_snapshot_create S (qe_environment e))) (\<lambda>r.
     act_say (''snapshot '' @ sm_status r @ '': '' @ sm_snapshot_id r) ''snapshot''
       [(''snapshot_id'', JStr (sm_snapshot_id r)), (''provider'', JStr (sm_provider r)),
        (''status'', JStr (sm_status r)), (''source_resource_id'', JStr (sm_source_resource_id r))])"

text \<open>\<open>str(params.get("snapshot_id", ""))\<close>, not empty.\<close>

definition snapshot_id_param :: "QueueEntry \<Rightarrow> string act" where
  "snapshot_id_param e =
     act_bind (param e ''snapshot_id'' (JStr [])) (\<lambda>j.
     act_bind (act_check (str_json j \<noteq> []) (qe_kind e @ '' requires '' @ quoted ''snapshot_id'' @ '' in params'')) (\<lambda>_.
     act_return (str_json j)))"

definition dispatch_snapshot_reconcile :: "services \<Rightarrow> QueueEntry \<Rightarrow> unit act" where
  "dispatch_snapshot_reconcile S e =
     act_bind (snapshot_id_param e) (\<lambda>i.
     act_bind (act_call (CallSnapshotReconcile i (qe_environment e)) (sv_snapshot_reconcile S i (qe_environment e))) (\<lambda>r.
     act_say (''snapshot '' @ sm_status r @ '': '' @ sm_snapshot_id r) ''snapshot''
       [(''snapshot_id'', JStr (sm_snapshot_id r)), (''status'', JStr (sm_status r)),
        (''source_resource_id'', JStr (sm_source_resource_id r))]))"

definition dispatch_snapshot_restore :: "services \<Rightarrow> QueueEntry \<Rightarrow> unit act" where
  "dispatch_snapshot_restore S e =
     act_bind (snapshot_id_param e) (\<lambda>i.
     act_bind (param e ''execute'' (JBool False)) (\<lambda>ex.
     act_bind (case ex of JBool b \<Rightarrow> act_return b
        | _ \<Rightarrow> act_raise (''snapshot_restore '' @ quoted ''execute'' @ '' must be a boolean'')) (\<lambda>execute.
     act_bind (param e ''confirm_snapshot'' JNull) (\<lambda>cs.
     act_bind (param e ''confirm_resource'' JNull) (\<lambda>cr.
     act_bind (act_call (CallSnapshotRestore i execute cs cr (qe_environment e))
                 (sv_snapshot_restore S i execute cs cr (qe_environment e))) (\<lambda>r.
     act_say (if so_executed r then ''snapshot recovery '' @ so_status r else ''snapshot recovery planned'') ''snapshot_restore''
       [(''snapshot_id'', JStr i), (''source_resource_id'', JStr (sp_source_resource_id (so_plan r))),
        (''status'', JStr (so_status r)), (''message'', json_opt_str (so_message r)),
        (''restored_resource_ids'', texts (so_restored r)),
        (''plan'', JObj [(''provider'', JStr (sp_provider (so_plan r))),
           (''commands'', JList (map texts (sp_commands (so_plan r)))),
           (''destructive'', JBool (sp_destructive (so_plan r))),
           (''notes'', texts (sp_notes (so_plan r)))])]))))))"

definition dispatch_pitr_base :: "services \<Rightarrow> QueueEntry \<Rightarrow> unit act" where
  "dispatch_pitr_base S e =
     act_bind (act_call (CallPitrBase (qe_environment e)) (sv_pitr_base S (qe_environment e))) (\<lambda>r.
     act_say (''PITR base complete: '' @ bm_base_backup_id r) ''pitr_base''
       [(''base_backup_id'', JStr (bm_base_backup_id r)), (''system_identifier'', JStr (bm_system_identifier r)),
        (''end_wal'', JStr (bm_end_wal r)), (''remote_uri'', json_opt_str (bm_remote_uri r))])"

definition dispatch_pitr_reconcile :: "services \<Rightarrow> QueueEntry \<Rightarrow> unit act" where
  "dispatch_pitr_reconcile S e =
     act_bind (act_call (CallPitrReconcile (qe_environment e)) (sv_pitr_reconcile S (qe_environment e))) (\<lambda>r.
     act_say ''PITR retention reconciliation complete'' ''pitr_retention''
       [(''retained_base_backup_ids'', texts (re_retained r)), (''deleted_base_backup_ids'', texts (re_deleted r)),
        (''deleted_wal_filenames'', texts (re_deleted_wal r))])"

definition dispatch_pitr_restore :: "services \<Rightarrow> QueueEntry \<Rightarrow> unit act" where
  "dispatch_pitr_restore S e =
     act_bind (id_param e ''plan_id'' (''pitr_restore requires a non-empty string '' @ quoted ''plan_id'')) (\<lambda>i.
     act_bind (act_call (CallPitrRestore (qe_environment e) i) (sv_pitr_restore S (qe_environment e) i)) (\<lambda>r.
     act_say (''PITR restore verified: '' @ rm_restore_id r) ''pitr_restore''
       [(''restore_id'', JStr (rm_restore_id r)), (''new_database'', JStr (rm_new_database r)),
        (''target_time'', JStr (rm_target_time r)), (''recovered_lsn'', json_opt_str (rm_recovered_lsn r))]))"

definition dispatch_pitr_cutover :: "services \<Rightarrow> QueueEntry \<Rightarrow> unit act" where
  "dispatch_pitr_cutover S e =
     act_bind (id_param e ''restore_id'' (''pitr_cutover requires a non-empty string '' @ quoted ''restore_id'')) (\<lambda>i.
     act_bind (text_param e ''confirm_environment'' (''pitr_cutover requires string '' @ quoted ''confirm_environment'')) (\<lambda>ce.
     act_bind (text_param e ''confirm_database'' (''pitr_cutover requires string '' @ quoted ''confirm_database'')) (\<lambda>cd.
     act_bind (bool_param e ''accept_database_only'' (''pitr_cutover '' @ quoted ''accept_database_only'' @ '' must be a boolean'')) (\<lambda>ok.
     act_bind (act_call (CallPitrCutover (qe_environment e) i ce cd ok) (sv_pitr_cutover S (qe_environment e) i ce cd ok)) (\<lambda>r.
     act_say (''PITR cutover complete: '' @ rm_restore_id r) ''pitr_cutover''
       [(''restore_id'', JStr (rm_restore_id r)), (''database'', JStr (rm_database r)),
        (''filestore_consistency'', JStr (rm_filestore_consistency r))])))))"

section \<open>Filestore migrations\<close>

definition dispatch_plan_migration :: "services \<Rightarrow> QueueEntry \<Rightarrow> unit act" where
  "dispatch_plan_migration S e =
     act_bind (act_call (CallPlanMigration (qe_environment e)) (sv_plan_migration S (qe_environment e))) (\<lambda>m.
     act_say (''filestore migration planned: '' @ mm_migration_id m) ''filestore_plan''
       [(''migration_id'', JStr (mm_migration_id m)), (''inventory_sha256'', JStr (mm_inventory_sha256 m)),
        (''object_count'', JInt (mm_object_count m)), (''total_size'', JInt (mm_total_size m))])"

definition dispatch_sync_migration :: "services \<Rightarrow> QueueEntry \<Rightarrow> string \<Rightarrow> unit act" where
  "dispatch_sync_migration S e i =
     act_bind (act_call (CallSyncMigration (qe_environment e) i) (sv_sync_migration S (qe_environment e) i)) (\<lambda>m.
     act_say (''filestore migration synced: '' @ mm_migration_id m) ''filestore_sync''
       [(''migration_id'', JStr (mm_migration_id m)), (''inventory_sha256'', JStr (mm_inventory_sha256 m))])"

definition dispatch_verify_migration :: "services \<Rightarrow> QueueEntry \<Rightarrow> string \<Rightarrow> unit act" where
  "dispatch_verify_migration S e i =
     act_bind (act_call (CallVerifyMigration (qe_environment e) i) (sv_verify_migration S (qe_environment e) i)) (\<lambda>m.
     act_say (''filestore migration verified: '' @ mm_migration_id m) ''filestore_verify''
       [(''migration_id'', JStr (mm_migration_id m)), (''inventory_sha256'', JStr (mm_inventory_sha256 m)),
        (''object_count'', JInt (mm_object_count m)), (''total_size'', JInt (mm_total_size m))])"

definition dispatch_cutover_migration :: "services \<Rightarrow> QueueEntry \<Rightarrow> string \<Rightarrow> unit act" where
  "dispatch_cutover_migration S e i =
     act_bind (text_param e ''confirm_environment'' (''filestore cutover requires string '' @ quoted ''confirm_environment'')) (\<lambda>ce.
     act_bind (bool_param e ''confirm_source_retained''
       (''filestore cutover requires boolean '' @ quoted ''confirm_source_retained'')) (\<lambda>retained.
     act_bind (act_call (CallCutoverMigration (qe_environment e) i ce retained)
                 (sv_cutover_migration S (qe_environment e) i ce retained)) (\<lambda>m.
     act_say (''filestore cutover complete: '' @ mm_migration_id m) ''filestore_cutover''
       [(''migration_id'', JStr (mm_migration_id m)), (''source_retained'', JBool (\<not> mm_source_deleted m))])))"

text \<open>Absolute, climbing, or with a backslash or a control character.\<close>

definition unsafe_destination :: "string \<Rightarrow> bool" where
  "unsafe_destination d \<longleftrightarrow> starts_with ''/'' d \<or> ''..'' \<in> set (path_parts d) \<or> CHR 0x5C \<in> set d \<or>
     (\<exists>c \<in> set d. (of_char c :: nat) < 32)"

text \<open>The resolved destination below the project root; \<open>is_relative_to\<close> compares parts.\<close>

definition download_destination :: "dispatch_config \<Rightarrow> QueueEntry \<Rightarrow> string list act" where
  "download_destination c e =
     act_bind (id_param e ''destination'' (''filestore download requires string '' @ quoted ''destination'')) (\<lambda>d.
     act_bind (act_check (\<not> unsafe_destination d) ''queued filestore download destination must be project-relative'') (\<lambda>_.
       let resolved = dc_resolve c (dc_root c @ path_parts d) in
       act_bind (act_check (\<not> (resolved = dc_root c \<or> \<not> prefix (dc_root c) resolved))
         ''queued filestore download destination escapes the project root'') (\<lambda>_. act_return resolved)))"

definition dispatch_download_migration :: "dispatch_config \<Rightarrow> services \<Rightarrow> QueueEntry \<Rightarrow> string \<Rightarrow> unit act" where
  "dispatch_download_migration c S e i =
     act_bind (download_destination c e) (\<lambda>d.
     act_bind (act_call (CallDownloadMigration (qe_environment e) i d) (sv_download_migration S (qe_environment e) i d)) (\<lambda>target.
     act_say (''filestore migration downloaded: '' @ i) ''filestore_download''
       [(''migration_id'', JStr i), (''destination'', JStr target)]))"

definition dispatch_delete_source :: "services \<Rightarrow> QueueEntry \<Rightarrow> string \<Rightarrow> unit act" where
  "dispatch_delete_source S e i =
     act_bind (text_param e ''confirm_environment''
       (''filestore source deletion requires string '' @ quoted ''confirm_environment'')) (\<lambda>ce.
     act_bind (text_param e ''confirm_migration_id''
       (''filestore source deletion requires string '' @ quoted ''confirm_migration_id'')) (\<lambda>ci.
     act_bind (bool_param e ''delete_source''
       (''filestore source deletion requires boolean '' @ quoted ''delete_source'')) (\<lambda>ok.
     act_bind (act_call (CallDeleteSource (qe_environment e) i ce ci ok)
                 (sv_delete_source S (qe_environment e) i ce ci ok)) (\<lambda>m.
     act_say (''filestore source deleted: '' @ mm_migration_id m) ''filestore_delete_source''
       [(''migration_id'', JStr (mm_migration_id m))]))))"

definition dispatch_delete_marker :: "services \<Rightarrow> QueueEntry \<Rightarrow> string \<Rightarrow> unit act" where
  "dispatch_delete_marker S e i =
     act_bind (text_param e ''confirm_migration_id''
       (''filestore marker deletion requires string '' @ quoted ''confirm_migration_id'')) (\<lambda>ci.
     act_bind (act_call (CallDeleteMarker (qe_environment e) i ci) (sv_delete_marker S (qe_environment e) i ci)) (\<lambda>key.
     act_say (''filestore remote marker deleted: '' @ i) ''filestore_delete_remote_marker''
       [(''migration_id'', JStr i), (''key'', JStr key)]))"

text \<open>The migration id is not needed for a plan only.\<close>

definition migration_id_param :: "QueueEntry \<Rightarrow> string \<Rightarrow> string act" where
  "migration_id_param e action =
     (if action = ''plan'' then act_return []
      else id_param e ''migration_id'' (''filestore_migrate requires a string '' @ quoted ''migration_id''))"

definition dispatch_filestore :: "dispatch_config \<Rightarrow> services \<Rightarrow> QueueEntry \<Rightarrow> unit act" where
  "dispatch_filestore c S e =
     act_bind (text_param e ''action'' (''filestore_migrate requires a string '' @ quoted ''action'')) (\<lambda>action.
     act_bind (migration_id_param e action) (\<lambda>i.
       if action = ''plan'' then dispatch_plan_migration S e
       else if action = ''sync'' then dispatch_sync_migration S e i
       else if action = ''verify'' then dispatch_verify_migration S e i
       else if action = ''cutover'' then dispatch_cutover_migration S e i
       else if action = ''download'' then dispatch_download_migration c S e i
       else if action = ''delete_source'' then dispatch_delete_source S e i
       else if action = ''delete_remote_marker'' then dispatch_delete_marker S e i
       else act_raise (''unsupported filestore_migrate action: '' @ repr_str action)))"

section \<open>Rehearsals and services\<close>

definition supported_paths :: "migration_path list \<Rightarrow> string \<Rightarrow> string \<Rightarrow> migration_path list" where
  "supported_paths matrix from_version to_version =
     filter (\<lambda>p. to_version = [] \<or> mp_to p = to_version) (filter (\<lambda>p. from_version = [] \<or> mp_from p = from_version) matrix)"

text \<open>What is read and checked before a rehearsal: the target version, the flags and the paths of the matrix.\<close>

definition rehearsal_request ::
  "dispatch_config \<Rightarrow> services \<Rightarrow> QueueEntry \<Rightarrow> (EnvCfg \<times> json \<times> bool \<times> bool \<times> migration_path list) act" where
  "rehearsal_request c S e =
     act_bind (env_config c (qe_environment e)) (\<lambda>env.
     act_bind (act_call CallDbAdapter (sv_db_adapter S)) (\<lambda>_.
     act_bind (param e ''to'' (JStr [])) (\<lambda>to_param.
     act_bind (act_check (truthy to_param) (''migrate_rehearsal requires '' @ quoted ''to'' @ '' version in params'')) (\<lambda>_.
     act_bind (param e ''openupgrade'' (JBool False)) (\<lambda>ou.
     act_bind (param e ''keep'' (JBool False)) (\<lambda>kp.
       let paths = (case to_param of JStr t \<Rightarrow> supported_paths (dc_matrix c) (dc_odoo_version c) t | _ \<Rightarrow> []) in
       act_bind (act_check (paths \<noteq> []) (''No supported migration path from '' @ repr_str (dc_odoo_version c) @ '' to ''
         @ repr_json to_param @ ''; check the migration matrix for supported paths.'')) (\<lambda>_.
       act_return (env, to_param, truthy ou, truthy kp, paths))))))))"

definition dispatch_rehearsal :: "dispatch_config \<Rightarrow> services \<Rightarrow> QueueEntry \<Rightarrow> unit act" where
  "dispatch_rehearsal c S e =
     act_bind (rehearsal_request c S e) (\<lambda>(env, to_param, ou, kp, paths).
     act_bind (act_call
         (CallRehearsal (qe_environment e) (dc_odoo_version c) (str_json to_param) (env_db_name env) kp
            (\<exists>p \<in> set paths. mp_requires_openupgrade p) ou)
         (sv_rehearsal S (qe_environment e) (dc_odoo_version c) (str_json to_param) (env_db_name env) kp
            (\<exists>p \<in> set paths. mp_requires_openupgrade p) ou)) (\<lambda>r.
     act_bind (act_check (rr_status r = ''success'')
       (case rr_message r of Some (ch # rest) \<Rightarrow> ch # rest | _ \<Rightarrow> ''Migration rehearsal failed'')) (\<lambda>_.
     act_say (''migrate rehearsal complete: '' @ qe_environment e @ '' '' @ rr_reference r @ '' -> '' @ str_json to_param)
       ''migrate_rehearsal'' [])))"

text \<open>\<open>int(v)\<close> with the text of its exception.\<close>

definition int_param :: "json \<Rightarrow> int act" where
  "int_param j =
     (case py_int j of
        Some i \<Rightarrow> act_return i
      | None \<Rightarrow> act_raise (case j of
          JStr s \<Rightarrow> ''invalid literal for int() with base 10: '' @ repr_str s
        | _ \<Rightarrow> ''int() argument must be a string, a bytes-like object or a real number, not '' @ quoted (json_type_name j)))"

definition log_tail :: "json \<Rightarrow> int act" where
  "log_tail j =
     act_bind (int_param (if truthy j then j else JInt 200)) (\<lambda>i. act_return (max 1 (min i 1000)))"

text \<open>\<open>xs[-n:]\<close> for a positive \<open>n\<close>.\<close>

definition last_items :: "int \<Rightarrow> 'a list \<Rightarrow> 'a list" where
  "last_items n xs = drop (length xs - nat n) xs"

definition dispatch_logs :: "dispatch_config \<Rightarrow> services \<Rightarrow> QueueEntry \<Rightarrow> unit act" where
  "dispatch_logs c S e =
     act_bind (param e ''service'' JNull) (\<lambda>requested.
     act_bind (resolve_service_param c requested) (\<lambda>service.
     act_bind (param e ''tail'' (JInt 200)) (\<lambda>t.
     act_bind (log_tail t) (\<lambda>n.
     act_bind (compose_adapter c) (\<lambda>_.
     act_bind (act_call (CallLogs service n) (sv_logs S service n)) (\<lambda>out.
       let lines = split_lines (shell_redact (dc_environ c) out) in
       act_bind ([], map (\<lambda>l. plain_emission l ''logs'' ''info'') (last_items n lines), Inr ()) (\<lambda>_.
       act_say (''log tail complete: '' @ service @ '' ('' @ nat_str (length lines) @ '' lines)'') ''logs'' [])))))))"

definition dispatch_restart :: "dispatch_config \<Rightarrow> services \<Rightarrow> QueueEntry \<Rightarrow> unit act" where
  "dispatch_restart c S e =
     act_bind (param e ''service'' JNull) (\<lambda>requested.
     act_bind (resolve_service_param c requested) (\<lambda>service.
     act_bind (compose_adapter c) (\<lambda>_.
     act_bind (act_say (''restarting service '' @ service) ''restart'' []) (\<lambda>_.
     act_bind (act_call (CallRestart service) (sv_restart S service)) (\<lambda>_.
     act_bind (act_call CallPs (sv_ps S)) (\<lambda>running.
     act_bind (act_check (contains_str service running) (''Service not running after restart: '' @ service)) (\<lambda>_.
     act_say (''service restarted: '' @ service) ''restart'' [])))))))"

definition dispatch :: "dispatch_config \<Rightarrow> services \<Rightarrow> QueueEntry \<Rightarrow> unit act" where
  "dispatch c S e =
     (case OperationKind_of (qe_kind e) of
        Some K_BACKUP \<Rightarrow> dispatch_backup S e
      | Some K_CLONE \<Rightarrow> dispatch_clone S e
      | Some K_DR_DRILL \<Rightarrow> dispatch_dr_drill c S e
      | Some K_SNAPSHOT_CREATE \<Rightarrow> dispatch_snapshot_create S e
      | Some K_SNAPSHOT_RECONCILE \<Rightarrow> dispatch_snapshot_reconcile S e
      | Some K_SNAPSHOT_RESTORE \<Rightarrow> dispatch_snapshot_restore S e
      | Some K_PITR_BASE_CREATE \<Rightarrow> dispatch_pitr_base S e
      | Some K_PITR_RECONCILE \<Rightarrow> dispatch_pitr_reconcile S e
      | Some K_PITR_RESTORE \<Rightarrow> dispatch_pitr_restore S e
      | Some K_PITR_CUTOVER \<Rightarrow> dispatch_pitr_cutover S e
      | Some K_FILESTORE_MIGRATE \<Rightarrow> dispatch_filestore c S e
      | Some K_MIGRATE_REHEARSAL \<Rightarrow> dispatch_rehearsal c S e
      | Some K_SERVICE_LOGS \<Rightarrow> dispatch_logs c S e
      | Some K_SERVICE_RESTART \<Rightarrow> dispatch_restart c S e
      | _ \<Rightarrow> act_raise (''Unsupported operation kind in runner: '' @ repr_str (qe_kind e)))"

text \<open>The body that the runner executes under the lock.\<close>

definition dispatch_block :: "dispatch_config \<Rightarrow> services \<Rightarrow> QueueEntry \<Rightarrow> block" where
  "dispatch_block c S e =
     (case dispatch c S e of (_, ems, r) \<Rightarrow>
        \<lparr>bl_emits = ems, bl_end = (case r of Inl b \<Rightarrow> b | Inr _ \<Rightarrow> BlockOk)\<rparr>)"

section \<open>What an action may do\<close>

text \<open>Every call satisfies \<open>P\<close>, every event carries well-formed data, and a value satisfies \<open>R\<close>.\<close>

definition act_sat :: "(service_call \<Rightarrow> bool) \<Rightarrow> ('a \<Rightarrow> bool) \<Rightarrow> 'a act \<Rightarrow> bool" where
  "act_sat P R a \<longleftrightarrow> (case a of (cs, es, r) \<Rightarrow> (\<forall>c \<in> set cs. P c) \<and> (\<forall>em \<in> set es. wf_json (em_data em)) \<and>
     (case r of Inl _ \<Rightarrow> True | Inr x \<Rightarrow> R x))"

named_theorems act_rules \<open>Rules that take an action apart.\<close>

lemma act_sat_bind [act_rules]: "act_sat P Q m \<Longrightarrow> (\<And>x. Q x \<Longrightarrow> act_sat P R (f x)) \<Longrightarrow> act_sat P R (act_bind m f)"
  by (cases m) (fastforce simp: act_sat_def act_bind_def split: sum.splits prod.splits)

lemma act_sat_return [act_rules]: "R x \<Longrightarrow> act_sat P R (act_return x)"
  by (simp add: act_sat_def act_return_def)

lemma act_sat_raise [act_rules]: "act_sat P R (act_raise m)"
  by (simp add: act_sat_def act_raise_def)

lemma act_sat_call [act_rules]: "P c \<Longrightarrow> act_sat P (\<lambda>_. True) (act_call c r)"
  by (simp add: act_sat_def act_call_def split: sum.splits)

lemma act_sat_say [act_rules]: "wf_json (JObj kvs) \<Longrightarrow> act_sat P (\<lambda>_. True) (act_say m ph kvs)"
  by (simp add: act_sat_def act_say_def)

lemma act_sat_check [act_rules]: "act_sat P (\<lambda>_. ok) (act_check ok m)"
  by (simp add: act_sat_def act_check_def act_return_def act_raise_def)

lemma act_sat_weaken: "act_sat P Q m \<Longrightarrow> (\<And>x. Q x \<Longrightarrow> R x) \<Longrightarrow> act_sat P R m"
  by (cases m) (auto simp: act_sat_def split: sum.splits)

lemma act_sat_emit [act_rules]: "\<forall>em \<in> set ems. wf_json (em_data em) \<Longrightarrow> act_sat P (\<lambda>_. True) ([], ems, Inr ())"
  by (simp add: act_sat_def)

lemma act_sat_if: "(b \<Longrightarrow> act_sat P R x) \<Longrightarrow> (\<not> b \<Longrightarrow> act_sat P R y) \<Longrightarrow> act_sat P R (if b then x else y)"
  by simp

lemma texts_wf [simp]: "wf_json (texts xs)"
  by (induction xs) (auto simp: texts_def)

lemma json_opt_str_wf [simp]: "wf_json (json_opt_str v)"
  by (simp add: json_opt_str_def split: option.splits)

lemma param_sat [act_rules]:
  "act_sat P (\<lambda>j. \<exists>kvs. qe_params_redacted e = JObj kvs \<and> j = opt_field kvs k d) (param e k d)"
  by (auto simp: param_def act_sat_def act_return_def act_raise_def split: json.splits)

text \<open>A text or truth value that a parameter holds.\<close>

definition param_is :: "QueueEntry \<Rightarrow> string \<Rightarrow> json \<Rightarrow> bool" where
  "param_is e k j \<longleftrightarrow> (\<exists>kvs. qe_params_redacted e = JObj kvs \<and> dict_get kvs k = Some j)"

lemma param_is_opt: "qe_params_redacted e = JObj kvs \<Longrightarrow> opt_field kvs k JNull = j \<Longrightarrow> j \<noteq> JNull \<Longrightarrow> param_is e k j"
  by (auto simp: param_is_def opt_field_def split: option.splits)

lemma text_param_sat [act_rules]: "act_sat P (\<lambda>s. param_is e k (JStr s)) (text_param e k m)"
  unfolding text_param_def
  by (rule act_sat_bind[OF param_sat]) (auto intro!: act_rules param_is_opt split: json.split)

lemma bool_param_sat [act_rules]: "act_sat P (\<lambda>b. param_is e k (JBool b)) (bool_param e k m)"
  unfolding bool_param_def
  by (rule act_sat_bind[OF param_sat]) (auto intro!: act_rules param_is_opt split: json.split)

lemma id_param_sat [act_rules]: "act_sat P (\<lambda>s. param_is e k (JStr s) \<and> s \<noteq> []) (id_param e k m)"
  unfolding id_param_def by (rule act_rules)+ auto

lemma env_config_sat [act_rules]: "act_sat P (\<lambda>env. dict_get (dc_envs c) n = Some env) (env_config c n)"
  by (auto simp: env_config_def intro: act_rules split: option.splits)

lemma resolve_service_sat [act_rules]:
  "act_sat P (\<lambda>s. s = dc_odoo_service c \<or> s = dc_postgres_service c) (resolve_service_param c j)"
  by (auto simp: resolve_service_param_def Let_def intro: act_rules)

lemma compose_adapter_sat [act_rules]: "act_sat P (\<lambda>_. True) (compose_adapter c)"
  unfolding compose_adapter_def by (rule act_sat_weaken[OF act_sat_check]) simp

lemma log_tail_sat [act_rules]: "act_sat P (\<lambda>n. 1 \<le> n \<and> n \<le> 1000) (log_tail j)"
proof -
  have "act_sat P (\<lambda>_. True) (int_param i)" for i
    by (auto simp: int_param_def intro: act_rules split: option.splits)
  then show ?thesis unfolding log_tail_def by (rule act_sat_bind) (auto intro: act_rules)
qed

lemma download_destination_sat [act_rules]:
  "act_sat P (\<lambda>d. strict_prefix (dc_root c) d) (download_destination c e)"
  unfolding download_destination_def Let_def
  by (rule act_rules)+ (auto simp: strict_prefix_def)

text \<open>
  The calls the runner may make for an entry: on the environment of the entry, with texts
  and confirmations that the entry itself holds, on services of the configuration, into the
  project only.
\<close>

definition migration_step :: "QueueEntry \<Rightarrow> string \<Rightarrow> bool" where
  "migration_step e action \<longleftrightarrow> qe_kind e = ''filestore_migrate'' \<and> param_is e ''action'' (JStr action)"

fun admissible_call :: "dispatch_config \<Rightarrow> QueueEntry \<Rightarrow> service_call \<Rightarrow> bool" where
  "admissible_call c e (CallBackup env) = (env = qe_environment e)"
| "admissible_call c e (CallClone source env) = (env = qe_environment e)"
| "admissible_call c e (CallDrDrill env) = (env = qe_environment e \<and> dict_has (dc_envs c) env)"
| "admissible_call c e (CallSnapshotCreate env) = (env = qe_environment e)"
| "admissible_call c e (CallSnapshotReconcile i env) = (env = qe_environment e \<and> i \<noteq> [])"
| "admissible_call c e (CallSnapshotRestore i ex cs cr env) =
     (env = qe_environment e \<and> i \<noteq> [] \<and> (ex \<longrightarrow> param_is e ''execute'' (JBool True)))"
| "admissible_call c e (CallPitrBase env) = (env = qe_environment e)"
| "admissible_call c e (CallPitrReconcile env) = (env = qe_environment e)"
| "admissible_call c e (CallPitrRestore env i) = (env = qe_environment e \<and> i \<noteq> [] \<and> param_is e ''plan_id'' (JStr i))"
| "admissible_call c e (CallPitrCutover env i ce cd ok) =
     (qe_kind e = ''pitr_cutover'' \<and> env = qe_environment e \<and> i \<noteq> [] \<and> param_is e ''restore_id'' (JStr i) \<and>
      param_is e ''confirm_environment'' (JStr ce) \<and> param_is e ''confirm_database'' (JStr cd) \<and>
      param_is e ''accept_database_only'' (JBool ok))"
| "admissible_call c e (CallPlanMigration env) = (env = qe_environment e)"
| "admissible_call c e (CallSyncMigration env i) = (env = qe_environment e \<and> param_is e ''migration_id'' (JStr i))"
| "admissible_call c e (CallVerifyMigration env i) = (env = qe_environment e \<and> param_is e ''migration_id'' (JStr i))"
| "admissible_call c e (CallCutoverMigration env i ce b) =
     (migration_step e ''cutover'' \<and> env = qe_environment e \<and> param_is e ''migration_id'' (JStr i) \<and> param_is e ''confirm_environment'' (JStr ce) \<and>
      param_is e ''confirm_source_retained'' (JBool b))"
| "admissible_call c e (CallDownloadMigration env i d) =
     (migration_step e ''download'' \<and> env = qe_environment e \<and> param_is e ''migration_id'' (JStr i) \<and> strict_prefix (dc_root c) d)"
| "admissible_call c e (CallDeleteSource env i ce ci b) =
     (migration_step e ''delete_source'' \<and> env = qe_environment e \<and> param_is e ''migration_id'' (JStr i) \<and> param_is e ''confirm_environment'' (JStr ce) \<and>
      param_is e ''confirm_migration_id'' (JStr ci) \<and> param_is e ''delete_source'' (JBool b))"
| "admissible_call c e (CallDeleteMarker env i ci) =
     (migration_step e ''delete_remote_marker'' \<and> env = qe_environment e \<and> param_is e ''migration_id'' (JStr i) \<and> param_is e ''confirm_migration_id'' (JStr ci))"
| "admissible_call c e CallDbAdapter = True"
| "admissible_call c e (CallRehearsal env from target db keep req ou) =
     (env = qe_environment e \<and> (\<exists>cfg. dict_get (dc_envs c) env = Some cfg \<and> db = env_db_name cfg) \<and>
      supported_paths (dc_matrix c) from target \<noteq> [] \<and> from = dc_odoo_version c)"
| "admissible_call c e (CallLogs s n) = ((s = dc_odoo_service c \<or> s = dc_postgres_service c) \<and> 1 \<le> n \<and> n \<le> 1000)"
| "admissible_call c e (CallRestart s) = (s = dc_odoo_service c \<or> s = dc_postgres_service c)"
| "admissible_call c e CallPs = True"

abbreviation admissible :: "dispatch_config \<Rightarrow> QueueEntry \<Rightarrow> unit act \<Rightarrow> bool" where
  "admissible c e \<equiv> act_sat (admissible_call c e) (\<lambda>_. True)"

lemma snapshot_id_sat [act_rules]: "act_sat P (\<lambda>i. i \<noteq> []) (snapshot_id_param e)"
  unfolding snapshot_id_param_def by (rule act_rules)+ auto

lemma execute_sat [act_rules]:
  "\<exists>kvs. qe_params_redacted e = JObj kvs \<and> ex = opt_field kvs ''execute'' (JBool False) \<Longrightarrow>
   act_sat P (\<lambda>b. b \<longrightarrow> param_is e ''execute'' (JBool True))
     (case ex of JBool b \<Rightarrow> act_return b | _ \<Rightarrow> act_raise m)"
  by (auto simp: param_is_def opt_field_def intro!: act_rules split: json.splits option.splits bool.splits)

text \<open>The same rules for the first step of an action; they leave no schematic condition behind.\<close>

lemmas act_steps = act_sat_bind[OF act_sat_call] act_sat_bind[OF act_sat_say] act_sat_bind[OF act_sat_check]
  act_sat_bind[OF act_sat_emit] act_sat_bind[OF param_sat] act_sat_bind[OF text_param_sat]
  act_sat_bind[OF bool_param_sat] act_sat_bind[OF id_param_sat] act_sat_bind[OF env_config_sat]
  act_sat_bind[OF resolve_service_sat] act_sat_bind[OF compose_adapter_sat] act_sat_bind[OF log_tail_sat]
  act_sat_bind[OF download_destination_sat] act_sat_bind[OF snapshot_id_sat] act_sat_bind[OF execute_sat]
  act_sat_say act_sat_return act_sat_raise act_sat_emit

lemma migration_id_sat:
  "act_sat P (\<lambda>i. action \<noteq> ''plan'' \<longrightarrow> param_is e ''migration_id'' (JStr i)) (migration_id_param e action)"
  by (auto simp: migration_id_param_def intro: act_sat_return act_sat_weaken[OF id_param_sat])

lemma dispatch_backup_sat: "admissible c e (dispatch_backup S e)"
  unfolding dispatch_backup_def by (auto intro!: act_steps split: option.split list.split)

lemma dispatch_clone_sat: "admissible c e (dispatch_clone S e)"
  unfolding dispatch_clone_def by (auto intro!: act_steps split: option.split list.split)

lemma dispatch_dr_drill_sat: "admissible c e (dispatch_dr_drill c S e)"
  unfolding dispatch_dr_drill_def by (auto intro!: act_steps split: option.split list.split)

lemma dispatch_snapshot_create_sat: "admissible c e (dispatch_snapshot_create S e)"
  unfolding dispatch_snapshot_create_def by (auto intro!: act_steps split: option.split list.split)

lemma dispatch_snapshot_reconcile_sat: "admissible c e (dispatch_snapshot_reconcile S e)"
  unfolding dispatch_snapshot_reconcile_def by (auto intro!: act_steps split: option.split list.split)

lemma dispatch_snapshot_restore_sat: "admissible c e (dispatch_snapshot_restore S e)"
  unfolding dispatch_snapshot_restore_def by (auto intro!: act_steps split: option.split list.split)

lemma dispatch_pitr_base_sat: "admissible c e (dispatch_pitr_base S e)"
  unfolding dispatch_pitr_base_def by (auto intro!: act_steps split: option.split list.split)

lemma dispatch_pitr_reconcile_sat: "admissible c e (dispatch_pitr_reconcile S e)"
  unfolding dispatch_pitr_reconcile_def by (auto intro!: act_steps split: option.split list.split)

lemma dispatch_pitr_restore_sat: "admissible c e (dispatch_pitr_restore S e)"
  unfolding dispatch_pitr_restore_def by (auto intro!: act_steps split: option.split list.split)

lemma dispatch_pitr_cutover_sat: "qe_kind e = ''pitr_cutover'' \<Longrightarrow> admissible c e (dispatch_pitr_cutover S e)"
  unfolding dispatch_pitr_cutover_def by (auto intro!: act_steps split: option.split list.split)

lemma dispatch_plan_migration_sat: "admissible c e (dispatch_plan_migration S e)"
  unfolding dispatch_plan_migration_def by (auto intro!: act_steps split: option.split list.split)

lemma rehearsal_paths:
  "(case j of JStr t \<Rightarrow> supported_paths m v t | _ \<Rightarrow> []) \<noteq> [] \<Longrightarrow> supported_paths m v (str_json j) \<noteq> []"
  by (cases j) auto

lemma rehearsal_request_sat:
  "act_sat (admissible_call c e)
     (\<lambda>(env, to_param, ou, kp, paths). dict_get (dc_envs c) (qe_environment e) = Some env \<and>
        supported_paths (dc_matrix c) (dc_odoo_version c) (str_json to_param) \<noteq> []) (rehearsal_request c S e)"
  unfolding rehearsal_request_def Let_def
  by (auto intro!: act_steps dest: rehearsal_paths)

lemma dispatch_rehearsal_sat: "admissible c e (dispatch_rehearsal c S e)"
  unfolding dispatch_rehearsal_def
  by (auto intro!: act_sat_bind[OF rehearsal_request_sat] act_steps split: option.split list.split)

lemma dispatch_restart_sat: "admissible c e (dispatch_restart c S e)"
  unfolding dispatch_restart_def by (auto intro!: act_steps split: option.split list.split)

lemma dispatch_logs_sat: "admissible c e (dispatch_logs c S e)"
  unfolding dispatch_logs_def Let_def by (auto intro!: act_steps simp: plain_emission_def)

lemma dispatch_sync_migration_sat: "param_is e ''migration_id'' (JStr i) \<Longrightarrow> admissible c e (dispatch_sync_migration S e i)"
  unfolding dispatch_sync_migration_def by (auto intro!: act_steps)

lemma dispatch_verify_migration_sat: "param_is e ''migration_id'' (JStr i) \<Longrightarrow> admissible c e (dispatch_verify_migration S e i)"
  unfolding dispatch_verify_migration_def by (auto intro!: act_steps)

lemma dispatch_cutover_migration_sat: "migration_step e ''cutover'' \<Longrightarrow> param_is e ''migration_id'' (JStr i) \<Longrightarrow> admissible c e (dispatch_cutover_migration S e i)"
  unfolding dispatch_cutover_migration_def by (auto intro!: act_steps)

lemma dispatch_download_migration_sat: "migration_step e ''download'' \<Longrightarrow> param_is e ''migration_id'' (JStr i) \<Longrightarrow> admissible c e (dispatch_download_migration c S e i)"
  unfolding dispatch_download_migration_def by (auto intro!: act_steps)

lemma dispatch_delete_source_sat: "migration_step e ''delete_source'' \<Longrightarrow> param_is e ''migration_id'' (JStr i) \<Longrightarrow> admissible c e (dispatch_delete_source S e i)"
  unfolding dispatch_delete_source_def by (auto intro!: act_steps)

lemma dispatch_delete_marker_sat: "migration_step e ''delete_remote_marker'' \<Longrightarrow> param_is e ''migration_id'' (JStr i) \<Longrightarrow> admissible c e (dispatch_delete_marker S e i)"
  unfolding dispatch_delete_marker_def by (auto intro!: act_steps)

lemma dispatch_filestore_sat: "qe_kind e = ''filestore_migrate'' \<Longrightarrow> admissible c e (dispatch_filestore c S e)"
  unfolding dispatch_filestore_def
proof (rule act_sat_bind[OF text_param_sat], rule act_sat_bind[OF migration_id_sat])
  fix action i
  assume k: "qe_kind e = ''filestore_migrate''" and a: "param_is e ''action'' (JStr action)"
    and i: "action \<noteq> ''plan'' \<longrightarrow> param_is e ''migration_id'' (JStr i)"
  note sats = dispatch_plan_migration_sat dispatch_sync_migration_sat dispatch_verify_migration_sat
    dispatch_cutover_migration_sat dispatch_download_migration_sat dispatch_delete_source_sat
    dispatch_delete_marker_sat act_sat_raise
  show "admissible c e
      (if action = ''plan'' then dispatch_plan_migration S e
       else if action = ''sync'' then dispatch_sync_migration S e i
       else if action = ''verify'' then dispatch_verify_migration S e i
       else if action = ''cutover'' then dispatch_cutover_migration S e i
       else if action = ''download'' then dispatch_download_migration c S e i
       else if action = ''delete_source'' then dispatch_delete_source S e i
       else if action = ''delete_remote_marker'' then dispatch_delete_marker S e i
       else act_raise (''unsupported filestore_migrate action: '' @ repr_str action))"
  proof -
    have st: "migration_step e action" using k a by (simp add: migration_step_def)
    show ?thesis by (intro act_sat_if; (rule sats)?; use i st in simp)
  qed
qed

lemmas dispatch_sats = dispatch_backup_sat dispatch_clone_sat dispatch_dr_drill_sat dispatch_snapshot_create_sat
  dispatch_snapshot_reconcile_sat dispatch_snapshot_restore_sat dispatch_pitr_base_sat
  dispatch_pitr_reconcile_sat dispatch_pitr_restore_sat dispatch_pitr_cutover_sat
  dispatch_filestore_sat dispatch_rehearsal_sat dispatch_logs_sat dispatch_restart_sat act_sat_raise

lemma kind_of_value: "OperationKind_of v = Some k \<Longrightarrow> v = kind_value k"
  by (auto simp: OperationKind_of_def kind_value_def kind_table_def split: if_splits)

lemma dispatch_admissible: "admissible c e (dispatch c S e)"
proof (cases "OperationKind_of (qe_kind e)")
  case (Some k)
  have "qe_kind e = kind_value k" using Some by (rule kind_of_value)
  with Some show ?thesis by (cases k) (simp_all add: dispatch_def dispatch_sats kind_value_def kind_table_def)
qed (simp add: dispatch_def act_sat_raise)

lemma act_sat_calls: "act_sat P R a \<Longrightarrow> \<forall>call \<in> set (calls_of a). P call"
  by (auto simp: act_sat_def calls_of_def split: prod.splits)

lemma dispatch_block_wf: "\<forall>em \<in> set (bl_emits (dispatch_block c S e)). wf_json (em_data em)"
  using dispatch_admissible[of c e S] by (auto simp: act_sat_def dispatch_block_def split: prod.splits)

text \<open>The kinds without a branch.\<close>

definition UNSUPPORTED_KINDS :: "OperationKind set" where
  "UNSUPPORTED_KINDS = {K_RESTORE, K_DEPLOY, K_PROMOTE, K_ENV_CREATE, K_ENV_DESTROY, K_UPDATE_MODULES, K_ROLLBACK}"

lemma dispatch_unsupported:
  "OperationKind_of (qe_kind e) = Some k \<Longrightarrow> k \<in> UNSUPPORTED_KINDS \<Longrightarrow>
   dispatch_block c S e = \<lparr>bl_emits = [], bl_end = BlockRaises (''Unsupported operation kind in runner: '' @ repr_str (qe_kind e))\<rparr>"
  by (auto simp: UNSUPPORTED_KINDS_def dispatch_block_def dispatch_def act_raise_def)

end
