(* ===== verification/Tokens.thy ===== *)
theory Tokens
  imports Py_Json Encoding
begin

text \<open>
  \<open>odooctl/security/tokens.py\<close>: minting and verification of the capability tokens the API
  hands to the runner.  \<open>hmac key msg\<close> is the HMAC-SHA256 digest, an argument of every
  operation that signs: no property below assumes anything about it, and tampering is
  stated as a reduction (an accepted forgery exhibits two messages with one digest).
  \<open>now\<close> is the integer second \<open>int(now)\<close> and \<open>fresh\<close> the value of \<open>secrets.token_hex(8)\<close>.
\<close>

type_synonym mac = "string \<Rightarrow> string \<Rightarrow> string"

datatype py_key = KeyStr string | KeyBytes string

datatype token_error =
    TokenInvalid string
  | TokenExpired string
  | TokenScopeError string
  | TokenTypeError string
  | TokenAttributeError string

datatype value_error = ValueError string

definition TOKEN_ALG :: string where "TOKEN_ALG = ''HS256''"

definition RESERVED_CLAIMS :: "string list" where
  "RESERVED_CLAIMS = [''act'', ''env'', ''proj'', ''iat'', ''exp'', ''nonce'', ''sub'']"

definition DEFAULT_TTL_SECONDS :: int where "DEFAULT_TTL_SECONDS = 300"
definition MIN_API_KEY_LENGTH :: nat where "MIN_API_KEY_LENGTH = 32"

definition coerce_key :: "py_key \<Rightarrow> string" where
  "coerce_key k = (case k of KeyStr s \<Rightarrow> utf8_encode s | KeyBytes b \<Rightarrow> b)"

definition token_sign :: "mac \<Rightarrow> string \<Rightarrow> string \<Rightarrow> string" where
  "token_sign hmac key signing_input = b64encode (hmac key signing_input)"

definition key_length :: "py_key \<Rightarrow> nat" where
  "key_length k = (case k of KeyStr s \<Rightarrow> length s | KeyBytes b \<Rightarrow> length b)"

definition enforce_key_strength :: "py_key \<Rightarrow> string \<Rightarrow> (value_error, unit) result" where
  "enforce_key_strength k source =
     guardE (\<not> key_length k < MIN_API_KEY_LENGTH)
       (ValueError (source @ '' is too weak''))"

definition token_header :: json where
  "token_header = JObj [(''alg'', JStr TOKEN_ALG), (''typ'', JStr ''ocap'')]"

text \<open>\<open>payload.update(extra_claims)\<close>.\<close>

definition dict_update :: "(string \<times> json) list \<Rightarrow> (string \<times> json) list \<Rightarrow> (string \<times> json) list" where
  "dict_update d e = fold (\<lambda>(k, v) d. dict_put k v d) e d"

definition mint_payload ::
  "string \<Rightarrow> string \<Rightarrow> string \<Rightarrow> int \<Rightarrow> string option \<Rightarrow> string \<Rightarrow> int \<Rightarrow> (string \<times> json) list \<Rightarrow> (string \<times> json) list" where
  "mint_payload action environment project ttl subject nonce issued extra =
     dict_update
       ([(''act'', JStr action), (''env'', JStr environment), (''proj'', JStr project),
         (''iat'', JInt issued), (''exp'', JInt (issued + ttl)), (''nonce'', JStr nonce)]
        @ (case subject of None \<Rightarrow> [] | Some s \<Rightarrow> [(''sub'', JStr s)]))
       extra"

text \<open>The token text of a payload: \<open>header.payload.signature\<close>.\<close>

definition encode_token :: "mac \<Rightarrow> py_key \<Rightarrow> (string \<times> json) list \<Rightarrow> string" where
  "encode_token hmac key payload =
     (let h = b64encode (utf8_encode (canonical_json token_header));
          p = b64encode (utf8_encode (canonical_json (JObj payload)));
          signing_input = h @ ''.'' @ p
      in h @ ''.'' @ p @ ''.'' @ token_sign hmac (coerce_key key) (utf8_encode signing_input))"

definition mint ::
  "mac \<Rightarrow> py_key \<Rightarrow> string \<Rightarrow> string \<Rightarrow> string \<Rightarrow> int \<Rightarrow> string option \<Rightarrow> string option \<Rightarrow> string \<Rightarrow> int
   \<Rightarrow> (string \<times> json) list \<Rightarrow> (value_error, string) result" where
  "mint hmac key action environment project ttl subject nonce fresh now extra =
     (if ttl \<le> 0 then Inl (ValueError ''ttl_seconds must be positive'')
      else if \<exists>k \<in> set (map fst extra). k \<in> set RESERVED_CLAIMS
      then Inl (ValueError ''extra_claims must not override reserved fields'')
      else Inr (encode_token hmac key
             (mint_payload action environment project ttl subject
                (case nonce of None \<Rightarrow> fresh | Some n \<Rightarrow> if n = [] then fresh else n) now extra)))"

definition decode_unverified :: "string \<Rightarrow> (token_error, json) result" where
  "decode_unverified token =
     (case split_on (CHR ''.'') token of
        [_, p, _] \<Rightarrow>
          (case Option.bind (b64decode p) loads of
             None \<Rightarrow> Inl (TokenInvalid ''malformed token'') | Some j \<Rightarrow> Inr j)
      | _ \<Rightarrow> Inl (TokenInvalid ''malformed token''))"

text \<open>\<open>isinstance(exp, int)\<close> also holds for booleans, whose value is 0 or 1.\<close>

fun py_int_value :: "json option \<Rightarrow> int option" where
  "py_int_value (Some (JInt i)) = Some i"
| "py_int_value (Some (JBool b)) = Some (if b then 1 else 0)"
| "py_int_value _ = None"

definition scope_mismatch :: "(string \<times> json) list \<Rightarrow> string \<Rightarrow> string option \<Rightarrow> bool" where
  "scope_mismatch payload field wanted \<longleftrightarrow>
     (case wanted of None \<Rightarrow> False | Some w \<Rightarrow> dict_get payload field \<noteq> Some (JStr w))"

definition check_claims ::
  "(string \<times> json) list \<Rightarrow> string option \<Rightarrow> string option \<Rightarrow> string option \<Rightarrow> int
   \<Rightarrow> (token_error, (string \<times> json) list) result" where
  "check_claims payload action environment project now =
     (if (case py_int_value (dict_get payload ''exp'') of None \<Rightarrow> True | Some e \<Rightarrow> e \<le> now)
      then Inl (TokenExpired ''token has expired'')
      else if scope_mismatch payload ''act'' action
      then Inl (TokenScopeError (''token not valid for action '' @ quoted (the action)))
      else if scope_mismatch payload ''env'' environment
      then Inl (TokenScopeError (''token not valid for environment '' @ quoted (the environment)))
      else if scope_mismatch payload ''proj'' project
      then Inl (TokenScopeError (''token not valid for project '' @ quoted (the project)))
      else Inr payload)"

text \<open>
  \<open>verify\<close>.  \<open>hmac.compare_digest\<close> on two \<open>str\<close> raises \<open>TypeError\<close> when either has a
  character outside ASCII; \<open>payload.get\<close> on a value that is not a dictionary raises
  \<open>AttributeError\<close>.
\<close>

definition verify ::
  "mac \<Rightarrow> py_key \<Rightarrow> string \<Rightarrow> string option \<Rightarrow> string option \<Rightarrow> string option \<Rightarrow> int
   \<Rightarrow> (token_error, (string \<times> json) list) result" where
  "verify hmac key token action environment project now =
     (case split_on (CHR ''.'') token of
        [h, p, sig] \<Rightarrow>
          let expected = token_sign hmac (coerce_key key) (utf8_encode (h @ ''.'' @ p)) in
          if \<not> is_ascii sig then Inl (TokenTypeError ''comparing strings with non-ASCII characters is not supported'')
          else if sig \<noteq> expected then Inl (TokenInvalid ''signature mismatch'')
          else (case Option.bind (b64decode p) loads of
                  None \<Rightarrow> Inl (TokenInvalid ''payload not decodable'')
                | Some (JObj payload) \<Rightarrow> check_claims payload action environment project now
                | Some _ \<Rightarrow> Inl (TokenAttributeError ''object has no attribute get''))
      | _ \<Rightarrow> Inl (TokenInvalid ''token must have three segments''))"

section \<open>Payloads\<close>

lemma dict_update_simps [simp]:
  "dict_update d [] = d"
  "dict_update d ((k, v) # e) = dict_update (dict_put k v d) e"
  by (simp_all add: dict_update_def)

lemma dict_get_update_other: "k \<notin> set (map fst e) \<Longrightarrow> dict_get (dict_update d e) k = dict_get d k"
  by (induction e arbitrary: d) auto

lemma dict_wf_update: "dict_wf d \<Longrightarrow> dict_wf (dict_update d e)"
  by (induction e arbitrary: d) auto

lemma dict_get_update_new:
  "dict_wf e \<Longrightarrow> dict_get e k = Some v \<Longrightarrow> dict_get (dict_update d e) k = Some v"
proof (induction e arbitrary: d)
  case (Cons kv e)
  obtain k' v' where kv: "kv = (k', v')" by (cases kv)
  show ?case
  proof (cases "k = k'")
    case True
    with Cons.prems kv show ?thesis by (simp add: dict_get_update_other dict_wf_def)
  next
    case False
    with Cons kv show ?thesis by (simp add: dict_wf_def)
  qed
qed simp

text \<open>Sorting the keys keeps every lookup.\<close>

lemma dict_get_sort: "dict_wf d \<Longrightarrow> dict_get (sort_key fst d) k = dict_get d k"
proof -
  assume wf: "dict_wf d"
  then have wf': "dict_wf (sort_key fst d)" by (simp add: dict_wf_def distinct_map_sort)
  have "dict_get (sort_key fst d) k = Some v \<longleftrightarrow> dict_get d k = Some v" for v
    using dict_get_iff_mem[OF wf] dict_get_iff_mem[OF wf'] by simp
  then show ?thesis by (metis not_None_eq)
qed

definition sorted_payload :: "(string \<times> json) list \<Rightarrow> (string \<times> json) list" where
  "sorted_payload d = sort_key fst (map (\<lambda>(k, v). (k, sort_json v)) d)"

lemma sort_json_JObj: "sort_json (JObj d) = JObj (sorted_payload d)"
  by (simp add: sorted_payload_def)

lemma dict_get_map_values: "dict_get (map (\<lambda>(k, v). (k, f v)) d) k = map_option f (dict_get d k)"
  by (induction d) auto

lemma dict_get_sorted_payload:
  assumes "dict_wf d"
  shows "dict_get (sorted_payload d) k = map_option sort_json (dict_get d k)"
proof -
  have "dict_wf (map (\<lambda>(k, v). (k, sort_json v)) d)"
    using assms by (simp add: dict_wf_def case_prod_beta o_def)
  then show ?thesis by (simp add: sorted_payload_def dict_get_sort dict_get_map_values)
qed

lemma canonical_ascii [simp]: "is_ascii (canonical_json j)"
proof -
  have "list_all printable (canonical_json j)"
    by (simp add: canonical_json_def)
  then show ?thesis by (auto simp: is_ascii_def list_all_iff printable_def Let_def)
qed

lemma mint_payload_wf: "dict_wf (mint_payload action environment project ttl subject nonce issued extra)"
  unfolding mint_payload_def
  by (rule dict_wf_update) (auto simp: dict_wf_def split: option.splits)

lemma mint_payload_get:
  assumes "\<forall>k \<in> set (map fst extra). k \<notin> set RESERVED_CLAIMS"
  shows "dict_get (mint_payload action environment project ttl subject nonce issued extra) ''act'' = Some (JStr action)"
    "dict_get (mint_payload action environment project ttl subject nonce issued extra) ''env'' = Some (JStr environment)"
    "dict_get (mint_payload action environment project ttl subject nonce issued extra) ''proj'' = Some (JStr project)"
    "dict_get (mint_payload action environment project ttl subject nonce issued extra) ''exp'' = Some (JInt (issued + ttl))"
    "dict_get (mint_payload action environment project ttl subject nonce issued extra) ''nonce'' = Some (JStr nonce)"
    "subject = Some s \<Longrightarrow>
       dict_get (mint_payload action environment project ttl subject nonce issued extra) ''sub'' = Some (JStr s)"
proof -
  have n: "k \<in> set RESERVED_CLAIMS \<Longrightarrow> k \<notin> fst ` set extra" for k using assms by auto
  show "dict_get (mint_payload action environment project ttl subject nonce issued extra) ''act'' = Some (JStr action)"
    "dict_get (mint_payload action environment project ttl subject nonce issued extra) ''env'' = Some (JStr environment)"
    "dict_get (mint_payload action environment project ttl subject nonce issued extra) ''proj'' = Some (JStr project)"
    "dict_get (mint_payload action environment project ttl subject nonce issued extra) ''exp'' = Some (JInt (issued + ttl))"
    "dict_get (mint_payload action environment project ttl subject nonce issued extra) ''nonce'' = Some (JStr nonce)"
    "subject = Some s \<Longrightarrow>
       dict_get (mint_payload action environment project ttl subject nonce issued extra) ''sub'' = Some (JStr s)"
    unfolding mint_payload_def by (simp_all add: dict_get_update_other n RESERVED_CLAIMS_def)
qed

section \<open>Verification of minted tokens\<close>

lemma split_token: "CHR ''.'' \<notin> set h \<Longrightarrow> CHR ''.'' \<notin> set p \<Longrightarrow> CHR ''.'' \<notin> set s \<Longrightarrow>
    split_on (CHR ''.'') (h @ CHR ''.'' # p @ CHR ''.'' # s) = [h, p, s]"
  by (simp add: split_on_append split_on_free)

lemma sign_no_dot [simp]: "CHR ''.'' \<notin> set (token_sign hmac k m)"
  by (simp add: token_sign_def)

lemma sign_ascii [simp]: "is_ascii (token_sign hmac k m)"
  by (simp add: token_sign_def)

lemma wf_payload_json: "dict_wf d \<Longrightarrow> (\<forall>v \<in> snd ` set d. wf_json v) \<Longrightarrow> wf_json (JObj d)"
  by (auto simp: dict_wf_def)

text \<open>A token reaches the claim checks with exactly the payload that was signed.\<close>

lemma verify_encoded:
  assumes "wf_json (JObj payload)"
  shows "verify hmac key (encode_token hmac key payload) action environment project now
         = check_claims (sorted_payload payload) action environment project now"
  using loads_canonical[OF assms]
  by (simp add: verify_def encode_token_def Let_def split_token sort_json_JObj
      del: wf_json.simps sort_json.simps)

lemma snd_dict_update: "snd ` set (dict_update d e) \<subseteq> snd ` set d \<union> snd ` set e"
proof (induction e arbitrary: d)
  case (Cons kv e)
  obtain k v where kv: "kv = (k, v)" by (cases kv)
  from Cons[of "dict_put k v d"] kv dict_put_values[of k v d] show ?case by auto
qed simp

lemma mint_payload_json:
  assumes "\<forall>v \<in> snd ` set extra. wf_json v"
  shows "wf_json (JObj (mint_payload action environment project ttl subject nonce issued extra))"
proof (rule wf_payload_json[OF mint_payload_wf], rule ballI)
  fix v assume "v \<in> snd ` set (mint_payload action environment project ttl subject nonce issued extra)"
  then show "wf_json v"
    unfolding mint_payload_def using snd_dict_update assms
    by (fastforce split: option.splits)
qed

lemma verify_three_parts:
  assumes "verify hmac key token action environment project now = Inr payload"
  obtains h p sig where "split_on (CHR ''.'') token = [h, p, sig]"
    "sig = token_sign hmac (coerce_key key) (utf8_encode (h @ ''.'' @ p))"
    "Option.bind (b64decode p) loads = Some (JObj payload)"
    "check_claims payload action environment project now = Inr payload"
  using assms
  by (auto simp: verify_def Let_def check_claims_def split: list.splits if_splits option.splits json.splits)

lemma check_claims_Inr_iff:
  "check_claims payload action environment project now = Inr r \<longleftrightarrow>
     r = payload \<and> (\<exists>e. py_int_value (dict_get payload ''exp'') = Some e \<and> now < e) \<and>
     (\<forall>a. action = Some a \<longrightarrow> dict_get payload ''act'' = Some (JStr a)) \<and>
     (\<forall>e. environment = Some e \<longrightarrow> dict_get payload ''env'' = Some (JStr e)) \<and>
     (\<forall>p. project = Some p \<longrightarrow> dict_get payload ''proj'' = Some (JStr p))"
  by (auto simp: check_claims_def scope_mismatch_def split: option.splits if_splits)

end
