(* ===== verification/Nonces.thy ===== *)
theory Nonces
  imports Op_Models Py_Text
begin

text \<open>
  \<open>NonceStore\<close> of \<open>odooctl/runner/worker.py\<close>: the nonces of used capability tokens with the
  time until which they stay blocked.  Times are microseconds since the epoch.  The text
  form of a time is \<open>datetime.isoformat\<close> and \<open>datetime.fromisoformat\<close>, an argument: the
  second returns whether the text has a zone, and the time (taken as UTC without one).
  \<open>isoformat\<close> of a UTC time is read back as that time (\<open>iso_ok\<close>).
  The locale \<open>single_use\<close> is the store as the runner uses it.
\<close>

record iso_api =
  iso_format :: "int \<Rightarrow> string"
  iso_parse :: "string \<Rightarrow> (bool \<times> int) option"

definition iso_ok :: "iso_api \<Rightarrow> bool" where
  "iso_ok I \<longleftrightarrow> (\<forall>t. iso_parse I (iso_format I t) = Some (True, t))"

definition NONCE_RETENTION_SECONDS :: int where "NONCE_RETENTION_SECONDS = 7200"

definition seconds :: "int \<Rightarrow> int" where "seconds n = n * 1000000"

type_synonym nonces = "(string, string) dict"

text \<open>\<open>_load\<close>; an unreadable file, or one whose value is not an object, holds no nonces.\<close>

definition nonces_load :: "iso_api \<Rightarrow> int \<Rightarrow> string option \<Rightarrow> nonces" where
  "nonces_load I now file =
     (case Option.bind file loads of
        Some (JObj obj) \<Rightarrow>
          (case opt_field obj ''nonces'' (JObj []) of
             JObj raw \<Rightarrow> fold (\<lambda>(n, ts) d. dict_put n (str_json ts) d) raw []
           | JList raw \<Rightarrow>
               fold (\<lambda>n d. dict_put (str_json n) (iso_format I (now + seconds NONCE_RETENTION_SECONDS)) d) raw []
           | _ \<Rightarrow> [])
      | _ \<Rightarrow> [])"

definition nonces_text :: "nonces \<Rightarrow> string" where
  "nonces_text d = dumps_with plain_layout (JObj [(''nonces'', JObj (map (\<lambda>(k, v). (k, JStr v)) d))])"

definition purge_one :: "iso_api \<Rightarrow> int \<Rightarrow> string \<times> string \<Rightarrow> (string \<times> string) option" where
  "purge_one I now kv =
     (case kv of (name, ts) \<Rightarrow>
        (case iso_parse I ts of
           None \<Rightarrow> Some (name, iso_format I (now + seconds NONCE_RETENTION_SECONDS))
         | Some (_, expiry) \<Rightarrow> if now \<le> expiry then Some (name, ts) else None))"

definition nonces_purge :: "iso_api \<Rightarrow> int \<Rightarrow> nonces \<Rightarrow> nonces" where
  "nonces_purge I now d = collect (purge_one I now) d"

definition is_consumed :: "iso_api \<Rightarrow> int \<Rightarrow> string \<Rightarrow> string option \<Rightarrow> bool" where
  "is_consumed I now n file = dict_has (nonces_load I now file) n"

definition nonce_add :: "iso_api \<Rightarrow> int \<Rightarrow> string \<Rightarrow> int option \<Rightarrow> nonces \<Rightarrow> nonces" where
  "nonce_add I now n expires_at d =
     (let floor_at = now + seconds NONCE_RETENTION_SECONDS;
          expiry = (case expires_at of None \<Rightarrow> floor_at | Some e \<Rightarrow> max floor_at e)
      in dict_put n (iso_format I expiry) d)"

text \<open>\<open>consume\<close>, which runs under an exclusive \<open>flock\<close> and replaces the file atomically.\<close>

definition consume :: "iso_api \<Rightarrow> int \<Rightarrow> string \<Rightarrow> int option \<Rightarrow> string option \<Rightarrow> string option \<times> bool" where
  "consume I now n expires_at file =
     (let d = nonces_purge I now (nonces_load I now file) in
      if dict_has d n then (Some (nonces_text d), False)
      else (Some (nonces_text (nonce_add I now n expires_at d)), True))"

text \<open>
  The same for a nonce claim of any JSON type: a list or an object is unhashable (\<open>None\<close>);
  any other value that is no text is never found among the text keys and is written as
  \<open>json.dumps\<close> writes a key.
\<close>

definition consume_value ::
  "iso_api \<Rightarrow> int \<Rightarrow> json \<Rightarrow> int option \<Rightarrow> string option \<Rightarrow> (string option \<times> bool) option" where
  "consume_value I now n expires_at file =
     (case n of
        JStr s \<Rightarrow> Some (consume I now s expires_at file)
      | JList _ \<Rightarrow> None
      | JObj _ \<Rightarrow> None
      | _ \<Rightarrow> Some (Some (nonces_text (nonce_add I now (dumps_with plain_layout n) expires_at
                 (nonces_purge I now (nonces_load I now file)))), True))"

definition mark_consumed :: "iso_api \<Rightarrow> int \<Rightarrow> string \<Rightarrow> int option \<Rightarrow> string option \<Rightarrow> string option" where
  "mark_consumed I now n expires_at file = fst (consume I now n expires_at file)"

section \<open>The store as the runner uses it\<close>

locale single_use =
  fixes claim :: "int \<Rightarrow> 'n \<Rightarrow> int \<Rightarrow> 's \<Rightarrow> 's \<times> bool"
    and blocked :: "'s \<Rightarrow> 'n \<Rightarrow> int \<Rightarrow> bool"
    and inv :: "'s \<Rightarrow> bool"
  assumes claim_iff: "inv s \<Longrightarrow> snd (claim t n u s) \<longleftrightarrow> \<not> blocked s n t"
    and claim_inv: "inv s \<Longrightarrow> inv (fst (claim t n u s))"
    and claim_keeps: "inv s \<Longrightarrow> t \<le> t' \<Longrightarrow> blocked s m t' \<Longrightarrow> blocked (fst (claim t n u s)) m t'"
    and claim_blocks: "inv s \<Longrightarrow> snd (claim t n u s) \<Longrightarrow> t' \<le> u \<Longrightarrow> blocked (fst (claim t n u s)) n t'"
begin

text \<open>A sequence of claims \<open>(time, name, validity)\<close> and which of them were granted.\<close>

fun claims_run :: "(int \<times> 'n \<times> int) list \<Rightarrow> 's \<Rightarrow> bool list" where
  "claims_run [] s = []"
| "claims_run ((t, n, u) # cs) s = (case claim t n u s of (s', b) \<Rightarrow> b # claims_run cs s')"

lemma blocked_stays:
  assumes "inv s" "sorted (map fst cs)" "\<forall>c \<in> set cs. fst c \<le> u \<and> blocked s n (fst c)"
  shows "\<forall>(c, b) \<in> set (zip cs (claims_run cs s)). fst (snd c) = n \<longrightarrow> \<not> b"
  using assms
proof (induction cs arbitrary: s)
  case (Cons c cs)
  obtain t m v where c: "c = (t, m, v)" by (cases c)
  obtain s' b where cl: "claim t m v s = (s', b)" by (cases "claim t m v s")
  have "inv s'" using claim_inv[OF Cons.prems(1), of t m v] cl by simp
  moreover have "\<forall>c \<in> set cs. fst c \<le> u \<and> blocked s' n (fst c)"
    using Cons.prems c claim_keeps[OF Cons.prems(1), of t _ n m v] cl by auto
  moreover have "m = n \<longrightarrow> \<not> b" using claim_iff[OF Cons.prems(1), of t m v] Cons.prems(3) c cl by simp
  ultimately show ?case using Cons.IH[of s'] Cons.prems(2) c cl by auto
qed simp

lemma granted_once:
  assumes "inv s" "snd (claim t n u s)" "sorted (map fst cs)" "\<forall>c \<in> set cs. fst c \<le> u"
  shows "\<forall>(c, b) \<in> set (zip cs (claims_run cs (fst (claim t n u s)))). fst (snd c) = n \<longrightarrow> \<not> b"
  using assms claim_blocks[OF assms(1,2)] by (intro blocked_stays[where u = u]) (auto intro: claim_inv)

end

section \<open>The file is such a store\<close>

text \<open>The files the store writes itself: distinct names, readable times.\<close>

definition nonces_ok :: "iso_api \<Rightarrow> string option \<Rightarrow> bool" where
  "nonces_ok I file \<longleftrightarrow> file = None \<or>
     (\<exists>d. file = Some (nonces_text d) \<and> dict_wf d \<and> (\<forall>ts \<in> snd ` set d. \<exists>t. ts = iso_format I t))"

lemma fold_put_str:
  assumes "distinct (map fst (acc @ d))"
  shows "fold (\<lambda>(n, ts) d. dict_put n (str_json ts) d) (map (\<lambda>(k, v). (k, JStr v)) d) acc = acc @ d"
  using assms
proof (induction d arbitrary: acc)
  case (Cons kv d)
  obtain k v where kv: "kv = (k, v)" by (cases kv)
  have "k \<notin> fst ` set acc" using Cons.prems kv by auto
  with Cons.IH[of "acc @ [(k, v)]"] Cons.prems kv show ?case by (simp add: dict_put_fresh)
qed simp

lemma nonces_load_text [simp]: "dict_wf d \<Longrightarrow> nonces_load I now (Some (nonces_text d)) = d"
proof -
  assume wf: "dict_wf d"
  have "distinct (map fst (map (\<lambda>(k, v). (k, JStr v)) d))" using wf by (simp add: dict_wf_def case_prod_beta o_def)
  then have "loads (nonces_text d) = Some (JObj [(''nonces'', JObj (map (\<lambda>(k, v). (k, JStr v)) d))])"
    unfolding nonces_text_def by (intro loads_dumps) (auto simp: dict_wf_def)
  then show ?thesis using fold_put_str[of "[]" d] wf by (simp add: nonces_load_def opt_field_def dict_wf_def)
qed

lemma nonces_load_None [simp]: "nonces_load I now None = []"
  by (simp add: nonces_load_def)

definition nonce_expiry :: "iso_api \<Rightarrow> nonces \<Rightarrow> string \<Rightarrow> int option" where
  "nonce_expiry I d n = map_option snd (Option.bind (dict_get d n) (iso_parse I))"

definition readable :: "iso_api \<Rightarrow> nonces \<Rightarrow> bool" where
  "readable I d \<longleftrightarrow> dict_wf d \<and> (\<forall>ts \<in> snd ` set d. \<exists>t. ts = iso_format I t)"

lemma purge_readable:
  assumes "iso_ok I" and "readable I d"
  shows "readable I (nonces_purge I now d)"
    and "dict_get (nonces_purge I now d) n =
      (case dict_get d n of None \<Rightarrow> None
       | Some ts \<Rightarrow> if now \<le> the (nonce_expiry I d n) then Some ts else None)"
proof -
  have F: "nonces_purge I now d = filter (\<lambda>(k, ts). now \<le> snd (the (iso_parse I ts))) d"
    using assms(2) unfolding readable_def nonces_purge_def
    by (induction d) (use assms(1) in \<open>auto simp: purge_one_def iso_ok_def dict_wf_def\<close>)
  show "readable I (nonces_purge I now d)"
    using assms(2) unfolding F readable_def dict_wf_def by (auto simp: distinct_map_filter)
  have get: "dict_get (nonces_purge I now d) n = Some ts \<longleftrightarrow> dict_get d n = Some ts \<and> now \<le> snd (the (iso_parse I ts))" for ts
  proof -
    have "dict_wf (nonces_purge I now d)" "dict_wf d"
      using \<open>readable I (nonces_purge I now d)\<close> assms(2) by (simp_all add: readable_def)
    then show ?thesis by (simp add: dict_get_iff_mem F)
  qed
  have rd: "ts = iso_format I t" if "dict_get d n = Some ts" "t = snd (the (iso_parse I ts))" for ts t
    using that assms dict_get_iff_mem[of d n ts] by (force simp: readable_def iso_ok_def)
  show "dict_get (nonces_purge I now d) n =
      (case dict_get d n of None \<Rightarrow> None
       | Some ts \<Rightarrow> if now \<le> the (nonce_expiry I d n) then Some ts else None)"
  proof (cases "dict_get d n")
    case None
    with get have "\<forall>ts. dict_get (nonces_purge I now d) n \<noteq> Some ts" by simp
    with None show ?thesis by simp
  next
    case (Some ts)
    have ex: "the (nonce_expiry I d n) = snd (the (iso_parse I ts))"
      using Some rd[OF Some refl] assms(1) by (simp add: nonce_expiry_def) (metis iso_ok_def option.sel option.simps(9))
    show ?thesis
    proof (cases "now \<le> the (nonce_expiry I d n)")
      case True
      with get[of ts] Some ex show ?thesis by simp
    next
      case False
      with get Some ex have "\<forall>ts'. dict_get (nonces_purge I now d) n \<noteq> Some ts'" by auto
      with False Some show ?thesis by simp
    qed
  qed
qed

text \<open>A name is refused at time \<open>t\<close> while its recorded expiry is not before \<open>t\<close>.\<close>

definition nonce_blocked :: "iso_api \<Rightarrow> string option \<Rightarrow> string \<Rightarrow> int \<Rightarrow> bool" where
  "nonce_blocked I file n t \<longleftrightarrow> (case nonce_expiry I (nonces_load I t file) n of None \<Rightarrow> False | Some x \<Rightarrow> t \<le> x)"

lemma nonces_ok_cases:
  assumes "nonces_ok I file"
  obtains d where "readable I d" "\<And>now. nonces_load I now file = d"
proof -
  from assms consider "file = None" | d where "file = Some (nonces_text d)" "readable I d"
    by (auto simp: nonces_ok_def readable_def)
  then show thesis
  proof cases
    case 1
    then show thesis by (intro that[of "[]"]) (simp_all add: readable_def)
  next
    case (2 d)
    then show thesis by (intro that[of d]) (simp_all add: readable_def)
  qed
qed

lemma nonces_ok_text: "readable I d \<Longrightarrow> nonces_ok I (Some (nonces_text d))"
  by (auto simp: nonces_ok_def readable_def)

lemma readable_put: "readable I d \<Longrightarrow> readable I (dict_put n (iso_format I t) d)"
  unfolding readable_def using dict_put_values[of n "iso_format I t" d] by (meson dict_wf_put insertE subset_iff)

lemma readable_expiry:
  assumes "iso_ok I" "readable I d"
  shows "nonce_expiry I d n = None \<longleftrightarrow> dict_get d n = None"
proof (cases "dict_get d n")
  case (Some ts)
  then obtain t where "ts = iso_format I t" using assms(2) dict_get_iff_mem[of d n ts] by (force simp: readable_def)
  with Some assms(1) show ?thesis by (simp add: nonce_expiry_def iso_ok_def)
qed (simp add: nonce_expiry_def)

lemma consume_result:
  assumes "iso_ok I" and d: "readable I d" "\<And>now. nonces_load I now file = d"
  shows "snd (consume I t n (Some u) file) \<longleftrightarrow> \<not> nonce_blocked I file n t"
    and "\<exists>d'. readable I d' \<and> fst (consume I t n (Some u) file) = Some (nonces_text d') \<and>
      (\<forall>m. nonce_expiry I d' m =
         (if m = n \<and> snd (consume I t n (Some u) file) then Some (max (t + seconds NONCE_RETENTION_SECONDS) u)
          else if nonce_blocked I file m t then nonce_expiry I d m else None))"
proof -
  let ?p = "nonces_purge I t d"
  note p = purge_readable[OF assms(1) d(1), of t]
  have B: "nonce_blocked I file m t \<longleftrightarrow> dict_has d m \<and> t \<le> the (nonce_expiry I d m)" for m
    using readable_expiry[OF assms(1) d(1), of m] by (cases "nonce_expiry I d m") (simp_all add: nonce_blocked_def d(2))
  have has: "dict_has ?p m \<longleftrightarrow> nonce_blocked I file m t" for m
    by (cases "dict_get d m") (simp_all add: p(2) B)
  have pe: "nonce_expiry I ?p m = (if nonce_blocked I file m t then nonce_expiry I d m else None)" for m
    by (cases "dict_get d m") (simp_all add: nonce_expiry_def[of I ?p] p(2) B, simp add: nonce_expiry_def)
  have unfold: "consume I t n (Some u) file =
      (if nonce_blocked I file n t then (Some (nonces_text ?p), False)
       else (Some (nonces_text (dict_put n (iso_format I (max (t + seconds NONCE_RETENTION_SECONDS) u)) ?p)), True))"
    unfolding consume_def nonce_add_def Let_def d(2) has by simp
  then show "snd (consume I t n (Some u) file) \<longleftrightarrow> \<not> nonce_blocked I file n t" by simp
  have put: "nonce_expiry I (dict_put n (iso_format I x) ?p) m = (if m = n then Some x else nonce_expiry I ?p m)" for m x
    using assms(1) by (simp add: nonce_expiry_def iso_ok_def)
  show "\<exists>d'. readable I d' \<and> fst (consume I t n (Some u) file) = Some (nonces_text d') \<and>
      (\<forall>m. nonce_expiry I d' m =
         (if m = n \<and> snd (consume I t n (Some u) file) then Some (max (t + seconds NONCE_RETENTION_SECONDS) u)
          else if nonce_blocked I file m t then nonce_expiry I d m else None))"
  proof (cases "nonce_blocked I file n t")
    case True
    then show ?thesis unfolding unfold using p(1) pe by auto
  next
    case False
    then show ?thesis unfolding unfold using pe readable_put[OF p(1)]
      by (intro exI[of _ "dict_put n (iso_format I (max (t + seconds NONCE_RETENTION_SECONDS) u)) ?p"]) (simp add: put)
  qed
qed

interpretation nonce_file: single_use
  "\<lambda>t n u s. consume I t n (Some u) s" "nonce_blocked I" "\<lambda>s. iso_ok I \<and> nonces_ok I s" for I
proof
  fix s t t' n m u
  assume inv: "iso_ok I \<and> nonces_ok I s"
  obtain d where d: "readable I d" "\<And>now. nonces_load I now s = d" using inv nonces_ok_cases[of I s] by blast
  note c = consume_result[OF conjunct1[OF inv] d, of t n u]
  obtain d' where d': "readable I d'" "fst (consume I t n (Some u) s) = Some (nonces_text d')"
    "\<forall>m. nonce_expiry I d' m =
         (if m = n \<and> snd (consume I t n (Some u) s) then Some (max (t + seconds NONCE_RETENTION_SECONDS) u)
          else if nonce_blocked I s m t then nonce_expiry I d m else None)"
    using c(2) by blast
  have wf: "dict_wf d'" using d'(1) by (simp add: readable_def)
  show "snd (consume I t n (Some u) s) = (\<not> nonce_blocked I s n t)" by (rule c(1))
  show "iso_ok I \<and> nonces_ok I (fst (consume I t n (Some u) s))"
    using inv d' nonces_ok_text by simp
  show "nonce_blocked I (fst (consume I t n (Some u) s)) m t'" if le: "t \<le> t'" and bl: "nonce_blocked I s m t'"
  proof -
    obtain x where "nonce_expiry I d m = Some x" "t' \<le> x"
      using bl by (auto simp: nonce_blocked_def d(2) split: option.splits)
    with le have "nonce_blocked I s m t" "nonce_expiry I d m = Some x" "t' \<le> x"
      by (auto simp: nonce_blocked_def d(2))
    then show ?thesis using d'(3) c(1) wf by (auto simp: d'(2) nonce_blocked_def)
  qed
  show "nonce_blocked I (fst (consume I t n (Some u) s)) n t'" if "snd (consume I t n (Some u) s)" "t' \<le> u"
    using that d'(3) wf by (auto simp: d'(2) nonce_blocked_def)
qed

end
