(* ===== verification/Runner.thy ===== *)
theory Runner
  imports Dispatch Tokens Nonces
begin

text \<open>
  \<open>RunnerWorker\<close> of \<open>odooctl/runner/worker.py\<close>: claiming an entry, the checks of its
  token, role and nonce, and its execution under the environment lock.  The services an
  entry is dispatched to are part of the runner (theory \<open>Dispatch\<close>).  \<open>rn_seconds\<close> is the clock of token verification, \<open>rn_micros\<close>
  the clock of the nonce store.
\<close>

definition KIND_ACTION :: "(string, Action) dict" where
  "KIND_ACTION =
     [(''backup'', A_BACKUP), (''restore'', A_RESTORE), (''clone'', A_CLONE), (''deploy'', A_DEPLOY),
      (''promote'', A_PROMOTE), (''env_create'', A_ENV), (''env_destroy'', A_ENV),
      (''update_modules'', A_DEPLOY), (''rollback'', A_RESTORE), (''dr_drill'', A_RESTORE),
      (''snapshot_create'', A_BACKUP), (''snapshot_reconcile'', A_BACKUP),
      (''snapshot_restore'', A_RESTORE), (''pitr_base_create'', A_BACKUP), (''pitr_restore'', A_RESTORE),
      (''pitr_cutover'', A_RESTORE), (''pitr_reconcile'', A_BACKUP), (''filestore_migrate'', A_RESTORE),
      (''migrate_rehearsal'', A_RESTORE), (''service_logs'', A_LOGS), (''service_restart'', A_DEPLOY)]"

record runner =
  rn_rt :: runtime
  rn_hmac :: mac
  rn_api_key :: string
  rn_config :: dispatch_config
  rn_services :: services
  rn_iso :: iso_api
  rn_seconds :: "nat \<Rightarrow> int"
  rn_micros :: "nat \<Rightarrow> int"

abbreviation rn_envs :: "runner \<Rightarrow> EnvMap" where
  "rn_envs rn \<equiv> dc_envs (rn_config rn)"

text \<open>The body run under the lock; redaction reads the environment of the process.\<close>

definition rn_dispatch :: "runner \<Rightarrow> QueueEntry \<Rightarrow> block" where
  "rn_dispatch rn e = dispatch_block ((rn_config rn)\<lparr>dc_environ := rt_environ (rn_rt rn)\<rparr>) (rn_services rn) e"

lemma rn_dispatch_wf: "\<forall>em \<in> set (bl_emits (rn_dispatch rn e)). wf_json (em_data em)"
  by (simp add: rn_dispatch_def dispatch_block_wf)

record runner_world =
  rw_world :: op_world
  rw_queue :: queue_dir
  rw_nonces :: "string option"

text \<open>What escapes \<open>_execute_entry\<close>.\<close>

datatype exec_error =
    ExcStore py_error
  | ExcToken token_error
  | ExcTimestamp
  | ExcNonce
  | ExcLockOS
  | ExcInterrupted

fun token_error_text :: "token_error \<Rightarrow> string" where
  "token_error_text (TokenInvalid m) = m"
| "token_error_text (TokenExpired m) = m"
| "token_error_text (TokenScopeError m) = m"
| "token_error_text (TokenTypeError m) = m"
| "token_error_text (TokenAttributeError m) = m"

definition runner_principal :: "(string \<times> json) list \<Rightarrow> Principal" where
  "runner_principal payload =
     (let roles = (case opt_field payload ''roles'' (JList []) of
            JList xs \<Rightarrow> collect (\<lambda>r. case r of JStr s \<Rightarrow> Role_of s | _ \<Rightarrow> None) xs
          | _ \<Rightarrow> []);
          subject = str_json (opt_field payload ''sub'' (JStr ''api-client''))
      in \<lparr>principal_id = subject, principal_org_id = str_json (opt_field payload ''org'' (JStr ''default'')),
          principal_kind = TOKEN, principal_roles = set roles, principal_display = subject\<rparr>)"

text \<open>The role floor; the message is \<open>str(exc)\<close>, which for a \<open>KeyError\<close> is the \<open>repr\<close> of its argument.\<close>

definition runner_rbac :: "EnvMap \<Rightarrow> QueueEntry \<Rightarrow> (string \<times> json) list \<Rightarrow> (string, unit) result" where
  "runner_rbac envs e payload =
     (case dict_get KIND_ACTION (qe_kind e) of
        None \<Rightarrow> Inl (repr_str (qe_kind e))
      | Some action \<Rightarrow>
          (case kind_protected envs (qe_kind e) (qe_environment e) of
             None \<Rightarrow> Inl (repr_str (unknown_env_message envs (qe_environment e)))
           | Some protected \<Rightarrow>
               (case require_rbac (runner_principal payload) action protected of
                  Inl d \<Rightarrow> Inl (access_denied_message d)
                | Inr _ \<Rightarrow> Inr ())))"

text \<open>\<open>store.update_status(FAILED)\<close>, \<open>queue.fail\<close>, \<open>return False\<close>.\<close>

definition fail_entry ::
  "runner \<Rightarrow> QueueEntry \<Rightarrow> string \<Rightarrow> runner_world \<Rightarrow> runner_world \<times> (exec_error, bool) result" where
  "fail_entry rn e msg w =
     (case update_op (rn_rt rn) (qe_op_id e) FAILED (Some msg) (rw_world w) of
        Inl err \<Rightarrow> (w, Inl (ExcStore err))
      | Inr w' \<Rightarrow> (w\<lparr>rw_world := w', rw_queue := queue_fail (qe_op_id e) (rw_queue w)\<rparr>, Inr False))"

definition finish_entry ::
  "runner \<Rightarrow> QueueEntry \<Rightarrow> bool \<Rightarrow> string \<Rightarrow> op_context \<Rightarrow> runner_world
   \<Rightarrow> runner_world \<times> (exec_error, bool) result" where
  "finish_entry rn e ok msg c w =
     (let em = (if ok then plain_emission ''operation completed'' ''end'' ''info''
                else plain_emission (''operation failed: '' @ msg) ''end'' ''error'');
          (c', w1) = emit (rn_rt rn) em (c, rw_world w)
      in case update_op (rn_rt rn) (qe_op_id e) (if ok then SUCCEEDED else FAILED) (if ok then None else Some msg) w1 of
           Inl err \<Rightarrow> (w\<lparr>rw_world := w1\<rparr>, Inl (ExcStore err))
         | Inr w2 \<Rightarrow>
             (w\<lparr>rw_world := audit_op (rn_rt rn) (qe_actor e) (qe_kind e) (qe_environment e) (qe_params_redacted e)
                   (if ok then ''succeeded'' else ''failed'') (qe_op_id e) w2,
                rw_queue := (if ok then queue_complete (qe_op_id e) (rw_queue w)
                             else queue_fail (qe_op_id e) (rw_queue w))\<rparr>, Inr ok))"

text \<open>The transition to \<open>RUNNING\<close> and the start event.\<close>

definition start_entry ::
  "runner \<Rightarrow> QueueEntry \<Rightarrow> runner_world \<Rightarrow> (runner_world \<times> exec_error, op_context \<times> op_world) result" where
  "start_entry rn e w =
     (case update_op (rn_rt rn) (qe_op_id e) RUNNING None (rw_world w) of
        Inl err \<Rightarrow> Inl (w, ExcStore err)
      | Inr w1 \<Rightarrow>
          (case store_load (w_ops w1) (qe_op_id e) of
             Inl err \<Rightarrow> Inl (w\<lparr>rw_world := w1\<rparr>, ExcStore err)
           | Inr op \<Rightarrow>
               Inr (emit (rn_rt rn) (plain_emission
                 (''operation started: '' @ qe_kind e @ '' on '' @ qe_environment e) ''start'' ''info'')
                 (new_context op, w1))))"

text \<open>From there on: the lock, the dispatch, the release and the record.\<close>

definition run_entry :: "runner \<Rightarrow> QueueEntry \<Rightarrow> runner_world \<Rightarrow> runner_world \<times> (exec_error, bool) result" where
  "run_entry rn e w =
     (let rt = rn_rt rn in
      case start_entry rn e w of
        Inl (w', err) \<Rightarrow> (w', Inl err)
      | Inr (c, w2) \<Rightarrow>
          (case lock_enter (rt_kill rt) (new_lock (qe_environment e) (qe_op_id e)) (w_thread w2, w_locks w2) of
             Inl (LockAcquisitionError m) \<Rightarrow>
               finish_entry rn e False (''lock acquisition failed: '' @ m) c (w\<lparr>rw_world := w2\<rparr>)
           | Inl LockOSError \<Rightarrow> (w\<lparr>rw_world := w2\<rparr>, Inl ExcLockOS)
           | Inr (l, th, files) \<Rightarrow>
               (let blk = rn_dispatch rn e;
                    (c', w3) = fold (emit rt) (bl_emits blk) (c, w2\<lparr>w_thread := th, w_locks := files\<rparr>);
                    (th', files') = lock_exit l (w_thread w3, w_locks w3);
                    w4 = w\<lparr>rw_world := w3\<lparr>w_thread := th', w_locks := files'\<rparr>\<rparr>
                in case bl_end blk of
                     BlockOk \<Rightarrow> finish_entry rn e True [] c' w4
                   | BlockRaises m \<Rightarrow> finish_entry rn e False (shell_redact (rt_environ rt) m) c' w4
                   | BlockInterrupted \<Rightarrow> (w4, Inl ExcInterrupted))))"

text \<open>The range of \<open>datetime.fromtimestamp\<close>.\<close>

definition timestamp_ok :: "int \<Rightarrow> bool" where
  "timestamp_ok t \<longleftrightarrow> -62135596800 \<le> t \<and> t \<le> 253402300799"

definition claim_nonce ::
  "runner \<Rightarrow> QueueEntry \<Rightarrow> (string \<times> json) list \<Rightarrow> runner_world \<Rightarrow> runner_world \<times> (exec_error, bool) result" where
  "claim_nonce rn e payload w =
     (let nonce = opt_field payload ''nonce'' (JStr []);
          exp = py_int_value (dict_get payload ''exp'')
      in if (case exp of None \<Rightarrow> False | Some x \<Rightarrow> \<not> timestamp_ok x) then (w, Inl ExcTimestamp)
         else (case consume_value (rn_iso rn) (rn_micros rn (w_tick (rw_world w))) nonce (map_option seconds exp) (rw_nonces w) of
                 None \<Rightarrow> (w, Inl ExcNonce)
               | Some (file, False) \<Rightarrow>
                   fail_entry rn e (''token nonce already consumed: '' @ str_json nonce) (w\<lparr>rw_nonces := file\<rparr>)
               | Some (file, True) \<Rightarrow> run_entry rn e (w\<lparr>rw_nonces := file\<rparr>)))"

definition authorize_entry :: "runner \<Rightarrow> QueueEntry \<Rightarrow> runner_world \<Rightarrow> runner_world \<times> (exec_error, bool) result" where
  "authorize_entry rn e w =
     (let red = shell_redact (rt_environ (rn_rt rn)) in
      case verify (rn_hmac rn) (KeyStr (rn_api_key rn)) (qe_token e) (Some (qe_kind e)) (Some (qe_environment e))
             (Some (qe_project e)) (rn_seconds rn (w_tick (rw_world w))) of
        Inl (TokenTypeError m) \<Rightarrow> (w, Inl (ExcToken (TokenTypeError m)))
      | Inl (TokenAttributeError m) \<Rightarrow> (w, Inl (ExcToken (TokenAttributeError m)))
      | Inl err \<Rightarrow> fail_entry rn e (red (''token error: '' @ token_error_text err)) w
      | Inr payload \<Rightarrow>
          (case runner_rbac (rn_envs rn) e payload of
             Inl m \<Rightarrow> fail_entry rn e (red (''rbac error: '' @ m)) w
           | Inr _ \<Rightarrow> claim_nonce rn e payload w))"

definition execute_entry :: "runner \<Rightarrow> QueueEntry \<Rightarrow> runner_world \<Rightarrow> runner_world \<times> (exec_error, bool) result" where
  "execute_entry rn e w =
     (case store_load (w_ops (rw_world w)) (qe_op_id e) of
        Inr op \<Rightarrow>
          (if op_status op = CANCELLED
           then (w\<lparr>rw_queue := queue_complete (qe_op_id e) (rw_queue w)\<rparr>, Inr True)
           else authorize_entry rn e w)
      | Inl (KeyError _) \<Rightarrow> authorize_entry rn e w
      | Inl err \<Rightarrow> (w, Inl (ExcStore err)))"

text \<open>
  \<open>claim_and_run\<close> over the registered projects; \<open>None\<close> stands for a project whose context
  does not load.  The result is whether work was done and whether the last run was fine.
\<close>

type_synonym projects = "(runner \<times> runner_world) option list"

fun claim_and_run :: "projects \<Rightarrow> projects \<times> (exec_error, bool \<times> bool) result" where
  "claim_and_run [] = ([], Inr (False, True))"
| "claim_and_run (None # ps) = (case claim_and_run ps of (ps', r) \<Rightarrow> (None # ps', r))"
| "claim_and_run (Some (rn, w) # ps) =
     (case claim_next (rw_queue w) of
        (q, None) \<Rightarrow> (case claim_and_run ps of (ps', r) \<Rightarrow> (Some (rn, w\<lparr>rw_queue := q\<rparr>) # ps', r))
      | (q, Some e) \<Rightarrow>
          (case execute_entry rn e (w\<lparr>rw_queue := q\<rparr>) of
             (w', r) \<Rightarrow> (Some (rn, w') # ps, bindE r (\<lambda>ok. Inr (True, ok)))))"

text \<open>
  The loop of \<open>run_loop\<close> for a number of rounds; \<open>None\<close> says that it is still running.  The
  heartbeat and the container probes of a round leave the state of the projects alone.
\<close>

fun run_loop :: "bool \<Rightarrow> bool \<Rightarrow> nat \<Rightarrow> projects \<Rightarrow> projects \<times> (exec_error, bool option) result" where
  "run_loop once fail_fast 0 ps = (ps, Inr None)"
| "run_loop once fail_fast (Suc n) ps =
     (case claim_and_run ps of
        (ps', Inl err) \<Rightarrow> (ps', Inl err)
      | (ps', Inr (did_work, last_ok)) \<Rightarrow>
          if once then (ps', Inr (Some last_ok))
          else if did_work \<and> fail_fast \<and> \<not> last_ok then (ps', Inr (Some False))
          else run_loop once fail_fast n ps')"

lemma run_loop_returns_failure: "run_loop False ff n ps = (ps', Inr (Some b)) \<Longrightarrow> ff \<and> \<not> b"
  by (induction n arbitrary: ps) (auto split: prod.splits sum.splits if_splits)

lemma run_loop_once: "0 < n \<Longrightarrow> run_loop True ff n ps =
   (case claim_and_run ps of (ps', r) \<Rightarrow> (ps', bindE r (\<lambda>(_, ok). Inr (Some ok))))"
  by (cases n) (auto simp: bindE_def split: prod.splits sum.splits)

section \<open>Executions\<close>

text \<open>The record of an execution: status, events, audit entry, queue file, released lock.\<close>

definition entry_recorded ::
  "runner \<Rightarrow> QueueEntry \<Rightarrow> bool \<Rightarrow> string \<Rightarrow> nat \<Rightarrow> runner_world \<Rightarrow> runner_world \<Rightarrow> bool" where
  "entry_recorded rn e ok msg n w w' \<longleftrightarrow>
     (\<exists>op a. store_load (w_ops (rw_world w')) (qe_op_id e) = Inr op \<and>
        op_status op = (if ok then SUCCEEDED else FAILED) \<and> (ok \<or> op_error op = Some msg) \<and>
        event_seqs (w_ops (rw_world w')) (qe_op_id e) = map int [0..<n] \<and>
        load_chain (w_audit (rw_world w')) = load_chain (w_audit (rw_world w)) @ [a] \<and>
        au_op_id a = qe_op_id e \<and> au_outcome a = (if ok then ''succeeded'' else ''failed'')) \<and>
     world_inv (rn_rt rn) (rw_world w') \<and>
     w_locks (rw_world w') = w_locks (rw_world w) \<and> w_thread (rw_world w') = w_thread (rw_world w) \<and>
     rw_queue w' = (if ok then queue_complete (qe_op_id e) (rw_queue w) else queue_fail (qe_op_id e) (rw_queue w)) \<and>
     rw_nonces w' = rw_nonces w"

lemma finish_entry_recorded:
  assumes seq: "seqs_ok (c, rw_world w)" and i: "oc_op_id c = qe_op_id e"
    and ld: "store_load (w_ops (rw_world w)) (qe_op_id e) = Inr op" "op_ident op = qe_op_id e" "operation_wf op"
    and aud: "audit_inv (rt_hashes (rn_rt rn)) (rt_audit_key (rn_rt rn)) (w_audit (rw_world w))"
    and wf: "entry_wf e"
  shows "\<exists>w'. finish_entry rn e ok msg c w = (w', Inr ok) \<and>
     entry_recorded rn e ok msg (Suc (nat (oc_seq c))) w w'"
proof -
  let ?rt = "rn_rt rn"
  let ?em = "if ok then plain_emission ''operation completed'' ''end'' ''info''
                else plain_emission (''operation failed: '' @ msg) ''end'' ''error''"
  let ?w1 = "write_event ?rt (qe_op_id e) (oc_seq c) ?em (rw_world w)"
  have em: "wf_json (em_data ?em)" by (simp add: plain_emission_def)
  have s1: "seqs_ok (emit ?rt ?em (c, rw_world w))" by (rule emit_seqs[OF seq em])
  have e1: "emit ?rt ?em (c, rw_world w) = (c\<lparr>oc_seq := oc_seq c + 1\<rparr>, ?w1)" by (simp add: emit_def i)
  have "store_load (w_ops ?w1) (qe_op_id e) = Inr op" using ld(1) by simp
  from update_op_known[OF this ld(2,3), of ?rt "if ok then SUCCEEDED else FAILED" "if ok then None else Some msg"]
  obtain w2 where w2: "update_op ?rt (qe_op_id e) (if ok then SUCCEEDED else FAILED) (if ok then None else Some msg) ?w1 = Inr w2"
    "store_load (w_ops w2) (qe_op_id e) =
       Inr (set_status (rt_clock ?rt (w_tick ?w1)) (if ok then SUCCEEDED else FAILED) (if ok then None else Some msg) None op)"
    "\<forall>j. store_load_events (w_ops w2) j = store_load_events (w_ops ?w1) j"
    "events_closed (w_ops ?w1) \<longrightarrow> events_closed (w_ops w2)"
    "w_audit w2 = w_audit ?w1" "w_locks w2 = w_locks ?w1" "w_thread w2 = w_thread ?w1" by blast
  have aud2: "audit_inv (rt_hashes ?rt) (rt_audit_key ?rt) (w_audit w2)" using aud w2(5) by simp
  have wfp: "wf_json (qe_params_redacted e)" using wf by (simp add: entry_wf_def)
  note a = audit_op_inv[OF aud2 wfp, of "qe_actor e" "qe_kind e" "qe_environment e"
      "if ok then ''succeeded'' else ''failed''" "qe_op_id e"]
  have n: "0 \<le> oc_seq c" using seq by (simp add: seqs_ok_def)
  have "event_seqs (w_ops w2) (qe_op_id e) = map int [0..<Suc (nat (oc_seq c))]"
    using s1 n by (simp add: e1 seqs_ok_def event_seqs_def w2(3) i nat_add_distrib)
  moreover have "events_closed (w_ops w2)" using s1 w2(4) by (simp add: e1 seqs_ok_def)
  moreover have "finish_entry rn e ok msg c w =
     (w\<lparr>rw_world := audit_op ?rt (qe_actor e) (qe_kind e) (qe_environment e) (qe_params_redacted e)
                   (if ok then ''succeeded'' else ''failed'') (qe_op_id e) w2,
                rw_queue := (if ok then queue_complete (qe_op_id e) (rw_queue w)
                             else queue_fail (qe_op_id e) (rw_queue w))\<rparr>, Inr ok)"
    unfolding finish_entry_def Let_def e1 prod.case using w2(1) by simp
  ultimately show ?thesis using a w2
    by (auto simp: entry_recorded_def world_inv_def event_seqs_def set_status_def)
qed

text \<open>What an execution needs of the state it starts in.\<close>

definition startable :: "runner \<Rightarrow> QueueEntry \<Rightarrow> Operation \<Rightarrow> runner_world \<Rightarrow> bool" where
  "startable rn e op w \<longleftrightarrow>
     world_inv (rn_rt rn) (rw_world w) \<and> entry_wf e \<and>
     store_load (w_ops (rw_world w)) (qe_op_id e) = Inr op \<and> op_ident op = qe_op_id e \<and> operation_wf op \<and>
     store_load_events (w_ops (rw_world w)) (qe_op_id e) = []"

text \<open>The state after the start event.\<close>

lemma start_entry_ok:
  assumes st: "startable rn e op w"
  obtains op' c w2 where "start_entry rn e w = Inr (c, w2)" "oc_op_id c = qe_op_id e" "oc_seq c = 1"
    "seqs_ok (c, w2)" "store_load (w_ops w2) (qe_op_id e) = Inr op'"
    "op_ident op' = qe_op_id e" "operation_wf op'" "w_audit w2 = w_audit (rw_world w)"
    "w_locks w2 = w_locks (rw_world w)" "w_thread w2 = w_thread (rw_world w)"
proof -
  have ld: "store_load (w_ops (rw_world w)) (qe_op_id e) = Inr op" "op_ident op = qe_op_id e" "operation_wf op"
    and inv: "world_inv (rn_rt rn) (rw_world w)"
    and fresh: "store_load_events (w_ops (rw_world w)) (qe_op_id e) = []"
    using st by (simp_all add: startable_def)
  let ?rt = "rn_rt rn"
  from update_op_known[OF ld, of ?rt RUNNING None] obtain w1 where
    w1: "update_op ?rt (qe_op_id e) RUNNING None (rw_world w) = Inr w1"
    "store_load (w_ops w1) (qe_op_id e) = Inr (set_status (rt_clock ?rt (w_tick (rw_world w))) RUNNING None None op)"
    "\<forall>j. store_load_events (w_ops w1) j = store_load_events (w_ops (rw_world w)) j"
    "events_closed (w_ops (rw_world w)) \<longrightarrow> events_closed (w_ops w1)"
    "w_audit w1 = w_audit (rw_world w)" "w_locks w1 = w_locks (rw_world w)" "w_thread w1 = w_thread (rw_world w)"
    by blast
  let ?op = "set_status (rt_clock ?rt (w_tick (rw_world w))) RUNNING None None op"
  let ?em = "plain_emission (''operation started: '' @ qe_kind e @ '' on '' @ qe_environment e) ''start'' ''info''"
  let ?w2 = "write_event ?rt (qe_op_id e) 0 ?em w1"
  have em: "emit ?rt ?em (new_context ?op, w1) = ((new_context ?op)\<lparr>oc_seq := 1\<rparr>, ?w2)"
    by (simp add: emit_def new_context_def ld(2))
  have s0: "seqs_ok (new_context ?op, w1)"
    using w1(3,4) inv fresh by (simp add: seqs_ok_def new_context_def event_seqs_def world_inv_def ld(2))
  have "seqs_ok (emit ?rt ?em (new_context ?op, w1))"
    by (rule emit_seqs[OF s0]) (simp add: plain_emission_def)
  then have sq: "seqs_ok ((new_context ?op)\<lparr>oc_seq := 1\<rparr>, ?w2)" unfolding em .
  have "start_entry rn e w = Inr ((new_context ?op)\<lparr>oc_seq := 1\<rparr>, ?w2)"
    unfolding start_entry_def w1(1,2) sum.case em ..
  from that[OF this _ _ sq] w1 ld show thesis by (simp add: new_context_def)
qed

lemma run_entry_acquired:
  assumes st: "startable rn e op w"
    and lock: "qe_environment e \<in> th_held (w_thread (rw_world w)) \<or> dict_get (w_locks (rw_world w)) (qe_environment e) = None"
    and fin: "bl_end (rn_dispatch rn e) \<noteq> BlockInterrupted"
  shows "\<exists>w' msg. run_entry rn e w = (w', Inr (bl_end (rn_dispatch rn e) = BlockOk)) \<and>
     entry_recorded rn e (bl_end (rn_dispatch rn e) = BlockOk) msg (length (bl_emits (rn_dispatch rn e)) + 2) w w' \<and>
     (\<forall>m. bl_end (rn_dispatch rn e) = BlockRaises m \<longrightarrow> msg = shell_redact (rt_environ (rn_rt rn)) m)"
proof -
  let ?rt = "rn_rt rn" and ?blk = "rn_dispatch rn e" and ?l = "new_lock (qe_environment e) (qe_op_id e)"
  obtain op' c w2 where start: "start_entry rn e w = Inr (c, w2)" and c: "oc_op_id c = qe_op_id e" "oc_seq c = 1"
    and w2: "seqs_ok (c, w2)" "store_load (w_ops w2) (qe_op_id e) = Inr op'"
    "op_ident op' = qe_op_id e" "operation_wf op'" "w_audit w2 = w_audit (rw_world w)"
    "w_locks w2 = w_locks (rw_world w)" "w_thread w2 = w_thread (rw_world w)"
    using start_entry_ok[OF st] by blast
  have l: "el_env ?l \<in> th_held (w_thread w2) \<or> dict_get (w_locks w2) (el_env ?l) = None" "\<not> el_reentrant ?l"
    using lock w2 by simp_all
  obtain l' th files where enter: "lock_enter (rt_kill ?rt) ?l (w_thread w2, w_locks w2) = Inr (l', th, files)"
    and exit_l: "lock_exit l' (th, files) = (w_thread w2, w_locks w2)"
    using enter_exit_restores[OF l, where kill = "rt_kill ?rt"] by metis
  let ?cw = "fold (emit ?rt) (bl_emits ?blk) (c, w2\<lparr>w_thread := th, w_locks := files\<rparr>)"
  obtain c3 w3 where cw: "?cw = (c3, w3)" by (cases ?cw)
  have s0: "seqs_ok (c, w2\<lparr>w_thread := th, w_locks := files\<rparr>)" using w2(1) by (simp add: seqs_ok_def)
  have ems: "\<forall>em \<in> set (bl_emits ?blk). wf_json (em_data em)" by (rule rn_dispatch_wf)
  have s3: "seqs_ok (c3, w3)" using fold_emit_seqs[OF s0 ems, of ?rt] by (simp add: cw)
  have k: "w_audit w3 = w_audit (rw_world w)" "w_locks w3 = files" "w_thread w3 = th"
    "store_load (w_ops w3) (qe_op_id e) = Inr op'" "oc_op_id c3 = qe_op_id e" "oc_seq c3 = 1 + int (length (bl_emits ?blk))"
    using fold_emit_keeps[where rt = ?rt and ems = "bl_emits ?blk" and cw = "(c, w2\<lparr>w_thread := th, w_locks := files\<rparr>)"] w2 c
    by (simp_all add: cw)
  let ?w4 = "w\<lparr>rw_world := w3\<lparr>w_thread := w_thread w2, w_locks := w_locks w2\<rparr>\<rparr>"
  let ?msg = "case bl_end ?blk of BlockRaises m \<Rightarrow> shell_redact (rt_environ ?rt) m | _ \<Rightarrow> []"
  have run: "run_entry rn e w = finish_entry rn e (bl_end ?blk = BlockOk) ?msg c3 ?w4"
    using fin by (simp add: run_entry_def start enter cw k(2,3) exit_l split: block_end.split)
  have s4: "seqs_ok (c3, rw_world ?w4)" using s3 by (simp add: seqs_ok_def)
  have ld4: "store_load (w_ops (rw_world ?w4)) (qe_op_id e) = Inr op'" using k(4) by simp
  have aud4: "audit_inv (rt_hashes ?rt) (rt_audit_key ?rt) (w_audit (rw_world ?w4))"
    using st k(1) by (simp add: startable_def world_inv_def)
  have wfe: "entry_wf e" using st by (simp add: startable_def)
  from finish_entry_recorded[OF s4 k(5) ld4 w2(3,4) aud4 wfe, of "bl_end ?blk = BlockOk" ?msg]
  obtain w' where w': "finish_entry rn e (bl_end ?blk = BlockOk) ?msg c3 ?w4 = (w', Inr (bl_end ?blk = BlockOk))"
    "entry_recorded rn e (bl_end ?blk = BlockOk) ?msg (Suc (nat (oc_seq c3))) ?w4 w'" by blast
  have n: "Suc (nat (oc_seq c3)) = length (bl_emits ?blk) + 2" by (simp add: k(6) nat_add_distrib)
  have "entry_recorded rn e (bl_end ?blk = BlockOk) ?msg (length (bl_emits ?blk) + 2) w w'"
    using w'(2) k(1) w2(6,7) unfolding n by (simp add: entry_recorded_def)
  with run w'(1) show ?thesis by (intro exI[of _ w'] exI[of _ ?msg]) auto
qed

lemma run_entry_locked:
  assumes st: "startable rn e op w"
    and free: "qe_environment e \<notin> th_held (w_thread (rw_world w))"
    and lock: "dict_get (w_locks (rw_world w)) (qe_environment e) = Some (lock_payload owner oid)"
    and alive: "rt_kill (rn_rt rn) owner = KillOk \<or> rt_kill (rn_rt rn) owner = KillNoPermission"
  shows "\<exists>w' msg. run_entry rn e w = (w', Inr False) \<and> entry_recorded rn e False msg 2 w w'"
proof -
  let ?rt = "rn_rt rn" and ?l = "new_lock (qe_environment e) (qe_op_id e)"
  obtain op' c w2 where start: "start_entry rn e w = Inr (c, w2)" and c: "oc_op_id c = qe_op_id e" "oc_seq c = 1"
    and w2: "seqs_ok (c, w2)" "store_load (w_ops w2) (qe_op_id e) = Inr op'"
    "op_ident op' = qe_op_id e" "operation_wf op'" "w_audit w2 = w_audit (rw_world w)"
    "w_locks w2 = w_locks (rw_world w)" "w_thread w2 = w_thread (rw_world w)"
    using start_entry_ok[OF st] by blast
  have "dict_get (w_locks w2) (el_env ?l) = Some (lock_payload owner oid)" using lock w2 by simp
  from try_create_blocked[where l = ?l and files = "w_locks w2" and kill = "rt_kill ?rt" and owner = owner
      and op_id = oid and pid = "th_pid (w_thread w2)", OF this alive] obtain m where
    "try_create (rt_kill ?rt) (th_pid (w_thread w2)) ?l (w_locks w2) = Inl (LockAcquisitionError m)" by blast
  then have enter: "lock_enter (rt_kill ?rt) ?l (w_thread w2, w_locks w2) = Inl (LockAcquisitionError m)"
    using free w2 by (simp add: lock_enter_def)
  let ?w = "w\<lparr>rw_world := w2\<rparr>" and ?msg = "''lock acquisition failed: '' @ m"
  have run: "run_entry rn e w = finish_entry rn e False ?msg c ?w"
    by (simp add: run_entry_def start enter)
  have s: "seqs_ok (c, rw_world ?w)" "store_load (w_ops (rw_world ?w)) (qe_op_id e) = Inr op'"
    using w2 by simp_all
  have aud: "audit_inv (rt_hashes ?rt) (rt_audit_key ?rt) (w_audit (rw_world ?w))"
    and wfe: "entry_wf e" using st w2 by (simp_all add: startable_def world_inv_def)
  from finish_entry_recorded[OF s(1) c(1) s(2) w2(3,4) aud wfe, of False ?msg] obtain w' where
    w': "finish_entry rn e False ?msg c ?w = (w', Inr False)" "entry_recorded rn e False ?msg (Suc (nat (oc_seq c))) ?w w'"
    by blast
  have "Suc (nat (oc_seq c)) = 2" using c by simp
  with w' w2 have "entry_recorded rn e False ?msg 2 w w'" by (simp add: entry_recorded_def)
  with run w'(1) show ?thesis by auto
qed

section \<open>Admission\<close>

text \<open>
  An entry is admitted when its operation is not cancelled, its token verifies for it, the
  role floor holds and the nonce store grants its nonce; \<open>admission\<close> is the new nonce file.
\<close>

definition entry_cancelled :: "QueueEntry \<Rightarrow> runner_world \<Rightarrow> bool" where
  "entry_cancelled e w \<longleftrightarrow>
     (case store_load (w_ops (rw_world w)) (qe_op_id e) of Inr op \<Rightarrow> op_status op = CANCELLED | Inl _ \<Rightarrow> False)"

definition entry_unreadable :: "QueueEntry \<Rightarrow> runner_world \<Rightarrow> bool" where
  "entry_unreadable e w \<longleftrightarrow>
     (case store_load (w_ops (rw_world w)) (qe_op_id e) of Inl (KeyError _) \<Rightarrow> False | Inl _ \<Rightarrow> True | Inr _ \<Rightarrow> False)"

definition verify_entry :: "runner \<Rightarrow> QueueEntry \<Rightarrow> int \<Rightarrow> (token_error, (string \<times> json) list) result" where
  "verify_entry rn e now = verify (rn_hmac rn) (KeyStr (rn_api_key rn)) (qe_token e) (Some (qe_kind e))
     (Some (qe_environment e)) (Some (qe_project e)) now"

definition nonce_claim ::
  "runner \<Rightarrow> (string \<times> json) list \<Rightarrow> runner_world \<Rightarrow> (string option \<times> bool) option" where
  "nonce_claim rn payload w =
     consume_value (rn_iso rn) (rn_micros rn (w_tick (rw_world w))) (opt_field payload ''nonce'' (JStr []))
       (map_option seconds (py_int_value (dict_get payload ''exp''))) (rw_nonces w)"

definition admission :: "runner \<Rightarrow> QueueEntry \<Rightarrow> runner_world \<Rightarrow> string option option" where
  "admission rn e w =
     (if entry_cancelled e w \<or> entry_unreadable e w then None
      else (case verify_entry rn e (rn_seconds rn (w_tick (rw_world w))) of
              Inl _ \<Rightarrow> None
            | Inr payload \<Rightarrow>
                (if runner_rbac (rn_envs rn) e payload \<noteq> Inr () then None
                 else if (case py_int_value (dict_get payload ''exp'') of None \<Rightarrow> False | Some x \<Rightarrow> \<not> timestamp_ok x) then None
                 else (case nonce_claim rn payload w of Some (file, True) \<Rightarrow> Some file | _ \<Rightarrow> None))))"

abbreviation admitted :: "runner \<Rightarrow> QueueEntry \<Rightarrow> runner_world \<Rightarrow> bool" where
  "admitted rn e w \<equiv> admission rn e w \<noteq> None"

lemma execute_admitted:
  "admission rn e w = Some file \<Longrightarrow> execute_entry rn e w = run_entry rn e (w\<lparr>rw_nonces := file\<rparr>)"
  unfolding admission_def execute_entry_def authorize_entry_def verify_entry_def claim_nonce_def nonce_claim_def
    entry_cancelled_def entry_unreadable_def Let_def
  by (auto split: if_splits sum.splits option.splits bool.splits py_error.splits)

text \<open>An entry that is not admitted touches no lock, emits no event and is not audited.\<close>

definition untouched :: "runner_world \<Rightarrow> runner_world \<Rightarrow> bool" where
  "untouched w w' \<longleftrightarrow>
     w_audit (rw_world w') = w_audit (rw_world w) \<and> w_locks (rw_world w') = w_locks (rw_world w) \<and>
     w_thread (rw_world w') = w_thread (rw_world w) \<and>
     (\<forall>j. store_load_events (w_ops (rw_world w')) j = store_load_events (w_ops (rw_world w)) j) \<and>
     (events_closed (w_ops (rw_world w)) \<longrightarrow> events_closed (w_ops (rw_world w'))) \<and>
     q_pending (rw_queue w') = q_pending (rw_queue w) \<and> w_tick (rw_world w) \<le> w_tick (rw_world w')"

lemma update_op_frame:
  assumes "update_op rt i st err w = Inr w'"
  shows "w_audit w' = w_audit w" "w_locks w' = w_locks w" "w_thread w' = w_thread w"
    "store_load_events (w_ops w') j = store_load_events (w_ops w) j"
    "events_closed (w_ops w) \<Longrightarrow> events_closed (w_ops w')" "w_tick w' = Suc (w_tick w)"
  using assms by (auto simp: update_op_def store_update_status_def bindE_eq_Inr_iff Let_def)

lemma fail_entry_untouched: "fail_entry rn e msg w = (w', r) \<Longrightarrow> untouched w w' \<and> rw_nonces w' = rw_nonces w"
  unfolding fail_entry_def untouched_def
  using update_op_frame[where rt = "rn_rt rn" and i = "qe_op_id e" and st = FAILED and err = "Some msg" and w = "rw_world w"]
  by (auto split: sum.splits)

lemma untouched_nonces [simp]: "untouched (w\<lparr>rw_nonces := f\<rparr>) w' = untouched w w'"
  by (simp add: untouched_def)

lemma untouched_refl: "untouched w w"
  by (simp add: untouched_def)

lemma execute_not_admitted:
  assumes "admission rn e w = None" and "execute_entry rn e w = (w', r)"
  shows "untouched w w' \<and>
     (rw_nonces w' = rw_nonces w \<or>
      (\<exists>payload now. verify_entry rn e now = Inr payload \<and> nonce_claim rn payload w = Some (rw_nonces w', False)))"
proof -
  consider "entry_cancelled e w" | "entry_unreadable e w" | "\<not> entry_cancelled e w" "\<not> entry_unreadable e w" by blast
  then show ?thesis
  proof cases
    case 1
    with assms(2) show ?thesis
      by (auto simp: entry_cancelled_def execute_entry_def untouched_def queue_complete_def split: sum.splits)
  next
    case 2
    with assms(2) show ?thesis
      by (auto simp: entry_unreadable_def execute_entry_def untouched_def split: sum.splits py_error.splits)
  next
    case 3
    then have ex: "execute_entry rn e w = authorize_entry rn e w"
      by (auto simp: entry_cancelled_def entry_unreadable_def execute_entry_def split: sum.splits py_error.splits if_splits)
    show ?thesis
    proof (cases "verify_entry rn e (rn_seconds rn (w_tick (rw_world w)))")
      case (Inl err)
      with ex assms(2) show ?thesis
        by (cases err) (auto simp: authorize_entry_def verify_entry_def untouched_refl dest!: fail_entry_untouched[OF sym])
    next
      case (Inr payload)
      show ?thesis
      proof (cases "runner_rbac (rn_envs rn) e payload")
        case (Inl m)
        with Inr ex assms(2) show ?thesis
          by (auto simp: authorize_entry_def verify_entry_def dest!: fail_entry_untouched[OF sym])
      next
        case rb: (Inr u)
        have cl: "claim_nonce rn e payload w = (w', r)"
          using Inr rb ex assms(2) by (simp add: authorize_entry_def verify_entry_def)
        show ?thesis
        proof (cases "nonce_claim rn payload w")
          case None
          then show ?thesis using cl
            by (auto simp: claim_nonce_def nonce_claim_def Let_def untouched_refl split: if_splits option.splits)
        next
          case (Some fb)
          obtain fl b where fb: "fb = (fl, b)" by (cases fb)
          show ?thesis
          proof (cases "case py_int_value (dict_get payload ''exp'') of None \<Rightarrow> False | Some x \<Rightarrow> \<not> timestamp_ok x")
            case True
            then show ?thesis using cl by (simp add: claim_nonce_def Let_def untouched_refl)
          next
            case False
            then have "\<not> b" using assms(1) 3 Inr rb Some fb by (auto simp: admission_def)
            then have "fail_entry rn e (''token nonce already consumed: '' @ str_json (opt_field payload ''nonce'' (JStr [])))
                (w\<lparr>rw_nonces := fl\<rparr>) = (w', r)"
              using cl Some fb False unfolding claim_nonce_def Let_def nonce_claim_def by simp
            from fail_entry_untouched[OF this] \<open>\<not> b\<close> Some fb Inr show ?thesis by auto
          qed
        qed
      qed
    qed
  qed
qed

section \<open>Frames of a run\<close>

lemma write_event_tick [simp]: "w_tick (write_event rt i n em w) = Suc (w_tick w)"
  by (simp add: write_event_def)

lemma audit_op_tick [simp]: "w_tick (audit_op rt a b c d e f w) = Suc (w_tick w)"
  by (simp add: audit_op_def)

lemma fold_emit_tick: "w_tick (snd cw) \<le> w_tick (snd (fold (emit rt) ems cw))"
proof (induction ems arbitrary: cw)
  case (Cons em ems)
  from Cons[of "emit rt em cw"] show ?case by simp
qed simp

text \<open>What no run changes: waiting entries and nonces; the clock only advances; the event
  files stay line-closed and the audit trail keeps its invariant.\<close>

definition run_frame :: "runner \<Rightarrow> runner_world \<Rightarrow> runner_world \<Rightarrow> bool" where
  "run_frame rn w w' \<longleftrightarrow>
     q_pending (rw_queue w') = q_pending (rw_queue w) \<and> rw_nonces w' = rw_nonces w \<and>
     w_tick (rw_world w) \<le> w_tick (rw_world w') \<and>
     (world_inv (rn_rt rn) (rw_world w) \<longrightarrow> world_inv (rn_rt rn) (rw_world w'))"

lemma run_frame_refl [simp]: "run_frame rn w w"
  by (simp add: run_frame_def)

lemma run_frame_trans: "run_frame rn u v \<Longrightarrow> run_frame rn v w \<Longrightarrow> run_frame rn u w"
  by (auto simp: run_frame_def)

lemma queue_fail_complete_pending [simp]: "q_pending (queue_complete i q) = q_pending q"
  by (simp add: queue_complete_def)

lemma finish_entry_frame:
  assumes "finish_entry rn e ok msg c w = (w', r)" and "entry_wf e"
  shows "run_frame rn w w'"
proof -
  let ?rt = "rn_rt rn"
  let ?em = "if ok then plain_emission ''operation completed'' ''end'' ''info''
                else plain_emission (''operation failed: '' @ msg) ''end'' ''error''"
  let ?w1 = "write_event ?rt (oc_op_id c) (oc_seq c) ?em (rw_world w)"
  let ?up = "update_op ?rt (qe_op_id e) (if ok then SUCCEEDED else FAILED) (if ok then None else Some msg) ?w1"
  have em: "emit ?rt ?em (c, rw_world w) = (c\<lparr>oc_seq := oc_seq c + 1\<rparr>, ?w1)" by (simp add: emit_def)
  have i1: "world_inv ?rt (rw_world w) \<Longrightarrow> world_inv ?rt ?w1" by (simp add: world_inv_def)
  show ?thesis
  proof (cases ?up)
    case (Inl err)
    with assms(1) em have "w' = w\<lparr>rw_world := ?w1\<rparr>" by (simp add: finish_entry_def Let_def)
    then show ?thesis using i1 by (simp add: run_frame_def)
  next
    case (Inr w2)
    let ?w3 = "audit_op ?rt (qe_actor e) (qe_kind e) (qe_environment e) (qe_params_redacted e)
                   (if ok then ''succeeded'' else ''failed'') (qe_op_id e) w2"
    note f = update_op_frame[OF Inr]
    have w': "w' = w\<lparr>rw_world := ?w3,
                rw_queue := (if ok then queue_complete (qe_op_id e) (rw_queue w)
                             else queue_fail (qe_op_id e) (rw_queue w))\<rparr>"
      using assms(1) em Inr by (simp add: finish_entry_def Let_def)
    have "world_inv ?rt ?w3" if "world_inv ?rt (rw_world w)"
    proof -
      have "audit_inv (rt_hashes ?rt) (rt_audit_key ?rt) (w_audit w2)" "events_closed (w_ops w2)"
        using i1[OF that] f by (simp_all add: world_inv_def)
      with audit_op_inv(1)[where w = w2 and params = "qe_params_redacted e"] assms(2) show ?thesis
        by (simp add: world_inv_def entry_wf_def)
    qed
    then show ?thesis using f(6) by (simp add: w' run_frame_def)
  qed
qed

lemma start_entry_frame:
  "start_entry rn e w = Inl (w', err) \<Longrightarrow> run_frame rn w w'"
  "start_entry rn e w = Inr (c, w2) \<Longrightarrow> run_frame rn w (w\<lparr>rw_world := w2\<rparr>)"
  using update_op_frame[where rt = "rn_rt rn" and i = "qe_op_id e" and st = RUNNING and err = None and w = "rw_world w"]
  by (auto simp: start_entry_def run_frame_def world_inv_def emit_def split: sum.splits)

lemma fold_emit_inv:
  "world_inv rt (snd cw) \<Longrightarrow> world_inv rt (snd (fold (emit rt) ems cw))"
  using fold_emit_keeps[where rt = rt and ems = ems and cw = cw] by (simp add: world_inv_def)

lemma run_entry_frame:
  assumes run: "run_entry rn e w = (w', r)" and wf: "entry_wf e"
  shows "run_frame rn w w'"
proof (cases "start_entry rn e w")
  case (Inl x)
  with run start_entry_frame(1) show ?thesis by (cases x) (auto simp: run_entry_def)
next
  case (Inr x)
  obtain c w2 where x: "x = (c, w2)" by (cases x)
  note f2 = start_entry_frame(2)[OF Inr[unfolded x]]
  let ?rt = "rn_rt rn" and ?l = "new_lock (qe_environment e) (qe_op_id e)"
  show ?thesis
  proof (cases "lock_enter (rt_kill ?rt) ?l (w_thread w2, w_locks w2)")
    case (Inl err)
    with run Inr x have "err = LockOSError \<and> w' = w\<lparr>rw_world := w2\<rparr> \<or>
        (\<exists>m. finish_entry rn e False m c (w\<lparr>rw_world := w2\<rparr>) = (w', r))"
      by (cases err) (auto simp: run_entry_def)
    then show ?thesis
    proof (elim disjE exE conjE)
      fix m assume "finish_entry rn e False m c (w\<lparr>rw_world := w2\<rparr>) = (w', r)"
      from run_frame_trans[OF f2 finish_entry_frame[OF this wf]] show ?thesis .
    qed (use f2 in simp)
  next
    case lk: (Inr y)
    obtain l th files where y: "y = (l, th, files)" by (cases y)
    let ?cw = "fold (emit ?rt) (bl_emits (rn_dispatch rn e)) (c, w2\<lparr>w_thread := th, w_locks := files\<rparr>)"
    obtain c3 w3 where cw: "?cw = (c3, w3)" by (cases ?cw)
    obtain th' files' where ex: "lock_exit l (w_thread w3, w_locks w3) = (th', files')"
      by (cases "lock_exit l (w_thread w3, w_locks w3)")
    let ?w4 = "w\<lparr>rw_world := w3\<lparr>w_thread := th', w_locks := files'\<rparr>\<rparr>"
    have "w_tick w2 \<le> w_tick w3" "world_inv ?rt w2 \<Longrightarrow> world_inv ?rt w3"
      using fold_emit_tick[of "(c, w2\<lparr>w_thread := th, w_locks := files\<rparr>)" ?rt "bl_emits (rn_dispatch rn e)"]
        fold_emit_inv[of ?rt "(c, w2\<lparr>w_thread := th, w_locks := files\<rparr>)" "bl_emits (rn_dispatch rn e)"]
      by (simp_all add: cw world_inv_def)
    with f2 have f4: "run_frame rn w ?w4" by (auto simp: run_frame_def world_inv_def)
    have "w' = ?w4 \<or> (\<exists>ok m. finish_entry rn e ok m c3 ?w4 = (w', r))"
      using run Inr x lk y cw ex by (auto simp: run_entry_def Let_def split: block_end.splits)
    then show ?thesis
    proof (elim disjE exE)
      fix ok m assume "finish_entry rn e ok m c3 ?w4 = (w', r)"
      from run_frame_trans[OF f4 finish_entry_frame[OF this wf]] show ?thesis .
    qed (use f4 in simp)
  qed
qed

section \<open>Histories\<close>

definition runner_inv :: "runner \<Rightarrow> runner_world \<Rightarrow> bool" where
  "runner_inv rn w \<longleftrightarrow> world_inv (rn_rt rn) (rw_world w) \<and> pending_ok (rw_queue w) \<and>
     iso_ok (rn_iso rn) \<and> nonces_ok (rn_iso rn) (rw_nonces w)"

text \<open>Every token the API mints carries a text as nonce.\<close>

definition text_nonce :: "runner \<Rightarrow> QueueEntry \<Rightarrow> bool" where
  "text_nonce rn e \<longleftrightarrow> (\<forall>now payload. verify_entry rn e now = Inr payload \<longrightarrow>
     (\<exists>n x. opt_field payload ''nonce'' (JStr []) = JStr n \<and> py_int_value (dict_get payload ''exp'') = Some x))"

lemma nonce_claim_text:
  assumes "text_nonce rn e" and "verify_entry rn e now = Inr payload"
  obtains n x where "opt_field payload ''nonce'' (JStr []) = JStr n" "py_int_value (dict_get payload ''exp'') = Some x"
    "nonce_claim rn payload w = Some (consume (rn_iso rn) (rn_micros rn (w_tick (rw_world w))) n (Some (seconds x)) (rw_nonces w))"
  using assms by (fastforce simp: text_nonce_def nonce_claim_def consume_value_def)

lemma verify_entry_payload:
  "verify_entry rn e now = Inr payload \<Longrightarrow> verify_entry rn e now' = Inr payload' \<Longrightarrow> payload' = payload"
  unfolding verify_entry_def by (elim verify_three_parts) auto

text \<open>What an execution does to the nonces: nothing, or one claim.\<close>

lemma execute_nonces:
  assumes "text_nonce rn e" and "entry_wf e" and ex: "execute_entry rn e w = (w', r)"
  shows "rw_nonces w' = rw_nonces w \<or>
     (\<exists>n x. rw_nonces w' = fst (consume (rn_iso rn) (rn_micros rn (w_tick (rw_world w))) n (Some (seconds x)) (rw_nonces w)))"
proof (cases "admission rn e w")
  case None
  from execute_not_admitted[OF this ex] show ?thesis
  proof (elim conjE disjE exE)
    fix payload now
    assume p: "verify_entry rn e now = Inr payload" and c: "nonce_claim rn payload w = Some (rw_nonces w', False)"
    obtain n x where "nonce_claim rn payload w =
        Some (consume (rn_iso rn) (rn_micros rn (w_tick (rw_world w))) n (Some (seconds x)) (rw_nonces w))"
      using nonce_claim_text[OF assms(1) p, of w] by metis
    with c show ?thesis by (metis fst_conv option.inject)
  qed simp
next
  case (Some f)
  then obtain payload where p: "verify_entry rn e (rn_seconds rn (w_tick (rw_world w))) = Inr payload"
    and c: "nonce_claim rn payload w = Some (f, True)"
    by (auto simp: admission_def split: if_splits sum.splits option.splits bool.splits)
  obtain n x where "nonce_claim rn payload w =
      Some (consume (rn_iso rn) (rn_micros rn (w_tick (rw_world w))) n (Some (seconds x)) (rw_nonces w))"
    using nonce_claim_text[OF assms(1) p, of w] by metis
  with c have "f = fst (consume (rn_iso rn) (rn_micros rn (w_tick (rw_world w))) n (Some (seconds x)) (rw_nonces w))"
    by (metis fst_conv option.inject)
  moreover have "rw_nonces w' = f"
    using run_entry_frame[of rn e "w\<lparr>rw_nonces := f\<rparr>" w' r] execute_admitted[OF Some] ex assms(2)
    by (simp add: run_frame_def)
  ultimately show ?thesis by blast
qed

lemma execute_frame:
  assumes "entry_wf e" and ex: "execute_entry rn e w = (w', r)"
  shows "q_pending (rw_queue w') = q_pending (rw_queue w) \<and> w_tick (rw_world w) \<le> w_tick (rw_world w') \<and>
     (world_inv (rn_rt rn) (rw_world w) \<longrightarrow> world_inv (rn_rt rn) (rw_world w'))"
proof (cases "admission rn e w")
  case None
  from execute_not_admitted[OF this ex] show ?thesis by (auto simp: untouched_def world_inv_def)
next
  case (Some f)
  from run_entry_frame[of rn e "w\<lparr>rw_nonces := f\<rparr>" w' r] execute_admitted[OF Some] ex assms(1)
  show ?thesis by (simp add: run_frame_def)
qed

lemma execute_inv:
  assumes inv: "runner_inv rn w" and e: "text_nonce rn e" "entry_wf e" and ex: "execute_entry rn e w = (w', r)"
  shows "runner_inv rn w'"
proof -
  have "nonces_ok (rn_iso rn) (rw_nonces w')"
    using execute_nonces[OF e ex] nonce_file.claim_inv[of "rn_iso rn" "rw_nonces w"] inv
    by (auto simp: runner_inv_def)
  moreover have "pending_ok (rw_queue w')"
    using execute_frame[OF e(2) ex] inv by (simp add: runner_inv_def pending_ok_def)
  ultimately show ?thesis using execute_frame[OF e(2) ex] inv by (simp add: runner_inv_def)
qed

text \<open>
  What can happen to a state directory: the runner executes some entry, or other processes
  change anything but the nonce file while the clock does not run backwards.
\<close>

inductive runner_reach :: "runner \<Rightarrow> runner_world \<Rightarrow> runner_world \<Rightarrow> bool" for rn w where
  reach_refl: "runner_reach rn w w"
| reach_exec: "runner_reach rn w v \<Longrightarrow> text_nonce rn e \<Longrightarrow> entry_wf e \<Longrightarrow> execute_entry rn e v = (v', r)
    \<Longrightarrow> runner_reach rn w v'"
| reach_other: "runner_reach rn w v \<Longrightarrow> rw_nonces v' = rw_nonces v \<Longrightarrow> w_tick (rw_world v) \<le> w_tick (rw_world v')
    \<Longrightarrow> runner_reach rn w v'"

definition clock_mono :: "runner \<Rightarrow> bool" where
  "clock_mono rn \<longleftrightarrow> mono (rn_micros rn)"

text \<open>The nonce is claimed before the second ends in which the token was verified.\<close>

definition prompt :: "runner \<Rightarrow> bool" where
  "prompt rn \<longleftrightarrow> (\<forall>n x. rn_seconds rn n < x \<longrightarrow> rn_micros rn n \<le> seconds x)"

lemma blocked_reach:
  assumes "runner_reach rn w v" and mono: "clock_mono rn" and iso: "iso_ok (rn_iso rn)"
    and ok: "nonces_ok (rn_iso rn) (rw_nonces w)"
    and bl: "\<And>t. t \<le> u \<Longrightarrow> nonce_blocked (rn_iso rn) (rw_nonces w) n t"
  shows "nonces_ok (rn_iso rn) (rw_nonces v) \<and>
     (\<forall>t. rn_micros rn (w_tick (rw_world v)) \<le> t \<longrightarrow> t \<le> u \<longrightarrow> nonce_blocked (rn_iso rn) (rw_nonces v) n t)"
  using assms(1)
proof induction
  case reach_refl
  then show ?case using ok bl by simp
next
  case (reach_exec v e v' r)
  let ?t = "rn_micros rn (w_tick (rw_world v))"
  have le: "?t \<le> rn_micros rn (w_tick (rw_world v'))"
    using execute_frame[OF reach_exec(3,4)] mono by (simp add: clock_mono_def monoD)
  have inv: "iso_ok (rn_iso rn) \<and> nonces_ok (rn_iso rn) (rw_nonces v)" using iso reach_exec.IH by simp
  from execute_nonces[OF reach_exec(2-4)] show ?case
  proof (elim disjE exE)
    assume "rw_nonces v' = rw_nonces v"
    then show ?thesis using reach_exec.IH le by auto
  next
    fix m x assume v': "rw_nonces v' = fst (consume (rn_iso rn) ?t m (Some (seconds x)) (rw_nonces v))"
    show ?thesis unfolding v'
      using nonce_file.claim_inv[OF inv, of ?t m "seconds x"] reach_exec.IH le
        nonce_file.claim_keeps[OF inv, of ?t _ n m "seconds x"] by auto
  qed
next
  case (reach_other v v')
  have "rn_micros rn (w_tick (rw_world v)) \<le> rn_micros rn (w_tick (rw_world v'))"
    using reach_other(3) mono by (simp add: clock_mono_def monoD)
  then show ?case using reach_other by auto
qed

lemma admission_payload:
  assumes "admission rn e w = Some f"
  obtains payload where "verify_entry rn e (rn_seconds rn (w_tick (rw_world w))) = Inr payload"
    "runner_rbac (rn_envs rn) e payload = Inr ()" "nonce_claim rn payload w = Some (f, True)"
    "\<not> entry_cancelled e w"
  using assms by (auto simp: admission_def split: if_splits sum.splits option.splits bool.splits)

text \<open>Once an entry was admitted, no entry with its token is admitted again.\<close>

lemma token_admitted_once:
  assumes "runner_inv rn w" "clock_mono rn" "prompt rn" "text_nonce rn e" "entry_wf e"
    and adm: "admitted rn e w" and ex: "execute_entry rn e w = (w', r)"
    and later: "runner_reach rn w' v" and same: "qe_token e2 = qe_token e"
  shows "\<not> admitted rn e2 v"
proof
  assume "admitted rn e2 v"
  then obtain f2 p2 where p2: "verify_entry rn e2 (rn_seconds rn (w_tick (rw_world v))) = Inr p2"
    "nonce_claim rn p2 v = Some (f2, True)" by (metis admission_payload not_None_eq)
  obtain f p where f: "admission rn e w = Some f"
    and p: "verify_entry rn e (rn_seconds rn (w_tick (rw_world w))) = Inr p" "nonce_claim rn p w = Some (f, True)"
    using adm by (metis admission_payload not_None_eq)
  have "p2 = p" using p2(1) p(1) same unfolding verify_entry_def by (elim verify_three_parts) auto
  obtain n x where nx: "opt_field p ''nonce'' (JStr []) = JStr n" "py_int_value (dict_get p ''exp'') = Some x"
    using nonce_claim_text[OF assms(4) p(1)] by metis
  have iso: "iso_ok (rn_iso rn)" and ok: "nonces_ok (rn_iso rn) (rw_nonces w)"
    using assms(1) by (simp_all add: runner_inv_def)
  let ?c = "consume (rn_iso rn) (rn_micros rn (w_tick (rw_world w))) n (Some (seconds x)) (rw_nonces w)"
  have c: "?c = (f, True)" using p(2) nx by (simp add: nonce_claim_def consume_value_def)
  have "rw_nonces w' = f"
    using run_entry_frame[of rn e "w\<lparr>rw_nonces := f\<rparr>" w' r] execute_admitted[OF f] ex assms(5)
    by (simp add: run_frame_def)
  then have ok': "nonces_ok (rn_iso rn) (rw_nonces w')"
    and bl: "\<And>t. t \<le> seconds x \<Longrightarrow> nonce_blocked (rn_iso rn) (rw_nonces w') n t"
    using nonce_file.claim_inv[of "rn_iso rn" "rw_nonces w"] nonce_file.claim_blocks[of "rn_iso rn" "rw_nonces w"]
      iso ok c by (metis fst_conv, metis fst_conv snd_conv)
  let ?t = "rn_micros rn (w_tick (rw_world v))"
  have "?t \<le> seconds x"
    using p2(1) nx(2) assms(3) unfolding verify_entry_def \<open>p2 = p\<close>
    by (elim verify_three_parts) (auto simp: check_claims_Inr_iff prompt_def)
  with blocked_reach[OF later assms(2) iso ok' bl]
  have "nonces_ok (rn_iso rn) (rw_nonces v)" "nonce_blocked (rn_iso rn) (rw_nonces v) n ?t" by auto
  with nonce_file.claim_iff[of "rn_iso rn" "rw_nonces v" ?t n "seconds x"] iso
  have "\<not> snd (consume (rn_iso rn) ?t n (Some (seconds x)) (rw_nonces v))" by simp
  moreover have "consume (rn_iso rn) ?t n (Some (seconds x)) (rw_nonces v) = (f2, True)"
    using p2(2) nx by (simp add: nonce_claim_def consume_value_def \<open>p2 = p\<close>)
  ultimately show False by simp
qed

text \<open>The floor: an admitted entry has a role for its action, on protected environments an administrator's.\<close>

lemma admitted_role:
  assumes "admitted rn e w"
  shows "\<exists>payload action protected. verify_entry rn e (rn_seconds rn (w_tick (rw_world w))) = Inr payload \<and>
     dict_get KIND_ACTION (qe_kind e) = Some action \<and>
     kind_protected (rn_envs rn) (qe_kind e) (qe_environment e) = Some protected \<and>
     is_allowed (runner_principal payload) action protected"
proof -
  from assms obtain p where p: "verify_entry rn e (rn_seconds rn (w_tick (rw_world w))) = Inr p"
    "runner_rbac (rn_envs rn) e p = Inr ()" by (metis admission_payload not_None_eq)
  then show ?thesis
    by (auto simp: runner_rbac_def split: option.splits sum.splits simp flip: require_iff_allowed)
qed

text \<open>The queue entry of an operation without a record is claimed and then stays claimed.\<close>

lemma execute_unknown:
  assumes "dict_get (w_ops (rw_world w)) (qe_op_id e) = None"
  shows "\<exists>err. snd (execute_entry rn e w) = Inl err \<and> rw_queue (fst (execute_entry rn e w)) = rw_queue w"
proof -
  have up: "update_op rt (qe_op_id e) st err (rw_world w) = Inl (KeyError (''Operation not found: '' @ qe_op_id e))"
    for rt st err using assms by (simp add: update_op_def store_update_status_def store_load_def)
  show ?thesis using assms
    by (auto simp: execute_entry_def store_load_def authorize_entry_def fail_entry_def up claim_nonce_def
        run_entry_def start_entry_def Let_def split: sum.splits token_error.splits option.splits bool.splits)
qed

end
