(* ===== verification/Users.thy ===== *)
theory Users
  imports Principals Op_Models Py_Text Encoding
begin

text \<open>
  \<open>odooctl/security/users.py\<close>: accounts with hashed passwords in one JSON file.  The key
  derivation is the argument \<open>scrypt password salt n r p dklen\<close> (\<open>None\<close> where the library
  raises); salts and ids are arguments of the calls that draw them.  The file is replaced
  atomically under an exclusive lock, so a call is one step on its text.
\<close>

type_synonym scrypt = "string \<Rightarrow> string \<Rightarrow> int \<Rightarrow> int \<Rightarrow> int \<Rightarrow> nat \<Rightarrow> string option"

datatype user_error =
    UserExists string
  | UserNotFound string
  | UserValueErr string
  | UserOther py_error

definition MIN_PASSWORD_LENGTH :: nat where "MIN_PASSWORD_LENGTH = 8"

section \<open>Emails and passwords\<close>

text \<open>\<open>^[^@\s]+@[^@\s]+\.[^@\s]+$\<close> on a stripped text.\<close>

definition email_shape :: "string \<Rightarrow> bool" where
  "email_shape s \<longleftrightarrow>
     (case split_on (CHR ''@'') s of
        [user, host] \<Rightarrow> user \<noteq> [] \<and> list_all (\<lambda>c. \<not> py_space c) (user @ host) \<and>
          (\<exists>i \<in> set [1..<length host - 1]. host ! i = CHR ''.'')
      | _ \<Rightarrow> False)"

definition clean_email :: "string \<Rightarrow> string" where
  "clean_email e = py_lower (py_strip e)"

definition normalize_email :: "string \<Rightarrow> (user_error, string) result" where
  "normalize_email e =
     (if email_shape (clean_email e) then Inr (clean_email e)
      else Inl (UserValueErr (''Not a valid email address: '' @ repr_str (clean_email e))))"

definition validate_password :: "string \<Rightarrow> (user_error, string) result" where
  "validate_password pw =
     (if length pw < MIN_PASSWORD_LENGTH then Inl (UserValueErr ''Password must be at least 8 characters'') else Inr pw)"

abbreviation dollar :: char where "dollar \<equiv> CHR 0x24"

definition hash_password :: "scrypt \<Rightarrow> string \<Rightarrow> string \<Rightarrow> string option" where
  "hash_password scrypt salt pw =
     map_option (\<lambda>dk. ''scrypt$16384$8$1$'' @ hex_text salt @ dollar # hex_text dk)
       (scrypt (utf8_encode pw) salt 16384 8 1 32)"

definition int_text :: "string \<Rightarrow> int option" where
  "int_text s = py_int (JStr s)"

definition verify_password :: "scrypt \<Rightarrow> string \<Rightarrow> string \<Rightarrow> bool" where
  "verify_password scrypt stored pw =
     (case split_on dollar stored of
        scheme # rest \<Rightarrow>
          scheme = ''scrypt'' \<and>
          (case rest of
             [n, r, p, salt_hex, dk_hex] \<Rightarrow>
               (case (from_hex dk_hex, from_hex salt_hex, int_text n, int_text r, int_text p) of
                  (Some expected, Some salt, Some n, Some r, Some p) \<Rightarrow>
                    (case scrypt (utf8_encode pw) salt n r p (length expected) of
                       None \<Rightarrow> False | Some dk \<Rightarrow> dk = expected)
                | _ \<Rightarrow> False)
           | _ \<Rightarrow> False)
      | [] \<Rightarrow> False)"

section \<open>Records\<close>

record UserRecord =
  ur_id :: string
  ur_email :: string
  ur_name :: string
  ur_org_id :: string
  ur_roles :: "string list"
  ur_password_hash :: string
  ur_provider :: string
  ur_provider_subject :: string
  ur_disabled :: bool
  ur_created_at :: string
  ur_password_updated_at :: string

definition user_dict :: "UserRecord \<Rightarrow> (string \<times> json) list" where
  "user_dict u =
     [(''id'', JStr (ur_id u)), (''email'', JStr (ur_email u)), (''name'', JStr (ur_name u)),
      (''org_id'', JStr (ur_org_id u)), (''roles'', JList (map JStr (ur_roles u))),
      (''password_hash'', JStr (ur_password_hash u)), (''provider'', JStr (ur_provider u)),
      (''provider_subject'', JStr (ur_provider_subject u)), (''disabled'', JBool (ur_disabled u)),
      (''created_at'', JStr (ur_created_at u)), (''password_updated_at'', JStr (ur_password_updated_at u))]"

definition public_dict :: "UserRecord \<Rightarrow> (string \<times> json) list" where
  "public_dict u =
     [(''id'', JStr (ur_id u)), (''email'', JStr (ur_email u)), (''name'', JStr (ur_name u)),
      (''org_id'', JStr (ur_org_id u)), (''roles'', JList (map JStr (ur_roles u))),
      (''provider'', JStr (ur_provider u)), (''disabled'', JBool (ur_disabled u)),
      (''created_at'', JStr (ur_created_at u))]"

text \<open>\<open>None\<close> is a record that \<open>_load\<close> skips.\<close>

definition user_from_json :: "json \<Rightarrow> UserRecord option" where
  "user_from_json j =
     (case j of
        JObj d \<Rightarrow>
          (case (dict_get d ''id'', dict_get d ''email'', json_iter (opt_field d ''roles'' (JList []))) of
             (Some i, Some e, Some rs) \<Rightarrow>
               Some \<lparr>ur_id = str_json i, ur_email = str_json e,
                 ur_name = str_json (opt_field d ''name'' (JStr [])),
                 ur_org_id = str_json (opt_field d ''org_id'' (JStr ''default'')),
                 ur_roles = map str_json rs,
                 ur_password_hash = str_json (opt_field d ''password_hash'' (JStr [])),
                 ur_provider = str_json (opt_field d ''provider'' (JStr ''password'')),
                 ur_provider_subject = str_json (opt_field d ''provider_subject'' (JStr [])),
                 ur_disabled = truthy (opt_field d ''disabled'' (JBool False)),
                 ur_created_at = str_json (opt_field d ''created_at'' (JStr [])),
                 ur_password_updated_at = str_json (opt_field d ''password_updated_at'' (JStr []))\<rparr>
           | _ \<Rightarrow> None)
      | _ \<Rightarrow> None)"

definition role_set :: "UserRecord \<Rightarrow> Role set" where
  "role_set u = set (collect Role_of (ur_roles u))"

definition user_max_role :: "UserRecord \<Rightarrow> Role option" where
  "user_max_role u = max_role (role_set u)"

definition to_principal :: "UserRecord \<Rightarrow> Principal" where
  "to_principal u = \<lparr>principal_id = ur_email u, principal_org_id = ur_org_id u, principal_kind = USER,
     principal_roles = role_set u, principal_display = py_or (ur_name u) (ur_email u)\<rparr>"

section \<open>The store\<close>

type_synonym users_file = "string option"

text \<open>An unreadable file holds no users; a value of another shape raises.\<close>

definition users_load :: "users_file \<Rightarrow> (user_error, UserRecord list) result" where
  "users_load f =
     (case f of
        None \<Rightarrow> Inr []
      | Some t \<Rightarrow>
          (case loads t of
             None \<Rightarrow> Inr []
           | Some (JObj d) \<Rightarrow>
               (case json_iter (opt_field d ''users'' (JList [])) of
                  None \<Rightarrow> Inl (UserOther (TypeErr ''not iterable''))
                | Some raws \<Rightarrow> Inr (collect user_from_json raws))
           | Some _ \<Rightarrow> Inl (UserOther (AttributeErr ''get''))))"

definition users_text :: "UserRecord list \<Rightarrow> string" where
  "users_text us = dumps_with indent_layout (JObj [(''users'', JList (map (\<lambda>u. JObj (user_dict u)) us))])"

definition list_users :: "users_file \<Rightarrow> (user_error, UserRecord list) result" where
  "list_users f = bindE (users_load f) (\<lambda>us. Inr (sort_key ur_email us))"

definition find_user :: "(UserRecord \<Rightarrow> bool) \<Rightarrow> UserRecord list \<Rightarrow> UserRecord option" where
  "find_user P us = find P us"

definition user_get :: "string \<Rightarrow> users_file \<Rightarrow> (user_error, UserRecord) result" where
  "user_get i f = bindE (users_load f) (\<lambda>us. case find_user (\<lambda>u. ur_id u = i) us of
     None \<Rightarrow> Inl (UserNotFound (''No user with id '' @ repr_str i)) | Some u \<Rightarrow> Inr u)"

definition user_get_by_email :: "string \<Rightarrow> users_file \<Rightarrow> (user_error, UserRecord) result" where
  "user_get_by_email e f = bindE (users_load f) (\<lambda>us. case find_user (\<lambda>u. ur_email u = clean_email e) us of
     None \<Rightarrow> Inl (UserNotFound (''No user with email '' @ repr_str (clean_email e))) | Some u \<Rightarrow> Inr u)"

text \<open>\<open>roles\<close> are role values here: every caller passes \<open>Role\<close> members.  \<open>uid\<close> is the drawn hexadecimal id.\<close>

definition user_create ::
  "scrypt \<Rightarrow> string \<Rightarrow> string \<Rightarrow> string \<Rightarrow> string \<Rightarrow> string \<Rightarrow> Role list \<Rightarrow> string \<Rightarrow> users_file
   \<Rightarrow> (user_error, users_file \<times> UserRecord) result" where
  "user_create scrypt salt uid now email password roles name f =
     bindE (normalize_email email) (\<lambda>e.
     bindE (validate_password password) (\<lambda>pw.
     bindE (users_load f) (\<lambda>us.
       if \<exists>u \<in> set us. ur_email u = e
       then Inl (UserExists (''A user with email '' @ repr_str e @ '' already exists''))
       else (case hash_password scrypt salt pw of
               None \<Rightarrow> Inl (UserValueErr ''scrypt'')
             | Some h \<Rightarrow>
                 (let u = \<lparr>ur_id = ''u-'' @ uid, ur_email = e, ur_name = name, ur_org_id = ''default'',
                        ur_roles = map role_value roles, ur_password_hash = h, ur_provider = ''password'',
                        ur_provider_subject = [], ur_disabled = False, ur_created_at = now,
                        ur_password_updated_at = now\<rparr>
                  in Inr (Some (users_text (us @ [u])), u))))))"

text \<open>The loop of \<open>_mutate\<close>: the first record with the id is replaced.\<close>

fun replace_first :: "string \<Rightarrow> (UserRecord \<Rightarrow> UserRecord) \<Rightarrow> UserRecord list \<Rightarrow> (UserRecord list \<times> UserRecord) option" where
  "replace_first i g [] = None"
| "replace_first i g (u # us) =
     (if ur_id u = i then Some (g u # us, g u)
      else map_option (\<lambda>(us', v). (u # us', v)) (replace_first i g us))"

definition user_mutate ::
  "string \<Rightarrow> (UserRecord \<Rightarrow> UserRecord) \<Rightarrow> users_file \<Rightarrow> (user_error, users_file \<times> UserRecord) result" where
  "user_mutate i g f = bindE (users_load f) (\<lambda>us. case replace_first i g us of
     None \<Rightarrow> Inl (UserNotFound (''No user with id '' @ repr_str i))
   | Some (us', v) \<Rightarrow> Inr (Some (users_text us'), v))"

definition set_password ::
  "scrypt \<Rightarrow> string \<Rightarrow> string \<Rightarrow> string \<Rightarrow> string \<Rightarrow> users_file \<Rightarrow> (user_error, users_file \<times> UserRecord) result" where
  "set_password scrypt salt now i password f =
     bindE (validate_password password) (\<lambda>pw.
     (case hash_password scrypt salt pw of
        None \<Rightarrow> Inl (UserValueErr ''scrypt'')
      | Some h \<Rightarrow> user_mutate i (\<lambda>u. u\<lparr>ur_password_hash := h, ur_password_updated_at := now\<rparr>) f))"

definition set_roles :: "string \<Rightarrow> Role list \<Rightarrow> users_file \<Rightarrow> (user_error, users_file \<times> UserRecord) result" where
  "set_roles i roles f = user_mutate i (\<lambda>u. u\<lparr>ur_roles := map role_value roles\<rparr>) f"

definition set_disabled :: "string \<Rightarrow> bool \<Rightarrow> users_file \<Rightarrow> (user_error, users_file \<times> UserRecord) result" where
  "set_disabled i b f = user_mutate i (\<lambda>u. u\<lparr>ur_disabled := b\<rparr>) f"

definition set_name :: "string \<Rightarrow> string \<Rightarrow> users_file \<Rightarrow> (user_error, users_file \<times> UserRecord) result" where
  "set_name i n f = user_mutate i (\<lambda>u. u\<lparr>ur_name := n\<rparr>) f"

definition user_delete :: "string \<Rightarrow> users_file \<Rightarrow> (user_error, users_file) result" where
  "user_delete i f = bindE (users_load f) (\<lambda>us.
     let remaining = filter (\<lambda>u. ur_id u \<noteq> i) us in
     if length remaining = length us then Inl (UserNotFound (''No user with id '' @ repr_str i))
     else Inr (Some (users_text remaining)))"

text \<open>\<open>None\<close> for every failed login; an unreadable store still raises.\<close>

definition authenticate :: "scrypt \<Rightarrow> string \<Rightarrow> string \<Rightarrow> users_file \<Rightarrow> (user_error, UserRecord option) result" where
  "authenticate scrypt email password f =
     (case user_get_by_email email f of
        Inl (UserNotFound _) \<Rightarrow> Inr None
      | Inl (UserValueErr _) \<Rightarrow> Inr None
      | Inl e \<Rightarrow> Inl e
      | Inr u \<Rightarrow>
          (if ur_password_hash u = [] \<or> \<not> verify_password scrypt (ur_password_hash u) password then Inr None
           else if ur_disabled u then Inr None
           else Inr (Some u)))"

section \<open>Reading back\<close>

lemma user_json_roundtrip [simp]: "user_from_json (JObj (user_dict u)) = Some u"
  by (simp add: user_from_json_def user_dict_def opt_field_def json_iter_def o_def)

lemma users_load_text [simp]: "users_load (Some (users_text us)) = Inr us"
proof -
  have "wf_json (JObj (user_dict u))" for u by (simp add: user_dict_def)
  then have "loads (users_text us) = Some (JObj [(''users'', JList (map (\<lambda>u. JObj (user_dict u)) us))])"
    unfolding users_text_def by (intro loads_dumps) (auto simp del: wf_json.simps(2), simp)
  then show ?thesis by (simp add: users_load_def opt_field_def json_iter_def collect_all_Some)
qed

lemma hex_no_dollar: "dollar \<notin> set (hex_text b)"
proof -
  have "dollar \<noteq> hex_char (n div 16)" "dollar \<noteq> hex_char (n mod 16)" if "n < 256" for n :: nat
  proof -
    have "n div 16 < 16" "n mod 16 < 16" using that by (linarith, simp)
    then show "dollar \<noteq> hex_char (n div 16)" "dollar \<noteq> hex_char (n mod 16)"
      using hex_char_plain[of "n div 16"] hex_char_plain[of "n mod 16"] by auto
  qed
  then show ?thesis by (induction b) (auto simp: hex_text_def Let_def)
qed

lemma verify_hash:
  assumes h: "hash_password scrypt salt pw = Some h"
    and len: "\<And>d. scrypt (utf8_encode pw) salt 16384 8 1 32 = Some d \<Longrightarrow> length d = 32"
  shows "verify_password scrypt h q \<longleftrightarrow>
    scrypt (utf8_encode q) salt 16384 8 1 32 = scrypt (utf8_encode pw) salt 16384 8 1 32"
proof -
  obtain dk where dk: "scrypt (utf8_encode pw) salt 16384 8 1 32 = Some dk"
    "h = ''scrypt$16384$8$1$'' @ hex_text salt @ dollar # hex_text dk"
    using h by (auto simp: hash_password_def)
  have "split_on dollar h = [''scrypt'', ''16384'', ''8'', ''1'', hex_text salt, hex_text dk]"
    by (simp add: dk(2) split_on_append split_on_free hex_no_dollar)
  moreover have "int_text ''16384'' = Some 16384" "int_text ''8'' = Some 8" "int_text ''1'' = Some 1"
    by code_simp+
  ultimately show ?thesis using dk len[OF dk(1)]
    by (auto simp: verify_password_def split: option.split)
qed

end
