(* ===== verification/Sessions.thy ===== *)
theory Sessions
  imports Op_Models Py_Text Encoding
begin

text \<open>
  \<open>odooctl/security/sessions.py\<close>: revocable browser sessions in one JSON file that holds the
  SHA-256 digests of the session ids.  \<open>sha\<close> is the digest of a byte string in hexadecimal;
  session ids and the integer second of the clock are arguments.  A call holds the file lock
  and replaces the file atomically, so it is one step on the text.
\<close>

definition DEFAULT_SESSION_TTL_SECONDS :: int where "DEFAULT_SESSION_TTL_SECONDS = 12 * 3600"

type_synonym sha = "string \<Rightarrow> string"
type_synonym sessions_file = "string option"

definition sid_digest :: "sha \<Rightarrow> string \<Rightarrow> string" where
  "sid_digest sha sid = sha (utf8_encode sid)"

record SessionRecord =
  sr_sid_hash :: string
  sr_user_id :: string
  sr_created_at :: int
  sr_expires_at :: int

definition session_dict :: "SessionRecord \<Rightarrow> (string \<times> json) list" where
  "session_dict r = [(''sid_hash'', JStr (sr_sid_hash r)), (''user_id'', JStr (sr_user_id r)),
     (''created_at'', JInt (sr_created_at r)), (''expires_at'', JInt (sr_expires_at r))]"

text \<open>\<open>from_dict\<close>; \<open>None\<close> is a record that \<open>_load\<close> skips.\<close>

definition session_from_json :: "json \<Rightarrow> SessionRecord option" where
  "session_from_json j =
     (case j of
        JObj d \<Rightarrow>
          (case (dict_get d ''sid_hash'', dict_get d ''user_id'',
                 py_int (opt_field d ''created_at'' (JInt 0)), py_int (opt_field d ''expires_at'' (JInt 0))) of
             (Some h, Some u, Some c, Some e) \<Rightarrow>
               Some \<lparr>sr_sid_hash = str_json h, sr_user_id = str_json u, sr_created_at = c, sr_expires_at = e\<rparr>
           | _ \<Rightarrow> None)
      | _ \<Rightarrow> None)"

text \<open>A missing or unreadable file holds no session; a value of another shape raises.\<close>

definition sessions_load :: "sessions_file \<Rightarrow> (py_error, SessionRecord list) result" where
  "sessions_load f =
     (case f of
        None \<Rightarrow> Inr []
      | Some t \<Rightarrow>
          (case loads t of
             None \<Rightarrow> Inr []
           | Some (JObj d) \<Rightarrow>
               (case json_iter (opt_field d ''sessions'' (JList [])) of
                  None \<Rightarrow> Inl (TypeErr ''not iterable'')
                | Some raws \<Rightarrow> Inr (collect session_from_json raws))
           | Some _ \<Rightarrow> Inl (AttributeErr ''get'')))"

definition sessions_text :: "SessionRecord list \<Rightarrow> string" where
  "sessions_text rs = dumps_with plain_layout (JObj [(''sessions'', JList (map (\<lambda>r. JObj (session_dict r)) rs))])"

text \<open>\<open>sid\<close> is the secret that \<open>token_urlsafe\<close> draws; it is also the returned value.\<close>

definition session_create ::
  "sha \<Rightarrow> string \<Rightarrow> string \<Rightarrow> int \<Rightarrow> int \<Rightarrow> sessions_file \<Rightarrow> (py_error, sessions_file \<times> string) result" where
  "session_create sha sid user ttl now f =
     (if ttl \<le> 0 then Inl (ValueErr ''ttl_seconds must be positive'')
      else bindE (sessions_load f) (\<lambda>rs.
        Inr (Some (sessions_text (filter (\<lambda>r. now < sr_expires_at r) rs
          @ [\<lparr>sr_sid_hash = sid_digest sha sid, sr_user_id = user, sr_created_at = now,
              sr_expires_at = now + ttl\<rparr>])), sid)))"

definition session_get :: "sha \<Rightarrow> string \<Rightarrow> int \<Rightarrow> sessions_file \<Rightarrow> (py_error, SessionRecord option) result" where
  "session_get sha sid now f =
     bindE (sessions_load f) (\<lambda>rs.
       Inr (case find (\<lambda>r. sr_sid_hash r = sid_digest sha sid) rs of
              None \<Rightarrow> None
            | Some r \<Rightarrow> if now < sr_expires_at r then Some r else None))"

definition session_revoke :: "sha \<Rightarrow> string \<Rightarrow> sessions_file \<Rightarrow> (py_error, sessions_file \<times> bool) result" where
  "session_revoke sha sid f =
     bindE (sessions_load f) (\<lambda>rs.
       let remaining = filter (\<lambda>r. sr_sid_hash r \<noteq> sid_digest sha sid) rs in
       if length remaining = length rs then Inr (f, False)
       else Inr (Some (sessions_text remaining), True))"

text \<open>The records \<open>revoke_user\<close> keeps; an empty \<open>keep_sid\<close> counts as none.\<close>

definition kept_session :: "sha \<Rightarrow> string \<Rightarrow> string option \<Rightarrow> SessionRecord \<Rightarrow> bool" where
  "kept_session sha user keep r \<longleftrightarrow> sr_user_id r \<noteq> user \<or>
     (case keep of None \<Rightarrow> False | Some s \<Rightarrow> s \<noteq> [] \<and> sr_sid_hash r = sid_digest sha s)"

definition revoke_user ::
  "sha \<Rightarrow> string \<Rightarrow> string option \<Rightarrow> sessions_file \<Rightarrow> (py_error, sessions_file \<times> nat) result" where
  "revoke_user sha user keep f =
     bindE (sessions_load f) (\<lambda>rs.
       let remaining = filter (kept_session sha user keep) rs; removed = length rs - length remaining in
       if removed \<noteq> 0 then Inr (Some (sessions_text remaining), removed) else Inr (f, 0))"

section \<open>Reading back\<close>

lemma py_int_JInt [simp]: "py_int (JInt i) = Some i"
  by (simp add: py_int_def)

lemma session_json_roundtrip [simp]: "session_from_json (JObj (session_dict r)) = Some r"
  by (simp add: session_from_json_def session_dict_def opt_field_def)

lemma sessions_load_text [simp]: "sessions_load (Some (sessions_text rs)) = Inr rs"
proof -
  have "wf_json (JObj (session_dict r))" for r by (simp add: session_dict_def)
  then have "loads (sessions_text rs) = Some (JObj [(''sessions'', JList (map (\<lambda>r. JObj (session_dict r)) rs))])"
    unfolding sessions_text_def by (intro loads_dumps) (auto simp del: wf_json.simps(2), simp)
  then show ?thesis by (simp add: sessions_load_def opt_field_def json_iter_def collect_all_Some)
qed

text \<open>What the removing operations leave, in every outcome.\<close>

lemma session_revoke_load:
  assumes "session_revoke sha sid f = Inr (f', b)" "sessions_load f = Inr rs"
  shows "sessions_load f' = Inr (filter (\<lambda>r. sr_sid_hash r \<noteq> sid_digest sha sid) rs)"
  using assms by (auto simp: session_revoke_def Let_def dest: length_filter_eq split: if_splits)

lemma revoke_user_load:
  assumes "revoke_user sha user keep f = Inr (f', n)" "sessions_load f = Inr rs"
  shows "sessions_load f' = Inr (filter (kept_session sha user keep) rs)"
proof (cases "length rs - length (filter (kept_session sha user keep) rs) = 0")
  case True
  then have "filter (kept_session sha user keep) rs = rs"
    by (intro length_filter_eq) (simp add: antisym)
  then show ?thesis using assms True by (simp add: revoke_user_def Let_def)
next
  case False
  then show ?thesis using assms by (auto simp: revoke_user_def Let_def)
qed

lemma session_get_Some:
  assumes "session_get sha sid now f = Inr (Some r)"
  shows "\<exists>rs. sessions_load f = Inr rs \<and> r \<in> set rs \<and> sr_sid_hash r = sid_digest sha sid \<and> now < sr_expires_at r"
  using assms by (auto simp: session_get_def bindE_eq_Inr_iff dest!: find_SomeD split: option.splits if_splits)

lemma session_revoke_get:
  assumes "session_revoke sha sid f = Inr (f', b)"
  shows "session_get sha sid now f' = Inr None"
proof -
  obtain rs where "sessions_load f = Inr rs" using assms by (auto simp: session_revoke_def bindE_eq_Inr_iff)
  then have l: "sessions_load f' = Inr (filter (\<lambda>r. sr_sid_hash r \<noteq> sid_digest sha sid) rs)"
    using session_revoke_load[OF assms] by blast
  have "find (\<lambda>r. sr_sid_hash r = sid_digest sha sid)
      (filter (\<lambda>r. sr_sid_hash r \<noteq> sid_digest sha sid) rs) = None"
    by (simp add: find_None_iff)
  with l show ?thesis by (simp add: session_get_def)
qed

lemma revoke_user_get:
  assumes "revoke_user sha user keep f = Inr (f', n)" "session_get sha sid now f' = Inr (Some r)"
  shows "sr_user_id r \<noteq> user \<or> (\<exists>s. keep = Some s \<and> sid_digest sha s = sid_digest sha sid)"
proof -
  obtain rs where rs: "sessions_load f = Inr rs" using assms(1) by (auto simp: revoke_user_def bindE_eq_Inr_iff)
  have "kept_session sha user keep r" "sr_sid_hash r = sid_digest sha sid"
    using session_get_Some[OF assms(2)] revoke_user_load[OF assms(1) rs] by auto
  then show ?thesis by (auto simp: kept_session_def split: option.splits)
qed

text \<open>A session is served exactly until it expires, whatever else the file holds.\<close>

lemma session_create_get:
  assumes "session_create sha sid user ttl now f = Inr (f', sid')"
    and fresh: "\<And>rs r. sessions_load f = Inr rs \<Longrightarrow> r \<in> set rs \<Longrightarrow> sr_sid_hash r \<noteq> sid_digest sha sid"
  shows "sid' = sid" "session_get sha sid t f' = Inr (if t < now + ttl then
      Some \<lparr>sr_sid_hash = sid_digest sha sid, sr_user_id = user, sr_created_at = now, sr_expires_at = now + ttl\<rparr>
    else None)"
proof -
  obtain rs where rs: "sessions_load f = Inr rs" and f': "sid' = sid"
    "f' = Some (sessions_text (filter (\<lambda>r. now < sr_expires_at r) rs
          @ [\<lparr>sr_sid_hash = sid_digest sha sid, sr_user_id = user, sr_created_at = now,
              sr_expires_at = now + ttl\<rparr>]))"
    using assms(1) by (auto simp: session_create_def bindE_eq_Inr_iff split: if_splits)
  have "find (\<lambda>r. sr_sid_hash r = sid_digest sha sid) (filter (\<lambda>r. now < sr_expires_at r) rs) = None"
    using fresh[OF rs] by (auto simp: find_None_iff)
  then have "find (\<lambda>r. sr_sid_hash r = sid_digest sha sid) (filter (\<lambda>r. now < sr_expires_at r) rs
      @ [\<lparr>sr_sid_hash = sid_digest sha sid, sr_user_id = user, sr_created_at = now, sr_expires_at = now + ttl\<rparr>])
    = Some \<lparr>sr_sid_hash = sid_digest sha sid, sr_user_id = user, sr_created_at = now, sr_expires_at = now + ttl\<rparr>"
    by (auto simp: find_append split: option.splits)
  then show "session_get sha sid t f' = Inr (if t < now + ttl then
      Some \<lparr>sr_sid_hash = sid_digest sha sid, sr_user_id = user, sr_created_at = now, sr_expires_at = now + ttl\<rparr>
    else None)" by (simp add: session_get_def f'(2))
  show "sid' = sid" by (rule f'(1))
qed

end
