(* ===== verification/Api_Auth.thy ===== *)
theory Api_Auth
  imports Users Sessions Rbac Tokens
begin

text \<open>
  \<open>odooctl/api/auth.py\<close> and \<open>odooctl/api/routes_auth.py\<close>: how a request is resolved to a
  principal, login with its backoff, logout, password change, and the account routes with
  their rank guards.  A handler is a function of the server state; it returns the response
  (\<open>Inl\<close> the HTTP error) with the state it leaves.  \<open>auth_lib\<close> holds the digests of the
  standard library; \<open>request\<close> the headers, the clock readings in their order (nanoseconds)
  and the random values the handler draws.
\<close>

text \<open>\<open>HTTPException(status_code, detail)\<close>; \<open>ServerError\<close> is any other exception.\<close>

datatype http_error = HttpError nat string | ServerError py_error

abbreviation Http :: "nat \<Rightarrow> string \<Rightarrow> (http_error, 'a) result" where
  "Http code detail \<equiv> Inl (HttpError code detail)"

record auth_lib =
  al_hmac :: mac
  al_sha :: sha
  al_scrypt :: scrypt
  al_key :: string

record request =
  hr_authorization :: "string option"
  hr_cookie :: "string option"
  hr_time :: "nat \<Rightarrow> int"
  hr_utc :: string
  hr_salt :: string
  hr_uid :: string
  hr_sid :: string

record auth_state =
  au_users :: users_file
  au_sessions :: sessions_file
  au_failures :: "(string, int list) dict"

record auth_info =
  ai_principal :: Principal
  ai_project :: string
  ai_session_sid :: "string option"
  ai_session_user :: "string option"

type_synonym 'a handler = "auth_state \<Rightarrow> (http_error, 'a) result \<times> auth_state"

definition whole_seconds :: "int \<Rightarrow> int" where
  "whole_seconds t = t div 1000000000"

section \<open>Handlers\<close>

definition h_lift :: "(http_error, 'a) result \<Rightarrow> 'a handler" where
  "h_lift r w = (r, w)"

definition h_bind :: "'a handler \<Rightarrow> ('a \<Rightarrow> 'b handler) \<Rightarrow> 'b handler" where
  "h_bind m f w = (case m w of (Inl e, w') \<Rightarrow> (Inl e, w') | (Inr x, w') \<Rightarrow> f x w')"

lemma h_lift_simps [simp]: "h_bind (h_lift (Inr x)) f w = f x w" "h_bind (h_lift (Inl e)) f w = (Inl e, w)"
  by (simp_all add: h_bind_def h_lift_def)

text \<open>Calls of the two stores; \<open>err\<close> is the \<open>except\<close> clause around the call.\<close>

definition users_get :: "(user_error \<Rightarrow> http_error) \<Rightarrow> (users_file \<Rightarrow> (user_error, 'a) result) \<Rightarrow> 'a handler" where
  "users_get err g w = (case g (au_users w) of Inl e \<Rightarrow> (Inl (err e), w) | Inr x \<Rightarrow> (Inr x, w))"

definition users_put ::
  "(user_error \<Rightarrow> http_error) \<Rightarrow> (users_file \<Rightarrow> (user_error, users_file \<times> 'a) result) \<Rightarrow> 'a handler" where
  "users_put err g w = (case g (au_users w) of
     Inl e \<Rightarrow> (Inl (err e), w) | Inr (f, x) \<Rightarrow> (Inr x, w\<lparr>au_users := f\<rparr>))"

definition sessions_get :: "(sessions_file \<Rightarrow> (py_error, 'a) result) \<Rightarrow> 'a handler" where
  "sessions_get g w = (case g (au_sessions w) of Inl e \<Rightarrow> (Inl (ServerError e), w) | Inr x \<Rightarrow> (Inr x, w))"

definition sessions_put :: "(sessions_file \<Rightarrow> (py_error, sessions_file \<times> 'a) result) \<Rightarrow> 'a handler" where
  "sessions_put g w = (case g (au_sessions w) of
     Inl e \<Rightarrow> (Inl (ServerError e), w) | Inr (f, x) \<Rightarrow> (Inr x, w\<lparr>au_sessions := f\<rparr>))"

text \<open>No \<open>except\<close> clause, and the clauses of the account routes.\<close>

fun uncaught :: "user_error \<Rightarrow> http_error" where
  "uncaught (UserOther e) = ServerError e"
| "uncaught (UserValueErr m) = ServerError (ValueErr m)"
| "uncaught (UserExists m) = ServerError (RuntimeErr m)"
| "uncaught (UserNotFound m) = ServerError (RuntimeErr m)"

fun bad_request :: "user_error \<Rightarrow> http_error" where
  "bad_request (UserValueErr m) = HttpError 400 m"
| "bad_request e = uncaught e"

fun create_error :: "user_error \<Rightarrow> http_error" where
  "create_error (UserExists m) = HttpError 409 m"
| "create_error e = bad_request e"

fun not_found :: "http_error \<Rightarrow> user_error \<Rightarrow> http_error" where
  "not_found h (UserNotFound _) = h"
| "not_found h e = uncaught e"

section \<open>Who is asking (\<open>api/auth.py\<close>)\<close>

definition token_principal :: "(string \<times> json) list \<Rightarrow> (http_error, auth_info) result" where
  "token_principal payload =
     (let proj = opt_field payload ''proj'' JNull;
          project = (if truthy proj then str_json proj else ''*'') in
      case json_iter (opt_field payload ''roles'' (JList [JStr ''viewer''])) of
        None \<Rightarrow> Inl (ServerError (TypeErr ''not iterable''))
      | Some raw \<Rightarrow>
          (let rs = collect (\<lambda>j. case j of JStr s \<Rightarrow> Role_of s | _ \<Rightarrow> None) raw;
               sub = str_json (opt_field payload ''sub'' (JStr ''api-client''));
               org = str_json (opt_field payload ''org'' (JStr ''default''))
           in Inr \<lparr>ai_principal = \<lparr>principal_id = sub, principal_org_id = org, principal_kind = TOKEN,
                      principal_roles = (if rs = [] then {VIEWER} else set rs), principal_display = sub\<rparr>,
                    ai_project = project, ai_session_sid = None, ai_session_user = None\<rparr>))"

definition principal_from_token :: "auth_lib \<Rightarrow> string \<Rightarrow> int \<Rightarrow> (http_error, auth_info) result" where
  "principal_from_token lib token now =
     (case verify (al_hmac lib) (KeyStr (al_key lib)) token (Some ''api'') None None now of
        Inl (TokenExpired _) \<Rightarrow> Http 401 ''Token expired''
      | Inl (TokenInvalid _) \<Rightarrow> Http 401 ''Invalid token''
      | Inl (TokenScopeError _) \<Rightarrow> Http 401 ''Invalid token''
      | Inl (TokenTypeError m) \<Rightarrow> Inl (ServerError (TypeErr m))
      | Inl (TokenAttributeError m) \<Rightarrow> Inl (ServerError (AttributeErr m))
      | Inr payload \<Rightarrow> token_principal payload)"

definition principal_from_session :: "auth_lib \<Rightarrow> string \<Rightarrow> int \<Rightarrow> auth_info handler" where
  "principal_from_session lib sid now =
     h_bind (sessions_get (session_get (al_sha lib) sid now)) (\<lambda>s.
       case s of
         None \<Rightarrow> h_lift (Http 401 ''Session expired or revoked'')
       | Some r \<Rightarrow>
           h_bind (users_get (not_found (HttpError 401 ''Session user no longer exists'')) (user_get (sr_user_id r))) (\<lambda>u.
             if ur_disabled u then h_lift (Http 401 ''Account is disabled'')
             else h_lift (Inr \<lparr>ai_principal = to_principal u, ai_project = ''*'',
               ai_session_sid = Some sid, ai_session_user = Some (ur_id u)\<rparr>)))"

definition bearer_token :: "string \<Rightarrow> string option" where
  "bearer_token a =
     (if starts_with ''bearer '' (py_lower a) then Some (tl (dropWhile (\<lambda>c. c \<noteq> CHR '' '') a)) else None)"

text \<open>An empty header or cookie counts as a missing one.\<close>

definition present :: "string option \<Rightarrow> string option" where
  "present h = (case h of Some (c # cs) \<Rightarrow> Some (c # cs) | _ \<Rightarrow> None)"

definition get_principal :: "auth_lib \<Rightarrow> request \<Rightarrow> auth_info handler" where
  "get_principal lib rq =
     (if length (al_key lib) < MIN_API_KEY_LENGTH then h_lift (Http 500 ''Server API key is too weak'')
      else (case present (hr_authorization rq) of
        Some a \<Rightarrow>
          (case bearer_token a of
             None \<Rightarrow> h_lift (Http 401 ''Missing bearer token'')
           | Some t \<Rightarrow> h_lift (principal_from_token lib t (whole_seconds (hr_time rq 0))))
      | None \<Rightarrow>
          (case present (hr_cookie rq) of
             Some sid \<Rightarrow> principal_from_session lib sid (whole_seconds (hr_time rq 0))
           | None \<Rightarrow> h_lift (Http 401 ''Missing bearer token or session cookie''))))"

definition require_action :: "auth_lib \<Rightarrow> request \<Rightarrow> Action \<Rightarrow> auth_info handler" where
  "require_action lib rq a =
     h_bind (get_principal lib rq) (\<lambda>i.
       case require_rbac (ai_principal i) a False of
         Inl e \<Rightarrow> h_lift (Http 403 (access_denied_message e))
       | Inr _ \<Rightarrow> h_lift (Inr i))"

section \<open>Login (\<open>api/routes_auth.py\<close>)\<close>

definition LOGIN_MAX_FAILURES :: nat where "LOGIN_MAX_FAILURES = 5"

text \<open>15 minutes, in the unit of the clock.\<close>

definition LOGIN_WINDOW :: int where "LOGIN_WINDOW = 15 * 60 * 1000000000"

definition recent_failures :: "int \<Rightarrow> string \<Rightarrow> auth_state \<Rightarrow> int list" where
  "recent_failures now email w =
     filter (\<lambda>t. now - t < LOGIN_WINDOW) (case dict_get (au_failures w) email of None \<Rightarrow> [] | Some ts \<Rightarrow> ts)"

definition check_backoff :: "int \<Rightarrow> string \<Rightarrow> unit handler" where
  "check_backoff now email w =
     (let attempts = recent_failures now email w;
          w' = w\<lparr>au_failures := dict_put email attempts (au_failures w)\<rparr> in
      if LOGIN_MAX_FAILURES \<le> length attempts
      then (Http 429 ''Too many failed login attempts; try again later'', w') else (Inr (), w'))"

definition record_failure :: "int \<Rightarrow> string \<Rightarrow> unit handler" where
  "record_failure now email w =
     (Inr (), w\<lparr>au_failures := dict_put email
        ((case dict_get (au_failures w) email of None \<Rightarrow> [] | Some ts \<Rightarrow> ts) @ [now]) (au_failures w)\<rparr>)"

definition clear_failures :: "string \<Rightarrow> unit handler" where
  "clear_failures email w = (Inr (), w\<lparr>au_failures := dict_del email (au_failures w)\<rparr>)"

text \<open>The response is the account without its secrets; the cookie is the new session id.\<close>

definition login :: "auth_lib \<Rightarrow> request \<Rightarrow> string \<Rightarrow> string \<Rightarrow> ((string \<times> json) list \<times> string) handler" where
  "login lib rq body_email password =
     (let email = clean_email body_email in
      h_bind (check_backoff (hr_time rq 0) email) (\<lambda>_.
      h_bind (users_get uncaught (authenticate (al_scrypt lib) email password)) (\<lambda>found.
        case found of
          None \<Rightarrow> h_bind (record_failure (hr_time rq 1) email) (\<lambda>_. h_lift (Http 401 ''Invalid email or password''))
        | Some u \<Rightarrow>
            h_bind (clear_failures email) (\<lambda>_.
            h_bind (sessions_put (session_create (al_sha lib) (hr_sid rq) (ur_id u)
                DEFAULT_SESSION_TTL_SECONDS (whole_seconds (hr_time rq 1)))) (\<lambda>sid.
              h_lift (Inr ([(''user'', JObj (public_dict u)),
                (''session_ttl_seconds'', JInt DEFAULT_SESSION_TTL_SECONDS)], sid)))))))"

definition logout :: "auth_lib \<Rightarrow> request \<Rightarrow> bool handler" where
  "logout lib rq =
     (case present (hr_cookie rq) of
        None \<Rightarrow> h_lift (Inr False)
      | Some sid \<Rightarrow> sessions_put (session_revoke (al_sha lib) sid))"

definition role_values_sorted :: "Role set \<Rightarrow> string list" where
  "role_values_sorted rs = filter (\<lambda>v. case Role_of v of None \<Rightarrow> False | Some r \<Rightarrow> r \<in> rs)
     [''admin'', ''operator'', ''owner'', ''viewer'']"

definition me :: "auth_lib \<Rightarrow> request \<Rightarrow> ((string \<times> json) list) handler" where
  "me lib rq =
     h_bind (get_principal lib rq) (\<lambda>i.
       h_lift (Inr [(''id'', JStr (principal_id (ai_principal i))), (''org_id'', JStr (principal_org_id (ai_principal i))),
         (''kind'', JStr (principal_kind_value (principal_kind (ai_principal i)))),
         (''display'', JStr (principal_display (ai_principal i))),
         (''roles'', JList (map JStr (role_values_sorted (principal_roles (ai_principal i))))),
         (''session'', JBool (present (ai_session_sid i) \<noteq> None))]))"

definition change_password :: "auth_lib \<Rightarrow> request \<Rightarrow> string \<Rightarrow> string \<Rightarrow> unit handler" where
  "change_password lib rq current new =
     h_bind (get_principal lib rq) (\<lambda>i.
       case ai_session_user i of
         None \<Rightarrow> h_lift (Http 400 ''Password change requires a browser session login'')
       | Some uid \<Rightarrow>
           h_bind (users_get uncaught (user_get uid)) (\<lambda>u.
             if \<not> verify_password (al_scrypt lib) (ur_password_hash u) current
             then h_lift (Http 403 ''Current password is incorrect'')
             else h_bind (users_put bad_request
                    (set_password (al_scrypt lib) (hr_salt rq) (hr_utc rq) (ur_id u) new)) (\<lambda>_.
                  h_bind (sessions_put (revoke_user (al_sha lib) (ur_id u) (ai_session_sid i))) (\<lambda>_.
                  h_lift (Inr ())))))"

section \<open>Account routes\<close>

fun parse_roles :: "string list \<Rightarrow> (http_error, Role list) result" where
  "parse_roles [] = Inr []"
| "parse_roles (v # vs) =
     (case Role_of v of
        None \<Rightarrow> Http 400 (''Unknown role: '' @ repr_str v)
      | Some r \<Rightarrow> bindE (parse_roles vs) (\<lambda>rs. Inr (r # rs)))"

text \<open>\<open>max(..., default=-1)\<close>.\<close>

definition principal_rank :: "Principal \<Rightarrow> int" where
  "principal_rank p = (case max_role (principal_roles p) of None \<Rightarrow> -1 | Some r \<Rightarrow> int (role_rank r))"

definition require_rank_ceiling :: "Principal \<Rightarrow> Role list \<Rightarrow> string \<Rightarrow> (http_error, unit) result" where
  "require_rank_ceiling p roles verb =
     (case List.find (\<lambda>r. principal_rank p < int (role_rank r)) roles of
        None \<Rightarrow> Inr ()
      | Some r \<Rightarrow> Http 403 (''Cannot '' @ verb @ '' a '' @ quoted (role_value r) @ '' account above your own role''))"

definition require_outranks_target :: "Principal \<Rightarrow> UserRecord \<Rightarrow> string \<Rightarrow> (http_error, unit) result" where
  "require_outranks_target p u verb =
     (if (case user_max_role u of None \<Rightarrow> False | Some r \<Rightarrow> principal_rank p < int (role_rank r))
      then Http 403 (''Cannot '' @ verb @ '' an account whose role outranks your own'') else Inr ())"

definition is_self :: "auth_info \<Rightarrow> UserRecord \<Rightarrow> bool" where
  "is_self i u \<longleftrightarrow> ai_session_user i = Some (ur_id u) \<or>
     (principal_kind (ai_principal i) = USER \<and> principal_id (ai_principal i) = ur_email u)"

definition get_users :: "auth_lib \<Rightarrow> request \<Rightarrow> json list handler" where
  "get_users lib rq =
     h_bind (require_action lib rq A_USERS) (\<lambda>_.
     h_bind (users_get uncaught list_users) (\<lambda>us. h_lift (Inr (map (\<lambda>u. JObj (public_dict u)) us))))"

definition create_user ::
  "auth_lib \<Rightarrow> request \<Rightarrow> string \<Rightarrow> string \<Rightarrow> string list \<Rightarrow> string \<Rightarrow> UserRecord handler" where
  "create_user lib rq email password raw_roles name =
     h_bind (require_action lib rq A_USERS) (\<lambda>i.
     h_bind (h_lift (parse_roles raw_roles)) (\<lambda>roles.
     h_bind (h_lift (require_rank_ceiling (ai_principal i) roles ''create'')) (\<lambda>_.
       users_put create_error
         (user_create (al_scrypt lib) (hr_salt rq) (hr_uid rq) (hr_utc rq) email password roles name))))"

definition load_target :: "string \<Rightarrow> UserRecord handler" where
  "load_target uid = users_get (not_found (HttpError 404 (''No user with id '' @ repr_str uid))) (user_get uid)"

text \<open>\<open>None\<close> is a field that the request body leaves out; one definition per field.\<close>

definition patch_roles :: "Principal \<Rightarrow> UserRecord \<Rightarrow> string list option \<Rightarrow> UserRecord handler" where
  "patch_roles p u raw_roles =
     (case raw_roles of
        None \<Rightarrow> h_lift (Inr u)
      | Some raw \<Rightarrow>
          h_bind (h_lift (parse_roles raw)) (\<lambda>roles.
          h_bind (h_lift (require_rank_ceiling p roles ''grant'')) (\<lambda>_.
          users_put uncaught (set_roles (ur_id u) roles))))"

definition patch_name :: "string option \<Rightarrow> UserRecord \<Rightarrow> UserRecord handler" where
  "patch_name name u =
     (case name of None \<Rightarrow> h_lift (Inr u) | Some n \<Rightarrow> users_put uncaught (set_name (ur_id u) n))"

definition patch_disabled :: "auth_lib \<Rightarrow> bool option \<Rightarrow> UserRecord \<Rightarrow> UserRecord handler" where
  "patch_disabled lib disabled u =
     (case disabled of
        None \<Rightarrow> h_lift (Inr u)
      | Some b \<Rightarrow>
          h_bind (users_put uncaught (set_disabled (ur_id u) b)) (\<lambda>u.
            if b then h_bind (sessions_put (revoke_user (al_sha lib) (ur_id u) None)) (\<lambda>_. h_lift (Inr u))
            else h_lift (Inr u)))"

definition patch_user ::
  "auth_lib \<Rightarrow> request \<Rightarrow> string \<Rightarrow> string list option \<Rightarrow> bool option \<Rightarrow> string option \<Rightarrow> UserRecord handler" where
  "patch_user lib rq uid raw_roles disabled name =
     h_bind (require_action lib rq A_USERS) (\<lambda>i.
     h_bind (load_target uid) (\<lambda>target.
     h_bind (h_lift (require_outranks_target (ai_principal i) target ''modify'')) (\<lambda>_.
     if disabled = Some True \<and> is_self i target then h_lift (Http 400 ''You cannot disable your own account'')
     else
       h_bind (patch_roles (ai_principal i) target raw_roles) (\<lambda>u.
       h_bind (patch_name name u) (\<lambda>u. patch_disabled lib disabled u)))))"

definition reset_password :: "auth_lib \<Rightarrow> request \<Rightarrow> string \<Rightarrow> string \<Rightarrow> unit handler" where
  "reset_password lib rq uid new =
     h_bind (require_action lib rq A_USERS) (\<lambda>i.
     h_bind (load_target uid) (\<lambda>target.
     h_bind (h_lift (require_outranks_target (ai_principal i) target ''reset the password of'')) (\<lambda>_.
     h_bind (users_put bad_request
       (set_password (al_scrypt lib) (hr_salt rq) (hr_utc rq) (ur_id target) new)) (\<lambda>_.
     h_bind (sessions_put (revoke_user (al_sha lib) (ur_id target) None)) (\<lambda>_. h_lift (Inr ()))))))"

definition delete_user :: "auth_lib \<Rightarrow> request \<Rightarrow> string \<Rightarrow> unit handler" where
  "delete_user lib rq uid =
     h_bind (require_action lib rq A_USERS) (\<lambda>i.
     h_bind (load_target uid) (\<lambda>target.
     h_bind (h_lift (require_outranks_target (ai_principal i) target ''delete'')) (\<lambda>_.
     if is_self i target then h_lift (Http 400 ''You cannot delete your own account'')
     else
       h_bind (users_put uncaught (\<lambda>f. bindE (user_delete (ur_id target) f) (\<lambda>f'. Inr (f', ())))) (\<lambda>_.
       h_bind (sessions_put (revoke_user (al_sha lib) (ur_id target) None)) (\<lambda>_. h_lift (Inr ()))))))"

end
