(* ===== verification/Api_Ops.thy ===== *)
theory Api_Ops
  imports Runner Api_Auth
begin

text \<open>
  \<open>odooctl/api/routes_operations.py\<close> and \<open>enforce_project_scope\<close> of
  \<open>odooctl/api/auth.py\<close>: validation, authorization and enqueueing of an operation, lookup,
  event streaming and cancellation.  A registered project is its configuration with its
  state directory, which the runner works on too; \<open>Inl\<close> is a project whose context does not
  load, with the text of the exception.
\<close>

record ApiConfig =
  ac_envs :: EnvMap
  ac_backend :: "(string, string) dict"
  ac_snapshot_provider :: string
  ac_snapshot_environment :: string
  ac_pitr_enabled :: bool
  ac_pitr_environment :: string

record api_project =
  pr_config :: ApiConfig
  pr_state :: runner_world

type_synonym registry = "(string, string + api_project) dict"

record OperationRequest =
  rq_kind :: string
  rq_environment :: string
  rq_params :: "(string \<times> json) list"

definition API_KIND_ACTION :: "(string, Action) dict" where
  "API_KIND_ACTION =
     [(''backup'', A_BACKUP), (''restore'', A_RESTORE), (''clone'', A_CLONE), (''deploy'', A_DEPLOY),
      (''promote'', A_PROMOTE), (''env_create'', A_ENV), (''env_destroy'', A_ENV),
      (''update_modules'', A_DEPLOY), (''rollback'', A_RESTORE), (''dr_drill'', A_RESTORE),
      (''snapshot_create'', A_BACKUP), (''snapshot_reconcile'', A_BACKUP),
      (''snapshot_restore'', A_RESTORE), (''pitr_base_create'', A_BACKUP), (''pitr_restore'', A_RESTORE),
      (''pitr_cutover'', A_RESTORE), (''pitr_reconcile'', A_BACKUP), (''filestore_migrate'', A_RESTORE),
      (''migrate_rehearsal'', A_RESTORE), (''service_logs'', A_LOGS), (''service_restart'', A_DEPLOY)]"

section \<open>Parameters\<close>

definition alnum_char :: "char \<Rightarrow> bool" where
  "alnum_char c \<longleftrightarrow> (let n = of_char c :: nat in
     (48 \<le> n \<and> n \<le> 57) \<or> (65 \<le> n \<and> n \<le> 90) \<or> (97 \<le> n \<and> n \<le> 122))"

text \<open>\<open>[A-Za-z0-9][A-Za-z0-9._-]{0,127}\<close>.\<close>

definition safe_operation_id :: "string \<Rightarrow> bool" where
  "safe_operation_id s \<longleftrightarrow> s \<noteq> [] \<and> alnum_char (hd s) \<and> length (tl s) \<le> 127 \<and>
     list_all (\<lambda>c. alnum_char c \<or> c \<in> set ''._-'') (tl s)"

definition require_safe_operation_id :: "(string \<times> json) list \<Rightarrow> string \<Rightarrow> (http_error, string) result" where
  "require_safe_operation_id params name =
     (case dict_get params name of
        Some (JStr v) \<Rightarrow>
          if v = ''.'' \<or> v = ''..'' \<or> \<not> safe_operation_id v
          then Http 400 (name @ '' must be one safe operation identifier'') else Inr v
      | _ \<Rightarrow> Http 400 (name @ '' must be one safe operation identifier''))"

definition FILESTORE_ACTIONS :: "string list" where
  "FILESTORE_ACTIONS = [''plan'', ''sync'', ''verify'', ''cutover'', ''download'', ''delete_source'',
     ''delete_remote_marker'']"

definition validate_filestore_params ::
  "string \<Rightarrow> (string \<times> json) list \<Rightarrow> (http_error, unit) result" where
  "validate_filestore_params environment params =
     (let action = (case dict_get params ''action'' of Some (JStr a) \<Rightarrow> a | _ \<Rightarrow> []) in
      if (case dict_get params ''action'' of Some (JList _) \<Rightarrow> True | Some (JObj _) \<Rightarrow> True | _ \<Rightarrow> False)
      then Inl (ServerError (TypeErr ''unhashable''))
      else if action \<notin> set FILESTORE_ACTIONS then Http 400 ''filestore_migrate requires a supported action''
      else if action = ''plan'' then Inr ()
      else bindE (require_safe_operation_id params ''migration_id'') (\<lambda>migration_id.
        bindE (guardE (\<not> (action = ''cutover'' \<and>
                 (dict_get params ''confirm_environment'' \<noteq> Some (JStr environment) \<or>
                  dict_get params ''confirm_source_retained'' \<noteq> Some (JBool True))))
               (HttpError 400 ''filestore cutover requires the exact environment and confirm_source_retained=true''))
        (\<lambda>_. bindE
          (if action = ''download'' then
             (case dict_get params ''destination'' of
                Some (JStr d) \<Rightarrow>
                  if py_strip d = [] then Http 400 ''filestore download requires a destination''
                  else if unsafe_destination d
                  then Http 400 ''queued filestore download destination must be a safe project-relative path''
                  else Inr ()
              | _ \<Rightarrow> Http 400 ''filestore download requires a destination'')
           else Inr ())
        (\<lambda>_. bindE (guardE (\<not> (action = ''delete_source'' \<and>
                 (dict_get params ''confirm_environment'' \<noteq> Some (JStr environment) \<or>
                  dict_get params ''confirm_migration_id'' \<noteq> Some (JStr migration_id) \<or>
                  dict_get params ''delete_source'' \<noteq> Some (JBool True))))
               (HttpError 400 ''filestore source deletion requires exact environment/migration confirmations and delete_source=true''))
        (\<lambda>_. guardE (\<not> (action = ''delete_remote_marker'' \<and>
                 dict_get params ''confirm_migration_id'' \<noteq> Some (JStr migration_id)))
               (HttpError 400 ''filestore remote marker deletion requires exact migration confirmation''))))))"

definition MAX_POLLS_CEILING :: int where "MAX_POLLS_CEILING = 600"

definition clamp_max_polls :: "int \<Rightarrow> int" where
  "clamp_max_polls v = max 1 (min v MAX_POLLS_CEILING)"

section \<open>Scope\<close>

text \<open>\<open>request.state.token_project\<close>, \<open>None\<close> when unset.\<close>

definition enforce_project_scope :: "string option \<Rightarrow> string \<Rightarrow> (http_error, unit) result" where
  "enforce_project_scope claim project =
     (let c = (case claim of None \<Rightarrow> [] | Some c \<Rightarrow> c) in
      guardE (\<not> (c \<noteq> ''*'' \<and> c \<noteq> project)) (HttpError 404 (''Project '' @ repr_str project @ '' not found'')))"

definition require_op_in_token_scope :: "string option \<Rightarrow> Operation \<Rightarrow> (http_error, unit) result" where
  "require_op_in_token_scope claim op =
     (let c = (case claim of None \<Rightarrow> ''*'' | Some c \<Rightarrow> if c = [] then ''*'' else c) in
      guardE (\<not> (c \<noteq> ''*'' \<and> op_project op \<noteq> c))
        (HttpError 404 (''Operation '' @ repr_str (op_ident op) @ '' not found'')))"

definition load_ctx :: "registry \<Rightarrow> string \<Rightarrow> (http_error, api_project) result" where
  "load_ctx reg project =
     (case dict_get reg project of
        None \<Rightarrow> Http 404 (''Project '' @ repr_str project @ '' not found'')
      | Some (Inl exc) \<Rightarrow> Http 404 exc
      | Some (Inr p) \<Rightarrow> Inr p)"

fun find_op_ctx :: "registry \<Rightarrow> string \<Rightarrow> (http_error, Operation \<times> string) result" where
  "find_op_ctx [] i = Http 404 (''Operation '' @ repr_str i @ '' not found'')"
| "find_op_ctx ((name, Inl _) # reg) i = find_op_ctx reg i"
| "find_op_ctx ((name, Inr p) # reg) i =
     (case store_load (w_ops (rw_world (pr_state p))) i of
        Inr op \<Rightarrow> Inr (op, name)
      | Inl (KeyError _) \<Rightarrow> find_op_ctx reg i
      | Inl err \<Rightarrow> Inl (ServerError err))"

section \<open>Enqueueing\<close>

definition validate_pitr :: "ApiConfig \<Rightarrow> OperationRequest \<Rightarrow> (http_error, unit) result" where
  "validate_pitr cfg rq =
     (if \<not> starts_with ''pitr_'' (rq_kind rq) then Inr ()
      else if \<not> ac_pitr_enabled cfg then Http 400 ''PITR is disabled for this project''
      else if rq_environment rq \<noteq> ac_pitr_environment cfg
      then Http 400 (''PITR is bound to environment '' @ repr_str (ac_pitr_environment cfg) @ '', not ''
             @ repr_str (rq_environment rq))
      else if rq_kind rq = ''pitr_restore''
      then bindE (require_safe_operation_id (rq_params rq) ''plan_id'') (\<lambda>_. Inr ())
      else if rq_kind rq = ''pitr_cutover''
      then bindE (require_safe_operation_id (rq_params rq) ''restore_id'') (\<lambda>_.
        (case dict_get (ac_envs cfg) (rq_environment rq) of
           None \<Rightarrow> Inl (ServerError (KeyError (unknown_env_message (ac_envs cfg) (rq_environment rq))))
         | Some env \<Rightarrow>
             guardE (dict_get (rq_params rq) ''confirm_environment'' = Some (JStr (rq_environment rq)) \<and>
                     dict_get (rq_params rq) ''confirm_database'' = Some (JStr (env_db_name env)) \<and>
                     dict_get (rq_params rq) ''accept_database_only'' = Some (JBool True))
               (HttpError 400 ''PITR cutover requires exact environment/database confirmations and accept_database_only=true'')))
      else Inr ())"

definition validate_filestore :: "ApiConfig \<Rightarrow> OperationRequest \<Rightarrow> (http_error, unit) result" where
  "validate_filestore cfg rq =
     (if rq_kind rq \<noteq> ''filestore_migrate'' then Inr ()
      else bindE (validate_filestore_params (rq_environment rq) (rq_params rq)) (\<lambda>_.
        (case dict_get (ac_backend cfg) (rq_environment rq) of
           Some t \<Rightarrow>
             (if t \<notin> {''object_mirror'', ''posix_object_mount'', ''odoo_module''}
              then Http 400 ''filestore migration requires an explicit object_mirror, posix_object_mount, or odoo_module backend''
              else if dict_get (rq_params rq) ''action'' = Some (JStr ''delete_source'') \<and> t = ''object_mirror''
              then Http 400 ''object_mirror is not an Odoo serving backend and cannot authorize source deletion''
              else Inr ())
         | None \<Rightarrow> Http 400 ''filestore migration requires an explicit object_mirror, posix_object_mount, or odoo_module backend'')))"

text \<open>All checks of \<open>enqueue_operation\<close>, in their order; the result is the operation kind.\<close>

definition validate_request ::
  "ApiConfig \<Rightarrow> Principal \<Rightarrow> OperationRequest \<Rightarrow> (http_error, OperationKind) result" where
  "validate_request cfg p rq =
     bindE (guardE (\<not> (rq_kind rq = ''clone'' \<and> dict_has (rq_params rq) ''target''))
       (HttpError 400 ''Clone operation.environment must be the target environment; put the source environment in params.source'')) (\<lambda>_.
     bindE (guardE (\<not> (rq_kind rq \<in> {''snapshot_create'', ''snapshot_reconcile'', ''snapshot_restore''} \<and>
              ac_snapshot_provider cfg \<noteq> ''none'' \<and> rq_environment rq \<noteq> ac_snapshot_environment cfg))
       (HttpError 400 (''Snapshot provider is bound to environment '' @ repr_str (ac_snapshot_environment cfg)
          @ '', not '' @ repr_str (rq_environment rq)))) (\<lambda>_.
     bindE (validate_pitr cfg rq) (\<lambda>_.
     bindE (case (dict_get (ac_envs cfg) (rq_environment rq), kind_protected (ac_envs cfg) (rq_kind rq) (rq_environment rq)) of
              (Some _, Some b) \<Rightarrow> Inr b
            | _ \<Rightarrow> Http 400 (repr_str (unknown_env_message (ac_envs cfg) (rq_environment rq)))) (\<lambda>protected.
     bindE (validate_filestore cfg rq) (\<lambda>_.
     bindE (case dict_get API_KIND_ACTION (rq_kind rq) of
              None \<Rightarrow> Http 400 (''Unknown operation kind: '' @ repr_str (rq_kind rq)) | Some a \<Rightarrow> Inr a) (\<lambda>action.
     bindE (case require_rbac p action protected of
              Inl d \<Rightarrow> Http 403 (access_denied_message d) | Inr _ \<Rightarrow> Inr ()) (\<lambda>_.
     (case OperationKind_of (rq_kind rq) of
        None \<Rightarrow> Http 400 (''Invalid operation kind: '' @ repr_str (rq_kind rq))
      | Some k \<Rightarrow> Inr k))))))))"

text \<open>
  What the call reads from its surroundings: a UUID, a nonce, the clock as text and in
  seconds, and the time of the queue file.  The roles of a principal are a frozenset; they
  are listed here in increasing order.
\<close>

record api_env =
  ap_hmac :: mac
  ap_key :: string
  ap_uid :: string
  ap_nonce :: string
  ap_now :: string
  ap_seconds :: int
  ap_mtime :: int

definition role_list :: "Principal \<Rightarrow> json list" where
  "role_list p = map (\<lambda>r. JStr (role_value r)) (sorted_list_of_set (principal_roles p))"

definition capability_payload :: "api_env \<Rightarrow> string \<Rightarrow> Principal \<Rightarrow> OperationRequest \<Rightarrow> (string \<times> json) list" where
  "capability_payload ap project p rq =
     mint_payload (rq_kind rq) (rq_environment rq) project DEFAULT_TTL_SECONDS (Some (principal_id p))
       (ap_nonce ap) (ap_seconds ap) [(''roles'', JList (role_list p))]"

definition enqueue_operation ::
  "api_env \<Rightarrow> string option \<Rightarrow> Principal \<Rightarrow> registry \<Rightarrow> string \<Rightarrow> OperationRequest
   \<Rightarrow> (http_error, registry \<times> json) result" where
  "enqueue_operation ap claim p reg project rq =
     bindE (enforce_project_scope claim project) (\<lambda>_.
     bindE (load_ctx reg project) (\<lambda>pr.
     bindE (validate_request (pr_config pr) p rq) (\<lambda>kind.
       let params = (case redact_json [] (JObj (rq_params rq)) of JObj d \<Rightarrow> JObj d | _ \<Rightarrow> JObj []);
           op = operation_create (ap_uid ap) (ap_now ap) kind project (rq_environment rq) (principal_id p) params;
           s = pr_state pr;
           w1 = (rw_world s)\<lparr>w_ops := store_save (ap_mtime ap) op (w_ops (rw_world s))\<rparr>
       in case mint (ap_hmac ap) (KeyStr (ap_key ap)) (rq_kind rq) (rq_environment rq) project DEFAULT_TTL_SECONDS
                 (Some (principal_id p)) None (ap_nonce ap) (ap_seconds ap) [(''roles'', JList (role_list p))] of
            Inl (ValueError m) \<Rightarrow> Inl (ServerError (ValueErr m))
          | Inr token \<Rightarrow>
              (let entry = entry_create (ap_now ap) (op_ident op) (rq_kind rq) project (rq_environment rq)
                     (principal_id p) (op_params_redacted op) token;
                   s' = s\<lparr>rw_world := w1, rw_queue := enqueue (ap_mtime ap) entry (rw_queue s)\<rparr>
               in Inr (dict_put project (Inr (pr\<lparr>pr_state := s'\<rparr>)) reg,
                    JObj [(''op_id'', JStr (op_ident op)), (''kind'', JStr (kind_value (op_kind op))),
                          (''project'', JStr project), (''environment'', JStr (rq_environment rq)),
                          (''status'', JStr (status_value (op_status op))),
                          (''created_at'', JStr (op_created_at op))])))))"

section \<open>Reading and cancelling\<close>

definition get_operation :: "string option \<Rightarrow> registry \<Rightarrow> string \<Rightarrow> (http_error, json) result" where
  "get_operation claim reg i =
     bindE (find_op_ctx reg i) (\<lambda>(op, _).
     bindE (require_op_in_token_scope claim op) (\<lambda>_.
       Inr (JObj [(''op_id'', JStr (op_ident op)), (''kind'', JStr (kind_value (op_kind op))),
         (''project'', JStr (op_project op)), (''environment'', JStr (op_environment op)),
         (''status'', JStr (status_value (op_status op))), (''actor'', JStr (op_actor op)),
         (''params_redacted'', op_params_redacted op), (''created_at'', JStr (op_created_at op)),
         (''updated_at'', JStr (op_updated_at op)), (''error'', json_opt_str (op_error op)),
         (''result_ref'', json_opt_str (op_result_ref op))])))"

text \<open>
  The generator of \<open>stream_events\<close>: each poll reads the events and then the operation, so a
  poll is a pair of what the two reads saw.  The result is what was sent and how many polls
  were made; an exhausted list of polls is a client that went away.
\<close>

definition terminal :: "OperationStatus \<Rightarrow> bool" where
  "terminal s \<longleftrightarrow> s \<in> {SUCCEEDED, FAILED, CANCELLED}"

fun stream_polls :: "nat \<Rightarrow> int \<Rightarrow> int \<Rightarrow> (Event list \<times> OperationStatus) list \<Rightarrow> Event list \<times> nat" where
  "stream_polls seen polls max_polls [] = ([], 0)"
| "stream_polls seen polls max_polls ((evs, st) # ps) =
     (let out = drop seen evs in
      if terminal st then (out, 1)
      else if max_polls \<le> polls + 1 then (out, 1)
      else (case stream_polls (seen + length out) (polls + 1) max_polls ps of (rest, n) \<Rightarrow> (out @ rest, Suc n)))"

definition stream_events :: "int \<Rightarrow> (Event list \<times> OperationStatus) list \<Rightarrow> Event list \<times> nat" where
  "stream_events max_polls ps = stream_polls 0 0 (clamp_max_polls max_polls) ps"

definition with_project :: "string \<Rightarrow> (runner_world \<Rightarrow> runner_world) \<Rightarrow> registry \<Rightarrow> registry" where
  "with_project name f reg =
     (case dict_get reg name of Some (Inr p) \<Rightarrow> dict_put name (Inr (p\<lparr>pr_state := f (pr_state p)\<rparr>)) reg | _ \<Rightarrow> reg)"

definition cancel_operation ::
  "int \<Rightarrow> string \<Rightarrow> string option \<Rightarrow> registry \<Rightarrow> string \<Rightarrow> (http_error, registry \<times> json) result" where
  "cancel_operation mt now claim reg i =
     bindE (find_op_ctx reg i) (\<lambda>(op, name).
     bindE (require_op_in_token_scope claim op) (\<lambda>_.
     bindE (guardE (op_status op = QUEUED)
       (HttpError 409 (''Cannot cancel operation in status '' @ repr_str (status_value (op_status op))))) (\<lambda>_.
       let reg1 = with_project (op_project op) (\<lambda>s. s\<lparr>rw_queue := queue_cancel i (rw_queue s)\<rparr>) reg in
       case dict_get reg1 name of
         Some (Inr p) \<Rightarrow>
           (case store_update_status mt now i CANCELLED None None (w_ops (rw_world (pr_state p))) of
              Inl err \<Rightarrow> Inl (ServerError err)
            | Inr (s, op') \<Rightarrow>
                Inr (with_project name (\<lambda>st. st\<lparr>rw_world := (rw_world st)\<lparr>w_ops := s\<rparr>\<rparr>) reg1,
                  JObj [(''op_id'', JStr (op_ident op')), (''status'', JStr (status_value (op_status op')))]))
       | _ \<Rightarrow> Inl (ServerError (RuntimeErr ''project'')))))"

section \<open>The two halves agree\<close>

lemma kind_tables_agree: "API_KIND_ACTION = KIND_ACTION"
  by (simp add: API_KIND_ACTION_def KIND_ACTION_def)

lemma role_list_roles: "collect (\<lambda>r. case r of JStr s \<Rightarrow> Role_of s | _ \<Rightarrow> None) (role_list p)
    = sorted_list_of_set (principal_roles p)"
proof -
  have "collect (\<lambda>r. case r of JStr s \<Rightarrow> Role_of s | _ \<Rightarrow> None) (map (\<lambda>r. JStr (role_value r)) rs) = rs" for rs
    by (induction rs) auto
  then show ?thesis by (simp add: role_list_def)
qed

lemma extra_roles_ok: "\<forall>k \<in> set (map fst [(''roles'', v)]). k \<notin> set RESERVED_CLAIMS"
  by (simp add: RESERVED_CLAIMS_def)

lemma sort_roles [simp]: "sort_json (JList (role_list p)) = JList (role_list p)"
  by (simp add: role_list_def o_def)

lemma capability_fields:
  fixes ap project p rq
  defines "d \<equiv> sorted_payload (capability_payload ap project p rq)"
  shows "dict_get d ''act'' = Some (JStr (rq_kind rq))" "dict_get d ''env'' = Some (JStr (rq_environment rq))"
    "dict_get d ''proj'' = Some (JStr project)" "dict_get d ''exp'' = Some (JInt (ap_seconds ap + DEFAULT_TTL_SECONDS))"
    "dict_get d ''nonce'' = Some (JStr (ap_nonce ap))" "dict_get d ''sub'' = Some (JStr (principal_id p))"
    "dict_get d ''roles'' = Some (JList (role_list p))"
proof -
  have wf: "dict_wf (capability_payload ap project p rq)"
    by (simp add: capability_payload_def mint_payload_wf)
  have r: "dict_get (capability_payload ap project p rq) ''roles'' = Some (JList (role_list p))"
    unfolding capability_payload_def mint_payload_def
    by (rule dict_get_update_new) (simp_all add: dict_wf_def)
  show "dict_get d ''roles'' = Some (JList (role_list p))"
    unfolding d_def by (simp add: dict_get_sorted_payload[OF wf] r del: sort_json.simps)
  show "dict_get d ''act'' = Some (JStr (rq_kind rq))" "dict_get d ''env'' = Some (JStr (rq_environment rq))"
    "dict_get d ''proj'' = Some (JStr project)" "dict_get d ''exp'' = Some (JInt (ap_seconds ap + DEFAULT_TTL_SECONDS))"
    "dict_get d ''nonce'' = Some (JStr (ap_nonce ap))" "dict_get d ''sub'' = Some (JStr (principal_id p))"
    unfolding d_def dict_get_sorted_payload[OF wf] unfolding capability_payload_def
    by (simp_all add: mint_payload_get[OF extra_roles_ok])
qed

lemma capability_json: "wf_json (JObj (capability_payload ap project p rq))"
  unfolding capability_payload_def by (rule mint_payload_json) (simp add: role_list_def)

text \<open>The principal the runner reconstructs has the roles of the principal the API authenticated.\<close>

lemma capability_principal:
  "principal_roles (runner_principal (sorted_payload (capability_payload ap project p rq))) = principal_roles p"
  "principal_id (runner_principal (sorted_payload (capability_payload ap project p rq))) = principal_id p"
  by (simp_all add: runner_principal_def opt_field_def capability_fields role_list_roles Let_def)

lemma is_allowed_roles: "principal_roles p = principal_roles q \<Longrightarrow> is_allowed p a b = is_allowed q a b"
  by (simp add: is_allowed_def roles_allow_def has_at_least_def)

definition capability_token :: "api_env \<Rightarrow> string \<Rightarrow> Principal \<Rightarrow> OperationRequest \<Rightarrow> string" where
  "capability_token ap project p rq =
     encode_token (ap_hmac ap) (KeyStr (ap_key ap)) (capability_payload ap project p rq)"

lemma mint_capability:
  "mint (ap_hmac ap) (KeyStr (ap_key ap)) (rq_kind rq) (rq_environment rq) project DEFAULT_TTL_SECONDS
     (Some (principal_id p)) None (ap_nonce ap) (ap_seconds ap) [(''roles'', JList (role_list p))]
   = Inr (capability_token ap project p rq)"
  by (simp add: mint_def DEFAULT_TTL_SECONDS_def RESERVED_CLAIMS_def capability_token_def capability_payload_def)

text \<open>What an accepted request leaves behind.\<close>

definition enqueued_entry :: "api_env \<Rightarrow> string \<Rightarrow> Principal \<Rightarrow> OperationRequest \<Rightarrow> QueueEntry" where
  "enqueued_entry ap project p rq =
     entry_create (ap_now ap) (take 12 (ap_uid ap)) (rq_kind rq) project (rq_environment rq) (principal_id p)
       (redact_json [] (JObj (rq_params rq))) (capability_token ap project p rq)"

definition enqueued_op :: "api_env \<Rightarrow> string \<Rightarrow> Principal \<Rightarrow> OperationRequest \<Rightarrow> OperationKind \<Rightarrow> Operation" where
  "enqueued_op ap project p rq kind =
     operation_create (ap_uid ap) (ap_now ap) kind project (rq_environment rq) (principal_id p)
       (redact_json [] (JObj (rq_params rq)))"

lemma redacted_object: "\<exists>d. redact_json s (JObj kvs) = JObj d"
  by simp

lemma enqueue_accepted:
  assumes "enqueue_operation ap claim p reg project rq = Inr (reg', resp)"
  obtains pr kind where "dict_get reg project = Some (Inr pr)" "enforce_project_scope claim project = Inr ()"
    "validate_request (pr_config pr) p rq = Inr kind"
    "reg' = dict_put project (Inr (pr\<lparr>pr_state := (pr_state pr)
        \<lparr>rw_world := (rw_world (pr_state pr))\<lparr>w_ops := store_save (ap_mtime ap) (enqueued_op ap project p rq kind)
             (w_ops (rw_world (pr_state pr)))\<rparr>,
         rw_queue := enqueue (ap_mtime ap) (enqueued_entry ap project p rq) (rw_queue (pr_state pr))\<rparr>\<rparr>)) reg"
proof -
  have c: "(case redact_json [] (JObj (rq_params rq)) of JObj d \<Rightarrow> JObj d | _ \<Rightarrow> JObj []) = redact_json [] (JObj (rq_params rq))"
    by simp
  from assms show thesis
    unfolding enqueue_operation_def mint_capability c
    by (auto simp: bindE_eq_Inr_iff load_ctx_def Let_def enqueued_op_def enqueued_entry_def
        operation_create_def split: option.splits sum.splits intro!: that)
qed

lemma validate_request_allowed:
  assumes "validate_request cfg p rq = Inr kind"
  obtains action protected where "dict_get KIND_ACTION (rq_kind rq) = Some action"
    "kind_protected (ac_envs cfg) (rq_kind rq) (rq_environment rq) = Some protected"
    "is_allowed p action protected" "OperationKind_of (rq_kind rq) = Some kind"
  using assms unfolding validate_request_def kind_tables_agree
  by (auto simp: bindE_eq_Inr_iff simp flip: require_iff_allowed split: option.splits sum.splits)

text \<open>The token of an accepted request verifies for its own entry until it expires.\<close>

lemma capability_verifies:
  assumes "rn_hmac rn = ap_hmac ap" "rn_api_key rn = ap_key ap" and "now < ap_seconds ap + DEFAULT_TTL_SECONDS"
  shows "verify_entry rn (enqueued_entry ap project p rq) now = Inr (sorted_payload (capability_payload ap project p rq))"
  unfolding verify_entry_def enqueued_entry_def capability_token_def entry_create_def
  using assms by (simp add: verify_encoded[OF capability_json] check_claims_Inr_iff capability_fields)

lemma enqueued_admitted:
  assumes acc: "enqueue_operation ap claim p reg project rq = Inr (reg', resp)"
    and reg: "dict_get reg project = Some (Inr pr)"
    and same: "rn_hmac rn = ap_hmac ap" "rn_api_key rn = ap_key ap" "rn_envs rn = ac_envs (pr_config pr)"
    and time: "rn_seconds rn (w_tick (rw_world w)) < ap_seconds ap + DEFAULT_TTL_SECONDS"
      "timestamp_ok (ap_seconds ap + DEFAULT_TTL_SECONDS)"
    and op: "store_load (w_ops (rw_world w)) (take 12 (ap_uid ap)) = Inr op" "op_status op = QUEUED"
    and nonce: "iso_ok (rn_iso rn)" "nonces_ok (rn_iso rn) (rw_nonces w)"
      "\<not> nonce_blocked (rn_iso rn) (rw_nonces w) (ap_nonce ap) (rn_micros rn (w_tick (rw_world w)))"
  shows "admitted rn (enqueued_entry ap project p rq) w"
proof -
  let ?e = "enqueued_entry ap project p rq" and ?d = "sorted_payload (capability_payload ap project p rq)"
  obtain pr' kind where "dict_get reg project = Some (Inr pr')" "validate_request (pr_config pr') p rq = Inr kind"
    using enqueue_accepted[OF acc] by metis
  with reg have "validate_request (pr_config pr) p rq = Inr kind" by simp
  then obtain action protected where a: "dict_get KIND_ACTION (rq_kind rq) = Some action"
    "kind_protected (ac_envs (pr_config pr)) (rq_kind rq) (rq_environment rq) = Some protected"
    "is_allowed p action protected" by (rule validate_request_allowed)
  have "is_allowed (runner_principal ?d) action protected"
    using is_allowed_roles[OF capability_principal(1)] a(3) by metis
  then have rb: "runner_rbac (rn_envs rn) ?e ?d = Inr ()"
    using a same by (simp add: runner_rbac_def enqueued_entry_def entry_create_def flip: require_iff_allowed)
  have v: "verify_entry rn ?e (rn_seconds rn (w_tick (rw_world w))) = Inr ?d"
    by (rule capability_verifies[OF same(1,2) time(1)])
  have st: "\<not> entry_cancelled ?e w" "\<not> entry_unreadable ?e w"
    using op by (simp_all add: entry_cancelled_def entry_unreadable_def enqueued_entry_def entry_create_def)
  have "nonce_claim rn ?d w = Some (consume (rn_iso rn) (rn_micros rn (w_tick (rw_world w))) (ap_nonce ap)
      (Some (seconds (ap_seconds ap + DEFAULT_TTL_SECONDS))) (rw_nonces w))"
    by (simp add: nonce_claim_def opt_field_def capability_fields consume_value_def)
  moreover have "snd (consume (rn_iso rn) (rn_micros rn (w_tick (rw_world w))) (ap_nonce ap)
      (Some (seconds (ap_seconds ap + DEFAULT_TTL_SECONDS))) (rw_nonces w))"
    using nonce_file.claim_iff[of "rn_iso rn" "rw_nonces w"] nonce by simp
  ultimately show ?thesis
    using v rb st time(2) by (auto simp: admission_def capability_fields split: prod.split)
qed

section \<open>Streaming\<close>

text \<open>Successive reads of the events of an operation: each extends the one before.\<close>

definition growing :: "(Event list \<times> OperationStatus) list \<Rightarrow> bool" where
  "growing ps \<longleftrightarrow> sorted_wrt prefix (map fst ps)"

lemma drop_prefix_append: "prefix xs ys \<Longrightarrow> n \<le> length xs \<Longrightarrow> drop n xs @ drop (length xs) ys = drop n ys"
  by (auto simp: prefix_def)

lemma stream_polls_sent:
  "ps \<noteq> [] \<Longrightarrow> growing ps \<Longrightarrow> seen \<le> length (fst (hd ps)) \<Longrightarrow> stream_polls seen polls m ps = (out, n) \<Longrightarrow>
   0 < n \<and> n \<le> length ps \<and> out = drop seen (fst (ps ! (n - 1))) \<and>
   (\<forall>k < n - 1. \<not> terminal (snd (ps ! k)))"
proof (induction seen polls m ps arbitrary: out n rule: stream_polls.induct)
  case (2 seen polls m evs st ps)
  show ?case
  proof (cases "terminal st \<or> m \<le> polls + 1")
    case True
    with 2(5) show ?thesis by (auto simp: Let_def split: if_splits)
  next
    case False
    let ?seen = "seen + length (drop seen evs)"
    obtain rest k where r: "stream_polls ?seen (polls + 1) m ps = (rest, k)" by (cases "stream_polls ?seen (polls + 1) m ps")
    have on: "out = drop seen evs @ rest" "n = Suc k" using 2(5) False r by (simp_all add: Let_def)
    have le: "?seen = length evs" using 2(4) by simp
    show ?thesis
    proof (cases ps)
      case Nil
      with r on False show ?thesis by simp
    next
      case (Cons q qs)
      have g: "growing ps" "prefix evs (fst q)" using 2(3) Cons by (simp_all add: growing_def)
      from False have "\<not> terminal st" "\<not> m \<le> polls + 1" by auto
      note IH = 2(1)[OF refl this _ g(1) _ r]
      have "?seen \<le> length (fst (hd ps))" using g(2) Cons le by (simp add: prefix_length_le)
      from IH[OF _ this] Cons have ih: "0 < k" "k \<le> length ps" "rest = drop ?seen (fst (ps ! (k - 1)))"
        "\<forall>i < k - 1. \<not> terminal (snd (ps ! i))" by simp_all
      have "prefix evs (fst (ps ! (k - 1)))"
        using 2(3) ih(1,2) by (simp add: growing_def)
      then have "out = drop seen (fst (ps ! (k - 1)))"
        unfolding on ih(3) le using 2(4) by (intro drop_prefix_append) simp_all
      moreover have "\<forall>i < n - 1. \<not> terminal (snd (((evs, st) # ps) ! i))"
        using ih(1,4) False on by (auto simp: nth_Cons' )
      ultimately show ?thesis using ih(1,2) on by (simp add: nth_Cons')
    qed
  qed
qed simp

lemma stream_polls_bound:
  "stream_polls seen polls m ps = (out, n) \<Longrightarrow> int n \<le> max 1 (m - polls)"
  by (induction seen polls m ps arbitrary: out n rule: stream_polls.induct)
    (fastforce simp: Let_def split: if_splits prod.splits)+

section \<open>Scope and cancellation\<close>

lemma find_op_ctx_found:
  "find_op_ctx reg i = Inr (op, name) \<Longrightarrow>
   \<exists>p. (name, Inr p) \<in> set reg \<and> store_load (w_ops (rw_world (pr_state p))) i = Inr op"
  by (induction reg i rule: find_op_ctx.induct) (auto split: sum.splits py_error.splits)

lemma token_scope:
  "require_op_in_token_scope (Some c) op = Inr () \<Longrightarrow> c \<noteq> [] \<Longrightarrow> c \<noteq> ''*'' \<Longrightarrow> op_project op = c"
  by (auto simp: require_op_in_token_scope_def Let_def)

lemma with_project_get:
  "dict_get (with_project name f reg) n =
     (case dict_get reg n of Some (Inr p) \<Rightarrow> Some (Inr (if n = name then p\<lparr>pr_state := f (pr_state p)\<rparr> else p)) | x \<Rightarrow> x)"
  by (auto simp: with_project_def split: option.splits sum.splits)

text \<open>
  A cancelled operation found under its own project: its record says so, it no longer waits
  in the queue, and a runner that claimed its entry before does not admit it.
\<close>

lemma cancel_effect:
  assumes wf: "dict_wf reg" and c: "cancel_operation mt now claim reg i = Inr (reg', resp)"
    and own: "find_op_ctx reg i = Inr (op, op_project op)" and id: "op_ident op = i" "operation_wf op"
  obtains p' where "dict_get reg' (op_project op) = Some (Inr p')"
    "store_load (w_ops (rw_world (pr_state p'))) i = Inr (set_status now CANCELLED None None op)"
    "\<not> dict_has (q_pending (rw_queue (pr_state p'))) i"
    "\<And>n. n \<noteq> op_project op \<Longrightarrow> dict_get reg' n = dict_get reg n"
proof -
  obtain p where p: "(op_project op, Inr p) \<in> set reg" "store_load (w_ops (rw_world (pr_state p))) i = Inr op"
    using find_op_ctx_found[OF own] by blast
  then have g: "dict_get reg (op_project op) = Some (Inr p)" using wf by (simp add: dict_get_iff_mem)
  let ?op = "set_status now CANCELLED None None op"
  have up: "store_update_status mt now i CANCELLED None None (w_ops (rw_world (pr_state p)))
      = Inr (store_save mt ?op (w_ops (rw_world (pr_state p))), ?op)"
    by (simp add: store_update_status_def p(2) Let_def)
  have ld: "store_load (store_save mt ?op (w_ops (rw_world (pr_state p)))) i = Inr ?op"
    using load_save_same[of ?op] id by simp
  let ?reg1 = "with_project (op_project op) (\<lambda>s. s\<lparr>rw_queue := queue_cancel i (rw_queue s)\<rparr>) reg"
  let ?s = "store_save mt ?op (w_ops (rw_world (pr_state p)))"
  have reg': "reg' = with_project (op_project op) (\<lambda>st. st\<lparr>rw_world := (rw_world st)\<lparr>w_ops := ?s\<rparr>\<rparr>) ?reg1"
    using c by (auto simp: cancel_operation_def own bindE_eq_Inr_iff Let_def with_project_get g up)
  show thesis
    by (rule that[of "p\<lparr>pr_state := (pr_state p)\<lparr>rw_queue := queue_cancel i (rw_queue (pr_state p)),
          rw_world := (rw_world (pr_state p))\<lparr>w_ops := ?s\<rparr>\<rparr>\<rparr>"])
      (simp_all add: reg' with_project_get g ld queue_cancel_def split: option.splits sum.splits)
qed

lemma cancelled_not_admitted:
  "store_load (w_ops (rw_world w)) (qe_op_id e) = Inr op \<Longrightarrow> op_status op = CANCELLED \<Longrightarrow> \<not> admitted rn e w"
  by (simp add: admission_def entry_cancelled_def)

section \<open>Destinations\<close>

lemma validate_download:
  assumes "validate_filestore_params env params = Inr ()" "dict_get params ''action'' = Some (JStr ''download'')"
  obtains d where "dict_get params ''destination'' = Some (JStr d)" "\<not> unsafe_destination d"
  using assms
  by (auto simp: validate_filestore_params_def Let_def bindE_eq_Inr_iff FILESTORE_ACTIONS_def
      split: option.splits json.splits if_splits)

end
