(* ===== verification/Operation_Properties.thy ===== *)
theory Operation_Properties
  imports Api_Ops
begin

text \<open>
  What the operation machinery promises: durable records and events, the environment lock,
  the queue between the API and the runner, admission of an entry, and the routes of the
  API.  The theorems that span the API and the runner are in the root theory.
\<close>

section \<open>Records and events\<close>

text \<open>C38. The store reads back exactly what was saved under an id, and saving one operation leaves the
  record of every other operation alone.\<close>

theorem operation_store_roundtrip:
  assumes "operation_wf op"
  shows "store_load (store_save mt op s) i = (if i = op_ident op then Inr op else store_load s i)"
  using load_save_same[OF assms] load_save_other by simp

definition demo_op :: Operation where
  "demo_op = operation_create ''0123456789abcdef'' ''t'' K_BACKUP ''shop'' ''staging'' ''ops'' (JObj [(''note'', JStr ''x'')])"

theorem operation_store_roundtrip_witness:
  "store_load (store_save 1 demo_op []) ''0123456789ab'' = Inr demo_op"
  using operation_store_roundtrip[of demo_op 1 "[]" "''0123456789ab''"]
  by (simp add: demo_op_def operation_wf_def operation_create_def)

text \<open>Events are append-only: after any sequence of appends, also to other operations in between, the
  events of an operation are those it had, followed by the new ones in the order they were emitted.\<close>

lemma events_append_order:
  assumes "events_closed s" "\<forall>(mt, i, e) \<in> set ws. event_wf e"
  shows "store_load_events (fold (\<lambda>(mt, i, e). store_append_event mt i e) ws s) j =
    store_load_events s j @ map (\<lambda>(mt, i, e). e) (filter (\<lambda>(mt, i, e). i = j) ws)"
  using assms
proof (induction ws arbitrary: s)
  case (Cons x ws)
  obtain mt i e where x: "x = (mt, i, e)" by (cases x)
  have "events_closed (store_append_event mt i e s)" "event_wf e" using Cons.prems x by auto
  with Cons.IH[of "store_append_event mt i e s"] Cons.prems load_events_append[of s e mt i j] x
  show ?case by auto
qed simp

definition demo_event :: "int \<Rightarrow> Event" where
  "demo_event n = \<lparr>ev_op_id = ''a'', ev_seq = n, ev_timestamp = ''t'', ev_level = ''info'', ev_phase = ''run'',
     ev_message = ''line'', ev_data = JObj []\<rparr>"

lemma events_append_order_witness:
  "store_load_events (fold (\<lambda>(mt, i, e). store_append_event mt i e)
     [(1, ''a'', demo_event 0), (2, ''b'', demo_event 7), (3, ''a'', demo_event 1)] []) ''a'' = [demo_event 0, demo_event 1]"
  by (subst events_append_order) (simp_all add: event_wf_def demo_event_def store_load_events_def)

section \<open>Running an operation\<close>

text \<open>C11. An operation that gets the lock ends as a record: whatever its body emits and however it
  returns or raises, the status is terminal, the events are numbered without gaps from the start
  event to the end event, one audit entry tells the outcome, the redacted error is stored, and
  the lock is as it was before.\<close>

theorem run_operation_recorded:
  assumes "world_inv rt w" "store_load_events (w_ops w) (take 12 uid) = []"
    and "environment \<in> th_held (w_thread w) \<or> dict_get (w_locks w) environment = None"
    and "wf_json params" "\<forall>em \<in> set (bl_emits blk). wf_json (em_data em)"
  shows "\<exists>w'. run_operation rt uid kind project environment actor params blk w
       = (w', if bl_end blk = BlockOk then Completed else RaisedBody (bl_end blk)) \<and>
     run_recorded rt (take 12 uid) blk w w'"
  by (rule run_operation_acquired[OF assms])

definition demo_runtime :: runtime where
  "demo_runtime = \<lparr>rt_hashes = \<lparr>sha = (\<lambda>m. ''s''), mac = (\<lambda>k m. ''m'')\<rparr>, rt_audit_key = None,
     rt_kill = (\<lambda>_. KillOk), rt_environ = [(''DB_PASSWORD'', ''hunter22'')], rt_clock = (\<lambda>n. ''t''), rt_mtime = int\<rparr>"

definition demo_world :: op_world where
  "demo_world = \<lparr>w_ops = [], w_audit = audit_init, w_locks = [], w_thread = \<lparr>th_pid = 7, th_held = {}\<rparr>, w_tick = 0\<rparr>"

lemma demo_world_inv: "world_inv demo_runtime demo_world"
  by (simp add: world_inv_def demo_world_def audit_inv_init)

theorem run_operation_recorded_witness:
  "\<exists>w'. run_operation demo_runtime ''0123456789abcdef'' K_BACKUP ''shop'' ''staging'' ''ops'' (JObj [])
       \<lparr>bl_emits = [plain_emission ''dumping'' ''run'' ''info''], bl_end = BlockRaises ''login hunter22''\<rparr> demo_world
     = (w', RaisedBody (BlockRaises ''login hunter22'')) \<and>
     run_recorded demo_runtime ''0123456789ab''
       \<lparr>bl_emits = [plain_emission ''dumping'' ''run'' ''info''], bl_end = BlockRaises ''login hunter22''\<rparr> demo_world w'"
  using run_operation_recorded[OF demo_world_inv, of "''0123456789abcdef''" "''staging''" "JObj []"
      "\<lparr>bl_emits = [plain_emission ''dumping'' ''run'' ''info''], bl_end = BlockRaises ''login hunter22''\<rparr>"
      K_BACKUP "''shop''" "''ops''"]
  by (simp add: demo_world_def plain_emission_def store_load_events_def)

section \<open>The environment lock\<close>

text \<open>C28. Mutual exclusion: in every interleaving of the system calls of any number of processes in which
  none dies, at most one process holds the lock of an environment, and then the file names it.\<close>

theorem lock_mutual_exclusion:
  assumes "no_crash es" "lock_run es lock_init = Some s"
  shows "lock_excl s \<and> (\<forall>p. lpc s p = LHeld \<longrightarrow> lfile s = OwnedBy p)"
  using lock_owner_run[OF lock_owner_init assms] lock_owner_excl by (auto simp: lock_owner_def)

theorem lock_mutual_exclusion_witness:
  "\<exists>s. lock_run [Step 1, Step 1, Step 2, Step 1, Step 2, Step 2] lock_init = Some s \<and> lock_excl s \<and>
     lpc s 1 = LHeld \<and> lfile s = OwnedBy 1"
proof -
  have "\<exists>s. lock_run [Step 1, Step 1, Step 2, Step 1, Step 2, Step 2] lock_init = Some s \<and> lpc s 1 = LHeld"
    by (simp add: lock_init_def goto_def)
  then obtain s where s: "lock_run [Step 1, Step 1, Step 2, Step 1, Step 2, Step 2] lock_init = Some s" "lpc s 1 = LHeld" by blast
  have "no_crash [Step 1, Step 1, Step 2, Step 1, Step 2, Step 2]" by (simp add: no_crash_def)
  from lock_mutual_exclusion[OF this s(1)] s show ?thesis by blast
qed

text \<open>C36. After a crash the exclusion is lost: two processes that both see the dead owner can each remove the
  lock file, the second one removing the fresh lock of the first, and both hold the lock.\<close>

theorem stale_lock_race:
  "\<exists>es s. lock_run es lock_init = Some s \<and> lpc s 1 = LHeld \<and> lpc s 2 = LHeld \<and>
     length (filter (\<lambda>e. \<exists>p. e = Crash p) es) = 1"
proof -
  let ?es = "[Step 0, Step 0, Step 0, Crash 0,
      Step 1, Step 1, Step 1, Step 1, Step 2, Step 2, Step 2, Step 2,
      Step 1, Step 1, Step 1, Step 2, Step 2, Step 2]"
  have "\<exists>s. lock_run ?es lock_init = Some s \<and> lpc s 1 = LHeld \<and> lpc s 2 = LHeld"
    by (simp add: lock_init_def goto_def)
  moreover have "length (filter (\<lambda>e. \<exists>p. e = Crash p) ?es) = 1" by simp
  ultimately show ?thesis by blast
qed

section \<open>The queue\<close>

text \<open>C37. The queue is first-in first-out and loses nothing: for any mix of enqueues (fresh ids, later file
  times) and claims, what was claimed followed by what still waits is what waited at the start
  followed by what was enqueued, in that order.\<close>

theorem queue_fifo:
  assumes "pending_ok q" "api_queue.all_fit acts q" "api_queue.queue_run acts q = (out, t)"
  shows "out @ queued_entries t = queued_entries q @ map snd (concat (map (case_option [] (\<lambda>j. [j])) acts))"
  using api_queue.fifo[OF assms] by simp

definition demo_entry_of :: "string \<Rightarrow> QueueEntry" where
  "demo_entry_of i = entry_create ''t'' i ''backup'' ''shop'' ''staging'' ''ops'' (JObj []) ''token''"

lemma queue_init_ok: "pending_ok queue_init" "queued_entries queue_init = []"
  by (simp_all add: queue_init_def pending_ok_def queued_entries_def)

lemma demo_entry_of_simps: "entry_wf (demo_entry_of i)" "qe_op_id (demo_entry_of i) = i"
  by (simp_all add: demo_entry_of_def entry_wf_def entry_create_def)

theorem queue_fifo_witness:
  "\<exists>out t. api_queue.queue_run [Some (1, demo_entry_of ''a''), Some (2, demo_entry_of ''b''), None] queue_init = (out, t) \<and>
     out @ queued_entries t = [demo_entry_of ''a'', demo_entry_of ''b'']"
proof -
  let ?acts = "[Some (1, demo_entry_of ''a''), Some (2, demo_entry_of ''b''), None]"
  obtain out t where r: "api_queue.queue_run ?acts queue_init = (out, t)" by force
  have "api_queue.all_fit ?acts queue_init"
    by (simp add: queue_fits_def demo_entry_of_simps enqueue_def) (simp add: queue_init_def dict_put_def)
  from queue_fifo[OF queue_init_ok(1) this r] r show ?thesis by (simp add: queue_init_ok)
qed

text \<open>C31. No entry is executed twice: however the file operations of the API and of any number of runners
  interleave, an id is claimed at most as often as it was enqueued, counting an entry that waited at
  the start.\<close>

theorem claims_at_most_enqueues:
  assumes "pending_ok q" "acts_wf as" "queue_acts as q = (t, es)"
  shows "claims_of i es + waiting i t \<le> enqueues_of i as + waiting i q"
  by (rule claims_bounded[OF assms])

theorem claims_at_most_enqueues_witness:
  "\<exists>t es. queue_acts [ActEnqueue 1 (demo_entry_of ''a''), ActTry ''a'', ActTry ''a''] queue_init = (t, es) \<and>
     claims_of ''a'' es + waiting ''a'' t \<le> 1"
proof -
  let ?as = "[ActEnqueue 1 (demo_entry_of ''a''), ActTry ''a'', ActTry ''a'']"
  obtain t es where r: "queue_acts ?as queue_init = (t, es)" by force
  have "acts_wf ?as" by (simp add: acts_wf_def demo_entry_of_simps)
  from claims_at_most_enqueues[OF queue_init_ok(1) this r, of "''a''"] r
  show ?thesis by (simp add: enqueues_of_def waiting_def queue_init_def demo_entry_of_simps)
qed

section \<open>Routes of the API\<close>


definition demo_config :: ApiConfig where
  "demo_config = \<lparr>ac_envs = [(''staging'', \<lparr>env_protected = None, env_tier = ''staging'', env_db_name = ''db''\<rparr>)],
     ac_backend = [], ac_snapshot_provider = ''none'', ac_snapshot_environment = [], ac_pitr_enabled = False,
     ac_pitr_environment = []\<rparr>"

definition demo_state_dir :: "op_store \<Rightarrow> runner_world" where
  "demo_state_dir ops = \<lparr>rw_world = demo_world\<lparr>w_ops := ops\<rparr>, rw_queue = queue_init, rw_nonces = None\<rparr>"

definition demo_registry :: "op_store \<Rightarrow> registry" where
  "demo_registry ops = [(''shop'', Inr \<lparr>pr_config = demo_config, pr_state = demo_state_dir ops\<rparr>)]"

lemma demo_op_simps: "op_ident demo_op = ''0123456789ab''" "op_project demo_op = ''shop''" "op_status demo_op = QUEUED"
  "operation_wf demo_op"
  by (simp_all add: demo_op_def operation_create_def operation_wf_def)

lemma demo_op_load: "store_load (store_save 1 demo_op []) ''0123456789ab'' = Inr demo_op"
  using load_save_same[OF demo_op_simps(4), of 1 "[]"] by (simp add: demo_op_simps)


text \<open>The event stream sends every event it has seen exactly once and in order: with reads that only grow,
  what was sent is what the last poll read; polling stops at the first terminal status and never
  exceeds the ceiling of 600 polls, whatever the client asks for.\<close>

lemma event_stream_exact:
  assumes "ps \<noteq> []" "growing ps" "stream_events m ps = (out, n)"
  shows "0 < n \<and> n \<le> length ps \<and> int n \<le> MAX_POLLS_CEILING \<and> out = fst (ps ! (n - 1)) \<and>
    (\<forall>k < n - 1. \<not> terminal (snd (ps ! k)))"
  using stream_polls_sent[OF assms(1,2) _ assms(3)[unfolded stream_events_def]]
    stream_polls_bound[OF assms(3)[unfolded stream_events_def]]
  by (auto simp: clamp_max_polls_def MAX_POLLS_CEILING_def)

lemma event_stream_exact_witness:
  "stream_events 5000 [([demo_event 0], RUNNING), ([demo_event 0, demo_event 1], SUCCEEDED)] = ([demo_event 0, demo_event 1], 2)"
proof -
  let ?ps = "[([demo_event 0], RUNNING), ([demo_event 0, demo_event 1], SUCCEEDED)]"
  obtain out n where r: "stream_events 5000 ?ps = (out, n)" by force
  have g: "growing ?ps" by (simp add: growing_def)
  have "n = 2" using r by (simp add: stream_events_def Let_def terminal_def clamp_max_polls_def MAX_POLLS_CEILING_def)
  with event_stream_exact[OF _ g r] r show ?thesis by simp
qed

text \<open>A poll reads the events before the status: the end event written between the two reads is not sent.\<close>

lemma stream_misses_end_event:
  "fst (stream_events 10 [([demo_event 0], SUCCEEDED), ([demo_event 0, demo_event 1], SUCCEEDED)]) = [demo_event 0]"
  by (simp add: stream_events_def terminal_def)

section \<open>Entries that cannot be recorded\<close>

definition demo_iso :: iso_api where
  "demo_iso = \<lparr>iso_format = int_str, iso_parse = (\<lambda>s. case parse_int s of Some (i, []) \<Rightarrow> Some (True, i) | _ \<Rightarrow> None)\<rparr>"

lemma demo_iso_ok: "iso_ok demo_iso"
  using parse_int_str[of "[]"] by (simp add: iso_ok_def demo_iso_def number_end_def)

definition demo_dispatch_config :: dispatch_config where
  "demo_dispatch_config = \<lparr>dc_envs = ac_envs demo_config, dc_odoo_service = ''odoo'', dc_postgres_service = ''db'',
     dc_compose_file = Some ''compose.yml'', dc_odoo_version = ''17.0'', dc_matrix = [], dc_root = [''srv'', ''shop''],
     dc_resolve = (\<lambda>p. p), dc_environ = []\<rparr>"

text \<open>Services of which the backup works and the others answer with an exception.\<close>

abbreviation offline :: "'a served" where
  "offline \<equiv> Inl (BlockRaises ''offline'')"

definition demo_services :: services where
  "demo_services = \<lparr>sv_backup = (\<lambda>env. Inr \<lparr>br_backup_id = env @ ''-1'', br_remote_uri = None,
       br_remote_status = ''disabled'', br_remote_error = None\<rparr>),
     sv_clone = (\<lambda>_ _. offline), sv_dr_drill = (\<lambda>_. offline), sv_snapshot_create = (\<lambda>_. offline),
     sv_snapshot_reconcile = (\<lambda>_ _. offline), sv_snapshot_restore = (\<lambda>_ _ _ _ _. offline),
     sv_pitr_base = (\<lambda>_. offline), sv_pitr_reconcile = (\<lambda>_. offline), sv_pitr_restore = (\<lambda>_ _. offline),
     sv_pitr_cutover = (\<lambda>_ _ _ _ _. offline), sv_plan_migration = (\<lambda>_. offline),
     sv_sync_migration = (\<lambda>_ _. offline), sv_verify_migration = (\<lambda>_ _. offline),
     sv_cutover_migration = (\<lambda>_ _ _ _. offline), sv_download_migration = (\<lambda>_ _ _. offline),
     sv_delete_source = (\<lambda>_ _ _ _ _. offline), sv_delete_marker = (\<lambda>_ _ _. offline), sv_db_adapter = offline,
     sv_rehearsal = (\<lambda>_ _ _ _ _ _ _. offline), sv_logs = (\<lambda>_ _. offline), sv_restart = (\<lambda>_. offline),
     sv_ps = offline\<rparr>"

definition demo_runner :: runner where
  "demo_runner = \<lparr>rn_rt = demo_runtime, rn_hmac = (\<lambda>k m. []), rn_api_key = ''key'', rn_config = demo_dispatch_config,
     rn_services = demo_services, rn_iso = demo_iso, rn_seconds = (\<lambda>n. 1000), rn_micros = (\<lambda>n. 1000000000)\<rparr>"

lemma demo_runner_envs: "rn_envs demo_runner = ac_envs demo_config"
  by (simp add: demo_runner_def demo_dispatch_config_def)

lemma demo_runner_backup: "qe_kind e = ''backup'' \<Longrightarrow> bl_end (rn_dispatch demo_runner e) = BlockOk"
  by (simp add: rn_dispatch_def dispatch_block_def dispatch_def OperationKind_of_def kind_table_def dispatch_backup_def
      demo_runner_def demo_services_def act_bind_def act_call_def act_say_def act_return_def)

text \<open>An entry whose operation has no record is never finished: the execution ends in an exception, the
  queue is unchanged, so the claimed file stays in the running state.\<close>

lemma unknown_operation_escapes:
  assumes "dict_get (w_ops (rw_world w)) (qe_op_id e) = None"
  shows "\<exists>err. snd (execute_entry rn e w) = Inl err \<and> rw_queue (fst (execute_entry rn e w)) = rw_queue w"
  by (rule execute_unknown[OF assms])

lemma unknown_operation_escapes_witness:
  "\<exists>err. snd (execute_entry demo_runner (demo_entry_of ''a'') (demo_state_dir [])) = Inl err \<and>
     rw_queue (fst (execute_entry demo_runner (demo_entry_of ''a'') (demo_state_dir []))) = queue_init"
  using unknown_operation_escapes[of "demo_state_dir []" "demo_entry_of ''a''" demo_runner]
  by (simp add: demo_state_dir_def demo_world_def)

end
