(* ===== verification/Api_Auth_Proofs.thy ===== *)
theory Api_Auth_Proofs
  imports Api_Auth
begin

text \<open>
  What the account routes guarantee: nobody reaches above their own rank, a cookie only ever
  stands for an enabled account with its current roles, and failed logins are rationed.
\<close>

section \<open>Handlers step by step\<close>

lemma h_bind_Inr_iff: "h_bind m f w = (Inr y, w') \<longleftrightarrow> (\<exists>x w1. m w = (Inr x, w1) \<and> f x w1 = (Inr y, w'))"
  by (auto simp: h_bind_def split: prod.splits sum.splits)

lemma users_get_Inr_iff: "users_get err g w = (Inr x, w') \<longleftrightarrow> g (au_users w) = Inr x \<and> w' = w"
  by (auto simp: users_get_def split: sum.splits)

lemma users_put_Inr_iff:
  "users_put err g w = (Inr x, w') \<longleftrightarrow> (\<exists>f. g (au_users w) = Inr (f, x) \<and> w' = w\<lparr>au_users := f\<rparr>)"
  by (auto simp: users_put_def split: sum.splits)

lemma sessions_get_Inr_iff: "sessions_get g w = (Inr x, w') \<longleftrightarrow> g (au_sessions w) = Inr x \<and> w' = w"
  by (auto simp: sessions_get_def split: sum.splits)

lemma sessions_put_Inr_iff:
  "sessions_put g w = (Inr x, w') \<longleftrightarrow> (\<exists>f. g (au_sessions w) = Inr (f, x) \<and> w' = w\<lparr>au_sessions := f\<rparr>)"
  by (auto simp: sessions_put_def split: sum.splits)

lemma h_lift_Inr_iff: "h_lift r w = (Inr x, w') \<longleftrightarrow> r = Inr x \<and> w' = w"
  by (auto simp: h_lift_def)

lemmas handler_iffs = h_bind_Inr_iff users_get_Inr_iff users_put_Inr_iff sessions_get_Inr_iff
  sessions_put_Inr_iff h_lift_Inr_iff

text \<open>Whatever the outcome, the state a handler leaves satisfies \<open>Q\<close>.\<close>

definition leaves :: "'a handler \<Rightarrow> auth_state \<Rightarrow> ('a \<Rightarrow> auth_state \<Rightarrow> bool) \<Rightarrow> (auth_state \<Rightarrow> bool) \<Rightarrow> bool" where
  "leaves m w Q E \<longleftrightarrow> (case m w of (Inr x, w') \<Rightarrow> Q x w' | (Inl _, w') \<Rightarrow> E w')"

lemma leaves_bind:
  assumes "leaves m w Q E" "\<And>x w1. Q x w1 \<Longrightarrow> leaves (f x) w1 R E"
  shows "leaves (h_bind m f) w R E"
proof (cases "m w")
  case (Pair r w1)
  show ?thesis
  proof (cases r)
    case (Inr x)
    with Pair assms(1) have "leaves (f x) w1 R E" by (intro assms(2)) (simp add: leaves_def)
    with Pair Inr show ?thesis by (simp add: leaves_def h_bind_def)
  qed (use Pair assms(1) in \<open>simp add: leaves_def h_bind_def\<close>)
qed

lemma leaves_lift: "leaves (h_lift r) w Q E \<longleftrightarrow> (case r of Inr x \<Rightarrow> Q x w | Inl _ \<Rightarrow> E w)"
  by (auto simp: leaves_def h_lift_def split: sum.split)

lemma leaves_pure [intro]:
  "E w \<Longrightarrow> (\<And>x. g (au_users w) = Inr x \<Longrightarrow> Q x w) \<Longrightarrow> leaves (users_get err g) w Q E"
  by (auto simp: leaves_def users_get_def split: sum.split)

section \<open>Who is asking\<close>

lemma get_principal_state [simp]: "snd (get_principal lib rq w) = w"
proof -
  have "snd (principal_from_session lib sid now w) = w" for sid now
    by (auto simp: principal_from_session_def h_bind_def h_lift_def sessions_get_def users_get_def
        split: sum.splits option.splits prod.splits)
  then show ?thesis by (simp add: get_principal_def h_lift_def split: option.split)
qed

lemma require_action_state [simp]: "snd (require_action lib rq a w) = w"
proof -
  obtain r where "get_principal lib rq w = (r, w)" using get_principal_state[of lib rq w] by (metis prod.collapse)
  then show ?thesis by (auto simp: require_action_def h_bind_def h_lift_def split: sum.splits)
qed

lemma require_action_Inr:
  "require_action lib rq a w = (Inr i, w') \<longleftrightarrow>
     get_principal lib rq w = (Inr i, w) \<and> w' = w \<and> is_allowed (ai_principal i) a False"
proof -
  obtain r where r: "get_principal lib rq w = (r, w)" using get_principal_state[of lib rq w] by (metis prod.collapse)
  show ?thesis
    by (cases r) (auto simp: require_action_def h_bind_def h_lift_def r require_iff_allowed[symmetric] split: sum.splits)
qed

text \<open>A request with a cookie and no bearer token.\<close>

definition cookie_request :: "request \<Rightarrow> bool" where
  "cookie_request rq \<longleftrightarrow> present (hr_authorization rq) = None"

lemma user_get_Inr:
  "user_get uid f = Inr u \<Longrightarrow> \<exists>us. users_load f = Inr us \<and> u \<in> set us \<and> ur_id u = uid"
  unfolding user_get_def find_user_def bindE_eq_Inr_iff by (auto dest: find_SomeD split: option.split_asm)

lemma cookie_principal:
  assumes "get_principal lib rq w = (Inr i, w')" "cookie_request rq"
  shows "\<exists>sid r us u. present (hr_cookie rq) = Some sid \<and>
    session_get (al_sha lib) sid (whole_seconds (hr_time rq 0)) (au_sessions w) = Inr (Some r) \<and>
    users_load (au_users w) = Inr us \<and> u \<in> set us \<and> ur_id u = sr_user_id r \<and> \<not> ur_disabled u \<and>
    user_get (sr_user_id r) (au_users w) = Inr u \<and>
    i = \<lparr>ai_principal = to_principal u, ai_project = ''*'', ai_session_sid = Some sid, ai_session_user = Some (ur_id u)\<rparr>"
proof -
  obtain sid where sid: "present (hr_cookie rq) = Some sid"
    and p: "principal_from_session lib sid (whole_seconds (hr_time rq 0)) w = (Inr i, w')"
    using assms by (auto simp: get_principal_def cookie_request_def h_lift_def split: if_splits option.splits)
  obtain r where r: "session_get (al_sha lib) sid (whole_seconds (hr_time rq 0)) (au_sessions w) = Inr (Some r)"
    using p by (auto simp: principal_from_session_def handler_iffs split: option.splits)
  obtain u where u: "user_get (sr_user_id r) (au_users w) = Inr u" "\<not> ur_disabled u"
    "i = \<lparr>ai_principal = to_principal u, ai_project = ''*'', ai_session_sid = Some sid, ai_session_user = Some (ur_id u)\<rparr>"
    using p r by (auto simp: principal_from_session_def handler_iffs split: if_splits)
  show ?thesis using sid r u user_get_Inr[OF u(1)] by blast
qed

section \<open>Rank\<close>

text \<open>The accounts whose strongest role is above the rank \<open>k\<close>.\<close>

definition above :: "int \<Rightarrow> UserRecord \<Rightarrow> bool" where
  "above k u \<longleftrightarrow> (\<exists>r \<in> role_set u. k < int (role_rank r))"

lemma max_role_above:
  "(case max_role R of None \<Rightarrow> False | Some r \<Rightarrow> k < int (role_rank r)) \<longleftrightarrow> (\<exists>r \<in> R. k < int (role_rank r))"
proof (cases "R = {}")
  case False
  have fin: "finite R" by (rule finite)
  have le: "int (role_rank r) \<le> int (role_rank (Max R))" if "r \<in> R" for r
    using Max_ge[OF fin that] by (simp add: less_eq_Role_def)
  have "Max R \<in> R" by (rule Max_in[OF fin False])
  then have "k < int (role_rank (Max R)) \<longleftrightarrow> (\<exists>r \<in> R. k < int (role_rank r))"
    using le by (meson less_le_trans)
  then show ?thesis using False by (simp add: max_role_def)
qed (simp add: max_role_def)

lemma require_outranks_iff: "require_outranks_target p u v = Inr () \<longleftrightarrow> \<not> above (principal_rank p) u"
  by (simp add: require_outranks_target_def above_def user_max_role_def max_role_above)

lemma require_rank_ceiling_iff:
  "require_rank_ceiling p roles v = Inr () \<longleftrightarrow> (\<forall>r \<in> set roles. int (role_rank r) \<le> principal_rank p)"
proof (cases "List.find (\<lambda>r. principal_rank p < int (role_rank r)) roles")
  case None
  then have "\<forall>r \<in> set roles. int (role_rank r) \<le> principal_rank p" by (auto simp: find_None_iff not_less)
  then show ?thesis by (simp add: require_rank_ceiling_def None)
next
  case (Some r)
  then have "\<not> (\<forall>r \<in> set roles. int (role_rank r) \<le> principal_rank p)" by (auto dest!: find_SomeD simp: not_le)
  then show ?thesis by (simp add: require_rank_ceiling_def Some)
qed

lemma role_set_values [simp]: "role_set (u\<lparr>ur_roles := map role_value rs\<rparr>) = set rs"
  by (auto simp: role_set_def set_collect)

lemma role_set_update [simp]:
  "role_set (u\<lparr>ur_name := n\<rparr>) = role_set u" "role_set (u\<lparr>ur_disabled := b\<rparr>) = role_set u"
  "role_set (u\<lparr>ur_password_hash := h, ur_password_updated_at := t\<rparr>) = role_set u"
  by (simp_all add: role_set_def)

text \<open>
  The accounts of the file have distinct ids and none with the id \<open>uid\<close> is above \<open>k\<close>; the accounts
  above \<open>k\<close> are \<open>hs\<close>.
\<close>

definition guarded :: "int \<Rightarrow> UserRecord list \<Rightarrow> string \<Rightarrow> auth_state \<Rightarrow> bool" where
  "guarded k hs uid w \<longleftrightarrow> (\<exists>us. users_load (au_users w) = Inr us \<and> distinct (map ur_id us) \<and>
     filter (above k) us = hs \<and> (\<forall>u \<in> set us. ur_id u = uid \<longrightarrow> \<not> above k u))"

lemma replace_first_facts:
  assumes "replace_first i g us = Some (us', v)" "\<And>u. ur_id (g u) = ur_id u"
    "\<And>u. \<not> above k u \<Longrightarrow> \<not> above k (g u)" "\<forall>u \<in> set us. ur_id u = i \<longrightarrow> \<not> above k u"
  shows "map ur_id us' = map ur_id us \<and> filter (above k) us' = filter (above k) us \<and> ur_id v = i \<and>
    (\<forall>u \<in> set us'. ur_id u = i \<longrightarrow> \<not> above k u) \<and> (\<exists>u \<in> set us. v = g u)"
  using assms
proof (induction us arbitrary: us')
  case (Cons u us)
  show ?case
  proof (cases "ur_id u = i")
    case False
    with Cons.prems(1) obtain us1 where "replace_first i g us = Some (us1, v)" "us' = u # us1" by auto
    with Cons.IH[of us1] Cons.prems False show ?thesis by auto
  qed (use Cons.prems in auto)
qed simp

lemma guarded_mutate:
  assumes "guarded k hs i w" "\<And>u. ur_id (g u) = ur_id u" "\<And>u. \<not> above k u \<Longrightarrow> \<not> above k (g u)"
  shows "leaves (users_put err (user_mutate i g)) w (\<lambda>v w'. guarded k hs i w' \<and> ur_id v = i) (guarded k hs i)"
proof -
  obtain us where us: "users_load (au_users w) = Inr us" "distinct (map ur_id us)"
    "filter (above k) us = hs" "\<forall>u \<in> set us. ur_id u = i \<longrightarrow> \<not> above k u"
    using assms(1) by (auto simp: guarded_def)
  show ?thesis
  proof (cases "replace_first i g us")
    case None
    then show ?thesis using assms(1) us by (simp add: leaves_def users_put_def user_mutate_def)
  next
    case (Some p)
    obtain us' v where p: "p = (us', v)" by force
    have "map ur_id us' = map ur_id us \<and> filter (above k) us' = filter (above k) us \<and> ur_id v = i \<and>
      (\<forall>u \<in> set us'. ur_id u = i \<longrightarrow> \<not> above k u)"
      using replace_first_facts[OF Some[unfolded p] assms(2,3) us(4)] by blast
    then show ?thesis using Some us
      by (auto simp: leaves_def users_put_def user_mutate_def p guarded_def)
  qed
qed

text \<open>The calls of the account routes, on a state whose accounts are guarded.\<close>

lemma guarded_sessions:
  "guarded k hs i w \<Longrightarrow> leaves (sessions_put g) w (\<lambda>_. guarded k hs i) (guarded k hs i)"
  by (auto simp: leaves_def sessions_put_def guarded_def split: sum.split)

lemma above_name [simp]: "above k (u\<lparr>ur_name := n\<rparr>) = above k u"
  and above_disabled [simp]: "above k (u\<lparr>ur_disabled := b\<rparr>) = above k u"
  and above_password [simp]: "above k (u\<lparr>ur_password_hash := h, ur_password_updated_at := t\<rparr>) = above k u"
  by (simp_all add: above_def)

lemma guarded_set_roles:
  assumes "guarded k hs i w" "\<forall>r \<in> set roles. int (role_rank r) \<le> k"
  shows "leaves (users_put err (set_roles i roles)) w (\<lambda>v w'. guarded k hs i w' \<and> ur_id v = i) (guarded k hs i)"
  using assms unfolding set_roles_def
  by (intro guarded_mutate) (auto simp: above_def not_less)

lemma guarded_set_name:
  "guarded k hs i w \<Longrightarrow>
   leaves (users_put err (set_name i n)) w (\<lambda>v w'. guarded k hs i w' \<and> ur_id v = i) (guarded k hs i)"
  unfolding set_name_def by (intro guarded_mutate) auto

lemma guarded_set_disabled:
  "guarded k hs i w \<Longrightarrow>
   leaves (users_put err (set_disabled i b)) w (\<lambda>v w'. guarded k hs i w' \<and> ur_id v = i) (guarded k hs i)"
  unfolding set_disabled_def by (intro guarded_mutate) auto

lemma leaves_error: "g (au_users w) = Inl e \<Longrightarrow> E w \<Longrightarrow> leaves (users_put err g) w Q E"
  by (simp add: leaves_def users_put_def)

lemma set_password_cases:
  "(\<exists>e. \<forall>f. set_password sc salt now i pw f = Inl e) \<or>
   (\<exists>h. hash_password sc salt pw = Some h \<and> (\<forall>f. set_password sc salt now i pw f =
      user_mutate i (\<lambda>u. u\<lparr>ur_password_hash := h, ur_password_updated_at := now\<rparr>) f))"
  by (auto simp: set_password_def validate_password_def split: option.splits)

lemma guarded_set_password:
  assumes "guarded k hs i w"
  shows "leaves (users_put err (set_password sc salt now i pw)) w
    (\<lambda>v w'. guarded k hs i w' \<and> ur_id v = i) (guarded k hs i)"
  using set_password_cases[of sc salt now i pw]
proof
  assume "\<exists>e. \<forall>f. set_password sc salt now i pw f = Inl e"
  then show ?thesis using assms by (auto simp: leaves_def users_put_def)
next
  assume "\<exists>h. hash_password sc salt pw = Some h \<and> (\<forall>f. set_password sc salt now i pw f =
      user_mutate i (\<lambda>u. u\<lparr>ur_password_hash := h, ur_password_updated_at := now\<rparr>) f)"
  then obtain h where "set_password sc salt now i pw =
      user_mutate i (\<lambda>u. u\<lparr>ur_password_hash := h, ur_password_updated_at := now\<rparr>)" by blast
  then show ?thesis using guarded_mutate[OF assms, of "\<lambda>u. u\<lparr>ur_password_hash := h, ur_password_updated_at := now\<rparr>"]
    by simp
qed

lemma guarded_delete:
  assumes "guarded k hs i w"
  shows "leaves (users_put err (\<lambda>f. bindE (user_delete i f) (\<lambda>f'. Inr (f', ())))) w
    (\<lambda>_. guarded k hs i) (guarded k hs i)"
proof -
  obtain us where us: "users_load (au_users w) = Inr us" "distinct (map ur_id us)"
    "filter (above k) us = hs" "\<forall>u \<in> set us. ur_id u = i \<longrightarrow> \<not> above k u"
    using assms by (auto simp: guarded_def)
  let ?us' = "filter (\<lambda>u. ur_id u \<noteq> i) us"
  have "filter (above k) ?us' = hs" using us(3,4) by (auto intro: filter_cong)
  moreover have "distinct (map ur_id ?us')" using us(2) by (rule distinct_map_filter)
  ultimately have "guarded k hs i (w\<lparr>au_users := Some (users_text ?us')\<rparr>)" by (auto simp: guarded_def)
  then show ?thesis using assms us(1) by (auto simp: leaves_def users_put_def user_delete_def Let_def)
qed

text \<open>A guarded route: the target is found, checked, and then only mutated.\<close>

definition keeps_above :: "int \<Rightarrow> UserRecord list \<Rightarrow> auth_state \<Rightarrow> bool" where
  "keeps_above k us w \<longleftrightarrow> (\<exists>us'. users_load (au_users w) = Inr us' \<and> distinct (map ur_id us') \<and>
     filter (above k) us' = filter (above k) us)"

lemma guarded_keeps: "guarded k (filter (above k) us) i w \<Longrightarrow> keeps_above k us w"
  by (auto simp: guarded_def keeps_above_def)

lemma leaves_mono:
  "leaves m w Q E \<Longrightarrow> (\<And>x w'. Q x w' \<Longrightarrow> R x w') \<Longrightarrow> (\<And>w'. E w' \<Longrightarrow> F w') \<Longrightarrow> leaves m w R F"
  by (auto simp: leaves_def split: prod.splits sum.splits)

lemma target_leaves:
  assumes "users_load (au_users w) = Inr us" "distinct (map ur_id us)" "E w"
    and "\<And>u. ur_id u = uid \<Longrightarrow> \<not> above (principal_rank p) u \<Longrightarrow>
      guarded (principal_rank p) (filter (above (principal_rank p)) us) uid w \<Longrightarrow> leaves (f u) w Q E"
  shows "leaves (h_bind (load_target uid) (\<lambda>u. h_bind (h_lift (require_outranks_target p u verb)) (\<lambda>_. f u))) w Q E"
proof (rule leaves_bind)
  show "leaves (load_target uid) w (\<lambda>u w1. w1 = w \<and> u \<in> set us \<and> ur_id u = uid) E"
    unfolding load_target_def using assms(1,3) by (auto dest!: user_get_Inr)
next
  fix u w1 assume u: "w1 = w \<and> u \<in> set us \<and> ur_id u = uid"
  show "leaves (h_bind (h_lift (require_outranks_target p u verb)) (\<lambda>_. f u)) w1 Q E"
  proof (rule leaves_bind)
    show "leaves (h_lift (require_outranks_target p u verb)) w1
        (\<lambda>_ w2. w2 = w \<and> \<not> above (principal_rank p) u) E"
      using u assms(3) require_outranks_iff[of p u verb] by (auto simp: leaves_lift split: sum.split)
  next
    fix w2 assume w2: "w2 = w \<and> \<not> above (principal_rank p) u"
    have "v = u" if "v \<in> set us" "ur_id v = uid" for v
      using that u assms(2) by (auto simp: distinct_map inj_on_def)
    then have "guarded (principal_rank p) (filter (above (principal_rank p)) us) uid w"
      using assms(1,2) w2 by (auto simp: guarded_def)
    then show "leaves (f u) w2 Q E" using assms(4) u w2 by blast
  qed
qed

section \<open>Nobody reaches above their own rank\<close>

datatype account_request =
    CreateUser string string "string list" string
  | PatchUser string "string list option" "bool option" "string option"
  | ResetPassword string string
  | DeleteUser string

fun serve_account :: "auth_lib \<Rightarrow> request \<Rightarrow> account_request \<Rightarrow> auth_state \<Rightarrow> auth_state" where
  "serve_account lib rq (CreateUser e pw rs n) w = snd (create_user lib rq e pw rs n w)"
| "serve_account lib rq (PatchUser i rs d n) w = snd (patch_user lib rq i rs d n w)"
| "serve_account lib rq (ResetPassword i pw) w = snd (reset_password lib rq i pw w)"
| "serve_account lib rq (DeleteUser i) w = snd (delete_user lib rq i w)"

lemma leaves_snd: "leaves m w (\<lambda>_. Q) Q \<Longrightarrow> Q (snd (m w))"
  by (auto simp: leaves_def split: prod.splits sum.splits)

text \<open>Every account route starts with the check of the action; a denied request changes nothing.\<close>

lemma action_leaves:
  assumes "Q w" "\<And>i. get_principal lib rq w = (Inr i, w) \<Longrightarrow> leaves (f i) w (\<lambda>_. Q) Q"
  shows "leaves (h_bind (require_action lib rq a) f) w (\<lambda>_. Q) Q"
proof (rule leaves_bind)
  show "leaves (require_action lib rq a) w (\<lambda>i w1. w1 = w \<and> get_principal lib rq w = (Inr i, w)) Q"
  proof (cases "require_action lib rq a w")
    case (Pair r w1)
    then have "w1 = w" using require_action_state[of lib rq a w] by simp
    show ?thesis
    proof (cases r)
      case (Inr i)
      then have "get_principal lib rq w = (Inr i, w)" using Pair \<open>w1 = w\<close> require_action_Inr[of lib rq a w i w] by simp
      then show ?thesis using Pair Inr \<open>w1 = w\<close> by (simp add: leaves_def)
    qed (use Pair \<open>w1 = w\<close> assms(1) in \<open>simp add: leaves_def\<close>)
  qed
next
  fix i w1 assume "w1 = w \<and> get_principal lib rq w = (Inr i, w)"
  then show "leaves (f i) w1 (\<lambda>_. Q) Q" using assms(2) by blast
qed

lemma parse_roles_leaves: "E w \<Longrightarrow> leaves (h_lift (parse_roles raw)) w (\<lambda>_ w1. w1 = w) E"
  by (auto simp: leaves_lift split: sum.split)

lemma ceiling_leaves:
  "E w \<Longrightarrow> leaves (h_lift (require_rank_ceiling p roles v)) w
     (\<lambda>_ w1. w1 = w \<and> (\<forall>r \<in> set roles. int (role_rank r) \<le> principal_rank p)) E"
  using require_rank_ceiling_iff[of p roles v] by (auto simp: leaves_lift split: sum.split)

lemma patch_fields:
  assumes "guarded k hs uid w" "ur_id u = uid" "principal_rank p = k"
  shows "leaves (h_bind (patch_roles p u raw) (\<lambda>u. h_bind (patch_name name u) (\<lambda>u. patch_disabled lib disabled u)))
    w (\<lambda>_. guarded k hs uid) (guarded k hs uid)" (is "leaves _ w ?Q ?E")
proof (rule leaves_bind[where Q = "\<lambda>u w1. guarded k hs uid w1 \<and> ur_id u = uid"])
  show "leaves (patch_roles p u raw) w (\<lambda>u w1. guarded k hs uid w1 \<and> ur_id u = uid) ?E"
  proof (cases raw)
    case (Some rs)
    have "leaves (h_lift (parse_roles rs)) w (\<lambda>_ w1. w1 = w) ?E" using assms(1) by (rule parse_roles_leaves)
    moreover have "leaves (h_bind (h_lift (require_rank_ceiling p roles v)) (\<lambda>_.
        users_put uncaught (set_roles (ur_id u) roles))) w (\<lambda>u w1. guarded k hs uid w1 \<and> ur_id u = uid) ?E" for roles v
      by (rule leaves_bind[OF ceiling_leaves]) (use assms guarded_set_roles in auto)
    ultimately show ?thesis using Some by (auto simp: patch_roles_def intro: leaves_bind)
  qed (use assms in \<open>simp add: patch_roles_def leaves_lift\<close>)
next
  fix u1 :: UserRecord and w1 assume u1: "guarded k hs uid w1 \<and> ur_id u1 = uid"
  show "leaves (h_bind (patch_name name u1) (\<lambda>u. patch_disabled lib disabled u)) w1 ?Q ?E"
  proof (rule leaves_bind[where Q = "\<lambda>u w1. guarded k hs uid w1 \<and> ur_id u = uid"])
    show "leaves (patch_name name u1) w1 (\<lambda>u w1. guarded k hs uid w1 \<and> ur_id u = uid) ?E"
      using u1 guarded_set_name by (cases name) (auto simp: patch_name_def leaves_lift)
  next
    fix u2 :: UserRecord and w2 assume u2: "guarded k hs uid w2 \<and> ur_id u2 = uid"
    show "leaves (patch_disabled lib disabled u2) w2 ?Q ?E"
    proof (cases disabled)
      case (Some b)
      have "leaves (if b then h_bind (sessions_put (revoke_user sh (ur_id u3) None)) (\<lambda>_. h_lift (Inr u3))
          else h_lift (Inr u3)) w3 ?Q ?E" if "guarded k hs uid w3 \<and> ur_id u3 = uid" for u3 :: UserRecord and w3 sh
        using that by (auto simp: leaves_lift intro!: leaves_bind[OF guarded_sessions])
      then show ?thesis using Some u2 by (auto simp: patch_disabled_def intro!: leaves_bind[OF guarded_set_disabled])
    qed (use u2 in \<open>simp add: patch_disabled_def leaves_lift\<close>)
  qed
qed

lemma users_put_leaves:
  assumes "E w" "\<And>f x. g (au_users w) = Inr (f, x) \<Longrightarrow> Q x (w\<lparr>au_users := f\<rparr>)"
  shows "leaves (users_put err g) w Q E"
  using assms by (auto simp: leaves_def users_put_def split: sum.split)

lemma user_create_load:
  assumes "user_create sc salt uid now e pw rs n f = Inr (f', u)"
  shows "\<exists>us. users_load f = Inr us \<and> f' = Some (users_text (us @ [u])) \<and> ur_id u = ''u-'' @ uid \<and>
    role_set u = set rs \<and> normalize_email e = Inr (ur_email u) \<and> ur_email u \<notin> ur_email ` set us \<and>
    hash_password sc salt pw = Some (ur_password_hash u) \<and> \<not> ur_disabled u"
  using assms
  by (auto simp: user_create_def bindE_eq_Inr_iff Let_def role_set_def set_collect validate_password_def
      split: if_splits option.splits)

theorem create_keeps:
  assumes "users_load (au_users w) = Inr us" "distinct (map ur_id us)" "''u-'' @ hr_uid rq \<notin> ur_id ` set us"
    "\<And>i. get_principal lib rq w = (Inr i, w) \<Longrightarrow> principal_rank (ai_principal i) \<le> k"
  shows "keeps_above k us (snd (create_user lib rq e pw raw n w))"
proof (rule leaves_snd)
  have now: "keeps_above k us w" using assms(1,2) by (auto simp: keeps_above_def)
  show "leaves (create_user lib rq e pw raw n) w (\<lambda>_. keeps_above k us) (keeps_above k us)"
    unfolding create_user_def
  proof (rule action_leaves[where Q = "keeps_above k us"], rule now)
    fix i assume i: "get_principal lib rq w = (Inr i, w)"
    have put: "leaves (users_put create_error (user_create (al_scrypt lib) (hr_salt rq) (hr_uid rq) (hr_utc rq) e pw roles n))
        w (\<lambda>_. keeps_above k us) (keeps_above k us)"
      if "\<forall>r \<in> set roles. int (role_rank r) \<le> principal_rank (ai_principal i)" for roles
    proof (rule users_put_leaves[where E = "keeps_above k us"], rule now)
      fix f u assume "user_create (al_scrypt lib) (hr_salt rq) (hr_uid rq) (hr_utc rq) e pw roles n (au_users w) = Inr (f, u)"
      from user_create_load[OF this] assms(1)
      have "f = Some (users_text (us @ [u]))" "ur_id u = ''u-'' @ hr_uid rq" "role_set u = set roles" by auto
      moreover have "\<not> above k u" using calculation(3) that assms(4)[OF i] by (fastforce simp: above_def)
      ultimately show "keeps_above k us (w\<lparr>au_users := f\<rparr>)"
        using assms(2,3) by (auto simp: keeps_above_def)
    qed
    show "leaves (h_bind (h_lift (parse_roles raw)) (\<lambda>roles.
        h_bind (h_lift (require_rank_ceiling (ai_principal i) roles ''create'')) (\<lambda>_.
        users_put create_error (user_create (al_scrypt lib) (hr_salt rq) (hr_uid rq) (hr_utc rq) e pw roles n)))) w
        (\<lambda>_. keeps_above k us) (keeps_above k us)"
      by (rule leaves_bind[OF parse_roles_leaves[where E = "keeps_above k us", OF now]],
        auto intro!: leaves_bind[OF ceiling_leaves[where E = "keeps_above k us", OF now]] put)
  qed
qed

lemma above_mono: "j \<le> k \<Longrightarrow> above k u \<Longrightarrow> above j u"
  by (auto simp: above_def intro: order.strict_trans1)

lemma keeps_above_mono:
  assumes "keeps_above j us w" "j \<le> k"
  shows "keeps_above k us w"
proof -
  obtain us' where us': "users_load (au_users w) = Inr us'" "distinct (map ur_id us')"
    "filter (above j) us' = filter (above j) us" using assms(1) by (auto simp: keeps_above_def)
  have "filter (above k) xs = filter (above k) (filter (above j) xs)" for xs
    using above_mono[OF assms(2)] by (auto intro!: filter_cong)
  then have "filter (above k) us' = filter (above k) us" using us'(3) by metis
  then show ?thesis using us'(1,2) by (auto simp: keeps_above_def)
qed

lemma guarded_route:
  assumes "users_load (au_users w) = Inr us" "distinct (map ur_id us)"
    and "\<And>i u. get_principal lib rq w = (Inr i, w) \<Longrightarrow> ur_id u = uid \<Longrightarrow>
      guarded (principal_rank (ai_principal i)) (filter (above (principal_rank (ai_principal i))) us) uid w \<Longrightarrow>
      leaves (f i u) w (\<lambda>_. guarded (principal_rank (ai_principal i)) (filter (above (principal_rank (ai_principal i))) us) uid)
        (guarded (principal_rank (ai_principal i)) (filter (above (principal_rank (ai_principal i))) us) uid)"
    and k: "\<And>i. get_principal lib rq w = (Inr i, w) \<Longrightarrow> principal_rank (ai_principal i) \<le> k"
  shows "keeps_above k us (snd (h_bind (require_action lib rq A_USERS) (\<lambda>i.
    h_bind (load_target uid) (\<lambda>u. h_bind (h_lift (require_outranks_target (ai_principal i) u verb)) (\<lambda>_. f i u))) w))"
proof (rule leaves_snd, rule action_leaves[where Q = "keeps_above k us"])
  show now: "keeps_above k us w" using assms(1,2) by (auto simp: keeps_above_def)
  fix i assume i: "get_principal lib rq w = (Inr i, w)"
  show "leaves (h_bind (load_target uid) (\<lambda>u. h_bind (h_lift (require_outranks_target (ai_principal i) u verb)) (\<lambda>_. f i u)))
      w (\<lambda>_. keeps_above k us) (keeps_above k us)"
  proof (rule target_leaves[where E = "keeps_above k us", OF assms(1,2) now])
    fix u :: UserRecord
    assume "ur_id u = uid" "guarded (principal_rank (ai_principal i)) (filter (above (principal_rank (ai_principal i))) us) uid w"
    from assms(3)[OF i this] show "leaves (f i u) w (\<lambda>_. keeps_above k us) (keeps_above k us)"
      by (rule leaves_mono) (auto intro!: keeps_above_mono[OF guarded_keeps k[OF i]])
  qed
qed

text \<open>One request: who asks has rank at most \<open>k\<close>, and a drawn account id is new.\<close>

definition asks_below :: "auth_lib \<Rightarrow> int \<Rightarrow> request \<Rightarrow> auth_state \<Rightarrow> bool" where
  "asks_below lib k rq w \<longleftrightarrow> (case fst (get_principal lib rq w) of
     Inl _ \<Rightarrow> True | Inr i \<Rightarrow> principal_rank (ai_principal i) \<le> k)"

definition fresh_uid :: "request \<Rightarrow> auth_state \<Rightarrow> bool" where
  "fresh_uid rq w \<longleftrightarrow> (case users_load (au_users w) of
     Inl _ \<Rightarrow> False | Inr us \<Rightarrow> ''u-'' @ hr_uid rq \<notin> ur_id ` set us)"

lemma serve_keeps:
  assumes "users_load (au_users w) = Inr us" "distinct (map ur_id us)"
    "asks_below lib k rq w" "fresh_uid rq w"
  shows "keeps_above k us (serve_account lib rq req w)"
proof -
  have k: "principal_rank (ai_principal i) \<le> k" if "get_principal lib rq w = (Inr i, w)" for i
    using that assms(3) by (simp add: asks_below_def)
  show ?thesis
  proof (cases req)
    case (CreateUser e pw rs n)
    then show ?thesis using create_keeps[OF assms(1,2) _ k] assms(1,4) by (simp add: fresh_uid_def)
  next
    case (PatchUser i rs d n)
    show ?thesis unfolding PatchUser serve_account.simps patch_user_def
      by (rule guarded_route[OF assms(1,2) _ k]) (auto simp: leaves_lift intro: patch_fields)
  next
    case (ResetPassword i pw)
    show ?thesis unfolding ResetPassword serve_account.simps reset_password_def
      by (rule guarded_route[OF assms(1,2) _ k])
        (auto simp: leaves_lift intro!: leaves_bind[OF guarded_set_password] leaves_bind[OF guarded_sessions])
  next
    case (DeleteUser i)
    show ?thesis unfolding DeleteUser serve_account.simps delete_user_def
      by (rule guarded_route[OF assms(1,2) _ k])
        (auto simp: leaves_lift intro!: leaves_bind[OF guarded_delete] leaves_bind[OF guarded_sessions])
  qed
qed

text \<open>A history of account requests, each from somebody of rank at most \<open>k\<close> when it is served.\<close>

inductive accounts_reach :: "auth_lib \<Rightarrow> int \<Rightarrow> auth_state \<Rightarrow> auth_state \<Rightarrow> bool"
  for lib k w0 where
  start: "accounts_reach lib k w0 w0"
| serve: "accounts_reach lib k w0 w \<Longrightarrow> asks_below lib k rq w \<Longrightarrow> fresh_uid rq w \<Longrightarrow>
    accounts_reach lib k w0 (serve_account lib rq req w)"

lemma reach_keeps:
  assumes "accounts_reach lib k w0 w" "users_load (au_users w0) = Inr us" "distinct (map ur_id us)"
  shows "keeps_above k us w"
  using assms(1)
proof (induction rule: accounts_reach.induct)
  case start
  then show ?case using assms(2,3) by (auto simp: keeps_above_def)
next
  case (serve w rq req)
  then obtain us1 where "users_load (au_users w) = Inr us1" "distinct (map ur_id us1)"
    "filter (above k) us1 = filter (above k) us" by (auto simp: keeps_above_def)
  then show ?case using serve_keeps[of w us1 lib k rq req] serve.hyps
    by (auto simp: keeps_above_def)
qed

section \<open>Sessions and accounts\<close>

text \<open>The account that a cookie request stands for.\<close>

lemma cookie_user:
  assumes "get_principal lib rq w = (Inr i, w')" "cookie_request rq" "ai_session_user i = Some uid"
  shows "\<exists>sid r u. present (hr_cookie rq) = Some sid \<and> sr_user_id r = uid \<and>
    session_get (al_sha lib) sid (whole_seconds (hr_time rq 0)) (au_sessions w) = Inr (Some r) \<and>
    user_get uid (au_users w) = Inr u \<and> \<not> ur_disabled u"
proof -
  from cookie_principal[OF assms(1,2)] obtain sid r us u where
    "present (hr_cookie rq) = Some sid"
    "session_get (al_sha lib) sid (whole_seconds (hr_time rq 0)) (au_sessions w) = Inr (Some r)"
    "ur_id u = sr_user_id r" "\<not> ur_disabled u" "user_get (sr_user_id r) (au_users w) = Inr u"
    "i = \<lparr>ai_principal = to_principal u, ai_project = ''*'', ai_session_sid = Some sid, ai_session_user = Some (ur_id u)\<rparr>"
    by blast
  with assms(3) show ?thesis by auto
qed

lemma user_mutate_get:
  assumes "user_mutate i g f = Inr (f', v)" "\<And>u. ur_id (g u) = ur_id u"
  shows "user_get i f' = Inr v \<and> (\<exists>u. user_get i f = Inr u \<and> v = g u)"
proof -
  obtain us us' where us: "users_load f = Inr us" "replace_first i g us = Some (us', v)" "f' = Some (users_text us')"
    using assms(1) by (auto simp: user_mutate_def bindE_eq_Inr_iff split: option.splits)
  from us(2) have "List.find (\<lambda>u. ur_id u = i) us' = Some v \<and> (\<exists>u. List.find (\<lambda>u. ur_id u = i) us = Some u \<and> v = g u)"
    by (induction us arbitrary: us') (auto simp: assms(2) split: if_splits)
  then show ?thesis using us by (auto simp: user_get_def find_user_def)
qed

lemma user_mutate_id: "user_mutate i g f = Inr (f', v) \<Longrightarrow> (\<And>u. ur_id (g u) = ur_id u) \<Longrightarrow> ur_id v = i"
  using user_mutate_get user_get_Inr by blast

lemma user_delete_get: "user_delete i f = Inr f' \<Longrightarrow> user_get i f' \<noteq> Inr u"
  by (auto simp: user_delete_def user_get_def find_user_def bindE_eq_Inr_iff Let_def
      dest!: find_SomeD split: if_splits option.splits)

lemma load_target_Inr: "load_target uid w = (Inr u, w') \<Longrightarrow> w' = w \<and> user_get uid (au_users w) = Inr u \<and> ur_id u = uid"
  unfolding load_target_def users_get_Inr_iff using user_get_Inr by auto

lemma patch_roles_id: "patch_roles p u raw w = (Inr v, w') \<Longrightarrow> ur_id v = ur_id u"
  by (auto simp: patch_roles_def handler_iffs set_roles_def split: option.splits dest: user_mutate_id)

lemma patch_name_id: "patch_name name u w = (Inr v, w') \<Longrightarrow> ur_id v = ur_id u"
  by (auto simp: patch_name_def handler_iffs set_name_def split: option.splits dest: user_mutate_id)

lemma patch_disables:
  assumes "patch_user lib rq uid roles (Some True) name w = (Inr v, w')"
  shows "user_get uid (au_users w') = Inr v \<and> ur_disabled v \<and> ur_id v = uid \<and>
    (\<exists>f n. revoke_user (al_sha lib) uid None f = Inr (au_sessions w', n))"
proof -
  obtain i :: auth_info and t u1 w1 u2 w2 where t: "ur_id t = uid" and u1: "patch_roles (ai_principal i) t roles w = (Inr u1, w1)"
    and u2: "patch_name name u1 w1 = (Inr u2, w2)" and d: "patch_disabled lib (Some True) u2 w2 = (Inr v, w')"
    using assms unfolding patch_user_def
    by (clarsimp simp: h_bind_Inr_iff h_lift_Inr_iff require_action_Inr dest!: load_target_Inr split: if_splits)
  have "ur_id u2 = uid" using t patch_roles_id[OF u1] patch_name_id[OF u2] by simp
  then obtain f where f: "set_disabled uid True (au_users w2) = Inr (f, v)" and w':
    "\<exists>n. revoke_user (al_sha lib) (ur_id v) None (au_sessions w2) = Inr (au_sessions w', n)" "au_users w' = f"
    using d by (auto simp: patch_disabled_def handler_iffs)
  have "ur_id v = uid" using user_mutate_id[OF f[unfolded set_disabled_def]] by simp
  with user_mutate_get[OF f[unfolded set_disabled_def]] w' show ?thesis by auto
qed

lemma disabled_out:
  assumes "patch_user lib rq uid roles (Some True) name w = (Inr v, w')"
    "get_principal lib rq2 w' = (Inr i, w2)" "cookie_request rq2"
  shows "ai_session_user i \<noteq> Some uid"
proof
  assume "ai_session_user i = Some uid"
  from cookie_user[OF assms(2,3) this] patch_disables[OF assms(1)] show False by auto
qed

lemma deleted_out:
  assumes "delete_user lib rq uid w = (Inr (), w')"
    "get_principal lib rq2 w' = (Inr i, w2)" "cookie_request rq2"
  shows "ai_session_user i \<noteq> Some uid"
proof
  assume "ai_session_user i = Some uid"
  from cookie_user[OF assms(2,3) this] obtain u where u: "user_get uid (au_users w') = Inr u" by blast
  obtain f where "user_delete uid f = Inr (au_users w')"
    using assms(1) unfolding delete_user_def
    by (auto simp: h_bind_Inr_iff h_lift_Inr_iff require_action_Inr users_put_Inr_iff sessions_put_Inr_iff
        bindE_eq_Inr_iff dest!: load_target_Inr split: if_splits)
  then show False using user_delete_get u by blast
qed

text \<open>After a password change or reset, the sessions that remain.\<close>

lemma change_password_sessions:
  assumes "change_password lib rq cur new w = (Inr (), w')" "get_principal lib rq w = (Inr i, w)"
    "ai_session_user i = Some uid"
    "get_principal lib rq2 w' = (Inr j, w2)" "cookie_request rq2" "ai_session_user j = Some uid"
  shows "\<exists>s s2. ai_session_sid i = Some s \<and> present (hr_cookie rq2) = Some s2 \<and>
    sid_digest (al_sha lib) s2 = sid_digest (al_sha lib) s"
proof -
  obtain f n where f: "revoke_user (al_sha lib) uid (ai_session_sid i) f = Inr (au_sessions w', n)"
    using assms(1-3) unfolding change_password_def
    by (auto simp: h_bind_Inr_iff h_lift_Inr_iff users_put_Inr_iff users_get_Inr_iff sessions_put_Inr_iff
        dest!: user_get_Inr split: if_splits)
  from cookie_user[OF assms(4-6)] obtain s2 r where s2: "present (hr_cookie rq2) = Some s2" "sr_user_id r = uid"
    "session_get (al_sha lib) s2 (whole_seconds (hr_time rq2 0)) (au_sessions w') = Inr (Some r)" by blast
  from revoke_user_get[OF f s2(3)] s2 show ?thesis by auto
qed

lemma reset_password_sessions:
  assumes "reset_password lib rq uid new w = (Inr (), w')"
    "get_principal lib rq2 w' = (Inr j, w2)" "cookie_request rq2"
  shows "ai_session_user j \<noteq> Some uid"
proof
  assume j: "ai_session_user j = Some uid"
  obtain f n where f: "revoke_user (al_sha lib) uid None f = Inr (au_sessions w', n)"
    using assms(1) unfolding reset_password_def
    by (auto simp: h_bind_Inr_iff h_lift_Inr_iff require_action_Inr users_put_Inr_iff sessions_put_Inr_iff
        dest!: load_target_Inr)
  from cookie_user[OF assms(2,3) j] obtain s2 r where "sr_user_id r = uid"
    "session_get (al_sha lib) s2 (whole_seconds (hr_time rq2 0)) (au_sessions w') = Inr (Some r)" by blast
  with revoke_user_get[OF f this(2)] show False by simp
qed

section \<open>Login\<close>

lemma login_Inr:
  assumes "login lib rq e pw w = (Inr (body, sid), w')"
  shows "\<exists>us u. users_load (au_users w) = Inr us \<and> u \<in> set us \<and> \<not> ur_disabled u \<and> sid = hr_sid rq \<and>
    verify_password (al_scrypt lib) (ur_password_hash u) pw \<and> dict_get body ''user'' = Some (JObj (public_dict u)) \<and>
    au_users w' = au_users w \<and>
    session_create (al_sha lib) (hr_sid rq) (ur_id u) DEFAULT_SESSION_TTL_SECONDS (whole_seconds (hr_time rq 1))
      (au_sessions w) = Inr (au_sessions w', sid) \<and>
    length (recent_failures (hr_time rq 0) (clean_email e) w) < LOGIN_MAX_FAILURES \<and>
    au_failures w' = dict_del (clean_email e)
      (dict_put (clean_email e) (recent_failures (hr_time rq 0) (clean_email e) w) (au_failures w))"
proof -
  let ?e = "clean_email e"
  have few: "length (recent_failures (hr_time rq 0) ?e w) < LOGIN_MAX_FAILURES"
    using assms by (auto simp: login_def Let_def h_bind_def check_backoff_def split: if_splits)
  let ?w1 = "w\<lparr>au_failures := dict_put ?e (recent_failures (hr_time rq 0) ?e w) (au_failures w)\<rparr>"
  have chk: "check_backoff (hr_time rq 0) ?e w = (Inr (), ?w1)" using few by (simp add: check_backoff_def)
  obtain u where u: "authenticate (al_scrypt lib) ?e pw (au_users w) = Inr (Some u)" and
    s: "session_create (al_sha lib) (hr_sid rq) (ur_id u) DEFAULT_SESSION_TTL_SECONDS (whole_seconds (hr_time rq 1))
      (au_sessions w) = Inr (au_sessions w', sid)"
    and b: "body = [(''user'', JObj (public_dict u)), (''session_ttl_seconds'', JInt DEFAULT_SESSION_TTL_SECONDS)]"
    and w': "au_users w' = au_users w" "au_failures w' = dict_del ?e (au_failures ?w1)"
    using assms by (auto simp: login_def Let_def chk handler_iffs clear_failures_def split: option.splits)
  have "sid = hr_sid rq" using s by (auto simp: session_create_def bindE_eq_Inr_iff split: if_splits)
  moreover obtain us where "users_load (au_users w) = Inr us" "u \<in> set us" "\<not> ur_disabled u"
    "verify_password (al_scrypt lib) (ur_password_hash u) pw"
    using u unfolding authenticate_def user_get_by_email_def find_user_def
    by (auto simp: bindE_def dest!: find_SomeD split: sum.splits option.splits if_splits user_error.splits)
  ultimately show ?thesis using few s b w' by auto
qed

text \<open>Attempts of one client for one email, in the order of the clock.\<close>

record attempt =
  at_request :: request
  at_password :: string

fun login_run :: "auth_lib \<Rightarrow> string \<Rightarrow> attempt list \<Rightarrow> auth_state \<Rightarrow> (http_error, (string \<times> json) list \<times> string) result list" where
  "login_run lib e [] w = []"
| "login_run lib e (a # as) w =
     (case login lib (at_request a) e (at_password a) w of (r, w') \<Rightarrow> r # login_run lib e as w')"

definition refused :: "(http_error, 'a) result \<Rightarrow> bool" where
  "refused r \<longleftrightarrow> (case r of Inl (HttpError n _) \<Rightarrow> n = 401 | _ \<Rightarrow> False)"

definition in_clock_order :: "attempt list \<Rightarrow> bool" where
  "in_clock_order as \<longleftrightarrow> sorted (concat (map (\<lambda>a. [hr_time (at_request a) 0, hr_time (at_request a) 1]) as))"

text \<open>A login with a wrong password only moves the failures of its email.\<close>

lemma login_wrong:
  assumes "login lib rq e pw w = (r, w')"
    and wrong: "\<And>u. authenticate (al_scrypt lib) (clean_email e) pw (au_users w) \<noteq> Inr (Some u)"
  shows "au_users w' = au_users w \<and>
    dict_get (au_failures w') (clean_email e) = Some (recent_failures (hr_time rq 0) (clean_email e) w
      @ (if refused r then [hr_time rq 1] else [])) \<and>
    (refused r \<longrightarrow> length (recent_failures (hr_time rq 0) (clean_email e) w) < LOGIN_MAX_FAILURES)"
proof (cases "length (recent_failures (hr_time rq 0) (clean_email e) w) < LOGIN_MAX_FAILURES")
  case False
  then show ?thesis using assms(1)
    by (auto simp: login_def Let_def h_bind_def check_backoff_def refused_def split: if_splits)
next
  case True
  let ?e = "clean_email e"
  let ?w1 = "w\<lparr>au_failures := dict_put ?e (recent_failures (hr_time rq 0) ?e w) (au_failures w)\<rparr>"
  have chk: "check_backoff (hr_time rq 0) ?e w = (Inr (), ?w1)" using True by (simp add: check_backoff_def)
  have un: "\<not> refused (Inl (uncaught x))" for x by (cases x) (auto simp: refused_def)
  show ?thesis
  proof (cases "authenticate (al_scrypt lib) ?e pw (au_users w)")
    case (Inl x)
    then have "login lib rq e pw w = (Inl (uncaught x), ?w1)"
      by (simp add: login_def Let_def chk h_bind_def users_get_def)
    then show ?thesis using assms(1) un by auto
  next
    case (Inr found)
    with wrong have "authenticate (al_scrypt lib) ?e pw (au_users w) = Inr None" by (cases found) auto
    then show ?thesis using assms(1) True
      by (auto simp: login_def Let_def chk h_bind_def users_get_def record_failure_def h_lift_def refused_def)
  qed
qed

definition guesses :: "auth_lib \<Rightarrow> string \<Rightarrow> int \<Rightarrow> attempt list \<Rightarrow> auth_state \<Rightarrow> nat" where
  "guesses lib e t0 as w = length (filter (\<lambda>(a, r). refused r \<and> t0 \<le> hr_time (at_request a) 1 \<and>
     hr_time (at_request a) 1 < t0 + LOGIN_WINDOW) (zip as (login_run lib e as w)))"

lemma guesses_Cons:
  assumes "login lib (at_request a) e (at_password a) w = (r, w')"
  shows "guesses lib e t0 (a # as) w =
    (if refused r \<and> t0 \<le> hr_time (at_request a) 1 \<and> hr_time (at_request a) 1 < t0 + LOGIN_WINDOW then 1 else 0)
    + guesses lib e t0 as w'"
  using assms by (simp add: guesses_def)

lemma guesses_late:
  assumes "\<And>a. a \<in> set as \<Longrightarrow> t0 + LOGIN_WINDOW \<le> hr_time (at_request a) 1"
  shows "guesses lib e t0 as w = 0"
proof -
  have "t0 + LOGIN_WINDOW \<le> hr_time (at_request a) 1" if "(a, r) \<in> set (zip as (login_run lib e as w))" for a r
    using assms set_zip_leftD[OF that] by blast
  then have "\<forall>p \<in> set (zip as (login_run lib e as w)). \<not> (case p of (a, r) \<Rightarrow> refused r \<and>
     t0 \<le> hr_time (at_request a) 1 \<and> hr_time (at_request a) 1 < t0 + LOGIN_WINDOW)"
    by (fastforce simp: not_less)
  then show ?thesis by (simp add: guesses_def filter_empty_conv)
qed

lemma in_clock_order_Cons:
  "in_clock_order (a # as) \<longleftrightarrow> hr_time (at_request a) 0 \<le> hr_time (at_request a) 1 \<and> in_clock_order as \<and>
     (\<forall>b \<in> set as. hr_time (at_request a) 1 \<le> hr_time (at_request b) 0 \<and> hr_time (at_request a) 1 \<le> hr_time (at_request b) 1)"
  by (auto simp: in_clock_order_def)

definition window_failures :: "int \<Rightarrow> string \<Rightarrow> auth_state \<Rightarrow> nat" where
  "window_failures t0 email w = length (filter (\<lambda>t. t0 \<le> t \<and> t < t0 + LOGIN_WINDOW)
     (case dict_get (au_failures w) email of None \<Rightarrow> [] | Some ts \<Rightarrow> ts))"

lemma guesses_bound_from:
  assumes "in_clock_order as"
    and "\<And>a u. a \<in> set as \<Longrightarrow> authenticate (al_scrypt lib) (clean_email e) (at_password a) (au_users w) \<noteq> Inr (Some u)"
  shows "guesses lib e t0 as w \<le> LOGIN_MAX_FAILURES - window_failures t0 (clean_email e) w"
  using assms
proof (induction as arbitrary: w)
  case Nil
  then show ?case by (simp add: guesses_def)
next
  case (Cons a as)
  let ?tc = "hr_time (at_request a) 0" and ?tf = "hr_time (at_request a) 1" and ?e = "clean_email e"
  let ?in = "\<lambda>t. t0 \<le> t \<and> t < t0 + LOGIN_WINDOW"
  let ?ts = "case dict_get (au_failures w) ?e of None \<Rightarrow> [] | Some ts \<Rightarrow> ts"
  obtain r w' where r: "login lib (at_request a) e (at_password a) w = (r, w')" by force
  have ord: "?tc \<le> ?tf" "in_clock_order as" "\<forall>b \<in> set as. ?tf \<le> hr_time (at_request b) 1"
    using Cons.prems(1) by (auto simp: in_clock_order_Cons)
  note w' = login_wrong[OF r Cons.prems(2)[OF list.set_intros(1)]]
  have IH: "guesses lib e t0 as w' \<le> LOGIN_MAX_FAILURES - window_failures t0 ?e w'"
    using Cons.IH[OF ord(2), of w'] Cons.prems(2) w' by auto
  show ?case
  proof (cases "t0 + LOGIN_WINDOW \<le> ?tf")
    case True
    then have "guesses lib e t0 as w' = 0" using ord(3) by (intro guesses_late) (auto intro: order_trans)
    then show ?thesis using True by (simp add: guesses_Cons[OF r])
  next
    case False
    have "filter ?in (recent_failures ?tc ?e w) = filter ?in ?ts"
      using False ord(1) by (auto simp: recent_failures_def intro!: filter_cong)
    then have now: "window_failures t0 ?e w' = window_failures t0 ?e w + (if refused r \<and> ?in ?tf then 1 else 0)"
      and few: "refused r \<Longrightarrow> window_failures t0 ?e w < LOGIN_MAX_FAILURES"
      using w' length_filter_le[of ?in "recent_failures ?tc ?e w"] by (auto simp: window_failures_def)
    show ?thesis using IH now few by (auto simp: guesses_Cons[OF r])
  qed
qed

end
