(* ===== verification/Security_Properties.thy ===== *)
theory Security_Properties
  imports Api_Auth_Proofs Redaction Audit_Log
begin

text \<open>
  What the security layer promises: capability tokens, the role policy, the audit trail,
  redaction of secrets, and the accounts, sessions and logins of the API.  Each theorem is
  followed by an instance on concrete values.
\<close>

section \<open>Capability tokens\<close>

text \<open>C26. A token that \<open>mint\<close> returned is accepted by \<open>verify\<close> exactly until it expires and exactly
  for the scope it was minted for (an omitted check accepts any scope).\<close>

theorem minted_token_verifies:
  assumes "mint hmac key action environment project ttl subject nonce fresh issued extra = Inr t"
    and "\<forall>v \<in> snd ` set extra. wf_json v"
  shows "(\<exists>p. verify hmac key t a e pr now = Inr p) \<longleftrightarrow>
    now < issued + ttl \<and> a \<in> {None, Some action} \<and> e \<in> {None, Some environment} \<and> pr \<in> {None, Some project}"
proof -
  let ?n = "case nonce of None \<Rightarrow> fresh | Some n \<Rightarrow> if n = [] then fresh else n"
  let ?pl = "mint_payload action environment project ttl subject ?n issued extra"
  have res: "\<forall>k \<in> set (map fst extra). k \<notin> set RESERVED_CLAIMS" and t: "t = encode_token hmac key ?pl"
    using assms(1) by (auto simp: mint_def split: if_splits)
  have v: "verify hmac key t a e pr now = check_claims (sorted_payload ?pl) a e pr now"
    unfolding t by (rule verify_encoded[OF mint_payload_json[OF assms(2)]])
  show ?thesis unfolding v check_claims_Inr_iff
    by (cases a; cases e; cases pr)
      (auto simp: dict_get_sorted_payload[OF mint_payload_wf] mint_payload_get[OF res])
qed

theorem minted_token_verifies_witness:
  "\<exists>t. mint (\<lambda>k m. m) (KeyStr ''k'') ''backup'' ''staging'' ''shop'' 300 None (Some ''n1'') ''f'' 1000 [] = Inr t \<and>
     (\<exists>p. verify (\<lambda>k m. m) (KeyStr ''k'') t (Some ''backup'') (Some ''staging'') (Some ''shop'') 1299 = Inr p)"
proof -
  obtain t where t: "mint (\<lambda>k m. m) (KeyStr ''k'') ''backup'' ''staging'' ''shop'' 300 None (Some ''n1'') ''f'' 1000 [] = Inr t"
    by (simp add: mint_def)
  have "\<exists>p. verify (\<lambda>k m. m) (KeyStr ''k'') t (Some ''backup'') (Some ''staging'') (Some ''shop'') 1299 = Inr p"
    by (subst minted_token_verifies[OF t]) simp_all
  with t show ?thesis by blast
qed

text \<open>C25. A signature cannot be moved to other content: two accepted tokens that carry the same
  signature are the same token, or exhibit two messages with one digest.\<close>

theorem signature_binds_content:
  assumes "verify hmac key t a e pr now = Inr p" "verify hmac key t' a' e' pr' now' = Inr p'"
    and "last (split_on (CHR ''.'') t) = last (split_on (CHR ''.'') t')"
  shows "t = t' \<or> (\<exists>m m'. m \<noteq> m' \<and> hmac (coerce_key key) m = hmac (coerce_key key) m')"
proof -
  obtain h b s where t: "split_on (CHR ''.'') t = [h, b, s]"
    "s = token_sign hmac (coerce_key key) (utf8_encode (h @ ''.'' @ b))"
    by (rule verify_three_parts[OF assms(1)]) blast
  obtain h' b' s' where t': "split_on (CHR ''.'') t' = [h', b', s']"
    "s' = token_sign hmac (coerce_key key) (utf8_encode (h' @ ''.'' @ b'))"
    by (rule verify_three_parts[OF assms(2)]) blast
  let ?m = "utf8_encode (h @ ''.'' @ b)" and ?m' = "utf8_encode (h' @ ''.'' @ b')"
  have "s = s'" using assms(3) t(1) t'(1) by simp
  then have eq: "hmac (coerce_key key) ?m = hmac (coerce_key key) ?m'"
    using t(2) t'(2) unfolding token_sign_def by (metis b64_roundtrip option.inject)
  show ?thesis
  proof (cases "?m = ?m'")
    case True
    then have "h @ ''.'' @ b = h' @ ''.'' @ b'" by (rule utf8_inj)
    moreover have "t = (h @ ''.'' @ b) @ ''.'' @ s" "t' = (h' @ ''.'' @ b') @ ''.'' @ s'"
      using join_split_on[of "CHR ''.''" t] join_split_on[of "CHR ''.''" t'] t(1) t'(1) by auto
    ultimately show ?thesis using \<open>s = s'\<close> by simp
  qed (use eq in blast)
qed

definition blank_mac :: mac where
  "blank_mac k m = []"

theorem signature_binds_content_witness:
  "\<exists>t t' p p'. p \<noteq> p' \<and> verify blank_mac (KeyStr ''k'') t None None None 7 = Inr p \<and>
     verify blank_mac (KeyStr ''k'') t' None None None 7 = Inr p' \<and>
     (t = t' \<or> (\<exists>m m'. m \<noteq> m' \<and> blank_mac (coerce_key (KeyStr ''k'')) m = blank_mac (coerce_key (KeyStr ''k'')) m'))"
proof -
  have ex: "\<exists>t. verify blank_mac (KeyStr ''k'') t None None None 7 = Inr [(''exp'', JInt n)] \<and> last (split_on (CHR ''.'') t) = []"
    if "7 < n" for n
  proof -
    let ?t = "encode_token blank_mac (KeyStr ''k'') [(''exp'', JInt n)]"
    have "verify blank_mac (KeyStr ''k'') ?t None None None 7 = Inr [(''exp'', JInt n)]"
      using that by (subst verify_encoded) (simp_all add: check_claims_Inr_iff sorted_payload_def)
    moreover have "last (split_on (CHR ''.'') ?t) = []"
      by (simp add: encode_token_def Let_def split_token token_sign_def blank_mac_def)
    ultimately show ?thesis by blast
  qed
  obtain t where t: "verify blank_mac (KeyStr ''k'') t None None None 7 = Inr [(''exp'', JInt 9)]" "last (split_on (CHR ''.'') t) = []"
    using ex[of 9] by auto
  obtain t' where t': "verify blank_mac (KeyStr ''k'') t' None None None 7 = Inr [(''exp'', JInt 8)]" "last (split_on (CHR ''.'') t') = []"
    using ex[of 8] by auto
  have "last (split_on (CHR ''.'') t) = last (split_on (CHR ''.'') t')" using t(2) t'(2) by simp
  from signature_binds_content[OF t(1) t'(1) this] t(1) t'(1) show ?thesis
    by (intro exI[of _ t] exI[of _ t'] exI[of _ "[(''exp'', JInt 9)]"] exI[of _ "[(''exp'', JInt 8)]"]) simp
qed

section \<open>Roles\<close>

text \<open>Authorization is decided by the strongest role alone: the check passes exactly when the
  action is one of that role's allowed actions, with the administrator floor on protected
  environments.\<close>

lemma authorization_by_max_role:
  "require_rbac p a protected = Inr () \<longleftrightarrow>
     (\<exists>m. max_role (principal_roles p) = Some m \<and> a \<in> allowed_actions m protected)"
  unfolding require_iff_allowed by (rule is_allowed_allowed_actions)

text \<open>A stronger role is never denied what a weaker one is granted.\<close>

lemma authorization_monotone:
  assumes "require_rbac p a protected = Inr ()" "r \<in> principal_roles q"
    "\<forall>s \<in> principal_roles p. role_rank s \<le> role_rank r"
  shows "require_rbac q a protected = Inr ()"
proof -
  obtain m where m: "max_role (principal_roles p) = Some m" "a \<in> allowed_actions m protected"
    using assms(1) by (auto simp: require_iff_allowed is_allowed_allowed_actions)
  have fin: "finite (principal_roles p)" "finite (principal_roles q)" by (rule finite)+
  have "principal_roles p \<noteq> {}" "m = Max (principal_roles p)"
    using m(1) by (simp_all add: max_role_def split: if_splits)
  then have "m \<in> principal_roles p" using Max_in[OF fin(1)] by simp
  then have "m \<le> r" using assms(3) by (simp add: less_eq_Role_def)
  moreover have "r \<le> Max (principal_roles q)" by (rule Max_ge[OF fin(2) assms(2)])
  ultimately have "a \<in> allowed_actions (Max (principal_roles q)) protected"
    using allowed_actions_mono m(2) order_trans by blast
  moreover have "max_role (principal_roles q) = Some (Max (principal_roles q))"
    using assms(2) by (auto simp: max_role_def)
  ultimately show ?thesis by (auto simp: require_iff_allowed is_allowed_allowed_actions)
qed

theorem authorization_monotone_witness:
  "require_rbac (service_principal ''ops'' ''acme'' {ADMIN}) A_BACKUP True = Inr ()"
  by (rule authorization_monotone[where p = "service_principal ''ci'' ''acme'' {OPERATOR}" and r = ADMIN])
    (simp_all add: require_rbac_def roles_allow_def service_principal_def rbac_defs)

section \<open>Audit trail\<close>

definition append_all :: "hashes \<Rightarrow> string option \<Rightarrow> AuditEntry list \<Rightarrow> audit_fs \<Rightarrow> audit_fs" where
  "append_all H key es s = fold (\<lambda>e s. fst (audit_append H key e s)) es s"

lemma append_all_inv:
  "audit_inv H key s \<Longrightarrow> \<forall>e \<in> set es. audit_wf e \<Longrightarrow>
   audit_inv H key (append_all H key es s) \<and>
   map au_op_id (load_chain (append_all H key es s)) = map au_op_id (load_chain s) @ map au_op_id es"
proof (induction es arbitrary: s)
  case (Cons e es)
  have "au_op_id (snd (audit_append H key e s)) = au_op_id e"
    by (simp add: audit_append_def seal_entry_def Let_def)
  with Cons.IH[OF audit_inv_append(1)[OF Cons.prems(1), of e]] Cons.prems audit_inv_append(2)[OF Cons.prems(1), of e]
  show ?case by (simp add: append_all_def)
qed (simp add: append_all_def)


definition demo_hashes :: hashes where
  "demo_hashes = \<lparr>sha = (\<lambda>m. ''s''), mac = (\<lambda>k m. ''m'')\<rparr>"

definition demo_entry :: "string \<Rightarrow> AuditEntry" where
  "demo_entry i = \<lparr>au_actor = ''ops'', au_action = ''backup'', au_target = ''staging'', au_params_redacted = JObj [],
     au_outcome = ''succeeded'', au_op_id = i, au_timestamp = ''t'', au_prev_hash = [], au_current_hash = []\<rparr>"

lemma demo_hashes_ascii: "ascii_digest demo_hashes key" "\<forall>m. digest demo_hashes key m \<noteq> []"
  by (simp_all add: ascii_digest_def digest_def demo_hashes_def is_ascii_def split: option.split)

lemma demo_digest: "digest demo_hashes None m = ''s''"
  by (simp add: digest_def demo_hashes_def)

lemma demo_entry_wf: "audit_wf (demo_entry i)"
  by (simp add: audit_wf_def demo_entry_def)


text \<open>C24. Tampering shows: two trails that both verify and end in the same hash have the same entries
  (up to the order of keys inside recorded parameters), or exhibit a collision of the digest.\<close>

theorem audit_tamper_evident:
  assumes "audit_verify H key s = Inr True" "audit_verify H key s' = Inr True"
    and "\<forall>e \<in> set (load_chain s). audit_wf e" "\<forall>e \<in> set (load_chain s'). audit_wf e"
    and "load_chain s \<noteq> []" "load_chain s' \<noteq> []"
    and "au_current_hash (last (load_chain s)) = au_current_hash (last (load_chain s'))"
    and "\<forall>m. digest H key m \<noteq> []"
  shows "list_all2 same_content (load_chain s) (load_chain s') \<or> digest_collision H key"
proof -
  have "verify_links H key [] (load_chain t)" if "audit_verify H key t = Inr True" for t
    using that by (auto simp: audit_verify_def Let_def split: if_splits)
  then show ?thesis using chains_agree[of H key "load_chain s" "load_chain s'"] assms by blast
qed

theorem audit_tamper_evident_witness:
  "\<exists>s s'. load_chain s \<noteq> load_chain s' \<and>
    (list_all2 same_content (load_chain s) (load_chain s') \<or> digest_collision demo_hashes None)"
proof -
  let ?s = "\<lambda>i. append_all demo_hashes None [demo_entry i] audit_init"
  have c: "load_chain (?s i) = [seal_entry demo_hashes None [] (demo_entry i)]" for i
  proof -
    have "load_chain audit_init = []" "last_hash audit_init = []"
      using load_chain_lines[of "[]" audit_init] last_hash_lines[of "[]" audit_init]
      by (simp_all add: audit_init_def audit_file_text_def)
    then show ?thesis using audit_inv_append(2)[OF audit_inv_init demo_entry_wf, of demo_hashes None i]
      by (simp add: append_all_def audit_append_def Let_def)
  qed
  have v: "audit_verify demo_hashes None (?s i) = Inr True" for i
    using append_all_inv[OF audit_inv_init, of "[demo_entry i]" demo_hashes None] audit_inv_verify[OF demo_hashes_ascii(1)]
    by (simp add: demo_entry_wf)
  have "list_all2 same_content (load_chain (?s ''a'')) (load_chain (?s ''b'')) \<or> digest_collision demo_hashes None"
    by (rule audit_tamper_evident[OF v v])
      (simp_all add: c demo_entry_wf demo_hashes_ascii hash_entry_def demo_digest)
  moreover have "load_chain (?s ''a'') \<noteq> load_chain (?s ''b'')"
    unfolding c by (simp add: seal_entry_def Let_def demo_entry_def)
  ultimately show ?thesis by blast
qed

section \<open>Redaction\<close>

text \<open>A sensitive environment value never survives in a message passed through
  \<open>redact\<close>, whatever the other variables are and whatever the message says.\<close>

lemma shell_redact_hides:
  assumes "(k, v) \<in> set env" "is_sensitive k v" "star_free v"
  shows "\<not> contains_str v (shell_redact env t)"
  by (rule shell_redact_absent[OF assms(2,3,1)])

lemma shell_redact_hides_witness:
  "\<not> contains_str ''hunter22'' (shell_redact [(''PATH'', ''/bin''), (''DB_PASSWORD'', ''hunter22'')] ''login hunter22 refused'')"
  by (rule shell_redact_hides[where k = "''DB_PASSWORD''"]) (code_simp+)

text \<open>The order of the environment matters: the shorter value is replaced inside the longer one,
  whose tail stays readable.\<close>

lemma shell_redact_prefix_leak:
  "shell_redact [(''A_TOKEN'', ''abcdef''), (''B_TOKEN'', ''abcdef-9876'')] ''key abcdef-9876'' = ''key ***REDACTED***-9876''"
  by code_simp


text \<open>The brackets are enough even when the text between them is no reference.\<close>

lemma redact_keeps_bracketed:
  "redact_json [] (JObj [(''db_password'', JStr ''${A}hunter22}'')]) = JObj [(''db_password'', JStr ''${A}hunter22}'')]"
  by code_simp

section \<open>Accounts, sessions and logins\<close>

text \<open>C2. No privilege escalation: in any history of account requests whose askers have rank at most
  \<open>k\<close> when they are served, the accounts above \<open>k\<close> stay exactly as they were; none is changed,
  removed, created or promoted.  (Ids are distinct, and drawn ids are new.)\<close>

theorem no_privilege_escalation:
  assumes "accounts_reach lib k w0 w" "users_load (au_users w0) = Inr us" "distinct (map ur_id us)"
  shows "\<exists>us'. users_load (au_users w) = Inr us' \<and> distinct (map ur_id us') \<and>
    filter (above k) us' = filter (above k) us"
  using reach_keeps[OF assms] by (simp add: keeps_above_def)

definition demo_user :: "string \<Rightarrow> Role \<Rightarrow> UserRecord" where
  "demo_user i r = \<lparr>ur_id = i, ur_email = i @ ''@x.io'', ur_name = i, ur_org_id = ''default'', ur_roles = [role_value r],
     ur_password_hash = ''scrypt$16384$8$1$61$62'', ur_provider = ''password'', ur_provider_subject = [],
     ur_disabled = False, ur_created_at = ''t'', ur_password_updated_at = ''t''\<rparr>"

definition demo_lib :: auth_lib where
  "demo_lib = \<lparr>al_hmac = blank_mac, al_sha = (\<lambda>m. m),
     al_scrypt = (\<lambda>pw salt n r p l. if length pw < 8 then Some ''b'' else Some ''c''), al_key = replicate 32 (CHR ''k'')\<rparr>"

definition demo_request :: request where
  "demo_request = \<lparr>hr_authorization = None, hr_cookie = Some ''sid1'', hr_time = (\<lambda>n. int n), hr_utc = ''t'',
     hr_salt = ''a'', hr_uid = ''new'', hr_sid = ''sid2''\<rparr>"

definition demo_session :: "string \<Rightarrow> SessionRecord" where
  "demo_session i = \<lparr>sr_sid_hash = ''sid1'', sr_user_id = i, sr_created_at = 0, sr_expires_at = 100\<rparr>"

definition demo_accounts :: "UserRecord list" where
  "demo_accounts = [demo_user ''boss'' OWNER, demo_user ''amy'' ADMIN, demo_user ''tom'' VIEWER]"

definition demo_state :: auth_state where
  "demo_state = \<lparr>au_users = Some (users_text demo_accounts), au_sessions = Some (sessions_text [demo_session ''amy'']),
     au_failures = []\<rparr>"

lemma demo_digest_sid: "sid_digest (al_sha demo_lib) ''sid1'' = ''sid1''"
  by (simp add: sid_digest_def demo_lib_def utf8_ascii is_ascii_def)

definition demo_info_of :: "UserRecord \<Rightarrow> auth_info" where
  "demo_info_of u = \<lparr>ai_principal = to_principal u, ai_project = ''*'',
      ai_session_sid = Some ''sid1'', ai_session_user = Some ''amy''\<rparr>"

abbreviation demo_info :: auth_info where
  "demo_info \<equiv> demo_info_of (demo_user ''amy'' ADMIN)"

lemma demo_principal:
  assumes "au_users w = Some (users_text us)" "List.find (\<lambda>u. ur_id u = ''amy'') us = Some u"
    "ur_id u = ''amy''" "\<not> ur_disabled u" "au_sessions w = Some (sessions_text [demo_session ''amy''])"
  shows "get_principal demo_lib demo_request w = (Inr (demo_info_of u), w)"
proof -
  have k: "\<not> length (al_key demo_lib) < MIN_API_KEY_LENGTH" by (simp add: demo_lib_def MIN_API_KEY_LENGTH_def)
  have s: "session_get (al_sha demo_lib) ''sid1'' (whole_seconds (hr_time demo_request 0)) (au_sessions w)
      = Inr (Some (demo_session ''amy''))"
    by (simp add: session_get_def assms(5) demo_digest_sid demo_session_def demo_request_def whole_seconds_def)
  have u: "user_get (sr_user_id (demo_session ''amy'')) (au_users w) = Inr u"
    using assms(2) by (simp add: user_get_def assms(1) find_user_def demo_session_def)
  have r: "present (hr_authorization demo_request) = None" "present (hr_cookie demo_request) = Some ''sid1''"
    by (simp_all add: demo_request_def present_def)
  show ?thesis
    using assms(3,4)
    by (simp add: get_principal_def k r principal_from_session_def h_bind_def sessions_get_def s users_get_def u h_lift_def
        demo_info_of_def)
qed

lemma demo_user_fields: "ur_id (demo_user i r) = i" "\<not> ur_disabled (demo_user i r)"
  by (simp_all add: demo_user_def)

lemma demo_roles: "role_set (demo_user i r) = {r}"
  by (simp add: role_set_def demo_user_def)

lemma demo_rank: "principal_rank (to_principal (demo_user i r)) = int (role_rank r)"
  by (simp add: principal_rank_def to_principal_def demo_roles max_role_def)

lemma demo_asks: "get_principal demo_lib demo_request demo_state = (Inr demo_info, demo_state)"
  by (rule demo_principal[where us = demo_accounts]) (simp_all add: demo_state_def demo_accounts_def demo_user_fields)

text \<open>An administrator deletes a viewer; the owner's account stays.\<close>

theorem no_privilege_escalation_witness:
  "\<exists>us'. users_load (au_users (serve_account demo_lib demo_request (DeleteUser ''tom'') demo_state)) = Inr us' \<and>
     distinct (map ur_id us') \<and> filter (above 2) us' = filter (above 2) demo_accounts"
proof -
  have "asks_below demo_lib 2 demo_request demo_state" by (simp add: asks_below_def demo_asks demo_rank demo_info_of_def)
  moreover have "fresh_uid demo_request demo_state"
    by (simp add: fresh_uid_def demo_state_def demo_accounts_def demo_user_def demo_request_def)
  ultimately have "accounts_reach demo_lib 2 demo_state (serve_account demo_lib demo_request (DeleteUser ''tom'') demo_state)"
    by (intro accounts_reach.serve accounts_reach.start)
  moreover have "users_load (au_users demo_state) = Inr demo_accounts" by (simp add: demo_state_def)
  moreover have "distinct (map ur_id demo_accounts)" by (simp add: demo_accounts_def demo_user_def)
  ultimately show ?thesis by (rule no_privilege_escalation)
qed

text \<open>C27. Revocation takes effect at once: after an account was disabled or deleted, or its password reset by
  an administrator, no request that carries a session cookie acts for it.\<close>

theorem revoked_sessions_rejected:
  assumes "patch_user lib rq uid roles (Some True) name w = (Inr v, w') \<or> delete_user lib rq uid w = (Inr (), w') \<or>
      reset_password lib rq uid new w = (Inr (), w')"
    and "get_principal lib rq2 w' = (Inr i, w2)" "cookie_request rq2"
  shows "ai_session_user i \<noteq> Some uid"
  using assms(1) disabled_out[OF _ assms(2,3)] deleted_out[OF _ assms(2,3)] reset_password_sessions[OF _ assms(2,3)]
  by blast

theorem revoked_sessions_rejected_witness:
  "\<exists>w' i. delete_user demo_lib demo_request ''tom'' demo_state = (Inr (), w') \<and>
     get_principal demo_lib demo_request w' = (Inr i, w') \<and> ai_session_user i \<noteq> Some ''tom''"
proof -
  let ?us = "[demo_user ''boss'' OWNER, demo_user ''amy'' ADMIN]"
  let ?w' = "demo_state\<lparr>au_users := Some (users_text ?us)\<rparr>"
  have act: "require_action demo_lib demo_request A_USERS demo_state = (Inr demo_info, demo_state)"
    unfolding require_action_Inr using demo_asks
    by (simp add: is_allowed_def roles_allow_def to_principal_def demo_roles rbac_defs demo_info_of_def)
  have tom: "load_target ''tom'' demo_state = (Inr (demo_user ''tom'' VIEWER), demo_state)"
    by (simp add: load_target_def users_get_def user_get_def demo_state_def find_user_def demo_accounts_def demo_user_def)
  have rank: "require_outranks_target (ai_principal demo_info) (demo_user ''tom'' VIEWER) ''delete'' = Inr ()"
    by (simp add: require_outranks_iff above_def demo_roles demo_rank demo_info_of_def)
  have self: "\<not> is_self demo_info (demo_user ''tom'' VIEWER)"
    by (simp add: is_self_def demo_user_fields to_principal_def demo_info_of_def) (simp add: demo_user_def)
  have del: "user_delete ''tom'' (au_users demo_state) = Inr (Some (users_text ?us))"
    by (simp add: user_delete_def demo_state_def demo_accounts_def demo_user_fields)
  have ses: "revoke_user (al_sha demo_lib) ''tom'' None (au_sessions demo_state) = Inr (au_sessions demo_state, 0)"
    by (simp add: revoke_user_def demo_state_def kept_session_def demo_session_def)
  have "delete_user demo_lib demo_request ''tom'' demo_state = (Inr (), ?w')"
    using rank self del ses
    by (simp add: delete_user_def h_bind_def act tom h_lift_def users_put_def sessions_put_def demo_user_fields)
  moreover have "get_principal demo_lib demo_request ?w' = (Inr demo_info, ?w')"
    by (rule demo_principal[where us = ?us]) (simp_all add: demo_state_def demo_user_fields)
  moreover have "cookie_request demo_request" by (simp add: cookie_request_def demo_request_def present_def)
  ultimately show ?thesis using revoked_sessions_rejected[of demo_lib demo_request "''tom''"] by blast
qed

text \<open>A cookie never stands for anything but an enabled account with its current roles: an accepted
  cookie request has an unexpired session record, and its principal is computed from the account
  record as it is now.\<close>

lemma cookie_stands_for_live_account:
  assumes "get_principal lib rq w = (Inr i, w')" "cookie_request rq"
  shows "\<exists>sid r us u. present (hr_cookie rq) = Some sid \<and>
    session_get (al_sha lib) sid (whole_seconds (hr_time rq 0)) (au_sessions w) = Inr (Some r) \<and>
    whole_seconds (hr_time rq 0) < sr_expires_at r \<and>
    users_load (au_users w) = Inr us \<and> u \<in> set us \<and> ur_id u = sr_user_id r \<and> \<not> ur_disabled u \<and>
    ai_principal i = to_principal u"
proof -
  from cookie_principal[OF assms] obtain sid r us u where c: "present (hr_cookie rq) = Some sid"
    "session_get (al_sha lib) sid (whole_seconds (hr_time rq 0)) (au_sessions w) = Inr (Some r)"
    "users_load (au_users w) = Inr us" "u \<in> set us" "ur_id u = sr_user_id r" "\<not> ur_disabled u"
    "i = \<lparr>ai_principal = to_principal u, ai_project = ''*'', ai_session_sid = Some sid, ai_session_user = Some (ur_id u)\<rparr>"
    by blast
  with session_get_Some[OF c(2)] show ?thesis by auto
qed

lemma cookie_stands_for_live_account_witness:
  "\<exists>i sid. get_principal demo_lib demo_request demo_state = (Inr i, demo_state) \<and>
     present (hr_cookie demo_request) = Some sid \<and> ai_principal i = to_principal (demo_user ''amy'' ADMIN)"
proof -
  have "cookie_request demo_request" by (simp add: cookie_request_def demo_request_def present_def)
  from cookie_stands_for_live_account[OF demo_asks this] demo_asks show ?thesis
    by (auto simp: demo_info_of_def)
qed

text \<open>A password change ends every other session: a cookie that still acts for the account has the
  digest of the session that changed the password.\<close>

lemma password_change_ends_other_sessions:
  assumes "change_password lib rq cur new w = (Inr (), w')" "get_principal lib rq w = (Inr i, w)"
    "ai_session_user i = Some uid"
    "get_principal lib rq2 w' = (Inr j, w2)" "cookie_request rq2" "ai_session_user j = Some uid"
  shows "\<exists>s s2. ai_session_sid i = Some s \<and> present (hr_cookie rq2) = Some s2 \<and>
    sid_digest (al_sha lib) s2 = sid_digest (al_sha lib) s"
  by (rule change_password_sessions[OF assms])

lemma password_change_ends_other_sessions_witness:
  "\<exists>w' j. change_password demo_lib demo_request ''old'' ''newsecret'' demo_state = (Inr (), w') \<and>
     get_principal demo_lib demo_request w' = (Inr j, w') \<and> ai_session_user j = Some ''amy'' \<and>
     present (hr_cookie demo_request) = Some ''sid1''"
proof -
  let ?h = "''scrypt$16384$8$1$61$63''"
  let ?amy = "(demo_user ''amy'' ADMIN)\<lparr>ur_password_hash := ?h, ur_password_updated_at := ''t''\<rparr>"
  let ?us = "[demo_user ''boss'' OWNER, ?amy, demo_user ''tom'' VIEWER]"
  let ?w' = "demo_state\<lparr>au_users := Some (users_text ?us)\<rparr>"
  have info: "ai_session_user demo_info = Some ''amy''" "ai_session_sid demo_info = Some ''sid1''"
    by (simp_all add: demo_info_of_def)
  have get: "user_get ''amy'' (au_users demo_state) = Inr (demo_user ''amy'' ADMIN)"
    by (simp add: user_get_def demo_state_def find_user_def demo_accounts_def demo_user_fields)
  have old: "verify_password (al_scrypt demo_lib) (ur_password_hash (demo_user ''amy'' ADMIN)) ''old''"
    by (simp add: demo_user_def) code_simp
  have hash: "hash_password (al_scrypt demo_lib) (hr_salt demo_request) ''newsecret'' = Some ?h" by code_simp
  have set: "set_password (al_scrypt demo_lib) (hr_salt demo_request) (hr_utc demo_request) ''amy'' ''newsecret'' (au_users demo_state)
      = Inr (Some (users_text ?us), ?amy)"
    by (simp add: set_password_def validate_password_def MIN_PASSWORD_LENGTH_def hash user_mutate_def demo_state_def
        demo_accounts_def demo_user_fields) (simp add: demo_request_def)
  have ses: "revoke_user (al_sha demo_lib) ''amy'' (Some ''sid1'') (au_sessions demo_state) = Inr (au_sessions demo_state, 0)"
    by (simp add: revoke_user_def demo_state_def kept_session_def demo_digest_sid) (simp add: demo_session_def)
  have ch: "change_password demo_lib demo_request ''old'' ''newsecret'' demo_state = (Inr (), ?w')"
    using old set ses
    by (simp add: change_password_def h_bind_def demo_asks info users_get_def get users_put_def sessions_put_def
        demo_user_fields h_lift_def)
  have ask: "get_principal demo_lib demo_request ?w' = (Inr (demo_info_of ?amy), ?w')"
    by (rule demo_principal[where us = ?us]) (simp_all add: demo_state_def demo_user_fields)
  have user: "ai_session_user (demo_info_of ?amy) = Some ''amy''" by (simp add: demo_info_of_def)
  have "cookie_request demo_request" by (simp add: cookie_request_def demo_request_def present_def)
  from password_change_ends_other_sessions[OF ch demo_asks info(1) ask this user] ch ask user
  show ?thesis by (auto simp: demo_request_def present_def)
qed


definition demo_attempt :: "int \<Rightarrow> attempt" where
  "demo_attempt t = \<lparr>at_request = demo_request\<lparr>hr_time := (\<lambda>n. t)\<rparr>, at_password = ''wrong-guess''\<rparr>"


text \<open>A login succeeds only for an enabled account whose password verifies, and then its cookie acts for
  exactly that account, with its current roles, until twelve hours have passed.\<close>

lemma login_session_works:
  assumes "login lib rq e pw w = (Inr (body, sid), w')"
    and "\<And>rs r. sessions_load (au_sessions w) = Inr rs \<Longrightarrow> r \<in> set rs \<Longrightarrow> sr_sid_hash r \<noteq> sid_digest (al_sha lib) (hr_sid rq)"
    and "\<And>us. users_load (au_users w) = Inr us \<Longrightarrow> distinct (map ur_id us)"
  shows "\<exists>us u. users_load (au_users w) = Inr us \<and> u \<in> set us \<and> \<not> ur_disabled u \<and>
    verify_password (al_scrypt lib) (ur_password_hash u) pw \<and> sid = hr_sid rq \<and>
    (\<forall>t. fst (principal_from_session lib sid t w') =
       (if t < whole_seconds (hr_time rq 1) + DEFAULT_SESSION_TTL_SECONDS
        then Inr \<lparr>ai_principal = to_principal u, ai_project = ''*'', ai_session_sid = Some sid, ai_session_user = Some (ur_id u)\<rparr>
        else Inl (HttpError 401 ''Session expired or revoked'')))"
proof -
  obtain us u where u: "users_load (au_users w) = Inr us" "u \<in> set us" "\<not> ur_disabled u" "sid = hr_sid rq"
    "verify_password (al_scrypt lib) (ur_password_hash u) pw" "au_users w' = au_users w"
    and c: "session_create (al_sha lib) (hr_sid rq) (ur_id u) DEFAULT_SESSION_TTL_SECONDS (whole_seconds (hr_time rq 1))
      (au_sessions w) = Inr (au_sessions w', sid)"
    using login_Inr[OF assms(1)] by blast
  have find: "List.find (\<lambda>v. ur_id v = ur_id u) us = Some u"
  proof (cases "List.find (\<lambda>v. ur_id v = ur_id u) us")
    case None
    then show ?thesis using u(2) by (auto simp: find_None_iff)
  next
    case (Some v)
    then have "v \<in> set us \<and> ur_id v = ur_id u" by (rule find_SomeD)
    then have "v = u" using u(2) assms(3)[OF u(1)] by (auto simp: distinct_map inj_on_def)
    with Some show ?thesis by simp
  qed
  have get: "user_get (ur_id u) (au_users w') = Inr u" by (simp add: user_get_def u(1,6) find_user_def find)
  note s = session_create_get(2)[OF c assms(2), simplified]
  have "fst (principal_from_session lib sid t w') =
       (if t < whole_seconds (hr_time rq 1) + DEFAULT_SESSION_TTL_SECONDS
        then Inr \<lparr>ai_principal = to_principal u, ai_project = ''*'', ai_session_sid = Some sid, ai_session_user = Some (ur_id u)\<rparr>
        else Inl (HttpError 401 ''Session expired or revoked''))" for t
    using s u(3) by (simp add: principal_from_session_def h_bind_def sessions_get_def users_get_def u(4) get h_lift_def)
  with u show ?thesis by blast
qed

lemma login_session_works_witness:
  "\<exists>body w' i. login demo_lib demo_request ''Amy@x.io'' ''old'' demo_state = (Inr (body, ''sid2''), w') \<and>
     fst (principal_from_session demo_lib ''sid2'' 43199 w') = Inr i \<and>
     fst (principal_from_session demo_lib ''sid2'' 43200 w') = Inl (HttpError 401 ''Session expired or revoked'')"
proof -
  have e: "clean_email ''Amy@x.io'' = ''amy@x.io''" "clean_email ''amy@x.io'' = ''amy@x.io''" by code_simp+
  have old: "verify_password (al_scrypt demo_lib) (ur_password_hash (demo_user ''amy'' ADMIN)) ''old''"
    by (simp add: demo_user_def) code_simp
  have mail: "ur_email (demo_user i r) = i @ ''@x.io''" "ur_password_hash (demo_user i r) \<noteq> []" for i r
    by (simp_all add: demo_user_def)
  have a: "authenticate (al_scrypt demo_lib) ''amy@x.io'' ''old'' (au_users demo_state) = Inr (Some (demo_user ''amy'' ADMIN))"
    using old by (simp add: authenticate_def user_get_by_email_def demo_state_def demo_accounts_def find_user_def e mail demo_user_fields)
  have d: "sid_digest (al_sha demo_lib) (hr_sid demo_request) = ''sid2''"
    by (simp add: sid_digest_def demo_lib_def demo_request_def utf8_ascii is_ascii_def)
  have t: "hr_time demo_request (Suc 0) = 1" "hr_sid demo_request = ''sid2''" by (simp_all add: demo_request_def)
  have "\<exists>body w'. login demo_lib demo_request ''Amy@x.io'' ''old'' demo_state = (Inr (body, ''sid2''), w')"
    by (simp add: login_def Let_def e h_bind_def check_backoff_def recent_failures_def LOGIN_MAX_FAILURES_def users_get_def
        a[unfolded demo_state_def, simplified]
        clear_failures_def sessions_put_def session_create_def DEFAULT_SESSION_TTL_SECONDS_def h_lift_def t demo_state_def)
  then obtain body w' where l: "login demo_lib demo_request ''Amy@x.io'' ''old'' demo_state = (Inr (body, ''sid2''), w')" by blast
  have "\<And>rs r. sessions_load (au_sessions demo_state) = Inr rs \<Longrightarrow> r \<in> set rs \<Longrightarrow>
      sr_sid_hash r \<noteq> sid_digest (al_sha demo_lib) (hr_sid demo_request)"
    by (auto simp: demo_state_def d demo_session_def)
  moreover have "\<And>us. users_load (au_users demo_state) = Inr us \<Longrightarrow> distinct (map ur_id us)"
    by (auto simp: demo_state_def demo_accounts_def demo_user_fields)
  ultimately obtain u where u: "\<forall>t. fst (principal_from_session demo_lib ''sid2'' t w') =
       (if t < whole_seconds (hr_time demo_request 1) + DEFAULT_SESSION_TTL_SECONDS
        then Inr \<lparr>ai_principal = to_principal u, ai_project = ''*'', ai_session_sid = Some ''sid2'', ai_session_user = Some (ur_id u)\<rparr>
        else Inl (HttpError 401 ''Session expired or revoked''))"
    using login_session_works[OF l] by blast
  have ttl: "whole_seconds (hr_time demo_request 1) + DEFAULT_SESSION_TTL_SECONDS = 43200"
    by (simp add: t whole_seconds_def DEFAULT_SESSION_TTL_SECONDS_def)
  have "\<exists>i. fst (principal_from_session demo_lib ''sid2'' 43199 w') = Inr i"
    "fst (principal_from_session demo_lib ''sid2'' 43200 w') = Inl (HttpError 401 ''Session expired or revoked'')"
    unfolding u[rule_format] ttl by simp_all
  with l show ?thesis by blast
qed

end
