(* ===== verification/Db_Names.thy ===== *)
theory Db_Names
  imports Encoding Py_Text
begin

text \<open>
  The names and statements of \<open>odooctl/odoo/db_swap.py\<close>: quoting, the SQL texts of the
  three commands, validation of database names and the deterministic name of the database
  moved aside.  SHA-256 (as hexadecimal text) is the argument \<open>sha\<close>.
\<close>

section \<open>Statements\<close>

abbreviation dq :: char where "dq \<equiv> CHR 0x22"
abbreviation NUL :: char where "NUL \<equiv> CHR 0x00"

definition double_char :: "char \<Rightarrow> string \<Rightarrow> string" where
  "double_char q s = concat (map (\<lambda>c. if c = q then [q, q] else [c]) s)"

definition quote_identifier :: "string \<Rightarrow> (py_error, string) result" where
  "quote_identifier name =
     (if NUL \<in> set name then Inl (ValueErr ''database name cannot contain NUL bytes'')
      else Inr (dq # double_char dq name @ [dq]))"

definition quote_literal :: "string \<Rightarrow> string" where
  "quote_literal v = squote # double_char squote v @ [squote]"

datatype statement = Terminate string | DropDb string | RenameDb string string

text \<open>The texts \<open>terminate_connections\<close>, \<open>drop_database\<close> and \<open>rename_database\<close> send.\<close>

fun statement_sql :: "statement \<Rightarrow> (py_error, string) result" where
  "statement_sql (Terminate n) =
     Inr (''SELECT pg_terminate_backend(pid) FROM pg_stat_activity WHERE datname = '' @ quote_literal n
          @ '' AND pid <> pg_backend_pid();'')"
| "statement_sql (DropDb n) =
     bindE (quote_identifier n) (\<lambda>q. Inr (''DROP DATABASE IF EXISTS '' @ q @ '';''))"
| "statement_sql (RenameDb a b) =
     bindE (quote_identifier a) (\<lambda>qa. bindE (quote_identifier b) (\<lambda>qb.
       Inr (''ALTER DATABASE '' @ qa @ '' RENAME TO '' @ qb @ '';'')))"

text \<open>How the server reads a quoted word: two quotes stand for one, a single quote ends it.\<close>

fun read_quoted :: "char \<Rightarrow> string \<Rightarrow> (string \<times> string) option" where
  "read_quoted q [] = None"
| "read_quoted q (c # s) =
     (if c = q then
        (case s of
           d # s' \<Rightarrow> if d = q then map_option (\<lambda>(w, r). (q # w, r)) (read_quoted q s') else Some ([], s)
         | [] \<Rightarrow> Some ([], []))
      else map_option (\<lambda>(w, r). (c # w, r)) (read_quoted q s))"

definition read_word :: "char \<Rightarrow> string \<Rightarrow> (string \<times> string) option" where
  "read_word q s = (case s of c # r \<Rightarrow> if c = q then read_quoted q r else None | [] \<Rightarrow> None)"

lemma read_quoted_double:
  "rest = [] \<or> hd rest \<noteq> q \<Longrightarrow> read_quoted q (double_char q w @ q # rest) = Some (w, rest)"
  by (cases rest) (induction w; auto simp: double_char_def)+

lemma read_quote_literal: "rest = [] \<or> hd rest \<noteq> squote \<Longrightarrow> read_word squote (quote_literal w @ rest) = Some (w, rest)"
  by (simp add: read_word_def quote_literal_def read_quoted_double)

lemma read_quote_identifier:
  "quote_identifier w = Inr q \<Longrightarrow> rest = [] \<or> hd rest \<noteq> dq \<Longrightarrow> read_word dq (q @ rest) = Some (w, rest)"
  by (auto simp: read_word_def quote_identifier_def read_quoted_double split: if_splits)

definition strip_prefix :: "string \<Rightarrow> string \<Rightarrow> string option" where
  "strip_prefix p s = (if starts_with p s then Some (drop (length p) s) else None)"

lemma strip_prefix_append [simp]: "strip_prefix p (p @ s) = Some s"
  by (simp add: strip_prefix_def)

text \<open>The server's reading of the statements above.\<close>

definition parse_statement :: "string \<Rightarrow> statement option" where
  "parse_statement s =
     (case strip_prefix ''SELECT pg_terminate_backend(pid) FROM pg_stat_activity WHERE datname = '' s of
        Some r \<Rightarrow>
          (case read_word squote r of
             Some (n, t) \<Rightarrow> if t = '' AND pid <> pg_backend_pid();'' then Some (Terminate n) else None
           | None \<Rightarrow> None)
      | None \<Rightarrow>
        (case strip_prefix ''DROP DATABASE IF EXISTS '' s of
           Some r \<Rightarrow>
             (case read_word dq r of Some (n, t) \<Rightarrow> if t = '';'' then Some (DropDb n) else None | None \<Rightarrow> None)
         | None \<Rightarrow>
           (case strip_prefix ''ALTER DATABASE '' s of
              Some r \<Rightarrow>
                (case read_word dq r of
                   Some (a, t) \<Rightarrow>
                     (case Option.bind (strip_prefix '' RENAME TO '' t) (read_word dq) of
                        Some (b, u) \<Rightarrow> if u = '';'' then Some (RenameDb a b) else None
                      | None \<Rightarrow> None)
                 | None \<Rightarrow> None)
            | None \<Rightarrow> None)))"

lemma quote_identifier_ok: "quote_identifier w = Inr q \<longleftrightarrow> NUL \<notin> set w \<and> q = dq # double_char dq w @ [dq]"
  by (auto simp: quote_identifier_def)

lemma strip_prefix_Cons [simp]:
  "strip_prefix (b # p) (c # s) = (if b = c then strip_prefix p s else None)" "strip_prefix [] s = Some s"
  by (simp_all add: strip_prefix_def starts_with_def)

lemma parse_statement_sql: "statement_sql st = Inr sql \<Longrightarrow> parse_statement sql = Some st"
proof (cases st)
  case (Terminate n)
  assume "statement_sql st = Inr sql"
  then have sql: "sql = ''SELECT pg_terminate_backend(pid) FROM pg_stat_activity WHERE datname = '' @ quote_literal n
          @ '' AND pid <> pg_backend_pid();''" by (simp add: Terminate)
  have r: "read_word squote (quote_literal n @ '' AND pid <> pg_backend_pid();'') = Some (n, '' AND pid <> pg_backend_pid();'')"
    by (rule read_quote_literal) simp
  show ?thesis unfolding sql parse_statement_def strip_prefix_append by (simp add: r[simplified] Terminate)
next
  case (DropDb n)
  assume "statement_sql st = Inr sql"
  then obtain q where q: "quote_identifier n = Inr q" "sql = ''DROP DATABASE IF EXISTS '' @ q @ '';''"
    by (auto simp: DropDb bindE_eq_Inr_iff)
  have "read_word dq (q @ '';'') = Some (n, '';'')" by (rule read_quote_identifier[OF q(1)]) simp
  then show ?thesis by (simp add: q(2) parse_statement_def DropDb)
next
  case (RenameDb a b)
  assume "statement_sql st = Inr sql"
  then obtain qa qb where q: "quote_identifier a = Inr qa" "quote_identifier b = Inr qb"
    "sql = ''ALTER DATABASE '' @ qa @ '' RENAME TO '' @ qb @ '';''"
    by (auto simp: RenameDb bindE_eq_Inr_iff)
  have "read_word dq (qa @ '' RENAME TO '' @ qb @ '';'') = Some (a, '' RENAME TO '' @ qb @ '';'')"
    by (rule read_quote_identifier[OF q(1)]) simp
  moreover have "read_word dq (qb @ '';'') = Some (b, '';'')" by (rule read_quote_identifier[OF q(2)]) simp
  ultimately show ?thesis by (simp add: q(3) parse_statement_def RenameDb)
qed

section \<open>Names\<close>

definition POSTGRES_IDENTIFIER_MAX_BYTES :: nat where "POSTGRES_IDENTIFIER_MAX_BYTES = 63"
definition CUTOVER_ASIDE_MARKER :: string where "CUTOVER_ASIDE_MARKER = ''__odooctl_cutover_''"
definition CUTOVER_HASH_LENGTH :: nat where "CUTOVER_HASH_LENGTH = 32"

definition validate_database_name :: "string \<Rightarrow> string \<Rightarrow> (py_error, unit) result" where
  "validate_database_name name field_name =
     (if name = [] then Inl (ValueErr (field_name @ '' cannot be empty''))
      else if NUL \<in> set name then Inl (ValueErr (field_name @ '' cannot contain NUL bytes''))
      else if POSTGRES_IDENTIFIER_MAX_BYTES < length (utf8_encode name)
      then Inl (ValueErr (field_name @ '' exceeds PostgreSQL's 63-byte identifier limit''))
      else Inr ())"

text \<open>\<open>bytes.decode("utf-8", errors="ignore")\<close> on a prefix of the encoding of a text: a lead
  byte without its continuation is dropped.\<close>

fun utf8_decode_ignore :: "string \<Rightarrow> string" where
  "utf8_decode_ignore [] = []"
| "utf8_decode_ignore (b # bs) =
     (let n = of_char b :: nat in
      if n < 128 then b # utf8_decode_ignore bs
      else if n = 194 \<or> n = 195 then
        (case bs of
           c # cs \<Rightarrow>
             (let m = of_char c :: nat in
              if 128 \<le> m \<and> m < 192 then char_of ((n - 192) * 64 + (m - 128)) # utf8_decode_ignore cs
              else utf8_decode_ignore bs)
         | [] \<Rightarrow> [])
      else utf8_decode_ignore bs)"

definition truncate_utf8 :: "string \<Rightarrow> nat \<Rightarrow> string" where
  "truncate_utf8 v max_bytes =
     (let encoded = utf8_encode v in
      if length encoded \<le> max_bytes then v else utf8_decode_ignore (take max_bytes encoded))"

definition database_cutover_aside_name ::
  "(string \<Rightarrow> string) \<Rightarrow> string \<Rightarrow> string \<Rightarrow> string \<Rightarrow> (py_error, string) result" where
  "database_cutover_aside_name sha target incoming cutover_id =
     bindE (validate_database_name target ''target_db'') (\<lambda>_.
     bindE (validate_database_name incoming ''incoming_db'') (\<lambda>_.
     if cutover_id = [] then Inl (ValueErr ''cutover_id cannot be empty'')
     else if NUL \<in> set cutover_id then Inl (ValueErr ''cutover_id cannot contain NUL bytes'')
     else
       (let digest = take CUTOVER_HASH_LENGTH
              (sha (utf8_encode (join_with [NUL] [''odooctl-database-cutover-v1'', cutover_id, target, incoming])));
            suffix = CUTOVER_ASIDE_MARKER @ digest;
            prefix_bytes = POSTGRES_IDENTIFIER_MAX_BYTES - length (utf8_encode suffix);
            aside = truncate_utf8 target prefix_bytes @ suffix
        in bindE (validate_database_name aside ''aside_db'') (\<lambda>_. Inr aside))))"

lemma decoded_length: "length (utf8_encode (utf8_decode_ignore bs)) \<le> length bs"
proof (induction bs rule: utf8_decode_ignore.induct)
  case (2 b bs)
  let ?n = "of_char b :: nat"
  consider "?n < 128" | "\<not> ?n < 128" "?n = 194 \<or> ?n = 195" | "\<not> ?n < 128" "?n \<noteq> 194" "?n \<noteq> 195" by blast
  then show ?case
  proof cases
    case 1
    with 2(1)[OF refl] show ?thesis by (simp add: Let_def utf8_encode_def utf8_char_def)
  next
    case two: 2
    show ?thesis
    proof (cases bs)
      case (Cons c cs)
      have "length (utf8_char x) \<le> 2" for x by (simp add: utf8_char_def Let_def)
      then have two_bytes: "length (utf8_char x) + l \<le> Suc (Suc n)" if "l \<le> n" for x l n
        using that by (metis add_2_eq_Suc add_mono)
      with 2(2,3)[OF refl two(1,2) Cons] two Cons show ?thesis
        by (auto simp: Let_def utf8_encode_def)
    qed (use two in \<open>simp add: Let_def utf8_encode_def\<close>)
  next
    case 3
    with 2(4)[OF refl] show ?thesis by (simp add: Let_def)
  qed
qed (simp add: utf8_encode_def)

lemma truncate_length: "length (utf8_encode (truncate_utf8 v n)) \<le> n"
  using decoded_length[of "take n (utf8_encode v)"] by (auto simp: truncate_utf8_def Let_def)

lemma char_of_nonzero: "0 < k \<Longrightarrow> k < 256 \<Longrightarrow> (char_of (k :: nat) :: char) \<noteq> NUL"
proof
  assume k: "0 < k" "k < 256" and "(char_of k :: char) = NUL"
  then have "(of_char (char_of k :: char) :: nat) = of_char NUL" by simp
  with k show False by simp
qed

lemma NUL_decode: "NUL \<in> set (utf8_decode_ignore bs) \<Longrightarrow> NUL \<in> set bs"
proof (induction bs rule: utf8_decode_ignore.induct)
  case (2 b bs)
  let ?n = "of_char b :: nat"
  consider "?n < 128" | "\<not> ?n < 128" "?n = 194 \<or> ?n = 195" | "\<not> ?n < 128" "?n \<noteq> 194" "?n \<noteq> 195" by blast
  then show ?case
  proof cases
    case 1
    with 2(1)[OF refl] 2(5) show ?thesis by (auto simp: Let_def)
  next
    case two: 2
    show ?thesis
    proof (cases bs)
      case (Cons c cs)
      let ?m = "of_char c :: nat"
      show ?thesis
      proof (cases "128 \<le> ?m \<and> ?m < 192")
        case True
        have "(char_of ((?n - 192) * 64 + (?m - 128)) :: char) \<noteq> NUL"
          by (rule char_of_nonzero) (use two True in auto)
        with True two 2(2)[OF refl two(1,2) Cons refl True] 2(5) Cons show ?thesis by (simp add: Let_def)
      next
        case False
        with two 2(3)[OF refl two(1,2) Cons refl False] 2(5) Cons show ?thesis by (simp add: Let_def)
      qed
    qed (use two 2(5) in \<open>simp add: Let_def\<close>)
  next
    case 3
    with 2(4)[OF refl] 2(5) show ?thesis by (simp add: Let_def)
  qed
qed simp

lemma NUL_encode: "NUL \<in> set (utf8_encode v) \<Longrightarrow> NUL \<in> set v"
proof (induction v)
  case (Cons c v)
  let ?n = "of_char c :: nat"
  have n: "?n < 256" by simp
  have "192 + ?n div 64 < 256" "128 + ?n mod 64 < 256" using n by (linarith, linarith)
  then have "(char_of (192 + ?n div 64) :: char) \<noteq> NUL" "(char_of (128 + ?n mod 64) :: char) \<noteq> NUL"
    by (simp_all add: char_of_nonzero del: char_of_eq_iff)
  then have "c = NUL" if "NUL \<in> set (utf8_char c)"
    using utf8_char_cases[of c] that by auto
  with Cons show ?case by (auto simp: utf8_encode_def)
qed (simp add: utf8_encode_def)

lemma NUL_truncate: "NUL \<notin> set v \<Longrightarrow> NUL \<notin> set (truncate_utf8 v n)"
proof
  assume v: "NUL \<notin> set v" and t: "NUL \<in> set (truncate_utf8 v n)"
  then have "NUL \<in> set (utf8_decode_ignore (take n (utf8_encode v)))"
    by (simp add: truncate_utf8_def Let_def split: if_splits)
  from NUL_decode[OF this] have "NUL \<in> set (utf8_encode v)" by (rule in_set_takeD)
  with NUL_encode v show False by blast
qed

text \<open>A hexadecimal digest makes the name valid: not empty, no NUL, at most 63 bytes.\<close>

lemma aside_name_valid:
  assumes "validate_database_name target ''target_db'' = Inr ()" "validate_database_name incoming ''incoming_db'' = Inr ()"
    and "cutover_id \<noteq> []" "NUL \<notin> set cutover_id" and hex: "\<And>m. is_ascii (sha m) \<and> NUL \<notin> set (sha m)"
  shows "\<exists>aside. database_cutover_aside_name sha target incoming cutover_id = Inr aside \<and>
     length (utf8_encode aside) \<le> POSTGRES_IDENTIFIER_MAX_BYTES \<and>
     (\<exists>p d. aside = p @ CUTOVER_ASIDE_MARKER @ d \<and>
        d = take CUTOVER_HASH_LENGTH (sha (utf8_encode (join_with [NUL]
              [''odooctl-database-cutover-v1'', cutover_id, target, incoming]))))"
proof -
  define m where "m = utf8_encode (join_with [NUL] [''odooctl-database-cutover-v1'', cutover_id, target, incoming])"
  define d where "d = take CUTOVER_HASH_LENGTH (sha m)"
  define suf where "suf = CUTOVER_ASIDE_MARKER @ d"
  define p where "p = truncate_utf8 target (POSTGRES_IDENTIFIER_MAX_BYTES - length suf)"
  have "is_ascii d" using hex[of m] by (auto simp: d_def is_ascii_def list_all_iff dest: in_set_takeD)
  then have asc: "is_ascii suf" by (simp add: suf_def is_ascii_def CUTOVER_ASIDE_MARKER_def)
  have "NUL \<notin> set d" using hex[of m] by (auto simp: d_def dest: in_set_takeD)
  then have nul: "NUL \<notin> set suf" by (simp add: suf_def CUTOVER_ASIDE_MARKER_def)
  have len: "length suf \<le> 50" by (simp add: suf_def d_def CUTOVER_ASIDE_MARKER_def CUTOVER_HASH_LENGTH_def)
  have enc: "utf8_encode suf = suf" by (rule utf8_ascii[OF asc])
  have "length (utf8_encode (p @ suf)) = length (utf8_encode p) + length suf"
    using enc by (simp add: utf8_encode_def)
  also have "\<dots> \<le> POSTGRES_IDENTIFIER_MAX_BYTES"
    using truncate_length[of target "POSTGRES_IDENTIFIER_MAX_BYTES - length suf"] len
    unfolding p_def POSTGRES_IDENTIFIER_MAX_BYTES_def by linarith
  finally have l: "length (utf8_encode (p @ suf)) \<le> POSTGRES_IDENTIFIER_MAX_BYTES" .
  have "NUL \<notin> set target" using assms(1) by (auto simp: validate_database_name_def split: if_splits)
  then have "NUL \<notin> set (p @ suf)" using nul by (simp add: p_def NUL_truncate)
  moreover have "p @ suf \<noteq> []" by (simp add: suf_def CUTOVER_ASIDE_MARKER_def)
  ultimately have "validate_database_name (p @ suf) ''aside_db'' = Inr ()"
    using l by (simp add: validate_database_name_def)
  then have "database_cutover_aside_name sha target incoming cutover_id = Inr (p @ suf)"
    unfolding database_cutover_aside_name_def Let_def m_def[symmetric] d_def[symmetric] suf_def[symmetric] enc p_def[symmetric]
    using assms(1-4) by simp
  with l show ?thesis unfolding m_def[symmetric] d_def[symmetric] suf_def by blast
qed

end
