(* ===== verification/Db_Cutover.thy ===== *)
theory Db_Cutover
  imports Db_Names
begin

text \<open>
  \<open>odooctl/odoo/db_swap.py\<close>: promoting a prepared database over a live one.  The server is
  a dictionary from database names to OIDs; an OID stands for the data.  Every command
  consumes one entry of a fault schedule: it is carried out and answered, carried out with
  its answer lost, refused, or the process dies before or after it; an exhausted schedule
  means no further faults.
\<close>

section \<open>Commands under faults\<close>

datatype fault = Fine | Lost | Refused | DiesBefore | DiesAfter

type_synonym server = "(string, int) dict"

record pg_world =
  pg_dbs :: server
  pg_faults :: "fault list"

datatype cutover_state = CUT_READY | TARGET_MOVED_ASIDE | PROMOTED | FINALIZED | CONFLICT | UNKNOWN

record cutover_plan =
  cp_cutover_id :: string
  cp_incoming_db :: string
  cp_target_db :: string
  cp_aside_db :: string
  cp_incoming_oid :: int
  cp_target_oid :: "int option"
  cp_maintenance_db :: string

record cutover_status =
  cs_plan :: cutover_plan
  cs_state :: cutover_state
  cs_incoming_oid :: "int option"
  cs_target_oid :: "int option"
  cs_aside_oid :: "int option"
  cs_complete :: bool

definition status_promoted :: "cutover_status \<Rightarrow> bool option" where
  "status_promoted s = (if cs_state s \<in> {PROMOTED, FINALIZED} then Some True
     else if cs_state s \<in> {CUT_READY, TARGET_MOVED_ASIDE} then Some False else None)"

text \<open>
  \<open>Died\<close> is the end of the process, which no handler sees; \<open>PgError\<close> an exception of the
  adapter, \<open>BadOid\<close> the \<open>RuntimeError\<close> of \<open>_validated_oid\<close>.  The classes of cutover
  errors are those of the source.
\<close>

datatype cut_class = CutError | CutConflict | CutCleanup

datatype cut_exn =
    Died
  | PgError
  | BadOid
  | Cutover cut_class string cutover_status
  | FenceError string
  | CutValueErr string
  | CutRuntimeErr string

type_synonym 'a pg = "pg_world \<Rightarrow> (cut_exn + 'a) \<times> pg_world"

definition pret :: "'a \<Rightarrow> 'a pg" where
  "pret x = (\<lambda>w. (Inr x, w))"

definition pthrow :: "cut_exn \<Rightarrow> 'a pg" where
  "pthrow e = (\<lambda>w. (Inl e, w))"

definition pbind :: "'a pg \<Rightarrow> ('a \<Rightarrow> 'b pg) \<Rightarrow> 'b pg" where
  "pbind m f = (\<lambda>w. case m w of (Inl e, w') \<Rightarrow> (Inl e, w') | (Inr x, w') \<Rightarrow> f x w')"

text \<open>\<open>try: m; except Exception as e: h(e); else: k\<close>.\<close>

definition ptry :: "'a pg \<Rightarrow> (cut_exn \<Rightarrow> 'b pg) \<Rightarrow> ('a \<Rightarrow> 'b pg) \<Rightarrow> 'b pg" where
  "ptry m h k = (\<lambda>w. case m w of
     (Inr x, w') \<Rightarrow> k x w'
   | (Inl e, w') \<Rightarrow> if e = Died then (Inl Died, w') else h e w')"

text \<open>The same with \<open>except DatabaseCutoverError\<close>; the handler gets the status.\<close>

definition ptry_cutover :: "'a pg \<Rightarrow> (cutover_status \<Rightarrow> 'b pg) \<Rightarrow> ('a \<Rightarrow> 'b pg) \<Rightarrow> 'b pg" where
  "ptry_cutover m h k = (\<lambda>w. case m w of
     (Inr x, w') \<Rightarrow> k x w'
   | (Inl (Cutover c t s), w') \<Rightarrow> h s w'
   | (Inl e, w') \<Rightarrow> (Inl e, w'))"

definition next_fault :: "pg_world \<Rightarrow> fault \<times> pg_world" where
  "next_fault w = (case pg_faults w of [] \<Rightarrow> (Fine, w) | f # fs \<Rightarrow> (f, w\<lparr>pg_faults := fs\<rparr>))"

text \<open>What the server does with a statement; \<open>None\<close> is an error of the server.\<close>

fun serve :: "statement \<Rightarrow> server \<Rightarrow> server option" where
  "serve (Terminate n) d = Some d"
| "serve (DropDb n) d = Some (dict_del n d)"
| "serve (RenameDb a b) d =
     (case dict_get d a of
        None \<Rightarrow> None
      | Some oid \<Rightarrow> if dict_has d b then None else Some (dict_put b oid (dict_del a d)))"

text \<open>\<open>pg.psql(maintenance_db, sql)\<close>; a name with a NUL byte fails before anything is sent.\<close>

definition psql :: "statement \<Rightarrow> unit pg" where
  "psql st = (\<lambda>w.
     case statement_sql st of
       Inl _ \<Rightarrow> (Inl PgError, w)
     | Inr _ \<Rightarrow>
         (case next_fault w of (f, w') \<Rightarrow>
            (case f of
               Refused \<Rightarrow> (Inl PgError, w')
             | DiesBefore \<Rightarrow> (Inl Died, w')
             | _ \<Rightarrow>
                 (case serve st (pg_dbs w') of
                    None \<Rightarrow> (Inl (if f = DiesAfter then Died else PgError), w')
                  | Some d \<Rightarrow> (if f = Fine then Inr () else if f = Lost then Inl PgError else Inl Died,
                              w'\<lparr>pg_dbs := d\<rparr>)))))"

text \<open>\<open>_validated_oid\<close> on the text the scalar query returns (empty without a row).\<close>

definition validated_oid :: "string \<Rightarrow> (cut_exn, int option) result" where
  "validated_oid v =
     (if v = [] then Inr None
      else (case parse_int (py_strip v) of
              Some (oid, []) \<Rightarrow> if oid < 1 \<or> 0xFFFFFFFF < oid then Inl BadOid else Inr (Some oid)
            | _ \<Rightarrow> Inl BadOid))"

definition database_oid :: "string \<Rightarrow> int option pg" where
  "database_oid name = (\<lambda>w.
     if validate_database_name name ''db_name'' \<noteq> Inr () then (Inl (CutValueErr ''db_name''), w)
     else (case next_fault w of (f, w') \<Rightarrow>
             (case f of
                Fine \<Rightarrow> (validated_oid (case dict_get (pg_dbs w') name of None \<Rightarrow> [] | Some oid \<Rightarrow> int_str oid), w')
              | Lost \<Rightarrow> (Inl PgError, w')
              | Refused \<Rightarrow> (Inl PgError, w')
              | _ \<Rightarrow> (Inl Died, w'))))"

abbreviation terminate_connections :: "string \<Rightarrow> unit pg" where
  "terminate_connections n \<equiv> psql (Terminate n)"

abbreviation drop_database :: "string \<Rightarrow> unit pg" where
  "drop_database n \<equiv> psql (DropDb n)"

abbreviation rename_database :: "string \<Rightarrow> string \<Rightarrow> unit pg" where
  "rename_database a b \<equiv> psql (RenameDb a b)"

section \<open>The plan\<close>

definition validE :: "(py_error, 'a) result \<Rightarrow> 'a pg" where
  "validE r = (\<lambda>w. (case r of Inl (ValueErr m) \<Rightarrow> Inl (CutValueErr m)
     | Inl (RuntimeErr m) \<Rightarrow> Inl (CutRuntimeErr m) | Inl _ \<Rightarrow> Inl PgError | Inr x \<Rightarrow> Inr x, w))"

text \<open>\<open>__post_init__\<close>.\<close>

definition plan_checked :: "(string \<Rightarrow> string) \<Rightarrow> cutover_plan \<Rightarrow> (py_error, unit) result" where
  "plan_checked sha p =
     bindE (validate_database_name (cp_incoming_db p) ''incoming_db'') (\<lambda>_.
     bindE (validate_database_name (cp_target_db p) ''target_db'') (\<lambda>_.
     bindE (validate_database_name (cp_aside_db p) ''aside_db'') (\<lambda>_.
     bindE (validate_database_name (cp_maintenance_db p) ''maintenance_db'') (\<lambda>_.
     if cp_cutover_id p = [] then Inl (ValueErr ''cutover_id cannot be empty'')
     else if NUL \<in> set (cp_cutover_id p) then Inl (ValueErr ''cutover_id cannot contain NUL bytes'')
     else if cp_incoming_db p = cp_target_db p then Inl (ValueErr ''incoming_db must differ from target_db'')
     else if cp_maintenance_db p \<in> {cp_incoming_db p, cp_target_db p, cp_aside_db p}
     then Inl (ValueErr ''maintenance_db must be separate from cutover databases'')
     else bindE (database_cutover_aside_name sha (cp_target_db p) (cp_incoming_db p) (cp_cutover_id p)) (\<lambda>expected.
       if cp_aside_db p \<noteq> expected then Inl (ValueErr ''aside_db does not match the deterministic cutover name'')
       else if cp_incoming_oid p < 1 \<or> 0xFFFFFFFF < cp_incoming_oid p then Inl (RuntimeErr ''Invalid PostgreSQL OID'')
       else if (case cp_target_oid p of None \<Rightarrow> False | Some t \<Rightarrow> t < 1 \<or> 0xFFFFFFFF < t) then Inl (RuntimeErr ''Invalid PostgreSQL OID'')
       else if cp_target_oid p = Some (cp_incoming_oid p) then Inl (ValueErr ''incoming and target databases must have distinct OIDs'')
       else Inr ())))))"

definition plan_database_cutover ::
  "(string \<Rightarrow> string) \<Rightarrow> string \<Rightarrow> string \<Rightarrow> string \<Rightarrow> string \<Rightarrow> cutover_plan pg" where
  "plan_database_cutover sha incoming target cutover_id maintenance =
     pbind (validE (validate_database_name incoming ''incoming_db'')) (\<lambda>_.
     pbind (validE (validate_database_name target ''target_db'')) (\<lambda>_.
     pbind (validE (validate_database_name maintenance ''maintenance_db'')) (\<lambda>_.
     if incoming = target then pthrow (CutValueErr ''incoming_db must differ from target_db'')
     else pbind (validE (database_cutover_aside_name sha target incoming cutover_id)) (\<lambda>aside.
     if maintenance \<in> {incoming, target, aside}
     then pthrow (CutValueErr ''maintenance_db must be separate from cutover databases'')
     else pbind (database_oid incoming) (\<lambda>incoming_oid.
     case incoming_oid of
       None \<Rightarrow> pthrow (CutRuntimeErr (''Incoming database '' @ repr_str incoming @ '' does not exist''))
     | Some i \<Rightarrow>
         pbind (database_oid target) (\<lambda>target_oid.
         pbind (database_oid aside) (\<lambda>aside_oid.
         if aside_oid \<noteq> None
         then pthrow (CutRuntimeErr (''Cutover aside database '' @ repr_str aside
                @ '' is already occupied; refusing to overwrite it''))
         else if target_oid = Some i
         then pthrow (CutRuntimeErr ''Incoming and target database OIDs unexpectedly match'')
         else
           (let p = \<lparr>cp_cutover_id = cutover_id, cp_incoming_db = incoming, cp_target_db = target,
                     cp_aside_db = aside, cp_incoming_oid = i, cp_target_oid = target_oid,
                     cp_maintenance_db = maintenance\<rparr>
            in pbind (validE (plan_checked sha p)) (\<lambda>_. pret p)))))))))"

section \<open>Reconciliation\<close>

definition unknown_status :: "cutover_plan \<Rightarrow> cutover_status" where
  "unknown_status p = \<lparr>cs_plan = p, cs_state = UNKNOWN, cs_incoming_oid = None, cs_target_oid = None,
     cs_aside_oid = None, cs_complete = False\<rparr>"

text \<open>The table of observed OIDs (incoming, target, aside).\<close>

definition classify ::
  "cutover_plan \<Rightarrow> int option \<times> int option \<times> int option \<Rightarrow> cutover_state option" where
  "classify p obs =
     (case cp_target_oid p of
        None \<Rightarrow>
          (if obs = (Some (cp_incoming_oid p), None, None) then Some CUT_READY
           else if obs = (None, Some (cp_incoming_oid p), None) then Some PROMOTED
           else None)
      | Some t \<Rightarrow>
          (if obs = (Some (cp_incoming_oid p), Some t, None) then Some CUT_READY
           else if obs = (Some (cp_incoming_oid p), None, Some t) then Some TARGET_MOVED_ASIDE
           else if obs = (None, Some (cp_incoming_oid p), Some t) then Some PROMOTED
           else if obs = (None, Some (cp_incoming_oid p), None) then Some FINALIZED
           else None))"

definition observe :: "cutover_plan \<Rightarrow> (int option \<times> int option \<times> int option) pg" where
  "observe p =
     pbind (database_oid (cp_incoming_db p)) (\<lambda>i.
     pbind (database_oid (cp_target_db p)) (\<lambda>t.
     pbind (database_oid (cp_aside_db p)) (\<lambda>a. pret (i, t, a))))"

definition status_of :: "cutover_plan \<Rightarrow> int option \<times> int option \<times> int option \<Rightarrow> cutover_state \<Rightarrow> cutover_status" where
  "status_of p obs st = (case obs of (i, t, a) \<Rightarrow>
     \<lparr>cs_plan = p, cs_state = st, cs_incoming_oid = i, cs_target_oid = t, cs_aside_oid = a, cs_complete = True\<rparr>)"

definition reconcile_database_cutover :: "cutover_plan \<Rightarrow> cutover_status pg" where
  "reconcile_database_cutover p =
     ptry (observe p)
       (\<lambda>_. pthrow (Cutover CutError ''Could not determine the database cutover state'' (unknown_status p)))
       (\<lambda>obs. case classify p obs of
          None \<Rightarrow> pthrow (Cutover CutConflict ''Database names/OIDs conflict with the recorded cutover plan''
                    (status_of p obs CONFLICT))
        | Some st \<Rightarrow> pret (status_of p obs st))"

text \<open>\<open>_cutover_failure\<close>: the message and the status of the error it builds.\<close>

definition cutover_failure :: "cutover_plan \<Rightarrow> string \<Rightarrow> (string \<times> cutover_status) pg" where
  "cutover_failure p msg =
     ptry_cutover (reconcile_database_cutover p)
       (\<lambda>s. pret (msg @ ''; the resulting state could not be determined'', s))
       (\<lambda>s. pret (msg, s))"

section \<open>Promotion\<close>

definition restore_old_target_after_failed_promotion :: "cutover_plan \<Rightarrow> cutover_status pg" where
  "restore_old_target_after_failed_promotion p =
     ptry (rename_database (cp_aside_db p) (cp_target_db p))
       (\<lambda>_. pbind (cutover_failure p ''Database promotion failed and restoring the old target also failed'')
          (\<lambda>(m, s).
             if cs_state s = CUT_READY
             then pthrow (Cutover CutError ''Database promotion failed; the original target was restored despite a lost rollback response'' s)
             else if status_promoted s = Some True then pret s
             else pthrow (Cutover CutError m s)))
       (\<lambda>_. ptry_cutover (reconcile_database_cutover p)
          (\<lambda>s. pthrow (Cutover CutError ''Database promotion failed; the rollback response was received but its resulting state is unknown'' s))
          (\<lambda>s. if cs_state s \<noteq> CUT_READY
               then pthrow (Cutover CutError ''Database promotion failed and rollback did not restore the ready state'' s)
               else pthrow (Cutover CutError ''Database promotion failed; the original target was restored'' s)))"

text \<open>The part of \<open>promote_database_cutover\<close> that moves the live target aside: \<open>Inl\<close> is an early return.\<close>

definition move_target_aside :: "cutover_plan \<Rightarrow> (cutover_status + cutover_status) pg" where
  "move_target_aside p =
     ptry (terminate_connections (cp_target_db p))
       (\<lambda>_. pbind (cutover_failure p ''Could not terminate connections to the original target database'')
          (\<lambda>(m, s). if status_promoted s = Some True then pret (Inl s) else pthrow (Cutover CutError m s)))
       (\<lambda>_. pbind (reconcile_database_cutover p) (\<lambda>s.
          if status_promoted s = Some True then pret (Inl s)
          else if cs_state s = CUT_READY then
            ptry (rename_database (cp_target_db p) (cp_aside_db p))
              (\<lambda>_. pbind (cutover_failure p ''Could not move the original target database aside'')
                 (\<lambda>(m, s'). if cs_state s' = TARGET_MOVED_ASIDE then pret (Inr s')
                            else if status_promoted s' = Some True then pret (Inl s')
                            else pthrow (Cutover CutError m s')))
              (\<lambda>_. pbind (reconcile_database_cutover p) (\<lambda>s'. pret (Inr s')))
          else if cs_state s \<noteq> TARGET_MOVED_ASIDE
          then pthrow (Cutover CutError ''Original target identity changed before it could be moved aside'' s)
          else pret (Inr s)))"

text \<open>The promotion rename and what follows it.\<close>

definition promote_incoming :: "cutover_plan \<Rightarrow> cutover_status pg" where
  "promote_incoming p =
     ptry (rename_database (cp_incoming_db p) (cp_target_db p))
       (\<lambda>_. ptry_cutover (reconcile_database_cutover p)
          (\<lambda>s. pthrow (Cutover CutError ''Database promotion response was lost and the resulting state could not be determined'' s))
          (\<lambda>after_failure.
             if status_promoted after_failure = Some True then pret after_failure
             else pbind (if cs_state after_failure = TARGET_MOVED_ASIDE
                         then pbind (restore_old_target_after_failed_promotion p) (\<lambda>s. pret (Some s))
                         else pret None)
               (\<lambda>r. case r of
                  Some s \<Rightarrow> if status_promoted s = Some True then pret s
                     else pthrow (Cutover CutError ''Database promotion failed before changing database identities'' after_failure)
                | None \<Rightarrow> pthrow (Cutover CutError ''Database promotion failed before changing database identities'' after_failure))))
       (\<lambda>_. ptry_cutover (reconcile_database_cutover p)
          (\<lambda>s. pthrow (Cutover CutError ''Database promotion command completed but the resulting state could not be determined'' s))
          (\<lambda>s. if status_promoted s \<noteq> Some True
               then pthrow (Cutover CutError ''Database promotion command did not produce a promoted state'' s)
               else pret s))"

definition promote_database_cutover :: "cutover_plan \<Rightarrow> cutover_status pg" where
  "promote_database_cutover p =
     pbind (reconcile_database_cutover p) (\<lambda>s0.
     if status_promoted s0 = Some True then pret s0
     else pbind (if cs_state s0 = CUT_READY \<and> cp_target_oid p \<noteq> None then move_target_aside p else pret (Inr s0)) (\<lambda>r.
       case r of
         Inl s \<Rightarrow> pret s
       | Inr s \<Rightarrow>
           if status_promoted s = Some True then pret s
           else if cs_state s \<notin> {CUT_READY, TARGET_MOVED_ASIDE}
           then pthrow (Cutover CutError ''Database cutover is not in a promotable state'' s)
           else promote_incoming p))"

section \<open>Finalization\<close>

text \<open>\<open>Inl\<close> is an early return.\<close>

definition drop_old_database :: "cutover_plan \<Rightarrow> cutover_status pg" where
  "drop_old_database p =
     ptry (drop_database (cp_aside_db p))
       (\<lambda>_. ptry_cutover (reconcile_database_cutover p)
          (\<lambda>s. pthrow (Cutover CutCleanup ''Database promotion succeeded, but old-database cleanup failed and its result could not be determined'' s))
          (\<lambda>s. if cs_state s = FINALIZED then pret s
               else pthrow (Cutover CutCleanup ''Database promotion succeeded, but the old database remains and cleanup must be retried'' s)))
       (\<lambda>_. ptry_cutover (reconcile_database_cutover p)
          (\<lambda>s. pthrow (Cutover CutCleanup ''Database promotion succeeded and cleanup returned, but the resulting state could not be determined'' s))
          (\<lambda>s. if cs_state s \<noteq> FINALIZED
               then pthrow (Cutover CutCleanup ''Database promotion succeeded, but old-database cleanup did not reach the finalized state'' s)
               else pret s))"

definition finalize_database_cutover :: "cutover_plan \<Rightarrow> bool \<Rightarrow> cutover_status pg" where
  "finalize_database_cutover p recorded =
     (if \<not> recorded
      then pthrow (FenceError ''Refusing to remove the old database before cutover is durably recorded'')
      else pbind (reconcile_database_cutover p) (\<lambda>s.
        if status_promoted s \<noteq> Some True
        then pthrow (Cutover CutError ''Cannot finalize a database cutover that has not been promoted'' s)
        else if cs_state s = FINALIZED then pret s
        else if cp_target_oid p = None then pret (s\<lparr>cs_state := FINALIZED\<rparr>)
        else ptry (terminate_connections (cp_aside_db p))
          (\<lambda>_. pthrow (Cutover CutCleanup ''Database promotion succeeded, but connections to the old database could not be terminated'' s))
          (\<lambda>_. ptry_cutover (reconcile_database_cutover p)
             (\<lambda>s. pthrow (Cutover CutCleanup ''Database promotion succeeded, but the old database identity could not be re-verified before cleanup'' s))
             (\<lambda>s. if cs_state s = FINALIZED then pret s
                  else if cs_state s \<noteq> PROMOTED
                  then pthrow (Cutover CutCleanup ''Database promotion succeeded, but the old database identity changed before cleanup'' s)
                  else drop_old_database p))))"

section \<open>The older swap\<close>

text \<open>\<open>pg.database_exists(name)\<close>, one query.\<close>

definition database_exists :: "string \<Rightarrow> bool pg" where
  "database_exists name = (\<lambda>w.
     case next_fault w of (f, w') \<Rightarrow>
       (case f of
          Fine \<Rightarrow> (Inr (dict_has (pg_dbs w') name), w')
        | Lost \<Rightarrow> (Inl PgError, w')
        | Refused \<Rightarrow> (Inl PgError, w')
        | _ \<Rightarrow> (Inl Died, w')))"

definition pwhen :: "bool \<Rightarrow> unit pg \<Rightarrow> unit pg" where
  "pwhen b m = (if b then m else pret ())"

text \<open>
  \<open>protected\<close> is the outcome of \<open>is_protected_fn\<close> (\<open>False\<close> without the function) and
  \<open>can_query\<close> whether the adapter has \<open>database_exists\<close>.
\<close>

definition swap_temp_database :: "bool \<Rightarrow> bool \<Rightarrow> string \<Rightarrow> string \<Rightarrow> string \<Rightarrow> unit pg" where
  "swap_temp_database can_query protected temp target env_name =
     (if protected
      then pthrow (CutRuntimeErr (''Refusing to swap a temporary database into protected environment '' @ quoted env_name))
      else if temp = target
      then pthrow (CutRuntimeErr ''Temporary database name must differ from target database name'')
      else if \<not> can_query then
        pbind (terminate_connections target) (\<lambda>_.
        pbind (drop_database target) (\<lambda>_.
        pbind (terminate_connections temp) (\<lambda>_. rename_database temp target)))
      else
        (let aside = target @ ''__old_swap'' in
         pbind (database_exists aside) (\<lambda>stale.
         pbind (pwhen stale (pbind (terminate_connections aside) (\<lambda>_. drop_database aside))) (\<lambda>_.
         pbind (database_exists target) (\<lambda>existed.
         pbind (pwhen existed (pbind (terminate_connections target) (\<lambda>_. rename_database target aside))) (\<lambda>_.
         ptry (pbind (terminate_connections temp) (\<lambda>_. rename_database temp target))
           (\<lambda>e. pbind (if existed then database_exists aside else pret False) (\<lambda>back.
              pbind (pwhen back (rename_database aside target)) (\<lambda>_. pthrow e)))
           (\<lambda>_. pbind (if existed then database_exists aside else pret False) (\<lambda>left.
              pwhen left (pbind (terminate_connections aside) (\<lambda>_. drop_database aside))))))))))"

end
