(* ===== verification/Db_Cutover_Proofs.thy ===== *)
theory Db_Cutover_Proofs
  imports Db_Cutover
begin

text \<open>
  What a cutover does under every fault schedule.  \<open>pspec P m Q\<close> is the contract of a
  command sequence: from a state with \<open>P\<close>, whatever the faults, result and state satisfy
  \<open>Q\<close>.  The contracts of the single commands are proved once on the table of observed
  identities and composed with the rules for sequencing and handlers.
\<close>

definition pspec :: "(pg_world \<Rightarrow> bool) \<Rightarrow> 'a pg \<Rightarrow> (cut_exn + 'a \<Rightarrow> pg_world \<Rightarrow> bool) \<Rightarrow> bool" where
  "pspec P m Q \<longleftrightarrow> (\<forall>w. P w \<longrightarrow> (case m w of (r, w') \<Rightarrow> Q r w'))"

lemma pspec_ret: "(\<And>w. P w \<Longrightarrow> Q (Inr x) w) \<Longrightarrow> pspec P (pret x) Q"
  by (simp add: pspec_def pret_def)

lemma pspec_throw: "(\<And>w. P w \<Longrightarrow> Q (Inl e) w) \<Longrightarrow> pspec P (pthrow e) Q"
  by (simp add: pspec_def pthrow_def)

lemma pspec_bind:
  assumes "pspec P m R" and "\<And>x. pspec (R (Inr x)) (f x) Q" and "\<And>e w. R (Inl e) w \<Longrightarrow> Q (Inl e) w"
  shows "pspec P (pbind m f) Q"
  using assms by (fastforce simp: pspec_def pbind_def split: prod.splits sum.splits)

lemma pspec_try:
  assumes "pspec P m R" and "\<And>x. pspec (R (Inr x)) (k x) Q"
    and "\<And>e. e \<noteq> Died \<Longrightarrow> pspec (R (Inl e)) (h e) Q" and "\<And>w. R (Inl Died) w \<Longrightarrow> Q (Inl Died) w"
  shows "pspec P (ptry m h k) Q"
  using assms by (fastforce simp: pspec_def ptry_def split: prod.splits sum.splits)

lemma pspec_try_cutover:
  assumes "pspec P m R" and "\<And>x. pspec (R (Inr x)) (k x) Q"
    and "\<And>c t s. pspec (R (Inl (Cutover c t s))) (h s) Q"
    and "\<And>e w. \<forall>c t s. e \<noteq> Cutover c t s \<Longrightarrow> R (Inl e) w \<Longrightarrow> Q (Inl e) w"
  shows "pspec P (ptry_cutover m h k) Q"
  unfolding pspec_def
proof (intro allI impI)
  fix w assume "P w"
  obtain r w' where m: "m w = (r, w')" by (cases "m w")
  have R: "R r w'" using assms(1) \<open>P w\<close> m by (auto simp: pspec_def)
  show "case ptry_cutover m h k w of (r, w') \<Rightarrow> Q r w'"
  proof (cases r)
    case (Inl e)
    show ?thesis
    proof (cases "\<exists>c t s. e = Cutover c t s")
      case True
      then obtain c t s where e: "e = Cutover c t s" by blast
      have "case h s w' of (r, w') \<Rightarrow> Q r w'" using assms(3)[of c t s] R Inl e by (simp add: pspec_def)
      then show ?thesis using Inl e m by (simp add: ptry_cutover_def)
    next
      case False
      with assms(4)[of e w'] R Inl m show ?thesis by (cases e) (simp_all add: ptry_cutover_def)
    qed
  next
    case (Inr x)
    with assms(2)[of x] R m show ?thesis by (simp add: pspec_def ptry_cutover_def)
  qed
qed

lemma pspec_weaken:
  assumes "pspec P m Q" and "\<And>w. P' w \<Longrightarrow> P w" and "\<And>r w. Q r w \<Longrightarrow> Q' r w"
  shows "pspec P' m Q'"
  using assms by (fastforce simp: pspec_def split: prod.splits)

lemma pspec_when:
  assumes "\<And>w. P w \<Longrightarrow> C \<and> P' w" and "C \<Longrightarrow> pspec P' m Q"
  shows "pspec P m Q"
  unfolding pspec_def
proof (intro allI impI)
  fix w assume "P w"
  with assms(1) have c: C and "P' w" by simp_all
  with assms(2)[OF c] show "case m w of (r, w') \<Rightarrow> Q r w'" by (simp add: pspec_def)
qed

lemma pspec_disj:
  assumes "\<And>w. P w \<Longrightarrow> C1 \<and> P1 w \<or> C2 \<and> P2 w" and "C1 \<Longrightarrow> pspec P1 m Q" and "C2 \<Longrightarrow> pspec P2 m Q"
  shows "pspec P m Q"
  unfolding pspec_def
proof (intro allI impI)
  fix w assume "P w"
  from assms(1)[OF this] show "case m w of (r, w') \<Rightarrow> Q r w'"
  proof (elim disjE conjE)
    assume c: C1 and "P1 w"
    with assms(2)[OF c] show ?thesis by (simp add: pspec_def)
  next
    assume c: C2 and "P2 w"
    with assms(3)[OF c] show ?thesis by (simp add: pspec_def)
  qed
qed

section \<open>The states of a cutover\<close>

definition plan_ok :: "cutover_plan \<Rightarrow> bool" where
  "plan_ok p \<longleftrightarrow>
     validate_database_name (cp_incoming_db p) ''db_name'' = Inr () \<and>
     validate_database_name (cp_target_db p) ''db_name'' = Inr () \<and>
     validate_database_name (cp_aside_db p) ''db_name'' = Inr () \<and>
     distinct [cp_incoming_db p, cp_target_db p, cp_aside_db p] \<and>
     1 \<le> cp_incoming_oid p \<and> cp_incoming_oid p \<le> 0xFFFFFFFF \<and>
     (\<forall>t. cp_target_oid p = Some t \<longrightarrow> 1 \<le> t \<and> t \<le> 0xFFFFFFFF \<and> t \<noteq> cp_incoming_oid p)"

definition observed :: "cutover_plan \<Rightarrow> server \<Rightarrow> int option \<times> int option \<times> int option" where
  "observed p d = (dict_get d (cp_incoming_db p), dict_get d (cp_target_db p), dict_get d (cp_aside_db p))"

definition cutover_at :: "cutover_plan \<Rightarrow> server \<Rightarrow> cutover_state option" where
  "cutover_at p d = classify p (observed p d)"

text \<open>The state is one of \<open>S\<close>, the other databases are as in \<open>d0\<close>, and in a calm run no fault is left.\<close>

definition at :: "cutover_plan \<Rightarrow> server \<Rightarrow> bool \<Rightarrow> cutover_state set \<Rightarrow> pg_world \<Rightarrow> bool" where
  "at p d0 calm S w \<longleftrightarrow>
     (\<exists>s \<in> S. cutover_at p (pg_dbs w) = Some s) \<and>
     (\<forall>n. n \<notin> {cp_incoming_db p, cp_target_db p, cp_aside_db p} \<longrightarrow> dict_get (pg_dbs w) n = dict_get d0 n) \<and>
     (calm \<longrightarrow> pg_faults w = [])"

lemma at_mono: "at p d0 calm S w \<Longrightarrow> S \<subseteq> T \<Longrightarrow> at p d0 calm T w"
  by (auto simp: at_def)

text \<open>The outcomes of a command: answered, failed (not in a calm run), or the process died.\<close>

definition answered :: "bool \<Rightarrow> (cut_exn + unit) \<Rightarrow> bool" where
  "answered calm r \<longleftrightarrow> (if calm then r = Inr () else r \<in> {Inr (), Inl PgError, Inl Died})"

lemma next_fault_dbs: "next_fault w = (f, w') \<Longrightarrow> pg_dbs w' = pg_dbs w \<and>
    (pg_faults w = [] \<longrightarrow> f = Fine \<and> w' = w)"
  by (auto simp: next_fault_def split: list.splits)

lemma psql_effect:
  assumes "psql st w = (r, w')" and "statement_sql st = Inr sql"
  shows "r \<in> {Inr (), Inl PgError, Inl Died}" "r = Inr () \<Longrightarrow> serve st (pg_dbs w) = Some (pg_dbs w')"
    "pg_dbs w' = pg_dbs w \<or> serve st (pg_dbs w) = Some (pg_dbs w')"
    "pg_faults w = [] \<Longrightarrow> pg_faults w' = [] \<and> (serve st (pg_dbs w) \<noteq> None \<longrightarrow> r = Inr ())"
proof -
  obtain f v where f: "next_fault w = (f, v)" by (cases "next_fault w")
  note d = next_fault_dbs[OF f]
  show "r \<in> {Inr (), Inl PgError, Inl Died}" "r = Inr () \<Longrightarrow> serve st (pg_dbs w) = Some (pg_dbs w')"
    "pg_dbs w' = pg_dbs w \<or> serve st (pg_dbs w) = Some (pg_dbs w')"
    "pg_faults w = [] \<Longrightarrow> pg_faults w' = [] \<and> (serve st (pg_dbs w) \<noteq> None \<longrightarrow> r = Inr ())"
    using assms f d by (auto simp: psql_def split: fault.splits option.splits if_splits)
qed

lemma oid_text: "1 \<le> i \<Longrightarrow> i \<le> 0xFFFFFFFF \<Longrightarrow> validated_oid (int_str i) = Inr (Some i)"
proof -
  assume i: "1 \<le> i" "i \<le> 0xFFFFFFFF"
  have digits: "list_all is_digit (int_str i)" "int_str i \<noteq> []"
    using i nat_str_digits nat_str_nonempty by (simp_all add: int_str_def)
  have "\<not> py_space c" if "is_digit c" for c
    using that by (auto simp: is_digit_def py_space_def Let_def)
  then have "py_strip (int_str i) = int_str i"
    using digits by (intro py_strip_id) (simp_all add: list_all_iff)
  moreover have "parse_int (int_str i @ []) = Some (i, [])" by (rule parse_int_str) (simp add: number_end_def)
  ultimately show ?thesis using i digits by (simp add: validated_oid_def)
qed

text \<open>A query in a known state sees the recorded identities.\<close>

lemma oid_query:
  assumes v: "validate_database_name n ''db_name'' = Inr ()"
    and g: "\<And>oid. dict_get (pg_dbs w) n = Some oid \<Longrightarrow> 1 \<le> oid \<and> oid \<le> 0xFFFFFFFF"
    and q: "database_oid n w = (r, w')"
  shows "pg_dbs w' = pg_dbs w" "r \<in> {Inr (dict_get (pg_dbs w) n), Inl PgError, Inl Died}"
    "pg_faults w = [] \<Longrightarrow> pg_faults w' = [] \<and> r = Inr (dict_get (pg_dbs w) n)"
proof -
  obtain f u where f: "next_fault w = (f, u)" by (cases "next_fault w")
  note d = next_fault_dbs[OF f]
  have ans: "validated_oid (case dict_get (pg_dbs w) n of None \<Rightarrow> [] | Some oid \<Rightarrow> int_str oid) = Inr (dict_get (pg_dbs w) n)"
    by (cases "dict_get (pg_dbs w) n") (simp add: validated_oid_def, use g oid_text in simp)
  show "pg_dbs w' = pg_dbs w" "r \<in> {Inr (dict_get (pg_dbs w) n), Inl PgError, Inl Died}"
    "pg_faults w = [] \<Longrightarrow> pg_faults w' = [] \<and> r = Inr (dict_get (pg_dbs w) n)"
    using q f d ans by (auto simp: database_oid_def v split: fault.splits)
qed

lemma at_oids:
  assumes "plan_ok p" "at p d0 calm S w" and "n \<in> {cp_incoming_db p, cp_target_db p, cp_aside_db p}"
    and "dict_get (pg_dbs w) n = Some oid"
  shows "1 \<le> oid \<and> oid \<le> 0xFFFFFFFF"
  using assms by (auto simp: at_def cutover_at_def classify_def observed_def plan_ok_def split: option.splits if_splits)

lemma observe_spec:
  assumes ok: "plan_ok p"
  shows "pspec (at p d0 calm S) (observe p)
     (\<lambda>r w. at p d0 calm S w \<and> (if calm then r = Inr (observed p (pg_dbs w))
                              else r \<in> {Inr (observed p (pg_dbs w)), Inl PgError, Inl Died}))"
  unfolding pspec_def
proof (intro allI impI)
  fix w assume a: "at p d0 calm S w"
  obtain r1 w1 where q1: "database_oid (cp_incoming_db p) w = (r1, w1)" by (cases "database_oid (cp_incoming_db p) w")
  obtain r2 w2 where q2: "database_oid (cp_target_db p) w1 = (r2, w2)" by (cases "database_oid (cp_target_db p) w1")
  obtain r3 w3 where q3: "database_oid (cp_aside_db p) w2 = (r3, w3)" by (cases "database_oid (cp_aside_db p) w2")
  have v: "validate_database_name (cp_incoming_db p) ''db_name'' = Inr ()"
    "validate_database_name (cp_target_db p) ''db_name'' = Inr ()"
    "validate_database_name (cp_aside_db p) ''db_name'' = Inr ()" using ok by (simp_all add: plan_ok_def)
  have g1: "\<And>oid. dict_get (pg_dbs w) (cp_incoming_db p) = Some oid \<Longrightarrow> 1 \<le> oid \<and> oid \<le> 0xFFFFFFFF"
    by (rule at_oids[OF ok a]) simp_all
  note e1 = oid_query[OF v(1) g1 q1]
  have a1: "at p d0 calm S w1" using a e1 by (auto simp: at_def)
  have g2: "\<And>oid. dict_get (pg_dbs w1) (cp_target_db p) = Some oid \<Longrightarrow> 1 \<le> oid \<and> oid \<le> 0xFFFFFFFF"
    by (rule at_oids[OF ok a1]) simp_all
  note e2 = oid_query[OF v(2) g2 q2]
  have a2: "at p d0 calm S w2" using a1 e2 by (auto simp: at_def)
  have g3: "\<And>oid. dict_get (pg_dbs w2) (cp_aside_db p) = Some oid \<Longrightarrow> 1 \<le> oid \<and> oid \<le> 0xFFFFFFFF"
    by (rule at_oids[OF ok a2]) simp_all
  note e3 = oid_query[OF v(3) g3 q3]
  have a3: "at p d0 calm S w3" using a2 e3 by (auto simp: at_def)
  show "case observe p w of (r, w') \<Rightarrow> at p d0 calm S w' \<and>
      (if calm then r = Inr (observed p (pg_dbs w')) else r \<in> {Inr (observed p (pg_dbs w')), Inl PgError, Inl Died})"
    using a a1 a2 a3 e1 e2 e3
    by (auto simp: observe_def pbind_def pret_def q1 q2 q3 observed_def at_def split: sum.splits)
qed

text \<open>
  The contract of reconciliation: it changes nothing; its answer, and the status in its
  error unless unknown, is the state of the server.
\<close>

definition honest :: "cutover_plan \<Rightarrow> server \<Rightarrow> bool \<Rightarrow> cutover_state set \<Rightarrow> cut_exn + cutover_status \<Rightarrow> pg_world \<Rightarrow> bool" where
  "honest p d0 calm S r w \<longleftrightarrow> at p d0 calm S w \<and>
     (case r of
        Inr s \<Rightarrow> at p d0 calm {cs_state s} w \<and> cs_state s \<in> S
      | Inl Died \<Rightarrow> \<not> calm
      | Inl (Cutover c t s) \<Rightarrow> \<not> calm \<and> cs_state s = UNKNOWN
      | _ \<Rightarrow> False)"

lemma reconcile_spec:
  assumes ok: "plan_ok p"
  shows "pspec (at p d0 calm S) (reconcile_database_cutover p) (honest p d0 calm S)"
  unfolding reconcile_database_cutover_def
proof (rule pspec_try[OF observe_spec[OF ok]])
  fix obs
  show "pspec (\<lambda>w. at p d0 calm S w \<and> (if calm then Inr obs = Inr (observed p (pg_dbs w))
          else Inr obs \<in> {Inr (observed p (pg_dbs w)), Inl PgError, Inl Died}))
     (case classify p obs of None \<Rightarrow> pthrow (Cutover CutConflict
         ''Database names/OIDs conflict with the recorded cutover plan'' (status_of p obs CONFLICT))
      | Some st \<Rightarrow> pret (status_of p obs st)) (honest p d0 calm S)"
    by (auto simp: pspec_def pret_def pthrow_def honest_def at_def cutover_at_def status_of_def
        split: option.splits prod.splits if_splits)
next
  fix e assume "e \<noteq> Died"
  then show "pspec (\<lambda>w. at p d0 calm S w \<and> (if calm then Inl e = Inr (observed p (pg_dbs w))
          else Inl e \<in> {Inr (observed p (pg_dbs w)), Inl PgError, Inl Died}))
     (pthrow (Cutover CutError ''Could not determine the database cutover state'' (unknown_status p)))
     (honest p d0 calm S)"
    by (intro pspec_throw) (auto simp: honest_def unknown_status_def split: if_splits)
qed (auto simp: honest_def split: if_splits)

section \<open>The commands\<close>

text \<open>A command whose effect on a state of \<open>S\<close> is a state of \<open>T\<close>.\<close>

lemma command_spec:
  assumes sql: "statement_sql st = Inr sql"
    and eff: "\<And>d s. s \<in> S \<Longrightarrow> cutover_at p d = Some s \<Longrightarrow> \<exists>t \<in> T. \<exists>d'. serve st d = Some d' \<and> cutover_at p d' = Some t \<and>
      (\<forall>n. n \<notin> {cp_incoming_db p, cp_target_db p, cp_aside_db p} \<longrightarrow> dict_get d' n = dict_get d n)"
  shows "pspec (at p d0 calm S) (psql st)
     (\<lambda>r w. answered calm r \<and> (r = Inr () \<longrightarrow> at p d0 calm T w) \<and> at p d0 calm (S \<union> T) w)"
  unfolding pspec_def
proof (intro allI impI)
  fix w assume a: "at p d0 calm S w"
  obtain r w' where q: "psql st w = (r, w')" by (cases "psql st w")
  note e = psql_effect[OF q sql]
  obtain s where s: "s \<in> S" "cutover_at p (pg_dbs w) = Some s" using a by (auto simp: at_def)
  from eff[OF s] obtain d' t where d': "serve st (pg_dbs w) = Some d'" "t \<in> T" "cutover_at p d' = Some t"
    "\<forall>n. n \<notin> {cp_incoming_db p, cp_target_db p, cp_aside_db p} \<longrightarrow> dict_get d' n = dict_get (pg_dbs w) n" by blast
  have calm: "calm \<Longrightarrow> pg_faults w' = [] \<and> r = Inr ()" using e(4) a d'(1) by (simp add: at_def)
  have dbs: "pg_dbs w' = pg_dbs w \<or> pg_dbs w' = d'" "r = Inr () \<Longrightarrow> pg_dbs w' = d'" using e(2,3) d'(1) by auto
  show "case psql st w of (r, w') \<Rightarrow> answered calm r \<and> (r = Inr () \<longrightarrow> at p d0 calm T w') \<and> at p d0 calm (S \<union> T) w'"
    using a s d' dbs calm e(1) unfolding q by (auto simp: at_def answered_def)
qed

lemma names_sql:
  assumes "plan_ok p" "a \<in> {cp_incoming_db p, cp_target_db p, cp_aside_db p}" "b \<in> {cp_incoming_db p, cp_target_db p, cp_aside_db p}"
  shows "\<exists>sql. statement_sql (Terminate a) = Inr sql" "\<exists>sql. statement_sql (DropDb a) = Inr sql"
    "\<exists>sql. statement_sql (RenameDb a b) = Inr sql"
  using assms by (auto simp: plan_ok_def validate_database_name_def quote_identifier_def split: if_splits)

lemma cutover_at_iff:
  assumes "plan_ok p"
  shows "cutover_at p d = Some CUT_READY \<longleftrightarrow> dict_get d (cp_incoming_db p) = Some (cp_incoming_oid p) \<and>
      dict_get d (cp_target_db p) = cp_target_oid p \<and> dict_get d (cp_aside_db p) = None"
    "cutover_at p d = Some TARGET_MOVED_ASIDE \<longleftrightarrow> cp_target_oid p \<noteq> None \<and>
      dict_get d (cp_incoming_db p) = Some (cp_incoming_oid p) \<and>
      dict_get d (cp_target_db p) = None \<and> dict_get d (cp_aside_db p) = cp_target_oid p"
    "cutover_at p d = Some PROMOTED \<longleftrightarrow> dict_get d (cp_incoming_db p) = None \<and>
      dict_get d (cp_target_db p) = Some (cp_incoming_oid p) \<and> dict_get d (cp_aside_db p) = cp_target_oid p"
    "cutover_at p d = Some FINALIZED \<longleftrightarrow> cp_target_oid p \<noteq> None \<and> dict_get d (cp_incoming_db p) = None \<and>
      dict_get d (cp_target_db p) = Some (cp_incoming_oid p) \<and> dict_get d (cp_aside_db p) = None"
  using assms
  by (auto simp: cutover_at_def classify_def observed_def plan_ok_def split: option.splits if_splits)

lemma terminate_spec:
  assumes ok: "plan_ok p" and n: "n \<in> {cp_incoming_db p, cp_target_db p, cp_aside_db p}"
  shows "pspec (at p d0 calm S) (terminate_connections n)
     (\<lambda>r w. answered calm r \<and> (r = Inr () \<longrightarrow> at p d0 calm S w) \<and> at p d0 calm S w)"
  using names_sql(1)[OF ok n n] command_spec[where st = "Terminate n" and S = S and T = S and p = p] by auto

lemma aside_spec:
  assumes ok: "plan_ok p" and t: "cp_target_oid p \<noteq> None"
  shows "pspec (at p d0 calm {CUT_READY}) (rename_database (cp_target_db p) (cp_aside_db p))
     (\<lambda>r w. answered calm r \<and> (r = Inr () \<longrightarrow> at p d0 calm {TARGET_MOVED_ASIDE} w) \<and>
        at p d0 calm ({CUT_READY} \<union> {TARGET_MOVED_ASIDE}) w)"
proof -
  obtain sql where sql: "statement_sql (RenameDb (cp_target_db p) (cp_aside_db p)) = Inr sql"
    using names_sql(3)[OF ok] by blast
  show ?thesis by (rule command_spec[OF sql])
    (use ok t in \<open>auto simp: cutover_at_iff[OF ok] plan_ok_def\<close>)
qed

lemma promote_spec:
  assumes ok: "plan_ok p" and s: "s = TARGET_MOVED_ASIDE \<or> s = CUT_READY \<and> cp_target_oid p = None"
  shows "pspec (at p d0 calm {s}) (rename_database (cp_incoming_db p) (cp_target_db p))
     (\<lambda>r w. answered calm r \<and> (r = Inr () \<longrightarrow> at p d0 calm {PROMOTED} w) \<and> at p d0 calm ({s} \<union> {PROMOTED}) w)"
proof -
  obtain sql where sql: "statement_sql (RenameDb (cp_incoming_db p) (cp_target_db p)) = Inr sql"
    using names_sql(3)[OF ok] by blast
  show ?thesis by (rule command_spec[OF sql])
    (use ok s in \<open>auto simp: cutover_at_iff[OF ok] plan_ok_def\<close>)
qed

lemma rollback_spec:
  assumes ok: "plan_ok p"
  shows "pspec (at p d0 calm {TARGET_MOVED_ASIDE}) (rename_database (cp_aside_db p) (cp_target_db p))
     (\<lambda>r w. answered calm r \<and> (r = Inr () \<longrightarrow> at p d0 calm {CUT_READY} w) \<and>
        at p d0 calm ({TARGET_MOVED_ASIDE} \<union> {CUT_READY}) w)"
proof -
  obtain sql where sql: "statement_sql (RenameDb (cp_aside_db p) (cp_target_db p)) = Inr sql"
    using names_sql(3)[OF ok] by blast
  show ?thesis by (rule command_spec[OF sql])
    (use ok in \<open>auto simp: cutover_at_iff[OF ok] plan_ok_def\<close>)
qed

lemma drop_spec:
  assumes ok: "plan_ok p" and t: "cp_target_oid p \<noteq> None"
  shows "pspec (at p d0 calm {PROMOTED}) (drop_database (cp_aside_db p))
     (\<lambda>r w. answered calm r \<and> (r = Inr () \<longrightarrow> at p d0 calm {FINALIZED} w) \<and>
        at p d0 calm ({PROMOTED} \<union> {FINALIZED}) w)"
proof -
  obtain sql where sql: "statement_sql (DropDb (cp_aside_db p)) = Inr sql"
    using names_sql(2)[OF ok] by blast
  show ?thesis by (rule command_spec[OF sql])
    (use ok t in \<open>auto simp: cutover_at_iff[OF ok] plan_ok_def\<close>)
qed

section \<open>Promotion\<close>

text \<open>
  The contract of the larger parts: the state stays in \<open>S\<close>; a returned status is a state of
  \<open>G\<close> and the state of the server; an error carries that state or an unknown one.
\<close>

definition outcome :: "cutover_plan \<Rightarrow> server \<Rightarrow> bool \<Rightarrow> cutover_state set \<Rightarrow> cutover_state set
    \<Rightarrow> cut_exn + cutover_status \<Rightarrow> pg_world \<Rightarrow> bool" where
  "outcome p d0 calm S G r w \<longleftrightarrow> at p d0 calm S w \<and>
     (case r of
        Inr s \<Rightarrow> cs_state s \<in> G \<and> at p d0 calm {cs_state s} w
      | Inl Died \<Rightarrow> \<not> calm
      | Inl (Cutover c t s) \<Rightarrow> \<not> calm \<and> (cs_state s = UNKNOWN \<or> at p d0 calm {cs_state s} w)
      | _ \<Rightarrow> False)"

lemma reconcile_outcome: "plan_ok p \<Longrightarrow> pspec (at p d0 calm S) (reconcile_database_cutover p) (outcome p d0 calm S S)"
  by (rule pspec_weaken[OF reconcile_spec]) (auto simp: honest_def outcome_def split: sum.splits cut_exn.splits)

text \<open>A handler that reconciles and raises or returns.\<close>

lemma reconcile_then:
  assumes ok: "plan_ok p"
    and k: "\<And>s. cs_state s \<in> S \<Longrightarrow> pspec (at p d0 calm {cs_state s}) (k s) Q"
    and h: "\<And>s. \<not> calm \<Longrightarrow> cs_state s = UNKNOWN \<Longrightarrow> pspec (at p d0 calm S) (h s) Q"
    and died: "\<And>w. \<not> calm \<Longrightarrow> at p d0 calm S w \<Longrightarrow> Q (Inl Died) w"
  shows "pspec (at p d0 calm S) (ptry_cutover (reconcile_database_cutover p) h k) Q"
proof (rule pspec_try_cutover[OF reconcile_spec[OF ok]])
  show "pspec (honest p d0 calm S (Inr s)) (k s) Q" for s
    by (rule pspec_when[OF _ k]) (auto simp: honest_def)
  show "pspec (honest p d0 calm S (Inl (Cutover c t s))) (h s) Q" for c t s
    by (rule pspec_when[OF _ h, where C = "\<not> calm \<and> cs_state s = UNKNOWN"]) (auto simp: honest_def)
  show "Q (Inl e) w" if "\<forall>c t s. e \<noteq> Cutover c t s" "honest p d0 calm S (Inl e) w" for e w
    using that died[of w] by (cases e) (auto simp: honest_def)
qed

lemma failure_spec:
  assumes ok: "plan_ok p"
  shows "pspec (at p d0 calm S) (cutover_failure p m)
     (\<lambda>r w. at p d0 calm S w \<and> (case r of
        Inr (m', s) \<Rightarrow> \<not> calm \<and> cs_state s = UNKNOWN \<or> cs_state s \<in> S \<and> at p d0 calm {cs_state s} w
      | Inl Died \<Rightarrow> \<not> calm | _ \<Rightarrow> False))"
  unfolding cutover_failure_def
  by (rule reconcile_then[OF ok]) (auto simp: pspec_def pret_def intro: at_mono)

lemma throw_outcome:
  "\<not> calm \<Longrightarrow> (\<And>w. P w \<Longrightarrow> at p d0 calm S w \<and> (cs_state s = UNKNOWN \<or> at p d0 calm {cs_state s} w)) \<Longrightarrow>
   pspec P (pthrow (Cutover c t s)) (outcome p d0 calm S G)"
  by (rule pspec_throw) (simp add: outcome_def)

text \<open>A command under \<open>try\<close>.\<close>

lemma command_try:
  assumes m: "pspec P m (\<lambda>r w. answered calm r \<and> (r = Inr () \<longrightarrow> at p d0 calm T w) \<and> at p d0 calm U w)"
    and k: "pspec (at p d0 calm T) (k ()) Q"
    and h: "\<And>e. \<not> calm \<Longrightarrow> pspec (at p d0 calm U) (h e) Q"
    and died: "\<And>w. \<not> calm \<Longrightarrow> at p d0 calm U w \<Longrightarrow> Q (Inl Died) w"
  shows "pspec P (ptry m h k) Q"
proof (rule pspec_try[OF m])
  show "pspec (\<lambda>w. answered calm (Inr x) \<and> (Inr x = Inr () \<longrightarrow> at p d0 calm T w) \<and> at p d0 calm U w) (k x) Q" for x
    by (rule pspec_weaken[OF k[folded unit_eq[of x]]]) auto
  show "pspec (\<lambda>w. answered calm (Inl e) \<and> (Inl e = Inr () \<longrightarrow> at p d0 calm T w) \<and> at p d0 calm U w) (h e) Q" for e
    by (rule pspec_when[OF _ h]) (auto simp: answered_def split: if_splits)
next
  fix w assume "answered calm (Inl Died) \<and> (Inl Died = Inr () \<longrightarrow> at p d0 calm T w) \<and> at p d0 calm U w"
  then show "Q (Inl Died) w" using died[of w] by (simp add: answered_def split: if_splits)
qed

text \<open>The failure error of a command, followed by a decision on its status.\<close>

lemma failure_then:
  assumes ok: "plan_ok p" and nc: "\<not> calm"
    and k: "\<And>m' s. cs_state s = UNKNOWN \<Longrightarrow> pspec (at p d0 calm S) (k (m', s)) Q"
      "\<And>m' s. cs_state s \<in> S \<Longrightarrow> pspec (at p d0 calm {cs_state s}) (k (m', s)) Q"
    and died: "\<And>w. at p d0 calm S w \<Longrightarrow> Q (Inl Died) w"
  shows "pspec (at p d0 calm S) (pbind (cutover_failure p m) k) Q"
proof (rule pspec_bind[OF failure_spec[OF ok]])
  fix x :: "string \<times> cutover_status"
  obtain m' s where x: "x = (m', s)" by (cases x)
  show "pspec (\<lambda>w. at p d0 calm S w \<and> (case Inr x of Inr (m', s) \<Rightarrow>
          \<not> calm \<and> cs_state s = UNKNOWN \<or> cs_state s \<in> S \<and> at p d0 calm {cs_state s} w
        | Inl Died \<Rightarrow> \<not> calm | Inl _ \<Rightarrow> False)) (k x) Q"
    unfolding x by (rule pspec_disj[OF _ k(1) k(2)]) auto
next
  fix e w
  assume "at p d0 calm S w \<and> (case Inl e of Inr (m', s) \<Rightarrow>
          \<not> calm \<and> cs_state s = UNKNOWN \<or> cs_state s \<in> S \<and> at p d0 calm {cs_state s} w
        | Inl Died \<Rightarrow> \<not> calm | Inl _ \<Rightarrow> False)"
  then show "Q (Inl e) w" using died by (cases e) auto
qed

lemmas leaf_defs = pspec_def pthrow_def pret_def outcome_def status_promoted_def

lemma restore_outcome:
  assumes ok: "plan_ok p" and nc: "\<not> calm"
  shows "pspec (at p d0 calm {TARGET_MOVED_ASIDE}) (restore_old_target_after_failed_promotion p)
     (outcome p d0 calm {CUT_READY, TARGET_MOVED_ASIDE} {})"
  unfolding restore_old_target_after_failed_promotion_def
  by (intro command_try[OF rollback_spec[OF ok]] reconcile_then[OF ok] failure_then[OF ok nc])
    (use nc in \<open>auto simp: leaf_defs intro: at_mono\<close>)

text \<open>A reconciliation outside a handler.\<close>

lemma reconcile_bind:
  assumes ok: "plan_ok p"
    and k: "\<And>s. cs_state s \<in> S \<Longrightarrow> pspec (at p d0 calm {cs_state s}) (k s) Q"
    and err: "\<And>e w. \<not> calm \<Longrightarrow> at p d0 calm S w \<Longrightarrow> e = Died \<or> (\<exists>c t s. e = Cutover c t s \<and> cs_state s = UNKNOWN) \<Longrightarrow> Q (Inl e) w"
  shows "pspec (at p d0 calm S) (pbind (reconcile_database_cutover p) k) Q"
proof (rule pspec_bind[OF reconcile_spec[OF ok]])
  show "pspec (honest p d0 calm S (Inr s)) (k s) Q" for s
    by (rule pspec_when[OF _ k]) (auto simp: honest_def)
  show "Q (Inl e) w" if "honest p d0 calm S (Inl e) w" for e w
    using that by (intro err) (auto simp: honest_def split: cut_exn.splits)
qed

definition moved_outcome :: "cutover_plan \<Rightarrow> server \<Rightarrow> bool \<Rightarrow> cut_exn + (cutover_status + cutover_status) \<Rightarrow> pg_world \<Rightarrow> bool" where
  "moved_outcome p d0 calm r w \<longleftrightarrow> at p d0 calm {CUT_READY, TARGET_MOVED_ASIDE} w \<and>
     (case r of
        Inr (Inr s) \<Rightarrow> cs_state s = TARGET_MOVED_ASIDE \<and> at p d0 calm {TARGET_MOVED_ASIDE} w
      | Inr (Inl s) \<Rightarrow> False
      | Inl Died \<Rightarrow> \<not> calm
      | Inl (Cutover c t s) \<Rightarrow> \<not> calm \<and> (cs_state s = UNKNOWN \<or> at p d0 calm {cs_state s} w)
      | _ \<Rightarrow> False)"

lemma move_aside_spec:
  assumes ok: "plan_ok p" and t: "cp_target_oid p \<noteq> None"
  shows "pspec (at p d0 calm {CUT_READY}) (move_target_aside p) (moved_outcome p d0 calm)"
  unfolding move_target_aside_def
proof (rule command_try[OF terminate_spec[OF ok]])
  show "pspec (at p d0 calm {CUT_READY})
     (pbind (reconcile_database_cutover p) (\<lambda>s.
        if status_promoted s = Some True then pret (Inl s)
        else if cs_state s = CUT_READY then
          ptry (rename_database (cp_target_db p) (cp_aside_db p))
            (\<lambda>_. pbind (cutover_failure p ''Could not move the original target database aside'')
               (\<lambda>(m, s'). if cs_state s' = TARGET_MOVED_ASIDE then pret (Inr s')
                          else if status_promoted s' = Some True then pret (Inl s')
                          else pthrow (Cutover CutError m s')))
            (\<lambda>_. pbind (reconcile_database_cutover p) (\<lambda>s'. pret (Inr s')))
        else if cs_state s \<noteq> TARGET_MOVED_ASIDE
        then pthrow (Cutover CutError ''Original target identity changed before it could be moved aside'' s)
        else pret (Inr s))) (moved_outcome p d0 calm)"
  proof (rule reconcile_bind[OF ok])
    fix s :: cutover_status assume s: "cs_state s \<in> {CUT_READY}"
    have "pspec (at p d0 calm {CUT_READY}) (ptry (rename_database (cp_target_db p) (cp_aside_db p))
            (\<lambda>_. pbind (cutover_failure p ''Could not move the original target database aside'')
               (\<lambda>(m, s'). if cs_state s' = TARGET_MOVED_ASIDE then pret (Inr s')
                          else if status_promoted s' = Some True then pret (Inl s')
                          else pthrow (Cutover CutError m s')))
            (\<lambda>_. pbind (reconcile_database_cutover p) (\<lambda>s'. pret (Inr s')))) (moved_outcome p d0 calm)"
      by (intro command_try[OF aside_spec[OF ok t]] reconcile_bind[OF ok] failure_then[OF ok])
        (auto simp: leaf_defs moved_outcome_def intro: at_mono)
    with s show "pspec (at p d0 calm {cs_state s}) (if status_promoted s = Some True then pret (Inl s)
        else if cs_state s = CUT_READY then
          ptry (rename_database (cp_target_db p) (cp_aside_db p))
            (\<lambda>_. pbind (cutover_failure p ''Could not move the original target database aside'')
               (\<lambda>(m, s'). if cs_state s' = TARGET_MOVED_ASIDE then pret (Inr s')
                          else if status_promoted s' = Some True then pret (Inl s')
                          else pthrow (Cutover CutError m s')))
            (\<lambda>_. pbind (reconcile_database_cutover p) (\<lambda>s'. pret (Inr s')))
        else if cs_state s \<noteq> TARGET_MOVED_ASIDE
        then pthrow (Cutover CutError ''Original target identity changed before it could be moved aside'' s)
        else pret (Inr s)) (moved_outcome p d0 calm)"
      by (simp add: status_promoted_def)
  qed (auto simp: moved_outcome_def intro: at_mono)
next
  fix e assume "\<not> calm"
  then show "pspec (at p d0 calm {CUT_READY})
     (pbind (cutover_failure p ''Could not terminate connections to the original target database'')
          (\<lambda>(m, s). if status_promoted s = Some True then pret (Inl s) else pthrow (Cutover CutError m s)))
     (moved_outcome p d0 calm)"
    by (intro failure_then[OF ok]) (auto simp: leaf_defs moved_outcome_def intro: at_mono)
qed (auto simp: moved_outcome_def intro: at_mono)

abbreviation live :: "cutover_state set" where
  "live \<equiv> {CUT_READY, TARGET_MOVED_ASIDE, PROMOTED}"

lemma promote_incoming_spec:
  assumes ok: "plan_ok p" and s: "s = TARGET_MOVED_ASIDE \<or> s = CUT_READY \<and> cp_target_oid p = None"
  shows "pspec (at p d0 calm {s}) (promote_incoming p) (outcome p d0 calm live {PROMOTED})"
  unfolding promote_incoming_def
proof (rule command_try[OF promote_spec[OF ok s]])
  show "pspec (at p d0 calm {PROMOTED}) (ptry_cutover (reconcile_database_cutover p)
          (\<lambda>s. pthrow (Cutover CutError ''Database promotion command completed but the resulting state could not be determined'' s))
          (\<lambda>s. if status_promoted s \<noteq> Some True
               then pthrow (Cutover CutError ''Database promotion command did not produce a promoted state'' s)
               else pret s)) (outcome p d0 calm live {PROMOTED})"
    by (rule reconcile_then[OF ok]) (auto simp: leaf_defs intro: at_mono)
next
  fix e :: cut_exn assume nc: "\<not> calm"
  have S: "{s} \<union> {PROMOTED} \<subseteq> live" using s by auto
  show "pspec (at p d0 calm ({s} \<union> {PROMOTED})) (ptry_cutover (reconcile_database_cutover p)
          (\<lambda>s. pthrow (Cutover CutError ''Database promotion response was lost and the resulting state could not be determined'' s))
          (\<lambda>after_failure.
             if status_promoted after_failure = Some True then pret after_failure
             else pbind (if cs_state after_failure = TARGET_MOVED_ASIDE
                         then pbind (restore_old_target_after_failed_promotion p) (\<lambda>s. pret (Some s))
                         else pret None)
               (\<lambda>r. case r of
                  Some s \<Rightarrow> if status_promoted s = Some True then pret s
                     else pthrow (Cutover CutError ''Database promotion failed before changing database identities'' after_failure)
                | None \<Rightarrow> pthrow (Cutover CutError ''Database promotion failed before changing database identities'' after_failure))))
     (outcome p d0 calm live {PROMOTED})"
  proof (rule reconcile_then[OF ok])
    fix a :: cutover_status assume a: "cs_state a \<in> {s} \<union> {PROMOTED}"
    let ?m = "if cs_state a = TARGET_MOVED_ASIDE
                         then pbind (restore_old_target_after_failed_promotion p) (\<lambda>s. pret (Some s))
                         else pret None"
    let ?k = "\<lambda>r. case r of
                  Some s \<Rightarrow> if status_promoted s = Some True then pret s
                     else pthrow (Cutover CutError ''Database promotion failed before changing database identities'' a)
                | None \<Rightarrow> pthrow (Cutover CutError ''Database promotion failed before changing database identities'' a)"
    show "pspec (at p d0 calm {cs_state a}) (if status_promoted a = Some True then pret a else pbind ?m ?k)
       (outcome p d0 calm live {PROMOTED})"
    proof (cases "cs_state a = TARGET_MOVED_ASIDE")
      case True
      have "pspec (at p d0 calm {TARGET_MOVED_ASIDE})
          (pbind (pbind (restore_old_target_after_failed_promotion p) (\<lambda>s. pret (Some s))) ?k)
          (outcome p d0 calm live {PROMOTED})"
      proof (rule pspec_bind, rule pspec_bind[OF restore_outcome[OF ok nc]])
        show "pspec (outcome p d0 calm {CUT_READY, TARGET_MOVED_ASIDE} {} (Inr x)) (pret (Some x))
            (\<lambda>r w. \<exists>e. r = Inl e \<and> outcome p d0 calm {CUT_READY, TARGET_MOVED_ASIDE} {} (Inl e) w)" for x
          by (auto simp: leaf_defs)
        show "\<exists>e'. Inl e = Inl e' \<and> outcome p d0 calm {CUT_READY, TARGET_MOVED_ASIDE} {} (Inl e') w"
          if "outcome p d0 calm {CUT_READY, TARGET_MOVED_ASIDE} {} (Inl e) w" for e w using that by simp
      qed (auto simp: leaf_defs split: cut_exn.splits intro: at_mono)
      moreover have "status_promoted a \<noteq> Some True" using True by (simp add: status_promoted_def)
      ultimately show ?thesis using True by simp
    next
      case False
      with a s nc show ?thesis by (auto simp: leaf_defs pbind_def intro: at_mono)
    qed
  qed (use S nc in \<open>auto simp: leaf_defs intro: at_mono\<close>)
qed (use s in \<open>auto simp: outcome_def intro: at_mono\<close>)

lemma promote_spec_live:
  assumes ok: "plan_ok p"
  shows "pspec (at p d0 calm live) (promote_database_cutover p) (outcome p d0 calm live {PROMOTED})"
  unfolding promote_database_cutover_def
proof (rule reconcile_bind[OF ok])
  fix s :: cutover_status assume s: "cs_state s \<in> live"
  let ?k = "\<lambda>r. case r of
         Inl s \<Rightarrow> pret s
       | Inr s \<Rightarrow>
           if status_promoted s = Some True then pret s
           else if cs_state s \<notin> {CUT_READY, TARGET_MOVED_ASIDE}
           then pthrow (Cutover CutError ''Database cutover is not in a promotable state'' s)
           else promote_incoming p"
  show "pspec (at p d0 calm {cs_state s}) (if status_promoted s = Some True then pret s
     else pbind (if cs_state s = CUT_READY \<and> cp_target_oid p \<noteq> None then move_target_aside p else pret (Inr s)) ?k)
     (outcome p d0 calm live {PROMOTED})"
  proof (cases "cs_state s = CUT_READY \<and> cp_target_oid p \<noteq> None")
    case True
    have "pspec (at p d0 calm {CUT_READY}) (pbind (move_target_aside p) ?k) (outcome p d0 calm live {PROMOTED})"
    proof (rule pspec_bind[OF move_aside_spec[OF ok conjunct2[OF True]]])
      fix x :: "cutover_status + cutover_status"
      show "pspec (moved_outcome p d0 calm (Inr x)) (?k x) (outcome p d0 calm live {PROMOTED})"
      proof (cases x)
        case (Inl y)
        then show ?thesis by (simp add: pspec_def moved_outcome_def)
      next
        case (Inr y)
        have "pspec (moved_outcome p d0 calm (Inr (Inr y))) (?k (Inr y)) (outcome p d0 calm live {PROMOTED})"
        proof (rule pspec_when[where C = "cs_state y = TARGET_MOVED_ASIDE" and P' = "at p d0 calm {TARGET_MOVED_ASIDE}"])
          assume "cs_state y = TARGET_MOVED_ASIDE"
          with promote_incoming_spec[OF ok, of TARGET_MOVED_ASIDE]
          show "pspec (at p d0 calm {TARGET_MOVED_ASIDE}) (?k (Inr y)) (outcome p d0 calm live {PROMOTED})"
            by (simp add: status_promoted_def)
        qed (simp add: moved_outcome_def)
        with Inr show ?thesis by simp
      qed
    qed (auto simp: moved_outcome_def outcome_def split: cut_exn.splits intro: at_mono)
    moreover have "status_promoted s \<noteq> Some True" using True by (simp add: status_promoted_def)
    ultimately show ?thesis using True by simp
  next
    case False
    show ?thesis
    proof (cases "cs_state s = PROMOTED")
      case True
      then show ?thesis by (auto simp: leaf_defs intro: at_mono)
    next
      case False
      with s \<open>\<not> (cs_state s = CUT_READY \<and> cp_target_oid p \<noteq> None)\<close>
      have "cs_state s = TARGET_MOVED_ASIDE \<or> cs_state s = CUT_READY \<and> cp_target_oid p = None" by auto
      from promote_incoming_spec[OF ok this, of d0 calm] False s show ?thesis
        using \<open>\<not> (cs_state s = CUT_READY \<and> cp_target_oid p \<noteq> None)\<close>
        by (auto simp: status_promoted_def pbind_def pret_def)
    qed
  qed
qed (auto simp: outcome_def)

section \<open>Finalization\<close>

abbreviation done_states :: "cutover_state set" where
  "done_states \<equiv> {PROMOTED, FINALIZED}"

lemma drop_old_spec:
  assumes ok: "plan_ok p" and t: "cp_target_oid p \<noteq> None"
  shows "pspec (at p d0 calm {PROMOTED}) (drop_old_database p) (outcome p d0 calm done_states {FINALIZED})"
  unfolding drop_old_database_def
  by (intro command_try[OF drop_spec[OF ok t]] reconcile_then[OF ok]) (auto simp: leaf_defs intro: at_mono)

lemma finalize_spec:
  assumes ok: "plan_ok p" and t: "cp_target_oid p \<noteq> None"
  shows "pspec (at p d0 calm done_states) (finalize_database_cutover p True) (outcome p d0 calm done_states {FINALIZED})"
proof -
  let ?recheck = "ptry_cutover (reconcile_database_cutover p)
             (\<lambda>s. pthrow (Cutover CutCleanup ''Database promotion succeeded, but the old database identity could not be re-verified before cleanup'' s))
             (\<lambda>s. if cs_state s = FINALIZED then pret s
                  else if cs_state s \<noteq> PROMOTED
                  then pthrow (Cutover CutCleanup ''Database promotion succeeded, but the old database identity changed before cleanup'' s)
                  else drop_old_database p)"
  have re: "pspec (at p d0 calm {PROMOTED}) ?recheck (outcome p d0 calm done_states {FINALIZED})"
  proof (rule reconcile_then[OF ok])
    fix s :: cutover_status assume "cs_state s \<in> {PROMOTED}"
    with drop_old_spec[OF ok t, of d0 calm] show "pspec (at p d0 calm {cs_state s}) (if cs_state s = FINALIZED then pret s
                  else if cs_state s \<noteq> PROMOTED
                  then pthrow (Cutover CutCleanup ''Database promotion succeeded, but the old database identity changed before cleanup'' s)
                  else drop_old_database p) (outcome p d0 calm done_states {FINALIZED})" by simp
  qed (auto simp: leaf_defs intro: at_mono)
  have main: "pspec (at p d0 calm {PROMOTED}) (ptry (terminate_connections (cp_aside_db p))
          (\<lambda>_. pthrow (Cutover CutCleanup ''Database promotion succeeded, but connections to the old database could not be terminated'' s))
          (\<lambda>_. ?recheck)) (outcome p d0 calm done_states {FINALIZED})" if "cs_state s = PROMOTED" for s
    by (rule command_try[OF terminate_spec[OF ok] re]) (use that in \<open>auto simp: leaf_defs intro: at_mono\<close>)
  show ?thesis
    unfolding finalize_database_cutover_def simp_thms if_False
  proof (rule reconcile_bind[OF ok])
    fix s :: cutover_status assume s: "cs_state s \<in> done_states"
    show "pspec (at p d0 calm {cs_state s}) (if status_promoted s \<noteq> Some True
        then pthrow (Cutover CutError ''Cannot finalize a database cutover that has not been promoted'' s)
        else if cs_state s = FINALIZED then pret s
        else if cp_target_oid p = None then pret (s\<lparr>cs_state := FINALIZED\<rparr>)
        else ptry (terminate_connections (cp_aside_db p))
          (\<lambda>_. pthrow (Cutover CutCleanup ''Database promotion succeeded, but connections to the old database could not be terminated'' s))
          (\<lambda>_. ?recheck)) (outcome p d0 calm done_states {FINALIZED})"
    proof (cases "cs_state s = FINALIZED")
      case True
      then show ?thesis by (auto simp: leaf_defs intro: at_mono)
    next
      case False
      then have p: "cs_state s = PROMOTED" and sp: "status_promoted s = Some True"
        using s by (auto simp: status_promoted_def)
      from main[OF p] show ?thesis using False p sp t by (cases "cp_target_oid p") simp_all
    qed
  qed (auto simp: outcome_def)
qed

text \<open>Without a promoted state nothing is removed.\<close>

lemma finalize_not_promoted:
  assumes ok: "plan_ok p"
  shows "pspec (at p d0 calm {CUT_READY, TARGET_MOVED_ASIDE}) (finalize_database_cutover p recorded)
     (\<lambda>r w. at p d0 calm {CUT_READY, TARGET_MOVED_ASIDE} w \<and> (\<exists>e. r = Inl e))"
proof (cases recorded)
  case True
  show ?thesis unfolding finalize_database_cutover_def using True
    by (simp, intro reconcile_bind[OF ok]) (auto simp: leaf_defs intro: at_mono)
next
  case False
  then show ?thesis by (simp add: finalize_database_cutover_def pspec_def pthrow_def)
qed

section \<open>The older swap\<close>

text \<open>An undisturbed swap puts the prepared database in place and leaves no copy behind.\<close>

lemma calm_commands:
  assumes "pg_faults v = []"
  shows "psql (Terminate n) v = (Inr (), v)"
    "NUL \<notin> set n \<Longrightarrow> psql (DropDb n) v = (Inr (), v\<lparr>pg_dbs := dict_del n (pg_dbs v)\<rparr>)"
    "NUL \<notin> set a \<Longrightarrow> NUL \<notin> set b \<Longrightarrow> dict_get (pg_dbs v) a = Some oid \<Longrightarrow> dict_get (pg_dbs v) b = None \<Longrightarrow>
       psql (RenameDb a b) v = (Inr (), v\<lparr>pg_dbs := dict_put b oid (dict_del a (pg_dbs v))\<rparr>)"
    "database_exists n v = (Inr (dict_has (pg_dbs v) n), v)"
  using assms by (simp_all add: psql_def next_fault_def quote_identifier_def database_exists_def)

lemma swap_calm:
  assumes names: "temp \<noteq> target" "NUL \<notin> set temp" "NUL \<notin> set target" and temp: "temp \<noteq> target @ ''__old_swap''"
    and db: "dict_get (pg_dbs w) temp = Some t" and q: "pg_faults w = []"
  shows "\<exists>w'. swap_temp_database True False temp target env w = (Inr (), w') \<and>
     dict_get (pg_dbs w') target = Some t \<and> dict_get (pg_dbs w') temp = None \<and>
     dict_get (pg_dbs w') (target @ ''__old_swap'') = None"
proof -
  have aside: "NUL \<notin> set (target @ ''__old_swap'')" "target @ ''__old_swap'' \<noteq> target" using names by auto
  show ?thesis
    using names temp db q aside unfolding swap_temp_database_def
    by (cases "dict_get (pg_dbs w) (target @ ''__old_swap'')"; cases "dict_get (pg_dbs w) target")
      (simp_all add: Let_def pbind_def ptry_def pwhen_def pret_def calm_commands del: append.simps)
qed

end
