(* ===== verification/Api_Dispatch.thy ===== *)
theory Api_Dispatch
  imports Api_Ops
begin

text \<open>
  What an accepted request makes the runner do: the parameters pass redaction and the queue,
  and the calls of the dispatch carry the confirmations the API insisted on.
\<close>

section \<open>Parameters through redaction\<close>

lemma strip_env_plain: "DOLLAR \<notin> set s \<Longrightarrow> strip_env_defaults s = s"
proof (induction s)
  case (Cons c s)
  then have "match_env_default (c # s) = None"
    by (cases s) (auto simp: match_env_default_def split: list.splits)
  with Cons show ?case by (subst strip_env_defaults.simps) simp
qed (simp add: strip_env_defaults.simps match_env_default_def)

lemma redact_text_plain: "DOLLAR \<notin> set s \<Longrightarrow> redact_text s [] = s"
  by (simp add: redact_text_def strip_env_plain)

lemma redact_param:
  "\<not> is_secret_key k \<Longrightarrow> \<exists>kvs'. redact_json secrets (JObj kvs) = JObj kvs' \<and>
     dict_get kvs' k = map_option (redact_json secrets) (dict_get kvs k)"
  by (induction kvs) (auto simp: dict_get_def)

lemma enqueued_fields:
  "qe_environment (enqueued_entry ap project p rq) = rq_environment rq" "qe_kind (enqueued_entry ap project p rq) = rq_kind rq"
  by (simp_all add: enqueued_entry_def entry_create_def)

text \<open>A parameter of a queue entry is the redaction of the one in the request.\<close>

lemma enqueued_param:
  assumes "param_is (enqueued_entry ap project p rq) k j" "\<not> is_secret_key k"
  shows "\<exists>v. dict_get (rq_params rq) k = Some v \<and> j = redact_json [] v"
proof -
  obtain kvs where "redact_json [] (JObj (rq_params rq)) = JObj kvs"
    "dict_get kvs k = map_option (redact_json []) (dict_get (rq_params rq) k)"
    using redact_param[OF assms(2)] by blast
  with assms(1) have "map_option (redact_json []) (dict_get (rq_params rq) k) = Some j"
    by (simp add: param_is_def enqueued_entry_def entry_create_def del: redact_json.simps)
  then show ?thesis by auto
qed

lemma plain_keys:
  "\<not> is_secret_key ''action''" "\<not> is_secret_key ''restore_id''" "\<not> is_secret_key ''migration_id''"
  "\<not> is_secret_key ''confirm_environment''" "\<not> is_secret_key ''confirm_database''"
  "\<not> is_secret_key ''accept_database_only''" "\<not> is_secret_key ''confirm_source_retained''"
  "\<not> is_secret_key ''confirm_migration_id''" "\<not> is_secret_key ''delete_source''"
  by (simp_all add: is_secret_key_def SECRET_KEY_TOKENS_def py_lower_def lower_char_def starts_with_def)

text \<open>
  The confirmations that go with a call: the environment, the database and the migration are
  named exactly, and the flag is set.
\<close>

fun confirmed_call :: "EnvMap \<Rightarrow> service_call \<Rightarrow> bool" where
  "confirmed_call envs (CallPitrCutover env i ce cd ok) =
     (ce = env \<and> map_option env_db_name (dict_get envs env) = Some cd \<and> ok)"
| "confirmed_call envs (CallCutoverMigration env i ce retained) = (ce = env \<and> retained)"
| "confirmed_call envs (CallDeleteSource env i ce ci ok) = (ce = env \<and> ci = i \<and> ok)"
| "confirmed_call envs (CallDeleteMarker env i ci) = (ci = i)"
| "confirmed_call envs _ = True"

section \<open>What acceptance says about the parameters\<close>

lemma validate_cutover:
  assumes "validate_request cfg p rq = Inr kind" "rq_kind rq = ''pitr_cutover''"
  shows "\<exists>env. dict_get (ac_envs cfg) (rq_environment rq) = Some env \<and>
    dict_get (rq_params rq) ''confirm_environment'' = Some (JStr (rq_environment rq)) \<and>
    dict_get (rq_params rq) ''confirm_database'' = Some (JStr (env_db_name env)) \<and>
    dict_get (rq_params rq) ''accept_database_only'' = Some (JBool True)"
proof -
  have "validate_pitr cfg rq = Inr ()" using assms(1) by (auto simp: validate_request_def bindE_eq_Inr_iff)
  then show ?thesis using assms(2)
    by (auto simp: validate_pitr_def starts_with_def bindE_eq_Inr_iff split: if_splits option.splits)
qed

lemma validate_migration:
  assumes "validate_request cfg p rq = Inr kind" "rq_kind rq = ''filestore_migrate''"
  shows "validate_filestore_params (rq_environment rq) (rq_params rq) = Inr ()"
proof -
  have "validate_filestore cfg rq = Inr ()" using assms(1) by (auto simp: validate_request_def bindE_eq_Inr_iff)
  then show ?thesis using assms(2) by (auto simp: validate_filestore_def bindE_eq_Inr_iff)
qed

lemma filestore_action:
  assumes "validate_filestore_params env params = Inr ()"
  obtains a where "dict_get params ''action'' = Some (JStr a)" "a \<in> set FILESTORE_ACTIONS"
  using assms by (auto simp: validate_filestore_params_def Let_def FILESTORE_ACTIONS_def split: option.splits json.splits if_splits)

lemma filestore_migration_id:
  assumes "validate_filestore_params env params = Inr ()" "dict_get params ''action'' = Some (JStr a)" "a \<noteq> ''plan''"
  shows "\<exists>i. dict_get params ''migration_id'' = Some (JStr i) \<and> safe_operation_id i"
proof -
  have "\<exists>i. require_safe_operation_id params ''migration_id'' = Inr i"
    using assms by (auto simp: validate_filestore_params_def Let_def bindE_eq_Inr_iff split: if_splits)
  then show ?thesis
    by (auto simp: require_safe_operation_id_def split: option.splits json.splits if_splits)
qed

lemma filestore_cutover:
  assumes "validate_filestore_params env params = Inr ()" "dict_get params ''action'' = Some (JStr ''cutover'')"
  shows "dict_get params ''confirm_environment'' = Some (JStr env)"
    "dict_get params ''confirm_source_retained'' = Some (JBool True)"
  using assms by (auto simp: validate_filestore_params_def Let_def FILESTORE_ACTIONS_def bindE_eq_Inr_iff)

lemma filestore_delete_source:
  assumes "validate_filestore_params env params = Inr ()" "dict_get params ''action'' = Some (JStr ''delete_source'')"
    "dict_get params ''migration_id'' = Some (JStr i)"
  shows "dict_get params ''confirm_environment'' = Some (JStr env)" "dict_get params ''confirm_migration_id'' = Some (JStr i)"
    "dict_get params ''delete_source'' = Some (JBool True)"
  using assms by (auto simp: validate_filestore_params_def Let_def FILESTORE_ACTIONS_def bindE_eq_Inr_iff require_safe_operation_id_def
      split: if_splits)

lemma filestore_delete_marker:
  assumes "validate_filestore_params env params = Inr ()" "dict_get params ''action'' = Some (JStr ''delete_remote_marker'')"
    "dict_get params ''migration_id'' = Some (JStr i)"
  shows "dict_get params ''confirm_migration_id'' = Some (JStr i)"
  using assms by (auto simp: validate_filestore_params_def Let_def FILESTORE_ACTIONS_def bindE_eq_Inr_iff require_safe_operation_id_def
      split: if_splits)

lemma safe_id_plain: "safe_operation_id i \<Longrightarrow> DOLLAR \<notin> set i"
proof
  assume "safe_operation_id i" "DOLLAR \<in> set i"
  then have "alnum_char DOLLAR \<or> DOLLAR \<in> set ''._-''"
    by (cases i) (auto simp: safe_operation_id_def list_all_iff)
  then show False by (simp add: alnum_char_def)
qed

lemma action_plain: "a \<in> set FILESTORE_ACTIONS \<Longrightarrow> DOLLAR \<notin> set a"
  by (auto simp: FILESTORE_ACTIONS_def)

section \<open>The calls of accepted requests\<close>

section \<open>The calls of accepted requests\<close>

lemma text_through:
  "param_is (enqueued_entry ap project p rq) k (JStr t) \<Longrightarrow> \<not> is_secret_key k \<Longrightarrow>
   dict_get (rq_params rq) k = Some (JStr s) \<Longrightarrow> DOLLAR \<notin> set s \<Longrightarrow> t = s"
  using enqueued_param[of ap project p rq k "JStr t"] by (auto simp: redact_text_plain)

lemma flag_through:
  "param_is (enqueued_entry ap project p rq) k (JBool t) \<Longrightarrow> \<not> is_secret_key k \<Longrightarrow>
   dict_get (rq_params rq) k = Some (JBool b) \<Longrightarrow> t = b"
  using enqueued_param[of ap project p rq k "JBool t"] by auto

lemma migration_through:
  assumes "validate_request cfg p rq = Inr kind" "migration_step (enqueued_entry ap project p rq) a"
  shows "validate_filestore_params (rq_environment rq) (rq_params rq) = Inr ()"
    "dict_get (rq_params rq) ''action'' = Some (JStr a)"
proof -
  have k: "rq_kind rq = ''filestore_migrate''" and a: "param_is (enqueued_entry ap project p rq) ''action'' (JStr a)"
    using assms(2) by (simp_all add: migration_step_def enqueued_fields)
  show v: "validate_filestore_params (rq_environment rq) (rq_params rq) = Inr ()"
    by (rule validate_migration[OF assms(1) k])
  obtain b where b: "dict_get (rq_params rq) ''action'' = Some (JStr b)" "b \<in> set FILESTORE_ACTIONS"
    using filestore_action[OF v] by blast
  with text_through[OF a plain_keys(1) b(1) action_plain] show "dict_get (rq_params rq) ''action'' = Some (JStr a)" by simp
qed

lemma migration_id_through:
  assumes "validate_filestore_params (rq_environment rq) (rq_params rq) = Inr ()"
    "dict_get (rq_params rq) ''action'' = Some (JStr a)" "a \<noteq> ''plan''"
    "param_is (enqueued_entry ap project p rq) ''migration_id'' (JStr i)"
  shows "dict_get (rq_params rq) ''migration_id'' = Some (JStr i) \<and> DOLLAR \<notin> set i"
  using filestore_migration_id[OF assms(1,2,3)] text_through[OF assms(4) plain_keys(3)] safe_id_plain by blast

lemma accepted_calls_confirmed:
  assumes valid: "validate_request cfg p rq = Inr kind" and env: "DOLLAR \<notin> set (rq_environment rq)"
    and db: "\<And>c. dict_get (ac_envs cfg) (rq_environment rq) = Some c \<Longrightarrow> DOLLAR \<notin> set (env_db_name c)"
    and adm: "admissible_call c (enqueued_entry ap project p rq) call"
  shows "confirmed_call (ac_envs cfg) call"
proof -
  let ?e = "enqueued_entry ap project p rq"
  note e = enqueued_fields[of ap project p rq]
  show ?thesis
  proof (cases call)
    case (CallPitrCutover ev i ce cd ok)
    with adm e have a: "rq_kind rq = ''pitr_cutover''" "ev = rq_environment rq"
      "param_is ?e ''confirm_environment'' (JStr ce)" "param_is ?e ''confirm_database'' (JStr cd)"
      "param_is ?e ''accept_database_only'' (JBool ok)" by simp_all
    obtain c where c: "dict_get (ac_envs cfg) (rq_environment rq) = Some c"
      "dict_get (rq_params rq) ''confirm_environment'' = Some (JStr (rq_environment rq))"
      "dict_get (rq_params rq) ''confirm_database'' = Some (JStr (env_db_name c))"
      "dict_get (rq_params rq) ''accept_database_only'' = Some (JBool True)"
      using validate_cutover[OF valid a(1)] by blast
    have "ce = rq_environment rq" "cd = env_db_name c" "ok = True"
      by (rule text_through[OF a(3) plain_keys(4) c(2) env] text_through[OF a(4) plain_keys(5) c(3) db[OF c(1)]]
          flag_through[OF a(5) plain_keys(6) c(4)])+
    with CallPitrCutover a(2) c(1) show ?thesis by simp
  next
    case (CallCutoverMigration ev i ce ok)
    with adm e have a: "migration_step ?e ''cutover''" "ev = rq_environment rq"
      "param_is ?e ''confirm_environment'' (JStr ce)" "param_is ?e ''confirm_source_retained'' (JBool ok)" by simp_all
    note m = migration_through[OF valid a(1)]
    have "ce = rq_environment rq" "ok = True"
      by (rule text_through[OF a(3) plain_keys(4) filestore_cutover(1)[OF m] env]
          flag_through[OF a(4) plain_keys(7) filestore_cutover(2)[OF m]])+
    with CallCutoverMigration a(2) show ?thesis by simp
  next
    case (CallDeleteSource ev i ce ci ok)
    with adm e have a: "migration_step ?e ''delete_source''" "ev = rq_environment rq" "param_is ?e ''migration_id'' (JStr i)"
      "param_is ?e ''confirm_environment'' (JStr ce)" "param_is ?e ''confirm_migration_id'' (JStr ci)"
      "param_is ?e ''delete_source'' (JBool ok)" by simp_all
    note m = migration_through[OF valid a(1)]
    have i: "dict_get (rq_params rq) ''migration_id'' = Some (JStr i)" "DOLLAR \<notin> set i"
      using migration_id_through[OF m _ a(3)] by simp_all
    note d = filestore_delete_source[OF m i(1)]
    have "ce = rq_environment rq" "ci = i" "ok = True"
      by (rule text_through[OF a(4) plain_keys(4) d(1) env] text_through[OF a(5) plain_keys(8) d(2) i(2)]
          flag_through[OF a(6) plain_keys(9) d(3)])+
    with CallDeleteSource a(2) show ?thesis by simp
  next
    case (CallDeleteMarker ev i ci)
    with adm e have a: "migration_step ?e ''delete_remote_marker''" "param_is ?e ''migration_id'' (JStr i)"
      "param_is ?e ''confirm_migration_id'' (JStr ci)" by simp_all
    note m = migration_through[OF valid a(1)]
    have i: "dict_get (rq_params rq) ''migration_id'' = Some (JStr i)" "DOLLAR \<notin> set i"
      using migration_id_through[OF m _ a(2)] by simp_all
    have "ci = i" by (rule text_through[OF a(3) plain_keys(8) filestore_delete_marker[OF m i(1)] i(2)])
    with CallDeleteMarker show ?thesis by simp
  qed simp_all
qed

end
