(* ===== verification/Effects.thy ===== *)
theory Effects
  imports Prelude
begin

text \<open>
  Code with effects, as functions from a world to a result and the world left behind.  A
  result is a value or a failure: an exception of the component, an interrupt (a
  \<open>BaseException\<close> that is no \<open>Exception\<close>), or the death of the process, which no handler
  sees.  External calls take their fate from a schedule: carried out and answered, carried
  out with the answer lost, rejected, interrupted, or the process dies before or after it.
\<close>

datatype 'x failure = Died | Interrupted | Raised 'x

type_synonym ('s, 'x, 'a) eff = "'s \<Rightarrow> ('x failure, 'a) result \<times> 's"

datatype fate = Carried | CarriedLost | Rejected | DeadBefore | DeadAfter | Signalled

section \<open>Combinators\<close>

definition eff_return :: "'a \<Rightarrow> ('s, 'x, 'a) eff" where
  "eff_return x = (\<lambda>w. (Inr x, w))"

definition eff_raise :: "'x \<Rightarrow> ('s, 'x, 'a) eff" where
  "eff_raise e = (\<lambda>w. (Inl (Raised e), w))"

definition eff_fail :: "'x failure \<Rightarrow> ('s, 'x, 'a) eff" where
  "eff_fail e = (\<lambda>w. (Inl e, w))"

definition eff_bind :: "('s, 'x, 'a) eff \<Rightarrow> ('a \<Rightarrow> ('s, 'x, 'b) eff) \<Rightarrow> ('s, 'x, 'b) eff" where
  "eff_bind m f = (\<lambda>w. case m w of (Inl e, w') \<Rightarrow> (Inl e, w') | (Inr x, w') \<Rightarrow> f x w')"

definition eff_read :: "('s \<Rightarrow> 'a) \<Rightarrow> ('s, 'x, 'a) eff" where
  "eff_read f = (\<lambda>w. (Inr (f w), w))"

definition eff_check :: "bool \<Rightarrow> 'x \<Rightarrow> ('s, 'x, unit) eff" where
  "eff_check b e = (if b then eff_return () else eff_raise e)"

definition eff_lift :: "('x, 'a) result \<Rightarrow> ('s, 'x, 'a) eff" where
  "eff_lift r = (case r of Inl e \<Rightarrow> eff_raise e | Inr x \<Rightarrow> eff_return x)"

text \<open>\<open>try: m; except Exception as e: h(e)\<close>.\<close>

definition eff_catch :: "('s, 'x, 'a) eff \<Rightarrow> ('x \<Rightarrow> ('s, 'x, 'a) eff) \<Rightarrow> ('s, 'x, 'a) eff" where
  "eff_catch m h = (\<lambda>w. case m w of (Inl (Raised e), w') \<Rightarrow> h e w' | r \<Rightarrow> r)"

text \<open>\<open>try: m; except BaseException as e: h(e)\<close>.\<close>

definition eff_catch_all :: "('s, 'x, 'a) eff \<Rightarrow> ('x failure \<Rightarrow> ('s, 'x, 'a) eff) \<Rightarrow> ('s, 'x, 'a) eff" where
  "eff_catch_all m h = (\<lambda>w. case m w of (Inl e, w') \<Rightarrow> (if e = Died then (Inl Died, w') else h e w') | r \<Rightarrow> r)"

text \<open>\<open>try: m; finally: f\<close>; a failure of \<open>f\<close> replaces the outcome of \<open>m\<close>.\<close>

definition eff_finally :: "('s, 'x, 'a) eff \<Rightarrow> ('s, 'x, unit) eff \<Rightarrow> ('s, 'x, 'a) eff" where
  "eff_finally m f = (\<lambda>w. case m w of (r, w') \<Rightarrow>
     if r = Inl Died then (Inl Died, w')
     else (case f w' of (Inl e, w'') \<Rightarrow> (Inl e, w'') | (Inr _, w'') \<Rightarrow> (r, w'')))"

fun eff_each :: "('a \<Rightarrow> ('s, 'x, unit) eff) \<Rightarrow> 'a list \<Rightarrow> ('s, 'x, unit) eff" where
  "eff_each f [] = eff_return ()"
| "eff_each f (x # xs) = eff_bind (f x) (\<lambda>_. eff_each f xs)"

text \<open>The values of a list of steps.\<close>

fun eff_collect :: "('a \<Rightarrow> ('s, 'x, 'b) eff) \<Rightarrow> 'a list \<Rightarrow> ('s, 'x, 'b list) eff" where
  "eff_collect f [] = eff_return []"
| "eff_collect f (x # xs) = eff_bind (f x) (\<lambda>y. eff_bind (eff_collect f xs) (\<lambda>ys. eff_return (y # ys)))"

text \<open>\<open>try: x = m; except Exception as e: return h(e)\<close> followed by \<open>f(x)\<close>; the exceptions before and after differ.\<close>

definition eff_match ::
  "('s, 'x, 'a) eff \<Rightarrow> ('a \<Rightarrow> ('s, 'y, 'b) eff) \<Rightarrow> ('x \<Rightarrow> ('s, 'y, 'b) eff) \<Rightarrow> ('s, 'y, 'b) eff" where
  "eff_match m f h = (\<lambda>w. case m w of
     (Inr x, w') \<Rightarrow> f x w' | (Inl (Raised e), w') \<Rightarrow> h e w'
   | (Inl Interrupted, w') \<Rightarrow> (Inl Interrupted, w') | (Inl Died, w') \<Rightarrow> (Inl Died, w'))"

text \<open>
  An external call: \<open>next_fate\<close> takes the fate of the call out of the world, \<open>act\<close> is what
  the call does when it is carried out, \<open>e\<close> the exception of a call that got no answer.
\<close>

definition eff_external ::
  "('s \<Rightarrow> fate \<times> 's) \<Rightarrow> 'x \<Rightarrow> ('s \<Rightarrow> ('x, 'a) result \<times> 's) \<Rightarrow> ('s, 'x, 'a) eff" where
  "eff_external next_fate e act = (\<lambda>w. case next_fate w of (f, w') \<Rightarrow>
     if f = Rejected then (Inl (Raised e), w')
     else if f = Signalled then (Inl Interrupted, w')
     else if f = DeadBefore then (Inl Died, w')
     else (case act w' of
       (Inl e', w'') \<Rightarrow> (Inl (if f = DeadAfter then Died else Raised e'), w'')
     | (Inr x, w'') \<Rightarrow> (if f = Carried then Inr x else if f = CarriedLost then Inl (Raised e) else Inl Died, w'')))"

section \<open>Conditions\<close>

text \<open>
  From a world with \<open>P\<close>, the code ends with a value and \<open>Q\<close>, or with a failure and \<open>E\<close>; the
  failures include the death of the process at any point.
\<close>

definition eff_spec ::
  "('s \<Rightarrow> bool) \<Rightarrow> ('s, 'x, 'a) eff \<Rightarrow> ('a \<Rightarrow> 's \<Rightarrow> bool) \<Rightarrow> ('x failure \<Rightarrow> 's \<Rightarrow> bool) \<Rightarrow> bool" where
  "eff_spec P m Q E \<longleftrightarrow> (\<forall>w. P w \<longrightarrow> (case m w of (Inr x, w') \<Rightarrow> Q x w' | (Inl e, w') \<Rightarrow> E e w'))"

named_theorems eff_rules \<open>Rules that take code with effects apart.\<close>

lemma eff_spec_weaken:
  "eff_spec P m Q E \<Longrightarrow> (\<And>w. P' w \<Longrightarrow> P w) \<Longrightarrow> (\<And>x w. Q x w \<Longrightarrow> Q' x w) \<Longrightarrow> (\<And>e w. E e w \<Longrightarrow> E' e w) \<Longrightarrow>
   eff_spec P' m Q' E'"
  unfolding eff_spec_def by (fastforce split: prod.splits sum.splits)

lemma eff_spec_return [eff_rules]: "(\<And>w. P w \<Longrightarrow> Q x w) \<Longrightarrow> eff_spec P (eff_return x) Q E"
  by (simp add: eff_spec_def eff_return_def)

lemma eff_spec_raise [eff_rules]: "(\<And>w. P w \<Longrightarrow> E (Raised e) w) \<Longrightarrow> eff_spec P (eff_raise e) Q E"
  by (simp add: eff_spec_def eff_raise_def)

lemma eff_spec_fail [eff_rules]: "(\<And>w. P w \<Longrightarrow> E e w) \<Longrightarrow> eff_spec P (eff_fail e) Q E"
  by (simp add: eff_spec_def eff_fail_def)

lemma eff_spec_read [eff_rules]: "(\<And>w. P w \<Longrightarrow> Q (f w) w) \<Longrightarrow> eff_spec P (eff_read f) Q E"
  by (simp add: eff_spec_def eff_read_def)

lemma eff_spec_check [eff_rules]:
  "(\<And>w. P w \<Longrightarrow> b \<Longrightarrow> Q () w) \<Longrightarrow> (\<And>w. P w \<Longrightarrow> \<not> b \<Longrightarrow> E (Raised e) w) \<Longrightarrow> eff_spec P (eff_check b e) Q E"
  by (simp add: eff_spec_def eff_check_def eff_return_def eff_raise_def)

lemma eff_spec_lift [eff_rules]:
  "(\<And>w x. P w \<Longrightarrow> r = Inr x \<Longrightarrow> Q x w) \<Longrightarrow> (\<And>w e. P w \<Longrightarrow> r = Inl e \<Longrightarrow> E (Raised e) w) \<Longrightarrow> eff_spec P (eff_lift r) Q E"
  by (simp add: eff_spec_def eff_lift_def eff_return_def eff_raise_def split: sum.split)

lemma eff_spec_bind:
  "eff_spec P m R E \<Longrightarrow> (\<And>x. eff_spec (R x) (f x) Q E) \<Longrightarrow> eff_spec P (eff_bind m f) Q E"
  unfolding eff_spec_def eff_bind_def by (fastforce split: prod.splits sum.splits)

lemma eff_spec_catch:
  "eff_spec P m Q (\<lambda>e w. case e of Raised x \<Rightarrow> R x w | _ \<Rightarrow> E e w) \<Longrightarrow> (\<And>x. eff_spec (R x) (h x) Q E) \<Longrightarrow>
   eff_spec P (eff_catch m h) Q E"
  unfolding eff_spec_def eff_catch_def by (fastforce split: prod.splits sum.splits failure.splits)

lemma eff_spec_catch_all:
  "eff_spec P m Q (\<lambda>e w. if e = Died then E Died w else R e w) \<Longrightarrow> (\<And>e. eff_spec (R e) (h e) Q E) \<Longrightarrow>
   eff_spec P (eff_catch_all m h) Q E"
  unfolding eff_spec_def eff_catch_all_def by (fastforce split: prod.splits sum.splits if_splits)

lemma eff_spec_finally:
  assumes "eff_spec P m (\<lambda>x. R (Inr x)) (\<lambda>e w. if e = Died then E Died w else R (Inl e) w)"
    and "\<And>r. eff_spec (R r) f (\<lambda>_ w. case r of Inr x \<Rightarrow> Q x w | Inl e \<Rightarrow> E e w) E"
  shows "eff_spec P (eff_finally m f) Q E"
  unfolding eff_spec_def eff_finally_def
proof (intro allI impI)
  fix w assume P: "P w"
  obtain r w' where m: "m w = (r, w')" by force
  obtain u w'' where f: "f w' = (u, w'')" by force
  have 1: "case r of Inr x \<Rightarrow> R r w' | Inl e \<Rightarrow> (if e = Died then E Died w' else R r w')"
    using assms(1) P m by (auto simp: eff_spec_def split: sum.splits)
  have 2: "R r w' \<Longrightarrow> (case u of Inr _ \<Rightarrow> (case r of Inr x \<Rightarrow> Q x w'' | Inl e \<Rightarrow> E e w'') | Inl e \<Rightarrow> E e w'')"
    using assms(2)[of r] f by (auto simp: eff_spec_def split: sum.splits)
  show "case case m w of (r, w') \<Rightarrow> if r = Inl Died then (Inl Died, w')
          else (case f w' of (Inl e, w'') \<Rightarrow> (Inl e, w'') | (Inr _, w'') \<Rightarrow> (r, w'')) of
        (Inr x, w') \<Rightarrow> Q x w' | (Inl e, w') \<Rightarrow> E e w'"
    using 1 2 by (auto simp: m f split: sum.splits if_splits)
qed

lemma eff_spec_each:
  "(\<And>x. x \<in> set xs \<Longrightarrow> eff_spec I (f x) (\<lambda>_. I) E) \<Longrightarrow> eff_spec I (eff_each f xs) (\<lambda>_. I) E"
proof (induction xs)
  case (Cons x xs)
  have "eff_spec I (eff_bind (f x) (\<lambda>_. eff_each f xs)) (\<lambda>_. I) E"
    by (rule eff_spec_bind[where R = "\<lambda>_. I"]) (use Cons in simp_all)
  then show ?case by simp
qed (simp add: eff_spec_return)

text \<open>An external call: the fault schedule and the action each keep \<open>P\<close>.\<close>

lemma eff_spec_external:
  assumes nf: "\<And>w. P w \<Longrightarrow> P' (snd (nf w))"
    and idle: "\<And>w. P' w \<Longrightarrow> E (Raised e) w \<and> E Interrupted w \<and> E Died w"
    and act: "\<And>w. P' w \<Longrightarrow> (case act w of (Inr x, w') \<Rightarrow> Q x w' \<and> E (Raised e) w' \<and> E Died w'
       | (Inl e', w') \<Rightarrow> E (Raised e') w' \<and> E Died w')"
  shows "eff_spec P (eff_external nf e act) Q E"
  unfolding eff_spec_def
proof (intro allI impI)
  fix w assume "P w"
  obtain f w' where f: "nf w = (f, w')" by force
  have P': "P' w'" using nf[OF \<open>P w\<close>] f by simp
  from idle[OF P'] act[OF P'] show "case eff_external nf e act w of (Inr x, w') \<Rightarrow> Q x w' | (Inl e, w') \<Rightarrow> E e w'"
    by (auto simp: eff_external_def f split: prod.splits sum.splits)
qed

section \<open>Observations\<close>

text \<open>
  Code that keeps \<open>I\<close>, however it ends, and whose value satisfies \<open>q\<close>.  The rules take the
  code apart by its structure; what one part found out is available to the next.
\<close>

definition observes :: "('s \<Rightarrow> bool) \<Rightarrow> ('s, 'x, 'a) eff \<Rightarrow> ('a \<Rightarrow> bool) \<Rightarrow> bool" where
  "observes I m q \<longleftrightarrow> eff_spec I m (\<lambda>x w. I w \<and> q x) (\<lambda>_. I)"

named_theorems observe_rules \<open>Rules that take an observation apart.\<close>

lemma observes_mono: "observes I m q \<Longrightarrow> (\<And>x. q x \<Longrightarrow> q' x) \<Longrightarrow> observes I m q'"
  unfolding observes_def by (erule eff_spec_weaken) auto

lemma observes_return [observe_rules]: "q x \<Longrightarrow> observes I (eff_return x) q"
  by (simp add: observes_def eff_spec_return)

lemma observes_raise [observe_rules]: "observes I (eff_raise e) q"
  by (simp add: observes_def eff_spec_raise)

lemma observes_fail [observe_rules]: "observes I (eff_fail e) q"
  by (simp add: observes_def eff_spec_fail)

lemma observes_lift [observe_rules]: "(\<And>x. r = Inr x \<Longrightarrow> q x) \<Longrightarrow> observes I (eff_lift r) q"
  by (simp add: observes_def eff_spec_lift)

lemma observes_check [observe_rules]: "(b \<Longrightarrow> q ()) \<Longrightarrow> observes I (eff_check b e) q"
  by (simp add: observes_def eff_spec_check)

lemma observes_read [observe_rules]: "(\<And>w. I w \<Longrightarrow> q (f w)) \<Longrightarrow> observes I (eff_read f) q"
  by (simp add: observes_def eff_spec_read)

lemma observes_bind:
  "observes I m p \<Longrightarrow> (\<And>x. p x \<Longrightarrow> observes I (f x) q) \<Longrightarrow> observes I (eff_bind m f) q"
  unfolding observes_def
  by (rule eff_spec_bind[where R = "\<lambda>x w. I w \<and> p x"], assumption) (auto simp: eff_spec_def)

lemma observes_bind_lift [observe_rules]:
  "(\<And>x. r = Inr x \<Longrightarrow> observes I (f x) q) \<Longrightarrow> observes I (eff_bind (eff_lift r) f) q"
  by (rule observes_bind[where p = "\<lambda>x. r = Inr x"]) (simp_all add: observes_lift)

lemma observes_bind_check [observe_rules]:
  "(b \<Longrightarrow> observes I (f ()) q) \<Longrightarrow> observes I (eff_bind (eff_check b e) f) q"
  by (rule observes_bind[where p = "\<lambda>_. b"]) (simp_all add: observes_check)

lemma observes_bind_read [observe_rules]:
  "(\<And>w. I w \<Longrightarrow> observes I (f (g w)) q) \<Longrightarrow> observes I (eff_bind (eff_read g) f) q"
  by (rule observes_bind[where p = "\<lambda>x. \<exists>w. I w \<and> x = g w"]) (auto intro: observes_read)

lemma observes_bind_return [observe_rules]:
  "observes I (f x) q \<Longrightarrow> observes I (eff_bind (eff_return x) f) q"
  by (rule observes_bind[where p = "\<lambda>y. y = x"]) (simp_all add: observes_return)

lemma observes_catch:
  "observes I m q \<Longrightarrow> (\<And>e. observes I (h e) q) \<Longrightarrow> observes I (eff_catch m h) q"
  unfolding observes_def
  by (rule eff_spec_catch[where R = "\<lambda>_. I"]) (auto simp: eff_spec_def split: failure.splits sum.splits prod.splits)

lemma observes_match:
  "observes I m p \<Longrightarrow> (\<And>x. p x \<Longrightarrow> observes I (f x) q) \<Longrightarrow> (\<And>e. observes I (h e) q) \<Longrightarrow> observes I (eff_match m f h) q"
proof -
  assume m: "observes I m p" and f: "\<And>x. p x \<Longrightarrow> observes I (f x) q" and h: "\<And>e. observes I (h e) q"
  have "case eff_match m f h w of (Inr x, w') \<Rightarrow> I w' \<and> q x | (Inl e, w') \<Rightarrow> I w'" if w: "I w" for w
  proof (cases "m w")
    case (Pair r w1)
    show ?thesis
    proof (cases r)
      case (Inr x)
      then have "I w1" "p x" using m w Pair by (auto simp: observes_def eff_spec_def)
      then show ?thesis using f[of x] Pair Inr by (simp add: observes_def eff_spec_def eff_match_def)
    next
      case (Inl e)
      then have "I w1" using m w Pair by (auto simp: observes_def eff_spec_def)
      then show ?thesis using h Pair Inl by (cases e) (simp_all add: observes_def eff_spec_def eff_match_def)
    qed
  qed
  then show ?thesis by (simp add: observes_def eff_spec_def)
qed

lemma observes_collect:
  "(\<And>x. x \<in> set xs \<Longrightarrow> observes I (f x) (p x)) \<Longrightarrow> observes I (eff_collect f xs) (\<lambda>ys. list_all2 p xs ys)"
proof (induction xs)
  case (Cons x xs)
  have "observes I (eff_collect f xs) (\<lambda>ys. list_all2 p xs ys)" by (rule Cons.IH) (simp add: Cons.prems)
  then show ?case unfolding eff_collect.simps
    by (intro observes_bind[where p = "p x"] observes_bind[where p = "\<lambda>ys. list_all2 p xs ys"] Cons.prems observes_return) simp_all
qed (simp add: observes_return)

lemma observes_each:
  "(\<And>x. x \<in> set xs \<Longrightarrow> observes I (f x) (\<lambda>_. p x)) \<Longrightarrow> observes I (eff_each f xs) (\<lambda>_. \<forall>x \<in> set xs. p x)"
proof (induction xs)
  case (Cons x xs)
  have "observes I (eff_each f xs) (\<lambda>_. \<forall>y \<in> set xs. p y)" by (rule Cons.IH) (simp add: Cons.prems)
  then have "p x \<Longrightarrow> observes I (eff_each f xs) (\<lambda>_. \<forall>y \<in> set (x # xs). p y)" by (rule observes_mono) simp
  then show ?case unfolding eff_each.simps
    by (intro observes_bind[where p = "\<lambda>_. p x"] Cons.prems) simp_all
qed (simp add: observes_return)

lemma observes_external:
  assumes "\<And>w. I w \<Longrightarrow> I (snd (nf w))"
    and "\<And>w. I w \<Longrightarrow> (case act w of (Inr x, w') \<Rightarrow> q x \<and> I w' | (Inl e', w') \<Rightarrow> I w')"
  shows "observes I (eff_external nf e act) q"
  unfolding observes_def
  by (rule eff_spec_external[where P' = I]) (use assms in \<open>fastforce split: prod.splits sum.splits\<close>)+

text \<open>Code whose effects \<open>I\<close> does not see.\<close>

definition keeps :: "('s \<Rightarrow> bool) \<Rightarrow> ('s, 'x, 'a) eff \<Rightarrow> bool" where
  "keeps I m \<longleftrightarrow> observes I m (\<lambda>_. True)"

named_theorems keep_rules \<open>Rules for code that keeps a condition.\<close>

lemma keepsI: "observes I m q \<Longrightarrow> keeps I m"
  unfolding keeps_def by (erule observes_mono) simp

lemma keeps_bind [keep_rules]: "keeps I m \<Longrightarrow> (\<And>x. keeps I (f x)) \<Longrightarrow> keeps I (eff_bind m f)"
  unfolding keeps_def by (rule observes_bind)

lemma keeps_after: "observes I m p \<Longrightarrow> (\<And>x. p x \<Longrightarrow> keeps I (f x)) \<Longrightarrow> keeps I (eff_bind m f)"
  unfolding keeps_def by (rule observes_bind)

lemma keeps_basic [keep_rules]:
  "keeps I (eff_return x)" "keeps I (eff_raise e)" "keeps I (eff_fail f)" "keeps I (eff_lift r)"
  "keeps I (eff_check b e)" "keeps I (eff_read g)"
  by (auto simp: keeps_def intro!: observe_rules)

lemma keeps_catch [keep_rules]: "keeps I m \<Longrightarrow> (\<And>e. keeps I (h e)) \<Longrightarrow> keeps I (eff_catch m h)"
  unfolding keeps_def by (rule observes_catch)

lemma keeps_catch_all [keep_rules]: "keeps I m \<Longrightarrow> (\<And>e. keeps I (h e)) \<Longrightarrow> keeps I (eff_catch_all m h)"
  unfolding keeps_def observes_def
  by (rule eff_spec_catch_all[where R = "\<lambda>_. I"]) (auto simp: eff_spec_def split: sum.splits prod.splits)

lemma keeps_finally [keep_rules]:
  fixes m :: "('s, 'x, 'a) eff"
  assumes m: "keeps I m" and f: "keeps I f"
  shows "keeps I (eff_finally m f)"
proof -
  have "eff_spec I f (\<lambda>_ w. case r of Inr x \<Rightarrow> I w \<and> True | Inl e \<Rightarrow> I w) (\<lambda>_. I)" for r :: "'x failure + 'a"
    using f by (cases r) (simp_all add: keeps_def observes_def)
  then show ?thesis using m unfolding keeps_def observes_def
    by (intro eff_spec_finally[where R = "\<lambda>_. I"]) (simp_all cong: if_cong)
qed

lemma keeps_each [keep_rules]: "(\<And>x. x \<in> set xs \<Longrightarrow> keeps I (f x)) \<Longrightarrow> keeps I (eff_each f xs)"
  by (induction xs) (auto intro: keep_rules)

lemma keeps_match [keep_rules]: "keeps I m \<Longrightarrow> (\<And>x. keeps I (f x)) \<Longrightarrow> (\<And>e. keeps I (h e)) \<Longrightarrow> keeps I (eff_match m f h)"
  unfolding keeps_def by (rule observes_match)

lemma keeps_collect [keep_rules]: "(\<And>x. x \<in> set xs \<Longrightarrow> keeps I (f x)) \<Longrightarrow> keeps I (eff_collect f xs)"
  unfolding keeps_def by (rule observes_mono[OF observes_collect[where p = "\<lambda>_ _. True"]]) simp_all

lemma keeps_external [keep_rules]:
  "(\<And>w. I w \<Longrightarrow> I (snd (nf w))) \<Longrightarrow> (\<And>w. I w \<Longrightarrow> I (snd (act w))) \<Longrightarrow> keeps I (eff_external nf e act)"
  unfolding keeps_def by (rule observes_external) (fastforce split: prod.splits sum.splits)+

lemma keeps_split [keep_rules]:
  "(b \<Longrightarrow> keeps I m) \<Longrightarrow> (\<not> b \<Longrightarrow> keeps I m') \<Longrightarrow> keeps I (if b then m else m')"
  by simp

text \<open>What an observation leaves to the code after it.\<close>

lemma eff_spec_observe:
  "observes I m p \<Longrightarrow> (\<And>x. p x \<Longrightarrow> eff_spec I (f x) Q E) \<Longrightarrow> (\<And>e w. I w \<Longrightarrow> E e w) \<Longrightarrow> eff_spec I (eff_bind m f) Q E"
  unfolding observes_def
  by (rule eff_spec_bind[where R = "\<lambda>x w. I w \<and> p x"]) (auto simp: eff_spec_def split: sum.splits prod.splits)

lemma keeps_iff: "keeps I m \<longleftrightarrow> (\<forall>w. I w \<longrightarrow> I (snd (m w)))"
proof -
  have "(case m w of (Inr x, w') \<Rightarrow> I w' \<and> True | (Inl e, w') \<Rightarrow> I w') \<longleftrightarrow> I (snd (m w))" for w
    by (cases "m w"; cases "fst (m w)") auto
  then show ?thesis unfolding keeps_def observes_def eff_spec_def by (simp only:)
qed

lemma keepsD: "keeps I m \<Longrightarrow> I w \<Longrightarrow> I (snd (m w))"
  by (simp add: keeps_iff)

end
