(* ===== verification/Fs_Tree.thy ===== *)
theory Fs_Tree
  imports Prelude
begin

text \<open>
  Directory trees as the file-copying code sees them: regular files with their bytes,
  folders in listing order, symbolic links (with the absolute path they denote) and special
  files.  Paths are the components below the root.  Path resolution follows at most 40 links,
  as the kernel does; \<open>place\<close> resolves the parents of a path and keeps its last component.
\<close>

type_synonym path = "string list"

datatype node = Regular (bytes: string) | Folder (children: "(string, node) dict") | Link path | Special

fun lookup_at :: "node \<Rightarrow> path \<Rightarrow> node option" where
  "lookup_at n [] = Some n"
| "lookup_at (Folder es) (c # cs) = (case dict_get es c of None \<Rightarrow> None | Some m \<Rightarrow> lookup_at m cs)"
| "lookup_at _ (c # cs) = None"

text \<open>\<open>set_at\<close> replaces (\<open>Some\<close>) or removes (\<open>None\<close>) what is at a path whose parent is a folder.\<close>

fun set_at :: "path \<Rightarrow> node option \<Rightarrow> node \<Rightarrow> node" where
  "set_at [] x n = (case x of None \<Rightarrow> n | Some m \<Rightarrow> m)"
| "set_at [c] x (Folder es) = Folder (case x of None \<Rightarrow> dict_del c es | Some m \<Rightarrow> dict_put c m es)"
| "set_at (c # d # cs) x (Folder es) =
     Folder (case dict_get es c of None \<Rightarrow> es | Some m \<Rightarrow> dict_put c (set_at (d # cs) x m) es)"
| "set_at _ x n = n"

definition is_folder :: "node option \<Rightarrow> bool" where
  "is_folder x \<longleftrightarrow> (\<exists>es. x = Some (Folder es))"

definition is_link :: "node option \<Rightarrow> bool" where
  "is_link x \<longleftrightarrow> (\<exists>t. x = Some (Link t))"

definition is_regular :: "node option \<Rightarrow> bool" where
  "is_regular x \<longleftrightarrow> (\<exists>b. x = Some (Regular b))"

fun link_target :: "node option \<Rightarrow> path" where
  "link_target (Some (Link t)) = t"
| "link_target _ = []"

lemma node_kind_code [simp, code]:
  "is_folder None = False" "is_folder (Some (Folder es)) = True" "is_folder (Some (Regular b)) = False"
  "is_folder (Some (Link t)) = False" "is_folder (Some Special) = False"
  "is_link None = False" "is_link (Some (Folder es)) = False" "is_link (Some (Regular b)) = False"
  "is_link (Some (Link t)) = True" "is_link (Some Special) = False"
  "is_regular None = False" "is_regular (Some (Folder es)) = False" "is_regular (Some (Regular b)) = True"
  "is_regular (Some (Link t)) = False" "is_regular (Some Special) = False"
  by (simp_all add: is_folder_def is_link_def is_regular_def)

definition MAX_LINKS :: nat where "MAX_LINKS = 40"

function real_from :: "nat \<Rightarrow> node \<Rightarrow> path \<Rightarrow> path \<Rightarrow> path" where
  "real_from k root acc [] = acc"
| "real_from k root acc (c # cs) =
     (if is_link (lookup_at root (acc @ [c]))
      then (case k of 0 \<Rightarrow> acc @ c # cs
        | Suc k' \<Rightarrow> real_from k' root [] (link_target (lookup_at root (acc @ [c])) @ cs))
      else real_from k root (acc @ [c]) cs)"
  by pat_completeness auto

termination real_from
  by (relation "measures [\<lambda>(k, _, _, _). k, \<lambda>(_, _, _, cs). length cs]") auto

text \<open>\<open>Path.resolve(strict=False)\<close>.\<close>

definition real_path :: "node \<Rightarrow> path \<Rightarrow> path" where
  "real_path root p = real_from MAX_LINKS root [] p"

definition place :: "node \<Rightarrow> path \<Rightarrow> path" where
  "place root p = (if p = [] then [] else real_path root (butlast p) @ [last p])"

definition node_at :: "node \<Rightarrow> path \<Rightarrow> node option" where
  "node_at root p = lookup_at root (place root p)"

text \<open>\<open>os.path.lexists\<close>, \<open>is_dir\<close>, \<open>is_file\<close> and \<open>exists\<close> (which follow links), and \<open>is_symlink\<close>.\<close>

definition lexists :: "node \<Rightarrow> path \<Rightarrow> bool" where
  "lexists root p \<longleftrightarrow> node_at root p \<noteq> None"

definition followed :: "node \<Rightarrow> path \<Rightarrow> node option" where
  "followed root p = lookup_at root (real_path root p)"

text \<open>\<open>p.is_dir() and not p.is_symlink()\<close>.\<close>

definition real_dir :: "node \<Rightarrow> path \<Rightarrow> bool" where
  "real_dir root p \<longleftrightarrow> is_folder (followed root p) \<and> \<not> is_link (node_at root p)"

text \<open>\<open>os.walk\<close>, top-down, not following links: every folder with its entries.\<close>

fun walk :: "path \<Rightarrow> node \<Rightarrow> (path \<times> (string, node) dict) list"
  and walk_entries :: "path \<Rightarrow> (string, node) dict \<Rightarrow> (path \<times> (string, node) dict) list" where
  "walk p (Folder es) = (p, es) # walk_entries p es"
| "walk p _ = []"
| "walk_entries p [] = []"
| "walk_entries p ((n, x) # es) = walk (p @ [n]) x @ walk_entries p es"

text \<open>The order in which \<open>shutil.rmtree\<close> removes: the entries of a folder before the folder.\<close>

fun removals :: "path \<Rightarrow> node \<Rightarrow> path list"
  and removals_in :: "path \<Rightarrow> (string, node) dict \<Rightarrow> path list" where
  "removals p (Folder es) = removals_in p es @ [p]"
| "removals p _ = [p]"
| "removals_in p [] = []"
| "removals_in p ((n, x) # es) = removals (p @ [n]) x @ removals_in p es"

section \<open>Looking up what was set\<close>

lemma lookup_append: "lookup_at n (p @ q) = (case lookup_at n p of None \<Rightarrow> None | Some m \<Rightarrow> lookup_at m q)"
  by (induction n p rule: lookup_at.induct) (auto split: option.splits)

text \<open>Neither path leads into the other.\<close>

definition apart :: "path \<Rightarrow> path \<Rightarrow> bool" where
  "apart p q \<longleftrightarrow> \<not> prefix p q \<and> \<not> prefix q p"

lemma apart_Cons [simp]: "apart (c # p) (d # q) \<longleftrightarrow> c \<noteq> d \<or> apart p q"
  by (auto simp: apart_def)

lemma apart_Nil [simp]: "\<not> apart [] q" "\<not> apart p []"
  by (auto simp: apart_def)

lemma apart_append: "apart p q \<Longrightarrow> apart (p @ r) q"
  unfolding apart_def by (metis append_prefixD prefix_same_cases prefixI)

lemma lookup_set_apart: "apart p q \<Longrightarrow> lookup_at (set_at p x n) q = lookup_at n q"
proof (induction p x n arbitrary: q rule: set_at.induct)
  case (2 c x es)
  then show ?case by (cases q) (auto simp: dict_get_put dict_get_del split: option.split)
next
  case (3 c d cs x es)
  obtain e q' where q: "q = e # q'" using 3 by (cases q) auto
  show ?case
  proof (cases "dict_get es c")
    case (Some m)
    with 3 q show ?thesis by (auto simp: dict_get_put split: option.splits)
  qed (simp add: q)
qed auto

lemma removals_prefix: "list_all (prefix p) (removals p x)" "list_all (prefix p) (removals_in p es)"
proof (induction p x and p es rule: removals_removals_in.induct)
  fix p n x es
  assume 1: "list_all (prefix (p @ [n])) (removals (p @ [n]) x)" and 2: "list_all (prefix p) (removals_in p es)"
  have "list_all (prefix p) (removals (p @ [n]) x)"
    using 1 by (rule list.pred_mono_strong) (rule append_prefixD)
  with 2 show "list_all (prefix p) (removals_in p ((n, x) # es))" by (simp only: removals_in.simps list_all_append)
qed simp_all

lemma removals_below: "r \<in> set (removals p x) \<Longrightarrow> prefix p r"
  using removals_prefix(1)[of p x] by (simp add: list_all_iff)

section \<open>Resolution\<close>

lemma real_from_snoc:
  "\<not> is_link (lookup_at root (real_from k root acc cs @ [c])) \<Longrightarrow>
   real_from k root acc (cs @ [c]) = real_from k root acc cs @ [c]"
proof (induction k root acc cs rule: real_from.induct)
  case (2 k root acc d cs)
  show ?case
  proof (cases "is_link (lookup_at root (acc @ [d]))")
    case True
    then show ?thesis using "2.IH"(1)[OF True] "2.prems" by (cases k) simp_all
  next
    case False
    then show ?thesis using "2.IH"(2)[OF False] "2.prems" by simp
  qed
qed simp

text \<open>Where the last component is no link, resolving a path is resolving its parents.\<close>

lemma real_place: "p \<noteq> [] \<Longrightarrow> \<not> is_link (node_at root p) \<Longrightarrow> real_path root p = place root p"
proof -
  assume "p \<noteq> []" and n: "\<not> is_link (node_at root p)"
  then obtain q c where p: "p = q @ [c]" by (cases p rule: rev_cases) auto
  from n show ?thesis unfolding real_path_def node_at_def p
    by (simp add: place_def real_path_def real_from_snoc)
qed

lemma real_dirD: "real_dir root p \<Longrightarrow> is_folder (node_at root p)"
proof (cases "p = []")
  case True
  then show "real_dir root p \<Longrightarrow> is_folder (node_at root p)"
    by (simp add: real_dir_def followed_def node_at_def place_def real_path_def)
next
  case False
  then show "real_dir root p \<Longrightarrow> is_folder (node_at root p)"
    using real_place[OF False, of root] by (auto simp: real_dir_def followed_def node_at_def)
qed

end
