(* ===== verification/Filestore_Models.thy ===== *)
theory Filestore_Models
  imports Py_Json Redaction Encoding Fs_Tree
begin

text \<open>
  The records of a filestore migration: \<open>FilestoreObjectEntry\<close> and
  \<open>FilestoreMigrationManifest\<close> of \<open>odooctl/metadata/models.py\<close> with their validators, and the
  backend configuration of \<open>odooctl/config.py\<close>.  Validation collects the messages of all
  fields, as the validation library does, and the messages of the whole record only when no
  field has one; how it renders them (\<open>sl_report\<close>) is an argument.  So are SHA-256 in
  hexadecimal (\<open>sl_sha\<close>), \<open>datetime.fromisoformat\<close> (\<open>sl_fromiso\<close>: whether the text has a zone,
  and the time as \<open>isoformat\<close> prints it in UTC), the clock and the random identifiers.
\<close>

record store_lib =
  sl_sha :: "string \<Rightarrow> string"
  sl_etag :: "string \<Rightarrow> string"
  sl_fromiso :: "string \<Rightarrow> (bool \<times> string) option"
  sl_report :: "string list \<Rightarrow> string"
  sl_now :: "nat \<Rightarrow> string"
  sl_token :: "nat \<Rightarrow> string"

section \<open>Field validators\<close>

definition alnum :: "char \<Rightarrow> bool" where
  "alnum c \<longleftrightarrow> (let n = of_char c :: nat in (48 \<le> n \<and> n \<le> 57) \<or> (65 \<le> n \<and> n \<le> 90) \<or> (97 \<le> n \<and> n \<le> 122))"

definition name_char :: "char \<Rightarrow> bool" where
  "name_char c \<longleftrightarrow> alnum c \<or> c \<in> {CHR ''.'', CHR ''_'', CHR ''-''}"

definition control_char :: "char \<Rightarrow> bool" where
  "control_char c \<longleftrightarrow> (of_char c :: nat) < 32"

text \<open>\<open>[A-Za-z0-9][A-Za-z0-9._-]{0,127}\<close>.\<close>

definition one_component :: "string \<Rightarrow> bool" where
  "one_component s \<longleftrightarrow> s \<noteq> [] \<and> alnum (hd s) \<and> list_all name_char s \<and> length s \<le> 128"

definition safe_component :: "string \<Rightarrow> string \<Rightarrow> (string, string) result" where
  "safe_component v label = (if contains_str ''..'' v \<or> \<not> one_component v
     then Inl (label @ '' contains unsupported characters'') else Inr v)"

definition safe_label :: "string \<Rightarrow> string \<Rightarrow> (string, string) result" where
  "safe_label v label = (if py_strip v = [] \<or> 256 < length v \<or> list_ex control_char v
     then Inl (label @ '' must be non-empty and contain no control characters'') else Inr v)"

definition lower_hex :: "char \<Rightarrow> bool" where
  "lower_hex c \<longleftrightarrow> (let n = of_char c :: nat in (48 \<le> n \<and> n \<le> 57) \<or> (97 \<le> n \<and> n \<le> 102))"

definition is_sha256 :: "string \<Rightarrow> bool" where
  "is_sha256 s \<longleftrightarrow> length s = 64 \<and> list_all lower_hex s"

definition sha256_field :: "string \<Rightarrow> string \<Rightarrow> (string, string) result" where
  "sha256_field v label = (if is_sha256 (py_lower v) then Inr (py_lower v)
     else Inl (label @ '' must be a lowercase SHA-256 digest''))"

definition utc_timestamp :: "store_lib \<Rightarrow> string \<Rightarrow> string \<Rightarrow> (string, string) result" where
  "utc_timestamp L v label =
     (if v = [] then Inl (label @ '' must be a timezone-aware timestamp'')
      else case sl_fromiso L (replace_all ''Z'' ''+00:00'' v) of
        None \<Rightarrow> Inl (label @ '' must be a valid ISO-8601 timestamp'')
      | Some (zoned, utc) \<Rightarrow> if zoned then Inr (replace_all ''+00:00'' ''Z'' utc)
          else Inl (label @ '' must be timezone-aware''))"

text \<open>\<open>PurePosixPath(*parts).as_posix()\<close>.\<close>

definition posix_text :: "path \<Rightarrow> string" where
  "posix_text ps = (if ps = [] then ''.'' else join_with ''/'' ps)"

definition artifact_path :: "string \<Rightarrow> (string, string) result" where
  "artifact_path v =
     (if v = [] \<or> starts_with ''/'' v \<or> CHR 0x5C \<in> set v \<or> list_ex control_char v
      then Inl ''artifact path must be a safe relative POSIX path''
      else if ''..'' \<in> set (path_parts v) \<or> posix_text (path_parts v) \<noteq> v
      then Inl ''artifact path must be a canonical relative POSIX path''
      else Inr v)"

definition location_field :: "string \<Rightarrow> string \<Rightarrow> (string, string) result" where
  "location_field v label = (if py_strip v = [] \<or> 4096 < length v \<or> list_ex control_char v
     then Inl (label @ '' must be a non-empty location of at most 4096 characters without control characters'')
     else Inr v)"

definition optional :: "('a \<Rightarrow> (string, 'a) result) \<Rightarrow> 'a option \<Rightarrow> (string, 'a option) result" where
  "optional f v = (case v of None \<Rightarrow> Inr None | Some x \<Rightarrow> bindE (f x) (\<lambda>y. Inr (Some y)))"

text \<open>The message of a field that fails, and the value of one that does not.\<close>

definition complaint :: "(string, 'a) result \<Rightarrow> string list" where
  "complaint r = (case r of Inl m \<Rightarrow> [m] | Inr _ \<Rightarrow> [])"

definition accepted :: "(string, 'a) result \<Rightarrow> 'a \<Rightarrow> 'a" where
  "accepted r d = (case r of Inl _ \<Rightarrow> d | Inr x \<Rightarrow> x)"

lemma complaint_simps [simp]: "complaint (Inl m) = [m]" "complaint (Inr x) = []" "complaint r = [] \<longleftrightarrow> (\<exists>x. r = Inr x)"
  by (simp_all add: complaint_def split: sum.split)

lemma accepted_simps [simp]: "accepted (Inr x) d = x" "accepted (Inl m) d = d"
  by (simp_all add: accepted_def)

section \<open>Inventories\<close>

record FilestoreObjectEntry =
  fe_path :: string
  fe_sha :: string
  fe_size :: int

definition check_entry :: "FilestoreObjectEntry \<Rightarrow> (string list, FilestoreObjectEntry) result" where
  "check_entry e =
     (let p = artifact_path (fe_path e); h = sha256_field (fe_sha e) ''sha256'';
        messages = complaint p @ complaint h @ (if fe_size e < 0 then [''Input should be greater than or equal to 0''] else [])
      in if messages \<noteq> [] then Inl messages else Inr (e\<lparr>fe_path := accepted p [], fe_sha := accepted h []\<rparr>))"

text \<open>\<open>json.dumps(sort_keys=True, separators=(",", ":"), ensure_ascii=False)\<close>.\<close>

definition raw_char :: "char \<Rightarrow> string" where
  "raw_char c = (if 128 \<le> (of_char c :: nat) \<or> of_char c = (127::nat) then [c] else escape_char c)"

definition quote_raw :: "string \<Rightarrow> string" where
  "quote_raw s = dquote # concat (map raw_char s) @ [dquote]"

fun raw_json :: "json \<Rightarrow> string" where
  "raw_json (JStr s) = quote_raw s"
| "raw_json (JList xs) = ''['' @ join_with '','' (map raw_json xs) @ '']''"
| "raw_json (JObj kvs) = ''{'' @ join_with '','' (map (\<lambda>(k, v). quote_raw k @ '':'' @ raw_json v) kvs) @ ''}''"
| "raw_json j = dumps_with compact_layout j"

definition canonical_bytes :: "json \<Rightarrow> string" where
  "canonical_bytes j = utf8_encode (raw_json (sort_json j) @ [char_of (10::nat)])"

definition entry_json :: "FilestoreObjectEntry \<Rightarrow> json" where
  "entry_json e = JObj [(''path'', JStr (fe_path e)), (''sha256'', JStr (fe_sha e)), (''size'', JInt (fe_size e))]"

definition filestore_inventory_sha256 :: "store_lib \<Rightarrow> FilestoreObjectEntry list \<Rightarrow> string" where
  "filestore_inventory_sha256 L es = sl_sha L (canonical_bytes (JList (map entry_json es)))"

definition total_size :: "FilestoreObjectEntry list \<Rightarrow> int" where
  "total_size es = sum_list (map fe_size es)"

section \<open>The manifest\<close>

datatype BackendType = LOCAL | DOCKER_VOLUME | OBJECT_MIRROR | POSIX_OBJECT_MOUNT | ODOO_MODULE

fun backend_text :: "BackendType \<Rightarrow> string" where
  "backend_text LOCAL = ''local''"
| "backend_text DOCKER_VOLUME = ''docker_volume''"
| "backend_text OBJECT_MIRROR = ''object_mirror''"
| "backend_text POSIX_OBJECT_MOUNT = ''posix_object_mount''"
| "backend_text ODOO_MODULE = ''odoo_module''"

datatype MigrationStatus = PLANNED | SYNCED | VERIFIED | CUTOVER | FAILED_SYNC

fun migration_status_text :: "MigrationStatus \<Rightarrow> string" where
  "migration_status_text PLANNED = ''planned''"
| "migration_status_text SYNCED = ''synced''"
| "migration_status_text VERIFIED = ''verified''"
| "migration_status_text CUTOVER = ''cutover''"
| "migration_status_text FAILED_SYNC = ''failed''"

record FilestoreMigrationManifest =
  fm_ident :: string
  fm_project :: string
  fm_environment :: string
  fm_source_backend :: BackendType
  fm_target_backend :: BackendType
  fm_source_location :: string
  fm_target_location :: string
  fm_module_name :: "string option"
  fm_previous :: "string option"
  fm_entries :: "FilestoreObjectEntry list"
  fm_inventory :: string
  fm_total_size :: int
  fm_created_at :: string
  fm_synced_at :: "string option"
  fm_verified_at :: "string option"
  fm_cutover_at :: "string option"
  fm_delete_started_at :: "string option"
  fm_deleted_at :: "string option"
  fm_status :: MigrationStatus
  fm_source_deleted :: bool
  fm_last_error :: "string option"

definition literal_field :: "bool \<Rightarrow> string \<Rightarrow> (string, unit) result" where
  "literal_field b what = guardE b (''Input should be '' @ what)"

text \<open>The messages of the field validators, in the order of the fields.\<close>

definition manifest_complaints :: "store_lib \<Rightarrow> FilestoreMigrationManifest \<Rightarrow> string list" where
  "manifest_complaints L m =
     complaint (safe_component (fm_ident m) ''migration_id'') @
     complaint (safe_label (fm_project m) ''project'') @
     complaint (safe_component (fm_environment m) ''environment'') @
     complaint (literal_field (fm_source_backend m \<in> {LOCAL, DOCKER_VOLUME, POSIX_OBJECT_MOUNT}) ''a source backend'') @
     complaint (literal_field (fm_target_backend m \<in> {OBJECT_MIRROR, POSIX_OBJECT_MOUNT, ODOO_MODULE}) ''a target backend'') @
     complaint (location_field (fm_source_location m) ''source_location'') @
     complaint (location_field (fm_target_location m) ''target_location'') @
     complaint (optional (\<lambda>v. safe_component v ''module_name'') (fm_module_name m)) @
     complaint (optional (\<lambda>v. safe_component v ''previous_active_migration_id'') (fm_previous m)) @
     concat (map (\<lambda>e. case check_entry e of Inl ms \<Rightarrow> ms | Inr _ \<Rightarrow> []) (fm_entries m)) @
     complaint (sha256_field (fm_inventory m) ''inventory_sha256'') @
     (if fm_total_size m < 0 then [''Input should be greater than or equal to 0''] else []) @
     complaint (utc_timestamp L (fm_created_at m) ''created_at'') @
     complaint (optional (\<lambda>v. utc_timestamp L v ''synced_at'') (fm_synced_at m)) @
     complaint (optional (\<lambda>v. utc_timestamp L v ''verified_at'') (fm_verified_at m)) @
     complaint (optional (\<lambda>v. utc_timestamp L v ''cutover_at'') (fm_cutover_at m)) @
     complaint (optional (\<lambda>v. utc_timestamp L v ''source_delete_started_at'') (fm_delete_started_at m)) @
     complaint (optional (\<lambda>v. utc_timestamp L v ''source_deleted_at'') (fm_deleted_at m))"

text \<open>The fields with the values their validators return.\<close>

definition normalized :: "store_lib \<Rightarrow> FilestoreMigrationManifest \<Rightarrow> FilestoreMigrationManifest" where
  "normalized L m =
     (let stamp = \<lambda>v. accepted (optional (\<lambda>v. utc_timestamp L v []) v) v
      in m\<lparr>fm_entries := map (\<lambda>e. case check_entry e of Inl _ \<Rightarrow> e | Inr e' \<Rightarrow> e') (fm_entries m),
           fm_inventory := accepted (sha256_field (fm_inventory m) []) (fm_inventory m),
           fm_created_at := accepted (utc_timestamp L (fm_created_at m) []) (fm_created_at m),
           fm_synced_at := stamp (fm_synced_at m), fm_verified_at := stamp (fm_verified_at m),
           fm_cutover_at := stamp (fm_cutover_at m), fm_delete_started_at := stamp (fm_delete_started_at m),
           fm_deleted_at := stamp (fm_deleted_at m)\<rparr>)"

text \<open>\<open>inventory_and_lifecycle_must_be_consistent\<close>, the first check that fails.\<close>

definition lifecycle_complaint :: "store_lib \<Rightarrow> FilestoreMigrationManifest \<Rightarrow> string option" where
  "lifecycle_complaint L m =
     (let paths = map fe_path (fm_entries m) in
      if paths \<noteq> sort paths \<or> \<not> distinct paths then Some ''filestore entries must be unique and strictly sorted''
      else if total_size (fm_entries m) \<noteq> fm_total_size m then Some ''filestore total_size does not match entry sizes''
      else if filestore_inventory_sha256 L (fm_entries m) \<noteq> fm_inventory m
        then Some ''filestore inventory_sha256 does not match its entries''
      else if (fm_target_backend m = ODOO_MODULE) \<noteq> (fm_module_name m \<noteq> None)
        then Some ''odoo_module target and module_name must be recorded together''
      else if fm_status m \<in> {SYNCED, VERIFIED, CUTOVER} \<and> fm_synced_at m = None
        then Some (migration_status_text (fm_status m) @ '' migration requires synced_at'')
      else if fm_status m \<in> {VERIFIED, CUTOVER} \<and> fm_verified_at m = None
        then Some (migration_status_text (fm_status m) @ '' migration requires verified_at'')
      else if (fm_status m = CUTOVER) \<noteq> (fm_cutover_at m \<noteq> None)
        then Some ''cutover status and cutover_at must be recorded together''
      else if fm_source_deleted m \<noteq> (fm_deleted_at m \<noteq> None)
        then Some ''source_deleted and source_deleted_at must be recorded together''
      else if fm_delete_started_at m \<noteq> None \<and> fm_status m \<noteq> CUTOVER
        then Some ''source deletion can start only after completed cutover''
      else if fm_source_deleted m \<and> fm_delete_started_at m = None
        then Some ''source deletion completion requires its durable start marker''
      else if fm_source_deleted m \<and> fm_status m \<noteq> CUTOVER
        then Some ''source deletion requires a completed explicit cutover''
      else None)"

definition validate_manifest :: "store_lib \<Rightarrow> FilestoreMigrationManifest \<Rightarrow> (string, FilestoreMigrationManifest) result" where
  "validate_manifest L m =
     (if manifest_complaints L m \<noteq> [] then Inl (sl_report L (manifest_complaints L m))
      else case lifecycle_complaint L (normalized L m) of
        Some c \<Rightarrow> Inl (sl_report L [''Value error, '' @ c])
      | None \<Rightarrow> Inr (normalized L m))"

end
