(* ===== verification/Filestore_World.thy ===== *)
theory Filestore_World
  imports Effects Filestore_Models "HOL-Library.Product_Lexorder"
begin

text \<open>
  What a filestore migration works on: the host's directory tree, the filestore folders of
  the container (a tree of their own), the bucket, the migration manifests of
  \<open>odooctl/metadata/store.py\<close>, and the disk operations and the inventory scan of
  \<open>odooctl/services/filestore_storage.py\<close>.  Every operation that changes something takes its
  fate from the schedule \<open>fx_fates\<close>; an exhausted schedule means no further faults.  A
  manifest file is replaced atomically; \<open>None\<close> stands for one that is not a manifest.
\<close>

datatype fs_error_class =
    FilestoreStorageError | ObjectFilestoreError | ObjectFilestoreConflict
  | S3ProviderError | S3IntegrityError | S3PathError | S3ConfigurationError
  | FsKeyError | FsValueError | FsRuntimeError | FsOSError | FsFileExistsError | FsFileNotFoundError | FsValidationError

datatype fs_error = FsError (error_class: fs_error_class) (error_text: string)

record s3_object =
  so_body :: string
  so_sha :: "string option"
  so_etag :: string

record fs_world =
  fx_root :: node
  fx_volume :: node
  fx_bucket :: "(string, s3_object) dict"
  fx_migrations :: "(string, FilestoreMigrationManifest option) dict"
  fx_tick :: nat
  fx_fates :: "fate list"

type_synonym 'a fs = "(fs_world, fs_error, 'a) eff"

definition next_fate :: "fs_world \<Rightarrow> fate \<times> fs_world" where
  "next_fate w = (case fx_fates w of [] \<Rightarrow> (Carried, w) | f # fs \<Rightarrow> (f, w\<lparr>fx_fates := fs\<rparr>))"

definition io_error :: fs_error where
  "io_error = FsError FsOSError ''[Errno 5] Input/output error''"

definition disk :: "(fs_world \<Rightarrow> (fs_error, 'a) result \<times> fs_world) \<Rightarrow> 'a fs" where
  "disk act = eff_external next_fate io_error act"

text \<open>\<open>now_utc()\<close> and \<open>secrets.token_hex(12)\<close>; each call advances the tick.\<close>

definition now_utc :: "store_lib \<Rightarrow> string fs" where
  "now_utc L = (\<lambda>w. (Inr (sl_now L (fx_tick w)), w\<lparr>fx_tick := Suc (fx_tick w)\<rparr>))"

definition token_hex :: "store_lib \<Rightarrow> string fs" where
  "token_hex L = (\<lambda>w. (Inr (sl_token L (fx_tick w)), w\<lparr>fx_tick := Suc (fx_tick w)\<rparr>))"

section \<open>Directories and files\<close>

definition path_text :: "path \<Rightarrow> string" where
  "path_text p = CHR ''/'' # join_with ''/'' p"

definition no_such_file :: "path \<Rightarrow> fs_error" where
  "no_such_file p = FsError FsFileNotFoundError (''[Errno 2] No such file or directory: '' @ quoted (path_text p))"

definition not_a_directory :: "path \<Rightarrow> fs_error" where
  "not_a_directory p = FsError FsOSError (''[Errno 20] Not a directory: '' @ quoted (path_text p))"

definition file_exists :: "path \<Rightarrow> fs_error" where
  "file_exists p = FsError FsFileExistsError (''[Errno 17] File exists: '' @ quoted (path_text p))"

text \<open>A new entry \<open>x\<close> below an existing folder, where there is none yet.\<close>

definition add_entry :: "path \<Rightarrow> node \<Rightarrow> unit fs" where
  "add_entry p x = disk (\<lambda>w.
     let q = place (fx_root w) p in
     if q = [] \<or> lookup_at (fx_root w) q \<noteq> None then (Inl (file_exists p), w)
     else case lookup_at (fx_root w) (butlast q) of
       None \<Rightarrow> (Inl (no_such_file p), w)
     | Some (Folder _) \<Rightarrow> (Inr (), w\<lparr>fx_root := set_at q (Some x) (fx_root w)\<rparr>)
     | Some _ \<Rightarrow> (Inl (not_a_directory p), w))"

definition make_dir :: "path \<Rightarrow> unit fs" where
  "make_dir p = add_entry p (Folder [])"

text \<open>\<open>mkdir(parents=True, exist_ok=True)\<close>: the missing folders on the way, outermost first.\<close>

definition make_dirs :: "path \<Rightarrow> unit fs" where
  "make_dirs p = eff_each (\<lambda>q. eff_bind (eff_read fx_root) (\<lambda>r.
     if is_folder (followed r q) then eff_return () else make_dir q)) (tl (prefixes p))"

definition write_bytes :: "path \<Rightarrow> string \<Rightarrow> unit fs" where
  "write_bytes p b = disk (\<lambda>w. (Inr (), w\<lparr>fx_root := set_at (place (fx_root w) p) (Some (Regular b)) (fx_root w)\<rparr>))"

text \<open>Unlinking a file or removing an empty folder, at a resolved path.\<close>

definition remove_at :: "path \<Rightarrow> unit fs" where
  "remove_at q = disk (\<lambda>w. case lookup_at (fx_root w) q of
     None \<Rightarrow> (Inl (no_such_file q), w)
   | Some (Folder (_ # _)) \<Rightarrow> (Inl (FsError FsOSError (''[Errno 39] Directory not empty: '' @ quoted (path_text q))), w)
   | Some _ \<Rightarrow> (Inr (), w\<lparr>fx_root := set_at q None (fx_root w)\<rparr>))"

definition rmtree :: "path \<Rightarrow> unit fs" where
  "rmtree p = eff_bind (eff_read fx_root) (\<lambda>r. case node_at r p of
     None \<Rightarrow> eff_raise (no_such_file p)
   | Some (Link _) \<Rightarrow> eff_raise (FsError FsOSError ''Cannot call rmtree on a symbolic link'')
   | Some (Folder es) \<Rightarrow> eff_each remove_at (removals (place r p) (Folder es))
   | Some _ \<Rightarrow> eff_raise (not_a_directory p))"

definition rmtree_ignore_errors :: "path \<Rightarrow> unit fs" where
  "rmtree_ignore_errors p = eff_bind (eff_read fx_root) (\<lambda>r. case node_at r p of
     Some (Folder es) \<Rightarrow> eff_each (\<lambda>q. eff_catch (remove_at q) (\<lambda>_. eff_return ())) (removals (place r p) (Folder es))
   | _ \<Rightarrow> eff_return ())"

text \<open>\<open>os.replace\<close> of a folder onto a name that is free; \<open>fsync\<close> of a folder changes nothing here.\<close>

definition move_folder :: "path \<Rightarrow> path \<Rightarrow> unit fs" where
  "move_folder p d = disk (\<lambda>w.
     let r = fx_root w; q = place r p; e = place r d in
     case lookup_at r q of
       None \<Rightarrow> (Inl (no_such_file p), w)
     | Some x \<Rightarrow>
       if lookup_at r e \<noteq> None then (Inl (FsError FsOSError (''[Errno 39] Directory not empty: '' @ quoted (path_text d))), w)
       else (Inr (), w\<lparr>fx_root := set_at e (Some x) (set_at q None r)\<rparr>))"

definition fsync_folder :: "path \<Rightarrow> unit fs" where
  "fsync_folder p = disk (\<lambda>w. (Inr (), w))"

section \<open>The inventory scan\<close>

definition storage_error :: "string \<Rightarrow> fs_error" where
  "storage_error t = FsError FilestoreStorageError t"

definition safe_relative_path :: "path \<Rightarrow> path \<Rightarrow> (fs_error, string) result" where
  "safe_relative_path root p =
     (if \<not> prefix root p then Inl (storage_error (''filestore path escaped its root: '' @ path_text p))
      else let v = posix_text (drop (length root) p) in
        if v = [] \<or> starts_with ''/'' v \<or> CHR 0x5C \<in> set v \<or> list_ex (\<lambda>c. c = ''..'' \<or> list_ex control_char c) (path_parts v)
        then Inl (storage_error (''filestore contains an unsafe relative path: '' @ quoted v))
        else Inr v)"

definition hash_regular_file :: "store_lib \<Rightarrow> path \<Rightarrow> node \<Rightarrow> (fs_error, string \<times> int) result" where
  "hash_regular_file L p x = (case x of
     Regular b \<Rightarrow> Inr (sl_sha L b, int (length b))
   | _ \<Rightarrow> Inl (storage_error (''filestore entry is not a regular file: '' @ path_text p)))"

definition new_entry :: "store_lib \<Rightarrow> string \<Rightarrow> string \<Rightarrow> int \<Rightarrow> (fs_error, FilestoreObjectEntry) result" where
  "new_entry L p h n = (case check_entry \<lparr>fe_path = p, fe_sha = h, fe_size = n\<rparr> of
     Inl ms \<Rightarrow> Inl (FsError FsValidationError (sl_report L ms)) | Inr e \<Rightarrow> Inr e)"

text \<open>\<open>os.walk\<close> lists a link to a folder among the folders.\<close>

definition listed_as_folder :: "node \<Rightarrow> node \<Rightarrow> bool" where
  "listed_as_folder r x \<longleftrightarrow> is_folder (Some x) \<or> (is_link (Some x) \<and> is_folder (followed r (link_target (Some x))))"

definition scan_file :: "store_lib \<Rightarrow> path \<Rightarrow> path \<Rightarrow> node \<Rightarrow> (fs_error, FilestoreObjectEntry) result" where
  "scan_file L source p x =
     bindE (guardE (\<not> is_link (Some x)) (storage_error (''filestore contains a symbolic-link file: '' @ path_text p))) (\<lambda>_.
     bindE (safe_relative_path source p) (\<lambda>v.
     bindE (hash_regular_file L p x) (\<lambda>(h, n). new_entry L v h n)))"

definition scan_folder ::
  "store_lib \<Rightarrow> node \<Rightarrow> path \<Rightarrow> path \<times> (string, node) dict \<Rightarrow> (fs_error, FilestoreObjectEntry list) result" where
  "scan_folder L r source = (\<lambda>(p, es).
     bindE (mapE (\<lambda>(n, x). guardE (\<not> is_link (Some x))
         (storage_error (''filestore contains a symbolic-link directory: '' @ path_text (p @ [n]))))
       (filter (\<lambda>(n, x). listed_as_folder r x) es)) (\<lambda>_.
     mapE (\<lambda>(n, x). scan_file L source (p @ [n]) x) (filter (\<lambda>(n, x). \<not> listed_as_folder r x) es)))"

type_synonym inventory = "FilestoreObjectEntry list \<times> string \<times> int"

definition scan_filestore :: "store_lib \<Rightarrow> node \<Rightarrow> path \<Rightarrow> (fs_error, inventory) result" where
  "scan_filestore L r p =
     bindE (guardE (real_dir r p) (storage_error (''filestore root is not a real directory: '' @ path_text p))) (\<lambda>_.
     let source = real_path r p in
     bindE (mapE (scan_folder L r source) (walk source (the (lookup_at r source)))) (\<lambda>found.
     let entries = sort_key fe_path (concat found) in
     Inr (entries, filestore_inventory_sha256 L entries, total_size entries)))"

text \<open>The comparison every check of a copy makes.\<close>

definition same_inventory :: "inventory \<Rightarrow> FilestoreMigrationManifest \<Rightarrow> bool" where
  "same_inventory i m \<longleftrightarrow> i = (fm_entries m, fm_inventory m, fm_total_size m)"

section \<open>The manifests on disk\<close>

definition safe_backup_component :: "string \<Rightarrow> string \<Rightarrow> (fs_error, string) result" where
  "safe_backup_component v label = (if v = [] \<or> v = ''.'' \<or> v = ''..'' \<or> \<not> list_all name_char v
     then Inl (FsError FsValueError (label @ '' contains unsupported characters'')) else Inr v)"

text \<open>\<open>_load_pitr_model\<close> for a migration manifest.\<close>

definition load_migration ::
  "store_lib \<Rightarrow> fs_world \<Rightarrow> string \<Rightarrow> string \<Rightarrow> (fs_error, FilestoreMigrationManifest) result" where
  "load_migration L w stem label = (case dict_get (fx_migrations w) stem of
     None \<Rightarrow> Inl (FsError FsRuntimeError (label @ '' not found: '' @ stem))
   | Some None \<Rightarrow> Inl (FsError FsRuntimeError (label @ '' is invalid: '' @ stem @ '': '' @ sl_report L [''Invalid JSON'']))
   | Some (Some m) \<Rightarrow> (case validate_manifest L m of
       Inl t \<Rightarrow> Inl (FsError FsRuntimeError (label @ '' is invalid: '' @ stem @ '': '' @ t))
     | Inr m' \<Rightarrow> Inr m'))"

definition migration_identity where
  "migration_identity m = (fm_ident (m :: FilestoreMigrationManifest), fm_project m, fm_environment m, fm_source_backend m, fm_target_backend m,
     fm_source_location m, fm_target_location m, fm_module_name m, fm_inventory m, fm_previous m)"

definition save_filestore_migration :: "store_lib \<Rightarrow> FilestoreMigrationManifest \<Rightarrow> unit fs" where
  "save_filestore_migration L m =
     eff_bind (eff_lift (safe_backup_component (fm_ident m) ''migration_id'')) (\<lambda>stem.
     eff_bind (eff_read (\<lambda>w. if dict_has (fx_migrations w) stem
         then Some (load_migration L w stem ''FilestoreMigrationManifest'') else None)) (\<lambda>current.
     eff_bind (case current of
         None \<Rightarrow> eff_return ()
       | Some r \<Rightarrow> eff_bind (eff_lift r) (\<lambda>c. eff_check (migration_identity c = migration_identity m)
           (FsError FsRuntimeError (''FilestoreMigrationManifest identity conflict at '' @ quoted (stem @ ''.json''))))) (\<lambda>_.
     disk (\<lambda>w. (Inr (), w\<lparr>fx_migrations := dict_put stem (Some m) (fx_migrations w)\<rparr>)))))"

definition get_filestore_migration ::
  "store_lib \<Rightarrow> fs_world \<Rightarrow> string \<Rightarrow> (fs_error, FilestoreMigrationManifest) result" where
  "get_filestore_migration L w i =
     bindE (safe_backup_component i ''migration_id'') (\<lambda>stem.
     bindE (load_migration L w stem ''filestore migration manifest'') (\<lambda>m.
     bindE (guardE (fm_ident m = i) (FsError FsRuntimeError (''Filestore migration identity mismatch: requested '' @
       quoted i @ '', payload contains '' @ quoted (fm_ident m)))) (\<lambda>_. Inr m)))"

definition list_filestore_migrations ::
  "store_lib \<Rightarrow> fs_world \<Rightarrow> string \<Rightarrow> (fs_error, FilestoreMigrationManifest list) result" where
  "list_filestore_migrations L w environment =
     bindE (safe_backup_component environment ''environment'') (\<lambda>_.
     bindE (mapE (\<lambda>(stem, _).
         bindE (load_migration L w stem ''filestore migration manifest'') (\<lambda>m.
         bindE (guardE (fm_ident m = stem) (FsError FsRuntimeError (''Filestore migration file '' @
           quoted (stem @ ''.json'') @ '' contains '' @ quoted (fm_ident m)))) (\<lambda>_. Inr m)))
       (fx_migrations w)) (\<lambda>ms.
     Inr (rev (sort_key (\<lambda>m. (fm_created_at m, fm_ident m)) (filter (\<lambda>m. fm_environment m = environment) ms)))))"

text \<open>\<open>_validated_update\<close>: the changed copy passes validation again.\<close>

definition validated_update :: "store_lib \<Rightarrow> FilestoreMigrationManifest \<Rightarrow> FilestoreMigrationManifest fs" where
  "validated_update L m = eff_lift (case validate_manifest L m of
     Inl t \<Rightarrow> Inl (FsError FsValidationError t) | Inr m' \<Rightarrow> Inr m')"

end
