(* ===== verification/Filestore_Objects.thy ===== *)
theory Filestore_Objects
  imports Filestore_World Py_Text
begin

text \<open>
  \<open>odooctl/adapters/object_filestore.py\<close>: content-addressed generations of a filestore in a
  bucket, with the verified reads and the upload of \<open>odooctl/adapters/s3.py\<close> they rest on.
  The bucket is a dictionary from keys to bodies with their checksum metadata and ETag; a
  conditional put is one step.  \<open>object_adapter\<close> holds what the constructor fixes;
  \<open>oa_client\<close> and \<open>oa_sse\<close> are the outcomes of building the client and the encryption
  arguments from the environment, \<open>oa_detail\<close> the redacted text of a provider's exception.
  Texts of documents have code points below 256.
\<close>

record object_adapter =
  oa_project :: string
  oa_environment :: string
  oa_prefix :: string
  oa_bucket :: string
  oa_client :: "(fs_error, unit) result"
  oa_sse :: "(fs_error, unit) result"
  oa_detail :: string

definition MAX_FILESTORE_MANIFEST_BYTES :: nat where "MAX_FILESTORE_MANIFEST_BYTES = 32 * 1024 * 1024"
definition MAX_ACTIVE_POINTER_BYTES :: nat where "MAX_ACTIVE_POINTER_BYTES = 64 * 1024"

definition fs_value_error :: "string \<Rightarrow> fs_error" where
  "fs_value_error t = FsError FsValueError t"

section \<open>Keys\<close>

definition strip_char :: "char \<Rightarrow> string \<Rightarrow> string" where
  "strip_char c s = rev (dropWhile ((=) c) (rev (dropWhile ((=) c) s)))"

text \<open>\<open>re.sub(r"[^a-z0-9-]+", "-", s)\<close>.\<close>

definition slug_char :: "char \<Rightarrow> bool" where
  "slug_char c \<longleftrightarrow> (let n = of_char c :: nat in (97 \<le> n \<and> n \<le> 122) \<or> (48 \<le> n \<and> n \<le> 57) \<or> n = 45)"

fun slug :: "bool \<Rightarrow> string \<Rightarrow> string" where
  "slug inside [] = []"
| "slug inside (c # s) = (if slug_char c then c # slug False s
     else if inside then slug True s else CHR ''-'' # slug True s)"

definition project_namespace :: "store_lib \<Rightarrow> string \<Rightarrow> string" where
  "project_namespace L project =
     (let s = take 32 (strip_char (CHR ''-'') (slug False (py_lower project)))
      in (if s = [] then ''project'' else s) @ ''-'' @ take 16 (sl_sha L (utf8_encode project)))"

definition make_adapter ::
  "store_lib \<Rightarrow> string \<Rightarrow> string \<Rightarrow> (fs_error, unit) result \<Rightarrow> (fs_error, unit) result \<Rightarrow> string \<Rightarrow>
   string \<Rightarrow> string \<Rightarrow> (fs_error, object_adapter) result" where
  "make_adapter L bucket config_prefix client sse detail project environment =
     bindE (guardE (py_strip project \<noteq> [] \<and> \<not> list_ex control_char project)
       (fs_value_error ''project must be a non-empty printable string'')) (\<lambda>_.
     bindE (guardE (one_component environment) (fs_value_error ''environment must be one safe component'')) (\<lambda>_.
     Inr \<lparr>oa_project = project, oa_environment = environment,
       oa_prefix = join_with ''/'' (filter (\<lambda>p. p \<noteq> [])
         [strip_char (CHR ''/'') config_prefix, ''projects'', project_namespace L project, ''filestore'', environment]),
       oa_bucket = bucket, oa_client = client, oa_sse = sse, oa_detail = detail\<rparr>))"

definition scoped_key :: "object_adapter \<Rightarrow> string list \<Rightarrow> (fs_error, string) result" where
  "scoped_key A parts =
     bindE (guardE (\<not> list_ex (\<lambda>raw. raw = [] \<or> starts_with ''/'' raw \<or> ends_with ''/'' raw \<or> CHR 0x5C \<in> set raw \<or>
         list_ex (\<lambda>p. p = ''..'' \<or> list_ex control_char p) (path_parts raw)) parts)
       (fs_value_error ''object-filestore key contains an unsafe component'')) (\<lambda>_.
     let key = join_with ''/'' (oa_prefix A # concat (map path_parts parts)) in
     bindE (guardE (length (utf8_encode key) \<le> 1024) (fs_value_error ''object-filestore key exceeds the S3 1024-byte limit''))
       (\<lambda>_. Inr key))"

definition migration_component :: "string \<Rightarrow> (fs_error, string) result" where
  "migration_component v = (if one_component v then Inr v else Inl (fs_value_error ''migration_id must be one safe component''))"

definition object_digest :: "string \<Rightarrow> (fs_error, string) result" where
  "object_digest v = (if is_sha256 (py_lower v) then Inr (py_lower v)
     else Inl (fs_value_error ''filestore object digest must be a SHA-256''))"

definition object_key :: "object_adapter \<Rightarrow> string \<Rightarrow> (fs_error, string) result" where
  "object_key A digest = bindE (object_digest digest) (\<lambda>d. scoped_key A [''objects'', d])"

definition migration_manifest_key :: "object_adapter \<Rightarrow> string \<Rightarrow> (fs_error, string) result" where
  "migration_manifest_key A i = bindE (migration_component i) (\<lambda>i'. scoped_key A [''migrations'', i', ''manifest.json''])"

definition active_key :: "object_adapter \<Rightarrow> (fs_error, string) result" where
  "active_key A = scoped_key A [''active.json'']"

definition uri_for_migration :: "object_adapter \<Rightarrow> string \<Rightarrow> (fs_error, string) result" where
  "uri_for_migration A i = bindE (migration_manifest_key A i) (\<lambda>k. Inr (''s3://'' @ oa_bucket A @ ''/'' @ k))"

text \<open>\<open>_prefix_parts\<close>, \<open>_bucket\<close> and \<open>_validate_scoped_key\<close> of the S3 adapter.\<close>

definition bad_segment :: "string \<Rightarrow> bool" where
  "bad_segment p \<longleftrightarrow> p = [] \<or> p = ''.'' \<or> p = ''..'' \<or> list_ex control_char p"

definition prefix_parts :: "string \<Rightarrow> (fs_error, string list) result" where
  "prefix_parts p =
     (let raw = strip_char (CHR ''/'') p in
      if raw = [] then Inr []
      else if CHR 0x5C \<in> set raw \<or> CHR 0x00 \<in> set raw
        then Inl (FsError S3PathError ''remote backup prefix contains unsafe characters'')
      else if list_ex bad_segment (split_on (CHR ''/'') raw)
        then Inl (FsError S3PathError ''remote backup prefix contains unsafe path segments'')
      else Inr (split_on (CHR ''/'') raw))"

definition s3_bucket :: "object_adapter \<Rightarrow> (fs_error, string) result" where
  "s3_bucket A = (let b = oa_bucket A in
     if b = [] \<or> py_strip b \<noteq> b \<or> b = ''.'' \<or> b = ''..'' \<or> CHR ''/'' \<in> set b \<or> CHR 0x5C \<in> set b \<or> CHR 0x00 \<in> set b
     then Inl (FsError S3ConfigurationError ''remote backup bucket must be a non-empty bucket name'') else Inr b)"

definition validate_scoped_key :: "object_adapter \<Rightarrow> string \<Rightarrow> (fs_error, string) result" where
  "validate_scoped_key A key =
     (let parts = split_on (CHR ''/'') key in
      if key = [] \<or> starts_with ''/'' key \<or> ends_with ''/'' key \<or> CHR 0x5C \<in> set key \<or> CHR 0x00 \<in> set key
        then Inl (FsError S3PathError ''S3 object key is outside the configured scope'')
      else if list_ex bad_segment parts then Inl (FsError S3PathError ''S3 object key contains unsafe path segments'')
      else bindE (prefix_parts (oa_prefix A)) (\<lambda>pre.
        if pre \<noteq> [] \<and> take (length pre) parts \<noteq> pre
          then Inl (FsError S3PathError ''S3 object key is outside the configured prefix'')
        else if length parts \<le> length pre then Inl (FsError S3PathError ''S3 object key does not identify an object'')
        else Inr (join_with ''/'' parts)))"

section \<open>Calls of the provider\<close>

definition provider_error :: "object_adapter \<Rightarrow> string \<Rightarrow> fs_error" where
  "provider_error A operation = FsError S3ProviderError (''S3 '' @ operation @ '' failed: '' @ oa_detail A)"

definition s3_call :: "fs_error \<Rightarrow> (fs_world \<Rightarrow> (fs_error, 'a) result \<times> fs_world) \<Rightarrow> 'a fs" where
  "s3_call e act = eff_external next_fate e act"

text \<open>Fetching what is stored under a key; a missing key is a provider error.\<close>

definition fetch :: "object_adapter \<Rightarrow> string \<Rightarrow> string \<Rightarrow> s3_object fs" where
  "fetch A operation key = s3_call (provider_error A operation) (\<lambda>w. case dict_get (fx_bucket w) key of
     None \<Rightarrow> (Inl (provider_error A operation), w) | Some x \<Rightarrow> (Inr x, w))"

text \<open>A HEAD request whose not-found answer is an answer.\<close>

definition probe :: "string \<Rightarrow> string \<Rightarrow> bool fs" where
  "probe trouble key = s3_call (FsError S3ProviderError trouble) (\<lambda>w. (Inr (dict_has (fx_bucket w) key), w))"

record S3ObjectInfo =
  si_key :: string
  si_size :: nat
  si_sha :: "string option"
  si_etag :: string

definition head_object :: "object_adapter \<Rightarrow> string \<Rightarrow> S3ObjectInfo fs" where
  "head_object A key =
     eff_bind (eff_lift (validate_scoped_key A key)) (\<lambda>k.
     eff_bind (eff_lift (oa_client A)) (\<lambda>_.
     eff_bind (eff_lift (s3_bucket A)) (\<lambda>_.
     eff_bind (fetch A (''head '' @ k) k) (\<lambda>x.
     eff_return \<lparr>si_key = k, si_size = length (so_body x), si_sha = map_option py_lower (so_sha x), si_etag = so_etag x\<rparr>))))"

definition integrity_error :: "string \<Rightarrow> string \<Rightarrow> fs_error" where
  "integrity_error key what = FsError S3IntegrityError (''S3 object '' @ quoted key @ what)"

definition verify_object :: "object_adapter \<Rightarrow> string \<Rightarrow> string option \<Rightarrow> nat option \<Rightarrow> S3ObjectInfo fs" where
  "verify_object A key sha expected =
     eff_bind (head_object A key) (\<lambda>i.
     eff_bind (eff_check (case si_sha i of None \<Rightarrow> False | Some h \<Rightarrow> is_sha256 h)
       (integrity_error (si_key i) '' has no valid SHA-256 metadata'')) (\<lambda>_.
     eff_bind (eff_check (case sha of None \<Rightarrow> True | Some h \<Rightarrow> si_sha i = Some (py_lower h))
       (integrity_error (si_key i) '' checksum metadata mismatch'')) (\<lambda>_.
     eff_bind (eff_check (case expected of None \<Rightarrow> True | Some n \<Rightarrow> si_size i = n)
       (integrity_error (si_key i) ('' size mismatch: expected '' @ nat_str (the expected) @ '', got '' @ nat_str (si_size i)))) (\<lambda>_.
     eff_return i))))"

definition read_verified_object ::
  "store_lib \<Rightarrow> object_adapter \<Rightarrow> string \<Rightarrow> string option \<Rightarrow> nat option \<Rightarrow> (S3ObjectInfo \<times> string) fs" where
  "read_verified_object L A key sha max_bytes =
     eff_bind (verify_object A key sha None) (\<lambda>i.
     eff_bind (eff_check (case max_bytes of None \<Rightarrow> True | Some n \<Rightarrow> si_size i \<le> n)
       (integrity_error (si_key i) '' exceeds the allowed size'')) (\<lambda>_.
     eff_bind (fetch A (''read '' @ si_key i) (si_key i)) (\<lambda>x.
     eff_bind (eff_check (case max_bytes of None \<Rightarrow> True | Some n \<Rightarrow> length (so_body x) \<le> n)
       (integrity_error (si_key i) '' exceeds the allowed size'')) (\<lambda>_.
     let actual = sl_sha L (so_body x); authoritative = (case sha of None \<Rightarrow> si_sha i | Some h \<Rightarrow> Some (py_lower h)) in
     eff_bind (eff_check (length (so_body x) = si_size i \<and> (case authoritative of None \<Rightarrow> True | Some h \<Rightarrow> actual = h))
       (integrity_error (si_key i) '' content checksum mismatch'')) (\<lambda>_.
     eff_return (i\<lparr>si_sha := Some actual\<rparr>, so_body x))))))"

definition verify_object_content :: "store_lib \<Rightarrow> object_adapter \<Rightarrow> string \<Rightarrow> string \<Rightarrow> S3ObjectInfo fs" where
  "verify_object_content L A key sha = eff_bind (read_verified_object L A key (Some sha) None) (\<lambda>(i, _). eff_return i)"

definition stored :: "store_lib \<Rightarrow> string \<Rightarrow> s3_object" where
  "stored L body = \<lparr>so_body = body, so_sha = Some (sl_sha L body), so_etag = sl_etag L body\<rparr>"

text \<open>A put under a condition on what is there; a failed condition is a provider's exception.\<close>

datatype put_condition = Always | IfNoneMatch | IfMatch string

fun condition_holds :: "put_condition \<Rightarrow> s3_object option \<Rightarrow> bool" where
  "condition_holds Always x = True"
| "condition_holds IfNoneMatch x = (x = None)"
| "condition_holds (IfMatch e) x = (map_option so_etag x = Some e)"

definition put_object :: "store_lib \<Rightarrow> object_adapter \<Rightarrow> string \<Rightarrow> string \<Rightarrow> put_condition \<Rightarrow> unit fs" where
  "put_object L A key body c = s3_call (provider_error A (''put '' @ key)) (\<lambda>w.
     if condition_holds c (dict_get (fx_bucket w) key)
     then (Inr (), w\<lparr>fx_bucket := dict_put key (stored L body) (fx_bucket w)\<rparr>)
     else (Inl (provider_error A (''put '' @ key)), w))"

section \<open>Documents\<close>

definition object_error :: "string \<Rightarrow> fs_error" where
  "object_error t = FsError ObjectFilestoreError t"

definition conflict :: "string \<Rightarrow> fs_error" where
  "conflict t = FsError ObjectFilestoreConflict t"

definition out_of_scope :: fs_error where
  "out_of_scope = conflict ''filestore manifest is outside this adapter's project/environment/target scope''"

definition assert_manifest_scope :: "object_adapter \<Rightarrow> FilestoreMigrationManifest \<Rightarrow> (fs_error, unit) result" where
  "assert_manifest_scope A m =
     bindE (guardE (fm_project m = oa_project A \<and> fm_environment m = oa_environment A \<and>
         fm_target_backend m \<in> {OBJECT_MIRROR, ODOO_MODULE}) out_of_scope) (\<lambda>_.
     bindE (uri_for_migration A (fm_ident m)) (\<lambda>u. guardE (fm_target_location m = u) out_of_scope))"

definition opt_json :: "string option \<Rightarrow> json" where
  "opt_json v = (case v of None \<Rightarrow> JNull | Some s \<Rightarrow> JStr s)"

definition manifest_document :: "FilestoreMigrationManifest \<Rightarrow> json" where
  "manifest_document m = JObj [
     (''schema_version'', JInt 1), (''migration_id'', JStr (fm_ident m)), (''project'', JStr (fm_project m)),
     (''environment'', JStr (fm_environment m)), (''source_backend'', JStr (backend_text (fm_source_backend m))),
     (''target_backend'', JStr (backend_text (fm_target_backend m))), (''module_name'', opt_json (fm_module_name m)),
     (''previous_active_migration_id'', opt_json (fm_previous m)), (''inventory_sha256'', JStr (fm_inventory m)),
     (''total_size'', JInt (fm_total_size m)), (''entries'', JList (map entry_json (fm_entries m)))]"

definition active_document :: "object_adapter \<Rightarrow> FilestoreMigrationManifest \<Rightarrow> json" where
  "active_document A m = JObj [
     (''schema_version'', JInt 1), (''project'', JStr (oa_project A)), (''environment'', JStr (oa_environment A)),
     (''migration_id'', JStr (fm_ident m)), (''inventory_sha256'', JStr (fm_inventory m))]"

text \<open>Strict UTF-8 decoding.\<close>

fun utf8_decode :: "string \<Rightarrow> string option" where
  "utf8_decode [] = Some []"
| "utf8_decode (c # s) =
     (let n = of_char c :: nat in
      if n < 128 then map_option ((#) c) (utf8_decode s)
      else if n = 194 \<or> n = 195 then
        (case s of [] \<Rightarrow> None
         | d # s' \<Rightarrow> let k = of_char d :: nat in
             if 128 \<le> k \<and> k < 192 then map_option ((#) (char_of (64 * (n - 192) + (k - 128)))) (utf8_decode s') else None)
      else None)"

definition load_document :: "string \<Rightarrow> json option" where
  "load_document payload = Option.bind (utf8_decode payload) loads"

section \<open>Generations\<close>

definition object_exists :: "object_adapter \<Rightarrow> string \<Rightarrow> bool fs" where
  "object_exists A key = eff_bind (eff_lift (oa_client A)) (\<lambda>_. probe ''filestore object lookup failed'' key)"

definition put_immutable_document :: "store_lib \<Rightarrow> object_adapter \<Rightarrow> string \<Rightarrow> string \<Rightarrow> unit fs" where
  "put_immutable_document L A key payload =
     eff_bind (eff_check (length payload \<le> MAX_FILESTORE_MANIFEST_BYTES)
       (object_error ''filestore migration manifest exceeds the allowed size'')) (\<lambda>_.
     eff_bind (eff_catch
         (eff_bind (eff_lift (oa_client A)) (\<lambda>_. eff_bind (eff_lift (oa_sse A)) (\<lambda>_.
          eff_bind (put_object L A key payload IfNoneMatch) (\<lambda>_. eff_return True))))
         (\<lambda>_. eff_return False)) (\<lambda>created.
     if created then eff_bind (verify_object_content L A key (sl_sha L payload)) (\<lambda>_. eff_return ())
     else
       eff_bind (eff_catch (read_verified_object L A key None (Some MAX_FILESTORE_MANIFEST_BYTES))
         (\<lambda>_. eff_raise (FsError S3ProviderError ''immutable filestore marker publication failed''))) (\<lambda>(_, existing).
       eff_check (existing = payload)
         (conflict ''remote filestore migration manifest conflicts with local inventory''))))"

definition file_bytes :: "node \<Rightarrow> path \<Rightarrow> string option" where
  "file_bytes r p = (case node_at r p of Some (Regular b) \<Rightarrow> Some b | _ \<Rightarrow> None)"

text \<open>\<open>upload_object\<close> of the bytes of a regular file; \<open>upload_file\<close> overwrites.\<close>

definition upload_object :: "store_lib \<Rightarrow> object_adapter \<Rightarrow> string \<Rightarrow> string \<Rightarrow> S3ObjectInfo fs" where
  "upload_object L A b key =
     eff_bind (eff_lift (validate_scoped_key A key)) (\<lambda>k.
     eff_bind (eff_lift (oa_client A)) (\<lambda>_.
     eff_bind (eff_lift (s3_bucket A)) (\<lambda>_.
     eff_bind (eff_lift (oa_sse A)) (\<lambda>_.
     eff_bind (put_object L A k b Always) (\<lambda>_.
     verify_object A k (Some (sl_sha L b)) (Some (length b)))))))"

definition upload_entry ::
  "store_lib \<Rightarrow> object_adapter \<Rightarrow> node \<Rightarrow> path \<Rightarrow> string list \<Rightarrow> FilestoreObjectEntry \<Rightarrow> string list fs" where
  "upload_entry L A r root completed e = (case file_bytes r (root @ path_parts (fe_path e)) of
     None \<Rightarrow> eff_raise (object_error (''filestore entry is not a regular file: '' @ fe_path e))
   | Some b \<Rightarrow>
       eff_bind (eff_check (int (length b) = fe_size e \<and> sl_sha L b = fe_sha e)
         (conflict (''filestore source changed after inventory: '' @ fe_path e))) (\<lambda>_.
       eff_bind (eff_lift (object_key A (fe_sha e))) (\<lambda>key.
       if key \<in> set completed then eff_return completed
       else eff_bind (object_exists A key) (\<lambda>there.
         eff_bind (if there then eff_return ()
           else eff_bind (upload_object L A b key) (\<lambda>u.
             eff_check (int (si_size u) = fe_size e)
               (FsError S3IntegrityError (''uploaded filestore object size changed for '' @ fe_path e)))) (\<lambda>_.
         eff_bind (verify_object_content L A key (fe_sha e)) (\<lambda>_. eff_return (key # completed)))))))"

fun upload_entries ::
  "store_lib \<Rightarrow> object_adapter \<Rightarrow> node \<Rightarrow> path \<Rightarrow> string list \<Rightarrow> FilestoreObjectEntry list \<Rightarrow> unit fs" where
  "upload_entries L A r root completed [] = eff_return ()"
| "upload_entries L A r root completed (e # es) =
     eff_bind (upload_entry L A r root completed e) (\<lambda>done_keys. upload_entries L A r root done_keys es)"

text \<open>The size check and the comparison of the payload with the expected document.\<close>

definition verify_stored_entry :: "store_lib \<Rightarrow> object_adapter \<Rightarrow> FilestoreObjectEntry \<Rightarrow> unit fs" where
  "verify_stored_entry L A e =
     eff_bind (eff_lift (object_key A (fe_sha e))) (\<lambda>key.
     eff_bind (verify_object_content L A key (fe_sha e)) (\<lambda>i.
     eff_check (int (si_size i) = fe_size e)
       (FsError S3IntegrityError (''remote filestore object size mismatch for '' @ fe_path e))))"

text \<open>The count and the total the verification reports.\<close>

definition verify_inventory :: "store_lib \<Rightarrow> object_adapter \<Rightarrow> FilestoreMigrationManifest \<Rightarrow> (nat \<times> int) fs" where
  "verify_inventory L A m =
     eff_bind (eff_lift (assert_manifest_scope A m)) (\<lambda>_.
     eff_bind (eff_lift (migration_manifest_key A (fm_ident m))) (\<lambda>key.
     eff_bind (read_verified_object L A key None (Some MAX_FILESTORE_MANIFEST_BYTES)) (\<lambda>(_, payload).
     eff_bind (eff_check (payload = canonical_bytes (manifest_document m))
       (conflict ''remote filestore migration manifest failed identity verification'')) (\<lambda>_.
     eff_bind (eff_each (verify_stored_entry L A) (fm_entries m)) (\<lambda>_.
     eff_return (length (fm_entries m), fm_total_size m))))))"

definition upload_inventory ::
  "store_lib \<Rightarrow> object_adapter \<Rightarrow> node \<Rightarrow> path \<Rightarrow> FilestoreMigrationManifest \<Rightarrow> (nat \<times> int) fs" where
  "upload_inventory L A r root m =
     eff_bind (eff_lift (assert_manifest_scope A m)) (\<lambda>_.
     eff_bind (eff_check (real_dir r root) (object_error (''filestore source is not a real directory: '' @ path_text root))) (\<lambda>_.
     eff_bind (upload_entries L A r root [] (fm_entries m)) (\<lambda>_.
     eff_bind (eff_lift (migration_manifest_key A (fm_ident m))) (\<lambda>key.
     eff_bind (put_immutable_document L A key (canonical_bytes (manifest_document m))) (\<lambda>_.
     verify_inventory L A m)))))"

section \<open>The active pointer\<close>

record ActiveFilestoreGeneration =
  ag_ident :: string
  ag_inventory :: string
  ag_key :: string
  ag_etag :: string

text \<open>\<open>True == 1\<close> in Python.\<close>

definition is_one :: "json option \<Rightarrow> bool" where
  "is_one v \<longleftrightarrow> v = Some (JInt 1) \<or> v = Some (JBool True)"

definition text_field :: "(string, json) dict \<Rightarrow> string \<Rightarrow> string" where
  "text_field d k = (case dict_get d k of None \<Rightarrow> [] | Some v \<Rightarrow> str_json v)"

definition decode_active :: "object_adapter \<Rightarrow> S3ObjectInfo \<Rightarrow> string \<Rightarrow> (fs_error, ActiveFilestoreGeneration) result" where
  "decode_active A i payload = (case load_document payload of
     None \<Rightarrow> Inl (conflict ''active filestore pointer is not valid JSON'')
   | Some (JObj d) \<Rightarrow>
       bindE (guardE (is_one (dict_get d ''schema_version'') \<and> dict_get d ''project'' = Some (JStr (oa_project A)) \<and>
           dict_get d ''environment'' = Some (JStr (oa_environment A)))
         (conflict ''active filestore pointer is outside this project/environment'')) (\<lambda>_.
       bindE (migration_component (text_field d ''migration_id'')) (\<lambda>ident.
       bindE (object_digest (text_field d ''inventory_sha256'')) (\<lambda>inventory.
       bindE (guardE (si_etag i \<noteq> []) (conflict ''active filestore pointer has no ETag'')) (\<lambda>_.
       Inr \<lparr>ag_ident = ident, ag_inventory = inventory, ag_key = si_key i, ag_etag = si_etag i\<rparr>))))
   | Some _ \<Rightarrow> Inl (conflict ''active filestore pointer is outside this project/environment''))"

definition read_active :: "store_lib \<Rightarrow> object_adapter \<Rightarrow> ActiveFilestoreGeneration option fs" where
  "read_active L A =
     eff_bind (eff_lift (oa_client A)) (\<lambda>_.
     case active_key A of
       Inl _ \<Rightarrow> eff_raise (FsError S3ProviderError ''active filestore pointer lookup failed'')
     | Inr key \<Rightarrow>
       eff_bind (probe ''active filestore pointer lookup failed'' key) (\<lambda>there.
       if \<not> there then eff_return None
       else eff_bind (read_verified_object L A key None (Some MAX_ACTIVE_POINTER_BYTES)) (\<lambda>(i, payload).
         eff_bind (eff_lift (decode_active A i payload)) (\<lambda>g. eff_return (Some g)))))"

definition points_to :: "ActiveFilestoreGeneration option \<Rightarrow> FilestoreMigrationManifest \<Rightarrow> bool" where
  "points_to g m \<longleftrightarrow> (case g of None \<Rightarrow> False | Some a \<Rightarrow> ag_ident a = fm_ident m \<and> ag_inventory a = fm_inventory m)"

definition publish_active ::
  "store_lib \<Rightarrow> object_adapter \<Rightarrow> FilestoreMigrationManifest \<Rightarrow> string option \<Rightarrow> ActiveFilestoreGeneration fs" where
  "publish_active L A m expected =
     eff_bind (eff_lift (assert_manifest_scope A m)) (\<lambda>_.
     eff_bind (verify_inventory L A m) (\<lambda>_.
     eff_bind (read_active L A) (\<lambda>current.
     if points_to current m then eff_return (the current)
     else eff_bind (eff_check (map_option ag_ident current = expected)
         (conflict ''active filestore generation changed after migration planning'')) (\<lambda>_.
       eff_bind (eff_lift (oa_client A)) (\<lambda>_.
       eff_bind (eff_lift (active_key A)) (\<lambda>key.
       eff_bind (eff_lift (oa_sse A)) (\<lambda>_.
       eff_bind (eff_catch
           (eff_bind (put_object L A key (canonical_bytes (active_document A m))
              (case current of None \<Rightarrow> IfNoneMatch | Some a \<Rightarrow> IfMatch (ag_etag a))) (\<lambda>_. eff_return True))
           (\<lambda>_. eff_return False)) (\<lambda>answered.
       eff_bind (eff_catch (read_active L A) (\<lambda>e. eff_raise (if answered then e
           else FsError S3ProviderError ''active filestore pointer publication failed''))) (\<lambda>published.
       if points_to published m then eff_return (the published)
       else eff_raise (if answered
         then FsError S3ProviderError ''active filestore pointer publication returned but did not persist''
         else conflict ''active filestore conditional publication lost a race''))))))))))"

definition delete_migration_manifest :: "store_lib \<Rightarrow> object_adapter \<Rightarrow> string \<Rightarrow> bool \<Rightarrow> string fs" where
  "delete_migration_manifest L A ident confirm_not_active =
     eff_bind (eff_check confirm_not_active (fs_value_error ''remote deletion requires confirm_not_active=True'')) (\<lambda>_.
     eff_bind (read_active L A) (\<lambda>active.
     eff_bind (eff_lift (migration_component ident)) (\<lambda>safe_id.
     eff_bind (eff_check (map_option ag_ident active \<noteq> Some safe_id)
       (conflict ''refusing to delete the active filestore migration manifest'')) (\<lambda>_.
     eff_bind (eff_lift (migration_manifest_key A safe_id)) (\<lambda>key.
     eff_bind (eff_lift (oa_client A)) (\<lambda>_.
     eff_bind (s3_call (provider_error A (''delete '' @ key))
       (\<lambda>w. (Inr (), w\<lparr>fx_bucket := dict_del key (fx_bucket w)\<rparr>))) (\<lambda>_.
     eff_return key)))))))"

section \<open>Downloads\<close>

text \<open>\<open>os.replace\<close> of a file, and \<open>unlink(missing_ok=True)\<close>.\<close>

definition replace_file :: "path \<Rightarrow> path \<Rightarrow> unit fs" where
  "replace_file p d = disk (\<lambda>w. let r = fx_root w; q = place r p; e = place r d in
     case lookup_at r q of
       None \<Rightarrow> (Inl (no_such_file p), w)
     | Some x \<Rightarrow> if is_folder (lookup_at r e)
         then (Inl (FsError FsOSError (''[Errno 21] Is a directory: '' @ quoted (path_text d))), w)
         else (Inr (), w\<lparr>fx_root := set_at e (Some x) (set_at q None r)\<rparr>))"

definition unlink_if_there :: "path \<Rightarrow> unit fs" where
  "unlink_if_there p = disk (\<lambda>w. let q = place (fx_root w) p in
     case lookup_at (fx_root w) q of
       None \<Rightarrow> (Inr (), w)
     | Some (Folder _) \<Rightarrow> (Inl (FsError FsOSError (''[Errno 21] Is a directory: '' @ quoted (path_text p))), w)
     | Some _ \<Rightarrow> (Inr (), w\<lparr>fx_root := set_at q None (fx_root w)\<rparr>))"

definition download_object :: "store_lib \<Rightarrow> object_adapter \<Rightarrow> string \<Rightarrow> path \<Rightarrow> string \<Rightarrow> unit fs" where
  "download_object L A key d sha =
     eff_bind (eff_lift (validate_scoped_key A key)) (\<lambda>k.
     eff_bind (verify_object A k (Some sha) None) (\<lambda>i.
     eff_bind (eff_read fx_root) (\<lambda>r.
     eff_bind (eff_check (followed r d = None)
       (FsError S3PathError (''download destination already exists: '' @ path_text d))) (\<lambda>_.
     eff_bind (eff_check (\<not> is_link (node_at r d))
       (FsError S3PathError (''download destination must not be a symbolic link: '' @ path_text d))) (\<lambda>_.
     eff_bind (make_dirs (butlast d)) (\<lambda>_.
     eff_bind (token_hex L) (\<lambda>t.
     let temporary = butlast d @ [''.'' @ last d @ ''.'' @ t @ ''.partial''] in
     eff_finally
       (eff_bind (eff_lift (oa_client A)) (\<lambda>_.
        eff_bind (eff_lift (s3_bucket A)) (\<lambda>_.
        eff_bind (fetch A (''download '' @ si_key i) (si_key i)) (\<lambda>x.
        eff_bind (add_entry temporary (Regular (so_body x))) (\<lambda>_.
        eff_bind (eff_check (length (so_body x) = si_size i \<and> sl_sha L (so_body x) = py_lower sha)
          (FsError S3IntegrityError (''downloaded S3 object '' @ quoted (si_key i) @ '' failed checksum verification''))) (\<lambda>_.
        replace_file temporary d))))))
       (unlink_if_there temporary))))))))"

definition partial_path :: "path \<Rightarrow> string \<Rightarrow> path" where
  "partial_path d ident = butlast d @ [''.'' @ last d @ ''.'' @ ident @ ''.partial'']"

definition download_entry :: "store_lib \<Rightarrow> object_adapter \<Rightarrow> path \<Rightarrow> FilestoreObjectEntry \<Rightarrow> unit fs" where
  "download_entry L A base e =
     (let output = base @ path_parts (fe_path e) in
      eff_bind (make_dirs (butlast output)) (\<lambda>_.
      eff_bind (eff_lift (object_key A (fe_sha e))) (\<lambda>key.
      eff_bind (download_object L A key output (fe_sha e)) (\<lambda>_.
      eff_bind (eff_read fx_root) (\<lambda>r.
      eff_check (map_option (\<lambda>b. int (length b)) (file_bytes r output) = Some (fe_size e))
        (FsError S3IntegrityError (''downloaded filestore object size mismatch for '' @ fe_path e)))))))"

definition download_inventory ::
  "store_lib \<Rightarrow> object_adapter \<Rightarrow> FilestoreMigrationManifest \<Rightarrow> path \<Rightarrow> path fs" where
  "download_inventory L A m target =
     eff_bind (eff_lift (assert_manifest_scope A m)) (\<lambda>_.
     eff_bind (verify_inventory L A m) (\<lambda>_.
     eff_bind (eff_read fx_root) (\<lambda>r.
     eff_bind (eff_check (\<not> lexists r target)
       (FsError FsFileExistsError (''filestore download target already exists: '' @ path_text target))) (\<lambda>_.
     eff_bind (make_dirs (butlast target)) (\<lambda>_.
     let base = partial_path target (fm_ident m) in
     eff_bind (eff_read fx_root) (\<lambda>r'.
     eff_bind (eff_check (\<not> lexists r' base)
       (FsError FsFileExistsError (''filestore partial target already exists: '' @ path_text base))) (\<lambda>_.
     eff_bind (make_dir base) (\<lambda>_.
     eff_catch
       (eff_bind (eff_each (download_entry L A base) (fm_entries m)) (\<lambda>_.
        eff_bind (fsync_folder base) (\<lambda>_.
        eff_bind (move_folder base target) (\<lambda>_.
        eff_bind (fsync_folder (butlast target)) (\<lambda>_. eff_return target)))))
       (\<lambda>e. eff_bind (rmtree_ignore_errors base) (\<lambda>_. eff_raise e))))))))))"

end
