(* ===== verification/Filestore_Config.thy ===== *)
theory Filestore_Config
  imports Filestore_Objects
begin

text \<open>
  The filestore part of \<open>odooctl/config.py\<close> (\<open>FilestoreObjectStoreConfig\<close>,
  \<open>FilestoreBackendConfig\<close>, the filestore fields of \<open>EnvironmentConfig\<close>) with its
  validators, and how the S3 adapter reads its settings from the process environment.  A
  validator returns the messages of the fields that fail.  Importing the client library,
  building its client and reading a container's token file are outcomes in
  \<open>filestore_context\<close>.
\<close>

record object_store_config =
  os_bucket :: string
  os_prefix :: string
  os_region :: "string option"
  os_endpoint_env :: "string option"
  os_access_key_env :: "string option"
  os_secret_key_env :: "string option"
  os_session_token_env :: "string option"
  os_region_env :: "string option"
  os_encryption :: "string option"
  os_encryption_key_env :: "string option"

record filestore_backend =
  fb_type :: BackendType
  fb_object_store :: "object_store_config option"
  fb_mount_path :: "string option"
  fb_source_path :: "string option"
  fb_module_name :: "string option"

record filestore_env =
  en_path :: string
  en_volume :: "string option"
  en_backend :: "filestore_backend option"

section \<open>Validators\<close>

definition bucket_field :: "string \<Rightarrow> (string, string) result" where
  "bucket_field v = (let n = py_strip v in
     if n = [] \<or> n = ''.'' \<or> n = ''..'' \<or> CHR ''/'' \<in> set n \<or> CHR 0x5C \<in> set n \<or> list_ex control_char n
     then Inl ''bucket must be a non-empty S3 bucket name without path separators'' else Inr n)"

definition prefix_field :: "string \<Rightarrow> (string, string) result" where
  "prefix_field v = (let n = strip_char (CHR ''/'') v in
     if starts_with ''/'' v \<or> CHR 0x5C \<in> set v \<or> list_ex control_char v \<or> ''..'' \<in> set (path_parts n)
     then Inl ''prefix must be a safe relative POSIX object prefix'' else Inr n)"

definition env_name_start :: "char \<Rightarrow> bool" where
  "env_name_start c \<longleftrightarrow> (let n = of_char c :: nat in (65 \<le> n \<and> n \<le> 90) \<or> (97 \<le> n \<and> n \<le> 122) \<or> n = 95)"

definition env_name_field :: "string \<Rightarrow> string \<Rightarrow> (string, string) result" where
  "env_name_field v label =
     (if v \<noteq> [] \<and> env_name_start (hd v) \<and> list_all (\<lambda>c. alnum c \<or> c = CHR ''_'') v then Inr v
      else Inl (label @ '' must be an environment variable name''))"

definition given :: "string option \<Rightarrow> bool" where
  "given v \<longleftrightarrow> v \<noteq> None \<and> v \<noteq> Some []"

definition store_config_complaints :: "object_store_config \<Rightarrow> string list" where
  "store_config_complaints c =
     (let fields =
        complaint (bucket_field (os_bucket c)) @ complaint (prefix_field (os_prefix c)) @
        complaint (optional (\<lambda>v. env_name_field v ''endpoint_env'') (os_endpoint_env c)) @
        complaint (optional (\<lambda>v. env_name_field v ''access_key_env'') (os_access_key_env c)) @
        complaint (optional (\<lambda>v. env_name_field v ''secret_key_env'') (os_secret_key_env c)) @
        complaint (optional (\<lambda>v. env_name_field v ''session_token_env'') (os_session_token_env c)) @
        complaint (optional (\<lambda>v. env_name_field v ''region_env'') (os_region_env c)) @
        complaint (literal_field (os_encryption c \<in> {None, Some ''AES256'', Some ''aws:kms''}) ''an algorithm'') @
        complaint (optional (\<lambda>v. env_name_field v ''encryption_key_env'') (os_encryption_key_env c))
      in if fields \<noteq> [] then fields
      else if given (os_access_key_env c) \<noteq> given (os_secret_key_env c)
        then [''filestore object_store access_key_env and secret_key_env must be configured together'']
      else if given (os_session_token_env c) \<and> \<not> given (os_access_key_env c)
        then [''filestore object_store session_token_env requires static credentials'']
      else if given (os_encryption_key_env c) \<and> os_encryption c \<noteq> Some ''aws:kms''
        then [''filestore object_store encryption_key_env requires encryption_algorithm '' @ quoted ''aws:kms'']
      else [])"

definition directory_field :: "string \<Rightarrow> string \<Rightarrow> (string, string) result" where
  "directory_field v label =
     (if py_strip v = [] then Inl (label @ '' must not be empty'')
      else if ''..'' \<in> set (path_parts v) \<or> path_parts v = []
      then Inl (label @ '' must reference a named directory without '' @ quoted ''..'' @ '' path segments'')
      else Inr v)"

definition valid_identifier :: "string \<Rightarrow> string \<Rightarrow> (string, string) result" where
  "valid_identifier v label =
     (if 64 < length v \<or> contains_str ''..'' v \<or> v = [] \<or> \<not> alnum (hd v) \<or> \<not> list_all name_char v
      then Inl (label @ '' '' @ repr_str (take 32 v) @ '' is invalid: must match ^[A-Za-z0-9][A-Za-z0-9._-]*$ with no '' @ quoted ''..'' @ '', max 64 characters'')
      else Inr v)"

definition mode_complaint :: "filestore_backend \<Rightarrow> string option" where
  "mode_complaint b =
     (if fb_type b \<in> {OBJECT_MIRROR, ODOO_MODULE} \<and> fb_object_store b = None
        then Some (''filestore backend '' @ backend_text (fb_type b) @ '' requires object_store'')
      else if fb_type b = POSIX_OBJECT_MOUNT \<and> \<not> given (fb_mount_path b) then Some ''posix_object_mount requires mount_path''
      else if fb_type b = ODOO_MODULE \<and> \<not> given (fb_module_name b) then Some ''odoo_module requires module_name''
      else if fb_type b \<in> {LOCAL, DOCKER_VOLUME} \<and>
          (fb_object_store b \<noteq> None \<or> given (fb_mount_path b) \<or> given (fb_source_path b) \<or> given (fb_module_name b))
        then Some (''filestore backend '' @ backend_text (fb_type b) @ '' does not accept target integration fields'')
      else if fb_type b = OBJECT_MIRROR \<and> (given (fb_mount_path b) \<or> given (fb_module_name b))
        then Some ''filestore backend object_mirror does not accept mount_path or module_name''
      else if fb_type b = POSIX_OBJECT_MOUNT \<and> (fb_object_store b \<noteq> None \<or> given (fb_module_name b))
        then Some ''filestore backend posix_object_mount does not accept object_store or module_name''
      else if fb_type b = ODOO_MODULE \<and> given (fb_mount_path b)
        then Some ''filestore backend odoo_module does not accept mount_path''
      else None)"

definition backend_complaints :: "filestore_backend \<Rightarrow> string list" where
  "backend_complaints b =
     (let fields = (case fb_object_store b of None \<Rightarrow> [] | Some c \<Rightarrow> store_config_complaints c) @
        complaint (optional (\<lambda>v. directory_field v ''mount_path'') (fb_mount_path b)) @
        complaint (optional (\<lambda>v. directory_field v ''source_path'') (fb_source_path b)) @
        complaint (optional (\<lambda>v. valid_identifier v ''module_name'') (fb_module_name b))
      in if fields \<noteq> [] then fields else case mode_complaint b of None \<Rightarrow> [] | Some t \<Rightarrow> [t])"

definition filestore_path_field :: "string \<Rightarrow> (string, string) result" where
  "filestore_path_field v =
     (if py_strip v = [] then Inl ''filestore_path must not be empty''
      else if ''..'' \<in> set (path_parts v)
        then Inl (''filestore_path '' @ repr_str (take 64 v) @ '' must not contain '' @ quoted ''..'' @ '' path segments'')
      else if path_parts v = []
        then Inl (''filestore_path '' @ repr_str (take 64 v) @ '' must reference a named directory, not a root path'')
      else Inr v)"

definition env_complaints :: "filestore_env \<Rightarrow> string list" where
  "env_complaints e =
     (let fields = complaint (filestore_path_field (en_path e)) @
        complaint (optional (\<lambda>v. valid_identifier v ''filestore_volume'') (en_volume e)) @
        (case en_backend e of None \<Rightarrow> [] | Some b \<Rightarrow> backend_complaints b)
      in if fields \<noteq> [] then fields
      else case en_backend e of
        None \<Rightarrow> []
      | Some b \<Rightarrow>
          if fb_type b = LOCAL \<and> given (en_volume e)
            then [''filestore_backend.type local cannot be combined with filestore_volume'']
          else if fb_type b = DOCKER_VOLUME \<and> \<not> given (en_volume e)
            then [''filestore_backend.type docker_volume requires filestore_volume'']
          else [])"

definition effective_filestore_backend :: "filestore_env \<Rightarrow> BackendType" where
  "effective_filestore_backend e = (case en_backend e of
     Some b \<Rightarrow> fb_type b | None \<Rightarrow> if given (en_volume e) then DOCKER_VOLUME else LOCAL)"

section \<open>Settings of the S3 adapter\<close>

record filestore_context =
  sc_project :: string
  sc_root :: path
  sc_cwd :: path
  sc_environments :: "(string, filestore_env) dict"
  sc_environ :: "(string, string) dict"
  sc_secrets :: "string list"
  sc_token_file :: "(fs_error, unit) result"
  sc_library :: "(fs_error, unit) result"
  sc_session :: "(fs_error, unit) result"
  sc_detail :: string

definition configuration_error :: "string \<Rightarrow> fs_error" where
  "configuration_error t = FsError S3ConfigurationError t"

definition required_env :: "filestore_context \<Rightarrow> string \<Rightarrow> string \<Rightarrow> (fs_error, string) result" where
  "required_env C name purpose = (case dict_get (sc_environ C) name of
     Some (c # v) \<Rightarrow> Inr (c # v)
   | _ \<Rightarrow> Inl (configuration_error (''Missing '' @ purpose @ '' environment variable: '' @ name)))"

definition optional_env :: "filestore_context \<Rightarrow> string option \<Rightarrow> string \<Rightarrow> (fs_error, string option) result" where
  "optional_env C ref purpose = (if given ref then bindE (required_env C (the ref) purpose) (\<lambda>v. Inr (Some v)) else Inr None)"

definition region_setting :: "filestore_context \<Rightarrow> object_store_config \<Rightarrow> (fs_error, string option) result" where
  "region_setting C os =
     (if given (os_region_env os) then optional_env C (os_region_env os) ''remote backup region''
      else Inr (if given (os_region os) then os_region os
        else if given (dict_get (sc_environ C) ''AWS_REGION'') then dict_get (sc_environ C) ''AWS_REGION''
        else dict_get (sc_environ C) ''AWS_DEFAULT_REGION''))"

definition s3_credentials :: "filestore_context \<Rightarrow> object_store_config \<Rightarrow> (fs_error, (string, string) dict) result" where
  "s3_credentials C os =
     (if given (os_access_key_env os) \<noteq> given (os_secret_key_env os)
        then Inl (configuration_error ''remote backup access_key_env and secret_key_env must be configured together'')
      else if \<not> given (os_access_key_env os) then Inr []
      else bindE (required_env C (the (os_access_key_env os)) ''remote backup access key'') (\<lambda>a.
        bindE (required_env C (the (os_secret_key_env os)) ''remote backup secret key'') (\<lambda>s.
        bindE (optional_env C (os_session_token_env os) ''remote backup session token'') (\<lambda>t.
        Inr ([(''aws_access_key_id'', a), (''aws_secret_access_key'', s)] @
          (case t of None \<Rightarrow> [] | Some v \<Rightarrow> [(''aws_session_token'', v)]))))))"

definition s3_client :: "filestore_context \<Rightarrow> object_store_config \<Rightarrow> (fs_error, unit) result" where
  "s3_client C os =
     bindE (s3_credentials C os) (\<lambda>credentials.
     bindE (if credentials = [] then sc_token_file C else Inr ()) (\<lambda>_.
     bindE (sc_library C) (\<lambda>_.
     bindE (region_setting C os) (\<lambda>_.
     bindE (optional_env C (os_endpoint_env os) ''remote backup endpoint'') (\<lambda>_. sc_session C)))))"

definition sse_extra_args :: "filestore_context \<Rightarrow> object_store_config \<Rightarrow> (fs_error, unit) result" where
  "sse_extra_args C os =
     (if \<not> given (os_encryption os) then Inr ()
      else bindE (optional_env C (os_encryption_key_env os) ''remote backup encryption key'') (\<lambda>_. Inr ()))"

end
