(* ===== verification/Filestore_Storage.thy ===== *)
theory Filestore_Storage
  imports Filestore_Config
begin

text \<open>
  \<open>odooctl/services/filestore_storage.py\<close>: planning, copying, verifying and cutting over a
  filestore, and deleting its source afterwards.  A materialized source is a tree with a path
  in it: the host's tree as it is when the source is opened, or the tree extracted from the
  container's archive.  The temporary folder of the extraction is not part of the modelled
  disk.  Reading and writing a file are one step; the checks that a file does not change
  while it is read are not modelled.
\<close>

definition safe_error :: "filestore_context \<Rightarrow> fs_error failure \<Rightarrow> string" where
  "safe_error C f = redact_text (case f of Raised e \<Rightarrow> error_text e | _ \<Rightarrow> []) (sc_secrets C)"

definition find_backend ::
  "filestore_context \<Rightarrow> string \<Rightarrow> (fs_error, filestore_env \<times> filestore_backend) result" where
  "find_backend C environment = (case dict_get (sc_environments C) environment of
     None \<Rightarrow> Inl (FsError FsKeyError (repr_str (''Unknown environment '' @ quoted environment @ ''. Known: '' @
       join_with '', '' (sort (map fst (sc_environments C))))))
   | Some env \<Rightarrow> (case en_backend env of
       None \<Rightarrow> Inl (storage_error ''filestore migration requires an explicit filestore_backend configuration'')
     | Some b \<Rightarrow> Inr (env, b)))"

section \<open>Locations\<close>

text \<open>\<open>os.path.abspath\<close> resolves dots without looking at links.\<close>

definition norm_path :: "path \<Rightarrow> path" where
  "norm_path p = rev (fold (\<lambda>c acc. if c = ''..'' then tl acc else c # acc) p [])"

definition resolve_host_path :: "filestore_context \<Rightarrow> string \<Rightarrow> path" where
  "resolve_host_path C v = norm_path (if starts_with ''/'' v then path_parts v else sc_root C @ path_parts v)"

text \<open>\<open>Path(text)\<close> as the file system reads it.\<close>

definition location_path :: "filestore_context \<Rightarrow> string \<Rightarrow> path" where
  "location_path C v = (if starts_with ''/'' v then path_parts v else sc_cwd C @ path_parts v)"

definition host_source :: "filestore_context \<Rightarrow> filestore_env \<Rightarrow> filestore_backend \<Rightarrow> path option" where
  "host_source C env b =
     (if given (fb_source_path b) then Some (resolve_host_path C (the (fb_source_path b)))
      else if given (en_volume env) then None
      else Some (resolve_host_path C (en_path env)))"

definition source_description ::
  "filestore_context \<Rightarrow> filestore_env \<Rightarrow> filestore_backend \<Rightarrow> BackendType \<times> string" where
  "source_description C env b = (case host_source C env b of
     Some p \<Rightarrow> (LOCAL, path_text p)
   | None \<Rightarrow> (DOCKER_VOLUME, ''volume:'' @ the (en_volume env) @ '':'' @ en_path env))"

definition object_backend :: "filestore_backend \<Rightarrow> bool" where
  "object_backend b \<longleftrightarrow> fb_type b \<in> {OBJECT_MIRROR, ODOO_MODULE}"

definition object_adapter_for ::
  "store_lib \<Rightarrow> filestore_context \<Rightarrow> string \<Rightarrow> filestore_backend \<Rightarrow> (fs_error, object_adapter) result" where
  "object_adapter_for L C environment b = (case fb_object_store b of
     None \<Rightarrow> Inl (storage_error (''filestore backend '' @ backend_text (fb_type b) @ '' has no object_store''))
   | Some os \<Rightarrow> make_adapter L (os_bucket os) (os_prefix os) (s3_client C os) (sse_extra_args C os) (sc_detail C)
       (sc_project C) environment)"

definition target_location ::
  "store_lib \<Rightarrow> filestore_context \<Rightarrow> string \<Rightarrow> filestore_backend \<Rightarrow> string \<Rightarrow> (fs_error, string) result" where
  "target_location L C environment b ident =
     (if object_backend b then bindE (object_adapter_for L C environment b) (\<lambda>A. uri_for_migration A ident)
      else if fb_type b = POSIX_OBJECT_MOUNT \<and> given (fb_mount_path b)
        then Inr (path_text (resolve_host_path C (the (fb_mount_path b))))
      else Inl (storage_error (''filestore backend '' @ backend_text (fb_type b) @ '' is not a migration target'')))"

section \<open>Opening the source\<close>

definition volume_name :: "filestore_env \<Rightarrow> string" where
  "volume_name env = last (path_parts (en_path env))"

text \<open>The members of an archive, and \<open>_validate_tar_members\<close>.\<close>

fun tar_members :: "string \<Rightarrow> node \<Rightarrow> (string \<times> node) list"
  and tar_entries :: "string \<Rightarrow> (string, node) dict \<Rightarrow> (string \<times> node) list" where
  "tar_members n (Folder es) = (n, Folder es) # tar_entries n es"
| "tar_members n (Regular b) = [(n, Regular b)]"
| "tar_members n (Link t) = [(n, Link t)]"
| "tar_members n Special = [(n, Special)]"
| "tar_entries p [] = []"
| "tar_entries p ((n, x) # es) = tar_members (p @ ''/'' @ n) x @ tar_entries p es"

fun unsafe_member :: "string \<times> node \<Rightarrow> string option" where
  "unsafe_member (n, Link t) = Some (''Refusing archive with link member: '' @ quoted n)"
| "unsafe_member (n, Special) = Some (''Refusing archive with special-file member: '' @ quoted n)"
| "unsafe_member (n, x) = None"

definition validate_tar_members :: "string \<Rightarrow> node \<Rightarrow> (fs_error, unit) result" where
  "validate_tar_members n x = (case collect unsafe_member (tar_members n x) of
     [] \<Rightarrow> Inr () | m # _ \<Rightarrow> Inl (FsError FsRuntimeError m))"

definition container_error :: fs_error where
  "container_error = FsError FsRuntimeError ''container command failed''"

definition container :: "(fs_world \<Rightarrow> (fs_error, 'a) result \<times> fs_world) \<Rightarrow> 'a fs" where
  "container act = eff_external next_fate container_error act"

definition archive_volume :: "string \<Rightarrow> node fs" where
  "archive_volume n = container (\<lambda>w. case lookup_at (fx_volume w) [n] of
     None \<Rightarrow> (Inl container_error, w) | Some x \<Rightarrow> (Inr x, w))"

definition open_host_source :: "path \<Rightarrow> (node \<times> path) fs" where
  "open_host_source p = eff_bind (eff_read fx_root) (\<lambda>r.
     eff_bind (eff_check (real_dir r p) (storage_error (''filestore source is not a real directory: '' @ path_text p)))
       (\<lambda>_. eff_return (r, p)))"

definition materialized_source ::
  "filestore_context \<Rightarrow> filestore_env \<Rightarrow> filestore_backend \<Rightarrow> (node \<times> path) fs" where
  "materialized_source C env b = (case host_source C env b of
     Some p \<Rightarrow> open_host_source p
   | None \<Rightarrow>
       eff_bind (archive_volume (volume_name env)) (\<lambda>x.
       eff_bind (eff_lift (validate_tar_members (volume_name env) x)) (\<lambda>_.
       eff_bind (eff_check (is_folder (Some x))
         (storage_error ''Docker volume filestore did not materialize as a real directory'')) (\<lambda>_.
       eff_return (Folder [(volume_name env, x)], [volume_name env])))))"

definition assert_source_matches :: "store_lib \<Rightarrow> node \<times> path \<Rightarrow> FilestoreMigrationManifest \<Rightarrow> unit fs" where
  "assert_source_matches L src m =
     eff_bind (eff_lift (scan_filestore L (fst src) (snd src))) (\<lambda>i.
     eff_check (same_inventory i m)
       (storage_error ''filestore source changed after migration planning; create a new plan''))"

section \<open>Copying\<close>

definition copy_entry ::
  "store_lib \<Rightarrow> node \<times> path \<Rightarrow> path \<Rightarrow> FilestoreObjectEntry \<Rightarrow> unit fs" where
  "copy_entry L src base e =
     (let from_path = snd src @ path_parts (fe_path e); to_path = base @ path_parts (fe_path e);
          changed_type = storage_error (''filestore source changed type: '' @ fe_path e) in
      eff_bind (make_dirs (butlast to_path)) (\<lambda>_.
      case node_at (fst src) from_path of
        None \<Rightarrow> eff_raise (no_such_file from_path)
      | Some (Regular b) \<Rightarrow>
          eff_bind (add_entry to_path (Regular [])) (\<lambda>_.
          eff_bind (write_bytes to_path b) (\<lambda>_.
          eff_check (sl_sha L b = fe_sha e \<and> int (length b) = fe_size e)
            (storage_error (''filestore source changed during copy: '' @ fe_path e))))
      | Some _ \<Rightarrow> eff_raise changed_type))"

definition fill_partial ::
  "store_lib \<Rightarrow> node \<times> path \<Rightarrow> path \<Rightarrow> path \<Rightarrow> FilestoreMigrationManifest \<Rightarrow> unit fs" where
  "fill_partial L src base d m =
     eff_bind (eff_each (copy_entry L src base) (fm_entries m)) (\<lambda>_.
     eff_bind (eff_read fx_root) (\<lambda>r.
     eff_bind (eff_lift (scan_filestore L r base)) (\<lambda>copied.
     eff_bind (eff_check (same_inventory copied m)
       (storage_error ''copied filestore target failed inventory verification'')) (\<lambda>_.
     eff_bind (move_folder base d) (\<lambda>_. fsync_folder (butlast d))))))"

definition copy_inventory ::
  "store_lib \<Rightarrow> node \<times> path \<Rightarrow> path \<Rightarrow> FilestoreMigrationManifest \<Rightarrow> unit fs" where
  "copy_inventory L src d m =
     eff_bind (eff_read fx_root) (\<lambda>r.
     if lexists r d then
       eff_bind (eff_lift (scan_filestore L r d)) (\<lambda>i.
       eff_check (same_inventory i m)
         (storage_error (''filestore target already exists with different content: '' @ path_text d)))
     else
       eff_bind (make_dirs (butlast d)) (\<lambda>_.
       let base = partial_path d (fm_ident m) in
       eff_bind (eff_read fx_root) (\<lambda>r'.
       eff_bind (eff_check (\<not> lexists r' base)
         (storage_error (''filestore partial target already exists: '' @ path_text base))) (\<lambda>_.
       eff_bind (make_dir base) (\<lambda>_.
       eff_catch (fill_partial L src base d m)
         (\<lambda>e. eff_bind (rmtree_ignore_errors base) (\<lambda>_. eff_raise e)))))))"

section \<open>Status and plan\<close>

record FilestoreBackendStatus =
  bs_environment :: string
  bs_backend :: BackendType
  bs_source_location :: string
  bs_target_location :: "string option"
  bs_migration_count :: nat
  bs_latest :: "(string \<times> MigrationStatus) option"

definition backend_status ::
  "store_lib \<Rightarrow> filestore_context \<Rightarrow> fs_world \<Rightarrow> string \<Rightarrow> (fs_error, FilestoreBackendStatus) result" where
  "backend_status L C w environment = (case dict_get (sc_environments C) environment of
     None \<Rightarrow> Inl (FsError FsKeyError (repr_str (''Unknown environment '' @ quoted environment @ ''. Known: '' @
       join_with '', '' (sort (map fst (sc_environments C))))))
   | Some env \<Rightarrow>
       bindE (list_filestore_migrations L w environment) (\<lambda>migrations.
       let (kind, source) = (case en_backend env of
             Some b \<Rightarrow> source_description C env b
           | None \<Rightarrow> if given (en_volume env)
               then (DOCKER_VOLUME, ''volume:'' @ the (en_volume env) @ '':'' @ en_path env)
               else (LOCAL, path_text (resolve_host_path C (en_path env))));
           target = (case en_backend env of
             None \<Rightarrow> None
           | Some b \<Rightarrow> if fb_type b = POSIX_OBJECT_MOUNT \<and> given (fb_mount_path b)
               then Some (path_text (resolve_host_path C (the (fb_mount_path b))))
               else map_option (\<lambda>os. ''s3://'' @ os_bucket os @ ''/'' @ os_prefix os) (fb_object_store b))
       in Inr \<lparr>bs_environment = environment, bs_backend = effective_filestore_backend env,
            bs_source_location = backend_text kind @ '':'' @ source, bs_target_location = target,
            bs_migration_count = length migrations,
            bs_latest = (case migrations of [] \<Rightarrow> None | m # _ \<Rightarrow> Some (fm_ident m, fm_status m))\<rparr>))"

definition new_manifest ::
  "filestore_context \<Rightarrow> string \<Rightarrow> filestore_env \<Rightarrow> filestore_backend \<Rightarrow> string \<Rightarrow> string \<Rightarrow> string option \<Rightarrow> inventory \<Rightarrow>
   string \<Rightarrow> FilestoreMigrationManifest" where
  "new_manifest C environment env b ident target previous i now =
     \<lparr>fm_ident = ident, fm_project = sc_project C, fm_environment = environment,
      fm_source_backend = fst (source_description C env b), fm_target_backend = fb_type b,
      fm_source_location = snd (source_description C env b), fm_target_location = target,
      fm_module_name = fb_module_name b, fm_previous = previous, fm_entries = fst i, fm_inventory = fst (snd i),
      fm_total_size = snd (snd i), fm_created_at = now, fm_synced_at = None, fm_verified_at = None, fm_cutover_at = None,
      fm_delete_started_at = None, fm_deleted_at = None, fm_status = PLANNED, fm_source_deleted = False, fm_last_error = None\<rparr>"

definition plan_migration :: "store_lib \<Rightarrow> filestore_context \<Rightarrow> string \<Rightarrow> FilestoreMigrationManifest fs" where
  "plan_migration L C environment =
     eff_bind (eff_lift (find_backend C environment)) (\<lambda>(env, b).
     eff_bind (eff_check (fb_type b \<in> {OBJECT_MIRROR, POSIX_OBJECT_MOUNT, ODOO_MODULE})
       (storage_error (''filestore backend '' @ backend_text (fb_type b) @ '' has no migration target''))) (\<lambda>_.
     eff_bind (token_hex L) (\<lambda>t.
     let ident = environment @ ''_filestore_'' @ t in
     eff_bind (eff_lift (target_location L C environment b ident)) (\<lambda>target.
     eff_bind (eff_read fx_root) (\<lambda>r.
     eff_bind (eff_check (\<not> (fb_type b = POSIX_OBJECT_MOUNT \<and>
         real_path r (location_path C (snd (source_description C env b))) = real_path r (location_path C target)))
       (storage_error ''POSIX object-mount migration source and target must differ'')) (\<lambda>_.
     eff_bind (if object_backend b
         then eff_bind (eff_lift (object_adapter_for L C environment b)) (\<lambda>A.
           eff_bind (read_active L A) (\<lambda>g. eff_return (map_option ag_ident g)))
         else eff_return None) (\<lambda>previous.
     eff_bind (materialized_source C env b) (\<lambda>src.
     eff_bind (eff_lift (scan_filestore L (fst src) (snd src))) (\<lambda>i.
     eff_bind (now_utc L) (\<lambda>now.
     eff_bind (validated_update L (new_manifest C environment env b ident target previous i now)) (\<lambda>m.
     eff_bind (save_filestore_migration L m) (\<lambda>_. eff_return m))))))))))))"

section \<open>The steps of a migration\<close>

definition belongs_elsewhere :: fs_error where
  "belongs_elsewhere = storage_error ''filestore migration does not belong to this project/environment/backend''"

definition configuration_changed :: fs_error where
  "configuration_changed = storage_error ''filestore source or target configuration changed after planning; create a new migration plan''"

definition owned_migration ::
  "store_lib \<Rightarrow> filestore_context \<Rightarrow> string \<Rightarrow> string \<Rightarrow> (FilestoreMigrationManifest \<times> filestore_env \<times> filestore_backend) fs" where
  "owned_migration L C environment ident =
     eff_bind (eff_lift (find_backend C environment)) (\<lambda>(env, b).
     eff_bind (eff_read (\<lambda>w. get_filestore_migration L w ident)) (\<lambda>r.
     eff_bind (eff_lift r) (\<lambda>m.
     eff_bind (eff_check (fm_project m = sc_project C \<and> fm_environment m = environment \<and> fm_target_backend m = fb_type b)
       belongs_elsewhere) (\<lambda>_.
     eff_bind (eff_lift (target_location L C environment b ident)) (\<lambda>target.
     eff_bind (eff_check ((fm_source_backend m, fm_source_location m) = source_description C env b \<and>
         fm_target_location m = target \<and> fm_module_name m = fb_module_name b) configuration_changed) (\<lambda>_.
     eff_return (m, env, b)))))))"

text \<open>\<open>value or now_utc()\<close>.\<close>

definition or_now :: "store_lib \<Rightarrow> string option \<Rightarrow> string fs" where
  "or_now L v = (if given v then eff_return (the v) else now_utc L)"

definition save_validated :: "store_lib \<Rightarrow> FilestoreMigrationManifest \<Rightarrow> FilestoreMigrationManifest fs" where
  "save_validated L m = eff_bind (validated_update L m) (\<lambda>m'. eff_bind (save_filestore_migration L m') (\<lambda>_. eff_return m'))"

definition transfer ::
  "store_lib \<Rightarrow> filestore_context \<Rightarrow> string \<Rightarrow> filestore_backend \<Rightarrow> node \<times> path \<Rightarrow> FilestoreMigrationManifest \<Rightarrow> unit fs" where
  "transfer L C environment b src m =
     (if object_backend b
      then eff_bind (eff_lift (object_adapter_for L C environment b)) (\<lambda>A.
        eff_bind (upload_inventory L A (fst src) (snd src) m) (\<lambda>_. eff_return ()))
      else if fb_type b = POSIX_OBJECT_MOUNT then copy_inventory L src (location_path C (fm_target_location m)) m
      else eff_raise (storage_error ''unsupported filestore target''))"

definition sync_migration ::
  "store_lib \<Rightarrow> filestore_context \<Rightarrow> string \<Rightarrow> string \<Rightarrow> FilestoreMigrationManifest fs" where
  "sync_migration L C environment ident =
     eff_bind (owned_migration L C environment ident) (\<lambda>(m, env, b).
     eff_bind (eff_check (fm_status m \<in> {PLANNED, FAILED_SYNC, SYNCED})
       (storage_error (''migration cannot sync from status '' @ quoted (migration_status_text (fm_status m))))) (\<lambda>_.
     eff_catch_all
       (eff_bind (materialized_source C env b) (\<lambda>src.
        eff_bind (assert_source_matches L src m) (\<lambda>_.
        eff_bind (transfer L C environment b src m) (\<lambda>_.
        eff_bind (or_now L (fm_synced_at m)) (\<lambda>t.
        save_validated L (m\<lparr>fm_status := SYNCED, fm_synced_at := Some t, fm_last_error := None\<rparr>))))))
       (\<lambda>f. eff_bind (save_validated L (m\<lparr>fm_status := FAILED_SYNC, fm_last_error := Some (safe_error C f)\<rparr>))
         (\<lambda>_. eff_fail f))))"

record FilestoreVerifyResult =
  vr_ident :: string
  vr_object_count :: nat
  vr_total_size :: int
  vr_inventory :: string
  vr_verified_at :: string

text \<open>The check of the target against the manifest.\<close>

definition check_target ::
  "store_lib \<Rightarrow> filestore_context \<Rightarrow> string \<Rightarrow> filestore_backend \<Rightarrow> FilestoreMigrationManifest \<Rightarrow> unit fs" where
  "check_target L C environment b m =
     (if object_backend b
      then eff_bind (eff_lift (object_adapter_for L C environment b)) (\<lambda>A.
        eff_bind (verify_inventory L A m) (\<lambda>(n, total).
        eff_check (n = length (fm_entries m) \<and> total = fm_total_size m)
          (storage_error ''remote filestore verification summary changed'')))
      else eff_bind (eff_read fx_root) (\<lambda>r.
        eff_bind (eff_lift (scan_filestore L r (location_path C (fm_target_location m)))) (\<lambda>i.
        eff_check (same_inventory i m) (storage_error ''POSIX object-mount target failed inventory verification''))))"

definition verify_migration ::
  "store_lib \<Rightarrow> filestore_context \<Rightarrow> string \<Rightarrow> string \<Rightarrow> FilestoreVerifyResult fs" where
  "verify_migration L C environment ident =
     eff_bind (owned_migration L C environment ident) (\<lambda>(m, env, b).
     eff_bind (eff_check (fm_status m \<in> {SYNCED, VERIFIED, CUTOVER})
       (storage_error (''migration cannot verify from status '' @ quoted (migration_status_text (fm_status m))))) (\<lambda>_.
     eff_bind (check_target L C environment b m) (\<lambda>_.
     eff_bind (now_utc L) (\<lambda>t.
     eff_bind (if fm_status m = CUTOVER then eff_return m
       else save_validated L (m\<lparr>fm_status := VERIFIED,
         fm_synced_at := (if given (fm_synced_at m) then fm_synced_at m else Some t),
         fm_verified_at := Some t, fm_last_error := None\<rparr>)) (\<lambda>m'.
     eff_return \<lparr>vr_ident = fm_ident m', vr_object_count = length (fm_entries m'), vr_total_size = fm_total_size m',
       vr_inventory = fm_inventory m', vr_verified_at = t\<rparr>)))))"

definition cutover_migration ::
  "store_lib \<Rightarrow> filestore_context \<Rightarrow> string \<Rightarrow> string \<Rightarrow> string \<Rightarrow> bool \<Rightarrow> FilestoreMigrationManifest fs" where
  "cutover_migration L C environment ident confirm_environment confirm_source_retained =
     eff_bind (eff_check (confirm_environment = environment \<and> confirm_source_retained)
       (storage_error ''filestore cutover requires the exact environment and explicit confirmation that the source remains retained'')) (\<lambda>_.
     eff_bind (owned_migration L C environment ident) (\<lambda>(m, env, b).
     if fm_status m = CUTOVER then eff_return m
     else eff_bind (eff_check (fm_status m = VERIFIED) (storage_error ''filestore cutover requires a verified migration'')) (\<lambda>_.
       eff_bind (verify_migration L C environment ident) (\<lambda>_.
       eff_bind (materialized_source C env b) (\<lambda>src.
       eff_bind (assert_source_matches L src m) (\<lambda>_.
       eff_bind (if object_backend b
         then eff_bind (eff_lift (object_adapter_for L C environment b)) (\<lambda>A.
           eff_bind (publish_active L A m (fm_previous m)) (\<lambda>_. eff_return ()))
         else eff_return ()) (\<lambda>_.
       eff_bind (now_utc L) (\<lambda>t.
       save_validated L (m\<lparr>fm_status := CUTOVER, fm_cutover_at := Some t, fm_last_error := None\<rparr>)))))))))"

definition download_migration ::
  "store_lib \<Rightarrow> filestore_context \<Rightarrow> string \<Rightarrow> string \<Rightarrow> string \<Rightarrow> path fs" where
  "download_migration L C environment ident destination =
     eff_bind (owned_migration L C environment ident) (\<lambda>(m, env, b).
     eff_bind (eff_check (fm_status m \<in> {VERIFIED, CUTOVER}) (storage_error ''filestore download requires a verified migration'')) (\<lambda>_.
     let target = resolve_host_path C destination in
     if object_backend b
     then eff_bind (eff_lift (object_adapter_for L C environment b)) (\<lambda>A. download_inventory L A m target)
     else eff_bind (eff_read fx_root) (\<lambda>r.
       eff_bind (copy_inventory L (r, location_path C (fm_target_location m)) target m) (\<lambda>_. eff_return target))))"

section \<open>Deleting the source\<close>

definition host_exists :: "path \<Rightarrow> bool fs" where
  "host_exists p = eff_bind (eff_read fx_root) (\<lambda>r.
     if \<not> lexists r p then eff_return False
     else eff_bind (eff_check (real_dir r p)
       (FsError FsRuntimeError (''Filestore path is not a real directory: '' @ path_text p))) (\<lambda>_. eff_return True))"

text \<open>\<open>test -d\<close> in the container, with \<open>check=False\<close>: a command that fails is no folder.\<close>

definition volume_exists :: "string \<Rightarrow> bool fs" where
  "volume_exists n = eff_catch
     (container (\<lambda>w. (Inr (is_folder (lookup_at (fx_volume w) [n])), w))) (\<lambda>_. eff_return False)"

definition source_exists :: "filestore_context \<Rightarrow> filestore_env \<Rightarrow> filestore_backend \<Rightarrow> bool fs" where
  "source_exists C env b = (case host_source C env b of
     Some p \<Rightarrow> host_exists p | None \<Rightarrow> volume_exists (volume_name env))"

text \<open>\<open>rm -rf\<close> in the container, entry by entry.\<close>

definition remove_in_volume :: "path \<Rightarrow> unit fs" where
  "remove_in_volume q = container (\<lambda>w. (Inr (), w\<lparr>fx_volume := set_at q None (fx_volume w)\<rparr>))"

definition delete_volume :: "string \<Rightarrow> unit fs" where
  "delete_volume n = eff_bind (eff_read fx_volume) (\<lambda>v. case lookup_at v [n] of
     None \<Rightarrow> container (\<lambda>w. (Inr (), w))
   | Some x \<Rightarrow> eff_each remove_in_volume (removals [n] x))"

definition remove_source ::
  "filestore_context \<Rightarrow> filestore_env \<Rightarrow> filestore_backend \<Rightarrow> FilestoreMigrationManifest \<Rightarrow> unit fs" where
  "remove_source C env b m = (case host_source C env b of
     Some p \<Rightarrow>
       eff_bind (eff_read fx_root) (\<lambda>r.
       eff_bind (eff_check (\<not> (fb_type b = POSIX_OBJECT_MOUNT \<and> p = real_path r (location_path C (fm_target_location m))))
         (storage_error ''refusing to delete a source that equals the active target'')) (\<lambda>_. rmtree p))
   | None \<Rightarrow> delete_volume (volume_name env))"

text \<open>
  The first attempt compares the source and records that the deletion has started; a retry
  compares what is still there.
\<close>

definition authorize_removal ::
  "store_lib \<Rightarrow> filestore_context \<Rightarrow> filestore_env \<Rightarrow> filestore_backend \<Rightarrow> FilestoreMigrationManifest \<Rightarrow> bool \<Rightarrow>
   FilestoreMigrationManifest fs" where
  "authorize_removal L C env b m there =
     (if fm_delete_started_at m = None then
        eff_bind (eff_check there (storage_error ''filestore source disappeared before deletion was authorized'')) (\<lambda>_.
        eff_bind (materialized_source C env b) (\<lambda>src.
        eff_bind (assert_source_matches L src m) (\<lambda>_.
        eff_bind (now_utc L) (\<lambda>t.
        save_validated L (m\<lparr>fm_delete_started_at := Some t, fm_last_error := None\<rparr>)))))
      else if there then
        eff_bind (materialized_source C env b) (\<lambda>src.
        eff_bind (assert_source_matches L src m) (\<lambda>_. eff_return m))
      else eff_return m)"

definition delete_source_after_cutover ::
  "store_lib \<Rightarrow> filestore_context \<Rightarrow> string \<Rightarrow> string \<Rightarrow> string \<Rightarrow> string \<Rightarrow> bool \<Rightarrow> FilestoreMigrationManifest fs" where
  "delete_source_after_cutover L C environment ident confirm_environment confirm_migration_id delete_source =
     eff_bind (eff_check (confirm_environment = environment \<and> confirm_migration_id = ident \<and> delete_source)
       (storage_error ''source deletion requires exact environment/migration confirmations and --delete-source'')) (\<lambda>_.
     eff_bind (owned_migration L C environment ident) (\<lambda>(m, env, b).
     eff_bind (eff_check (fb_type b \<noteq> OBJECT_MIRROR)
       (storage_error ''object_mirror is a retained copy, not an Odoo serving backend; its source cannot be deleted'')) (\<lambda>_.
     if fm_source_deleted m then eff_return m
     else eff_bind (eff_check (fm_status m = CUTOVER)
         (storage_error ''filestore source cannot be deleted before explicit cutover'')) (\<lambda>_.
       eff_bind (verify_migration L C environment ident) (\<lambda>_.
       eff_bind (source_exists C env b) (\<lambda>there.
       eff_bind (authorize_removal L C env b m there) (\<lambda>m'.
       eff_bind (remove_source C env b m') (\<lambda>_.
       eff_bind (now_utc L) (\<lambda>t.
       save_validated L (m'\<lparr>fm_source_deleted := True, fm_deleted_at := Some t, fm_last_error := None\<rparr>))))))))))"

definition delete_inactive_remote_marker ::
  "store_lib \<Rightarrow> filestore_context \<Rightarrow> string \<Rightarrow> string \<Rightarrow> string \<Rightarrow> string fs" where
  "delete_inactive_remote_marker L C environment ident confirm_migration_id =
     eff_bind (eff_check (confirm_migration_id = ident)
       (storage_error ''remote marker deletion requires exact migration confirmation'')) (\<lambda>_.
     eff_bind (owned_migration L C environment ident) (\<lambda>(m, env, b).
     eff_bind (eff_check (object_backend b) (storage_error ''POSIX object-mount migrations have no remote marker'')) (\<lambda>_.
     eff_bind (eff_lift (object_adapter_for L C environment b)) (\<lambda>A.
     delete_migration_manifest L A (fm_ident m) True))))"

end
