(* ===== verification/Fs_Scan.thy ===== *)
theory Fs_Scan
  imports Filestore_World
begin

text \<open>
  What an inventory says about a tree.  In a tree whose names are those a file system can
  have (\<open>wf_node\<close>), a scan that succeeds lists exactly the regular files, each under the text
  of its path.  A folder that is copied into itself is never complete: of two nested
  folders, at most an empty one has the inventory of the other (\<open>nested_inventory\<close>).
\<close>

definition name_ok :: "string \<Rightarrow> bool" where
  "name_ok n \<longleftrightarrow> n \<noteq> [] \<and> n \<noteq> ''.'' \<and> n \<noteq> ''..'' \<and> CHR ''/'' \<notin> set n"

fun wf_node :: "node \<Rightarrow> bool" where
  "wf_node (Folder es) \<longleftrightarrow> distinct (map fst es) \<and> (\<forall>(n, x) \<in> set es. name_ok n \<and> wf_node x)"
| "wf_node _ \<longleftrightarrow> True"

lemma dict_get_wf: "distinct (map fst es) \<Longrightarrow> dict_get es n = Some x \<longleftrightarrow> (n, x) \<in> set es"
  by (simp add: dict_get_def)

lemma wf_node_child: "wf_node (Folder es) \<Longrightarrow> dict_get es n = Some x \<Longrightarrow> name_ok n \<and> wf_node x"
  by (auto simp: dict_get_wf)

lemma wf_lookup: "wf_node n \<Longrightarrow> lookup_at n q = Some x \<Longrightarrow> wf_node x \<and> list_all name_ok q"
proof (induction n q rule: lookup_at.induct)
  case (2 es c cs)
  then obtain m where m: "dict_get es c = Some m" "lookup_at m cs = Some x" by (auto split: option.splits)
  with 2 wf_node_child[OF 2(2) m(1)] show ?case by simp
qed auto

section \<open>Paths and their texts\<close>

lemma split_join: "list_all (\<lambda>w. c \<notin> set w) ws \<Longrightarrow> ws \<noteq> [] \<Longrightarrow> split_on c (join_with [c] ws) = ws"
  by (induction "[c]" ws rule: join_with.induct) (simp_all add: split_on_free split_on_append)

lemma path_parts_join: "list_all name_ok q \<Longrightarrow> path_parts (join_with ''/'' q) = q"
proof (cases "q = []")
  case False
  assume q: "list_all name_ok q"
  then have "split_on (CHR ''/'') (join_with ''/'' q) = q"
    using False by (intro split_join) (auto simp: list_all_iff name_ok_def)
  with q show ?thesis unfolding path_parts_def by (auto simp: list_all_iff name_ok_def intro: filter_True)
qed (simp add: path_parts_def)

lemma path_parts_posix: "list_all name_ok q \<Longrightarrow> path_parts (posix_text q) = q"
  by (cases "q = []") (simp_all add: posix_text_def path_parts_join, simp add: path_parts_def)

section \<open>What a walk visits\<close>

lemma lookup_leaf [simp]:
  "lookup_at (Regular b) q = (if q = [] then Some (Regular b) else None)"
  "lookup_at (Link t) q = (if q = [] then Some (Link t) else None)"
  "lookup_at Special q = (if q = [] then Some Special else None)"
  by (cases q; simp)+

lemma walk_lookup:
  "wf_node n \<Longrightarrow> (p', es') \<in> set (walk p n) \<longleftrightarrow> (\<exists>q. p' = p @ q \<and> lookup_at n q = Some (Folder es'))"
  and "wf_node (Folder es) \<Longrightarrow> (p', es') \<in> set (walk_entries p es) \<longleftrightarrow>
     (\<exists>c q x. (c, x) \<in> set es \<and> p' = p @ c # q \<and> lookup_at x q = Some (Folder es'))"
proof (induction p n and p es rule: walk_walk_entries.induct)
  case (1 p es)
  have "(\<exists>q. p' = p @ q \<and> lookup_at (Folder es) q = Some (Folder es')) \<longleftrightarrow>
     (p' = p \<and> es' = es) \<or> (\<exists>c q x. (c, x) \<in> set es \<and> p' = p @ c # q \<and> lookup_at x q = Some (Folder es'))"
    (is "?L \<longleftrightarrow> ?R")
  proof
    assume ?L
    then obtain q where q: "p' = p @ q" "lookup_at (Folder es) q = Some (Folder es')" by blast
    show ?R
    proof (cases q)
      case (Cons c q')
      with q obtain x where "dict_get es c = Some x" "lookup_at x q' = Some (Folder es')" by (auto split: option.splits)
      then have "(c, x) \<in> set es" "lookup_at x q' = Some (Folder es')" using 1(2) by (simp_all add: dict_get_wf)
      with q(1) Cons show ?R by blast
    qed (use q in simp)
  next
    assume ?R
    then consider "p' = p" "es' = es" | c q x where "(c, x) \<in> set es" "p' = p @ c # q" "lookup_at x q = Some (Folder es')"
      by blast
    then show ?L
    proof cases
      case 1
      then show ?thesis by (intro exI[of _ "[]"]) simp
    next
      case (2 c q x)
      then have "dict_get es c = Some x" using \<open>wf_node (Folder es)\<close> by (simp add: dict_get_wf)
      with 2 show ?thesis by (intro exI[of _ "c # q"]) simp
    qed
  qed
  with 1 show ?case by auto
next
  case (4 p c x es)
  then show ?case by fastforce
qed auto

lemma lookup_snoc: "lookup_at n (q @ [c]) = Some x \<longleftrightarrow> (\<exists>es. lookup_at n q = Some (Folder es) \<and> dict_get es c = Some x)"
proof (cases "lookup_at n q")
  case (Some m)
  then show ?thesis by (cases m) (auto simp: lookup_append split: option.splits)
qed (simp add: lookup_append)

lemma mapE_Inr: "mapE f xs = Inr ys \<longleftrightarrow> list_all2 (\<lambda>x y. f x = Inr y) xs ys"
proof (induction xs arbitrary: ys)
  case (Cons x xs)
  then show ?case by (auto simp: bindE_eq_Inr_iff list_all2_Cons1)
qed auto

lemma mapE_set: "mapE f xs = Inr ys \<Longrightarrow> y \<in> set ys \<longleftrightarrow> (\<exists>x \<in> set xs. f x = Inr y)"
  unfolding mapE_Inr by (induction rule: list_all2_induct) auto

lemma mapE_ok: "mapE f xs = Inr ys \<Longrightarrow> x \<in> set xs \<Longrightarrow> \<exists>y \<in> set ys. f x = Inr y"
  unfolding mapE_Inr by (induction rule: list_all2_induct) auto

section \<open>What a scan lists\<close>

text \<open>Hexadecimal digests as the standard library prints them.\<close>

definition digest_ok :: "store_lib \<Rightarrow> bool" where
  "digest_ok L \<longleftrightarrow> (\<forall>b. is_sha256 (sl_sha L b))"

lemma lower_hex_lower: "lower_hex c \<Longrightarrow> lower_char c = c"
  by (auto simp: lower_hex_def lower_char_def Let_def)

lemma is_sha256_lower: "is_sha256 h \<Longrightarrow> py_lower h = h"
  by (auto simp: is_sha256_def py_lower_def list_all_iff intro!: map_idI lower_hex_lower)

definition scanned_entry :: "store_lib \<Rightarrow> path \<Rightarrow> string \<Rightarrow> FilestoreObjectEntry" where
  "scanned_entry L q b = \<lparr>fe_path = posix_text q, fe_sha = sl_sha L b, fe_size = int (length b)\<rparr>"

lemma new_entryD: "new_entry L v h n = Inr e \<Longrightarrow> e = \<lparr>fe_path = v, fe_sha = py_lower h, fe_size = n\<rparr>"
  by (auto simp: new_entry_def check_entry_def artifact_path_def sha256_field_def Let_def split: if_splits sum.splits)

lemma scan_fileD:
  "scan_file L source (source @ q) x = Inr e \<Longrightarrow> digest_ok L \<Longrightarrow> \<exists>b. x = Regular b \<and> e = scanned_entry L q b"
  by (auto simp: scan_file_def bindE_eq_Inr_iff safe_relative_path_def hash_regular_file_def scanned_entry_def digest_ok_def
      is_sha256_lower Let_def dest!: new_entryD split: if_splits node.splits)

text \<open>A folder is listed as one; so is a link to a folder.\<close>

lemma listed_folder [simp]: "listed_as_folder r (Folder es)" "\<not> listed_as_folder r (Regular b)" "\<not> listed_as_folder r Special"
  by (simp_all add: listed_as_folder_def)

lemma scan_folderD:
  assumes "scan_folder L r source (source @ q, es) = Inr found" "digest_ok L"
  shows "e \<in> set found \<longleftrightarrow> (\<exists>n b. (n, Regular b) \<in> set es \<and> e = scanned_entry L (q @ [n]) b)"
    and "(n, x) \<in> set es \<Longrightarrow> \<not> is_link (Some x) \<and> x \<noteq> Special"
proof -
  let ?files = "filter (\<lambda>(n, x). \<not> listed_as_folder r x) es"
  from assms(1) have files: "mapE (\<lambda>(n, x). scan_file L source ((source @ q) @ [n]) x) ?files = Inr found"
    and dirs: "\<exists>u. mapE (\<lambda>(n, x). guardE (\<not> is_link (Some x))
        (storage_error (''filestore contains a symbolic-link directory: '' @ path_text ((source @ q) @ [n]))))
       (filter (\<lambda>(n, x). listed_as_folder r x) es) = Inr u"
    by (auto simp: scan_folder_def bindE_eq_Inr_iff)
  have regular: "\<exists>b. x = Regular b \<and> e = scanned_entry L (q @ [n]) b" if "scan_file L source ((source @ q) @ [n]) x = Inr e" for n x e
    using scan_fileD[of L source "q @ [n]" x e] that assms(2) by simp
  show kinds: "\<not> is_link (Some x) \<and> x \<noteq> Special" if "(n, x) \<in> set es" for n x
  proof (cases "listed_as_folder r x")
    case True
    with that dirs show ?thesis by (auto dest!: mapE_ok[where x = "(n, x)"] simp: listed_as_folder_def)
  next
    case False
    with that mapE_ok[OF files, of "(n, x)"] obtain e where "scan_file L source ((source @ q) @ [n]) x = Inr e" by auto
    from regular[OF this] show ?thesis by auto
  qed
  show "e \<in> set found \<longleftrightarrow> (\<exists>n b. (n, Regular b) \<in> set es \<and> e = scanned_entry L (q @ [n]) b)"
  proof
    assume "e \<in> set found"
    with mapE_set[OF files, of e] regular show "\<exists>n b. (n, Regular b) \<in> set es \<and> e = scanned_entry L (q @ [n]) b" by fastforce
  next
    assume "\<exists>n b. (n, Regular b) \<in> set es \<and> e = scanned_entry L (q @ [n]) b"
    then obtain n b where n: "(n, Regular b) \<in> set es" "e = scanned_entry L (q @ [n]) b" by blast
    with mapE_ok[OF files, of "(n, Regular b)"] obtain e' where
      "e' \<in> set found" "scan_file L source ((source @ q) @ [n]) (Regular b) = Inr e'" by auto
    with regular[OF this(2)] n show "e \<in> set found" by auto
  qed
qed

lemma lookup_entry:
  assumes "wf_node n"
  shows "(\<exists>q' es' c. q = q' @ [c] \<and> lookup_at n q' = Some (Folder es') \<and> (c, x) \<in> set es') \<longleftrightarrow>
    q \<noteq> [] \<and> lookup_at n q = Some x"
proof (cases q rule: rev_cases)
  case (snoc q' c)
  have "dict_get es' c = Some x \<longleftrightarrow> (c, x) \<in> set es'" if "lookup_at n q' = Some (Folder es')" for es'
    using wf_lookup[OF assms that] by (simp add: dict_get_wf)
  then show ?thesis by (auto simp: snoc lookup_snoc)
qed simp

lemma scan_visits:
  assumes "wf_node n" "mapE (scan_folder L r src) (walk src n) = Inr found"
  shows "lookup_at n q = Some (Folder es) \<Longrightarrow> \<exists>f \<in> set found. scan_folder L r src (src @ q, es) = Inr f"
    and "f \<in> set found \<Longrightarrow> \<exists>q es. lookup_at n q = Some (Folder es) \<and> scan_folder L r src (src @ q, es) = Inr f"
proof -
  show "\<exists>f \<in> set found. scan_folder L r src (src @ q, es) = Inr f" if "lookup_at n q = Some (Folder es)"
    by (rule mapE_ok[OF assms(2)]) (simp add: walk_lookup(1)[OF assms(1)] that)
next
  assume "f \<in> set found"
  with mapE_set[OF assms(2), of f] obtain v where
    v: "v \<in> set (walk src n)" "scan_folder L r src v = Inr f" by blast
  obtain p' es where "v = (p', es)" by force
  with v walk_lookup(1)[OF assms(1), of p' es src]
  show "\<exists>q es. lookup_at n q = Some (Folder es) \<and> scan_folder L r src (src @ q, es) = Inr f" by auto
qed

lemma scan_entries:
  assumes "wf_node n" "mapE (scan_folder L r src) (walk src n) = Inr found" "digest_ok L"
  shows "e \<in> set (concat found) \<longleftrightarrow> (\<exists>q b. q \<noteq> [] \<and> lookup_at n q = Some (Regular b) \<and> e = scanned_entry L q b)"
    and "q \<noteq> [] \<Longrightarrow> lookup_at n q \<noteq> Some (Link tgt)"
proof -
  show "e \<in> set (concat found) \<longleftrightarrow> (\<exists>q b. q \<noteq> [] \<and> lookup_at n q = Some (Regular b) \<and> e = scanned_entry L q b)"
  proof
    assume "e \<in> set (concat found)"
    then obtain f where f: "f \<in> set found" "e \<in> set f" by auto
    from scan_visits(2)[OF assms(1,2) f(1)] obtain q es where
      q: "lookup_at n q = Some (Folder es)" "scan_folder L r src (src @ q, es) = Inr f" by blast
    from scan_folderD(1)[OF q(2) assms(3)] f(2) obtain c b where
      c: "(c, Regular b) \<in> set es" "e = scanned_entry L (q @ [c]) b" by blast
    from q(1) c(1) have "q @ [c] \<noteq> [] \<and> lookup_at n (q @ [c]) = Some (Regular b)"
      by (subst lookup_entry[OF assms(1), symmetric]) blast
    with c(2) show "\<exists>q b. q \<noteq> [] \<and> lookup_at n q = Some (Regular b) \<and> e = scanned_entry L q b" by blast
  next
    assume "\<exists>q b. q \<noteq> [] \<and> lookup_at n q = Some (Regular b) \<and> e = scanned_entry L q b"
    then obtain q b where q: "q \<noteq> [] \<and> lookup_at n q = Some (Regular b)" "e = scanned_entry L q b" by blast
    from q(1)[folded lookup_entry[OF assms(1)]] obtain q' es c where
      q': "q = q' @ [c]" "lookup_at n q' = Some (Folder es)" "(c, Regular b) \<in> set es" by blast
    from scan_visits(1)[OF assms(1,2) q'(2)] obtain f where
      f: "f \<in> set found" "scan_folder L r src (src @ q', es) = Inr f" by blast
    from scan_folderD(1)[OF f(2) assms(3), of e] q' q(2) have "e \<in> set f" by blast
    with f(1) show "e \<in> set (concat found)" by auto
  qed
next
  assume "q \<noteq> []"
  show "lookup_at n q \<noteq> Some (Link tgt)"
  proof
    assume "lookup_at n q = Some (Link tgt)"
    with \<open>q \<noteq> []\<close> have "q \<noteq> [] \<and> lookup_at n q = Some (Link tgt)" by simp
    from this[folded lookup_entry[OF assms(1)]] obtain q' es c where
      q': "q = q' @ [c]" "lookup_at n q' = Some (Folder es)" "(c, Link tgt) \<in> set es" by blast
    from scan_visits(1)[OF assms(1,2) q'(2)] obtain f where "scan_folder L r src (src @ q', es) = Inr f" by blast
    from scan_folderD(2)[OF this assms(3) q'(3)] show False by simp
  qed
qed

text \<open>The tree below a real folder, and its inventory.\<close>

definition tree_at :: "node \<Rightarrow> path \<Rightarrow> node" where
  "tree_at r p = the (lookup_at r (real_path r p))"

lemma scan_filestoreD:
  assumes "scan_filestore L r p = Inr (es, h, t)" "wf_node r" "digest_ok L"
  shows "e \<in> set es \<longleftrightarrow> (\<exists>q b. q \<noteq> [] \<and> lookup_at (tree_at r p) q = Some (Regular b) \<and> e = scanned_entry L q b)"
    and "real_dir r p" "sorted (map fe_path es)" "h = filestore_inventory_sha256 L es" "t = total_size es"
    and "lookup_at r (real_path r p) = Some (tree_at r p)"
proof -
  from assms(1) show dir: "real_dir r p" by (auto simp: scan_filestore_def bindE_eq_Inr_iff)
  then show tree: "lookup_at r (real_path r p) = Some (tree_at r p)"
    by (auto simp: real_dir_def followed_def is_folder_def tree_at_def)
  from assms(1) obtain found where
    found: "mapE (scan_folder L r (real_path r p)) (walk (real_path r p) (tree_at r p)) = Inr found"
    and es: "es = sort_key fe_path (concat found)" "h = filestore_inventory_sha256 L es" "t = total_size es"
    by (auto simp: scan_filestore_def bindE_eq_Inr_iff tree_at_def Let_def)
  have wf: "wf_node (tree_at r p)" using wf_lookup[OF assms(2) tree] by simp
  show "e \<in> set es \<longleftrightarrow> (\<exists>q b. q \<noteq> [] \<and> lookup_at (tree_at r p) q = Some (Regular b) \<and> e = scanned_entry L q b)"
    using scan_entries(1)[OF wf found assms(3), of e] by (simp only: es set_sort)
  show "h = filestore_inventory_sha256 L es" "t = total_size es" by (fact es)+
  show "sorted (map fe_path es)" by (simp add: es)
qed

section \<open>Two folders with one inventory\<close>

text \<open>The tree holds a file with the digest and the size of every entry.\<close>

definition holds_inventory :: "store_lib \<Rightarrow> node option \<Rightarrow> FilestoreObjectEntry list \<Rightarrow> bool" where
  "holds_inventory L x es \<longleftrightarrow> (\<forall>e \<in> set es. case x of None \<Rightarrow> False | Some n \<Rightarrow>
     (case lookup_at n (path_parts (fe_path e)) of
        Some (Regular b) \<Rightarrow> sl_sha L b = fe_sha e \<and> int (length b) = fe_size e | _ \<Rightarrow> False))"

lemma scan_holds:
  assumes "scan_filestore L r p = Inr (es, h, t)" "wf_node r" "digest_ok L"
  shows "holds_inventory L (lookup_at r (real_path r p)) es"
proof -
  note D = scan_filestoreD[OF assms]
  have "lookup_at (tree_at r p) (path_parts (fe_path e)) = Some (Regular b)" "sl_sha L b = fe_sha e" "int (length b) = fe_size e"
    if "lookup_at (tree_at r p) q = Some (Regular b)" "e = scanned_entry L q b" for e q b
    using that wf_lookup[OF _ that(1)] wf_lookup[OF assms(2) D(6)] by (simp_all add: scanned_entry_def path_parts_posix)
  then show ?thesis unfolding holds_inventory_def D(6) by (auto simp: D(1))
qed

text \<open>Of two folders with the same files, none is inside the other.\<close>

lemma nested_inventory:
  assumes s: "scan_filestore L r p = Inr (es, h, t)" and t: "scan_filestore L r d = Inr (es, h', t')"
    and wf: "wf_node r" "digest_ok L" and ne: "es \<noteq> []" and inside: "real_path r d = real_path r p @ q"
  shows "q = []"
proof (rule ccontr)
  assume q: "q \<noteq> []"
  note S = scan_filestoreD[OF s wf] and T = scan_filestoreD[OF t wf]
  have tree: "lookup_at (tree_at r p) (q @ x) = lookup_at (tree_at r d) x" for x
    using T(6) S(6) by (simp add: inside lookup_append)
  have ok: "list_all name_ok x" if "lookup_at (tree_at r p) x = Some y" for x y
    using wf_lookup[OF _ that] wf_lookup[OF wf(1) S(6)] by simp
  define paths where "paths = {x. \<exists>b. x \<noteq> [] \<and> lookup_at (tree_at r p) x = Some (Regular b)}"
  have paths: "posix_text ` paths = fe_path ` set es"
    unfolding paths_def by (force simp: S(1) scanned_entry_def image_iff)
  have inj: "inj_on posix_text paths" by (rule inj_on_inverseI[where g = path_parts]) (auto simp: paths_def path_parts_posix dest!: ok)
  have fin: "finite paths" by (rule finite_imageD[OF _ inj]) (simp add: paths)
  have deeper: "q @ x \<in> paths" if "x \<in> paths" for x
  proof -
    from that have "posix_text x \<in> fe_path ` set es" using paths by blast
    then obtain e where e: "e \<in> set es" "fe_path e = posix_text x" by auto
    from e(1)[unfolded T(1)] obtain y b where y: "y \<noteq> []" "lookup_at (tree_at r d) y = Some (Regular b)" "e = scanned_entry L y b" by blast
    then have "lookup_at (tree_at r p) (q @ y) = Some (Regular b)" by (simp add: tree)
    moreover from ok[OF this] have "list_all name_ok y" by simp
    moreover have "list_all name_ok x" using that ok by (auto simp: paths_def)
    moreover have "posix_text y = posix_text x" using e(2) y(3) by (simp add: scanned_entry_def)
    ultimately have "y = x" "lookup_at (tree_at r p) (q @ y) = Some (Regular b)" by (metis path_parts_posix)+
    then show ?thesis using y(1) by (auto simp: paths_def)
  qed
  have "paths \<noteq> {}" using paths ne by auto
  then have "Max (length ` paths) \<in> length ` paths" using fin by (intro Max_in) auto
  then obtain x where x: "x \<in> paths" "length x = Max (length ` paths)" by force
  have "length (q @ x) \<le> Max (length ` paths)" using deeper[OF x(1)] fin by (intro Max_ge finite_imageI imageI)
  with x(2) q show False by simp
qed

end
