(* ===== verification/Filestore_Proofs.thy ===== *)
theory Filestore_Proofs
  imports Filestore_Storage Fs_Scan
begin

text \<open>
  What a filestore migration guarantees under every schedule of faults.  Up to the removal of
  the source the steps only look (\<open>observes\<close>), and what they found out decides what the
  removal can reach.
\<close>

section \<open>Looking at the world\<close>

text \<open>The data, and the data with the manifests, are as they were.\<close>

definition same_data :: "fs_world \<Rightarrow> fs_world \<Rightarrow> bool" where
  "same_data w0 w \<longleftrightarrow> fx_root w = fx_root w0 \<and> fx_volume w = fx_volume w0 \<and> fx_bucket w = fx_bucket w0"

definition unchanged :: "fs_world \<Rightarrow> fs_world \<Rightarrow> bool" where
  "unchanged w0 w \<longleftrightarrow> same_data w0 w \<and> fx_migrations w = fx_migrations w0"

lemma unchanged_refl [simp]: "unchanged w w" "same_data w w"
  by (simp_all add: unchanged_def same_data_def)

lemma unchanged_reads:
  "unchanged w0 w \<Longrightarrow> fx_root w = fx_root w0" "unchanged w0 w \<Longrightarrow> fx_volume w = fx_volume w0"
  "unchanged w0 w \<Longrightarrow> fx_bucket w = fx_bucket w0" "unchanged w0 w \<Longrightarrow> fx_migrations w = fx_migrations w0"
  by (simp_all add: unchanged_def same_data_def)

lemma get_migration_reads:
  "fx_migrations w = fx_migrations w0 \<Longrightarrow> get_filestore_migration L w i = get_filestore_migration L w0 i"
  "fx_migrations w = fx_migrations w0 \<Longrightarrow> load_migration L w i t = load_migration L w0 i t"
  by (simp_all add: get_filestore_migration_def load_migration_def cong: if_cong)

text \<open>The fields the schedule and the clock live in.\<close>

definition clockless :: "(fs_world \<Rightarrow> bool) \<Rightarrow> bool" where
  "clockless I \<longleftrightarrow> (\<forall>w t fs. I w \<longrightarrow> I (w\<lparr>fx_tick := t, fx_fates := fs\<rparr>))"

lemma clockless_unchanged [simp]: "clockless (unchanged w0)" "clockless (same_data w0)"
  by (simp_all add: clockless_def unchanged_def same_data_def)

lemma clockless_fate: "clockless I \<Longrightarrow> I w \<Longrightarrow> I (snd (next_fate w))"
  unfolding clockless_def next_fate_def
  by (cases "fx_fates w") (auto dest!: spec[where x = w] spec[where x = "fx_tick w"])

lemma next_fate_fields [simp]:
  "fx_root (snd (next_fate w)) = fx_root w" "fx_volume (snd (next_fate w)) = fx_volume w"
  "fx_bucket (snd (next_fate w)) = fx_bucket w" "fx_migrations (snd (next_fate w)) = fx_migrations w"
  by (simp_all add: next_fate_def split: list.split)

lemma clockless_tick: "clockless I \<Longrightarrow> I w \<Longrightarrow> I (w\<lparr>fx_tick := t\<rparr>)"
  unfolding clockless_def by (drule spec[where x = w], drule spec[where x = t], drule spec[where x = "fx_fates w"]) simp

lemma observes_clock [observe_rules]:
  "clockless I \<Longrightarrow> (\<And>t. q (sl_now L t)) \<Longrightarrow> observes I (now_utc L) q"
  "clockless I \<Longrightarrow> (\<And>t. q (sl_token L t)) \<Longrightarrow> observes I (token_hex L) q"
  by (simp_all add: observes_def eff_spec_def now_utc_def token_hex_def clockless_tick)

lemma observes_or_now [observe_rules]: "clockless I \<Longrightarrow> observes I (or_now L v) (\<lambda>_. True)"
  by (auto simp: or_now_def intro!: observe_rules)

lemma observes_call:
  assumes "clockless I" "\<And>w. I w \<Longrightarrow> (case act w of (Inr x, w') \<Rightarrow> q x \<and> w' = w | (Inl e', w') \<Rightarrow> w' = w)"
  shows "observes I (eff_external next_fate e act) q"
  by (rule observes_external) (use assms in \<open>fastforce simp: clockless_fate split: prod.splits sum.splits\<close>)+

section \<open>Verified reads\<close>

lemma validate_scoped_key_same: "validate_scoped_key A key = Inr k \<Longrightarrow> k = key"
  by (auto simp: validate_scoped_key_def Let_def bindE_eq_Inr_iff join_split_on split: if_splits)

lemma observes_fetch:
  "observes (unchanged w0) (fetch A op k) (\<lambda>x. dict_get (fx_bucket w0) k = Some x)"
  unfolding fetch_def s3_call_def
  by (rule observes_call) (auto simp: unchanged_reads split: option.splits)

lemma observes_probe:
  "observes (unchanged w0) (probe t k) (\<lambda>x. x = dict_has (fx_bucket w0) k)"
  unfolding probe_def s3_call_def by (rule observes_call) (auto simp: unchanged_reads)

definition object_info :: "string \<Rightarrow> s3_object \<Rightarrow> S3ObjectInfo" where
  "object_info k x = \<lparr>si_key = k, si_size = length (so_body x), si_sha = map_option py_lower (so_sha x), si_etag = so_etag x\<rparr>"

lemma observes_head:
  "observes (unchanged w0) (head_object A k) (\<lambda>i. \<exists>x. dict_get (fx_bucket w0) k = Some x \<and> i = object_info k x)"
  unfolding head_object_def
  by (intro observe_rules observes_bind[OF observes_fetch]) (auto simp: object_info_def dest: validate_scoped_key_same)

lemma observes_verify_object:
  "observes (unchanged w0) (verify_object A k sha n) (\<lambda>i. \<exists>x. dict_get (fx_bucket w0) k = Some x \<and> i = object_info k x)"
  unfolding verify_object_def
  by (intro observe_rules observes_bind[OF observes_head]) auto

text \<open>What a verified read returns is stored under the key, with the digest that was asked for.\<close>

lemma observes_verified_read:
  "observes (unchanged w0) (read_verified_object L A k sha n) (\<lambda>(i, body).
     \<exists>x. dict_get (fx_bucket w0) k = Some x \<and> body = so_body x \<and> si_size i = length body \<and> si_key i = k \<and> si_etag i = so_etag x \<and>
       (case sha of None \<Rightarrow> True | Some h \<Rightarrow> sl_sha L body = py_lower h))"
  unfolding read_verified_object_def Let_def
  by (intro observe_rules observes_bind[OF observes_verify_object] observes_bind[OF observes_fetch])
    (elim exE conjE, hypsubst, cases sha, simp_all add: object_info_def)

definition object_held :: "store_lib \<Rightarrow> object_adapter \<Rightarrow> (string, s3_object) dict \<Rightarrow> FilestoreObjectEntry \<Rightarrow> bool" where
  "object_held L A bucket e \<longleftrightarrow> (case object_key A (fe_sha e) of Inl _ \<Rightarrow> False | Inr k \<Rightarrow>
     (case dict_get bucket k of None \<Rightarrow> False
      | Some x \<Rightarrow> sl_sha L (so_body x) = py_lower (fe_sha e) \<and> int (length (so_body x)) = fe_size e))"

lemma observes_verify_content:
  "observes (unchanged w0) (verify_object_content L A k h) (\<lambda>i. \<exists>x. dict_get (fx_bucket w0) k = Some x \<and>
     si_size i = length (so_body x) \<and> sl_sha L (so_body x) = py_lower h)"
  unfolding verify_object_content_def
  by (rule observes_bind[OF observes_verified_read]) (auto intro!: observe_rules)

lemma observes_verify_stored_entry:
  "observes (unchanged w0) (verify_stored_entry L A e) (\<lambda>_. object_held L A (fx_bucket w0) e)"
  unfolding verify_stored_entry_def
  by (intro observe_rules observes_bind[OF observes_verify_content]) (auto simp: object_held_def)

definition marker_held :: "object_adapter \<Rightarrow> (string, s3_object) dict \<Rightarrow> FilestoreMigrationManifest \<Rightarrow> bool" where
  "marker_held A bucket m \<longleftrightarrow> (case migration_manifest_key A (fm_ident m) of Inl _ \<Rightarrow> False
     | Inr k \<Rightarrow> map_option so_body (dict_get bucket k) = Some (canonical_bytes (manifest_document m)))"

lemma observes_verify_inventory:
  "observes (unchanged w0) (verify_inventory L A m) (\<lambda>_. marker_held A (fx_bucket w0) m \<and>
     (\<forall>e \<in> set (fm_entries m). object_held L A (fx_bucket w0) e))"
  unfolding verify_inventory_def
  by (intro observe_rules observes_bind[OF observes_verified_read])
    (auto simp: marker_held_def intro!: observe_rules observes_bind[OF observes_each[OF observes_verify_stored_entry]])

section \<open>Owning, opening and checking\<close>

lemma observes_owned:
  assumes "find_backend C environment = Inr (env, b)" "get_filestore_migration L w0 ident = Inr m"
  shows "observes (unchanged w0) (owned_migration L C environment ident) (\<lambda>x. x = (m, env, b) \<and> fm_target_backend m = fb_type b)"
proof -
  have get: "unchanged w0 w \<Longrightarrow> get_filestore_migration L w ident = Inr m" for w
    using assms(2) get_migration_reads(1)[of w w0 L ident] by (simp add: unchanged_reads)
  show ?thesis unfolding owned_migration_def assms
    by (rule observes_bind_lift, clarsimp, intro observe_rules) (auto simp: get)
qed

text \<open>The source a call opens: the tree and the path it will read.\<close>

definition source_view :: "filestore_context \<Rightarrow> filestore_env \<Rightarrow> filestore_backend \<Rightarrow> fs_world \<Rightarrow> node \<times> path" where
  "source_view C env b w = (case host_source C env b of
     Some p \<Rightarrow> (fx_root w, p)
   | None \<Rightarrow> (Folder [(volume_name env, the (lookup_at (fx_volume w) [volume_name env]))], [volume_name env]))"

lemma observes_open:
  "observes (unchanged w0) (materialized_source C env b) (\<lambda>src. src = source_view C env b w0)"
proof (cases "host_source C env b")
  case None
  have "observes (unchanged w0) (archive_volume n) (\<lambda>x. lookup_at (fx_volume w0) [n] = Some x)" for n
    unfolding archive_volume_def container_def
    by (rule observes_call) (auto simp: unchanged_reads split: option.splits)
  then show ?thesis unfolding materialized_source_def None option.case
    by (rule observes_bind, intro observe_rules) (simp add: source_view_def None del: lookup_at.simps)
next
  case (Some p)
  then show ?thesis unfolding materialized_source_def open_host_source_def
    by (auto simp: source_view_def unchanged_reads intro!: observe_rules)
qed

definition scans_as :: "store_lib \<Rightarrow> node \<times> path \<Rightarrow> FilestoreMigrationManifest \<Rightarrow> bool" where
  "scans_as L src m \<longleftrightarrow> scan_filestore L (fst src) (snd src) = Inr (fm_entries m, fm_inventory m, fm_total_size m)"

lemma observes_source_matches:
  "observes I (assert_source_matches L src m) (\<lambda>_. scans_as L src m)"
  unfolding assert_source_matches_def
  by (intro observe_rules) (auto simp: scans_as_def same_inventory_def)

lemma observes_checked_source:
  "observes (unchanged w0) (eff_bind (materialized_source C env b) (\<lambda>src. eff_bind (assert_source_matches L src m) (k src))) q"
  if "\<And>u. scans_as L (source_view C env b w0) m \<Longrightarrow> observes (unchanged w0) (k (source_view C env b w0) u) q"
  by (rule observes_bind[OF observes_open], hypsubst, rule observes_bind[OF observes_source_matches]) (rule that)

text \<open>The target holds the inventory.\<close>

definition target_holds ::
  "store_lib \<Rightarrow> filestore_context \<Rightarrow> string \<Rightarrow> filestore_backend \<Rightarrow> FilestoreMigrationManifest \<Rightarrow> fs_world \<Rightarrow> bool" where
  "target_holds L C environment b m w \<longleftrightarrow>
     (if object_backend b
      then (case object_adapter_for L C environment b of Inl _ \<Rightarrow> False
        | Inr A \<Rightarrow> marker_held A (fx_bucket w) m \<and> (\<forall>e \<in> set (fm_entries m). object_held L A (fx_bucket w) e))
      else scans_as L (fx_root w, location_path C (fm_target_location m)) m)"

lemma observes_check_target:
  "observes (unchanged w0) (check_target L C environment b m) (\<lambda>_. target_holds L C environment b m w0)"
proof (cases "object_backend b")
  case True
  then show ?thesis unfolding check_target_def if_P[OF True]
    by (intro observe_rules observes_bind[OF observes_verify_inventory])
      (auto simp: target_holds_def split: prod.splits intro!: observe_rules)
next
  case False
  then show ?thesis unfolding check_target_def if_not_P[OF False]
    by (intro observe_rules) (auto simp: target_holds_def scans_as_def same_inventory_def unchanged_reads)
qed

text \<open>Verifying a migration that is cut over changes nothing.\<close>

lemma observes_verify_cutover:
  assumes "find_backend C environment = Inr (env, b)" "get_filestore_migration L w0 ident = Inr m" "fm_status m = CUTOVER"
  shows "observes (unchanged w0) (verify_migration L C environment ident) (\<lambda>_. target_holds L C environment b m w0)"
  unfolding verify_migration_def
  apply (rule observes_bind[OF observes_owned[OF assms(1,2)]])
  apply (clarsimp simp: assms(3))
  apply (intro observe_rules observes_bind[OF observes_check_target] observes_bind[where p = "\<lambda>_. True"])
     apply (auto intro!: observe_rules)
  done

section \<open>Removing the source\<close>

text \<open>The data is somewhere: the source as it was, or a target that holds all of it.\<close>

definition source_intact :: "filestore_context \<Rightarrow> filestore_env \<Rightarrow> filestore_backend \<Rightarrow> fs_world \<Rightarrow> fs_world \<Rightarrow> bool" where
  "source_intact C env b w0 w \<longleftrightarrow> (case host_source C env b of
     Some p \<Rightarrow> lookup_at (fx_root w) (real_path (fx_root w0) p) = lookup_at (fx_root w0) (real_path (fx_root w0) p)
   | None \<Rightarrow> lookup_at (fx_volume w) [volume_name env] = lookup_at (fx_volume w0) [volume_name env])"

text \<open>The place of the target is the one it has before the removal.\<close>

definition target_complete ::
  "store_lib \<Rightarrow> filestore_context \<Rightarrow> string \<Rightarrow> filestore_backend \<Rightarrow> FilestoreMigrationManifest \<Rightarrow> fs_world \<Rightarrow> fs_world \<Rightarrow> bool" where
  "target_complete L C environment b m w0 w \<longleftrightarrow>
     (if object_backend b
      then (case object_adapter_for L C environment b of Inl _ \<Rightarrow> False
        | Inr A \<Rightarrow> \<forall>e \<in> set (fm_entries m). object_held L A (fx_bucket w) e)
      else holds_inventory L (lookup_at (fx_root w) (real_path (fx_root w0) (location_path C (fm_target_location m)))) (fm_entries m))"

lemma target_complete_holds:
  assumes "target_holds L C environment b m w0" "digest_ok L" "wf_node (fx_root w0)"
    and "fx_bucket w = fx_bucket w0"
    and "\<not> object_backend b \<Longrightarrow> lookup_at (fx_root w) (real_path (fx_root w0) (location_path C (fm_target_location m))) =
       lookup_at (fx_root w0) (real_path (fx_root w0) (location_path C (fm_target_location m)))"
  shows "target_complete L C environment b m w0 w"
proof (cases "object_backend b")
  case True
  with assms(1,4) show ?thesis by (auto simp: target_holds_def target_complete_def split: sum.splits)
next
  case False
  with assms(1) have "scan_filestore L (fx_root w0) (location_path C (fm_target_location m)) =
      Inr (fm_entries m, fm_inventory m, fm_total_size m)"
    by (simp add: target_holds_def scans_as_def)
  from scan_holds[OF this assms(3,2)] assms(5)[OF False] False show ?thesis by (simp add: target_complete_def)
qed

text \<open>Away from \<open>p\<close> everything is as it was.\<close>

definition apart_same :: "path \<Rightarrow> fs_world \<Rightarrow> fs_world \<Rightarrow> bool" where
  "apart_same p w0 w \<longleftrightarrow> fx_bucket w = fx_bucket w0 \<and> (\<forall>q. apart p q \<longrightarrow> lookup_at (fx_root w) q = lookup_at (fx_root w0) q)"

lemma clockless_apart [simp]: "clockless (apart_same p w0)" "clockless (\<lambda>w. fx_root w = fx_root w0 \<and> fx_bucket w = fx_bucket w0)"
  by (simp_all add: clockless_def apart_same_def)

lemma apart_same_remove:
  assumes "apart_same p w0 w" "prefix p r"
  shows "apart_same p w0 (w\<lparr>fx_root := set_at r x (fx_root w)\<rparr>)"
proof -
  have "lookup_at (set_at r x (fx_root w)) q = lookup_at (fx_root w0) q" if "apart p q" for q
    using that assms apart_append[OF that] lookup_set_apart by (fastforce simp: apart_same_def prefix_def)
  with assms(1) show ?thesis by (simp add: apart_same_def)
qed

lemma keeps_remove_at: "prefix p r \<Longrightarrow> observes (apart_same p w0) (remove_at r) (\<lambda>_. True)"
  unfolding remove_at_def disk_def
  by (rule observes_external) (auto simp: clockless_fate apart_same_remove split: option.splits node.splits list.splits)

lemma keeps_removals: "observes (apart_same p w0) (eff_each remove_at (removals p x)) (\<lambda>_. True)"
  by (rule observes_mono[OF observes_each[where p = "\<lambda>_. True"]]) (simp_all add: keeps_remove_at removals_below)

text \<open>Saving a manifest leaves the data alone.\<close>

lemma observes_save_data:
  assumes "clockless I" "\<And>w f. I w \<Longrightarrow> I (w\<lparr>fx_migrations := f\<rparr>)"
  shows "observes I (save_filestore_migration L m) (\<lambda>_. True)"
  unfolding save_filestore_migration_def disk_def
  by (intro observe_rules observes_bind[where p = "\<lambda>_. True"] observes_external)
    (auto simp: clockless_fate assms split: option.split intro!: observe_rules)

lemma normalized_fields [simp]:
  "fm_target_location (normalized L m) = fm_target_location m" "fm_ident (normalized L m) = fm_ident m"
  "fm_status (normalized L m) = fm_status m" "fm_source_deleted (normalized L m) = fm_source_deleted m"
  "fm_target_backend (normalized L m) = fm_target_backend m"
  by (simp_all add: normalized_def Let_def)

lemma validate_fields:
  "validate_manifest L m = Inr m' \<Longrightarrow> m' = normalized L m"
  by (auto simp: validate_manifest_def split: if_splits option.splits)

lemma observes_save_validated:
  assumes "clockless I" "\<And>w f. I w \<Longrightarrow> I (w\<lparr>fx_migrations := f\<rparr>)"
  shows "observes I (save_validated L m) (\<lambda>m'. m' = normalized L m)"
  unfolding save_validated_def validated_update_def
  by (intro observe_rules observes_bind[OF observes_save_data[OF assms]])
    (auto dest: validate_fields split: sum.splits)

section \<open>Deletion keeps the files\<close>

text \<open>What a call knows about the source when it starts to remove it.\<close>

definition removal_safe ::
  "store_lib \<Rightarrow> filestore_context \<Rightarrow> filestore_env \<Rightarrow> filestore_backend \<Rightarrow> FilestoreMigrationManifest \<Rightarrow> fs_world \<Rightarrow> bool" where
  "removal_safe L C env b m w \<longleftrightarrow> (\<forall>p. host_source C env b = Some p \<longrightarrow> lexists (fx_root w) p \<longrightarrow> scans_as L (fx_root w, p) m)"

lemma apart_nested: "\<not> prefix p q \<Longrightarrow> \<not> prefix q p \<Longrightarrow> apart p q"
  by (simp add: apart_def)

text \<open>A host folder that is being removed lies apart from a POSIX target.\<close>

lemma source_apart_target:
  assumes "scans_as L (r, p) m" "scans_as L (r, d) m" "wf_node r" "digest_ok L" "fm_entries m \<noteq> []"
    and "real_path r p = p" "p \<noteq> real_path r d"
  shows "apart p (real_path r d)"
proof -
  have p: "scan_filestore L r p = Inr (fm_entries m, fm_inventory m, fm_total_size m)"
    and d: "scan_filestore L r d = Inr (fm_entries m, fm_inventory m, fm_total_size m)"
    using assms(1,2) by (simp_all add: scans_as_def)
  show ?thesis
  proof (rule apart_nested; rule notI)
    assume "prefix p (real_path r d)"
    then obtain q where "real_path r d = real_path r p @ q" by (auto simp: prefix_def assms(6))
    with nested_inventory[OF p d assms(3-5) this] assms(6,7) show False by simp
  next
    assume "prefix (real_path r d) p"
    then obtain q where "real_path r p = real_path r d @ q" by (auto simp: prefix_def assms(6))
    with nested_inventory[OF d p assms(3-5) this] assms(6,7) show False by simp
  qed
qed

text \<open>The removal leaves the source alone or ends with a complete target.\<close>

lemma remove_source_spec:
  assumes holds: "target_holds L C environment b m w0" and safe: "removal_safe L C env b m w0"
    and wf: "digest_ok L" "wf_node (fx_root w0)"
    and real: "\<And>p. host_source C env b = Some p \<Longrightarrow> real_path (fx_root w0) p = p"
    and loc: "fm_target_location m' = fm_target_location m"
    and kind: "object_backend b \<or> fb_type b = POSIX_OBJECT_MOUNT"
  shows "eff_spec (same_data w0) (remove_source C env b m') (\<lambda>_. target_complete L C environment b m w0)
    (\<lambda>_ w. source_intact C env b w0 w \<or> target_complete L C environment b m w0 w)"
proof (cases "host_source C env b")
  case None
  let ?I = "\<lambda>w. fx_root w = fx_root w0 \<and> fx_bucket w = fx_bucket w0"
  have fin: "?I w \<Longrightarrow> target_complete L C environment b m w0 w" for w
    by (rule target_complete_holds[OF holds wf]) simp_all
  have "observes ?I (delete_volume n) (\<lambda>_. True)" for n
    unfolding delete_volume_def remove_in_volume_def container_def
    by (auto simp: clockless_fate intro!: observe_rules observes_mono[OF observes_each[where p = "\<lambda>_. True"]] observes_external
        split: option.splits)
  then show ?thesis
    unfolding remove_source_def None option.case observes_def
    by (rule eff_spec_weaken) (auto simp: same_data_def fin)
next
  case (Some p)
  show ?thesis unfolding remove_source_def Some option.case eff_spec_def
  proof (intro allI impI)
    fix w assume w: "same_data w0 w"
    then have r: "fx_root w = fx_root w0" by (simp add: same_data_def)
    have intact: "source_intact C env b w0 w" by (simp add: source_intact_def Some r)
    let ?d = "location_path C (fm_target_location m)"
    show "case eff_bind (eff_read fx_root) (\<lambda>r. eff_bind (eff_check (\<not> (fb_type b = POSIX_OBJECT_MOUNT \<and>
          p = real_path r (location_path C (fm_target_location m'))))
         (storage_error ''refusing to delete a source that equals the active target'')) (\<lambda>_. rmtree p)) w of
       (Inr x, w') \<Rightarrow> target_complete L C environment b m w0 w'
     | (Inl e, w') \<Rightarrow> source_intact C env b w0 w' \<or> target_complete L C environment b m w0 w'"
    proof (cases "\<exists>es. node_at (fx_root w0) p = Some (Folder es) \<and> \<not> (fb_type b = POSIX_OBJECT_MOUNT \<and> p = real_path (fx_root w0) ?d)")
      case False
      then show ?thesis
        by (auto simp: eff_bind_def eff_read_def eff_check_def eff_raise_def eff_return_def rmtree_def r loc intact
            split: option.splits node.splits)
    next
      case True
      then obtain es where es: "node_at (fx_root w0) p = Some (Folder es)"
        and ne: "fb_type b = POSIX_OBJECT_MOUNT \<Longrightarrow> p \<noteq> real_path (fx_root w0) ?d" by blast
      have "p \<noteq> [] \<Longrightarrow> place (fx_root w0) p = p" using real_place[of p "fx_root w0"] es real[OF Some] by simp
      then have pl: "place (fx_root w0) p = p" by (cases "p = []") (simp_all add: place_def)
      have src: "scans_as L (fx_root w0, p) m" using safe es by (simp add: removal_safe_def Some lexists_def)
      have fin: "target_complete L C environment b m w0 w'" if "apart_same p w0 w'" for w'
      proof (cases "object_backend b")
        case True
        then show ?thesis using that by (intro target_complete_holds[OF holds wf]) (simp_all add: apart_same_def)
      next
        case False
        show ?thesis
        proof (cases "fm_entries m = []")
          case False': False
          from False holds have "scans_as L (fx_root w0, ?d) m" by (simp add: target_holds_def)
          from source_apart_target[OF src this wf(2,1) False' real[OF Some] ne] kind False
          have "apart p (real_path (fx_root w0) ?d)" by simp
          with that show ?thesis by (intro target_complete_holds[OF holds wf]) (simp_all add: apart_same_def)
        qed (simp add: target_complete_def False holds_inventory_def)
      qed
      have start: "apart_same p w0 w" using w by (simp add: apart_same_def same_data_def)
      obtain res w' where out: "eff_each remove_at (removals p (Folder es)) w = (res, w')" by force
      from keeps_removals[of p w0 "Folder es"] start out have "apart_same p w0 w'"
        by (auto simp: observes_def eff_spec_def split: sum.splits simp del: removals.simps)
      moreover have "eff_bind (eff_read fx_root) (\<lambda>r. eff_bind (eff_check (\<not> (fb_type b = POSIX_OBJECT_MOUNT \<and>
          p = real_path r (location_path C (fm_target_location m'))))
         (storage_error ''refusing to delete a source that equals the active target'')) (\<lambda>_. rmtree p)) w = (res, w')"
        using ne by (simp add: eff_bind_def eff_read_def eff_check_def eff_return_def rmtree_def r loc es pl out del: removals.simps)
      ultimately show ?thesis using fin by (cases res) simp_all
    qed
  qed
qed

text \<open>The whole call.\<close>

lemma observes_from: "observes J m q \<Longrightarrow> (\<And>w. I w \<Longrightarrow> J w) \<Longrightarrow> eff_spec I m (\<lambda>x w. J w \<and> q x) (\<lambda>_. J)"
  unfolding observes_def by (erule eff_spec_weaken) auto

lemma observes_source_exists:
  "observes (unchanged w0) (source_exists C env b) (\<lambda>there. \<forall>p. host_source C env b = Some p \<longrightarrow> there = lexists (fx_root w0) p)"
proof (cases "host_source C env b")
  case None
  have "observes (unchanged w0) (volume_exists n) (\<lambda>_. True)" for n
    unfolding volume_exists_def container_def
    by (intro observes_catch observes_call observe_rules) auto
  then show ?thesis by (simp add: source_exists_def None)
next
  case (Some p)
  then show ?thesis unfolding source_exists_def host_exists_def
    by (auto simp: unchanged_reads intro!: observe_rules)
qed

lemma same_data_migrations: "same_data w0 w \<Longrightarrow> same_data w0 (w\<lparr>fx_migrations := f\<rparr>)"
  by (simp add: same_data_def)

lemma authorize_removal_spec:
  assumes "\<And>p. host_source C env b = Some p \<Longrightarrow> there = lexists (fx_root w0) p"
  shows "eff_spec (unchanged w0) (authorize_removal L C env b m there)
    (\<lambda>m' w. same_data w0 w \<and> removal_safe L C env b m w0 \<and> fm_target_location m' = fm_target_location m) (\<lambda>_. same_data w0)"
proof -
  let ?q = "\<lambda>m'. removal_safe L C env b m w0 \<and> fm_target_location m' = fm_target_location m"
  have same: "same_data w0 w" if "unchanged w0 w" for w using that by (simp add: unchanged_def)
  have safe: "removal_safe L C env b m w0" if "scans_as L (source_view C env b w0) m"
    using that by (auto simp: removal_safe_def source_view_def)
  have gone: "removal_safe L C env b m w0" if "\<not> there" using that assms by (simp add: removal_safe_def)
  have saved: "observes (same_data w0) (eff_bind (now_utc L) (\<lambda>t.
      save_validated L (m\<lparr>fm_delete_started_at := Some t, fm_last_error := None\<rparr>)))
      (\<lambda>m'. fm_target_location m' = fm_target_location m)"
    by (intro observes_bind[where p = "\<lambda>_. True"] observe_rules clockless_unchanged TrueI
        observes_mono[OF observes_save_validated[OF clockless_unchanged(2) same_data_migrations]]) simp_all
  have first: "eff_spec (unchanged w0) (eff_bind (materialized_source C env b) (\<lambda>src. eff_bind (assert_source_matches L src m) (\<lambda>_.
      eff_bind (now_utc L) (\<lambda>t. save_validated L (m\<lparr>fm_delete_started_at := Some t, fm_last_error := None\<rparr>)))))
      (\<lambda>m' w. same_data w0 w \<and> ?q m') (\<lambda>_. same_data w0)"
    by (rule eff_spec_observe[OF observes_open], hypsubst, rule eff_spec_observe[OF observes_source_matches])
      (auto intro!: eff_spec_weaken[OF observes_from[OF saved same]] simp: safe same)
  have retry: "observes (unchanged w0) (eff_bind (materialized_source C env b) (\<lambda>src. eff_bind (assert_source_matches L src m)
      (\<lambda>_. eff_return m))) ?q"
    by (rule observes_checked_source) (simp add: observes_return safe)
  show ?thesis unfolding authorize_removal_def
  proof (split if_split, intro conjI impI)
    assume "fm_delete_started_at m = None"
    show "eff_spec (unchanged w0) (eff_bind (eff_check there (storage_error ''filestore source disappeared before deletion was authorized''))
        (\<lambda>_. eff_bind (materialized_source C env b) (\<lambda>src. eff_bind (assert_source_matches L src m) (\<lambda>_.
        eff_bind (now_utc L) (\<lambda>t. save_validated L (m\<lparr>fm_delete_started_at := Some t, fm_last_error := None\<rparr>))))))
      (\<lambda>m' w. same_data w0 w \<and> ?q m') (\<lambda>_. same_data w0)"
      by (rule eff_spec_observe[OF observes_check[where q = "\<lambda>_. True"]]) (simp_all add: first same)
  next
    show "eff_spec (unchanged w0) (if there then eff_bind (materialized_source C env b) (\<lambda>src. eff_bind (assert_source_matches L src m)
      (\<lambda>_. eff_return m)) else eff_return m) (\<lambda>m' w. same_data w0 w \<and> ?q m') (\<lambda>_. same_data w0)"
      using retry gone
      by (cases there) (auto intro!: eff_spec_weaken[OF observes_from[OF retry]] eff_spec_return simp: same)
  qed
qed

lemma deletion_spec:
  assumes cfg: "find_backend C environment = Inr (env, b)" and m: "get_filestore_migration L w0 ident = Inr m"
    and wf: "digest_ok L" "wf_node (fx_root w0)"
    and real: "\<And>p. host_source C env b = Some p \<Longrightarrow> real_path (fx_root w0) p = p"
    and kind: "fm_target_backend m \<in> {OBJECT_MIRROR, POSIX_OBJECT_MOUNT, ODOO_MODULE}"
  shows "eff_spec (unchanged w0) (delete_source_after_cutover L C environment ident ce ci ds)
    (\<lambda>_ w. source_intact C env b w0 w \<or> target_complete L C environment b m w0 w)
    (\<lambda>_ w. source_intact C env b w0 w \<or> target_complete L C environment b m w0 w)"
    (is "eff_spec _ _ (\<lambda>_ w. ?D w) (\<lambda>_ w. ?D w)")
proof -
  let ?T = "target_complete L C environment b m w0"
  have same: "?D w" if "same_data w0 w" for w
    using that by (simp add: source_intact_def same_data_def split: option.split)
  then have I: "?D w" if "unchanged w0 w" for w using that by (simp add: unchanged_def)
  have T: "clockless ?T" "\<And>w f. ?T w \<Longrightarrow> ?T (w\<lparr>fx_migrations := f\<rparr>)"
    by (auto simp: target_complete_def clockless_def split: sum.splits)
  have last: "eff_spec ?T (eff_bind (now_utc L) (\<lambda>t. save_validated L (f t))) (\<lambda>_. ?D) (\<lambda>_. ?D)" for f
  proof -
    have "observes ?T (eff_bind (now_utc L) (\<lambda>t. save_validated L (f t))) (\<lambda>_. True)"
      by (rule observes_bind[where p = "\<lambda>_. True"])
        (auto intro!: observe_rules T(1) observes_mono[OF observes_save_validated[OF T]])
    from observes_from[OF this, of ?T] show ?thesis by (rule eff_spec_weaken) simp_all
  qed
  show ?thesis unfolding delete_source_after_cutover_def
  proof (rule eff_spec_observe[OF observes_check[where q = "\<lambda>_. True"]], simp,
      rule eff_spec_observe[OF observes_owned[OF cfg m]], clarify,
      rule eff_spec_observe[OF observes_check[where q = "\<lambda>_. True"]], simp)
    assume "fm_target_backend m = fb_type b"
    then have k: "object_backend b \<or> fb_type b = POSIX_OBJECT_MOUNT" using kind by (auto simp: object_backend_def)
    show "eff_spec (unchanged w0)
        (if fm_source_deleted m then eff_return m
         else eff_bind (eff_check (fm_status m = CUTOVER) (storage_error ''filestore source cannot be deleted before explicit cutover''))
          (\<lambda>_. eff_bind (verify_migration L C environment ident) (\<lambda>_. eff_bind (source_exists C env b) (\<lambda>there.
           eff_bind (authorize_removal L C env b m there) (\<lambda>m'. eff_bind (remove_source C env b m') (\<lambda>_.
           eff_bind (now_utc L) (\<lambda>t. save_validated L (m'\<lparr>fm_source_deleted := True, fm_deleted_at := Some t, fm_last_error := None\<rparr>))))))))
        (\<lambda>_. ?D) (\<lambda>_. ?D)"
    proof (split if_split, intro conjI impI)
      show "eff_spec (unchanged w0) (eff_return m) (\<lambda>_. ?D) (\<lambda>_. ?D)" by (rule eff_spec_return) (rule I)
    next
      assume "\<not> fm_source_deleted m"
      have remove: "eff_spec (unchanged w0) (eff_bind (authorize_removal L C env b m there) (\<lambda>m'. eff_bind (remove_source C env b m') (\<lambda>_.
           eff_bind (now_utc L) (\<lambda>t. save_validated L (m'\<lparr>fm_source_deleted := True, fm_deleted_at := Some t, fm_last_error := None\<rparr>)))))
        (\<lambda>_. ?D) (\<lambda>_. ?D)"
        if holds: "target_holds L C environment b m w0" and there: "\<forall>p. host_source C env b = Some p \<longrightarrow> there = lexists (fx_root w0) p" for there
      proof -
        from there have "\<And>p. host_source C env b = Some p \<Longrightarrow> there = lexists (fx_root w0) p" by simp
        from authorize_removal_spec[OF this, where L = L and m = m]
        have auth: "eff_spec (unchanged w0) (authorize_removal L C env b m there)
          (\<lambda>m' w. same_data w0 w \<and> removal_safe L C env b m w0 \<and> fm_target_location m' = fm_target_location m) (\<lambda>_. ?D)"
          by (rule eff_spec_weaken) (assumption | rule same)+
        show ?thesis
        proof (rule eff_spec_bind[OF auth])
        fix m'
        show "eff_spec (\<lambda>w. same_data w0 w \<and> removal_safe L C env b m w0 \<and> fm_target_location m' = fm_target_location m)
           (eff_bind (remove_source C env b m') (\<lambda>_. eff_bind (now_utc L) (\<lambda>t.
             save_validated L (m'\<lparr>fm_source_deleted := True, fm_deleted_at := Some t, fm_last_error := None\<rparr>)))) (\<lambda>_. ?D) (\<lambda>_. ?D)"
        proof (cases "removal_safe L C env b m w0 \<and> fm_target_location m' = fm_target_location m")
          case True
          then show ?thesis
            by (intro eff_spec_bind[OF eff_spec_weaken[OF remove_source_spec[OF holds _ wf real _ k]] last]) auto
        next
          case False
          then show ?thesis unfolding eff_spec_def by blast
        qed
        qed
      qed
      show "eff_spec (unchanged w0) (eff_bind (eff_check (fm_status m = CUTOVER) (storage_error ''filestore source cannot be deleted before explicit cutover''))
          (\<lambda>_. eff_bind (verify_migration L C environment ident) (\<lambda>_. eff_bind (source_exists C env b) (\<lambda>there.
           eff_bind (authorize_removal L C env b m there) (\<lambda>m'. eff_bind (remove_source C env b m') (\<lambda>_.
           eff_bind (now_utc L) (\<lambda>t. save_validated L (m'\<lparr>fm_source_deleted := True, fm_deleted_at := Some t, fm_last_error := None\<rparr>))))))))
        (\<lambda>_. ?D) (\<lambda>_. ?D)"
        by (rule eff_spec_observe[OF observes_check[where q = "\<lambda>_. fm_status m = CUTOVER"]], assumption,
            rule eff_spec_observe[OF observes_verify_cutover[OF cfg m]], assumption,
            rule eff_spec_observe[OF observes_source_exists], rule remove) (simp_all add: I)
    qed
  qed (simp_all add: I)
qed

end
