(* ===== verification/Filestore_Lifecycle.thy ===== *)
theory Filestore_Lifecycle
  imports Filestore_Proofs
begin

text \<open>
  The manifests as the only memory of a migration.  The locale \<open>ledger_view\<close> is a condition
  that sees nothing but the stored manifests; every part of the migration code that does not
  save one keeps it.  The condition it is used for is that each manifest only advances:
  its identity never changes and no completed step is undone.
\<close>

locale ledger_view =
  fixes I :: "fs_world \<Rightarrow> bool"
  assumes sees_migrations: "fx_migrations w = fx_migrations w' \<Longrightarrow> I w \<Longrightarrow> I w'"
begin

lemma keeps_call:
  assumes "\<And>w. fx_migrations (snd (act w)) = fx_migrations w"
  shows "keeps I (eff_external next_fate e act)"
  by (rule keeps_external) (use sees_migrations assms in \<open>metis next_fate_fields(4)\<close>)+

lemma keeps_clock: "keeps I (now_utc L)" "keeps I (token_hex L)" "keeps I (or_now L v)"
proof -
  have tick: "fx_migrations (w\<lparr>fx_tick := t\<rparr>) = fx_migrations w" for w t by simp
  then show now: "keeps I (now_utc L)" and "keeps I (token_hex L)"
    using sees_migrations[OF tick[symmetric]]
    by (simp_all add: keeps_def observes_def eff_spec_def now_utc_def token_hex_def)
  then show "keeps I (or_now L v)" by (simp add: or_now_def keep_rules)
qed

lemma keeps_disk:
  "keeps I (add_entry p x)" "keeps I (write_bytes p b)" "keeps I (remove_at p)" "keeps I (move_folder p d)"
  "keeps I (fsync_folder p)" "keeps I (replace_file p d)" "keeps I (unlink_if_there p)"
  unfolding add_entry_def write_bytes_def remove_at_def move_folder_def fsync_folder_def replace_file_def unlink_if_there_def
    disk_def
  by (rule keeps_call, auto simp: Let_def split: option.splits node.splits list.splits)+

lemma keeps_make_dirs: "keeps I (make_dir p)" "keeps I (make_dirs p)"
  unfolding make_dirs_def make_dir_def by (intro keep_rules keeps_disk)+

lemma keeps_rmtree: "keeps I (rmtree p)" "keeps I (rmtree_ignore_errors p)"
  unfolding rmtree_def rmtree_ignore_errors_def
  by (auto intro!: keep_rules keeps_disk simp del: eff_each.simps split: option.split node.split)

lemma keeps_provider:
  "keeps I (fetch A op k)" "keeps I (probe t k)" "keeps I (put_object L A k b c)"
  unfolding fetch_def probe_def put_object_def s3_call_def
  by (rule keeps_call, simp split: option.split)+

lemma keeps_verify:
  "keeps I (head_object A k)" "keeps I (verify_object A k sha n)" "keeps I (read_verified_object L A k sha n)"
  "keeps I (verify_object_content L A k h)" "keeps I (verify_stored_entry L A e)" "keeps I (verify_inventory L A m)"
proof -
  show head: "keeps I (head_object A k)" for k unfolding head_object_def by (intro keep_rules keeps_provider)
  then show obj: "keeps I (verify_object A k sha n)" for k sha n unfolding verify_object_def by (intro keep_rules)
  then show read: "keeps I (read_verified_object L A k sha n)" for k sha n
    unfolding read_verified_object_def Let_def by (intro keep_rules keeps_provider)
  show content: "keeps I (verify_object_content L A k h)" for k h
    unfolding verify_object_content_def by (auto intro!: keep_rules read split: prod.split)
  then show entry: "keeps I (verify_stored_entry L A e)" for e unfolding verify_stored_entry_def by (intro keep_rules)
  show "keeps I (verify_inventory L A m)"
    unfolding verify_inventory_def by (auto intro!: keep_rules read entry split: prod.split)
qed

lemma keeps_upload: "keeps I (upload_inventory L A r root m)"
proof -
  have exists: "keeps I (object_exists A k)" for k unfolding object_exists_def by (intro keep_rules keeps_provider)
  have put: "keeps I (put_immutable_document L A k b)" for k b
    unfolding put_immutable_document_def by (auto intro!: keep_rules keeps_provider keeps_verify split: prod.split)
  have object: "keeps I (upload_object L A b k)" for b k
    unfolding upload_object_def by (intro keep_rules keeps_provider keeps_verify)
  have entry: "keeps I (upload_entry L A r root c e)" for c e
    unfolding upload_entry_def by (auto intro!: keep_rules exists object keeps_verify split: option.split)
  have "keeps I (upload_entries L A r root c es)" for c es
    by (induction es arbitrary: c) (auto intro!: keep_rules entry)
  then show ?thesis unfolding upload_inventory_def by (intro keep_rules put keeps_verify)
qed

lemma keeps_active:
  "keeps I (read_active L A)" "keeps I (publish_active L A m x)" "keeps I (delete_migration_manifest L A i c)"
proof -
  show active: "keeps I (read_active L A)"
    unfolding read_active_def by (auto intro!: keep_rules keeps_provider keeps_verify split: sum.split prod.split)
  then show "keeps I (publish_active L A m x)"
    unfolding publish_active_def by (auto intro!: keep_rules keeps_provider keeps_verify)
  have "keeps I (s3_call e (\<lambda>w. (Inr (), w\<lparr>fx_bucket := f w\<rparr>)))" for e f
    unfolding s3_call_def by (rule keeps_call) simp
  with active show "keeps I (delete_migration_manifest L A i c)"
    unfolding delete_migration_manifest_def by (intro keep_rules)
qed

lemma keeps_download: "keeps I (download_inventory L A m d)"
proof -
  have object: "keeps I (download_object L A k p sha)" for k p sha
    unfolding download_object_def Let_def
    by (intro keep_rules keeps_verify keeps_disk keeps_make_dirs keeps_clock keeps_provider)
  then have "keeps I (download_entry L A base e)" for base e
    unfolding download_entry_def Let_def by (intro keep_rules keeps_make_dirs)
  then show ?thesis unfolding download_inventory_def Let_def
    by (intro keep_rules keeps_verify keeps_disk keeps_make_dirs keeps_rmtree)
qed

lemma keeps_copy: "keeps I (copy_inventory L src d m)"
proof -
  have "keeps I (copy_entry L src base e)" for base e
    unfolding copy_entry_def Let_def
    by (auto intro!: keep_rules keeps_disk keeps_make_dirs split: option.split node.split)
  then show ?thesis unfolding copy_inventory_def fill_partial_def Let_def
    by (intro keep_rules keeps_disk keeps_make_dirs keeps_rmtree)
qed

lemma keeps_source: "keeps I (materialized_source C env b)" "keeps I (assert_source_matches L src m)"
  "keeps I (source_exists C env b)" "keeps I (remove_source C env b m)"
proof -
  have archive: "keeps I (archive_volume n)" for n
    unfolding archive_volume_def container_def by (rule keeps_call) (simp split: option.split)
  show "keeps I (materialized_source C env b)"
    unfolding materialized_source_def open_host_source_def by (auto intro!: keep_rules archive split: option.split)
  show "keeps I (assert_source_matches L src m)" unfolding assert_source_matches_def by (intro keep_rules)
  have "keeps I (container (\<lambda>w. (Inr (g w), w)))" for g :: "fs_world \<Rightarrow> bool"
    unfolding container_def by (rule keeps_call) simp
  then show "keeps I (source_exists C env b)"
    unfolding source_exists_def host_exists_def volume_exists_def by (auto intro!: keep_rules split: option.split)
  have rm: "keeps I (remove_in_volume q)" for q
    unfolding remove_in_volume_def container_def by (rule keeps_call) simp
  have "keeps I (container (\<lambda>w. (Inr (), w)))"
    unfolding container_def by (rule keeps_call) simp
  with rm have "keeps I (case x of None \<Rightarrow> container (\<lambda>w. (Inr (), w)) | Some x \<Rightarrow> eff_each remove_in_volume (removals [n] x))" for x n
    by (cases x) (auto intro: keep_rules)
  then show "keeps I (remove_source C env b m)"
    unfolding remove_source_def delete_volume_def
    by (auto intro!: keep_rules keeps_rmtree split: option.split)
qed

lemma keeps_transfer: "keeps I (transfer L C environment b src m)" "keeps I (check_target L C environment b m)"
  "keeps I (owned_migration L C environment i)"
  unfolding transfer_def check_target_def owned_migration_def
  by (auto intro!: keep_rules keeps_upload keeps_copy keeps_verify split: prod.split)

end

section \<open>Advancing\<close>

text \<open>The identity a manifest keeps, and the order of what happens to it.\<close>

definition identity_of :: "FilestoreMigrationManifest \<Rightarrow> _" where
  "identity_of m = (fm_ident m, fm_project m, fm_environment m, fm_source_backend m, fm_target_backend m,
     fm_source_location m, fm_target_location m, fm_module_name m, py_lower (fm_inventory m), fm_previous m)"

definition later :: "FilestoreMigrationManifest \<Rightarrow> FilestoreMigrationManifest \<Rightarrow> bool" where
  "later m m' \<longleftrightarrow> identity_of m' = identity_of m \<and>
     (fm_status m \<noteq> PLANNED \<longrightarrow> fm_status m' \<noteq> PLANNED) \<and>
     (fm_status m = VERIFIED \<longrightarrow> fm_status m' \<in> {VERIFIED, CUTOVER}) \<and>
     (fm_status m = CUTOVER \<longrightarrow> fm_status m' = CUTOVER) \<and>
     (fm_delete_started_at m \<noteq> None \<longrightarrow> fm_delete_started_at m' \<noteq> None) \<and>
     (fm_source_deleted m \<longrightarrow> fm_source_deleted m')"

definition advanced :: "fs_world \<Rightarrow> fs_world \<Rightarrow> bool" where
  "advanced w0 w \<longleftrightarrow> (\<forall>stem m. dict_get (fx_migrations w0) stem = Some (Some m) \<longrightarrow>
     (\<exists>m'. dict_get (fx_migrations w) stem = Some (Some m') \<and> later m m'))"

lemma later_refl [simp]: "later m m"
  by (simp add: later_def)

lemma later_trans: "later m m' \<Longrightarrow> later m' m'' \<Longrightarrow> later m m''"
  by (auto simp: later_def)

lemma advanced_refl [simp]: "advanced w w"
  by (simp add: advanced_def)

lemma advanced_trans: "advanced w w' \<Longrightarrow> advanced w' w'' \<Longrightarrow> advanced w w''"
  unfolding advanced_def by (meson later_trans)

lemma advanced_same: "fx_migrations w = fx_migrations w0 \<Longrightarrow> advanced w0 w"
  by (auto simp: advanced_def)

interpretation advance: ledger_view "advanced w0" for w0
  by unfold_locales (simp add: advanced_def)

lemma lower_idem: "py_lower (py_lower s) = py_lower s"
  by (auto simp: py_lower_def lower_char_def Let_def)

lemma identity_normalized [simp]: "identity_of (normalized L m) = identity_of m"
  by (auto simp: identity_of_def normalized_def accepted_def sha256_field_def Let_def lower_idem split: sum.splits if_splits)

lemma normalized_started [simp]: "fm_delete_started_at (normalized L m) = None \<longleftrightarrow> fm_delete_started_at m = None"
  by (auto simp: normalized_def accepted_def optional_def bindE_def Let_def split: sum.splits option.splits if_splits)

lemma identity_same: "migration_identity m = migration_identity m' \<Longrightarrow> identity_of m = identity_of m'"
  by (simp add: migration_identity_def identity_of_def)

lemma load_migrationD: "load_migration L w stem t = Inr m \<Longrightarrow> \<exists>m0. dict_get (fx_migrations w) stem = Some (Some m0) \<and> m = normalized L m0"
  by (auto simp: load_migration_def dest: validate_fields split: option.splits sum.splits)

text \<open>A manifest may be saved when it is later than the one that was there at the start.\<close>

lemma keeps_save:
  assumes "\<And>m0. dict_get (fx_migrations w0) (fm_ident m) = Some (Some m0) \<Longrightarrow> identity_of m = identity_of m0 \<Longrightarrow> later m0 m"
  shows "keeps (advanced w0) (save_filestore_migration L m)"
  unfolding keeps_def observes_def eff_spec_def
proof (intro allI impI)
  fix w assume w: "advanced w0 w"
  let ?put = "\<lambda>w'. w'\<lparr>fx_migrations := dict_put (fm_ident m) (Some m) (fx_migrations w')\<rparr>"
  have stored: "case disk (\<lambda>w'. (Inr (), ?put w')) w of (Inr x, w') \<Rightarrow> advanced w0 w' \<and> True | (Inl e, w') \<Rightarrow> advanced w0 w'"
    if guard: "\<And>c. dict_get (fx_migrations w) (fm_ident m) = Some (Some c) \<Longrightarrow> identity_of m = identity_of c"
      and there: "dict_get (fx_migrations w) (fm_ident m) \<noteq> Some None"
  proof -
    have put: "advanced w0 (?put w')" if "fx_migrations w' = fx_migrations w" for w'
      unfolding advanced_def
    proof (intro allI impI)
      fix stem m0 assume m0: "dict_get (fx_migrations w0) stem = Some (Some m0)"
      then obtain c where c: "dict_get (fx_migrations w) stem = Some (Some c)" "later m0 c" using w by (auto simp: advanced_def)
      show "\<exists>m'. dict_get (fx_migrations (?put w')) stem = Some (Some m') \<and> later m0 m'"
      proof (cases "stem = fm_ident m")
        case True
        with c guard have "identity_of m = identity_of m0" by (simp add: later_def)
        with assms m0 True show ?thesis by (simp add: dict_get_put)
      next
        case False
        with c that show ?thesis by (simp add: dict_get_put)
      qed
    qed
    obtain f w1 where f: "next_fate w = (f, w1)" by force
    then have same: "fx_migrations w1 = fx_migrations w" using next_fate_fields(4)[of w] by simp
    then have "advanced w0 w1" using w by (simp add: advanced_def)
    with put[OF same] show ?thesis by (auto simp: disk_def eff_external_def f)
  qed
  show "case save_filestore_migration L m w of (Inr x, w') \<Rightarrow> advanced w0 w' \<and> True | (Inl e, w') \<Rightarrow> advanced w0 w'"
  proof (cases "safe_backup_component (fm_ident m) ''migration_id''")
    case (Inl e)
    with w show ?thesis by (simp add: save_filestore_migration_def eff_bind_def eff_lift_def eff_raise_def)
  next
    case (Inr stem)
    then have [simp]: "stem = fm_ident m" by (simp add: safe_backup_component_def split: if_splits)
    show ?thesis
    proof (cases "dict_get (fx_migrations w) (fm_ident m)")
      case None
      with Inr stored show ?thesis
        by (simp add: save_filestore_migration_def eff_bind_def eff_lift_def eff_read_def eff_return_def)
    next
      case (Some c)
      show ?thesis
      proof (cases "load_migration L w (fm_ident m) ''FilestoreMigrationManifest''")
        case (Inl e)
        with Some \<open>safe_backup_component _ _ = _\<close> w show ?thesis
          by (simp add: save_filestore_migration_def eff_bind_def eff_lift_def eff_read_def eff_raise_def eff_return_def)
      next
        case (Inr c')
        from load_migrationD[OF Inr] obtain c0 where c0: "c = Some c0" "c' = normalized L c0" using Some by auto
        show ?thesis
        proof (cases "migration_identity c' = migration_identity m")
          case True
          from identity_same[OF True] c0 have "identity_of m = identity_of c0" by simp
          with Some c0 True Inr \<open>safe_backup_component _ _ = _\<close> stored show ?thesis
            by (simp add: save_filestore_migration_def eff_bind_def eff_lift_def eff_read_def eff_return_def eff_check_def)
        next
          case False
          with Some Inr \<open>safe_backup_component _ _ = _\<close> w show ?thesis
            by (simp add: save_filestore_migration_def eff_bind_def eff_lift_def eff_read_def eff_return_def eff_check_def
                eff_raise_def)
        qed
      qed
    qed
  qed
qed

lemma keeps_save_validated:
  assumes "\<And>m0. dict_get (fx_migrations w0) (fm_ident m) = Some (Some m0) \<Longrightarrow> identity_of m = identity_of m0 \<Longrightarrow>
    later m0 (normalized L m)"
  shows "keeps (advanced w0) (save_validated L m)"
proof -
  have "keeps (advanced w0) (save_filestore_migration L (normalized L m))"
    by (rule keeps_save) (use assms in simp)
  then show ?thesis unfolding save_validated_def validated_update_def keeps_def
    by (intro observes_bind_lift) (auto dest!: validate_fields intro!: observes_bind observe_rules split: sum.splits)
qed

section \<open>The commands\<close>

definition advances :: "'a fs \<Rightarrow> bool" where
  "advances c \<longleftrightarrow> (\<forall>w. advanced w (snd (c w)))"

lemma advancesI: "(\<And>w0. eff_spec (unchanged w0) c (\<lambda>_. advanced w0) (\<lambda>_. advanced w0)) \<Longrightarrow> advances c"
  unfolding advances_def eff_spec_def
proof
  fix w assume "\<And>w0. \<forall>w. unchanged w0 w \<longrightarrow> (case c w of (Inr x, w') \<Rightarrow> advanced w0 w' | (Inl e, w') \<Rightarrow> advanced w0 w')"
  then have "case c w of (Inr x, w') \<Rightarrow> advanced w w' | (Inl e, w') \<Rightarrow> advanced w w'" by simp
  then show "advanced w (snd (c w))" by (cases "c w"; cases "fst (c w)") auto
qed

text \<open>A call inside another one goes on from where it is.\<close>

lemma advances_keeps: "advances c \<Longrightarrow> keeps (advanced w0) c"
  unfolding advances_def keeps_iff using advanced_trans by blast

lemma keeps_advances: "(\<And>w0. keeps (advanced w0) c) \<Longrightarrow> advances c"
  by (simp add: advances_def keeps_iff)

lemma unchanged_advanced: "unchanged w0 w \<Longrightarrow> advanced w0 w"
  by (simp add: advanced_same unchanged_reads)

lemma get_migrationD:
  "get_filestore_migration L w i = Inr m \<Longrightarrow> fm_ident m = i \<and> (\<exists>m0. dict_get (fx_migrations w) i = Some (Some m0) \<and> m = normalized L m0)"
proof -
  assume "get_filestore_migration L w i = Inr m"
  then have "load_migration L w i ''filestore migration manifest'' = Inr m \<and> fm_ident m = i"
    by (auto simp: get_filestore_migration_def bindE_eq_Inr_iff safe_backup_component_def split: if_splits)
  then show ?thesis using load_migrationD by blast
qed

text \<open>A command starts from the manifest it loads.\<close>

lemma from_owned:
  assumes "\<And>m env b m0. dict_get (fx_migrations w0) ident = Some (Some m0) \<Longrightarrow> m = normalized L m0 \<Longrightarrow> fm_ident m = ident \<Longrightarrow>
     keeps (advanced w0) (f (m, env, b))"
  shows "eff_spec (unchanged w0) (eff_bind (owned_migration L C environment ident) f) (\<lambda>_. advanced w0) (\<lambda>_. advanced w0)"
proof -
  have "observes (unchanged w0) (owned_migration L C environment ident) (\<lambda>(m, _). get_filestore_migration L w0 ident = Inr m)"
  proof -
    have get: "unchanged w0 w \<Longrightarrow> get_filestore_migration L w ident = get_filestore_migration L w0 ident" for w
      by (rule get_migration_reads(1)) (simp add: unchanged_reads)
    show ?thesis unfolding owned_migration_def
      by (intro observe_rules, clarify, intro observe_rules) (drule get, simp)
  qed
  then show ?thesis
  proof (rule eff_spec_observe)
    fix x :: "FilestoreMigrationManifest \<times> filestore_env \<times> filestore_backend"
    assume "case x of (m, _) \<Rightarrow> get_filestore_migration L w0 ident = Inr m"
    then obtain m env b where x: "x = (m, env, b)" "get_filestore_migration L w0 ident = Inr m" by (cases x) auto
    from get_migrationD[OF x(2)] assms[of _ m env b] x have "keeps (advanced w0) (f x)" by blast
    then show "eff_spec (unchanged w0) (f x) (\<lambda>_. advanced w0) (\<lambda>_. advanced w0)"
      unfolding keeps_def observes_def by (rule eff_spec_weaken) (auto intro: unchanged_advanced)
  qed (rule unchanged_advanced)
qed

lemma advances_sync: "advances (sync_migration L C environment ident)"
  unfolding sync_migration_def
proof (intro advancesI from_owned, unfold prod.case)
  fix w0 :: fs_world and m env b m0
  assume m: "dict_get (fx_migrations w0) ident = Some (Some m0)" "m = normalized L m0" "fm_ident m = ident"
  show "keeps (advanced w0) (eff_bind (eff_check (fm_status m \<in> {PLANNED, FAILED_SYNC, SYNCED})
       (storage_error (''migration cannot sync from status '' @ quoted (migration_status_text (fm_status m))))) (\<lambda>_.
     eff_catch_all
       (eff_bind (materialized_source C env b) (\<lambda>src.
        eff_bind (assert_source_matches L src m) (\<lambda>_.
        eff_bind (transfer L C environment b src m) (\<lambda>_.
        eff_bind (or_now L (fm_synced_at m)) (\<lambda>t.
        save_validated L (m\<lparr>fm_status := SYNCED, fm_synced_at := Some t, fm_last_error := None\<rparr>))))))
       (\<lambda>f. eff_bind (save_validated L (m\<lparr>fm_status := FAILED_SYNC, fm_last_error := Some (safe_error C f)\<rparr>))
         (\<lambda>_. eff_fail f))))"
  proof (cases "fm_status m \<in> {PLANNED, FAILED_SYNC, SYNCED}")
    case True
    then have "keeps (advanced w0) (save_validated L (m\<lparr>fm_status := SYNCED, fm_synced_at := t, fm_last_error := None\<rparr>))"
      "keeps (advanced w0) (save_validated L (m\<lparr>fm_status := FAILED_SYNC, fm_last_error := e\<rparr>))" for t e
      using m by (auto intro!: keeps_save_validated simp: later_def)
    then show ?thesis
      by (intro keep_rules advance.keeps_source advance.keeps_transfer advance.keeps_clock)
  next
    case False
    then show ?thesis by (simp add: keeps_def observes_def eff_spec_def eff_bind_def eff_check_def eff_raise_def)
  qed
qed

lemma keeps_unless: "(b \<Longrightarrow> keeps I m) \<Longrightarrow> keeps I (eff_bind (eff_check b e) (\<lambda>_. m))"
  by (cases b) (auto simp: keeps_def observes_def eff_spec_def eff_bind_def eff_check_def eff_raise_def eff_return_def)

lemma advances_verify: "advances (verify_migration L C environment ident)"
  unfolding verify_migration_def
proof (intro advancesI from_owned, unfold prod.case)
  fix w0 :: fs_world and m env b m0
  assume m: "dict_get (fx_migrations w0) ident = Some (Some m0)" "m = normalized L m0" "fm_ident m = ident"
  have "keeps (advanced w0) (save_validated L (m\<lparr>fm_status := VERIFIED, fm_synced_at := s, fm_verified_at := t, fm_last_error := None\<rparr>))"
    if "fm_status m \<in> {SYNCED, VERIFIED, CUTOVER}" "fm_status m \<noteq> CUTOVER" for s t
    using m that by (auto intro!: keeps_save_validated simp: later_def)
  then show "keeps (advanced w0) (eff_bind (eff_check (fm_status m \<in> {SYNCED, VERIFIED, CUTOVER})
       (storage_error (''migration cannot verify from status '' @ quoted (migration_status_text (fm_status m))))) (\<lambda>_.
     eff_bind (check_target L C environment b m) (\<lambda>_.
     eff_bind (now_utc L) (\<lambda>t.
     eff_bind (if fm_status m = CUTOVER then eff_return m
       else save_validated L (m\<lparr>fm_status := VERIFIED,
         fm_synced_at := (if given (fm_synced_at m) then fm_synced_at m else Some t),
         fm_verified_at := Some t, fm_last_error := None\<rparr>)) (\<lambda>m'.
     eff_return \<lparr>vr_ident = fm_ident m', vr_object_count = length (fm_entries m'), vr_total_size = fm_total_size m',
       vr_inventory = fm_inventory m', vr_verified_at = t\<rparr>)))))"
    by (intro keeps_unless keep_rules advance.keeps_transfer advance.keeps_clock)
qed

lemma advances_cutover: "advances (cutover_migration L C environment ident ce retained)"
proof (cases "ce = environment \<and> retained")
  case True
  show ?thesis unfolding cutover_migration_def
  proof (intro advancesI eff_spec_observe[OF observes_check[where q = "\<lambda>_. True"]] from_owned TrueI unchanged_advanced,
      unfold prod.case)
    fix w0 :: fs_world and m env b m0
    assume m: "dict_get (fx_migrations w0) ident = Some (Some m0)" "m = normalized L m0" "fm_ident m = ident"
    have "keeps (advanced w0) (save_validated L (m\<lparr>fm_status := CUTOVER, fm_cutover_at := t, fm_last_error := None\<rparr>))" for t
      using m by (auto intro!: keeps_save_validated simp: later_def)
    then show "keeps (advanced w0) (if fm_status m = CUTOVER then eff_return m
     else eff_bind (eff_check (fm_status m = VERIFIED) (storage_error ''filestore cutover requires a verified migration'')) (\<lambda>_.
       eff_bind (verify_migration L C environment ident) (\<lambda>_.
       eff_bind (materialized_source C env b) (\<lambda>src.
       eff_bind (assert_source_matches L src m) (\<lambda>_.
       eff_bind (if object_backend b
         then eff_bind (eff_lift (object_adapter_for L C environment b)) (\<lambda>A.
           eff_bind (publish_active L A m (fm_previous m)) (\<lambda>_. eff_return ()))
         else eff_return ()) (\<lambda>_.
       eff_bind (now_utc L) (\<lambda>t.
       save_validated L (m\<lparr>fm_status := CUTOVER, fm_cutover_at := Some t, fm_last_error := None\<rparr>))))))))"
      by (intro keep_rules advances_keeps[OF advances_verify] advance.keeps_source advance.keeps_active advance.keeps_clock)
  qed
next
  case False
  then show ?thesis
    by (auto simp: advances_def cutover_migration_def eff_bind_def eff_check_def eff_raise_def)
qed

lemma advances_delete: "advances (delete_source_after_cutover L C environment ident ce ci ds)"
  unfolding delete_source_after_cutover_def
proof (intro advancesI eff_spec_observe[OF observes_check[where q = "\<lambda>_. True"]] from_owned TrueI unchanged_advanced,
    unfold prod.case)
  fix w0 :: fs_world and m env b m0
  assume m: "dict_get (fx_migrations w0) ident = Some (Some m0)" "m = normalized L m0" "fm_ident m = ident"
  have start: "keeps (advanced w0) (save_validated L (m\<lparr>fm_delete_started_at := Some t, fm_last_error := None\<rparr>))" for t
    using m by (auto intro!: keeps_save_validated simp: later_def)
  have finish: "keeps (advanced w0) (save_validated L (m'\<lparr>fm_source_deleted := True, fm_deleted_at := t, fm_last_error := None\<rparr>))"
    if "fm_status m = CUTOVER" "fm_status m' = fm_status m" "fm_ident m' = fm_ident m" "\<exists>y. fm_delete_started_at m' = Some y" for t m'
    using m that by (auto intro!: keeps_save_validated simp: later_def)
  have authorized: "observes (advanced w0) (authorize_removal L C env b m there)
      (\<lambda>m'. fm_status m' = fm_status m \<and> fm_ident m' = fm_ident m \<and> (\<exists>y. fm_delete_started_at m' = Some y))" for there
  proof -
    have saved: "observes (advanced w0) (save_validated L (m\<lparr>fm_delete_started_at := Some t, fm_last_error := None\<rparr>))
        (\<lambda>m'. fm_status m' = fm_status m \<and> fm_ident m' = fm_ident m \<and> (\<exists>y. fm_delete_started_at m' = Some y))" for t
    proof -
      have "keeps (advanced w0) (save_filestore_migration L (normalized L (m\<lparr>fm_delete_started_at := Some t, fm_last_error := None\<rparr>)))"
        using m by (auto intro!: keeps_save simp: later_def)
      moreover have "\<exists>y. fm_delete_started_at (normalized L (m\<lparr>fm_delete_started_at := Some t, fm_last_error := None\<rparr>)) = Some y"
        by (subst not_None_eq[symmetric]) simp
      ultimately show ?thesis unfolding save_validated_def validated_update_def keeps_def
        by (intro observes_bind_lift) (auto dest!: validate_fields intro!: observes_bind observe_rules split: sum.splits)
    qed
    note look = advance.keeps_source[of w0, unfolded keeps_def] advance.keeps_clock[of w0, unfolded keeps_def]
    show ?thesis unfolding authorize_removal_def
      by (auto intro!: observes_bind[OF look(1)] observes_bind[OF look(2)] observes_bind[OF look(5)] observe_rules saved)
  qed
  show "keeps (advanced w0) (eff_bind (eff_check (fb_type b \<noteq> OBJECT_MIRROR)
       (storage_error ''object_mirror is a retained copy, not an Odoo serving backend; its source cannot be deleted'')) (\<lambda>_.
     if fm_source_deleted m then eff_return m
     else eff_bind (eff_check (fm_status m = CUTOVER)
         (storage_error ''filestore source cannot be deleted before explicit cutover'')) (\<lambda>_.
       eff_bind (verify_migration L C environment ident) (\<lambda>_.
       eff_bind (source_exists C env b) (\<lambda>there.
       eff_bind (authorize_removal L C env b m there) (\<lambda>m'.
       eff_bind (remove_source C env b m') (\<lambda>_.
       eff_bind (now_utc L) (\<lambda>t.
       save_validated L (m'\<lparr>fm_source_deleted := True, fm_deleted_at := Some t, fm_last_error := None\<rparr>)))))))))"
    by (intro keeps_unless keeps_split keep_rules(2) keeps_bind[OF advances_keeps[OF advances_verify]]
        keeps_bind[OF advance.keeps_source(3)]
        keeps_after[OF authorized] keeps_bind[OF advance.keeps_source(4)] keeps_bind[OF advance.keeps_clock(1)] finish)
      auto
qed

text \<open>A plan writes a manifest under a new identifier.\<close>

definition fresh_tokens :: "store_lib \<Rightarrow> string \<Rightarrow> fs_world \<Rightarrow> bool" where
  "fresh_tokens L environment w \<longleftrightarrow> (\<forall>t. dict_get (fx_migrations w) (environment @ ''_filestore_'' @ sl_token L t) = None)"

lemma advances_plan:
  assumes "fresh_tokens L environment w"
  shows "advanced w (snd (plan_migration L C environment w))"
proof -
  have save: "keeps (advanced w) (save_filestore_migration L m)" if "\<exists>t. fm_ident m = environment @ ''_filestore_'' @ sl_token L t" for m
    using assms that by (auto intro!: keeps_save simp: fresh_tokens_def)
  have token: "observes (advanced w) (token_hex L) (\<lambda>x. \<exists>t. x = sl_token L t)"
    using advance.sees_migrations by (fastforce simp: observes_def eff_spec_def token_hex_def)
  have made: "observes (advanced w) (validated_update L (new_manifest C environment env b ident target previous i now))
      (\<lambda>m. fm_ident m = ident)" for env b ident target previous i now
    unfolding validated_update_def
    by (intro observe_rules) (auto simp: new_manifest_def dest!: validate_fields split: sum.splits)
  have "keeps (advanced w) (plan_migration L C environment)"
    unfolding plan_migration_def Let_def
    apply (intro keep_rules, clarify)
    apply (intro keeps_unless keeps_after[OF token], elim exE, hypsubst)
    apply (rule keeps_after[OF made] advance.keeps_source advance.keeps_active advance.keeps_clock keep_rules | rule save, blast)+
    done
  from keepsD[OF this advanced_refl] show ?thesis .
qed

lemma advances_rest:
  "advances (download_migration L C environment ident d)"
  "advances (delete_inactive_remote_marker L C environment ident ci)"
  unfolding download_migration_def delete_inactive_remote_marker_def Let_def
  by (intro keeps_advances keep_rules advance.keeps_transfer advance.keeps_download advance.keeps_copy advance.keeps_active;
      auto intro!: keep_rules advance.keeps_download advance.keeps_copy advance.keeps_active)+

section \<open>Sequences of commands\<close>

datatype filestore_command =
    Plan string
  | Sync string string
  | Verify string string
  | Cutover string string string bool
  | Download string string string
  | DeleteSource string string string string bool
  | DeleteMarker string string string

fun run_command :: "store_lib \<Rightarrow> filestore_context \<Rightarrow> filestore_command \<Rightarrow> fs_world \<Rightarrow> fs_world" where
  "run_command L C (Plan env) w = snd (plan_migration L C env w)"
| "run_command L C (Sync env i) w = snd (sync_migration L C env i w)"
| "run_command L C (Verify env i) w = snd (verify_migration L C env i w)"
| "run_command L C (Cutover env i ce r) w = snd (cutover_migration L C env i ce r w)"
| "run_command L C (Download env i d) w = snd (download_migration L C env i d w)"
| "run_command L C (DeleteSource env i ce ci ds) w = snd (delete_source_after_cutover L C env i ce ci ds w)"
| "run_command L C (DeleteMarker env i ci) w = snd (delete_inactive_remote_marker L C env i ci w)"

text \<open>
  Any commands under any configuration and any schedule of faults, one after another, while
  others change files, volumes, objects and the clock between them.
\<close>

inductive migration_history :: "store_lib \<Rightarrow> fs_world \<Rightarrow> fs_world \<Rightarrow> bool" for L w where
  Start: "migration_history L w w"
| Command: "migration_history L w w1 \<Longrightarrow> (\<And>env. c = Plan env \<Longrightarrow> fresh_tokens L env w1) \<Longrightarrow>
    migration_history L w (run_command L C c (w1\<lparr>fx_fates := fs\<rparr>))"
| World: "migration_history L w w1 \<Longrightarrow> fx_migrations w2 = fx_migrations w1 \<Longrightarrow> migration_history L w w2"

lemma run_command_advances:
  assumes "\<And>env. c = Plan env \<Longrightarrow> fresh_tokens L env w"
  shows "advanced w (run_command L C c w)"
  using assms advances_plan advances_sync advances_verify advances_cutover advances_delete advances_rest
  by (cases c) (auto simp: advances_def)

lemma history_advances: "migration_history L w w' \<Longrightarrow> advanced w w'"
proof (induction rule: migration_history.induct)
  case (Command w1 c C fs)
  have "advanced (w1\<lparr>fx_fates := fs\<rparr>) (run_command L C c (w1\<lparr>fx_fates := fs\<rparr>))"
    by (rule run_command_advances) (use Command.hyps in \<open>simp add: fresh_tokens_def\<close>)
  moreover have "advanced w1 (w1\<lparr>fx_fates := fs\<rparr>)" by (simp add: advanced_same)
  ultimately show ?case using Command.IH advanced_trans by blast
next
  case (World w1 w2)
  then show ?case using advanced_same advanced_trans by blast
qed simp

end
