(* ===== verification/Filestore_Cutover.thy ===== *)
theory Filestore_Cutover
  imports Filestore_Lifecycle
begin

text \<open>
  What a cutover that returns has established: the source was as planned, the target holds
  the inventory, the manifest on disk says so, and for an object backend the active pointer
  names the migration.
\<close>

lemma eff_spec_pointwise:
  "(\<And>w1. P w1 \<Longrightarrow> eff_spec (unchanged w1) m Q E) \<Longrightarrow> eff_spec P m Q E"
  unfolding eff_spec_def by auto

lemma same_data_trans: "same_data w0 w1 \<Longrightarrow> same_data w1 w2 \<Longrightarrow> same_data w0 w2"
  by (simp add: same_data_def)

lemma same_data_cong:
  assumes "same_data w0 w1"
  shows "target_holds L C environment b m w1 = target_holds L C environment b m w0"
    and "source_view C env b w1 = source_view C env b w0"
  using assms unfolding target_holds_def source_view_def same_data_def by (elim conjE, simp only:)+

section \<open>The active pointer\<close>

lemma object_key_active: "object_key A d = Inr k \<Longrightarrow> active_key A = Inr k' \<Longrightarrow> k \<noteq> k'"
proof -
  assume k: "object_key A d = Inr k" and k': "active_key A = Inr k'"
  have parts: "path_parts ''objects'' = [''objects'']" "path_parts ''active.json'' = [''active.json'']"
    by (simp_all add: path_parts_def)
  from k obtain ps where "k = join_with ''/'' (oa_prefix A # ''objects'' # ps)"
    by (auto simp: object_key_def scoped_key_def bindE_eq_Inr_iff Let_def parts)
  then have "\<exists>t. k = oa_prefix A @ ''/o'' @ t" by (cases ps) auto
  moreover from k' have "k' = oa_prefix A @ ''/active.json''"
    by (auto simp: active_key_def scoped_key_def bindE_eq_Inr_iff Let_def parts)
  ultimately show "k \<noteq> k'" by auto
qed

definition active_is :: "object_adapter \<Rightarrow> (string, s3_object) dict \<Rightarrow> ActiveFilestoreGeneration \<Rightarrow> bool" where
  "active_is A bucket a \<longleftrightarrow> (\<exists>key x i. active_key A = Inr key \<and> dict_get bucket key = Some x \<and>
     decode_active A i (so_body x) = Inr a)"

lemma observes_read_active:
  "observes (unchanged w0) (read_active L A) (\<lambda>g. \<forall>a. g = Some a \<longrightarrow> active_is A (fx_bucket w0) a)"
  unfolding read_active_def
proof (rule observes_bind_lift)
  show "observes (unchanged w0) (case active_key A of
       Inl _ \<Rightarrow> eff_raise (FsError S3ProviderError ''active filestore pointer lookup failed'')
     | Inr key \<Rightarrow>
       eff_bind (probe ''active filestore pointer lookup failed'' key) (\<lambda>there.
       if \<not> there then eff_return None
       else eff_bind (read_verified_object L A key None (Some MAX_ACTIVE_POINTER_BYTES)) (\<lambda>(i, payload).
         eff_bind (eff_lift (decode_active A i payload)) (\<lambda>g. eff_return (Some g)))))
     (\<lambda>g. \<forall>a. g = Some a \<longrightarrow> active_is A (fx_bucket w0) a)"
  proof (cases "active_key A")
    case (Inr key)
    then show ?thesis
      by (auto simp: active_is_def intro!: observes_bind[OF observes_probe] observes_bind[OF observes_verified_read] observe_rules)
        blast
  qed (simp add: observes_raise)
qed

text \<open>Other keys, and everything that is no object, stay as they are.\<close>

definition only_at :: "string \<Rightarrow> fs_world \<Rightarrow> fs_world \<Rightarrow> bool" where
  "only_at key w0 w \<longleftrightarrow> fx_root w = fx_root w0 \<and> fx_volume w = fx_volume w0 \<and> fx_migrations w = fx_migrations w0 \<and>
     (\<forall>k. k \<noteq> key \<longrightarrow> dict_get (fx_bucket w) k = dict_get (fx_bucket w0) k)"

lemma keeps_put: "keeps (only_at key w0) (put_object L A key b c)"
  unfolding put_object_def s3_call_def by (rule keeps_external) (auto simp: only_at_def dict_get_put)

lemma only_at_unchanged: "unchanged w0 w \<Longrightarrow> only_at key w0 w"
  by (simp add: only_at_def unchanged_def same_data_def)

lemma only_at_trans: "only_at key w0 w1 \<Longrightarrow> unchanged w1 w2 \<Longrightarrow> only_at key w0 w2"
  by (simp add: only_at_def unchanged_def same_data_def)

lemma only_at_objects:
  assumes "only_at key w0 w" "active_key A = Inr key" "object_held L A (fx_bucket w0) e"
  shows "object_held L A (fx_bucket w) e"
  using assms object_key_active[OF _ assms(2)]
  by (auto simp: object_held_def only_at_def split: sum.splits option.splits)

definition published :: "object_adapter \<Rightarrow> FilestoreMigrationManifest \<Rightarrow> fs_world \<Rightarrow> bool" where
  "published A m w \<longleftrightarrow> (\<exists>a. active_is A (fx_bucket w) a \<and> points_to (Some a) m)"

lemma publish_spec:
  assumes held: "\<And>e. e \<in> set (fm_entries m) \<Longrightarrow> object_held L A (fx_bucket w0) e"
  shows "eff_spec (unchanged w0) (publish_active L A m expected)
    (\<lambda>_ w. published A m w \<and> (\<exists>key. only_at key w0 w) \<and> (\<forall>e \<in> set (fm_entries m). object_held L A (fx_bucket w) e)) (\<lambda>_ _. True)"
    (is "eff_spec _ _ ?Q ?E")
  unfolding publish_active_def
proof (intro eff_spec_observe[OF observes_lift[where q = "\<lambda>_. True"]] eff_spec_observe[OF observes_mono[OF observes_verify_inventory, where q' = "\<lambda>_. True"]]
    eff_spec_observe[OF observes_read_active] TrueI)
  fix current assume current: "\<forall>a. current = Some a \<longrightarrow> active_is A (fx_bucket w0) a"
  have again: "eff_spec (only_at key w0)
     (eff_bind (eff_catch (read_active L A) (\<lambda>e. eff_raise (if answered then e
           else FsError S3ProviderError ''active filestore pointer publication failed''))) (\<lambda>published.
       if points_to published m then eff_return (the published)
       else eff_raise (if answered
         then FsError S3ProviderError ''active filestore pointer publication returned but did not persist''
         else conflict ''active filestore conditional publication lost a race''))) ?Q ?E"
    if key: "active_key A = Inr key" for answered key
  proof (rule eff_spec_pointwise)
    fix w1 assume w1: "only_at key w0 w1"
    show "eff_spec (unchanged w1)
     (eff_bind (eff_catch (read_active L A) (\<lambda>e. eff_raise (if answered then e
           else FsError S3ProviderError ''active filestore pointer publication failed''))) (\<lambda>published.
       if points_to published m then eff_return (the published)
       else eff_raise (if answered
         then FsError S3ProviderError ''active filestore pointer publication returned but did not persist''
         else conflict ''active filestore conditional publication lost a race''))) ?Q ?E"
    proof (rule eff_spec_observe[OF observes_catch[OF observes_read_active observes_raise]])
      fix g assume g: "\<forall>a. g = Some a \<longrightarrow> active_is A (fx_bucket w1) a"
      have "?Q x w" if "unchanged w1 w" "points_to g m" for x w
        using that g only_at_trans[OF w1 that(1)] only_at_objects[OF only_at_trans[OF w1 that(1)] key held]
        by (auto simp: published_def points_to_def unchanged_reads split: option.splits)
      then show "eff_spec (unchanged w1) (if points_to g m then eff_return (the g)
         else eff_raise (if answered
           then FsError S3ProviderError ''active filestore pointer publication returned but did not persist''
           else conflict ''active filestore conditional publication lost a race'')) ?Q ?E"
        by (simp add: eff_spec_return eff_spec_raise)
    qed simp
  qed
  show "eff_spec (unchanged w0) (if points_to current m then eff_return (the current)
     else eff_bind (eff_check (map_option ag_ident current = expected)
         (conflict ''active filestore generation changed after migration planning'')) (\<lambda>_.
       eff_bind (eff_lift (oa_client A)) (\<lambda>_.
       eff_bind (eff_lift (active_key A)) (\<lambda>key.
       eff_bind (eff_lift (oa_sse A)) (\<lambda>_.
       eff_bind (eff_catch
           (eff_bind (put_object L A key (canonical_bytes (active_document A m))
              (case current of None \<Rightarrow> IfNoneMatch | Some a \<Rightarrow> IfMatch (ag_etag a))) (\<lambda>_. eff_return True))
           (\<lambda>_. eff_return False)) (\<lambda>answered.
       eff_bind (eff_catch (read_active L A) (\<lambda>e. eff_raise (if answered then e
           else FsError S3ProviderError ''active filestore pointer publication failed''))) (\<lambda>published.
       if points_to published m then eff_return (the published)
       else eff_raise (if answered
         then FsError S3ProviderError ''active filestore pointer publication returned but did not persist''
         else conflict ''active filestore conditional publication lost a race'')))))))) ?Q ?E"
  proof (cases "points_to current m")
    case True
    have "?Q x w" if "unchanged w0 w" for x w
      using that True current held only_at_unchanged[OF that]
      by (auto simp: published_def points_to_def unchanged_reads split: option.splits)
    with True show ?thesis by (simp add: eff_spec_return)
  next
    case False
    have put: "eff_spec (unchanged w0) (eff_catch
           (eff_bind (put_object L A key b c) (\<lambda>_. eff_return True)) (\<lambda>_. eff_return False)) (\<lambda>_. only_at key w0) ?E" for key b c
    proof -
      have "keeps (only_at key w0) (eff_catch
           (eff_bind (put_object L A key b c) (\<lambda>_. eff_return True)) (\<lambda>_. eff_return False))"
        by (intro keep_rules keeps_put)
      then show ?thesis unfolding keeps_def observes_def
        by (rule eff_spec_weaken) (auto intro: only_at_unchanged)
    qed
    from False show ?thesis
      by (simp, intro eff_spec_observe[OF observes_check[where q = "\<lambda>_. True"]] TrueI
          eff_spec_observe[OF observes_lift[where r = "oa_client A" and q = "\<lambda>_. True"]]
          eff_spec_observe[OF observes_lift[where r = "active_key A" and q = "\<lambda>k. active_key A = Inr k"]]
          eff_spec_observe[OF observes_lift[where r = "oa_sse A" and q = "\<lambda>_. True"]]
          eff_spec_bind[OF put again])
  qed
qed

section \<open>The cutover\<close>

text \<open>The verification inside a cutover may save a new time of verification; it looks at the data only.\<close>

lemma verify_spec:
  assumes "find_backend C environment = Inr (env, b)" "get_filestore_migration L w0 ident = Inr m"
  shows "eff_spec (unchanged w0) (verify_migration L C environment ident)
    (\<lambda>_ w. same_data w0 w \<and> target_holds L C environment b m w0) (\<lambda>_ _. True)"
proof -
  have rest: "observes (same_data w0) (eff_bind (now_utc L) (\<lambda>t.
     eff_bind (if fm_status m = CUTOVER then eff_return m
       else save_validated L (m\<lparr>fm_status := VERIFIED,
         fm_synced_at := (if given (fm_synced_at m) then fm_synced_at m else Some t),
         fm_verified_at := Some t, fm_last_error := None\<rparr>)) (\<lambda>m'.
     eff_return \<lparr>vr_ident = fm_ident m', vr_object_count = length (fm_entries m'), vr_total_size = fm_total_size m',
       vr_inventory = fm_inventory m', vr_verified_at = t\<rparr>))) (\<lambda>_. True)"
    by (auto intro!: observes_bind[where p = "\<lambda>_. True"] observe_rules
        observes_mono[OF observes_save_validated[OF clockless_unchanged(2) same_data_migrations]])
  show ?thesis unfolding verify_migration_def
    by (rule eff_spec_observe[OF observes_owned[OF assms]], clarify,
        rule eff_spec_observe[OF observes_check[where q = "\<lambda>_. True"]], simp,
        rule eff_spec_observe[OF observes_check_target],
        rule eff_spec_weaken[OF observes_from[where I = "unchanged w0", OF rest]]) (simp_all add: unchanged_def)
qed

definition stored_as :: "fs_world \<Rightarrow> string \<Rightarrow> FilestoreMigrationManifest \<Rightarrow> bool" where
  "stored_as w ident m \<longleftrightarrow> dict_get (fx_migrations w) ident = Some (Some m)"

lemma save_stores:
  assumes "same_data w0 w1"
  shows "eff_spec (unchanged w1) (save_validated L m) (\<lambda>m' w. m' = normalized L m \<and> stored_as w (fm_ident m) m' \<and> same_data w0 w) (\<lambda>_ _. True)"
proof -
  have "eff_spec (same_data w0) (disk (\<lambda>w. (Inr (), w\<lparr>fx_migrations := dict_put k (Some x) (fx_migrations w)\<rparr>)))
     (\<lambda>_ w. stored_as w k x \<and> same_data w0 w) (\<lambda>_ _. True)" for k x
    unfolding disk_def
    by (rule eff_spec_external[where P' = "same_data w0"]) (auto simp: stored_as_def same_data_def dict_get_put)
  note write_rule = this
  have save: "eff_spec (unchanged w1) (save_filestore_migration L x) (\<lambda>_ w. stored_as w (fm_ident x) x \<and> same_data w0 w) (\<lambda>_ _. True)" for x
  proof (cases "safe_backup_component (fm_ident x) ''migration_id''")
    case (Inl e)
    then show ?thesis unfolding save_filestore_migration_def
      by (auto simp: eff_spec_def eff_bind_def eff_lift_def eff_raise_def)
  next
    case (Inr k)
    then have k: "k = fm_ident x" by (simp add: safe_backup_component_def split: if_splits)
    show ?thesis unfolding save_filestore_migration_def Inr
      by (intro eff_spec_observe[OF observes_lift[where q = "\<lambda>s. s = fm_ident x"]] eff_spec_observe[OF observes_read[where q = "\<lambda>_. True"]]
          eff_spec_observe[where p = "\<lambda>_. True"])
        (auto simp: k intro!: observe_rules eff_spec_weaken[OF write_rule] split: option.split
          intro: same_data_trans[OF assms] simp: unchanged_def)
  qed
  show ?thesis unfolding save_validated_def validated_update_def
  proof (rule eff_spec_observe[OF observes_lift[where q = "\<lambda>m'. m' = normalized L m"]])
    fix m' assume m': "m' = normalized L m"
    show "eff_spec (unchanged w1) (eff_bind (save_filestore_migration L m') (\<lambda>_. eff_return m'))
      (\<lambda>m' w. m' = normalized L m \<and> stored_as w (fm_ident m) m' \<and> same_data w0 w) (\<lambda>_ _. True)"
      by (rule eff_spec_bind[OF save]) (auto simp: m' intro!: eff_spec_return)
  qed (auto dest: validate_fields split: sum.splits)
qed

lemma save_stores_published:
  assumes "same_data w1 w"
  shows "published A m w = published A m w1" "object_held L A (fx_bucket w) e = object_held L A (fx_bucket w1) e"
  using assms by (simp_all add: published_def same_data_def)

definition cutover_result ::
  "store_lib \<Rightarrow> filestore_context \<Rightarrow> string \<Rightarrow> filestore_env \<Rightarrow> filestore_backend \<Rightarrow> FilestoreMigrationManifest \<Rightarrow>
   fs_world \<Rightarrow> FilestoreMigrationManifest \<Rightarrow> fs_world \<Rightarrow> bool" where
  "cutover_result L C environment env b m w0 m' w \<longleftrightarrow>
     scans_as L (source_view C env b w0) m \<and> fx_root w = fx_root w0 \<and> fx_volume w = fx_volume w0 \<and>
     fm_status m' = CUTOVER \<and> stored_as w (fm_ident m) m' \<and>
     (if object_backend b
      then (\<exists>A. object_adapter_for L C environment b = Inr A \<and> published A m w \<and>
        (\<forall>e \<in> set (fm_entries m). object_held L A (fx_bucket w) e))
      else scans_as L (fx_root w, location_path C (fm_target_location m)) m)"

lemma cutover_spec:
  assumes cfg: "find_backend C environment = Inr (env, b)" and m: "get_filestore_migration L w0 ident = Inr m"
    and st: "fm_status m \<noteq> CUTOVER"
  shows "eff_spec (unchanged w0) (cutover_migration L C environment ident ce retained)
    (\<lambda>m' w. cutover_result L C environment env b m w0 m' w) (\<lambda>_ _. True)"
    (is "eff_spec _ _ ?Q ?E")
proof -
  have finish: "eff_spec (unchanged w1) (eff_bind (now_utc L) (\<lambda>t.
      save_validated L (m\<lparr>fm_status := CUTOVER, fm_cutover_at := Some t, fm_last_error := None\<rparr>)))
      (\<lambda>m' w. fm_status m' = CUTOVER \<and> stored_as w (fm_ident m) m' \<and> same_data w1 w) ?E" for w1
    by (rule eff_spec_observe[where p = "\<lambda>_. True"])
      (auto intro!: observe_rules eff_spec_weaken[OF save_stores])
  have swap: "eff_spec (unchanged w1) (if object_backend b
         then eff_bind (eff_lift (object_adapter_for L C environment b)) (\<lambda>A.
           eff_bind (publish_active L A m (fm_previous m)) (\<lambda>_. eff_return ()))
         else eff_return ())
      (\<lambda>_ w. fx_root w = fx_root w1 \<and> fx_volume w = fx_volume w1 \<and>
        (object_backend b \<longrightarrow> (\<exists>A. object_adapter_for L C environment b = Inr A \<and> published A m w \<and>
          (\<forall>e \<in> set (fm_entries m). object_held L A (fx_bucket w) e)))) ?E"
    if holds: "target_holds L C environment b m w1" for w1
  proof (cases "object_backend b")
    case True
    with holds obtain A where A: "object_adapter_for L C environment b = Inr A"
      "\<And>e. e \<in> set (fm_entries m) \<Longrightarrow> object_held L A (fx_bucket w1) e"
      by (auto simp: target_holds_def split: sum.splits)
    show ?thesis unfolding if_P[OF True] A(1)
      by (rule eff_spec_observe[OF observes_lift[where q = "\<lambda>x. x = A"]], simp, hypsubst,
          rule eff_spec_bind[OF publish_spec[OF A(2)]], assumption, rule eff_spec_return)
        (auto simp: A(1) only_at_def)
  next
    case False
    then show ?thesis by (auto intro!: eff_spec_return simp: unchanged_reads)
  qed
  have tail: "eff_spec (same_data w0) (eff_bind (materialized_source C env b) (\<lambda>src.
       eff_bind (assert_source_matches L src m) (\<lambda>_.
       eff_bind (if object_backend b
         then eff_bind (eff_lift (object_adapter_for L C environment b)) (\<lambda>A.
           eff_bind (publish_active L A m (fm_previous m)) (\<lambda>_. eff_return ()))
         else eff_return ()) (\<lambda>_.
       eff_bind (now_utc L) (\<lambda>t.
       save_validated L (m\<lparr>fm_status := CUTOVER, fm_cutover_at := Some t, fm_last_error := None\<rparr>)))))) ?Q ?E"
    if holds: "target_holds L C environment b m w0"
  proof (rule eff_spec_pointwise)
    fix w1 assume w1: "same_data w0 w1"
    have h1: "target_holds L C environment b m w1" using holds same_data_cong(1)[OF w1] by simp
    have post: "?Q m' w" if scan: "scans_as L (source_view C env b w1) m"
      and "fx_root w2 = fx_root w1 \<and> fx_volume w2 = fx_volume w1 \<and>
        (object_backend b \<longrightarrow> (\<exists>A. object_adapter_for L C environment b = Inr A \<and> published A m w2 \<and>
          (\<forall>e \<in> set (fm_entries m). object_held L A (fx_bucket w2) e)))"
      and "fm_status m' = CUTOVER \<and> stored_as w (fm_ident m) m' \<and> same_data w2 w" for m' w w2
      using that w1 h1 same_data_cong(2)[OF w1]
      by (auto simp: cutover_result_def same_data_def published_def target_holds_def)
    show "eff_spec (unchanged w1) (eff_bind (materialized_source C env b) (\<lambda>src.
       eff_bind (assert_source_matches L src m) (\<lambda>_.
       eff_bind (if object_backend b
         then eff_bind (eff_lift (object_adapter_for L C environment b)) (\<lambda>A.
           eff_bind (publish_active L A m (fm_previous m)) (\<lambda>_. eff_return ()))
         else eff_return ()) (\<lambda>_.
       eff_bind (now_utc L) (\<lambda>t.
       save_validated L (m\<lparr>fm_status := CUTOVER, fm_cutover_at := Some t, fm_last_error := None\<rparr>)))))) ?Q ?E"
      by (rule eff_spec_observe[OF observes_open], hypsubst, rule eff_spec_observe[OF observes_source_matches],
          rule eff_spec_bind[OF swap[OF h1]], rule eff_spec_pointwise, rule eff_spec_weaken[OF finish])
        (auto intro: post)
  qed
  have tail': "eff_spec (\<lambda>w. same_data w0 w \<and> target_holds L C environment b m w0) (eff_bind (materialized_source C env b) (\<lambda>src.
       eff_bind (assert_source_matches L src m) (\<lambda>_.
       eff_bind (if object_backend b
         then eff_bind (eff_lift (object_adapter_for L C environment b)) (\<lambda>A.
           eff_bind (publish_active L A m (fm_previous m)) (\<lambda>_. eff_return ()))
         else eff_return ()) (\<lambda>_.
       eff_bind (now_utc L) (\<lambda>t.
       save_validated L (m\<lparr>fm_status := CUTOVER, fm_cutover_at := Some t, fm_last_error := None\<rparr>)))))) ?Q ?E"
  proof (cases "target_holds L C environment b m w0")
    case True
    from tail[OF this] show ?thesis by (rule eff_spec_weaken) simp_all
  qed (simp add: eff_spec_def[where P = "\<lambda>_. False"])
  show ?thesis unfolding cutover_migration_def
    by (intro eff_spec_observe[OF observes_check[where q = "\<lambda>_. True"]] eff_spec_observe[OF observes_owned[OF cfg m]] TrueI)
      (elim conjE, simp only: prod.case if_not_P[OF st], intro eff_spec_observe[OF observes_check[where q = "\<lambda>_. True"]] eff_spec_bind[OF verify_spec[OF cfg m] tail'] TrueI)
qed

end
