(* ===== verification/Filestore_Properties.thy ===== *)
theory Filestore_Properties
  imports Filestore_Cutover
begin

text \<open>
  What a filestore migration promises, and where it does not: the files survive every
  interrupted deletion, manifests only advance, a cutover rests on a verified target; but an
  interrupted deletion cannot be finished, and a probe that fails lets a retry delete what it
  did not compare.
\<close>

lemma validated_backend:
  assumes "validate_manifest L m = Inr m'"
  shows "fm_target_backend m' \<in> {OBJECT_MIRROR, POSIX_OBJECT_MOUNT, ODOO_MODULE}"
proof -
  have "manifest_complaints L m = []" using assms by (simp add: validate_manifest_def split: if_splits)
  then have "complaint (literal_field (fm_target_backend m \<in> {OBJECT_MIRROR, POSIX_OBJECT_MOUNT, ODOO_MODULE}) ''a target backend'') = []"
    unfolding manifest_complaints_def append_is_Nil_conv by (elim conjE)
  with validate_fields[OF assms] show ?thesis by (auto simp: literal_field_def guardE_def split: if_splits)
qed

lemma loaded_backend:
  assumes "get_filestore_migration L w i = Inr m"
  shows "fm_target_backend m \<in> {OBJECT_MIRROR, POSIX_OBJECT_MOUNT, ODOO_MODULE}"
proof -
  from assms obtain stem where "load_migration L w stem ''filestore migration manifest'' = Inr m"
    by (auto simp: get_filestore_migration_def bindE_eq_Inr_iff)
  then obtain m0 where "validate_manifest L m0 = Inr m"
    by (auto simp: load_migration_def split: option.splits sum.splits)
  then show ?thesis by (rule validated_backend)
qed

text \<open>A small installation: the source \<open>/s\<close> and the mounted target \<open>/t\<close> hold the same file.\<close>

definition demo_store_lib :: store_lib where
  "demo_store_lib = \<lparr>sl_sha = (\<lambda>_. replicate 64 (CHR ''0'')), sl_etag = (\<lambda>_. ''e''), sl_fromiso = (\<lambda>_. Some (True, ''t'')),
     sl_report = (\<lambda>_. []), sl_now = (\<lambda>_. ''t''), sl_token = (\<lambda>_. ''0'')\<rparr>"

definition demo_backend :: filestore_backend where
  "demo_backend = \<lparr>fb_type = POSIX_OBJECT_MOUNT, fb_object_store = None, fb_mount_path = Some ''/t'', fb_source_path = Some ''/s'',
     fb_module_name = None\<rparr>"

definition demo_filestore_env :: filestore_env where
  "demo_filestore_env = \<lparr>en_path = ''/s'', en_volume = None, en_backend = Some demo_backend\<rparr>"

definition demo_context :: filestore_context where
  "demo_context = \<lparr>sc_project = ''shop'', sc_root = [''srv''], sc_cwd = [], sc_environments = [(''prod'', demo_filestore_env)],
     sc_environ = [], sc_secrets = [], sc_token_file = Inr (), sc_library = Inr (), sc_session = Inr (), sc_detail = []\<rparr>"

definition demo_manifest :: "MigrationStatus \<Rightarrow> string option \<Rightarrow> FilestoreMigrationManifest" where
  "demo_manifest status started = \<lparr>fm_ident = ''m1'', fm_project = ''shop'', fm_environment = ''prod'', fm_source_backend = LOCAL,
     fm_target_backend = POSIX_OBJECT_MOUNT, fm_source_location = ''/s'', fm_target_location = ''/t'', fm_module_name = None,
     fm_previous = None, fm_entries = [\<lparr>fe_path = ''f'', fe_sha = replicate 64 (CHR ''0''), fe_size = 1\<rparr>],
     fm_inventory = replicate 64 (CHR ''0''), fm_total_size = 1, fm_created_at = ''t'', fm_synced_at = Some ''t'',
     fm_verified_at = Some ''t'', fm_cutover_at = (if status = CUTOVER then Some ''t'' else None), fm_delete_started_at = started,
     fm_deleted_at = None, fm_status = status, fm_source_deleted = False, fm_last_error = None\<rparr>"

definition demo_disk :: "MigrationStatus \<Rightarrow> string option \<Rightarrow> (string, node) dict \<Rightarrow> fate list \<Rightarrow> fs_world" where
  "demo_disk status started source fates = \<lparr>fx_root = Folder (source @ [(''t'', Folder [(''f'', Regular ''x'')])]),
     fx_volume = Folder [], fx_bucket = [], fx_migrations = [(''m1'', Some (demo_manifest status started))], fx_tick = 0,
     fx_fates = fates\<rparr>"

lemma demo_sha_ok: "digest_ok demo_store_lib"
  by (simp add: digest_ok_def demo_store_lib_def is_sha256_def lower_hex_def list_all_iff)

lemma demo_fields:
  "is_sha256 (replicate 64 (CHR ''0''))" "utc_timestamp demo_store_lib ''t'' l = Inr ''t''"
  "check_entry \<lparr>fe_path = ''f'', fe_sha = replicate 64 (CHR ''0''), fe_size = 1\<rparr> =
      Inr \<lparr>fe_path = ''f'', fe_sha = replicate 64 (CHR ''0''), fe_size = 1\<rparr>"
proof -
  show hex: "is_sha256 (replicate 64 (CHR ''0''))" using demo_sha_ok by (simp add: digest_ok_def demo_store_lib_def)
  show "utc_timestamp demo_store_lib ''t'' l = Inr ''t''" by (simp add: utc_timestamp_def demo_store_lib_def, code_simp)
  show "check_entry \<lparr>fe_path = ''f'', fe_sha = replicate 64 (CHR ''0''), fe_size = 1\<rparr> =
      Inr \<lparr>fe_path = ''f'', fe_sha = replicate 64 (CHR ''0''), fe_size = 1\<rparr>"
    by (simp add: check_entry_def artifact_path_def starts_with_def control_char_def path_parts_def posix_text_def
        sha256_field_def is_sha256_lower[OF hex] hex)
qed

text \<open>The same manifest for a source on the host and for one in the volume \<open>v\<close>.\<close>

definition demo_volume_manifest :: FilestoreMigrationManifest where
  "demo_volume_manifest = (demo_manifest CUTOVER (Some ''t''))\<lparr>fm_source_backend := DOCKER_VOLUME, fm_source_location := ''volume:v:/s''\<rparr>"

lemmas demo_checks = manifest_complaints_def demo_manifest_def demo_volume_manifest_def safe_component_def starts_with_def
  one_component_def alnum_def name_char_def safe_label_def py_strip_def py_space_def control_char_def literal_field_def
  location_field_def optional_def demo_fields sha256_field_def is_sha256_lower[OF demo_fields(1)] normalized_def lifecycle_complaint_def
  total_size_def filestore_inventory_sha256_def

lemma demo_volume_valid: "validate_manifest demo_store_lib demo_volume_manifest = Inr demo_volume_manifest"
proof -
  have "manifest_complaints demo_store_lib demo_volume_manifest = []" by (simp add: demo_checks)
  moreover have "normalized demo_store_lib demo_volume_manifest = demo_volume_manifest" by (simp add: demo_checks)
  moreover have "lifecycle_complaint demo_store_lib demo_volume_manifest = None" by (simp add: demo_checks demo_store_lib_def)
  ultimately show ?thesis by (simp add: validate_manifest_def)
qed

lemma demo_valid:
  assumes "status = CUTOVER \<or> status = VERIFIED \<and> started = None" "started = None \<or> started = Some ''t''"
  shows "validate_manifest demo_store_lib (demo_manifest status started) = Inr (demo_manifest status started)"
proof -
  have "manifest_complaints demo_store_lib (demo_manifest status started) = []" using assms by (auto simp: demo_checks)
  moreover have "normalized demo_store_lib (demo_manifest status started) = demo_manifest status started"
    using assms by (auto simp: demo_checks)
  moreover have "lifecycle_complaint demo_store_lib (demo_manifest status started) = None"
    using assms by (auto simp: demo_checks demo_store_lib_def)
  ultimately show ?thesis by (simp add: validate_manifest_def)
qed

lemma demo_loads_from:
  assumes "status = CUTOVER \<or> status = VERIFIED \<and> started = None" "started = None \<or> started = Some ''t''"
    and "dict_get (fx_migrations w) ''m1'' = Some (Some (demo_manifest status started))"
  shows "load_migration demo_store_lib w ''m1'' t = Inr (demo_manifest status started)"
    and "get_filestore_migration demo_store_lib w ''m1'' = Inr (demo_manifest status started)"
  using demo_valid[OF assms(1,2)] assms(3)
  by (simp_all add: get_filestore_migration_def load_migration_def safe_backup_component_def name_char_def alnum_def)
    (simp add: demo_manifest_def)

lemma demo_loads:
  assumes "status = CUTOVER \<or> status = VERIFIED \<and> started = None" "started = None \<or> started = Some ''t''"
  shows "get_filestore_migration demo_store_lib (demo_disk status started src fates) ''m1'' = Inr (demo_manifest status started)"
  by (rule demo_loads_from[OF assms]) (simp add: demo_disk_def dict_get_def)

lemma demo_environment: "find_backend demo_context ''prod'' = Inr (demo_filestore_env, demo_backend)"
  "host_source demo_context demo_filestore_env demo_backend = Some [''s'']"
  by code_simp+

lemma demo_owned:
  assumes "status = CUTOVER \<or> status = VERIFIED \<and> started = None" "started = None \<or> started = Some ''t''"
    and "dict_get (fx_migrations w) ''m1'' = Some (Some (demo_manifest status started))"
  shows "owned_migration demo_store_lib demo_context ''prod'' ''m1'' w = (Inr (demo_manifest status started, demo_filestore_env, demo_backend), w)"
proof -
  have "target_location demo_store_lib demo_context ''prod'' demo_backend ''m1'' = Inr ''/t''"
    "source_description demo_context demo_filestore_env demo_backend = (LOCAL, ''/s'')" by code_simp+
  then show ?thesis using demo_loads_from(2)[OF assms]
    by (simp add: owned_migration_def eff_bind_def eff_lift_def eff_return_def eff_read_def eff_check_def demo_environment(1))
      (simp add: demo_manifest_def demo_context_def demo_backend_def)
qed

lemma demo_save:
  assumes "status = CUTOVER \<or> status = VERIFIED \<and> started = None" "started = None \<or> started = Some ''t''"
    and "status' = CUTOVER \<or> status' = VERIFIED \<and> started' = None" "started' = None \<or> started' = Some ''t''"
    and "fx_migrations w = [(''m1'', Some (demo_manifest status started))]" "fx_fates w = []"
  shows "save_validated demo_store_lib (demo_manifest status' started') w =
    (Inr (demo_manifest status' started'), w\<lparr>fx_migrations := [(''m1'', Some (demo_manifest status' started'))]\<rparr>)"
proof -
  have stem: "safe_backup_component (fm_ident (demo_manifest status' started')) ''migration_id'' = Inr ''m1''"
    by (simp add: demo_manifest_def safe_backup_component_def name_char_def alnum_def)
  have same: "migration_identity (demo_manifest status started) = migration_identity (demo_manifest status' started')"
    by (simp add: migration_identity_def demo_manifest_def)
  show ?thesis using assms(5,6)
    by (simp add: save_validated_def validated_update_def save_filestore_migration_def eff_bind_def eff_lift_def eff_return_def
        eff_read_def eff_check_def demo_valid[OF assms(3,4)] stem same demo_loads_from(1)[OF assms(1,2)] dict_get_def
        dict_put_def disk_def eff_external_def next_fate_def)
qed

section \<open>The files\<close>

text \<open>C6. Deleting the source of a migrated filestore never loses a file: whatever fails and wherever the
  process dies, the source is as it was or the target holds every file of the inventory with its
  digest and size.  This covers folders nested in one another; the source must not be reached
  through a symbolic link, and digests are lowercase hexadecimal.\<close>

theorem deletion_keeps_the_files:
  assumes "find_backend C environment = Inr (env, b)" and "get_filestore_migration L w ident = Inr m"
    and "digest_ok L" "wf_node (fx_root w)"
    and "\<And>p. host_source C env b = Some p \<Longrightarrow> real_path (fx_root w) p = p"
  shows "source_intact C env b w (snd (delete_source_after_cutover L C environment ident ce ci ds w)) \<or>
    target_complete L C environment b m w (snd (delete_source_after_cutover L C environment ident ce ci ds w))"
proof -
  from deletion_spec[OF assms(1-5) loaded_backend[OF assms(2)], of ce ci ds]
  have "case delete_source_after_cutover L C environment ident ce ci ds w of
      (Inr x, w') \<Rightarrow> source_intact C env b w w' \<or> target_complete L C environment b m w w'
    | (Inl e, w') \<Rightarrow> source_intact C env b w w' \<or> target_complete L C environment b m w w'"
    unfolding eff_spec_def by simp
  then show ?thesis
    by (cases "delete_source_after_cutover L C environment ident ce ci ds w";
        cases "fst (delete_source_after_cutover L C environment ident ce ci ds w)") auto
qed

text \<open>Here the process dies after the first file of the source is gone.\<close>

lemma deletion_keeps_the_files_witness:
  "let w = demo_disk CUTOVER None [(''s'', Folder [(''f'', Regular ''x'')])] [Carried, DeadAfter];
       w' = snd (delete_source_after_cutover demo_store_lib demo_context ''prod'' ''m1'' ''prod'' ''m1'' True w) in
   source_intact demo_context demo_filestore_env demo_backend w w' \<or>
   target_complete demo_store_lib demo_context ''prod'' demo_backend (demo_manifest CUTOVER None) w w'"
  unfolding Let_def
  by (rule deletion_keeps_the_files[OF demo_environment(1) demo_loads demo_sha_ok])
    (simp_all add: demo_disk_def demo_environment(2) name_ok_def real_path_def MAX_LINKS_def)



text \<open>C19. A cutover that returns has established what it stands for: the source was exactly the planned
  inventory, the target holds it, the stored manifest is cut over, nothing on the host changed, and
  for an object backend the active pointer names this migration, whatever answers were lost.\<close>

theorem cutover_establishes:
  assumes "find_backend C environment = Inr (env, b)" and "get_filestore_migration L w ident = Inr m" "fm_status m \<noteq> CUTOVER"
    and "cutover_migration L C environment ident ce retained w = (Inr m', w')"
  shows "cutover_result L C environment env b m w m' w'"
  using cutover_spec[OF assms(1-3), of ce retained] assms(4) unfolding eff_spec_def by (auto dest!: spec[where x = w])

lemma demo_cutover:
  defines "w0 \<equiv> demo_disk VERIFIED None [(''s'', Folder [(''f'', Regular ''x'')])] []"
  obtains w' where "cutover_migration demo_store_lib demo_context ''prod'' ''m1'' ''prod'' True w0 = (Inr (demo_manifest CUTOVER None), w')"
proof -
  have scans: "scan_filestore demo_store_lib (fx_root w0) [''s''] = Inr (fm_entries (demo_manifest CUTOVER None), replicate 64 (CHR ''0''), 1)"
    "scan_filestore demo_store_lib (fx_root w0) [''t''] = Inr (fm_entries (demo_manifest CUTOVER None), replicate 64 (CHR ''0''), 1)"
    "real_dir (fx_root w0) [''s'']" "location_path demo_context ''/t'' = [''t'']"
    unfolding w0_def by code_simp+
  have clock: "now_utc demo_store_lib w = (Inr ''t'', w\<lparr>fx_tick := fx_tick w + 1\<rparr>)" for w
    by (simp add: now_utc_def demo_store_lib_def)
  have kind: "\<not> object_backend demo_backend" by (simp add: object_backend_def demo_backend_def)
  have same: "same_inventory (fm_entries (demo_manifest CUTOVER None), replicate 64 (CHR ''0''), 1) (demo_manifest VERIFIED None)"
    by (simp add: same_inventory_def demo_manifest_def)
  have mans: "fm_status (demo_manifest VERIFIED None) = VERIFIED" "fm_target_location (demo_manifest VERIFIED None) = ''/t''"
    "(demo_manifest VERIFIED None)\<lparr>fm_status := VERIFIED, fm_synced_at := (if given (fm_synced_at (demo_manifest VERIFIED None))
       then fm_synced_at (demo_manifest VERIFIED None) else Some ''t''), fm_verified_at := Some ''t'', fm_last_error := None\<rparr> =
     demo_manifest VERIFIED None"
    "(demo_manifest VERIFIED None)\<lparr>fm_status := CUTOVER, fm_cutover_at := Some ''t'', fm_last_error := None\<rparr> = demo_manifest CUTOVER None"
    by (simp_all add: demo_manifest_def)
  have owned: "owned_migration demo_store_lib demo_context ''prod'' ''m1'' w0 =
      (Inr (demo_manifest VERIFIED None, demo_filestore_env, demo_backend), w0)"
    by (rule demo_owned) (simp_all add: w0_def demo_disk_def dict_get_def)
  have ledger: "fx_migrations w0 = [(''m1'', Some (demo_manifest VERIFIED None))]" "fx_fates w0 = []"
    by (simp_all add: w0_def demo_disk_def)
  define w1 where "w1 = w0\<lparr>fx_tick := fx_tick w0 + 1, fx_migrations := [(''m1'', Some (demo_manifest VERIFIED None))]\<rparr>"
  have verified: "\<exists>r. verify_migration demo_store_lib demo_context ''prod'' ''m1'' w0 = (Inr r, w1)"
    by (simp add: verify_migration_def check_target_def eff_bind_def eff_lift_def eff_return_def eff_read_def eff_check_def owned mans
        kind scans same clock demo_save[where status = VERIFIED and started = None] ledger w1_def)
  show thesis
  proof (rule that)
    from verified obtain r where v: "verify_migration demo_store_lib demo_context ''prod'' ''m1'' w0 = (Inr r, w1)" by blast
    have keep: "fx_root w1 = fx_root w0" "fx_migrations w1 = [(''m1'', Some (demo_manifest VERIFIED None))]" "fx_fates w1 = []"
      by (simp_all add: w1_def ledger)
    show "cutover_migration demo_store_lib demo_context ''prod'' ''m1'' ''prod'' True w0 = (Inr (demo_manifest CUTOVER None),
        w1\<lparr>fx_tick := fx_tick w1 + 1, fx_migrations := [(''m1'', Some (demo_manifest CUTOVER None))]\<rparr>)"
      by (simp add: cutover_migration_def materialized_source_def open_host_source_def assert_source_matches_def demo_environment(2)
          eff_bind_def eff_lift_def eff_return_def eff_read_def eff_check_def owned mans kind scans same clock v keep
          demo_save[where status = VERIFIED and started = None])
  qed
qed

lemma cutover_establishes_witness:
  "\<exists>m' w'. cutover_result demo_store_lib demo_context ''prod'' demo_filestore_env demo_backend (demo_manifest VERIFIED None)
     (demo_disk VERIFIED None [(''s'', Folder [(''f'', Regular ''x'')])] []) m' w'"
proof -
  from demo_cutover obtain w' where run: "cutover_migration demo_store_lib demo_context ''prod'' ''m1'' ''prod'' True
      (demo_disk VERIFIED None [(''s'', Folder [(''f'', Regular ''x'')])] []) = (Inr (demo_manifest CUTOVER None), w')" .
  show ?thesis
    by (intro exI, rule cutover_establishes[OF demo_environment(1) demo_loads _ run]) (simp_all add: demo_manifest_def)
qed

section \<open>Retries\<close>

lemma rmtree_missing: "\<not> lexists (fx_root w) p \<Longrightarrow> isl (fst (rmtree p w))"
  by (cases p rule: rev_cases) (auto simp: rmtree_def eff_bind_def eff_read_def eff_raise_def lexists_def split: option.splits)

lemma observes_removal_of_missing:
  assumes "host_source C env b = Some p" "\<not> lexists (fx_root w0) p"
  shows "eff_spec (unchanged w0) (eff_bind (remove_source C env b m) k) (\<lambda>_ _. False) (\<lambda>_ _. True)"
proof -
  have raises: "rmtree p w \<noteq> (Inr x, w')" if "unchanged w0 w" for w x w'
    using rmtree_missing[of w p] assms(2) that by (auto simp: unchanged_reads)
  show ?thesis using assms(1)
    by (auto simp: eff_spec_def remove_source_def eff_bind_def eff_read_def eff_check_def eff_return_def eff_raise_def raises
        split: prod.splits sum.splits)
qed



section \<open>A probe that fails\<close>

lemma remove_each_in_volume:
  "fx_fates w = [] \<Longrightarrow>
   eff_each remove_in_volume ps w = (Inr (), w\<lparr>fx_volume := fold (\<lambda>q. set_at q None) ps (fx_volume w)\<rparr>)"
  by (induction ps arbitrary: w)
    (simp_all add: eff_return_def eff_bind_def remove_in_volume_def container_def eff_external_def next_fate_def)

lemma lookup_removed: "lookup_at (set_at [n] None x) [n] = None"
  by (cases x) (simp_all add: dict_get_del)

lemma delete_volume_removes:
  assumes "fx_fates w = []"
  obtains w' where "delete_volume n w = (Inr (), w')" "lookup_at (fx_volume w') [n] = None"
proof (cases "lookup_at (fx_volume w) [n]")
  case None
  then have "delete_volume n w = (Inr (), w)"
    using assms by (simp add: delete_volume_def eff_bind_def eff_read_def container_def eff_external_def next_fate_def del: lookup_at.simps)
  then show thesis using None by (rule that)
next
  case (Some x)
  obtain ps where "removals [n] x = ps @ [[n]]" by (cases x) auto
  then show thesis
    using that[of "w\<lparr>fx_volume := fold (\<lambda>q. set_at q None) (removals [n] x) (fx_volume w)\<rparr>"] Some
    by (simp add: delete_volume_def eff_bind_def eff_read_def remove_each_in_volume[OF assms] lookup_removed
        del: lookup_at.simps set_at.simps removals.simps)
qed

lemma keeps_removed_volume: "keeps (\<lambda>w. lookup_at (fx_volume w) [n] = None) (eff_bind (now_utc L) (\<lambda>t. save_validated L (f t)))"
proof -
  have "observes (\<lambda>w. lookup_at (fx_volume w) [n] = None) (eff_bind (now_utc L) (\<lambda>t. save_validated L (f t))) (\<lambda>_. True)"
    by (rule observes_bind[where p = "\<lambda>_. True"])
      (auto simp: clockless_def intro!: observe_rules observes_mono[OF observes_save_validated])
  then show ?thesis by (rule keepsI)
qed


text \<open>Here the volume holds a file the migration has never seen.\<close>

definition demo_volume_env :: filestore_env where
  "demo_volume_env = demo_filestore_env\<lparr>en_volume := Some ''v''\<rparr>"

definition demo_volume_context :: filestore_context where
  "demo_volume_context = demo_context\<lparr>sc_environments := [(''prod'', demo_volume_env\<lparr>en_backend := Some (demo_backend\<lparr>fb_source_path := None\<rparr>)\<rparr>)]\<rparr>"

definition demo_volume_world :: fs_world where
  "demo_volume_world = (demo_disk CUTOVER (Some ''t'') [] [Rejected])\<lparr>fx_volume := Folder [(''s'', Folder [(''new'', Regular ''y'')])],
     fx_migrations := [(''m1'', Some demo_volume_manifest)]\<rparr>"


end
