(* ===== verification/Pitr_Wal.thy ===== *)
theory Pitr_Wal
  imports Filestore_Models
begin

text \<open>
  Names and numbers of the write-ahead log: the archive names and LSNs of
  \<open>odooctl/metadata/models.py\<close> and \<open>odooctl/adapters/wal_s3.py\<close>, and the arithmetic on segments in
  \<open>odooctl/services/pitr.py\<close>.  A segment name is the timeline, the log and the segment, each
  as eight upper-case hexadecimal digits; its number counts segments from the start of the
  log.
\<close>

datatype pitr_class =
    WalS3Error | WalS3DependencyError | WalS3ConfigurationError | WalS3PathError | WalS3ProviderError
  | WalS3IntegrityError | WalS3ConflictError | WalS3LeaseError | WalS3LeaseBusyError | WalS3LeaseExpiredError
  | WalS3ClockSkewError | WalS3PinError | ObjectNotFound
  | PitrError | PitrValueError | PitrRuntimeError | PitrKeyError | PitrTypeError | PitrAssertionError | PitrValidationError | PitrFileError

datatype pitr_error = Failure (failure_class: pitr_class) (failure_text: string)

type_synonym 'a checked = "(pitr_error, 'a) result"

definition path_error :: "string \<Rightarrow> pitr_error" where
  "path_error t = Failure WalS3PathError t"

definition pitr_value_error :: "string \<Rightarrow> pitr_error" where
  "pitr_value_error t = Failure PitrValueError t"

definition pitr_failure :: "string \<Rightarrow> pitr_error" where
  "pitr_failure t = Failure PitrError t"

section \<open>Hexadecimal\<close>

definition upper_digit :: "nat \<Rightarrow> char" where
  "upper_digit d = (if d < 10 then char_of (48 + d) else char_of (55 + d))"

fun upper_hex :: "nat \<Rightarrow> string" where
  "upper_hex n = (if n < 16 then [upper_digit n] else upper_hex (n div 16) @ [upper_digit (n mod 16)])"

declare upper_hex.simps [simp del]

text \<open>\<open>format(n, "08X")\<close>.\<close>

definition hex8 :: "nat \<Rightarrow> string" where
  "hex8 n = replicate (8 - length (upper_hex n)) (CHR ''0'') @ upper_hex n"

definition hex_number :: "string \<Rightarrow> nat" where
  "hex_number s = foldl (\<lambda>a c. 16 * a + (case hex_val (lower_char c) of None \<Rightarrow> 0 | Some d \<Rightarrow> d)) 0 s"

definition upper_hex_char :: "char \<Rightarrow> bool" where
  "upper_hex_char c \<longleftrightarrow> (let n = of_char c :: nat in (48 \<le> n \<and> n \<le> 57) \<or> (65 \<le> n \<and> n \<le> 70))"

definition is_upper_hex :: "nat \<Rightarrow> string \<Rightarrow> bool" where
  "is_upper_hex k s \<longleftrightarrow> length s = k \<and> list_all upper_hex_char s"

text \<open>
  \<open>int(s, 16)\<close>: surrounding white space, a sign, the prefix \<open>0x\<close>, and single underscores
  between digits (and after the prefix) are accepted.
\<close>

fun hex_digits_of :: "string \<Rightarrow> string option" where
  "hex_digits_of [] = None"
| "hex_digits_of [c] = (if hex_val (lower_char c) = None then None else Some [c])"
| "hex_digits_of (c # d # s) =
     (if hex_val (lower_char c) = None then None
      else if d = CHR ''_'' then map_option ((#) c) (hex_digits_of s)
      else map_option ((#) c) (hex_digits_of (d # s)))"

definition int_base16 :: "string \<Rightarrow> int option" where
  "int_base16 s =
     (let t = py_strip s;
          (negative, u) = (case t of c # cs \<Rightarrow> if c = CHR ''-'' then (True, cs) else if c = CHR ''+'' then (False, cs) else (False, t)
            | [] \<Rightarrow> (False, t));
          v = (if starts_with ''0x'' (py_lower u) then (case drop 2 u of c # cs \<Rightarrow> if c = CHR ''_'' then cs else c # cs | [] \<Rightarrow> []) else u)
      in map_option (\<lambda>ds. (if negative then - 1 else 1) * int (hex_number ds)) (hex_digits_of v))"

section \<open>Names\<close>

text \<open>\<open>_WAL_SEGMENT_RE\<close>, \<open>_WAL_HISTORY_RE\<close>, \<open>_WAL_BACKUP_RE\<close>.\<close>

definition is_wal_segment :: "string \<Rightarrow> bool" where
  "is_wal_segment s \<longleftrightarrow> is_upper_hex 24 s"

definition is_wal_history :: "string \<Rightarrow> bool" where
  "is_wal_history s \<longleftrightarrow> is_upper_hex 8 (take 8 s) \<and> drop 8 s = ''.history''"

definition is_wal_backup :: "string \<Rightarrow> bool" where
  "is_wal_backup s \<longleftrightarrow> is_wal_segment (take 24 s) \<and> take 1 (drop 24 s) = ''.'' \<and> is_upper_hex 8 (take 8 (drop 25 s)) \<and>
     drop 33 s = ''.backup''"

definition is_archive_name :: "string \<Rightarrow> bool" where
  "is_archive_name s \<longleftrightarrow> is_wal_segment s \<or> is_wal_history s \<or> is_wal_backup s"

definition validate_archive_name :: "string \<Rightarrow> string checked" where
  "validate_archive_name s = (if is_archive_name s then Inr s
     else Inl (path_error ''WAL archive name must be an uppercase segment, timeline history, or backup-history filename''))"

text \<open>The field validators of the models normalize case first.\<close>

definition wal_segment_field :: "string \<Rightarrow> string \<Rightarrow> (string, string) result" where
  "wal_segment_field v label = (if is_wal_segment (py_upper v) then Inr (py_upper v)
     else Inl (label @ '' must be a 24-character PostgreSQL WAL segment name''))"

definition wal_archive_field :: "string \<Rightarrow> string \<Rightarrow> (string, string) result" where
  "wal_archive_field v label =
     (let n = py_upper v in
      if is_archive_name n then Inr n else Inl (label @ '' is not a supported PostgreSQL WAL archive filename''))"

definition lsn_field :: "string \<Rightarrow> string \<Rightarrow> (string, string) result" where
  "lsn_field v label =
     (let n = py_upper v in
      case split_on (CHR ''/'') n of
        [a, b] \<Rightarrow> if a \<noteq> [] \<and> length a \<le> 8 \<and> list_all upper_hex_char a \<and> is_upper_hex 8 b then Inr n
          else Inl (label @ '' must be a PostgreSQL LSN'')
      | _ \<Rightarrow> Inl (label @ '' must be a PostgreSQL LSN''))"

section \<open>Segment arithmetic\<close>

unbundle bit_operations_syntax

definition MAX_PITR_WAL_SEGMENTS :: int where "MAX_PITR_WAL_SEGMENTS = 100000"

definition segments_per_wal_log :: "int \<Rightarrow> (pitr_error, int) result" where
  "segments_per_wal_log seg_size =
     (if seg_size < 1024 * 1024 \<or> seg_size > 1024 * 1024 * 1024 \<or> seg_size AND (seg_size - 1) \<noteq> 0 \<or> 0x100000000 mod seg_size \<noteq> 0
      then Inl (pitr_value_error ''invalid WAL segment size'') else Inr (0x100000000 div seg_size))"

definition segment_text :: "int \<Rightarrow> int \<Rightarrow> int \<Rightarrow> string" where
  "segment_text timeline log segment = hex8 (nat timeline) @ hex8 (nat log) @ hex8 (nat segment)"

definition lsn_position :: "string \<Rightarrow> int option" where
  "lsn_position lsn = (case split_on (CHR ''/'') lsn of
     upper # lower # rest \<Rightarrow>
       (case (int_base16 upper, int_base16 (join_with ''/'' (lower # rest))) of
          (Some u, Some l) \<Rightarrow> if 0 \<le> u \<and> u \<le> 0xFFFFFFFF \<and> 0 \<le> l \<and> l \<le> 0xFFFFFFFF then Some (u * 0x100000000 + l) else None
        | _ \<Rightarrow> None)
   | _ \<Rightarrow> None)"

definition wal_name_for_lsn :: "string \<Rightarrow> int \<Rightarrow> int \<Rightarrow> string checked" where
  "wal_name_for_lsn lsn timeline seg_size =
     bindE (guardE (1 \<le> timeline \<and> timeline \<le> 0xFFFFFFFF) (pitr_value_error ''invalid timeline or WAL segment size'')) (\<lambda>_.
     bindE (segments_per_wal_log seg_size) (\<lambda>per_log.
     case lsn_position lsn of
       None \<Rightarrow> Inl (pitr_value_error (''invalid PostgreSQL LSN: '' @ quoted lsn))
     | Some position \<Rightarrow>
         let number = position div seg_size in Inr (segment_text timeline (number div per_log) (number mod per_log))))"

definition wal_sequence :: "string \<Rightarrow> int \<Rightarrow> int checked" where
  "wal_sequence filename seg_size =
     bindE (validate_archive_name filename) (\<lambda>_.
     bindE (guardE (length filename = 24) (pitr_value_error ''WAL continuity applies only to segment filenames'')) (\<lambda>_.
     bindE (segments_per_wal_log seg_size) (\<lambda>per_log.
     bindE (guardE (1 \<le> hex_number (take 8 filename)) (pitr_value_error ''invalid WAL timeline'')) (\<lambda>_.
     bindE (guardE (int (hex_number (take 8 (drop 16 filename))) < per_log)
       (pitr_value_error ''invalid WAL segment filename for segment size'')) (\<lambda>_.
     Inr (int (hex_number (take 8 (drop 8 filename))) * per_log + int (hex_number (take 8 (drop 16 filename)))))))))"

definition wal_name_for_sequence :: "int \<Rightarrow> int \<Rightarrow> int \<Rightarrow> string checked" where
  "wal_name_for_sequence sequence timeline seg_size =
     bindE (segments_per_wal_log seg_size) (\<lambda>per_log.
     bindE (guardE (0 \<le> sequence \<and> sequence < 0x100000000 * per_log \<and> 1 \<le> timeline \<and> timeline \<le> 0xFFFFFFFF)
       (pitr_value_error ''invalid WAL sequence or timeline'')) (\<lambda>_.
     Inr (segment_text timeline (sequence div per_log) (sequence mod per_log))))"

text \<open>The first eight characters are read with \<open>int(s, 16)\<close>, before the name is validated.\<close>

definition wal_segment_range :: "string \<Rightarrow> string \<Rightarrow> int \<Rightarrow> string list checked" where
  "wal_segment_range first last_name seg_size =
     bindE (guardE (length first = 24 \<and> length last_name = 24) (pitr_value_error ''WAL range boundaries must be segment names'')) (\<lambda>_.
     case (int_base16 (take 8 first), int_base16 (take 8 last_name)) of
       (Some first_timeline, Some last_timeline) \<Rightarrow>
         bindE (guardE (first_timeline = last_timeline) (pitr_failure ''A single PITR WAL range cannot cross timelines implicitly'')) (\<lambda>_.
         bindE (wal_sequence first seg_size) (\<lambda>start.
         bindE (wal_sequence last_name seg_size) (\<lambda>final.
         bindE (guardE (start \<le> final) (pitr_failure ''PITR WAL range ends before it starts'')) (\<lambda>_.
         bindE (guardE (final - start + 1 \<le> MAX_PITR_WAL_SEGMENTS) (pitr_failure ''PITR WAL range exceeds the safe segment-count limit'')) (\<lambda>_.
         mapE (\<lambda>s. wal_name_for_sequence s first_timeline seg_size) [start..final])))))
     | _ \<Rightarrow> Inl (pitr_value_error (''invalid literal for int() with base 16: '' @
         quoted (take 8 (if int_base16 (take 8 first) = None then first else last_name)))))"

section \<open>Round trips\<close>

lemma upper_digit_value [simp]:
  "d < 16 \<Longrightarrow> hex_val (lower_char (upper_digit d)) = Some d" "d < 16 \<Longrightarrow> upper_hex_char (upper_digit d)"
  by (auto simp: upper_digit_def hex_val_def lower_char_def upper_hex_char_def Let_def)

lemma hex_number_snoc [simp]: "d < 16 \<Longrightarrow> hex_number (s @ [upper_digit d]) = 16 * hex_number s + d"
  by (simp add: hex_number_def)

lemma upper_hex_value [simp]: "hex_number (upper_hex n) = n" "list_all upper_hex_char (upper_hex n)"
  by (induction n rule: upper_hex.induct; subst upper_hex.simps; simp add: hex_number_def)+

lemma upper_hex_length: "n < 16 ^ k \<Longrightarrow> 0 < k \<Longrightarrow> length (upper_hex n) \<le> k"
proof (induction k arbitrary: n)
  case (Suc k)
  then have "\<not> n < 16 \<Longrightarrow> length (upper_hex (n div 16)) \<le> k" by (cases k) auto
  then show ?case by (subst upper_hex.simps) simp
qed simp

lemma hex_number_zeros [simp]: "hex_number (replicate k (CHR ''0'') @ s) = hex_number s"
proof (induction k)
  case (Suc k)
  have "hex_val (lower_char (CHR ''0'')) = Some 0" by (simp add: hex_val_def lower_char_def)
  then show ?case using Suc by (simp add: hex_number_def)
qed simp

lemma hex8_value [simp]: "hex_number (hex8 n) = n"
  by (simp add: hex8_def)

lemma hex8_shape [simp]: "n < 0x100000000 \<Longrightarrow> length (hex8 n) = 8" "list_all upper_hex_char (hex8 n)"
  using upper_hex_length[of n 8] by (simp_all add: hex8_def list_all_iff upper_hex_char_def)
    (auto simp: list_all_iff upper_hex_char_def Let_def dest: upper_hex_value(2)[unfolded list_all_iff, rule_format])

lemma segments_per_log_bounds:
  assumes "segments_per_wal_log size_bytes = Inr k"
  shows "4 \<le> k" "k \<le> 4096" "k * size_bytes = 0x100000000" "0 < size_bytes"
proof -
  from assms have b: "1048576 \<le> size_bytes" "size_bytes \<le> 1073741824" and z: "0x100000000 mod size_bytes = 0" and k: "k = 0x100000000 div size_bytes"
    by (auto simp: segments_per_wal_log_def split: if_splits)
  show m: "k * size_bytes = 0x100000000" using z k by auto
  show "0 < size_bytes" using b by simp
  show "4 \<le> k"
  proof (rule ccontr)
    assume "\<not> 4 \<le> k"
    then have "k * size_bytes \<le> 3 * 1073741824" using b by (intro mult_mono) auto
    then show False using m by simp
  qed
  show "k \<le> 4096"
  proof (rule ccontr)
    assume "\<not> k \<le> 4096"
    then have "4097 * 1048576 \<le> k * size_bytes" using b by (intro mult_mono) auto
    then show False using m by simp
  qed
qed

lemma segment_text_parts:
  assumes "0 \<le> t" "t \<le> 0xFFFFFFFF" "0 \<le> l" "l \<le> 0xFFFFFFFF" "0 \<le> s" "s \<le> 0xFFFFFFFF"
  shows "length (segment_text t l s) = 24" "is_wal_segment (segment_text t l s)"
    "hex_number (take 8 (segment_text t l s)) = nat t" "hex_number (take 8 (drop 8 (segment_text t l s))) = nat l"
    "hex_number (take 8 (drop 16 (segment_text t l s))) = nat s"
proof -
  have n: "nat t < 0x100000000" "nat l < 0x100000000" "nat s < 0x100000000" using assms by auto
  note sizes = hex8_shape(1)[OF n(1)] hex8_shape(1)[OF n(2)] hex8_shape(1)[OF n(3)]
  show "length (segment_text t l s) = 24" "hex_number (take 8 (segment_text t l s)) = nat t"
    "hex_number (take 8 (drop 8 (segment_text t l s))) = nat l" "hex_number (take 8 (drop 16 (segment_text t l s))) = nat s"
    by (simp_all add: segment_text_def sizes)
  show "is_wal_segment (segment_text t l s)"
    by (simp add: is_wal_segment_def is_upper_hex_def segment_text_def sizes)
qed

text \<open>The name of a segment number names that number.\<close>

lemma sequence_of_name:
  assumes "wal_name_for_sequence n timeline seg = Inr name"
  shows "wal_sequence name seg = Inr n" "hex_number (take 8 name) = nat timeline" "is_wal_segment name"
proof -
  from assms obtain k where k: "segments_per_wal_log seg = Inr k" and b: "0 \<le> n" "n < 0x100000000 * k" "1 \<le> timeline" "timeline \<le> 0xFFFFFFFF"
    and name: "name = segment_text timeline (n div k) (n mod k)"
    by (auto simp: wal_name_for_sequence_def bindE_eq_Inr_iff)
  note kb = segments_per_log_bounds[OF k]
  have "n div k < 0x100000000"
  proof (rule ccontr)
    assume "\<not> n div k < 0x100000000"
    then have "k * 0x100000000 \<le> k * (n div k)" using kb(1) by (intro mult_left_mono) auto
    also have "\<dots> \<le> n" using kb(1) pos_mod_sign[of k n] by (simp add: minus_mod_eq_mult_div[symmetric])
    finally show False using b(2) by simp
  qed
  moreover have "0 \<le> n div k" "0 \<le> n mod k" "n mod k < k" using b kb(1) by (simp_all add: pos_imp_zdiv_nonneg_iff)
  ultimately have d: "0 \<le> timeline" "timeline \<le> 0xFFFFFFFF" "0 \<le> n div k" "n div k \<le> 0xFFFFFFFF" "0 \<le> n mod k" "n mod k \<le> 0xFFFFFFFF"
    using b kb by linarith+
  note parts = segment_text_parts[OF d, folded name]
  then show "hex_number (take 8 name) = nat timeline" "is_wal_segment name" by simp_all
  have "1 \<le> nat timeline" "int (nat (n mod k)) < k" using b(3) d \<open>n mod k < k\<close> by simp_all
  then show "wal_sequence name seg = Inr n" using parts b kb k d
    by (simp add: wal_sequence_def validate_archive_name_def is_archive_name_def)
qed

text \<open>And a segment name with a number is the name of its number.\<close>

lemma hex_digit_upper: "upper_hex_char c \<Longrightarrow> \<exists>d < 16. c = upper_digit d \<and> hex_val (lower_char c) = Some d"
proof -
  assume h: "upper_hex_char c"
  define n :: nat where "n = of_char c"
  define d where "d = (if n < 58 then n - 48 else n - 55)"
  have c: "c = char_of n" by (simp add: n_def)
  from h have "(48 \<le> n \<and> n \<le> 57) \<or> (65 \<le> n \<and> n \<le> 70)" by (simp add: upper_hex_char_def n_def Let_def)
  then have "d < 16" "c = upper_digit d" by (auto simp: d_def upper_digit_def c)
  then show ?thesis by (intro exI[of _ d]) simp
qed

lemma upper_hex_chars: "upper_hex_char c \<Longrightarrow> c \<in> set ''0123456789ABCDEF''"
proof -
  have "\<forall>d \<in> set [0..<16]. upper_digit d \<in> set ''0123456789ABCDEF''" by code_simp
  then show "upper_hex_char c \<Longrightarrow> c \<in> set ''0123456789ABCDEF''" by (auto dest!: hex_digit_upper)
qed

lemma base16_upper:
  assumes "s \<noteq> []" "list_all upper_hex_char s"
  shows "int_base16 s = Some (int (hex_number s))"
proof -
  have digits: "hex_digits_of u = Some u" if "u \<noteq> []" "list_all upper_hex_char u" for u
    using that
  proof (induction u rule: hex_digits_of.induct)
    case (3 c d s)
    then have "d \<noteq> CHR ''_''" using upper_hex_chars[of d] by auto
    with 3 show ?case by (auto dest!: hex_digit_upper)
  qed (auto dest!: hex_digit_upper)
  have ends: "\<not> py_space c" if "upper_hex_char c" for c
    using upper_hex_chars[OF that] by (auto simp: py_space_def)
  have strip: "py_strip s = s" using assms by (intro py_strip_id ends) (auto simp: list_all_iff)
  from assms obtain c cs where s: "s = c # cs" by (cases s) auto
  have sign: "c \<noteq> CHR ''-''" "c \<noteq> CHR ''+''" using upper_hex_chars[of c] assms(2) by (auto simp: s)
  have plain: "\<not> starts_with ''0x'' (py_lower s)"
  proof (cases cs)
    case (Cons d ds)
    have "\<forall>c \<in> set ''0123456789ABCDEF''. lower_char c \<noteq> CHR ''x''" by code_simp
    then have "lower_char d \<noteq> CHR ''x''" using assms(2) upper_hex_chars[of d] Cons by (auto simp: s)
    then show ?thesis by (simp add: s Cons py_lower_def starts_with_def)
  qed (simp add: s py_lower_def starts_with_def)
  show ?thesis using strip sign plain digits[OF assms] by (simp add: int_base16_def s)
qed

lemma hex8_number:
  assumes "is_upper_hex 8 s"
  shows "hex8 (hex_number s) = s" "hex_number s < 0x100000000"
proof -
  have pad: "replicate (k - length (upper_hex (hex_number s))) (CHR ''0'') @ upper_hex (hex_number s) = s \<and> hex_number s < 16 ^ k"
    if "length s = k" "list_all upper_hex_char s" "0 < k" for s k using that
  proof (induction s arbitrary: k rule: rev_induct)
    case (snoc c s)
    from snoc.prems obtain d where d: "d < 16" "c = upper_digit d" using hex_digit_upper[of c] by auto
    show ?case
    proof (cases "s = []")
      case True
      then show ?thesis using d snoc.prems by (auto simp: hex_number_def upper_hex.simps)
    next
      case False
      then obtain j where j: "k = Suc j" "0 < j" "length s = j" using snoc.prems by (cases k) auto
      from snoc.IH[OF j(3) _ j(2)] snoc.prems have ih: "replicate (j - length (upper_hex (hex_number s))) (CHR ''0'') @ upper_hex (hex_number s) = s"
        "hex_number s < 16 ^ j" by auto
      have v: "hex_number (s @ [c]) = 16 * hex_number s + d" using d by simp
      show ?thesis
      proof (cases "hex_number s = 0")
        case True
        then have "replicate (j - 1) (CHR ''0'') @ [upper_digit 0] = s" using ih(1) by (simp add: upper_hex.simps)
        moreover have "upper_digit 0 = CHR ''0''" by (simp add: upper_digit_def)
        ultimately have "s = replicate j (CHR ''0'')" using j(2) by (metis replicate_append_same replicate_Suc Suc_pred' add_diff_cancel_left' diff_Suc_1)
        then show ?thesis using v True d j by (simp add: upper_hex.simps) (simp add: less_le_trans[of d 16])
      next
        case False
        then have u: "upper_hex (hex_number (s @ [c])) = upper_hex (hex_number s) @ [c]"
          using d v by (subst upper_hex.simps) simp
        then show ?thesis using ih v d j by simp
      qed
    qed
  qed simp
  from pad[of s 8] assms show "hex8 (hex_number s) = s" "hex_number s < 0x100000000"
    by (simp_all add: hex8_def is_upper_hex_def)
qed

lemma name_of_sequence:
  assumes "wal_sequence name seg = Inr n" "is_wal_segment name"
  shows "wal_name_for_sequence n (int (hex_number (take 8 name))) seg = Inr name"
proof -
  let ?t = "hex_number (take 8 name)" and ?l = "hex_number (take 8 (drop 8 name))" and ?s = "hex_number (take 8 (drop 16 name))"
  from assms obtain k where k: "segments_per_wal_log seg = Inr k" and t: "1 \<le> ?t" and s: "int ?s < k" and n: "n = int ?l * k + int ?s"
    by (auto simp: wal_sequence_def bindE_eq_Inr_iff)
  note kb = segments_per_log_bounds[OF k]
  have hex: "is_upper_hex 8 (take 8 name)" "is_upper_hex 8 (take 8 (drop 8 name))" "is_upper_hex 8 (take 8 (drop 16 name))"
    using assms(2) by (auto simp: is_wal_segment_def is_upper_hex_def list_all_iff dest: in_set_takeD in_set_dropD)
  have div: "n div k = int ?l" "n mod k = int ?s" using s kb(1) n by (simp_all add: div_pos_pos_trivial)
  have "int ?l + 1 \<le> 0x100000000" using hex8_number(2)[OF hex(2)] by simp
  then have "(int ?l + 1) * k \<le> 0x100000000 * k" using kb(1) by (intro mult_right_mono) linarith+
  then have "int ?l * k + k \<le> 0x100000000 * k" by (simp only: distrib_right mult_1)
  moreover have "0 \<le> int ?l * k" using kb(1) by simp
  ultimately have range: "n < 0x100000000 * k" "0 \<le> n" using s n kb(1) by linarith+
  have "length name = 24" using assms(2) by (simp add: is_wal_segment_def is_upper_hex_def)
  then have "take 8 (drop 16 name) = drop 8 (drop 8 name)" by simp
  then have "take 8 name @ take 8 (drop 8 name) @ take 8 (drop 16 name) = name" by (simp only: append_take_drop_id)
  then have "segment_text (int ?t) (int ?l) (int ?s) = name"
    by (simp add: segment_text_def hex8_number(1)[OF hex(1)] hex8_number(1)[OF hex(2)] hex8_number(1)[OF hex(3)])
  then show ?thesis using k t range div hex8_number(2)[OF hex(1)] by (simp add: wal_name_for_sequence_def)
qed

section \<open>Ranges and positions\<close>

lemma wal_sequence_segment: "wal_sequence name seg = Inr n \<Longrightarrow> is_wal_segment name \<and> 0 \<le> n"
proof -
  assume h: "wal_sequence name seg = Inr n"
  then have l: "length name = 24" and a: "is_archive_name name" and n: "0 \<le> n"
    by (auto simp: wal_sequence_def bindE_eq_Inr_iff validate_archive_name_def split: if_splits dest!: segments_per_log_bounds(1))
  have "\<not> is_wal_history name"
  proof
    assume "is_wal_history name"
    then have "length (drop 8 name) = 8" by (simp add: is_wal_history_def)
    then show False using l by simp
  qed
  moreover have "\<not> is_wal_backup name" using l by (auto simp: is_wal_backup_def)
  ultimately show ?thesis using a n by (simp add: is_archive_name_def)
qed

lemma mapE_InrD: "mapE f xs = Inr ys \<Longrightarrow> length ys = length xs \<and> (\<forall>i < length xs. f (xs ! i) = Inr (ys ! i))"
  by (induction xs arbitrary: ys) (auto simp: bindE_eq_Inr_iff nth_Cons split: nat.split)

text \<open>A range is exactly the segments between its ends: it starts and ends there, and numbers are consecutive.\<close>

lemma wal_range_spec:
  assumes "wal_segment_range first last_name seg = Inr names"
  shows "\<exists>a b. wal_sequence first seg = Inr a \<and> wal_sequence last_name seg = Inr b \<and> a \<le> b \<and> b - a < MAX_PITR_WAL_SEGMENTS \<and>
    int (length names) = b - a + 1 \<and> (\<forall>i < length names. wal_sequence (names ! i) seg = Inr (a + int i)) \<and>
    hd names = first \<and> last names = last_name"
proof -
  from assms obtain t a b where t: "int_base16 (take 8 first) = Some t" "int_base16 (take 8 last_name) = Some t"
    and a: "wal_sequence first seg = Inr a" and b: "wal_sequence last_name seg = Inr b" and le: "a \<le> b" "b - a + 1 \<le> MAX_PITR_WAL_SEGMENTS"
    and names: "mapE (\<lambda>s. wal_name_for_sequence s t seg) [a..b] = Inr names"
    by (auto simp: wal_segment_range_def bindE_eq_Inr_iff split: option.splits)
  from mapE_InrD[OF names] have len: "length names = nat (b - a + 1)"
    and each: "\<And>i. i < length names \<Longrightarrow> wal_name_for_sequence (a + int i) t seg = Inr (names ! i)" by auto
  have seq: "wal_sequence (names ! i) seg = Inr (a + int i)" if "i < length names" for i
    by (rule sequence_of_name(1)[OF each[OF that]])
  have time: "s = name" if "int_base16 (take 8 s) = Some t" "wal_sequence s seg = Inr n" "wal_name_for_sequence n t seg = Inr name" for s n name
  proof -
    have seg: "is_wal_segment s" using wal_sequence_segment[OF that(2)] by simp
    then have "take 8 s \<noteq> []" "list_all upper_hex_char (take 8 s)"
      by (auto simp: is_wal_segment_def is_upper_hex_def list_all_iff dest: in_set_takeD)
    from base16_upper[OF this] that(1) have "t = int (hex_number (take 8 s))" by simp
    then show ?thesis using name_of_sequence[OF that(2) seg] that(3) by simp
  qed
  have pos: "0 < length names" using len le by simp
  have "hd names = first" using time[OF t(1) a] each[OF pos] pos by (simp add: hd_conv_nth)
  moreover have "last names = last_name"
  proof -
    have "names \<noteq> []" "a + int (length names - 1) = b" using pos len le by auto
    then show ?thesis using time[OF t(2) b] each[of "length names - 1"] pos by (simp add: last_conv_nth)
  qed
  ultimately show ?thesis using a b le len seq by auto
qed

text \<open>The segment of an LSN is the one its position lies in.\<close>

lemma lsn_segment:
  assumes "wal_name_for_lsn lsn timeline seg = Inr name" "lsn_position lsn = Some p"
  shows "wal_sequence name seg = Inr (p div seg)" "hex_number (take 8 name) = nat timeline"
proof -
  from assms obtain k where k: "segments_per_wal_log seg = Inr k" and t: "1 \<le> timeline" "timeline \<le> 0xFFFFFFFF"
    and name: "name = segment_text timeline (p div seg div k) (p div seg mod k)"
    by (auto simp: wal_name_for_lsn_def bindE_eq_Inr_iff Let_def)
  from assms(2) have p: "0 \<le> p" "p < 0x100000000 * 0x100000000"
    by (auto simp: lsn_position_def split: list.splits option.splits if_splits)
  note kb = segments_per_log_bounds[OF k]
  have "p div seg < 0x100000000 * k"
  proof (rule ccontr)
    assume "\<not> p div seg < 0x100000000 * k"
    then have "0x100000000 * k * seg \<le> p div seg * seg" using kb(4) by (intro mult_right_mono) auto
    also have "\<dots> \<le> p" using kb(4) pos_mod_sign[of seg p] by (simp add: minus_mod_eq_div_mult[symmetric])
    finally show False using p(2) kb(3) by (simp add: mult.assoc)
  qed
  then have "wal_name_for_sequence (p div seg) timeline seg = Inr name"
    using k t p kb(4) by (simp add: wal_name_for_sequence_def name pos_imp_zdiv_nonneg_iff)
  then show "wal_sequence name seg = Inr (p div seg)" "hex_number (take 8 name) = nat timeline"
    by (rule sequence_of_name(1), rule sequence_of_name(2))
qed

end
