(* ===== verification/Pitr_Models.thy ===== *)
theory Pitr_Models
  imports Pitr_Wal
begin

text \<open>
  The records of point-in-time recovery in \<open>odooctl/metadata/models.py\<close> with their validators:
  the manifest of a physical base backup, the receipt of an archived WAL file, the plan of a
  recovery and the record of a restore.  Instants are microseconds; how they are read from a
  text (\<open>pl_instant\<close>: no timestamp, one without a zone, or an instant) and printed
  (\<open>pl_isoformat\<close>, and \<open>pl_micros\<close> with all six digits) are arguments.
\<close>

record pitr_lib =
  pl_sha :: "string \<Rightarrow> string"
  pl_etag :: "string \<Rightarrow> string"
  pl_instant :: "string \<Rightarrow> int option option"
  pl_isoformat :: "int \<Rightarrow> string"
  pl_micros :: "int \<Rightarrow> string"
  pl_report :: "string list \<Rightarrow> string"
  pl_token :: "nat \<Rightarrow> string"
  pl_uuid :: "nat \<Rightarrow> string"
  pl_page :: nat
  pl_compact :: "int \<Rightarrow> string"

definition stamp_lib :: "pitr_lib \<Rightarrow> store_lib" where
  "stamp_lib L = \<lparr>sl_sha = pl_sha L, sl_etag = pl_etag L,
     sl_fromiso = (\<lambda>t. map_option (\<lambda>i. case i of None \<Rightarrow> (False, []) | Some n \<Rightarrow> (True, pl_isoformat L n)) (pl_instant L t)),
     sl_report = pl_report L, sl_now = (\<lambda>_. []), sl_token = pl_token L\<rparr>"

definition timestamp_field :: "pitr_lib \<Rightarrow> string \<Rightarrow> string \<Rightarrow> (string, string) result" where
  "timestamp_field L v label = utc_timestamp (stamp_lib L) v label"

text \<open>\<open>datetime.fromisoformat(v.replace("Z", "+00:00"))\<close>.\<close>

definition instant_of :: "pitr_lib \<Rightarrow> string \<Rightarrow> int option option" where
  "instant_of L v = pl_instant L (replace_all ''Z'' ''+00:00'' v)"

definition aware_instant :: "pitr_lib \<Rightarrow> string \<Rightarrow> int option" where
  "aware_instant L v = (case instant_of L v of Some (Some n) \<Rightarrow> Some n | _ \<Rightarrow> None)"

section \<open>Fields\<close>

definition between_field :: "int \<Rightarrow> int \<Rightarrow> int \<Rightarrow> (string, int) result" where
  "between_field lo hi n =
     (if n < lo then Inl (''Input should be greater than or equal to '' @ int_str lo)
      else if hi < n then Inl (''Input should be less than or equal to '' @ int_str hi) else Inr n)"

definition at_least_field :: "int \<Rightarrow> int \<Rightarrow> (string, int) result" where
  "at_least_field lo n = (if n < lo then Inl (''Input should be greater than or equal to '' @ int_str lo) else Inr n)"

definition system_identifier_field :: "string \<Rightarrow> string \<Rightarrow> (string, string) result" where
  "system_identifier_field v label = (if v = [] \<or> 20 < length v \<or> hd v = CHR ''0'' \<or> \<not> list_all is_digit v
     then Inl (label @ '' must be a decimal PostgreSQL system identifier'') else Inr v)"

definition hex_digit_char :: "char \<Rightarrow> bool" where
  "hex_digit_char c \<longleftrightarrow> lower_hex (lower_char c)"

text \<open>\<open>(?:[^@\s]+@)?sha256:[0-9a-fA-F]{64}\<close>, matched in full.\<close>

definition is_digest_reference :: "string \<Rightarrow> bool" where
  "is_digest_reference s \<longleftrightarrow> take 7 s = ''sha256:'' \<and> length s = 71 \<and> list_all hex_digit_char (drop 7 s)"

definition immutable_image :: "string \<Rightarrow> bool" where
  "immutable_image s \<longleftrightarrow> is_digest_reference s \<or>
     (case split_on (CHR ''@'') s of [a, b] \<Rightarrow> a \<noteq> [] \<and> list_all (\<lambda>c. \<not> py_space c) a \<and> is_digest_reference b | _ \<Rightarrow> False)"

definition image_field :: "string \<Rightarrow> string \<Rightarrow> (string, string) result" where
  "image_field v label = (if v = [] \<or> 512 < length v \<or> py_strip v \<noteq> v \<or> list_ex (\<lambda>c. py_space c \<or> control_char c) v \<or> \<not> immutable_image v
     then Inl (label @ '' must be an immutable sha256 image reference'') else Inr v)"

text \<open>
  \<open>_remote_uri\<close>.  Of \<open>urlsplit\<close>: leading blanks are dropped, the scheme ends at the first colon,
  the network location at the first slash, question mark or number sign.  A location with a
  bracket, which Python reads as an IPv6 address or refuses, is refused here.
\<close>

definition uri_ok :: "string \<Rightarrow> bool" where
  "uri_ok v = (let t = dropWhile (\<lambda>c. control_char c \<or> c = CHR '' '') v; r = drop 5 t;
       netloc = takeWhile (\<lambda>c. c \<notin> {CHR ''/'', CHR ''?'', CHR ''#''}) r;
       rest = drop (length netloc) r;
       before_fragment = takeWhile (\<lambda>c. c \<noteq> CHR ''#'') rest; fragment = drop (Suc (length before_fragment)) rest;
       upath = takeWhile (\<lambda>c. c \<noteq> CHR ''?'') before_fragment; query = drop (Suc (length upath)) before_fragment
     in py_lower (take 5 t) = ''s3://'' \<and> takeWhile (\<lambda>c. c \<noteq> CHR '':'') netloc \<noteq> [] \<and> upath \<noteq> [] \<and> upath \<noteq> ''/'' \<and>
       CHR ''@'' \<notin> set netloc \<and> CHR ''['' \<notin> set netloc \<and> CHR '']'' \<notin> set netloc \<and> query = [] \<and> fragment = [] \<and>
       \<not> list_ex control_char v)"

definition remote_uri_field :: "string \<Rightarrow> string \<Rightarrow> (string, string) result" where
  "remote_uri_field v label = (if uri_ok v then Inr v
     else Inl (label @ '' must be a credential-free s3:// bucket/object URI''))"

definition report_fields :: "pitr_lib \<Rightarrow> string list \<Rightarrow> string option \<Rightarrow> 'a \<Rightarrow> (string, 'a) result" where
  "report_fields L messages whole m =
     (if messages \<noteq> [] then Inl (pl_report L messages)
      else case whole of Some c \<Rightarrow> Inl (pl_report L [''Value error, '' @ c]) | None \<Rightarrow> Inr m)"

section \<open>Base backups\<close>

datatype BaseStatus = BASE_PENDING | BASE_COMPLETE | BASE_FAILED

record PitrBaseBackupManifest =
  pb_ident :: string
  pb_project :: string
  pb_environment :: string
  pb_cluster :: string
  pb_system :: string
  pb_major :: int
  pb_image :: string
  pb_timeline :: int
  pb_segment_size :: int
  pb_started_at :: string
  pb_completed_at :: "string option"
  pb_start_lsn :: string
  pb_end_lsn :: string
  pb_start_wal :: string
  pb_end_wal :: string
  pb_artifacts :: "string list"
  pb_checksums :: "(string, string) dict"
  pb_sizes :: "(string, int) dict"
  pb_uri :: "string option"
  pb_status :: BaseStatus
  pb_verified_at :: "string option"
  pb_last_error :: "string option"

definition artifact_paths_field :: "string list \<Rightarrow> (string, string list) result" where
  "artifact_paths_field v = bindE (mapE artifact_path v) (\<lambda>ps.
     if distinct ps then Inr ps else Inl ''artifact_paths must not contain duplicates'')"

definition checksums_field :: "(string, string) dict \<Rightarrow> (string, (string, string) dict) result" where
  "checksums_field d = mapE (\<lambda>(p, h). bindE (artifact_path p) (\<lambda>q.
     bindE (sha256_field h (''checksums['' @ quoted p @ '']'')) (\<lambda>g. Inr (q, g)))) d"

definition sizes_field :: "(string, int) dict \<Rightarrow> (string, (string, int) dict) result" where
  "sizes_field d = mapE (\<lambda>(p, n). bindE (artifact_path p) (\<lambda>q.
     bindE (guardE (0 \<le> n) (''sizes['' @ quoted p @ ''] must be a nonnegative integer'')) (\<lambda>_. Inr (q, n)))) d"

definition segment_size_field :: "int \<Rightarrow> (string, int) result" where
  "segment_size_field n = bindE (between_field (1024 * 1024) (1024 * 1024 * 1024) n) (\<lambda>_.
     if n AND (n - 1) \<noteq> 0 then Inl ''wal_segment_size must be a power of two'' else Inr n)"

definition base_complaints :: "pitr_lib \<Rightarrow> PitrBaseBackupManifest \<Rightarrow> string list" where
  "base_complaints L m =
     complaint (safe_component (pb_ident m) ''base_backup_id'') @ complaint (safe_label (pb_project m) ''project'') @
     complaint (safe_component (pb_environment m) ''environment'') @ complaint (safe_component (pb_cluster m) ''cluster_id'') @
     complaint (system_identifier_field (pb_system m) ''system_identifier'') @
     complaint (between_field 10 99 (pb_major m)) @ complaint (image_field (pb_image m) ''postgres_image'') @
     complaint (between_field 1 0xFFFFFFFF (pb_timeline m)) @ complaint (segment_size_field (pb_segment_size m)) @
     complaint (timestamp_field L (pb_started_at m) ''started_at'') @
     complaint (optional (\<lambda>v. timestamp_field L v ''completed_at'') (pb_completed_at m)) @
     complaint (lsn_field (pb_start_lsn m) ''start_lsn'') @ complaint (lsn_field (pb_end_lsn m) ''end_lsn'') @
     complaint (wal_segment_field (pb_start_wal m) ''start_wal'') @ complaint (wal_segment_field (pb_end_wal m) ''end_wal'') @
     complaint (artifact_paths_field (pb_artifacts m)) @ complaint (checksums_field (pb_checksums m)) @
     complaint (sizes_field (pb_sizes m)) @ complaint (optional (\<lambda>v. remote_uri_field v ''remote_uri'') (pb_uri m)) @
     complaint (optional (\<lambda>v. timestamp_field L v ''verified_at'') (pb_verified_at m))"

definition stamp :: "pitr_lib \<Rightarrow> string \<Rightarrow> string" where
  "stamp L v = accepted (timestamp_field L v []) v"

definition normalized_base :: "pitr_lib \<Rightarrow> PitrBaseBackupManifest \<Rightarrow> PitrBaseBackupManifest" where
  "normalized_base L m = m\<lparr>pb_started_at := stamp L (pb_started_at m), pb_completed_at := map_option (stamp L) (pb_completed_at m),
     pb_start_lsn := py_upper (pb_start_lsn m), pb_end_lsn := py_upper (pb_end_lsn m),
     pb_start_wal := py_upper (pb_start_wal m), pb_end_wal := py_upper (pb_end_wal m),
     pb_checksums := map (\<lambda>(p, h). (p, py_lower h)) (pb_checksums m), pb_verified_at := map_option (stamp L) (pb_verified_at m)\<rparr>"

text \<open>\<open>completed_backups_must_be_recoverable\<close>; the timestamps are already normalized.\<close>

definition base_complaint :: "pitr_lib \<Rightarrow> PitrBaseBackupManifest \<Rightarrow> string option" where
  "base_complaint L m =
     (if int (hex_number (take 8 (pb_start_wal m))) \<noteq> pb_timeline m then Some ''start_wal timeline does not match timeline''
      else if int (hex_number (take 8 (pb_end_wal m))) \<noteq> pb_timeline m then Some ''end_wal timeline does not match timeline''
      else if (case pb_completed_at m of None \<Rightarrow> False
          | Some c \<Rightarrow> (case (aware_instant L (pb_started_at m), aware_instant L c) of (Some a, Some b) \<Rightarrow> b < a | _ \<Rightarrow> True))
        then Some ''completed_at must not be earlier than started_at''
      else if pb_status m = BASE_COMPLETE then
        (if pb_completed_at m = None \<or> pb_verified_at m = None \<or> pb_uri m = None
          then Some ''complete PITR base backups require completed_at, verified_at, and remote_uri''
        else if pb_artifacts m = [] then Some ''complete PITR base backups require artifact_paths''
        else if set (pb_artifacts m) \<noteq> fst ` set (pb_checksums m) \<or> set (pb_artifacts m) \<noteq> fst ` set (pb_sizes m)
          then Some ''complete PITR base backup artifact_paths, checksums, and sizes must identify the same artifacts''
        else None)
      else None)"

definition validate_base :: "pitr_lib \<Rightarrow> PitrBaseBackupManifest \<Rightarrow> (string, PitrBaseBackupManifest) result" where
  "validate_base L m = report_fields L (base_complaints L m) (base_complaint L (normalized_base L m)) (normalized_base L m)"

section \<open>Receipts\<close>

record WalReceipt =
  wr_project :: string
  wr_environment :: string
  wr_cluster :: string
  wr_system :: string
  wr_filename :: string
  wr_timeline :: int
  wr_sha :: string
  wr_size :: int
  wr_archived_at :: string
  wr_uri :: string

definition validate_receipt :: "pitr_lib \<Rightarrow> WalReceipt \<Rightarrow> (string, WalReceipt) result" where
  "validate_receipt L r =
     (let n = r\<lparr>wr_filename := py_upper (wr_filename r), wr_sha := py_lower (wr_sha r), wr_archived_at := stamp L (wr_archived_at r)\<rparr>
      in report_fields L
        (complaint (safe_label (wr_project r) ''project'') @ complaint (safe_component (wr_environment r) ''environment'') @
         complaint (safe_component (wr_cluster r) ''cluster_id'') @
         complaint (system_identifier_field (wr_system r) ''system_identifier'') @
         complaint (wal_archive_field (wr_filename r) ''filename'') @ complaint (between_field 1 0xFFFFFFFF (wr_timeline r)) @
         complaint (sha256_field (wr_sha r) ''sha256'') @ complaint (guardE (0 < wr_size r) ''Input should be greater than 0'') @
         complaint (timestamp_field L (wr_archived_at r) ''archived_at'') @ complaint (remote_uri_field (wr_uri r) ''remote_uri''))
        (if int (hex_number (take 8 (wr_filename n))) \<noteq> wr_timeline n
         then Some ''WAL receipt timeline does not match its filename'' else None) n)"

text \<open>\<open>_same_wal_object\<close>: everything but the time.\<close>

definition same_wal_object :: "WalReceipt \<Rightarrow> WalReceipt \<Rightarrow> bool" where
  "same_wal_object a b \<longleftrightarrow> a\<lparr>wr_archived_at := []\<rparr> = b\<lparr>wr_archived_at := []\<rparr>"

section \<open>Plans and restores\<close>

datatype PlanStatus = PLAN_PLANNED | PLAN_EXECUTING | PLAN_VERIFIED | PLAN_FAILED

record PitrRecoveryPlan =
  pp_ident :: string
  pp_project :: string
  pp_environment :: string
  pp_cluster :: string
  pp_system :: string
  pp_base :: string
  pp_database :: string
  pp_new_database :: string
  pp_target_time :: string
  pp_timeline :: int
  pp_first_wal :: string
  pp_last_wal :: string
  pp_wal_count :: int
  pp_wal_bytes :: int
  pp_image :: string
  pp_created_at :: string
  pp_status :: PlanStatus

definition validate_plan :: "pitr_lib \<Rightarrow> PitrRecoveryPlan \<Rightarrow> (string, PitrRecoveryPlan) result" where
  "validate_plan L p =
     (let n = p\<lparr>pp_target_time := stamp L (pp_target_time p), pp_first_wal := py_upper (pp_first_wal p),
            pp_last_wal := py_upper (pp_last_wal p), pp_created_at := stamp L (pp_created_at p)\<rparr>
      in report_fields L
        (complaint (safe_component (pp_ident p) ''plan_id'') @ complaint (safe_label (pp_project p) ''project'') @
         complaint (safe_component (pp_environment p) ''environment'') @ complaint (safe_component (pp_cluster p) ''cluster_id'') @
         complaint (system_identifier_field (pp_system p) ''system_identifier'') @
         complaint (safe_component (pp_base p) ''base_backup_id'') @ complaint (safe_component (pp_database p) ''database'') @
         complaint (safe_component (pp_new_database p) ''new_database'') @
         complaint (timestamp_field L (pp_target_time p) ''target_time'') @ complaint (between_field 1 0xFFFFFFFF (pp_timeline p)) @
         complaint (wal_segment_field (pp_first_wal p) ''first_wal'') @ complaint (wal_segment_field (pp_last_wal p) ''last_wal'') @
         complaint (at_least_field 1 (pp_wal_count p)) @ complaint (at_least_field 1 (pp_wal_bytes p)) @
         complaint (image_field (pp_image p) ''recovery_image'') @ complaint (timestamp_field L (pp_created_at p) ''created_at''))
        (if pp_new_database n = pp_database n then Some ''new_database must differ from the live database''
         else if int (hex_number (take 8 (pp_last_wal n))) \<noteq> pp_timeline n then Some ''last_wal timeline does not match target_timeline''
         else None) n)"

datatype RestoreStatus = RESTORE_PENDING | RESTORE_RECOVERING | RESTORE_VERIFIED | RESTORE_CUTOVER | RESTORE_FAILED

fun restore_status_text :: "RestoreStatus \<Rightarrow> string" where
  "restore_status_text RESTORE_PENDING = ''pending''"
| "restore_status_text RESTORE_RECOVERING = ''recovering''"
| "restore_status_text RESTORE_VERIFIED = ''verified''"
| "restore_status_text RESTORE_CUTOVER = ''cutover''"
| "restore_status_text RESTORE_FAILED = ''failed''"

record PitrRestoreMetadata =
  pr_ident :: string
  pr_plan :: string
  pr_base :: string
  pr_project :: string
  pr_environment :: string
  pr_cluster :: string
  pr_system :: string
  pr_database :: string
  pr_new_database :: string
  pr_target_time :: string
  pr_timeline :: int
  pr_timestamp :: string
  pr_recovered_at :: "string option"
  pr_recovered_lsn :: "string option"
  pr_verified :: bool
  pr_cutover :: bool
  pr_cutover_finalized :: bool
  pr_aside :: "string option"
  pr_incoming_oid :: "int option"
  pr_target_oid :: "int option"
  pr_cutover_started_at :: "string option"
  pr_cutover_completed_at :: "string option"
  pr_status :: RestoreStatus
  pr_last_error :: "string option"

definition restore_complaint :: "PitrRestoreMetadata \<Rightarrow> string option" where
  "restore_complaint m =
     (let planned = pr_aside m \<noteq> None in
      if pr_new_database m = pr_database m then Some ''new_database must differ from the live database''
      else if planned \<noteq> (pr_incoming_oid m \<noteq> None)
        then Some ''cutover_aside_database and cutover_incoming_oid must be recorded together''
      else if planned \<noteq> (pr_cutover_started_at m \<noteq> None)
        then Some ''cutover plan identity and cutover_started_at must be recorded together''
      else if pr_status m \<in> {RESTORE_VERIFIED, RESTORE_CUTOVER} \<and> \<not> pr_verified m
        then Some (restore_status_text (pr_status m) @ '' PITR restore metadata must be verified'')
      else if pr_status m = RESTORE_CUTOVER \<and> \<not> pr_cutover m then Some ''cutover PITR restore metadata must set cutover=true''
      else if pr_cutover m \<and> pr_status m \<noteq> RESTORE_CUTOVER then Some (''cutover=true requires status='' @ quoted ''cutover'')
      else if pr_cutover m \<and> \<not> planned then Some ''cutover=true requires durable cutover plan identity''
      else if pr_cutover m \<noteq> (pr_cutover_completed_at m \<noteq> None)
        then Some ''cutover and cutover_completed_at must be recorded together''
      else if pr_cutover_finalized m \<and> \<not> pr_cutover m then Some ''cutover_finalized=true requires cutover=true''
      else None)"

definition validate_restore :: "pitr_lib \<Rightarrow> PitrRestoreMetadata \<Rightarrow> (string, PitrRestoreMetadata) result" where
  "validate_restore L m =
     (let n = m\<lparr>pr_target_time := stamp L (pr_target_time m), pr_timestamp := stamp L (pr_timestamp m),
            pr_recovered_at := map_option (stamp L) (pr_recovered_at m), pr_recovered_lsn := map_option py_upper (pr_recovered_lsn m),
            pr_cutover_started_at := map_option (stamp L) (pr_cutover_started_at m),
            pr_cutover_completed_at := map_option (stamp L) (pr_cutover_completed_at m)\<rparr>;
          time = \<lambda>label. optional (\<lambda>v. timestamp_field L v label)
      in report_fields L
        (complaint (safe_component (pr_ident m) ''restore_id'') @ complaint (safe_component (pr_plan m) ''plan_id'') @
         complaint (safe_component (pr_base m) ''base_backup_id'') @ complaint (safe_label (pr_project m) ''project'') @
         complaint (safe_component (pr_environment m) ''environment'') @ complaint (safe_component (pr_cluster m) ''cluster_id'') @
         complaint (system_identifier_field (pr_system m) ''system_identifier'') @
         complaint (safe_component (pr_database m) ''database'') @ complaint (safe_component (pr_new_database m) ''new_database'') @
         complaint (timestamp_field L (pr_target_time m) ''target_time'') @ complaint (between_field 1 0xFFFFFFFF (pr_timeline m)) @
         complaint (timestamp_field L (pr_timestamp m) ''timestamp'') @ complaint (time ''recovered_at'' (pr_recovered_at m)) @
         complaint (optional (\<lambda>v. lsn_field v ''recovered_lsn'') (pr_recovered_lsn m)) @
         complaint (optional (\<lambda>v. safe_component v ''cutover_aside_database'') (pr_aside m)) @
         complaint (optional (between_field 1 0xFFFFFFFF) (pr_incoming_oid m)) @
         complaint (optional (between_field 1 0xFFFFFFFF) (pr_target_oid m)) @
         complaint (time ''cutover_started_at'' (pr_cutover_started_at m)) @
         complaint (time ''cutover_completed_at'' (pr_cutover_completed_at m)))
        (restore_complaint n) n)"

end
