(* ===== verification/Pitr_World.thy ===== *)
theory Pitr_World
  imports Pitr_Models Effects "HOL-Library.Product_Lexorder"
begin

text \<open>
  What point-in-time recovery works on: a bucket with a clock of its own, the local clock at
  some distance from it, and the metadata files of \<open>odooctl/metadata/store.py\<close>.  Every call to
  the provider and every write of a file takes its plan from \<open>pw_calls\<close>: how long it takes, what
  other hosts do to the bucket before it arrives, and its fate.  An exhausted list means no more
  of this.  A metadata file is replaced atomically; \<open>None\<close> stands for one that does not load.
\<close>

record wal_object =
  wo_body :: string
  wo_metadata :: "string option"
  wo_etag :: "string option"
  wo_modified :: "int option"

datatype change = Put_Object string wal_object | Drop_Object string

fun changed_key :: "change \<Rightarrow> string" where
  "changed_key (Put_Object k x) = k"
| "changed_key (Drop_Object k) = k"

fun apply_change :: "change \<Rightarrow> (string, wal_object) dict \<Rightarrow> (string, wal_object) dict" where
  "apply_change (Put_Object k x) b = dict_put k x b"
| "apply_change (Drop_Object k) b = dict_del k b"

record call_plan =
  cp_fate :: fate
  cp_elapsed :: nat
  cp_skew :: int
  cp_others :: "change list"
  cp_answered :: bool

text \<open>A proven lease of \<open>odooctl/adapters/wal_s3.py\<close>; \<open>pw_guard\<close> is the one this process works under.\<close>

record PitrCoordinationLease =
  cl_key :: string
  cl_ident :: string
  cl_owner :: string
  cl_purpose :: string
  cl_generation :: int
  cl_ttl :: int
  cl_etag :: string
  cl_acquired :: int
  cl_expires :: int
  cl_observed :: int

record pitr_world =
  pw_bucket :: "(string, wal_object) dict"
  pw_clock :: int
  pw_skew :: int
  pw_tick :: nat
  pw_calls :: "call_plan list"
  pw_bases :: "(string, PitrBaseBackupManifest option) dict"
  pw_receipts :: "(string \<times> string \<times> string, WalReceipt option) dict"
  pw_plans :: "(string, PitrRecoveryPlan option) dict"
  pw_restores :: "(string, PitrRestoreMetadata option) dict"
  pw_guard :: "PitrCoordinationLease option"

type_synonym 'a pitr = "(pitr_world, pitr_error, 'a) eff"

text \<open>
  Exceptions below the adapter: the provider's answers that there is no such object and that a
  condition does not hold, everything else it or the network does (with the time of the server
  when it answered), and exceptions of the adapter itself while it builds a request.
\<close>

datatype raw_error = RawNotFound int | RawConflict int | RawFailed "int option" | RawLocal string

type_synonym 'a raw_call = "(pitr_world, raw_error, 'a) eff"

definition next_call :: "pitr_world \<Rightarrow> call_plan \<times> pitr_world" where
  "next_call w = (case pw_calls w of
     [] \<Rightarrow> (\<lparr>cp_fate = Carried, cp_elapsed = 0, cp_skew = pw_skew w, cp_others = [], cp_answered = True\<rparr>, w)
   | p # ps \<Rightarrow> (p, w\<lparr>pw_calls := ps, pw_clock := pw_clock w + int (cp_elapsed p), pw_skew := cp_skew p,
       pw_bucket := fold apply_change (cp_others p) (pw_bucket w)\<rparr>))"

text \<open>The time in the provider's headers, in whole seconds.\<close>

definition SECOND :: int where "SECOND = 1000000"

definition header_time :: "pitr_world \<Rightarrow> int" where
  "header_time w = pw_clock w - pw_clock w mod SECOND"

definition provider :: "(pitr_world \<Rightarrow> (raw_error, 'a) result \<times> pitr_world) \<Rightarrow> 'a raw_call" where
  "provider act = (\<lambda>w. let (p, w1) = next_call w in
     eff_external (\<lambda>w. (cp_fate p, w)) (RawFailed (if cp_answered p then Some (header_time w1) else None)) act w1)"

definition local_file :: "(pitr_world \<Rightarrow> (pitr_error, 'a) result \<times> pitr_world) \<Rightarrow> 'a pitr" where
  "local_file act = (\<lambda>w. let (p, w1) = next_call w in
     eff_external (\<lambda>w. (cp_fate p, w)) (Failure PitrFileError ''[Errno 5] Input/output error'') act w1)"

text \<open>\<open>datetime.now(timezone.utc)\<close> on this host, and random texts.\<close>

definition local_now :: "int pitr" where
  "local_now = eff_read (\<lambda>w. pw_clock w + pw_skew w)"

definition random_text :: "pitr_lib \<Rightarrow> string pitr" where
  "random_text L = (\<lambda>w. (Inr (pl_token L (pw_tick w)), w\<lparr>pw_tick := Suc (pw_tick w)\<rparr>))"

definition random_uuid :: "pitr_lib \<Rightarrow> string pitr" where
  "random_uuid L = (\<lambda>w. (Inr (pl_uuid L (pw_tick w)), w\<lparr>pw_tick := Suc (pw_tick w)\<rparr>))"

section \<open>The metadata files\<close>

definition runtime_failure :: "string \<Rightarrow> pitr_error" where
  "runtime_failure t = Failure PitrRuntimeError t"

definition safe_pitr_component :: "string \<Rightarrow> string \<Rightarrow> string checked" where
  "safe_pitr_component v label = (if v = [] \<or> 128 < length v \<or> v = ''.'' \<or> contains_str ''..'' v \<or> \<not> list_all name_char v
     then Inl (pitr_value_error (label @ '' contains unsupported characters'')) else Inr v)"

definition safe_system_identifier :: "string \<Rightarrow> string checked" where
  "safe_system_identifier v = (if v = [] \<or> 20 < length v \<or> hd v = CHR ''0'' \<or> \<not> list_all is_digit v
     then Inl (pitr_value_error ''system_identifier must be a decimal PostgreSQL system identifier'') else Inr v)"

text \<open>
  \<open>_load_pitr_model\<close>: the text of the error ends in the validation library's report.  Messages
  name a file by its stem where the code has its whole path.
\<close>

definition load_model ::
  "pitr_lib \<Rightarrow> ('m \<Rightarrow> (string, 'm) result) \<Rightarrow> string \<Rightarrow> string \<Rightarrow> 'm option option \<Rightarrow> 'm checked" where
  "load_model L check label stem found = (case found of
     None \<Rightarrow> Inl (runtime_failure (label @ '' not found: '' @ stem))
   | Some None \<Rightarrow> Inl (runtime_failure (label @ '' is invalid: '' @ stem @ '': '' @ pl_report L [''Invalid JSON'']))
   | Some (Some m) \<Rightarrow> (case check m of
       Inl t \<Rightarrow> Inl (runtime_failure (label @ '' is invalid: '' @ stem @ '': '' @ t)) | Inr m' \<Rightarrow> Inr m'))"

text \<open>\<open>_guard_existing_pitr_identity\<close>.\<close>

definition guard_identity ::
  "pitr_lib \<Rightarrow> ('m \<Rightarrow> (string, 'm) result) \<Rightarrow> ('m \<Rightarrow> string list) \<Rightarrow> string \<Rightarrow> string \<Rightarrow> 'm option option \<Rightarrow> 'm \<Rightarrow> unit checked" where
  "guard_identity L check identity class_name stem found m =
     (if found = None then Inr ()
      else bindE (load_model L check class_name stem found) (\<lambda>current.
        guardE (identity current = identity m)
          (runtime_failure (class_name @ '' identity conflict at '' @ quoted (stem @ ''.json'')))))"

definition base_identity :: "PitrBaseBackupManifest \<Rightarrow> string list" where
  "base_identity m = [pb_ident m, pb_project m, pb_environment m, pb_cluster m, pb_system m]"

definition save_pitr_base_manifest :: "pitr_lib \<Rightarrow> PitrBaseBackupManifest \<Rightarrow> unit pitr" where
  "save_pitr_base_manifest L m =
     eff_bind (eff_lift (safe_pitr_component (pb_ident m) ''base_backup_id'')) (\<lambda>stem.
     eff_bind (eff_read (\<lambda>w. guard_identity L (validate_base L) base_identity ''PitrBaseBackupManifest'' stem (dict_get (pw_bases w) stem) m)) (\<lambda>r.
     eff_bind (eff_lift r) (\<lambda>_.
     local_file (\<lambda>w. (Inr (), w\<lparr>pw_bases := dict_put stem (Some m) (pw_bases w)\<rparr>)))))"

definition get_pitr_base_manifest :: "pitr_lib \<Rightarrow> pitr_world \<Rightarrow> string \<Rightarrow> PitrBaseBackupManifest checked" where
  "get_pitr_base_manifest L w i =
     bindE (safe_pitr_component i ''base_backup_id'') (\<lambda>stem.
     bindE (load_model L (validate_base L) ''PITR base backup manifest'' stem (dict_get (pw_bases w) stem)) (\<lambda>m.
     bindE (guardE (pb_ident m = i) (runtime_failure (''PITR base backup manifest identity mismatch: requested '' @ quoted i @
       '', payload contains '' @ quoted (pb_ident m)))) (\<lambda>_. Inr m)))"

text \<open>The newest first: \<open>completed_at or started_at\<close>, then the name; as Python compares the texts.\<close>

definition base_order :: "PitrBaseBackupManifest \<Rightarrow> string \<times> string" where
  "base_order m = (case pb_completed_at m of Some (c # cs) \<Rightarrow> c # cs | _ \<Rightarrow> pb_started_at m, pb_ident m)"

text \<open>Every file of a directory must load and carry the name it is stored under.\<close>

definition load_all ::
  "pitr_lib \<Rightarrow> ('m \<Rightarrow> (string, 'm) result) \<Rightarrow> ('m \<Rightarrow> string) \<Rightarrow> string \<Rightarrow> (string, 'm option) dict \<Rightarrow> 'm list checked" where
  "load_all L check ident label d = mapE (\<lambda>(stem, x).
     bindE (load_model L check label stem (Some x)) (\<lambda>m.
     bindE (guardE (ident m = stem) (runtime_failure (label @ '' identity mismatch: file '' @ quoted (stem @ ''.json'') @
       '' contains '' @ quoted (ident m)))) (\<lambda>_. Inr m))) d"

text \<open>\<open>sorted(..., reverse=True)\<close> keeps equal elements in their order.\<close>

definition sort_down :: "('a \<Rightarrow> 'k::linorder) \<Rightarrow> 'a list \<Rightarrow> 'a list" where
  "sort_down key xs = rev (sort_key key (rev xs))"

definition list_pitr_base_manifests ::
  "pitr_lib \<Rightarrow> pitr_world \<Rightarrow> string option \<Rightarrow> string option \<Rightarrow> string option \<Rightarrow> PitrBaseBackupManifest list checked" where
  "list_pitr_base_manifests L w environment cluster system =
     bindE (case environment of None \<Rightarrow> Inr [] | Some v \<Rightarrow> safe_pitr_component v ''environment'') (\<lambda>_.
     bindE (case cluster of None \<Rightarrow> Inr [] | Some v \<Rightarrow> safe_pitr_component v ''cluster_id'') (\<lambda>_.
     bindE (case system of None \<Rightarrow> Inr [] | Some v \<Rightarrow> safe_system_identifier v) (\<lambda>_.
     bindE (load_all L (validate_base L) pb_ident ''PITR base backup manifest'' (pw_bases w)) (\<lambda>ms.
     Inr (sort_down base_order (filter (\<lambda>m. (environment = None \<or> environment = Some (pb_environment m)) \<and>
       (cluster = None \<or> cluster = Some (pb_cluster m)) \<and> (system = None \<or> system = Some (pb_system m))) ms))))))"

section \<open>Receipts\<close>

definition tuple_text :: "string list \<Rightarrow> string" where
  "tuple_text vs = ''('' @ join_with '', '' (map quoted vs) @ '')''"

definition receipt_path :: "string \<Rightarrow> string \<Rightarrow> string \<Rightarrow> (string \<times> string \<times> string) checked" where
  "receipt_path cluster system filename =
     bindE (safe_pitr_component cluster ''cluster_id'') (\<lambda>c.
     bindE (safe_system_identifier system) (\<lambda>s.
     bindE (safe_pitr_component filename ''filename'') (\<lambda>f. Inr (c, s, f))))"

text \<open>\<open>_write_immutable\<close> publishes a receipt once; what is there already is returned.\<close>

definition write_immutable :: "string \<times> string \<times> string \<Rightarrow> WalReceipt \<Rightarrow> WalReceipt option option pitr" where
  "write_immutable k r = local_file (\<lambda>w. case dict_get (pw_receipts w) k of
     None \<Rightarrow> (Inr None, w\<lparr>pw_receipts := dict_put k (Some r) (pw_receipts w)\<rparr>)
   | Some x \<Rightarrow> (Inr (Some x), w))"

definition save_wal_receipt :: "pitr_lib \<Rightarrow> WalReceipt \<Rightarrow> unit pitr" where
  "save_wal_receipt L r =
     eff_bind (eff_lift (receipt_path (wr_cluster r) (wr_system r) (wr_filename r))) (\<lambda>k.
     eff_bind (write_immutable k r) (\<lambda>existing.
     case existing of
       None \<Rightarrow> eff_return ()
     | Some x \<Rightarrow> (case (case x of None \<Rightarrow> Inl [] | Some m \<Rightarrow> validate_receipt L m) of
         Inl _ \<Rightarrow> eff_raise (runtime_failure (''Existing WAL receipt is invalid and cannot be replaced: '' @ wr_filename r @ ''.json''))
       | Inr current \<Rightarrow> eff_check (current = r) (runtime_failure
           (''Conflicting WAL receipt cannot overwrite immutable receipt for '' @ quoted (wr_filename r))))))"

definition get_wal_receipt :: "pitr_lib \<Rightarrow> pitr_world \<Rightarrow> string \<Rightarrow> string \<Rightarrow> string \<Rightarrow> WalReceipt checked" where
  "get_wal_receipt L w cluster system filename =
     bindE (receipt_path cluster system filename) (\<lambda>k.
     bindE (load_model L (validate_receipt L) ''WAL receipt'' filename (dict_get (pw_receipts w) k)) (\<lambda>r.
     bindE (guardE ((wr_cluster r, wr_system r, wr_filename r) = (cluster, system, filename))
       (runtime_failure (''WAL receipt identity mismatch: requested '' @ tuple_text [cluster, system, filename] @
         '', payload contains '' @ tuple_text [wr_cluster r, wr_system r, wr_filename r]))) (\<lambda>_. Inr r)))"

definition find_wal_receipt :: "pitr_lib \<Rightarrow> pitr_world \<Rightarrow> string \<Rightarrow> string \<Rightarrow> string \<Rightarrow> WalReceipt option checked" where
  "find_wal_receipt L w cluster system filename =
     bindE (receipt_path cluster system filename) (\<lambda>k.
     if dict_get (pw_receipts w) k = None then Inr None
     else bindE (get_wal_receipt L w cluster system filename) (\<lambda>r. Inr (Some r)))"

definition list_wal_receipts ::
  "pitr_lib \<Rightarrow> pitr_world \<Rightarrow> string option \<Rightarrow> string option \<Rightarrow> string option \<Rightarrow> WalReceipt list checked" where
  "list_wal_receipts L w environment cluster system =
     bindE (case environment of None \<Rightarrow> Inr [] | Some v \<Rightarrow> safe_pitr_component v ''environment'') (\<lambda>_.
     bindE (case cluster of None \<Rightarrow> Inr [] | Some v \<Rightarrow> safe_pitr_component v ''cluster_id'') (\<lambda>_.
     bindE (case system of None \<Rightarrow> Inr [] | Some v \<Rightarrow> safe_system_identifier v) (\<lambda>_.
     bindE (mapE (\<lambda>((c, s, f), x). bindE (load_model L (validate_receipt L) ''WAL receipt'' f (Some x)) (\<lambda>r.
         bindE (guardE ((wr_cluster r, wr_system r, wr_filename r) = (c, s, f))
           (runtime_failure (''WAL receipt identity mismatch: file '' @ quoted (join_with ''/'' [c, s, f @ ''.json'']) @
             '' contains '' @ tuple_text [wr_cluster r, wr_system r, wr_filename r]))) (\<lambda>_. Inr r))) (pw_receipts w)) (\<lambda>rs.
     Inr (sort_down (\<lambda>r. (wr_archived_at r, wr_filename r)) (filter (\<lambda>r. (environment = None \<or> environment = Some (wr_environment r)) \<and>
       (cluster = None \<or> cluster = Some (wr_cluster r)) \<and> (system = None \<or> system = Some (wr_system r))) rs))))))"

section \<open>Plans and restores\<close>

definition plan_identity :: "PitrRecoveryPlan \<Rightarrow> string list" where
  "plan_identity p = [pp_ident p, pp_project p, pp_environment p, pp_cluster p, pp_system p, pp_base p]"

definition save_pitr_recovery_plan :: "pitr_lib \<Rightarrow> PitrRecoveryPlan \<Rightarrow> unit pitr" where
  "save_pitr_recovery_plan L p =
     eff_bind (eff_lift (safe_pitr_component (pp_ident p) ''plan_id'')) (\<lambda>stem.
     eff_bind (eff_read (\<lambda>w. guard_identity L (validate_plan L) plan_identity ''PitrRecoveryPlan'' stem (dict_get (pw_plans w) stem) p)) (\<lambda>r.
     eff_bind (eff_lift r) (\<lambda>_.
     local_file (\<lambda>w. (Inr (), w\<lparr>pw_plans := dict_put stem (Some p) (pw_plans w)\<rparr>)))))"

definition get_pitr_recovery_plan :: "pitr_lib \<Rightarrow> pitr_world \<Rightarrow> string \<Rightarrow> PitrRecoveryPlan checked" where
  "get_pitr_recovery_plan L w i =
     bindE (safe_pitr_component i ''plan_id'') (\<lambda>stem.
     bindE (load_model L (validate_plan L) ''PITR recovery plan'' stem (dict_get (pw_plans w) stem)) (\<lambda>p.
     bindE (guardE (pp_ident p = i) (runtime_failure (''PITR recovery plan identity mismatch: requested '' @ quoted i @
       '', payload contains '' @ quoted (pp_ident p)))) (\<lambda>_. Inr p)))"

definition list_pitr_recovery_plans :: "pitr_lib \<Rightarrow> pitr_world \<Rightarrow> string option \<Rightarrow> PitrRecoveryPlan list checked" where
  "list_pitr_recovery_plans L w environment =
     bindE (case environment of None \<Rightarrow> Inr [] | Some v \<Rightarrow> safe_pitr_component v ''environment'') (\<lambda>_.
     bindE (load_all L (validate_plan L) pp_ident ''PITR recovery plan'' (pw_plans w)) (\<lambda>ps.
     Inr (sort_down (\<lambda>p. (pp_created_at p, pp_ident p))
       (filter (\<lambda>p. environment = None \<or> environment = Some (pp_environment p)) ps))))"

definition restore_identity :: "PitrRestoreMetadata \<Rightarrow> string list" where
  "restore_identity m = [pr_ident m, pr_plan m, pr_base m, pr_project m, pr_environment m, pr_cluster m, pr_system m]"

definition save_pitr_restore :: "pitr_lib \<Rightarrow> PitrRestoreMetadata \<Rightarrow> unit pitr" where
  "save_pitr_restore L m =
     eff_bind (eff_lift (safe_pitr_component (pr_ident m) ''restore_id'')) (\<lambda>stem.
     eff_bind (eff_read (\<lambda>w. guard_identity L (validate_restore L) restore_identity ''PitrRestoreMetadata'' stem
       (dict_get (pw_restores w) stem) m)) (\<lambda>r.
     eff_bind (eff_lift r) (\<lambda>_.
     local_file (\<lambda>w. (Inr (), w\<lparr>pw_restores := dict_put stem (Some m) (pw_restores w)\<rparr>)))))"

definition get_pitr_restore :: "pitr_lib \<Rightarrow> pitr_world \<Rightarrow> string \<Rightarrow> PitrRestoreMetadata checked" where
  "get_pitr_restore L w i =
     bindE (safe_pitr_component i ''restore_id'') (\<lambda>stem.
     bindE (load_model L (validate_restore L) ''PITR restore metadata'' stem (dict_get (pw_restores w) stem)) (\<lambda>m.
     bindE (guardE (pr_ident m = i) (runtime_failure (''PITR restore metadata identity mismatch: requested '' @ quoted i @
       '', payload contains '' @ quoted (pr_ident m)))) (\<lambda>_. Inr m)))"

definition list_pitr_restores :: "pitr_lib \<Rightarrow> pitr_world \<Rightarrow> string option \<Rightarrow> PitrRestoreMetadata list checked" where
  "list_pitr_restores L w environment =
     bindE (case environment of None \<Rightarrow> Inr [] | Some v \<Rightarrow> safe_pitr_component v ''environment'') (\<lambda>_.
     bindE (load_all L (validate_restore L) pr_ident ''PITR restore metadata'' (pw_restores w)) (\<lambda>ms.
     Inr (sort_down (\<lambda>m. (pr_timestamp m, pr_ident m))
       (filter (\<lambda>m. environment = None \<or> environment = Some (pr_environment m)) ms))))"

end
