(* ===== verification/Wal_S3.thy ===== *)
theory Wal_S3
  imports Pitr_World Filestore_Objects
begin

text \<open>
  \<open>odooctl/adapters/wal_s3.py\<close>, the archive: its scope of keys, verified reads, create-only
  writes, listings, WAL files and base backups.  The settings of the client
  (\<open>_client\<close>, \<open>_sse_args\<close>, the values to be redacted) and the text of a provider's exception are
  part of the adapter.  Local files are given by their bytes, or as no regular file.
\<close>

record wal_adapter =
  wa_bucket :: string
  wa_prefix :: "string option"
  wa_project :: string
  wa_cluster :: string
  wa_system :: string
  wa_client :: "unit checked"
  wa_sse :: "unit checked"
  wa_secrets :: "string list"
  wa_detail :: "raw_error \<Rightarrow> string"

definition BASE_COMPLETION_MARKER :: string where "BASE_COMPLETION_MARKER = ''manifest.json''"
definition MAX_MANIFEST_BYTES :: int where "MAX_MANIFEST_BYTES = 8 * 1024 * 1024"
definition MAX_PIN_BYTES :: int where "MAX_PIN_BYTES = 32 * 1024 * 1024"

definition wal_configuration :: "string \<Rightarrow> pitr_error" where
  "wal_configuration t = Failure WalS3ConfigurationError t"

definition wal_integrity :: "string \<Rightarrow> pitr_error" where
  "wal_integrity t = Failure WalS3IntegrityError t"

definition wal_lease_error :: "string \<Rightarrow> pitr_error" where
  "wal_lease_error t = Failure WalS3LeaseError t"

text \<open>The subclasses of \<open>WalS3IntegrityError\<close>.\<close>

definition integrity_class :: "pitr_class \<Rightarrow> bool" where
  "integrity_class c \<longleftrightarrow> c \<in> {WalS3IntegrityError, WalS3ConflictError, WalS3PinError}"

section \<open>The scope\<close>

definition wal_project :: "string \<Rightarrow> string checked" where
  "wal_project v = (if py_strip v = [] \<or> list_ex control_char v
     then Inl (wal_configuration ''project must be a non-empty printable string'') else Inr v)"

text \<open>\<open>[A-Za-z0-9][A-Za-z0-9._-]{0,191}\<close>.\<close>

definition wal_component_ok :: "string \<Rightarrow> bool" where
  "wal_component_ok s \<longleftrightarrow> s \<noteq> [] \<and> alnum (hd s) \<and> list_all name_char s \<and> length s \<le> 192"

definition wal_component :: "string \<Rightarrow> string \<Rightarrow> string checked" where
  "wal_component v label = (if wal_component_ok v then Inr v
     else Inl (wal_configuration (label @ '' must be one safe identifier component'')))"

text \<open>\<open>[A-Za-z0-9][A-Za-z0-9._:/@-]{0,255}\<close>.\<close>

definition printable_label :: "string \<Rightarrow> string \<Rightarrow> string checked" where
  "printable_label v label =
     (if v \<noteq> [] \<and> alnum (hd v) \<and> list_all (\<lambda>c. name_char c \<or> c \<in> {CHR '':'', CHR ''/'', CHR ''@''}) v \<and> length v \<le> 256
      then Inr v else Inl (wal_configuration (label @ '' must be a non-empty printable string'')))"

definition wal_system_identifier :: "string \<Rightarrow> string checked" where
  "wal_system_identifier v = (if v \<noteq> [] \<and> length v \<le> 32 \<and> list_all is_digit v then Inr v
     else Inl (wal_configuration ''system_identifier must be a PostgreSQL decimal system identifier''))"

definition make_wal_s3 ::
  "string \<Rightarrow> string option \<Rightarrow> string \<Rightarrow> string \<Rightarrow> string \<Rightarrow> unit checked \<Rightarrow> unit checked \<Rightarrow> string list \<Rightarrow> (raw_error \<Rightarrow> string) \<Rightarrow>
   wal_adapter checked" where
  "make_wal_s3 bucket config_prefix project cluster system client sse secrets detail =
     bindE (wal_project project) (\<lambda>p.
     bindE (wal_component cluster ''cluster_id'') (\<lambda>c.
     bindE (wal_system_identifier system) (\<lambda>s.
     Inr \<lparr>wa_bucket = bucket, wa_prefix = config_prefix, wa_project = p, wa_cluster = c, wa_system = s, wa_client = client,
       wa_sse = sse, wa_secrets = secrets, wa_detail = detail\<rparr>)))"

definition wal_base_id :: "string \<Rightarrow> string checked" where
  "wal_base_id v = (if wal_component_ok v then Inr v else Inl (path_error ''base_backup_id must be one safe path component''))"

definition wal_relative_path :: "string \<Rightarrow> string checked" where
  "wal_relative_path v =
     (if v = [] \<or> v = ''.'' \<or> v = ''..'' \<or> starts_with ''/'' v \<or> ends_with ''/'' v \<or> CHR 0x5C \<in> set v \<or> CHR 0x00 \<in> set v \<or>
         list_ex (\<lambda>p. p = ''..'' \<or> list_ex control_char p) (path_parts v)
      then Inl (path_error ''base artifact path must be a safe relative POSIX path'') else Inr (posix_text (path_parts v)))"

definition wal_bucket :: "wal_adapter \<Rightarrow> string checked" where
  "wal_bucket A = (let v = wa_bucket A in
     if v = [] \<or> py_strip v \<noteq> v \<or> v = ''.'' \<or> v = ''..'' \<or> CHR ''/'' \<in> set v \<or> CHR 0x5C \<in> set v \<or> list_ex control_char v
     then Inl (wal_configuration ''WAL archive bucket must be a non-empty bucket name'') else Inr v)"

definition strip_right :: "char \<Rightarrow> string \<Rightarrow> string" where
  "strip_right c s = rev (dropWhile ((=) c) (rev s))"

definition wal_prefix_parts :: "wal_adapter \<Rightarrow> string list checked" where
  "wal_prefix_parts A = (case wa_prefix A of
     None \<Rightarrow> Inr []
   | Some raw \<Rightarrow>
       if starts_with ''/'' raw \<or> CHR 0x5C \<in> set raw \<or> CHR 0x00 \<in> set raw
       then Inl (wal_configuration ''WAL archive prefix must be a safe relative POSIX prefix'')
       else let n = strip_right (CHR ''/'') raw in
         if n = [] then Inr []
         else if list_ex (\<lambda>p. p = [] \<or> p = ''.'' \<or> p = ''..'' \<or> list_ex control_char p) (split_on (CHR ''/'') n)
         then Inl (wal_configuration ''WAL archive prefix contains unsafe path segments'')
         else Inr (split_on (CHR ''/'') n))"

definition wal_namespace :: "pitr_lib \<Rightarrow> wal_adapter \<Rightarrow> string" where
  "wal_namespace L A =
     (let s = take 32 (strip_char (CHR ''-'') (slug False (py_lower (wa_project A))))
      in (if s = [] then ''project'' else s) @ ''-'' @ take 24 (pl_sha L (utf8_encode (wa_project A))))"

definition scope_prefix :: "pitr_lib \<Rightarrow> wal_adapter \<Rightarrow> string checked" where
  "scope_prefix L A = bindE (wal_prefix_parts A) (\<lambda>ps.
     Inr (join_with ''/'' (ps @ [''projects'', wal_namespace L A, ''clusters'', wa_cluster A, wa_system A])))"

definition below_scope :: "pitr_lib \<Rightarrow> wal_adapter \<Rightarrow> string \<Rightarrow> string checked" where
  "below_scope L A t = bindE (scope_prefix L A) (\<lambda>s. Inr (s @ ''/'' @ t))"

definition wal_key :: "pitr_lib \<Rightarrow> wal_adapter \<Rightarrow> string \<Rightarrow> string checked" where
  "wal_key L A filename = bindE (below_scope L A ''wal'') (\<lambda>p.
     bindE (validate_archive_name filename) (\<lambda>f. Inr (p @ ''/'' @ f)))"

definition base_prefix :: "pitr_lib \<Rightarrow> wal_adapter \<Rightarrow> string \<Rightarrow> string checked" where
  "base_prefix L A ident = bindE (below_scope L A ''bases'') (\<lambda>p. bindE (wal_base_id ident) (\<lambda>i. Inr (p @ ''/'' @ i)))"

definition base_manifest_key :: "pitr_lib \<Rightarrow> wal_adapter \<Rightarrow> string \<Rightarrow> string checked" where
  "base_manifest_key L A ident = bindE (base_prefix L A ident) (\<lambda>p. Inr (p @ ''/'' @ BASE_COMPLETION_MARKER))"

definition base_object_key :: "pitr_lib \<Rightarrow> wal_adapter \<Rightarrow> string \<Rightarrow> string \<Rightarrow> string checked" where
  "base_object_key L A ident rel = bindE (wal_relative_path rel) (\<lambda>r. bindE (base_prefix L A ident) (\<lambda>p. Inr (p @ ''/'' @ r)))"

section \<open>Calls to the provider\<close>

definition raw_not_found :: "raw_error \<Rightarrow> bool" where
  "raw_not_found e \<longleftrightarrow> (case e of RawNotFound _ \<Rightarrow> True | _ \<Rightarrow> False)"

definition conditional_conflict :: "raw_error \<Rightarrow> bool" where
  "conditional_conflict e \<longleftrightarrow> (case e of RawConflict _ \<Rightarrow> True | _ \<Rightarrow> False)"

definition wal_provider_error :: "wal_adapter \<Rightarrow> string \<Rightarrow> raw_error \<Rightarrow> pitr_error" where
  "wal_provider_error A op e = Failure WalS3ProviderError
     (''S3 '' @ op @ '' failed: '' @ redact_text (case e of RawLocal t \<Rightarrow> t | _ \<Rightarrow> wa_detail A e) (wa_secrets A))"

text \<open>The bucket's name is computed while the request is built, inside the \<open>try\<close> around the call.\<close>

definition request :: "wal_adapter \<Rightarrow> (pitr_world \<Rightarrow> (raw_error, 'a) result \<times> pitr_world) \<Rightarrow> 'a raw_call" where
  "request A act = (case wal_bucket A of Inl e \<Rightarrow> eff_raise (RawLocal (failure_text e)) | Inr _ \<Rightarrow> provider act)"

definition raw_head :: "wal_adapter \<Rightarrow> string \<Rightarrow> (wal_object \<times> int) raw_call" where
  "raw_head A k = request A (\<lambda>w. (case dict_get (pw_bucket w) k of
     None \<Rightarrow> Inl (RawNotFound (header_time w)) | Some x \<Rightarrow> Inr (x, header_time w), w))"

definition raw_get :: "wal_adapter \<Rightarrow> string \<Rightarrow> string raw_call" where
  "raw_get A k = request A (\<lambda>w. (case dict_get (pw_bucket w) k of
     None \<Rightarrow> Inl (RawNotFound (header_time w)) | Some x \<Rightarrow> Inr (wo_body x), w))"

datatype write_condition = If_Absent | If_Etag string

definition write_allowed :: "write_condition \<Rightarrow> wal_object option \<Rightarrow> bool" where
  "write_allowed c x = (case c of If_Absent \<Rightarrow> x = None
     | If_Etag e \<Rightarrow> (case x of None \<Rightarrow> False | Some y \<Rightarrow> wo_etag y = Some e))"

definition new_object :: "pitr_lib \<Rightarrow> string \<Rightarrow> int \<Rightarrow> wal_object" where
  "new_object L body now = \<lparr>wo_body = body, wo_metadata = Some (pl_sha L body), wo_etag = Some (pl_etag L body), wo_modified = Some now\<rparr>"

definition raw_put :: "pitr_lib \<Rightarrow> wal_adapter \<Rightarrow> string \<Rightarrow> string \<Rightarrow> write_condition \<Rightarrow> unit raw_call" where
  "raw_put L A k body c = (case wal_bucket A of
     Inl e \<Rightarrow> eff_raise (RawLocal (failure_text e))
   | Inr _ \<Rightarrow> (case wa_sse A of
       Inl e \<Rightarrow> eff_raise (RawLocal (failure_text e))
     | Inr _ \<Rightarrow> request A (\<lambda>w. if write_allowed c (dict_get (pw_bucket w) k)
         then (Inr (), w\<lparr>pw_bucket := dict_put k (new_object L body (header_time w)) (pw_bucket w)\<rparr>)
         else (Inl (RawConflict (header_time w)), w))))"

definition raw_delete :: "wal_adapter \<Rightarrow> string \<Rightarrow> string option \<Rightarrow> unit raw_call" where
  "raw_delete A k etag = request A (\<lambda>w. case etag of
     None \<Rightarrow> (Inr (), w\<lparr>pw_bucket := dict_del k (pw_bucket w)\<rparr>)
   | Some e \<Rightarrow> (case dict_get (pw_bucket w) k of
       None \<Rightarrow> (Inl (RawNotFound (header_time w)), w)
     | Some x \<Rightarrow> if wo_etag x = Some e then (Inr (), w\<lparr>pw_bucket := dict_del k (pw_bucket w)\<rparr>)
         else (Inl (RawConflict (header_time w)), w)))"

text \<open>One page of a listing: the keys after \<open>token\<close>, at most \<open>pl_page\<close> of them and at least one, and whether there are more.\<close>

definition page_of ::
  "nat \<Rightarrow> string \<Rightarrow> string option \<Rightarrow> (string, wal_object) dict \<Rightarrow> (string \<times> int \<times> int option) list \<times> bool" where
  "page_of n pre token b =
     (let ks = filter (\<lambda>k. starts_with pre k \<and> (case token of None \<Rightarrow> True | Some t \<Rightarrow> t < k)) (sort (remdups (map fst b)))
      in (map (\<lambda>k. case dict_get b k of None \<Rightarrow> (k, 0, None) | Some x \<Rightarrow> (k, int (length (wo_body x)), wo_modified x)) (take (Suc n) ks),
          Suc n < length ks))"

definition raw_list :: "pitr_lib \<Rightarrow> wal_adapter \<Rightarrow> string \<Rightarrow> string option \<Rightarrow> ((string \<times> int \<times> int option) list \<times> bool) raw_call" where
  "raw_list L A pre token = request A (\<lambda>w. (Inr (page_of (pl_page L) pre token (pw_bucket w)), w))"

section \<open>Verified reads\<close>

record WalObjectInfo =
  wi_key :: string
  wi_size :: int
  wi_sha :: string
  wi_etag :: "string option"
  wi_modified :: "int option"

definition metadata_digest :: "wal_object \<Rightarrow> string option" where
  "metadata_digest x = (case wo_metadata x of None \<Rightarrow> None
     | Some v \<Rightarrow> if is_sha256 (py_lower v) then Some (py_lower v) else None)"

definition head_info :: "string \<Rightarrow> wal_object \<Rightarrow> WalObjectInfo checked" where
  "head_info k x = (case metadata_digest x of
     None \<Rightarrow> Inl (wal_integrity (''S3 object '' @ quoted k @ '' has no valid SHA-256 metadata''))
   | Some d \<Rightarrow> Inr \<lparr>wi_key = k, wi_size = int (length (wo_body x)), wi_sha = d, wi_etag = wo_etag x, wi_modified = wo_modified x\<rparr>)"

definition missing_object :: "string \<Rightarrow> pitr_error" where
  "missing_object k = Failure ObjectNotFound k"

definition wal_head :: "wal_adapter \<Rightarrow> string \<Rightarrow> WalObjectInfo pitr" where
  "wal_head A k = eff_bind (eff_lift (wa_client A)) (\<lambda>_.
     eff_match (raw_head A k) (\<lambda>(x, _). eff_lift (head_info k x))
       (\<lambda>e. eff_raise (if raw_not_found e then missing_object k else wal_provider_error A (''head '' @ k) e)))"

definition open_remote_body :: "wal_adapter \<Rightarrow> string \<Rightarrow> string pitr" where
  "open_remote_body A k = eff_bind (eff_lift (wa_client A)) (\<lambda>_.
     eff_match (raw_get A k) eff_return
       (\<lambda>e. eff_raise (if raw_not_found e then missing_object k else wal_provider_error A (''read '' @ k) e)))"

definition wal_read ::
  "pitr_lib \<Rightarrow> wal_adapter \<Rightarrow> string \<Rightarrow> string option \<Rightarrow> int option \<Rightarrow> int option \<Rightarrow> (WalObjectInfo \<times> string) pitr" where
  "wal_read L A k expected_sha expected_size max_bytes =
     eff_bind (wal_head A k) (\<lambda>i.
     let digest = (case expected_sha of None \<Rightarrow> wi_sha i | Some d \<Rightarrow> py_lower d);
         too_big = wal_integrity (''S3 object '' @ quoted k @ '' exceeds the size limit'') in
     eff_bind (eff_check (is_sha256 digest) (wal_integrity (''invalid expected checksum for '' @ quoted k))) (\<lambda>_.
     eff_bind (eff_check (wi_sha i = digest) (wal_integrity (''S3 object '' @ quoted k @ '' checksum metadata mismatch''))) (\<lambda>_.
     eff_bind (eff_check (case expected_size of None \<Rightarrow> True | Some n \<Rightarrow> wi_size i = n)
       (wal_integrity (''S3 object '' @ quoted k @ '' size mismatch: expected '' @ int_str (the expected_size) @ '', got '' @ int_str (wi_size i)))) (\<lambda>_.
     eff_bind (eff_check (case max_bytes of None \<Rightarrow> True | Some n \<Rightarrow> wi_size i \<le> n) too_big) (\<lambda>_.
     eff_bind (open_remote_body A k) (\<lambda>body.
     eff_bind (eff_check (case max_bytes of None \<Rightarrow> True | Some n \<Rightarrow> int (length body) \<le> n) too_big) (\<lambda>_.
     eff_bind (eff_check (int (length body) = wi_size i \<and> pl_sha L body = digest)
       (wal_integrity (''S3 object '' @ quoted k @ '' content checksum mismatch''))) (\<lambda>_.
     eff_return (i, body)))))))))"

section \<open>Create-only writes\<close>

definition reconcile_immutable :: "pitr_lib \<Rightarrow> wal_adapter \<Rightarrow> string \<Rightarrow> string \<Rightarrow> int \<Rightarrow> WalObjectInfo pitr" where
  "reconcile_immutable L A k sha len =
     eff_catch (eff_bind (wal_read L A k (Some sha) (Some len) None) (\<lambda>(i, _). eff_return i))
       (\<lambda>e. eff_raise (if integrity_class (failure_class e)
         then Failure WalS3ConflictError (''immutable S3 key '' @ quoted k @ '' already contains different or unverifiable content'')
         else e))"

record ImmutableObjectReceipt =
  ir_key :: string
  ir_size :: int
  ir_sha :: string
  ir_idempotent :: bool

definition put_bytes_immutable :: "pitr_lib \<Rightarrow> wal_adapter \<Rightarrow> string \<Rightarrow> string \<Rightarrow> ImmutableObjectReceipt pitr" where
  "put_bytes_immutable L A payload k =
     (let sha = pl_sha L payload; len = int (length payload);
          receipt = \<lambda>i again. \<lparr>ir_key = k, ir_size = wi_size i, ir_sha = wi_sha i, ir_idempotent = again\<rparr> in
      eff_bind (eff_lift (wa_client A)) (\<lambda>_.
      eff_match (raw_put L A k payload If_Absent)
        (\<lambda>_. eff_bind (wal_read L A k (Some sha) (Some len) None) (\<lambda>(i, _). eff_return (receipt i False)))
        (\<lambda>original. eff_catch
          (eff_bind (reconcile_immutable L A k sha len) (\<lambda>i. eff_return (receipt i True)))
          (\<lambda>e. eff_raise (if failure_class e \<in> {ObjectNotFound, WalS3ProviderError}
            then wal_provider_error A (''create '' @ k) original else e)))))"

definition put_immutable :: "pitr_lib \<Rightarrow> wal_adapter \<Rightarrow> string option \<Rightarrow> string \<Rightarrow> ImmutableObjectReceipt pitr" where
  "put_immutable L A source k = (case source of
     None \<Rightarrow> eff_raise (path_error ''upload source is not a regular file'')
   | Some payload \<Rightarrow> put_bytes_immutable L A payload k)"

section \<open>Listings and deletions\<close>

text \<open>
  \<open>_list_objects\<close> asks for page after page; \<open>fuel\<close> bounds the number of pages, and
  \<open>list_pages_enough\<close> shows how many are enough.  What is found is kept by key and sorted.
\<close>

fun list_pages ::
  "pitr_lib \<Rightarrow> wal_adapter \<Rightarrow> string \<Rightarrow> nat \<Rightarrow> string option \<Rightarrow> (string, int \<times> int option) dict \<Rightarrow> (string, int \<times> int option) dict pitr" where
  "list_pages L A pre 0 token found = eff_raise (Failure WalS3ProviderError ''S3 list did not end'')"
| "list_pages L A pre (Suc fuel) token found =
     eff_match (raw_list L A pre token)
       (\<lambda>(page, more).
         let found' = fold (\<lambda>(k, n, t). dict_put k (n, t)) page found in
         if more then list_pages L A pre fuel (Some (fst (last page))) found' else eff_return found')
       (\<lambda>e. eff_raise (wal_provider_error A (''list '' @ pre) e))"

definition MAX_LIST_PAGES :: nat where "MAX_LIST_PAGES = 1000000"

definition list_objects :: "pitr_lib \<Rightarrow> wal_adapter \<Rightarrow> string \<Rightarrow> (string \<times> int \<times> int option) list pitr" where
  "list_objects L A pre =
     eff_bind (eff_lift (wa_client A)) (\<lambda>_.
     eff_bind (eff_lift (wal_bucket A)) (\<lambda>_.
     eff_bind (list_pages L A pre MAX_LIST_PAGES None []) (\<lambda>found.
     eff_return (map (\<lambda>k. (k, the (dict_get found k))) (sort (map fst found))))))"

definition assert_owned_key :: "pitr_lib \<Rightarrow> wal_adapter \<Rightarrow> string \<Rightarrow> string checked" where
  "assert_owned_key L A k =
     bindE (scope_prefix L A) (\<lambda>s.
     bindE (guardE (starts_with (s @ ''/'') k \<and> \<not> starts_with ''/'' k \<and> \<not> ends_with ''/'' k \<and> CHR 0x5C \<notin> set k \<and> CHR 0x00 \<notin> set k)
       (path_error ''S3 object key is outside this WAL archive scope'')) (\<lambda>_.
     bindE (guardE (\<not> list_ex (\<lambda>p. p = [] \<or> p = ''.'' \<or> p = ''..'' \<or> list_ex control_char p) (split_on (CHR ''/'') (drop (length s + 1) k)))
       (path_error ''S3 object key has unsafe path segments'')) (\<lambda>_. Inr k)))"

definition delete_owned_key :: "pitr_lib \<Rightarrow> wal_adapter \<Rightarrow> string \<Rightarrow> unit pitr" where
  "delete_owned_key L A k =
     eff_bind (eff_lift (assert_owned_key L A k)) (\<lambda>owned.
     eff_bind (eff_lift (wa_client A)) (\<lambda>_.
     eff_match (raw_delete A owned None) eff_return (\<lambda>e. eff_raise (wal_provider_error A (''delete '' @ owned) e))))"

section \<open>WAL files\<close>

record WalArchiveReceipt =
  wx_filename :: string
  wx_key :: string
  wx_size :: int
  wx_sha :: string
  wx_idempotent :: bool

definition wal_archive :: "pitr_lib \<Rightarrow> wal_adapter \<Rightarrow> string option \<Rightarrow> string \<Rightarrow> WalArchiveReceipt pitr" where
  "wal_archive L A source filename =
     eff_bind (eff_lift (validate_archive_name filename)) (\<lambda>f.
     eff_bind (eff_lift (wal_key L A f)) (\<lambda>k.
     eff_bind (put_immutable L A source k) (\<lambda>r.
     eff_return \<lparr>wx_filename = f, wx_key = ir_key r, wx_size = ir_size r, wx_sha = ir_sha r, wx_idempotent = ir_idempotent r\<rparr>)))"

definition verify_wal :: "pitr_lib \<Rightarrow> wal_adapter \<Rightarrow> string \<Rightarrow> string option \<Rightarrow> WalObjectInfo pitr" where
  "verify_wal L A filename expected_sha =
     eff_bind (eff_lift (wal_key L A filename)) (\<lambda>k.
     eff_bind (wal_read L A k expected_sha None None) (\<lambda>(i, _). eff_return i))"

definition list_wal :: "pitr_lib \<Rightarrow> wal_adapter \<Rightarrow> WalObjectInfo list pitr" where
  "list_wal L A =
     eff_bind (eff_lift (below_scope L A ''wal'')) (\<lambda>p.
     eff_bind (list_objects L A (p @ ''/'')) (\<lambda>found.
     eff_collect (wal_head A) (filter (\<lambda>k. let rel = drop (length p + 1) k in CHR ''/'' \<notin> set rel \<and> is_archive_name rel) (map fst found))))"

definition delete_wal :: "pitr_lib \<Rightarrow> wal_adapter \<Rightarrow> string \<Rightarrow> string pitr" where
  "delete_wal L A filename =
     eff_bind (eff_lift (wal_key L A filename)) (\<lambda>k. eff_bind (delete_owned_key L A k) (\<lambda>_. eff_return k))"

section \<open>Completion manifests\<close>

record artifact_expectation =
  ae_path :: string
  ae_sha :: string
  ae_size :: "int option"

definition manifest_digest :: "json option \<Rightarrow> string \<Rightarrow> string checked" where
  "manifest_digest v label = (case v of
     Some (JStr t) \<Rightarrow> if is_sha256 (py_lower t) then Inr (py_lower t)
       else Inl (wal_integrity (''base manifest has no valid SHA-256 for '' @ label))
   | _ \<Rightarrow> Inl (wal_integrity (''base manifest has no valid SHA-256 for '' @ label)))"

text \<open>\<open>int(value)\<close> also reads texts.\<close>

definition artifact_size :: "json option \<Rightarrow> string \<Rightarrow> int option checked" where
  "artifact_size v label =
     (let bad = wal_integrity (''base manifest has an invalid size for '' @ label) in
      case v of
        None \<Rightarrow> Inr None
      | Some JNull \<Rightarrow> Inr None
      | Some (JBool _) \<Rightarrow> Inl bad
      | Some j \<Rightarrow> (case py_int j of Some n \<Rightarrow> if n < 0 then Inl bad else Inr (Some n) | None \<Rightarrow> Inl bad))"

text \<open>\<open>d.get(k, default)\<close>.\<close>

definition get_or :: "(string, json) dict \<Rightarrow> string \<Rightarrow> json option \<Rightarrow> json option" where
  "get_or d k v = (case dict_get d k of None \<Rightarrow> v | Some x \<Rightarrow> Some x)"

definition artifact_item ::
  "(string, json) dict \<Rightarrow> (string, json) dict \<Rightarrow> json \<Rightarrow> artifact_expectation checked" where
  "artifact_item checksums sizes item =
     bindE (case item of
         JStr t \<Rightarrow> bindE (wal_relative_path t) (\<lambda>p. Inr (p, get_or checksums t (dict_get checksums p), get_or sizes t (dict_get sizes p)))
       | JObj d \<Rightarrow> bindE (wal_relative_path (text_field d ''path'')) (\<lambda>p.
           Inr (p, get_or d ''sha256'' (dict_get checksums p), get_or d ''size'' (dict_get sizes p)))
       | _ \<Rightarrow> Inl (wal_integrity ''base manifest contains an invalid artifact entry'')) (\<lambda>(p, digest, size_value).
     bindE (guardE (p \<noteq> BASE_COMPLETION_MARKER) (wal_integrity ''base completion manifest cannot declare itself as payload'')) (\<lambda>_.
     bindE (manifest_digest digest p) (\<lambda>h.
     bindE (artifact_size size_value p) (\<lambda>n. Inr \<lparr>ae_path = p, ae_sha = h, ae_size = n\<rparr>))))"

definition not_null :: "json option \<Rightarrow> json option" where
  "not_null v = (if v = Some JNull then None else v)"

definition manifest_artifacts :: "(string, json) dict \<Rightarrow> artifact_expectation list checked" where
  "manifest_artifacts d =
     bindE (case (case not_null (dict_get d ''checksums'') of None \<Rightarrow> JObj [] | Some c \<Rightarrow> c,
         case dict_get d ''sizes'' of None \<Rightarrow> JObj [] | Some c \<Rightarrow> c) of
         (JObj checksums, JObj sizes) \<Rightarrow> Inr (checksums, sizes)
       | _ \<Rightarrow> Inl (wal_integrity ''base manifest checksums and sizes must be mappings'')) (\<lambda>(checksums, sizes).
     bindE (case (case not_null (dict_get d ''artifacts'') of None \<Rightarrow> dict_get d ''artifact_paths'' | Some v \<Rightarrow> Some v) of
         Some (JObj e) \<Rightarrow> Inr (map (\<lambda>(p, v). case v of
             JObj details \<Rightarrow> JObj (fold (\<lambda>(k, x). dict_put k x) details [(''path'', JStr p)])
           | _ \<Rightarrow> JObj [(''path'', JStr p), (''sha256'', v)]) e)
       | Some (JList items) \<Rightarrow> Inr items
       | _ \<Rightarrow> Inl (wal_integrity ''base manifest must declare a non-empty artifact collection'')) (\<lambda>items.
     bindE (mapE (artifact_item checksums sizes) items) (\<lambda>entries.
     bindE (guardE (entries \<noteq> []) (wal_integrity ''base manifest must declare at least one artifact'')) (\<lambda>_.
     bindE (guardE (distinct (map ae_path entries)) (wal_integrity ''base manifest declares duplicate artifact paths'')) (\<lambda>_.
     Inr (sort_key ae_path entries))))))"

record base_document =
  bd_raw :: "(string, json) dict"
  bd_environment :: string
  bd_artifacts :: "artifact_expectation list"

definition parse_base_manifest :: "wal_adapter \<Rightarrow> string \<Rightarrow> string \<Rightarrow> base_document checked" where
  "parse_base_manifest A payload ident = (case load_document payload of
     None \<Rightarrow> Inl (wal_integrity ''base completion manifest is not valid JSON'')
   | Some (JObj d) \<Rightarrow>
       (let canonical = not_null (dict_get d ''base_backup_id''); legacy = not_null (dict_get d ''base_id'');
            named = (case canonical of None \<Rightarrow> legacy | Some v \<Rightarrow> Some v) in
        bindE (guardE (canonical = None \<or> legacy = None \<or> canonical = legacy)
          (wal_integrity ''base completion manifest has conflicting base identities'')) (\<lambda>_.
        bindE (guardE (named = Some (JStr ident)) (wal_integrity ''base completion manifest identity does not match its key'')) (\<lambda>_.
        bindE (guardE (dict_get d ''project'' = Some (JStr (wa_project A)))
          (wal_integrity ''base completion manifest project does not match archive scope'')) (\<lambda>_.
        bindE (guardE (dict_get d ''cluster_id'' = Some (JStr (wa_cluster A)))
          (wal_integrity ''base completion manifest cluster does not match archive scope'')) (\<lambda>_.
        bindE (guardE (text_field d ''system_identifier'' = wa_system A)
          (wal_integrity ''base completion manifest system identifier does not match archive scope'')) (\<lambda>_.
        bindE (case dict_get d ''environment'' of
            Some (JStr e) \<Rightarrow> if py_strip e = [] then Inl (wal_integrity ''base completion manifest has no environment'') else Inr e
          | _ \<Rightarrow> Inl (wal_integrity ''base completion manifest has no environment'')) (\<lambda>environment.
        bindE (guardE (dict_get d ''status'' = Some (JStr ''complete''))
          (wal_integrity (''base completion manifest status must be '' @ quoted ''complete''))) (\<lambda>_.
        bindE (manifest_artifacts d) (\<lambda>artifacts.
        Inr \<lparr>bd_raw = d, bd_environment = environment, bd_artifacts = artifacts\<rparr>)))))))))
   | Some _ \<Rightarrow> Inl (wal_integrity ''base completion manifest must be a JSON object''))"

section \<open>Base backups\<close>

record BaseBackupReceipt =
  br_ident :: string
  br_uri :: string
  br_manifest :: WalObjectInfo
  br_objects :: "WalObjectInfo list"
  br_idempotent :: bool

text \<open>\<open>rglob("*")\<close> in the order of the relative paths.\<close>

definition tree_items :: "node \<Rightarrow> (string \<times> node) list" where
  "tree_items x = sort_key fst (concat (map (\<lambda>(p, es). map (\<lambda>(n, y). (posix_text (p @ [n]), y)) es) (walk [] x)))"

definition base_files :: "node option \<Rightarrow> (string \<times> string) list checked" where
  "base_files x =
     (if \<not> is_folder x then Inl (path_error ''base backup source is not a real directory'')
      else mapE (\<lambda>(rel, y). case y of
          Regular b \<Rightarrow> bindE (wal_relative_path rel) (\<lambda>r. Inr (r, b))
        | Link _ \<Rightarrow> Inl (path_error (''base backup tree contains a symbolic link: '' @ rel))
        | _ \<Rightarrow> Inl (path_error (''base backup tree contains a non-regular file: '' @ rel)))
        (filter (\<lambda>(rel, y). \<not> is_folder (Some y)) (tree_items (the x))))"

text \<open>\<open>(missing: ...; unexpected: ...)\<close>.\<close>

definition inventory_details :: "string list \<Rightarrow> string list \<Rightarrow> string" where
  "inventory_details expected found =
     (let missing = sort (filter (\<lambda>x. x \<notin> set found) (remdups expected)); unexpected = sort (filter (\<lambda>x. x \<notin> set expected) (remdups found))
      in '' ('' @ join_with ''; '' ((if missing = [] then [] else [''missing: '' @ join_with '', '' missing]) @
        (if unexpected = [] then [] else [''unexpected: '' @ join_with '', '' unexpected])) @ '')'')"

definition validate_local_base :: "pitr_lib \<Rightarrow> node option \<Rightarrow> base_document \<Rightarrow> unit checked" where
  "validate_local_base L x m =
     bindE (base_files x) (\<lambda>all.
     let files = filter (\<lambda>(rel, b). rel \<noteq> BASE_COMPLETION_MARKER) all; expected = map ae_path (bd_artifacts m) in
     bindE (guardE (set (map fst files) = set expected)
       (wal_integrity (''local base payload does not match its manifest'' @ inventory_details expected (map fst files)))) (\<lambda>_.
     bindE (mapE (\<lambda>e. let b = the (dict_get files (ae_path e)) in
         bindE (guardE (case ae_size e of None \<Rightarrow> True | Some n \<Rightarrow> int (length b) = n)
           (wal_integrity (''local base artifact '' @ quoted (ae_path e) @ '' size does not match''))) (\<lambda>_.
         guardE (pl_sha L b = ae_sha e) (wal_integrity (''local base artifact '' @ quoted (ae_path e) @ '' checksum does not match''))))
       (bd_artifacts m)) (\<lambda>_. Inr ())))"

definition upload_base_payload :: "pitr_lib \<Rightarrow> wal_adapter \<Rightarrow> string \<Rightarrow> node option \<Rightarrow> ImmutableObjectReceipt list pitr" where
  "upload_base_payload L A ident x =
     eff_bind (eff_lift (wal_base_id ident)) (\<lambda>i.
     eff_bind (eff_lift (base_files x)) (\<lambda>all.
     eff_collect (\<lambda>(rel, b). eff_bind (eff_lift (base_object_key L A i rel)) (\<lambda>k. put_bytes_immutable L A b k))
       (filter (\<lambda>(rel, b). rel \<noteq> BASE_COMPLETION_MARKER) all)))"

definition payload_keys :: "pitr_lib \<Rightarrow> wal_adapter \<Rightarrow> string \<Rightarrow> base_document \<Rightarrow> (string \<times> artifact_expectation) list checked" where
  "payload_keys L A ident m = mapE (\<lambda>e. bindE (base_object_key L A ident (ae_path e)) (\<lambda>k. Inr (k, e))) (bd_artifacts m)"

definition inspect_base ::
  "pitr_lib \<Rightarrow> wal_adapter \<Rightarrow> string \<Rightarrow> bool \<Rightarrow> (WalObjectInfo \<times> base_document \<times> WalObjectInfo list) pitr" where
  "inspect_base L A ident verify_payload =
     eff_bind (eff_lift (wal_base_id ident)) (\<lambda>i.
     eff_bind (eff_lift (base_manifest_key L A i)) (\<lambda>marker_key.
     eff_bind (wal_read L A marker_key None None (Some MAX_MANIFEST_BYTES)) (\<lambda>(marker, payload).
     eff_bind (eff_lift (parse_base_manifest A payload i)) (\<lambda>m.
     eff_bind (eff_lift (payload_keys L A i m)) (\<lambda>expected.
     eff_bind (eff_lift (base_prefix L A i)) (\<lambda>pre.
     eff_bind (list_objects L A (pre @ ''/'')) (\<lambda>found.
     eff_bind (eff_check (set (map fst found) = insert marker_key (set (map fst expected)))
       (wal_integrity (''base backup object inventory does not match its manifest'' @
         inventory_details (marker_key # map fst expected) (map fst found)))) (\<lambda>_.
     eff_bind (eff_collect (\<lambda>(k, e).
         if verify_payload then eff_bind (wal_read L A k (Some (ae_sha e)) (ae_size e) None) (\<lambda>(info, _). eff_return info)
         else eff_bind (wal_head A k) (\<lambda>info.
           eff_bind (eff_check (wi_sha info = ae_sha e \<and> (case ae_size e of None \<Rightarrow> True | Some n \<Rightarrow> wi_size info = n))
             (wal_integrity (''base artifact '' @ quoted (ae_path e) @ '' metadata does not match''))) (\<lambda>_. eff_return info)))
       (sort_key fst expected)) (\<lambda>objects.
     eff_return (marker, m, objects))))))))))"

definition verify_base_backup :: "pitr_lib \<Rightarrow> wal_adapter \<Rightarrow> string \<Rightarrow> BaseBackupReceipt pitr" where
  "verify_base_backup L A ident =
     eff_bind (eff_lift (wal_base_id ident)) (\<lambda>i.
     eff_bind (inspect_base L A i True) (\<lambda>(marker, m, objects).
     eff_bind (eff_lift (wal_bucket A)) (\<lambda>b.
     eff_bind (eff_lift (base_prefix L A i)) (\<lambda>pre.
     eff_return \<lparr>br_ident = i, br_uri = ''s3://'' @ b @ ''/'' @ pre, br_manifest = marker, br_objects = objects, br_idempotent = False\<rparr>))))"

definition publish_base_manifest :: "pitr_lib \<Rightarrow> wal_adapter \<Rightarrow> string \<Rightarrow> string option \<Rightarrow> BaseBackupReceipt pitr" where
  "publish_base_manifest L A ident source =
     eff_bind (eff_lift (wal_base_id ident)) (\<lambda>i.
     case source of
       None \<Rightarrow> eff_raise (path_error ''base manifest source is not a regular file'')
     | Some payload \<Rightarrow>
         eff_bind (eff_check (int (length payload) \<le> MAX_MANIFEST_BYTES)
           (wal_integrity ''base completion manifest exceeds the size limit'')) (\<lambda>_.
         eff_bind (eff_lift (parse_base_manifest A payload i)) (\<lambda>m.
         eff_bind (eff_each (\<lambda>e. eff_bind (eff_lift (base_object_key L A i (ae_path e))) (\<lambda>k.
             eff_bind (wal_read L A k (Some (ae_sha e)) (ae_size e) None) (\<lambda>_. eff_return ()))) (bd_artifacts m)) (\<lambda>_.
         eff_bind (eff_lift (base_manifest_key L A i)) (\<lambda>marker_key.
         eff_bind (eff_lift (payload_keys L A i m)) (\<lambda>expected.
         eff_bind (eff_lift (base_prefix L A i)) (\<lambda>pre.
         eff_bind (list_objects L A (pre @ ''/'')) (\<lambda>found.
         eff_bind (eff_check (set (map fst found) = set (map fst expected) \<or> set (map fst found) = insert marker_key (set (map fst expected)))
           (wal_integrity ''refusing to publish a base manifest over an unexpected or incomplete object inventory'')) (\<lambda>_.
         eff_bind (put_immutable L A source marker_key) (\<lambda>r.
         eff_bind (eff_catch (verify_base_backup L A i)
             (\<lambda>e. eff_bind (if ir_idempotent r then eff_return () else delete_owned_key L A marker_key) (\<lambda>_. eff_raise e))) (\<lambda>v.
         eff_return (v\<lparr>br_idempotent := ir_idempotent r\<rparr>))))))))))))"

definition upload_base_backup :: "pitr_lib \<Rightarrow> wal_adapter \<Rightarrow> string \<Rightarrow> node option \<Rightarrow> BaseBackupReceipt pitr" where
  "upload_base_backup L A ident x =
     eff_bind (eff_lift (wal_base_id ident)) (\<lambda>i.
     case (case x of Some (Folder es) \<Rightarrow> dict_get es BASE_COMPLETION_MARKER | _ \<Rightarrow> None) of
       Some (Regular payload) \<Rightarrow>
         eff_bind (eff_lift (parse_base_manifest A payload i)) (\<lambda>m.
         eff_bind (eff_lift (validate_local_base L x m)) (\<lambda>_.
         eff_bind (upload_base_payload L A i x) (\<lambda>_.
         publish_base_manifest L A i (Some payload))))
     | _ \<Rightarrow> eff_raise (wal_integrity (''base backup is missing root '' @ BASE_COMPLETION_MARKER)))"

definition remote_base_ids :: "pitr_lib \<Rightarrow> wal_adapter \<Rightarrow> string list pitr" where
  "remote_base_ids L A =
     eff_bind (eff_lift (below_scope L A ''bases'')) (\<lambda>p.
     eff_bind (list_objects L A (p @ ''/'')) (\<lambda>found.
     eff_return (sort (remdups (collect (\<lambda>k. case split_on (CHR ''/'') (drop (length p + 1) k) of
         [i, name] \<Rightarrow> if name = BASE_COMPLETION_MARKER \<and> wal_component_ok i then Some i else None
       | _ \<Rightarrow> None) (map fst found))))))"

definition read_base_manifest :: "pitr_lib \<Rightarrow> wal_adapter \<Rightarrow> string \<Rightarrow> (string, json) dict pitr" where
  "read_base_manifest L A ident =
     eff_bind (eff_lift (wal_base_id ident)) (\<lambda>i.
     eff_bind (inspect_base L A i True) (\<lambda>(_, m, _). eff_return (bd_raw m)))"

text \<open>The marker goes first; \<open>before\<close> is the caller's \<open>before_delete\<close>.\<close>

definition delete_base_backup :: "pitr_lib \<Rightarrow> wal_adapter \<Rightarrow> string \<Rightarrow> (string \<Rightarrow> unit pitr) \<Rightarrow> string list pitr" where
  "delete_base_backup L A ident before =
     eff_bind (eff_lift (wal_base_id ident)) (\<lambda>i.
     eff_bind (eff_lift (base_prefix L A i)) (\<lambda>pre.
     eff_bind (eff_lift (base_manifest_key L A i)) (\<lambda>marker.
     eff_bind (list_objects L A (pre @ ''/'')) (\<lambda>found.
     eff_bind (eff_lift (mapE (\<lambda>k. bindE (assert_owned_key L A k) (\<lambda>owned.
         bindE (guardE (starts_with (pre @ ''/'') owned) (path_error ''S3 listed a base object outside the requested base backup'')) (\<lambda>_.
         bindE (wal_relative_path (drop (length pre + 1) owned)) (\<lambda>_. Inr owned)))) (map fst found))) (\<lambda>owned.
     let ordered = marker # sort (remdups (filter (\<lambda>k. k \<noteq> marker) owned)) in
     eff_bind (eff_each (\<lambda>k. eff_bind (before k) (\<lambda>_. delete_owned_key L A k)) ordered) (\<lambda>_.
     eff_return ordered))))))"

end
