(* ===== verification/Wal_Lease.thy ===== *)
theory Wal_Lease
  imports Wal_S3
begin

text \<open>
  \<open>odooctl/adapters/wal_s3.py\<close>, coordination between hosts: one lease object per archive, created
  only when there is none and replaced or deleted only under the entity tag it was read with,
  and pins, immutable objects that protect a base backup and its WAL from retention.
\<close>

definition MIN_LEASE_TTL :: int where "MIN_LEASE_TTL = 30"
definition MAX_LEASE_TTL :: int where "MAX_LEASE_TTL = 3600"
definition MAX_CLOCK_SKEW :: int where "MAX_CLOCK_SKEW = 60 * SECOND"

definition coordination_lease_key :: "pitr_lib \<Rightarrow> wal_adapter \<Rightarrow> string checked" where
  "coordination_lease_key L A = below_scope L A ''coordination/pitr-mutation.json''"

section \<open>Authoritative reads\<close>

text \<open>\<open>format(seconds, ".0f")\<close>.\<close>

definition rounded_seconds :: "int \<Rightarrow> string" where
  "rounded_seconds n = (let q = n div SECOND; r = 2 * (n mod SECOND) in
     int_str (if r > SECOND \<or> (r = SECOND \<and> odd q) then q + 1 else q))"

definition validate_coordination_time :: "int option \<Rightarrow> string \<Rightarrow> int pitr" where
  "validate_coordination_time server op =
     eff_bind local_now (\<lambda>now.
     case server of
       None \<Rightarrow> eff_raise (wal_lease_error (''S3 '' @ op @ '' returned no authoritative server time''))
     | Some t \<Rightarrow> eff_bind (eff_check (\<bar>now - t\<bar> \<le> MAX_CLOCK_SKEW)
         (Failure WalS3ClockSkewError (''Local clock differs from S3 server time by '' @ rounded_seconds \<bar>now - t\<bar> @
           ''s; maximum safe skew is 60s''))) (\<lambda>_. eff_return t))"

fun response_time :: "raw_error \<Rightarrow> int option" where
  "response_time (RawNotFound t) = Some t"
| "response_time (RawConflict t) = Some t"
| "response_time (RawFailed t) = t"
| "response_time (RawLocal m) = None"

record CoordinationHead =
  ch_info :: "WalObjectInfo option"
  ch_time :: int

definition coordination_head_of :: "string \<Rightarrow> wal_object \<Rightarrow> int \<Rightarrow> CoordinationHead checked" where
  "coordination_head_of k x t =
     bindE (head_info k x) (\<lambda>i.
     bindE (guardE (wi_etag i \<noteq> None \<and> wi_etag i \<noteq> Some [])
       (wal_lease_error (''S3 coordination object '' @ quoted k @ '' has no ETag''))) (\<lambda>_.
     case wi_modified i of
       None \<Rightarrow> Inl (wal_lease_error (''S3 coordination object '' @ quoted k @ '' has no authoritative LastModified time''))
     | Some m \<Rightarrow> bindE (guardE (m - t \<le> MAX_CLOCK_SKEW)
         (Failure WalS3ClockSkewError (''S3 coordination object '' @ quoted k @ '' has a future LastModified time''))) (\<lambda>_.
         Inr \<lparr>ch_info = Some i, ch_time = t\<rparr>)))"

definition coordination_head :: "wal_adapter \<Rightarrow> string \<Rightarrow> CoordinationHead pitr" where
  "coordination_head A k =
     eff_bind (eff_lift (wa_client A)) (\<lambda>_.
     eff_match (raw_head A k)
       (\<lambda>(x, server). eff_bind (validate_coordination_time (Some server) (''head '' @ k)) (\<lambda>t. eff_lift (coordination_head_of k x t)))
       (\<lambda>e. eff_bind (validate_coordination_time (response_time e) (''head '' @ k)) (\<lambda>t.
         if raw_not_found e then eff_return \<lparr>ch_info = None, ch_time = t\<rparr>
         else eff_raise (wal_provider_error A (''head '' @ k) e))))"

definition read_stable_payload :: "pitr_lib \<Rightarrow> wal_adapter \<Rightarrow> string \<Rightarrow> int \<Rightarrow> (CoordinationHead \<times> string) pitr" where
  "read_stable_payload L A k max_bytes =
     eff_bind (coordination_head A k) (\<lambda>before.
     case ch_info before of
       None \<Rightarrow> eff_raise (missing_object k)
     | Some b \<Rightarrow>
         eff_bind (wal_read L A k (Some (wi_sha b)) (Some (wi_size b)) (Some max_bytes)) (\<lambda>(i, payload).
         eff_bind (coordination_head A k) (\<lambda>after.
         eff_bind (eff_check (case ch_info after of None \<Rightarrow> False
             | Some a \<Rightarrow> wi_etag a = wi_etag b \<and> wi_sha a = wi_sha b \<and> wi_sha i = wi_sha b)
           (Failure WalS3ConflictError (''S3 coordination object '' @ quoted k @ '' changed while it was read''))) (\<lambda>_.
         eff_return (after, payload)))))"

section \<open>The lease\<close>

definition lease_expired :: "PitrCoordinationLease \<Rightarrow> bool" where
  "lease_expired l \<longleftrightarrow> cl_expires l \<le> cl_observed l"

definition lease_document :: "wal_adapter \<Rightarrow> string \<Rightarrow> string \<Rightarrow> string \<Rightarrow> int \<Rightarrow> int \<Rightarrow> (string, json) dict" where
  "lease_document A ident owner purpose generation ttl =
     [(''cluster_id'', JStr (wa_cluster A)), (''generation'', JInt generation), (''lease_id'', JStr ident), (''owner'', JStr owner),
      (''project'', JStr (wa_project A)), (''purpose'', JStr purpose), (''schema_version'', JInt 1),
      (''system_identifier'', JStr (wa_system A)), (''ttl_seconds'', JInt ttl), (''type'', JStr ''odooctl-pitr-coordination-lease'')]"

definition lease_payload :: "wal_adapter \<Rightarrow> string \<Rightarrow> string \<Rightarrow> string \<Rightarrow> int \<Rightarrow> int \<Rightarrow> string" where
  "lease_payload A ident owner purpose generation ttl = canonical_bytes (JObj (lease_document A ident owner purpose generation ttl))"

definition strict_json_object :: "string \<Rightarrow> string \<Rightarrow> pitr_class \<Rightarrow> (string, json) dict checked" where
  "strict_json_object payload label c = (case load_document payload of
     None \<Rightarrow> Inl (Failure c (label @ '' is not valid UTF-8 JSON''))
   | Some (JObj d) \<Rightarrow> if payload = canonical_bytes (JObj d) then Inr d else Inl (Failure c (label @ '' is not canonical JSON''))
   | Some _ \<Rightarrow> Inl (Failure c (label @ '' must be a JSON object'')))"

definition is_lease_id :: "string \<Rightarrow> bool" where
  "is_lease_id s \<longleftrightarrow> length s = 32 \<and> list_all lower_hex s"

text \<open>\<open>raise error(str(exc))\<close> for an exception of a check.\<close>

definition recast :: "pitr_class \<Rightarrow> 'a checked \<Rightarrow> 'a checked" where
  "recast c r = (case r of Inl e \<Rightarrow> Inl (Failure c (failure_text e)) | Inr x \<Rightarrow> Inr x)"

definition json_label :: "json option \<Rightarrow> string \<Rightarrow> string checked" where
  "json_label v label = (case v of Some (JStr t) \<Rightarrow> printable_label t label
     | _ \<Rightarrow> Inl (wal_configuration (label @ '' must be a non-empty printable string'')))"

definition in_scope :: "wal_adapter \<Rightarrow> (string, json) dict \<Rightarrow> string \<Rightarrow> bool" where
  "in_scope A d kind \<longleftrightarrow> is_one (dict_get d ''schema_version'') \<and> dict_get d ''type'' = Some (JStr kind) \<and>
     dict_get d ''project'' = Some (JStr (wa_project A)) \<and> dict_get d ''cluster_id'' = Some (JStr (wa_cluster A)) \<and>
     text_field d ''system_identifier'' = wa_system A"

definition lease_from_payload :: "wal_adapter \<Rightarrow> CoordinationHead \<Rightarrow> string \<Rightarrow> bool \<Rightarrow> PitrCoordinationLease checked" where
  "lease_from_payload A head payload allow_expired = (case ch_info head of
     None \<Rightarrow> Inl (wal_lease_error ''PITR coordination lease disappeared'')
   | Some i \<Rightarrow> (case (wi_etag i, wi_modified i) of
       (Some etag, Some modified) \<Rightarrow>
         bindE (strict_json_object payload ''PITR coordination lease'' WalS3LeaseError) (\<lambda>d.
         bindE (guardE (fst ` set d = {''cluster_id'', ''generation'', ''lease_id'', ''owner'', ''project'', ''purpose'', ''schema_version'',
             ''system_identifier'', ''ttl_seconds'', ''type''}) (wal_lease_error ''PITR coordination lease has an unexpected schema'')) (\<lambda>_.
         bindE (guardE (in_scope A d ''odooctl-pitr-coordination-lease'')
           (wal_lease_error ''PITR coordination lease does not match this archive scope'')) (\<lambda>_.
         bindE (case dict_get d ''lease_id'' of
             Some (JStr t) \<Rightarrow> if is_lease_id t then Inr t else Inl (wal_lease_error ''PITR coordination lease has an invalid lease_id'')
           | _ \<Rightarrow> Inl (wal_lease_error ''PITR coordination lease has an invalid lease_id'')) (\<lambda>ident.
         bindE (recast WalS3LeaseError (json_label (dict_get d ''owner'') ''lease owner'')) (\<lambda>owner.
         bindE (recast WalS3LeaseError (json_label (dict_get d ''purpose'') ''lease purpose'')) (\<lambda>purpose.
         bindE (case dict_get d ''generation'' of
             Some (JInt n) \<Rightarrow> if 1 \<le> n then Inr n else Inl (wal_lease_error ''PITR coordination lease has an invalid generation'')
           | _ \<Rightarrow> Inl (wal_lease_error ''PITR coordination lease has an invalid generation'')) (\<lambda>generation.
         bindE (case dict_get d ''ttl_seconds'' of
             Some (JInt n) \<Rightarrow> if MIN_LEASE_TTL \<le> n \<and> n \<le> MAX_LEASE_TTL then Inr n
               else Inl (wal_lease_error ''PITR coordination lease has an invalid ttl_seconds'')
           | _ \<Rightarrow> Inl (wal_lease_error ''PITR coordination lease has an invalid ttl_seconds'')) (\<lambda>ttl.
         bindE (guardE (payload = lease_payload A ident owner purpose generation ttl)
           (wal_lease_error ''PITR coordination lease has non-canonical field values'')) (\<lambda>_.
         let l = \<lparr>cl_key = wi_key i, cl_ident = ident, cl_owner = owner, cl_purpose = purpose, cl_generation = generation, cl_ttl = ttl,
                cl_etag = etag, cl_acquired = modified, cl_expires = modified + ttl * SECOND, cl_observed = ch_time head\<rparr> in
         bindE (guardE (allow_expired \<or> \<not> lease_expired l)
           (Failure WalS3LeaseExpiredError ''The PITR coordination lease is expired and cannot be stolen automatically'')) (\<lambda>_.
         Inr l))))))))))
     | _ \<Rightarrow> Inl (wal_lease_error ''PITR coordination lease disappeared'')))"

definition read_coordination_lease :: "pitr_lib \<Rightarrow> wal_adapter \<Rightarrow> bool \<Rightarrow> PitrCoordinationLease pitr" where
  "read_coordination_lease L A allow_expired =
     eff_bind (eff_catch
         (eff_bind (eff_lift (coordination_lease_key L A)) (\<lambda>k. read_stable_payload L A k (64 * 1024)))
         (\<lambda>e. eff_raise (if failure_class e = ObjectNotFound then wal_lease_error ''PITR coordination lease is missing''
           else if integrity_class (failure_class e) then wal_lease_error ''PITR coordination lease failed byte verification'' else e)))
       (\<lambda>(head, payload). eff_lift (lease_from_payload A head payload allow_expired))"

definition inspect_coordination_lease :: "pitr_lib \<Rightarrow> wal_adapter \<Rightarrow> PitrCoordinationLease option pitr" where
  "inspect_coordination_lease L A =
     eff_bind (eff_lift (coordination_lease_key L A)) (\<lambda>k.
     eff_bind (coordination_head A k) (\<lambda>initial.
     if ch_info initial = None then eff_return None
     else eff_bind (read_coordination_lease L A True) (\<lambda>l. eff_return (Some l))))"

definition same_lease :: "PitrCoordinationLease \<Rightarrow> PitrCoordinationLease \<Rightarrow> bool" where
  "same_lease a b \<longleftrightarrow> a\<lparr>cl_observed := 0\<rparr> = b\<lparr>cl_observed := 0\<rparr>"

definition assert_coordination_lease :: "pitr_lib \<Rightarrow> wal_adapter \<Rightarrow> PitrCoordinationLease \<Rightarrow> PitrCoordinationLease pitr" where
  "assert_coordination_lease L A l =
     eff_bind (read_coordination_lease L A False) (\<lambda>current.
     eff_bind (eff_check (same_lease l current)
       (wal_lease_error ''PITR coordination lease identity, generation, or issuance changed'')) (\<lambda>_. eff_return current))"

text \<open>The exception of a call, when there is one.\<close>

definition raw_attempt :: "'a raw_call \<Rightarrow> raw_error option pitr" where
  "raw_attempt m = eff_match m (\<lambda>_. eff_return None) (\<lambda>e. eff_return (Some e))"

definition acquire_coordination_lease ::
  "pitr_lib \<Rightarrow> wal_adapter \<Rightarrow> string \<Rightarrow> string \<Rightarrow> int \<Rightarrow> PitrCoordinationLease pitr" where
  "acquire_coordination_lease L A purpose owner ttl =
     eff_bind (eff_lift (printable_label purpose ''lease purpose'')) (\<lambda>p.
     eff_bind (if owner = [] then eff_bind (random_uuid L) (\<lambda>u. eff_return (''odooctl-'' @ u)) else eff_return owner) (\<lambda>named.
     eff_bind (eff_lift (printable_label named ''lease owner'')) (\<lambda>safe_owner.
     eff_bind (eff_check (MIN_LEASE_TTL \<le> ttl \<and> ttl \<le> MAX_LEASE_TTL) (pitr_value_error ''ttl_seconds must be between 30 and 3600'')) (\<lambda>_.
     eff_bind (eff_lift (coordination_lease_key L A)) (\<lambda>k.
     eff_bind (coordination_head A k) (\<lambda>existing.
     if ch_info existing \<noteq> None then
       eff_bind (read_coordination_lease L A True) (\<lambda>current.
       eff_raise (if lease_expired current
         then Failure WalS3LeaseExpiredError
           ''An expired PITR coordination lease blocks all mutations; automatic lease stealing is unsafe''
         else Failure WalS3LeaseBusyError
           (''PITR coordination is already held by '' @ quoted (cl_owner current) @ '' for '' @ quoted (cl_purpose current))))
     else
       eff_bind (random_uuid L) (\<lambda>ident.
       let payload = lease_payload A ident safe_owner p 1 ttl in
       eff_bind (eff_lift (wa_client A)) (\<lambda>_.
       eff_bind (raw_attempt (raw_put L A k payload If_Absent)) (\<lambda>original.
       eff_bind (eff_catch (read_stable_payload L A k (64 * 1024))
           (\<lambda>e. eff_raise (if failure_class e = ObjectNotFound
             then (case original of None \<Rightarrow> wal_lease_error ''PITR coordination lease create was not durable''
               | Some x \<Rightarrow> wal_provider_error A (''create '' @ k) x) else e))) (\<lambda>(head, remote).
       if remote = payload then eff_lift (lease_from_payload A head remote False)
       else eff_bind (eff_lift (lease_from_payload A head remote True)) (\<lambda>current.
         eff_raise (if lease_expired current
           then Failure WalS3LeaseExpiredError
             ''An expired PITR coordination lease won the acquisition race; automatic lease stealing is unsafe''
           else case original of
             Some x \<Rightarrow> if conditional_conflict x then Failure WalS3LeaseBusyError ''Another owner acquired PITR coordination first''
               else wal_provider_error A (''create '' @ k) x
           | None \<Rightarrow> Failure WalS3LeaseBusyError ''Another owner acquired PITR coordination first''))))))))))))"

definition if_match_etag :: "string \<Rightarrow> string checked" where
  "if_match_etag e =
     (if e = [] \<or> CHR 0x22 \<in> set e \<or> CHR 0x5C \<in> set e \<or> list_ex (\<lambda>c. (of_char c :: nat) < 33 \<or> 126 < (of_char c :: nat)) e
      then Inl (wal_lease_error ''S3 coordination object has an unsafe ETag'') else Inr e)"

text \<open>Checks made while a request is built.\<close>

definition building :: "'b checked \<Rightarrow> ('b \<Rightarrow> 'a raw_call) \<Rightarrow> 'a raw_call" where
  "building r f = (case r of Inl e \<Rightarrow> eff_raise (RawLocal (failure_text e)) | Inr x \<Rightarrow> f x)"

definition renew_coordination_lease :: "pitr_lib \<Rightarrow> wal_adapter \<Rightarrow> PitrCoordinationLease \<Rightarrow> PitrCoordinationLease pitr" where
  "renew_coordination_lease L A l =
     eff_bind (assert_coordination_lease L A l) (\<lambda>current.
     let payload = lease_payload A (cl_ident current) (cl_owner current) (cl_purpose current) (cl_generation current + 1) (cl_ttl current);
         k = cl_key current in
     eff_bind (eff_lift (wa_client A)) (\<lambda>_.
     eff_bind (raw_attempt (building (wal_bucket A) (\<lambda>_. building (if_match_etag (cl_etag current)) (\<lambda>e. raw_put L A k payload (If_Etag e))))) (\<lambda>original.
     eff_bind (eff_catch (read_stable_payload L A k (64 * 1024))
         (\<lambda>e. eff_raise (if failure_class e = ObjectNotFound
           then wal_lease_error ''PITR coordination lease disappeared during renewal'' else e))) (\<lambda>(head, remote).
     if remote = payload then eff_lift (lease_from_payload A head remote False)
     else eff_raise (case original of
         Some x \<Rightarrow> if conditional_conflict x then wal_lease_error ''PITR coordination lease CAS renewal lost ownership''
           else wal_provider_error A (''renew '' @ k) x
       | None \<Rightarrow> wal_lease_error ''PITR coordination lease CAS renewal lost ownership'')))))"

definition conditional_delete :: "pitr_lib \<Rightarrow> wal_adapter \<Rightarrow> string \<Rightarrow> string \<Rightarrow> string \<Rightarrow> unit pitr" where
  "conditional_delete L A k etag label =
     eff_bind (eff_check (etag \<noteq> []) (wal_lease_error (label @ '' has no ETag for conditional delete''))) (\<lambda>_.
     eff_bind (eff_lift (wa_client A)) (\<lambda>_.
     eff_bind (raw_attempt (building (wal_bucket A) (\<lambda>_. building (assert_owned_key L A k) (\<lambda>owned.
         building (if_match_etag etag) (\<lambda>e. raw_delete A owned (Some e)))))) (\<lambda>original.
     eff_bind (coordination_head A k) (\<lambda>current.
     case ch_info current of
       None \<Rightarrow> eff_return ()
     | Some i \<Rightarrow> eff_raise (if wi_etag i \<noteq> Some etag
         then wal_lease_error (label @ '' changed before its conditional delete completed'')
         else case original of
           None \<Rightarrow> Failure WalS3ProviderError (''S3 delete '' @ k @ '' reported success but the object remains'')
         | Some x \<Rightarrow> if conditional_conflict x then wal_lease_error (label @ '' conditional delete lost its precondition'')
             else wal_provider_error A (''delete '' @ k) x)))))"

definition release_coordination_lease :: "pitr_lib \<Rightarrow> wal_adapter \<Rightarrow> PitrCoordinationLease \<Rightarrow> unit pitr" where
  "release_coordination_lease L A l =
     eff_bind (read_coordination_lease L A True) (\<lambda>current.
     eff_bind (eff_check (same_lease l current)
       (wal_lease_error ''Refusing to release a PITR lease with different identity, generation, or issuance'')) (\<lambda>_.
     conditional_delete L A (cl_key current) (cl_etag current) ''PITR coordination lease''))"

definition recover_expired_lease ::
  "pitr_lib \<Rightarrow> wal_adapter \<Rightarrow> string \<Rightarrow> string \<Rightarrow> string \<Rightarrow> string \<Rightarrow> PitrCoordinationLease pitr" where
  "recover_expired_lease L A confirm_ident confirm_owner confirm_purpose confirm_stopped =
     eff_bind (inspect_coordination_lease L A) (\<lambda>found.
     case found of
       None \<Rightarrow> eff_raise (wal_lease_error ''There is no PITR coordination lease to recover'')
     | Some current \<Rightarrow>
         eff_bind (eff_check (lease_expired current)
           (Failure WalS3LeaseBusyError ''Refusing to recover an active PITR coordination lease'')) (\<lambda>_.
         eff_bind (eff_check ((confirm_ident, confirm_owner, confirm_purpose) = (cl_ident current, cl_owner current, cl_purpose current))
           (wal_lease_error ''Expired PITR lease recovery confirmations do not exactly match lease_id, owner, and purpose'')) (\<lambda>_.
         eff_bind (eff_check (confirm_stopped = ''OWNER_STOPPED:'' @ cl_ident current)
           (wal_lease_error (''Expired PITR lease recovery requires the exact owner-stopped attestation '' @
             quoted (''OWNER_STOPPED:'' @ cl_ident current)))) (\<lambda>_.
         eff_bind (conditional_delete L A (cl_key current) (cl_etag current) ''Expired PITR coordination lease'') (\<lambda>_.
         eff_return current)))))"

section \<open>Pins\<close>

record PitrPinnedWal =
  pn_filename :: string
  pn_sha :: string
  pn_size :: int

record PitrRemotePin =
  rp_kind :: string
  rp_ident :: string
  rp_environment :: string
  rp_base :: string
  rp_segments :: "PitrPinnedWal list"
  rp_key :: string
  rp_etag :: string
  rp_sha :: string
  rp_modified :: int

definition pin_error :: "string \<Rightarrow> pitr_error" where
  "pin_error t = Failure WalS3PinError t"

definition pins_prefix :: "pitr_lib \<Rightarrow> wal_adapter \<Rightarrow> string checked" where
  "pins_prefix L A = below_scope L A ''pins''"

text \<open>Membership in a set of texts: a list or an object has no hash.\<close>

definition pin_kind :: "json option \<Rightarrow> string checked" where
  "pin_kind v =
     (let wrong = path_error (''PITR pin kind must be '' @ quoted ''plan'' @ '' or '' @ quoted ''restore'') in
      case v of
        Some (JStr t) \<Rightarrow> if t = ''plan'' \<or> t = ''restore'' then Inr t else Inl wrong
      | Some (JList _) \<Rightarrow> Inl (Failure PitrTypeError (''unhashable type: '' @ quoted ''list''))
      | Some (JObj _) \<Rightarrow> Inl (Failure PitrTypeError (''unhashable type: '' @ quoted ''dict''))
      | _ \<Rightarrow> Inl wrong)"

definition pin_key :: "pitr_lib \<Rightarrow> wal_adapter \<Rightarrow> string \<Rightarrow> string \<Rightarrow> string checked" where
  "pin_key L A kind ident =
     bindE (pin_kind (Some (JStr kind))) (\<lambda>safe_kind.
     bindE (wal_component ident ''pin_id'') (\<lambda>safe_ident.
     bindE (pins_prefix L A) (\<lambda>p. Inr (p @ ''/'' @ safe_kind @ ''/'' @ safe_ident @ ''.json''))))"

text \<open>The entries of a pin as they are found: a name, a checksum and a size of any type.\<close>

definition pinned_entry :: "json \<times> json \<times> json \<Rightarrow> PitrPinnedWal checked" where
  "pinned_entry = (\<lambda>(filename, sha, len). case filename of
     JStr f \<Rightarrow>
       if \<not> is_wal_segment f then Inl (pin_error ''PITR pins may contain only full WAL segment filenames'')
       else (case sha of
         JStr h \<Rightarrow>
           if \<not> is_sha256 h then Inl (pin_error (''PITR pin WAL '' @ f @ '' has an invalid SHA-256''))
           else (case len of
             JInt n \<Rightarrow> if 0 < n then Inr \<lparr>pn_filename = f, pn_sha = h, pn_size = n\<rparr>
               else Inl (pin_error (''PITR pin WAL '' @ f @ '' has an invalid size''))
           | _ \<Rightarrow> Inl (pin_error (''PITR pin WAL '' @ f @ '' has an invalid size'')))
       | _ \<Rightarrow> Inl (pin_error (''PITR pin WAL '' @ f @ '' has an invalid SHA-256'')))
   | _ \<Rightarrow> Inl (pin_error ''PITR pins may contain only full WAL segment filenames''))"

definition validated_pinned_wal :: "(json \<times> json \<times> json) list \<Rightarrow> PitrPinnedWal list checked" where
  "validated_pinned_wal items =
     bindE (mapE pinned_entry items) (\<lambda>validated.
     let names = map pn_filename validated in
     bindE (guardE (validated \<noteq> []) (pin_error ''PITR pin must protect at least one exact WAL segment'')) (\<lambda>_.
     bindE (guardE (names = sort (remdups names)) (pin_error ''PITR pin WAL segments must be unique and strictly ordered'')) (\<lambda>_.
     bindE (guardE (length (remdups (map (take 8) names)) = 1) (pin_error ''PITR pin WAL segments must belong to one timeline'')) (\<lambda>_.
     Inr validated))))"

definition pinned_item :: "PitrPinnedWal \<Rightarrow> json \<times> json \<times> json" where
  "pinned_item s = (JStr (pn_filename s), JStr (pn_sha s), JInt (pn_size s))"

definition pin_document :: "wal_adapter \<Rightarrow> string \<Rightarrow> string \<Rightarrow> string \<Rightarrow> string \<Rightarrow> PitrPinnedWal list \<Rightarrow> (string, json) dict" where
  "pin_document A kind ident environment base segments =
     [(''base_backup_id'', JStr base), (''cluster_id'', JStr (wa_cluster A)), (''environment'', JStr environment),
      (''first_wal'', JStr (pn_filename (hd segments))), (''kind'', JStr kind), (''last_wal'', JStr (pn_filename (last segments))),
      (''pin_id'', JStr ident), (''project'', JStr (wa_project A)), (''schema_version'', JInt 1),
      (''system_identifier'', JStr (wa_system A)), (''type'', JStr ''odooctl-pitr-retention-pin''),
      (''wal_count'', JInt (int (length segments))),
      (''wal_segments'', JList (map (\<lambda>s. JObj [(''filename'', JStr (pn_filename s)), (''sha256'', JStr (pn_sha s)),
        (''size'', JInt (pn_size s))]) segments))]"

definition pin_payload :: "wal_adapter \<Rightarrow> string \<Rightarrow> string \<Rightarrow> string \<Rightarrow> string \<Rightarrow> PitrPinnedWal list \<Rightarrow> string" where
  "pin_payload A kind ident environment base segments = canonical_bytes (JObj (pin_document A kind ident environment base segments))"

text \<open>\<open>except (WalS3ConfigurationError, WalS3PathError)\<close>, under another name.\<close>

definition recast_names :: "'a checked \<Rightarrow> 'a checked" where
  "recast_names r = (case r of
     Inl e \<Rightarrow> Inl (if failure_class e \<in> {WalS3ConfigurationError, WalS3PathError} then pin_error (failure_text e) else e)
   | Inr x \<Rightarrow> Inr x)"

definition pin_names :: "(string, json) dict \<Rightarrow> (string \<times> string \<times> string \<times> string) checked" where
  "pin_names d =
     bindE (pin_kind (dict_get d ''kind'')) (\<lambda>kind.
     bindE (wal_component (text_field d ''pin_id'') ''pin_id'') (\<lambda>ident.
     bindE (wal_component (text_field d ''environment'') ''environment'') (\<lambda>environment.
     bindE (wal_base_id (text_field d ''base_backup_id'')) (\<lambda>base. Inr (kind, ident, environment, base)))))"

definition raw_pinned_entry :: "json \<Rightarrow> (json \<times> json \<times> json) checked" where
  "raw_pinned_entry v = (case v of
     JObj d \<Rightarrow> (case (dict_get d ''filename'', dict_get d ''sha256'', dict_get d ''size'') of
         (Some f, Some h, Some n) \<Rightarrow> if fst ` set d = {''filename'', ''sha256'', ''size''} then Inr (f, h, n)
           else Inl (pin_error ''Remote PITR pin contains an invalid WAL entry'')
       | _ \<Rightarrow> Inl (pin_error ''Remote PITR pin contains an invalid WAL entry''))
   | _ \<Rightarrow> Inl (pin_error ''Remote PITR pin contains an invalid WAL entry''))"

definition pin_from_payload :: "pitr_lib \<Rightarrow> wal_adapter \<Rightarrow> CoordinationHead \<Rightarrow> string \<Rightarrow> string \<Rightarrow> PitrRemotePin checked" where
  "pin_from_payload L A head payload expected_key = (case ch_info head of
     None \<Rightarrow> Inl (pin_error ''Remote PITR pin disappeared'')
   | Some i \<Rightarrow> (case (wi_etag i, wi_modified i) of
       (Some etag, Some modified) \<Rightarrow>
         bindE (strict_json_object payload ''Remote PITR pin'' WalS3PinError) (\<lambda>d.
         bindE (guardE (fst ` set d = {''base_backup_id'', ''cluster_id'', ''environment'', ''first_wal'', ''kind'', ''last_wal'', ''pin_id'',
             ''project'', ''schema_version'', ''system_identifier'', ''type'', ''wal_count'', ''wal_segments''})
           (pin_error ''Remote PITR pin has an unexpected schema'')) (\<lambda>_.
         bindE (guardE (in_scope A d ''odooctl-pitr-retention-pin'') (pin_error ''Remote PITR pin does not match this archive scope'')) (\<lambda>_.
         bindE (recast_names (pin_names d)) (\<lambda>(kind, ident, environment, base).
         bindE (pin_key L A kind ident) (\<lambda>k.
         bindE (guardE (k = expected_key) (pin_error ''Remote PITR pin identity does not match its object key'')) (\<lambda>_.
         bindE (case dict_get d ''wal_segments'' of
             Some (JList items) \<Rightarrow> mapE raw_pinned_entry items
           | _ \<Rightarrow> Inl (pin_error ''Remote PITR pin wal_segments must be a list'')) (\<lambda>items.
         bindE (validated_pinned_wal items) (\<lambda>segments.
         bindE (guardE (dict_get d ''wal_count'' = Some (JInt (int (length segments))) \<and>
             dict_get d ''first_wal'' = Some (JStr (pn_filename (hd segments))) \<and>
             dict_get d ''last_wal'' = Some (JStr (pn_filename (last segments))))
           (pin_error ''Remote PITR pin WAL boundaries or count are inconsistent'')) (\<lambda>_.
         bindE (guardE (payload = pin_payload A kind ident environment base segments)
           (pin_error ''Remote PITR pin has non-canonical field values'')) (\<lambda>_.
         Inr \<lparr>rp_kind = kind, rp_ident = ident, rp_environment = environment, rp_base = base, rp_segments = segments,
           rp_key = wi_key i, rp_etag = etag, rp_sha = wi_sha i, rp_modified = modified\<rparr>))))))))))
     | _ \<Rightarrow> Inl (pin_error ''Remote PITR pin disappeared'')))"

definition read_pitr_pin :: "pitr_lib \<Rightarrow> wal_adapter \<Rightarrow> string \<Rightarrow> PitrRemotePin pitr" where
  "read_pitr_pin L A k =
     eff_bind (eff_catch (read_stable_payload L A k MAX_PIN_BYTES)
         (\<lambda>e. eff_raise (if failure_class e = ObjectNotFound then pin_error (''Remote PITR pin '' @ quoted k @ '' is missing'')
           else if integrity_class (failure_class e) then pin_error (''Remote PITR pin '' @ quoted k @ '' failed byte verification'') else e)))
       (\<lambda>(head, payload). eff_lift (pin_from_payload L A head payload k))"

definition create_pitr_pin ::
  "pitr_lib \<Rightarrow> wal_adapter \<Rightarrow> string \<Rightarrow> string \<Rightarrow> string \<Rightarrow> string \<Rightarrow> PitrPinnedWal list \<Rightarrow> PitrCoordinationLease \<Rightarrow> PitrRemotePin pitr" where
  "create_pitr_pin L A kind ident environment base segments l =
     eff_bind (assert_coordination_lease L A l) (\<lambda>_.
     eff_bind (eff_lift (pin_kind (Some (JStr kind)))) (\<lambda>safe_kind.
     eff_bind (eff_lift (wal_component ident ''pin_id'')) (\<lambda>safe_ident.
     eff_bind (eff_lift (wal_component environment ''environment'')) (\<lambda>safe_environment.
     eff_bind (eff_lift (wal_base_id base)) (\<lambda>safe_base.
     eff_bind (eff_lift (validated_pinned_wal (map pinned_item segments))) (\<lambda>safe_wal.
     let payload = pin_payload A safe_kind safe_ident safe_environment safe_base safe_wal in
     eff_bind (eff_check (int (length payload) \<le> MAX_PIN_BYTES) (pin_error ''Remote PITR pin exceeds the size limit'')) (\<lambda>_.
     eff_bind (eff_lift (pin_key L A safe_kind safe_ident)) (\<lambda>k.
     eff_bind (eff_catch (put_bytes_immutable L A payload k)
         (\<lambda>e. eff_raise (if failure_class e = WalS3ConflictError
           then pin_error (''Remote PITR pin '' @ quoted safe_ident @ '' conflicts with existing content'') else e))) (\<lambda>_.
     read_pitr_pin L A k)))))))))"

definition get_pitr_pin :: "pitr_lib \<Rightarrow> wal_adapter \<Rightarrow> string \<Rightarrow> string \<Rightarrow> PitrCoordinationLease \<Rightarrow> PitrRemotePin pitr" where
  "get_pitr_pin L A kind ident l =
     eff_bind (assert_coordination_lease L A l) (\<lambda>_.
     eff_bind (eff_lift (pin_key L A kind ident)) (\<lambda>k. read_pitr_pin L A k))"

definition listed_pin :: "pitr_lib \<Rightarrow> wal_adapter \<Rightarrow> string \<Rightarrow> string \<Rightarrow> PitrRemotePin pitr" where
  "listed_pin L A pre k =
     eff_bind (case split_on (CHR ''/'') (drop (length pre) k) of
         [kind, name] \<Rightarrow>
           if \<not> ends_with ''.json'' name \<or> take (length name - 5) name = []
           then eff_raise (pin_error (''Unexpected object in remote PITR pin namespace: '' @ quoted k))
           else eff_lift (case pin_key L A kind (take (length name - 5) name) of
               Inl e \<Rightarrow> Inl (if failure_class e \<in> {WalS3ConfigurationError, WalS3PathError}
                 then pin_error (''Invalid object in remote PITR pin namespace: '' @ quoted k) else e)
             | Inr expected \<Rightarrow> Inr expected)
       | _ \<Rightarrow> eff_raise (pin_error (''Unexpected object in remote PITR pin namespace: '' @ quoted k))) (\<lambda>expected.
     eff_bind (eff_check (expected = k) (pin_error (''Remote PITR pin key is not canonical: '' @ quoted k))) (\<lambda>_.
     read_pitr_pin L A k))"

definition list_pitr_pins :: "pitr_lib \<Rightarrow> wal_adapter \<Rightarrow> PitrCoordinationLease \<Rightarrow> string option \<Rightarrow> PitrRemotePin list pitr" where
  "list_pitr_pins L A l environment =
     eff_bind (assert_coordination_lease L A l) (\<lambda>_.
     eff_bind (eff_lift (case environment of None \<Rightarrow> Inr None
       | Some v \<Rightarrow> bindE (wal_component v ''environment'') (\<lambda>e. Inr (Some e)))) (\<lambda>wanted.
     eff_bind (eff_lift (pins_prefix L A)) (\<lambda>p.
     eff_bind (list_objects L A (p @ ''/'')) (\<lambda>found.
     eff_bind (eff_collect (listed_pin L A (p @ ''/'')) (map fst found)) (\<lambda>pins.
     eff_return (sort_key (\<lambda>x. (rp_kind x, rp_ident x))
       (filter (\<lambda>x. wanted = None \<or> wanted = Some (rp_environment x)) pins)))))))"

definition release_pitr_pin :: "pitr_lib \<Rightarrow> wal_adapter \<Rightarrow> PitrRemotePin \<Rightarrow> PitrCoordinationLease \<Rightarrow> unit pitr" where
  "release_pitr_pin L A pin l =
     eff_bind (assert_coordination_lease L A l) (\<lambda>_.
     eff_bind (eff_lift (pin_key L A (rp_kind pin) (rp_ident pin))) (\<lambda>expected.
     eff_bind (eff_check (rp_key pin = expected) (pin_error ''Refusing to release a PITR pin outside its canonical key'')) (\<lambda>_.
     eff_bind (read_pitr_pin L A expected) (\<lambda>current.
     eff_bind (eff_check (current = pin) (pin_error ''Refusing to release a PITR pin that changed remotely'')) (\<lambda>_.
     conditional_delete L A (rp_key current) (rp_etag current) ''Remote PITR pin'')))))"

end
