(* ===== verification/Pitr_Service.thy ===== *)
theory Pitr_Service
  imports Wal_Lease
begin

text \<open>
  \<open>odooctl/services/pitr.py\<close>: archiving WAL, physical base backups, recovery plans and the
  retention of the archive.  The inspection of the source cluster, the data directory of a
  physical backup and the typing of a remote manifest are arguments.  The lease of the guard
  (\<open>_CoordinationGuard\<close>) is \<open>pw_guard\<close>.
\<close>

section \<open>Configuration\<close>

record PostgresPitrInspection =
  pi_major :: int
  pi_system :: string
  pi_timeline :: int
  pi_segment_size :: int
  pi_archive_mode :: string
  pi_archive_command :: string
  pi_archive_library :: string
  pi_tablespaces :: "string list"

definition archiving_configured :: "PostgresPitrInspection \<Rightarrow> bool" where
  "archiving_configured x \<longleftrightarrow> pi_archive_mode x \<in> {''on'', ''always''} \<and>
     ((py_strip (pi_archive_command x) \<noteq> [] \<and> py_strip (pi_archive_command x) \<noteq> ''(disabled)'') \<or>
      py_strip (pi_archive_library x) \<noteq> [])"

record PitrConfig =
  pc_enabled :: bool
  pc_environment :: string
  pc_cluster :: "string option"
  pc_system :: "string option"
  pc_bucket :: "string option"
  pc_prefix :: "string option"
  pc_image :: "string option"
  pc_policy :: "string option"
  pc_base_backups :: int
  pc_grace_hours :: int

text \<open>
  The context: the project with its environments (their databases), the settings of the archive's
  client, the source cluster (its inspection; \<open>px_backup\<close> is the data directory \<open>pg_basebackup\<close>
  leaves for a label), and how a JSON document becomes a manifest and back.
\<close>

record pitr_ctx =
  px_config :: PitrConfig
  px_project :: string
  px_root :: string
  px_config_path :: string
  px_environments :: "(string, string) dict"
  px_client :: "unit checked"
  px_sse :: "unit checked"
  px_secrets :: "string list"
  px_detail :: "raw_error \<Rightarrow> string"
  px_inspect :: "PostgresPitrInspection checked"
  px_backup :: "string \<Rightarrow> node checked"
  px_typed_base :: "(string, json) dict \<Rightarrow> (string, PitrBaseBackupManifest) result"
  px_base_text :: "PitrBaseBackupManifest \<Rightarrow> string"

definition config_env :: "pitr_ctx \<Rightarrow> string \<Rightarrow> string checked" where
  "config_env X environment = (case dict_get (px_environments X) environment of
     Some db \<Rightarrow> Inr db
   | None \<Rightarrow> Inl (Failure PitrKeyError (''Unknown environment '' @ quoted environment @ ''. Known: '' @
       join_with '', '' (sort (map fst (px_environments X))))))"

definition pitr_config :: "pitr_ctx \<Rightarrow> string \<Rightarrow> PitrConfig checked" where
  "pitr_config X environment =
     (let c = px_config X in
      bindE (guardE (pc_enabled c) (pitr_failure ''PITR is disabled; set pitr.enabled: true'')) (\<lambda>_.
      bindE (config_env X environment) (\<lambda>_.
      bindE (guardE (environment = pc_environment c)
        (pitr_failure (''PITR is bound to environment '' @ quoted (pc_environment c) @ '', not '' @ quoted environment))) (\<lambda>_.
      bindE (guardE (pc_bucket c \<noteq> None \<and> pc_cluster c \<noteq> None \<and> pc_cluster c \<noteq> Some [])
        (pitr_failure ''PITR destination and cluster identity are incomplete'')) (\<lambda>_.
      bindE (guardE (pc_policy c = Some ''database_only'')
        (pitr_failure ''PITR requires the explicit database_only filestore policy'')) (\<lambda>_. Inr c))))))"

definition other_system :: pitr_error where
  "other_system = pitr_failure ''Live PostgreSQL system identifier does not match pitr.system_identifier''"

definition inspect_source :: "pitr_ctx \<Rightarrow> string \<Rightarrow> PostgresPitrInspection checked" where
  "inspect_source X environment =
     bindE (pitr_config X environment) (\<lambda>c.
     bindE (px_inspect X) (\<lambda>x.
     bindE (guardE (pc_system c = None \<or> pc_system c = Some (pi_system x)) other_system) (\<lambda>_.
     bindE (guardE (13 \<le> pi_major x) (pitr_failure ''PITR base verification requires PostgreSQL 13 or newer'')) (\<lambda>_.
     bindE (guardE (archiving_configured x)
       (pitr_failure ''PostgreSQL archive_mode and archive_command/archive_library must be enabled before PITR can succeed'')) (\<lambda>_.
     bindE (guardE (pi_tablespaces x = [])
       (pitr_failure (''PITR v1 refuses non-default PostgreSQL tablespaces: '' @ join_with '', '' (pi_tablespaces x)))) (\<lambda>_. Inr x))))))"

text \<open>\<open>_resolve_system_identifier\<close> without an inspection.\<close>

definition resolve_system_identifier :: "pitr_lib \<Rightarrow> pitr_ctx \<Rightarrow> string \<Rightarrow> pitr_world \<Rightarrow> string checked" where
  "resolve_system_identifier L X environment w =
     bindE (pitr_config X environment) (\<lambda>c.
     case pc_system c of
       Some s \<Rightarrow> Inr s
     | None \<Rightarrow>
         bindE (list_pitr_base_manifests L w (Some environment) None None) (\<lambda>ms.
         case remdups (map pb_system ms) of
           [s] \<Rightarrow> Inr s
         | [] \<Rightarrow> (case inspect_source X environment of
             Inr x \<Rightarrow> Inr (pi_system x)
           | Inl _ \<Rightarrow> Inl (pitr_failure (''Cannot resolve the PostgreSQL system identifier. Configure pitr.system_identifier '' @
               ''or restore PITR metadata before recovery.'')))
         | _ \<Rightarrow> Inl (pitr_failure ''Multiple PITR system identifiers are indexed; set pitr.system_identifier explicitly'')))"

definition make_wal_adapter :: "pitr_ctx \<Rightarrow> string \<Rightarrow> string \<Rightarrow> wal_adapter checked" where
  "make_wal_adapter X environment system =
     bindE (pitr_config X environment) (\<lambda>c.
     make_wal_s3 (the (pc_bucket c)) (pc_prefix c) (px_project X) (the (pc_cluster c)) system (px_client X) (px_sse X) (px_secrets X)
       (px_detail X))"

text \<open>The adapter of an operation that was given none.\<close>

definition resolve_adapter :: "pitr_lib \<Rightarrow> pitr_ctx \<Rightarrow> string \<Rightarrow> (string \<times> wal_adapter) pitr" where
  "resolve_adapter L X environment =
     eff_bind (eff_read (resolve_system_identifier L X environment)) (\<lambda>r.
     eff_bind (eff_lift r) (\<lambda>identity.
     eff_bind (eff_lift (make_wal_adapter X environment identity)) (\<lambda>A. eff_return (identity, A))))"

section \<open>The guard\<close>

definition set_guard :: "PitrCoordinationLease option \<Rightarrow> unit pitr" where
  "set_guard l = (\<lambda>w. (Inr (), w\<lparr>pw_guard := l\<rparr>))"

definition guard_lease :: "PitrCoordinationLease pitr" where
  "guard_lease = eff_bind (eff_read pw_guard) (\<lambda>g. case g of
     Some l \<Rightarrow> eff_return l | None \<Rightarrow> eff_raise (Failure PitrAssertionError ''no lease''))"

definition guard_renew :: "pitr_lib \<Rightarrow> wal_adapter \<Rightarrow> unit pitr" where
  "guard_renew L A = eff_bind guard_lease (\<lambda>l. eff_bind (renew_coordination_lease L A l) (\<lambda>l'. set_guard (Some l')))"

definition guard_release :: "pitr_lib \<Rightarrow> wal_adapter \<Rightarrow> unit pitr" where
  "guard_release L A = eff_bind guard_lease (release_coordination_lease L A)"

text \<open>
  \<open>with _CoordinationGuard(...) as coordination: body\<close>.  When the body fails, a failure of the
  release is only noted on its exception.
\<close>

definition with_guard :: "pitr_lib \<Rightarrow> wal_adapter \<Rightarrow> string \<Rightarrow> string \<Rightarrow> 'a pitr \<Rightarrow> 'a pitr" where
  "with_guard L A purpose owner body =
     eff_bind (acquire_coordination_lease L A purpose owner 3600) (\<lambda>l.
     eff_bind (set_guard (Some l)) (\<lambda>_.
     eff_bind (eff_catch_all body
       (\<lambda>e. eff_bind (eff_catch (guard_release L A) (\<lambda>_. eff_return ())) (\<lambda>_. eff_fail e))) (\<lambda>x.
     eff_bind (guard_release L A) (\<lambda>_. eff_return x))))"

section \<open>Instants\<close>

text \<open>\<open>_parse_utc\<close> of a text.\<close>

definition parse_utc :: "pitr_lib \<Rightarrow> string \<Rightarrow> string \<Rightarrow> int checked" where
  "parse_utc L v label = (case instant_of L v of
     None \<Rightarrow> Inl (pitr_value_error (label @ '' must be an RFC3339 timestamp''))
   | Some None \<Rightarrow> Inl (pitr_value_error (label @ '' must include a timezone''))
   | Some (Some n) \<Rightarrow> Inr n)"

definition pitr_timestamp :: "pitr_lib \<Rightarrow> int \<Rightarrow> string" where
  "pitr_timestamp L n = pl_micros L n"

text \<open>\<open>now_utc()\<close>, in whole seconds.\<close>

definition models_now :: "pitr_lib \<Rightarrow> string pitr" where
  "models_now L = eff_bind local_now (\<lambda>n. eff_return (pl_isoformat L (n - n mod SECOND)))"

text \<open>A model built from its fields.\<close>

definition built :: "(string, 'm) result \<Rightarrow> 'm checked" where
  "built r = (case r of Inl t \<Rightarrow> Inl (Failure PitrValidationError t) | Inr m \<Rightarrow> Inr m)"

section \<open>The lease, for operators\<close>

definition service_inspect_lease :: "pitr_lib \<Rightarrow> pitr_ctx \<Rightarrow> string \<Rightarrow> PitrCoordinationLease option pitr" where
  "service_inspect_lease L X environment =
     eff_bind (eff_lift (pitr_config X environment)) (\<lambda>_.
     eff_bind (resolve_adapter L X environment) (\<lambda>(_, A). inspect_coordination_lease L A))"

definition service_recover_lease ::
  "pitr_lib \<Rightarrow> pitr_ctx \<Rightarrow> string \<Rightarrow> string \<Rightarrow> string \<Rightarrow> string \<Rightarrow> string \<Rightarrow> PitrCoordinationLease pitr" where
  "service_recover_lease L X environment confirm_ident confirm_owner confirm_purpose confirm_stopped =
     eff_bind (eff_lift (pitr_config X environment)) (\<lambda>_.
     eff_bind (resolve_adapter L X environment) (\<lambda>(_, A).
     recover_expired_lease L A confirm_ident confirm_owner confirm_purpose confirm_stopped))"

section \<open>The archive command\<close>

text \<open>\<open>shlex.quote\<close>.\<close>

definition shell_safe :: "char \<Rightarrow> bool" where
  "shell_safe c \<longleftrightarrow> alnum c \<or> c \<in> set ''_@%+=:,./-''"

definition shlex_quote :: "string \<Rightarrow> string" where
  "shlex_quote s =
     (let q = CHR 0x27; d = CHR 0x22 in
      if s = [] then [q, q]
      else if list_all shell_safe s then s
      else q # concat (map (\<lambda>c. if c = q then [q, d, q, d, q] else [c]) s) @ [q])"

definition command_literal :: "string \<Rightarrow> string" where
  "command_literal v = shlex_quote (replace_all ''%'' ''%%'' v)"

definition archive_command :: "pitr_ctx \<Rightarrow> string \<Rightarrow> string \<Rightarrow> string checked" where
  "archive_command X environment odooctl_bin =
     bindE (pitr_config X environment) (\<lambda>_.
     let d = [CHR 0x22] in
     Inr (command_literal odooctl_bin @ '' --project-dir '' @ command_literal (px_root X) @ '' pitr wal push '' @
       command_literal environment @ '' --path '' @ d @ ''%p'' @ d @ '' --name '' @ d @ ''%f'' @ d @ '' --config '' @
       command_literal (px_config_path X)))"

section \<open>WAL\<close>

record PitrCheckResult =
  pk_environment :: string
  pk_cluster :: string
  pk_system :: string
  pk_major :: int
  pk_timeline :: int
  pk_segment_size :: int
  pk_archive_mode :: string
  pk_configured :: bool
  pk_image :: string
  pk_objects :: int

definition check_pitr :: "pitr_lib \<Rightarrow> pitr_ctx \<Rightarrow> string \<Rightarrow> PitrCheckResult pitr" where
  "check_pitr L X environment =
     eff_bind (eff_lift (pitr_config X environment)) (\<lambda>c.
     eff_bind (eff_lift (inspect_source X environment)) (\<lambda>x.
     eff_bind (eff_check (pc_image c \<noteq> None \<and> pc_image c \<noteq> Some [])
       (pitr_failure ''pitr.recovery_image must pin the PostgreSQL image used for isolated recovery'')) (\<lambda>_.
     eff_bind (eff_lift (make_wal_adapter X environment (pi_system x))) (\<lambda>A.
     eff_bind (list_wal L A) (\<lambda>found.
     eff_return \<lparr>pk_environment = environment, pk_cluster = the (pc_cluster c), pk_system = pi_system x, pk_major = pi_major x,
       pk_timeline = pi_timeline x, pk_segment_size = pi_segment_size x, pk_archive_mode = pi_archive_mode x,
       pk_configured = archiving_configured x, pk_image = the (pc_image c), pk_objects = int (length found)\<rparr>)))))"

definition new_receipt :: "pitr_lib \<Rightarrow> pitr_ctx \<Rightarrow> string \<Rightarrow> string \<Rightarrow> string \<Rightarrow> string \<Rightarrow> string \<Rightarrow> int \<Rightarrow> string \<Rightarrow> WalReceipt checked" where
  "new_receipt L X environment system filename key sha len archived_at =
     built (validate_receipt L \<lparr>wr_project = px_project X, wr_environment = environment, wr_cluster = the (pc_cluster (px_config X)),
       wr_system = system, wr_filename = filename, wr_timeline = int (hex_number (take 8 filename)), wr_sha = sha, wr_size = len,
       wr_archived_at = archived_at, wr_uri = ''s3://'' @ the (pc_bucket (px_config X)) @ ''/'' @ key\<rparr>)"

definition lookup_receipt :: "pitr_lib \<Rightarrow> WalReceipt \<Rightarrow> WalReceipt option pitr" where
  "lookup_receipt L r = eff_bind (eff_read (\<lambda>w. find_wal_receipt L w (wr_cluster r) (wr_system r) (wr_filename r))) eff_lift"

text \<open>The source: the basename of the path and, when it is a regular file, its bytes.\<close>

definition archive_wal :: "pitr_lib \<Rightarrow> pitr_ctx \<Rightarrow> string \<Rightarrow> string \<Rightarrow> string option \<Rightarrow> string \<Rightarrow> WalReceipt pitr" where
  "archive_wal L X environment basename source filename =
     eff_bind (eff_lift (pitr_config X environment)) (\<lambda>_.
     eff_bind (eff_check (source \<noteq> None \<and> basename = filename)
       (pitr_failure ''WAL archive source must be a regular file whose basename matches --name'')) (\<lambda>_.
     eff_bind (eff_lift (inspect_source X environment)) (\<lambda>x.
     eff_bind (eff_lift (make_wal_adapter X environment (pi_system x))) (\<lambda>A.
     eff_bind (wal_archive L A source filename) (\<lambda>archived.
     eff_bind local_now (\<lambda>now.
     eff_bind (eff_lift (new_receipt L X environment (pi_system x) (wx_filename archived) (wx_key archived) (wx_sha archived)
       (wx_size archived) (pitr_timestamp L now))) (\<lambda>receipt.
     eff_bind (lookup_receipt L receipt) (\<lambda>existing.
     case existing of
       Some known \<Rightarrow> eff_bind (eff_check (same_wal_object receipt known)
         (pitr_failure (''Archived WAL conflicts with its immutable local receipt for '' @ quoted (wr_filename receipt)))) (\<lambda>_.
         eff_return known)
     | None \<Rightarrow> eff_bind (save_wal_receipt L receipt) (\<lambda>_. eff_return receipt)))))))))"

text \<open>\<open>key.rsplit("/", 1)[-1]\<close>.\<close>

definition last_component :: "string \<Rightarrow> string" where
  "last_component k = last (split_on (CHR ''/'') k)"

definition remote_receipt :: "pitr_lib \<Rightarrow> pitr_ctx \<Rightarrow> string \<Rightarrow> string \<Rightarrow> WalObjectInfo \<Rightarrow> WalReceipt option pitr" where
  "remote_receipt L X environment system i =
     (let filename = last_component (wi_key i) in
      if length filename \<noteq> 24 then eff_return None
      else case wi_modified i of
        None \<Rightarrow> eff_raise (pitr_failure (''Remote WAL '' @ filename @ '' has no authoritative modification time''))
      | Some t \<Rightarrow>
          eff_bind (eff_lift (new_receipt L X environment system filename (wi_key i) (wi_sha i) (wi_size i) (pitr_timestamp L t))) (\<lambda>receipt.
          eff_bind (lookup_receipt L receipt) (\<lambda>existing.
          eff_bind (case existing of
              None \<Rightarrow> save_wal_receipt L receipt
            | Some known \<Rightarrow> eff_check (same_wal_object receipt known)
                (pitr_failure (''Remote WAL conflicts with its immutable local receipt for '' @ quoted (wr_filename receipt)))) (\<lambda>_.
          eff_return (Some receipt)))))"

definition remote_wal_receipts :: "pitr_lib \<Rightarrow> pitr_ctx \<Rightarrow> string \<Rightarrow> string \<Rightarrow> wal_adapter \<Rightarrow> WalReceipt list pitr" where
  "remote_wal_receipts L X environment system A =
     eff_bind (eff_lift (pitr_config X environment)) (\<lambda>_.
     eff_bind (list_wal L A) (\<lambda>items.
     eff_bind (eff_collect (remote_receipt L X environment system) items) (\<lambda>rs.
     eff_return (collect id rs))))"

section \<open>Base backups\<close>

definition validate_manifest_ownership ::
  "pitr_lib \<Rightarrow> pitr_ctx \<Rightarrow> string \<Rightarrow> string \<Rightarrow> (string, json) dict \<Rightarrow> PitrBaseBackupManifest checked" where
  "validate_manifest_ownership L X environment system raw =
     bindE (built (bindE (px_typed_base X raw) (validate_base L))) (\<lambda>m.
     bindE (pitr_config X environment) (\<lambda>c.
     bindE (guardE ((pb_project m, pb_environment m, pb_cluster m, pb_system m) = (px_project X, environment, the (pc_cluster c), system))
       (pitr_failure ''Remote PITR base backup does not belong to this project/environment/cluster'')) (\<lambda>_.
     bindE (guardE (pb_status m = BASE_COMPLETE) (pitr_failure ''Remote PITR base backup is not complete'')) (\<lambda>_. Inr m))))"

definition owned_manifest :: "pitr_lib \<Rightarrow> pitr_ctx \<Rightarrow> string \<Rightarrow> string \<Rightarrow> wal_adapter \<Rightarrow> string \<Rightarrow> PitrBaseBackupManifest pitr" where
  "owned_manifest L X environment system A ident =
     eff_bind (read_base_manifest L A ident) (\<lambda>raw.
     eff_lift (validate_manifest_ownership L X environment system raw))"

definition list_base_backups :: "pitr_lib \<Rightarrow> pitr_ctx \<Rightarrow> string \<Rightarrow> string \<Rightarrow> wal_adapter \<Rightarrow> PitrBaseBackupManifest list pitr" where
  "list_base_backups L X environment system A =
     eff_bind (remote_base_ids L A) (\<lambda>idents.
     eff_bind (eff_collect (\<lambda>i. eff_bind (owned_manifest L X environment system A i) (\<lambda>m.
         eff_bind (save_pitr_base_manifest L m) (\<lambda>_. eff_return m))) idents) (\<lambda>ms.
     eff_return (sort_down base_order ms)))"

definition service_verify_base ::
  "pitr_lib \<Rightarrow> pitr_ctx \<Rightarrow> string \<Rightarrow> string \<Rightarrow> PitrBaseBackupManifest pitr" where
  "service_verify_base L X environment ident =
     eff_bind (resolve_adapter L X environment) (\<lambda>(system, A).
     eff_bind (owned_manifest L X environment system A ident) (\<lambda>m.
     eff_bind (verify_base_backup L A ident) (\<lambda>_.
     eff_bind (save_pitr_base_manifest L m) (\<lambda>_. eff_return m))))"

text \<open>\<open>_backup_wal_range\<close>: the only range of \<open>backup_manifest\<close>, of the inspected timeline.\<close>

definition declared_range :: "json option \<Rightarrow> int \<Rightarrow> (string \<times> string) option" where
  "declared_range raw timeline = (case raw of
     Some (JObj d) \<Rightarrow> (case dict_get d ''WAL-Ranges'' of
         Some (JList [JObj r]) \<Rightarrow> (case (dict_get r ''Start-LSN'', dict_get r ''End-LSN'') of
             (Some a, Some b) \<Rightarrow> if py_int (case dict_get r ''Timeline'' of None \<Rightarrow> JInt (- 1) | Some t \<Rightarrow> t) = Some timeline
               then Some (str_json a, str_json b) else None
           | _ \<Rightarrow> None)
       | _ \<Rightarrow> None)
   | _ \<Rightarrow> None)"

definition backup_wal_range :: "node \<Rightarrow> PostgresPitrInspection \<Rightarrow> (string \<times> string) checked" where
  "backup_wal_range pgdata x =
     (case declared_range (case pgdata of
         Folder es \<Rightarrow> (case dict_get es ''backup_manifest'' of Some (Regular b) \<Rightarrow> load_document b | _ \<Rightarrow> None)
       | _ \<Rightarrow> None) (pi_timeline x) of
       None \<Rightarrow> Inl (pitr_failure ''PostgreSQL backup_manifest has no unambiguous WAL range'')
     | Some (a, b) \<Rightarrow>
         bindE (wal_name_for_lsn a (pi_timeline x) (pi_segment_size x)) (\<lambda>_.
         bindE (wal_name_for_lsn b (pi_timeline x) (pi_segment_size x)) (\<lambda>_. Inr (a, b))))"

definition artifact_inventory :: "pitr_lib \<Rightarrow> node \<Rightarrow> (string \<times> string \<times> int) list checked" where
  "artifact_inventory L root =
     bindE (mapE (\<lambda>(rel, y). case y of
         Link _ \<Rightarrow> Inl (pitr_failure (''Physical base backup contains a symbolic link: '' @ rel))
       | Folder _ \<Rightarrow> Inr []
       | Regular b \<Rightarrow> Inr (if rel = BASE_COMPLETION_MARKER then [] else [(rel, pl_sha L b, int (length b))])
       | _ \<Rightarrow> Inl (pitr_failure (''Physical base backup contains a non-regular file: '' @ rel))) (tree_items root)) (\<lambda>found.
     bindE (guardE (concat found \<noteq> []) (pitr_failure ''Physical base backup contains no artifacts'')) (\<lambda>_. Inr (concat found)))"

definition new_base_id :: "pitr_lib \<Rightarrow> string \<Rightarrow> int \<Rightarrow> string pitr" where
  "new_base_id L environment started =
     eff_bind (random_text L) (\<lambda>t. eff_return (environment @ ''_base_'' @ pl_compact L started @ ''_'' @ t))"

text \<open>
  The staging directory is the attempt's own: its name is random, and what is left of it is
  removed at the end.
\<close>

definition create_base_backup :: "pitr_lib \<Rightarrow> pitr_ctx \<Rightarrow> string \<Rightarrow> PitrBaseBackupManifest pitr" where
  "create_base_backup L X environment =
     eff_bind (eff_lift (pitr_config X environment)) (\<lambda>c.
     eff_bind (eff_check (pc_image c \<noteq> None \<and> pc_image c \<noteq> Some [])
       (pitr_failure ''pitr.recovery_image must pin the PostgreSQL image before creating a physical base backup'')) (\<lambda>_.
     eff_bind (eff_lift (inspect_source X environment)) (\<lambda>x.
     eff_bind (eff_lift (make_wal_adapter X environment (pi_system x))) (\<lambda>A.
     eff_bind local_now (\<lambda>started.
     eff_bind (new_base_id L environment started) (\<lambda>ident.
     eff_bind (local_file (\<lambda>w. (Inr (), w))) (\<lambda>_.
     eff_finally
       (eff_bind (eff_lift (px_backup X ident)) (\<lambda>pgdata.
        eff_bind (eff_lift (backup_wal_range pgdata x)) (\<lambda>(start_lsn, end_lsn).
        eff_bind (eff_lift (wal_name_for_lsn start_lsn (pi_timeline x) (pi_segment_size x))) (\<lambda>start_wal.
        eff_bind (eff_lift (wal_name_for_lsn end_lsn (pi_timeline x) (pi_segment_size x))) (\<lambda>end_wal.
        eff_bind (verify_wal L A end_wal None) (\<lambda>_.
        eff_bind (eff_lift (artifact_inventory L (Folder [(''pgdata'', pgdata)]))) (\<lambda>artifacts.
        eff_bind local_now (\<lambda>completed.
        eff_bind (eff_lift (base_prefix L A ident)) (\<lambda>pre.
        let uri = ''s3://'' @ the (pc_bucket c) @ ''/'' @ pre in
        eff_bind (eff_lift (built (validate_base L \<lparr>pb_ident = ident, pb_project = px_project X, pb_environment = environment,
            pb_cluster = the (pc_cluster c), pb_system = pi_system x, pb_major = pi_major x, pb_image = the (pc_image c),
            pb_timeline = pi_timeline x, pb_segment_size = pi_segment_size x, pb_started_at = pitr_timestamp L started,
            pb_completed_at = Some (pitr_timestamp L completed), pb_start_lsn = start_lsn, pb_end_lsn = end_lsn,
            pb_start_wal = start_wal, pb_end_wal = end_wal, pb_artifacts = map fst artifacts,
            pb_checksums = map (\<lambda>(p, h, _). (p, h)) artifacts, pb_sizes = map (\<lambda>(p, _, n). (p, n)) artifacts,
            pb_uri = Some uri, pb_status = BASE_COMPLETE, pb_verified_at = Some (pitr_timestamp L completed),
            pb_last_error = None\<rparr>))) (\<lambda>m.
        eff_bind (local_file (\<lambda>w. (Inr (), w))) (\<lambda>_.
        eff_bind (upload_base_backup L A ident
            (Some (Folder [(''pgdata'', pgdata), (BASE_COMPLETION_MARKER, Regular (px_base_text X m))]))) (\<lambda>r.
        eff_bind (eff_check (br_uri r = uri) (pitr_failure ''Remote base-backup URI does not match the completion manifest'')) (\<lambda>_.
        eff_bind (save_pitr_base_manifest L m) (\<lambda>_.
        eff_return m))))))))))))))
       (local_file (\<lambda>w. (Inr (), w))))))))))"

section \<open>The WAL graph\<close>

text \<open>Receipts of one timeline by their position; \<open>what\<close> names the graph in the error.\<close>

fun index_wal :: "string \<Rightarrow> int \<Rightarrow> WalReceipt list \<Rightarrow> (int, WalReceipt) dict \<Rightarrow> (int, WalReceipt) dict checked" where
  "index_wal what segment_size [] d = Inr d"
| "index_wal what segment_size (r # rs) d =
     bindE (wal_sequence (wr_filename r) segment_size) (\<lambda>n.
     bindE (guardE (dict_get d n = None) (pitr_failure (what @ '' contains duplicate sequence identity: '' @ wr_filename r))) (\<lambda>_.
     index_wal what segment_size rs (dict_put n r d)))"

text \<open>The first position that is not followed by its successor.\<close>

fun gap_after :: "int list \<Rightarrow> int option" where
  "gap_after (a # b # ns) = (if b \<noteq> a + 1 then Some a else gap_after (b # ns))"
| "gap_after ns = None"

definition missing_segment :: "string \<Rightarrow> int \<Rightarrow> int \<Rightarrow> int \<Rightarrow> 'a checked" where
  "missing_segment text n timeline segment_size =
     bindE (wal_name_for_sequence n timeline segment_size) (\<lambda>name. Inl (pitr_failure (text @ name)))"

definition target_timeline :: "int option \<Rightarrow> WalReceipt list \<Rightarrow> int checked" where
  "target_timeline wanted receipts = (case wanted of
     None \<Rightarrow> (case remdups (map wr_timeline receipts) of
         [t] \<Rightarrow> Inr t
       | _ \<Rightarrow> Inl (pitr_failure
           ''PITR target timeline must be explicit when archive inventory contains zero or multiple timelines''))
   | Some t \<Rightarrow> if t < 1 then Inl (pitr_value_error ''timeline must be a positive integer'') else Inr t)"

text \<open>The WAL of a plan: everything the archive holds from the end of the base on, without a gap.\<close>

definition select_wal :: "PitrBaseBackupManifest \<Rightarrow> int option \<Rightarrow> WalReceipt list \<Rightarrow> (int \<times> WalReceipt list) checked" where
  "select_wal base wanted receipts =
     bindE (target_timeline wanted receipts) (\<lambda>timeline.
     bindE (guardE (pb_timeline base = timeline)
       (pitr_failure (''Timeline-fork recovery requires an explicit compatible base; '' @
         ''odooctl will not infer an ancestor timeline''))) (\<lambda>_.
     bindE (index_wal ''PITR archive'' (pb_segment_size base) (filter (\<lambda>r. wr_timeline r = timeline) receipts) []) (\<lambda>by_sequence.
     bindE (wal_sequence (pb_end_wal base) (pb_segment_size base)) (\<lambda>start.
     let ordered = sort (filter (\<lambda>n. start \<le> n) (map fst by_sequence));
         gap = ''The WAL archive is not contiguous from the selected base; first missing segment: '' in
     bindE (if ordered = [] then missing_segment
         ''The WAL archive has no segment at or after the selected base; first required segment: '' start timeline (pb_segment_size base)
       else if hd ordered \<noteq> start then missing_segment gap start timeline (pb_segment_size base)
       else case gap_after ordered of
         Some n \<Rightarrow> missing_segment gap (n + 1) timeline (pb_segment_size base)
       | None \<Rightarrow> Inr ()) (\<lambda>_.
     bindE (guardE (int (length ordered) \<le> MAX_PITR_WAL_SEGMENTS)
       (pitr_failure ''PITR plan exceeds the safe WAL segment-count limit'')) (\<lambda>_.
     Inr (timeline, map (\<lambda>n. the (dict_get by_sequence n)) ordered)))))))"

section \<open>Recovery plans\<close>

definition pin_segments :: "WalReceipt list \<Rightarrow> PitrPinnedWal list" where
  "pin_segments rs = map (\<lambda>r. \<lparr>pn_filename = wr_filename r, pn_sha = wr_sha r, pn_size = wr_size r\<rparr>) rs"

definition assert_remote_pin :: "PitrRemotePin \<Rightarrow> string \<Rightarrow> string \<Rightarrow> string \<Rightarrow> string \<Rightarrow> WalReceipt list \<Rightarrow> unit checked" where
  "assert_remote_pin pin kind ident environment base receipts =
     guardE (rp_kind pin = kind \<and> rp_ident pin = ident \<and> rp_environment pin = environment \<and> rp_base pin = base \<and>
         rp_segments pin = pin_segments receipts)
       (pitr_failure (''Remote PITR '' @ kind @ '' pin does not match durable recovery state''))"

definition new_database_name :: "string \<Rightarrow> string \<Rightarrow> string checked" where
  "new_database_name database token =
     (let suffix = ''_pitr_'' @ take 8 token; stem = take (63 - length suffix) database
      in if stem = [] then Inl (pitr_failure ''Live database name leaves no room for a PITR suffix'') else Inr (stem @ suffix))"

text \<open>\<open>max\<close> returns the first of equal elements.\<close>

fun first_max :: "('a \<Rightarrow> 'k::linorder) \<Rightarrow> 'a \<Rightarrow> 'a list \<Rightarrow> 'a" where
  "first_max key x [] = x"
| "first_max key x (y # ys) = first_max key (if key x < key y then y else x) ys"

definition eligible_bases ::
  "pitr_lib \<Rightarrow> int \<Rightarrow> string option \<Rightarrow> PitrBaseBackupManifest list \<Rightarrow> (int \<times> PitrBaseBackupManifest) list checked" where
  "eligible_bases L target wanted bases =
     bindE (mapE (\<lambda>m. case pb_completed_at m of
         None \<Rightarrow> Inr []
       | Some c \<Rightarrow> bindE (parse_utc L c ''completed_at'') (\<lambda>t.
           Inr (if t \<le> target \<and> (wanted = None \<or> wanted = Some (pb_ident m)) then [(t, m)] else [])))
       (filter (\<lambda>m. pb_status m = BASE_COMPLETE) bases)) (\<lambda>ls. Inr (concat ls))"

definition select_base ::
  "pitr_lib \<Rightarrow> int \<Rightarrow> string option \<Rightarrow> PitrBaseBackupManifest list \<Rightarrow> PitrBaseBackupManifest checked" where
  "select_base L target wanted bases =
     bindE (eligible_bases L target wanted bases) (\<lambda>es. case es of
       [] \<Rightarrow> Inl (pitr_failure ''No complete PITR base backup precedes the requested target'')
     | e # es \<Rightarrow> Inr (snd (first_max (\<lambda>(t, m). (t, pb_ident m)) e es)))"

text \<open>A byte for byte check of a receipt's object, with the lease renewed before it.\<close>

definition verify_receipt :: "pitr_lib \<Rightarrow> wal_adapter \<Rightarrow> WalReceipt \<Rightarrow> unit pitr" where
  "verify_receipt L A r =
     eff_bind (guard_renew L A) (\<lambda>_.
     eff_bind (verify_wal L A (wr_filename r) (Some (wr_sha r))) (\<lambda>i.
     eff_check (wi_size i = wr_size r) (pitr_failure (''Remote WAL size changed for '' @ wr_filename r))))"

definition new_plan ::
  "pitr_lib \<Rightarrow> pitr_ctx \<Rightarrow> string \<Rightarrow> string \<Rightarrow> string \<Rightarrow> string \<Rightarrow> int \<Rightarrow> PitrBaseBackupManifest \<Rightarrow> int \<Rightarrow> WalReceipt list \<Rightarrow>
   PitrRecoveryPlan pitr" where
  "new_plan L X environment identity plan_id token target base timeline selected =
     eff_bind (eff_lift (config_env X environment)) (\<lambda>database.
     eff_bind (eff_lift (new_database_name database token)) (\<lambda>new_database.
     eff_bind (models_now L) (\<lambda>created.
     eff_bind (eff_lift (built (validate_plan L \<lparr>pp_ident = plan_id, pp_project = px_project X, pp_environment = environment,
         pp_cluster = the (pc_cluster (px_config X)), pp_system = identity, pp_base = pb_ident base, pp_database = database,
         pp_new_database = new_database, pp_target_time = pitr_timestamp L target, pp_timeline = timeline,
         pp_first_wal = wr_filename (hd selected), pp_last_wal = wr_filename (last selected), pp_wal_count = int (length selected),
         pp_wal_bytes = sum_list (map wr_size selected), pp_image = pb_image base, pp_created_at = pitr_timestamp L target,
         pp_status = PLAN_PLANNED\<rparr>))) (\<lambda>p.
     eff_return (p\<lparr>pp_created_at := created\<rparr>)))))"

definition plan_restore_guarded ::
  "pitr_lib \<Rightarrow> pitr_ctx \<Rightarrow> string \<Rightarrow> int \<Rightarrow> int option \<Rightarrow> string option \<Rightarrow> string \<Rightarrow> wal_adapter \<Rightarrow> string \<Rightarrow> string \<Rightarrow> PitrRecoveryPlan pitr" where
  "plan_restore_guarded L X environment target timeline base_ident identity A token plan_id =
     eff_bind (list_base_backups L X environment identity A) (\<lambda>bases.
     eff_bind (eff_lift (select_base L target base_ident bases)) (\<lambda>base.
     eff_bind (guard_renew L A) (\<lambda>_.
     eff_bind (verify_base_backup L A (pb_ident base)) (\<lambda>_.
     eff_bind (remote_wal_receipts L X environment identity A) (\<lambda>receipts.
     eff_bind (eff_lift (select_wal base timeline receipts)) (\<lambda>(chosen, selected).
     eff_bind (eff_each (verify_receipt L A) selected) (\<lambda>_.
     eff_bind (new_plan L X environment identity plan_id token target base chosen selected) (\<lambda>p.
     eff_bind (guard_renew L A) (\<lambda>_.
     eff_bind guard_lease (\<lambda>l.
     eff_bind (create_pitr_pin L A ''plan'' (pp_ident p) environment (pb_ident base) (pin_segments selected) l) (\<lambda>pin.
     eff_bind (eff_lift (assert_remote_pin pin ''plan'' (pp_ident p) environment (pb_ident base) selected)) (\<lambda>_.
     eff_bind (save_pitr_recovery_plan L p) (\<lambda>_.
     eff_return p)))))))))))))"

definition plan_restore ::
  "pitr_lib \<Rightarrow> pitr_ctx \<Rightarrow> string \<Rightarrow> string \<Rightarrow> int option \<Rightarrow> string option \<Rightarrow> PitrRecoveryPlan pitr" where
  "plan_restore L X environment target_time timeline base_ident =
     eff_bind (eff_lift (pitr_config X environment)) (\<lambda>_.
     eff_bind (eff_lift (parse_utc L target_time ''target_time'')) (\<lambda>target.
     eff_bind local_now (\<lambda>now.
     eff_bind (eff_check (target \<le> now) (pitr_failure ''PITR target_time cannot be in the future'')) (\<lambda>_.
     eff_bind (resolve_adapter L X environment) (\<lambda>(identity, A).
     eff_bind (random_text L) (\<lambda>token.
     let plan_id = environment @ ''_pitr_plan_'' @ token in
     with_guard L A ''pitr-plan'' plan_id
       (plan_restore_guarded L X environment target timeline base_ident identity A token plan_id)))))))"

definition validate_plan_ownership :: "pitr_ctx \<Rightarrow> string \<Rightarrow> PitrRecoveryPlan \<Rightarrow> unit checked" where
  "validate_plan_ownership X environment p =
     bindE (pitr_config X environment) (\<lambda>c.
     bindE (config_env X environment) (\<lambda>database.
     guardE ((pp_project p, pp_environment p, pp_cluster p, pp_database p) = (px_project X, environment, the (pc_cluster c), database))
       (pitr_failure ''PITR plan identity does not match this target'')))"

section \<open>Retention\<close>

definition pinned_base_ids :: "pitr_lib \<Rightarrow> string \<Rightarrow> pitr_world \<Rightarrow> string list checked" where
  "pinned_base_ids L environment w =
     bindE (list_pitr_recovery_plans L w (Some environment)) (\<lambda>ps.
     bindE (list_pitr_restores L w (Some environment)) (\<lambda>rs.
     Inr (map pp_base (filter (\<lambda>p. pp_status p \<in> {PLAN_PLANNED, PLAN_EXECUTING, PLAN_FAILED}) ps) @
       map pr_base (filter (\<lambda>r. pr_status r \<noteq> RESTORE_CUTOVER) rs))))"

text \<open>The provider's time of a base's completion marker.\<close>

definition marker_time :: "pitr_lib \<Rightarrow> wal_adapter \<Rightarrow> PitrBaseBackupManifest \<Rightarrow> (int \<times> PitrBaseBackupManifest) pitr" where
  "marker_time L A m =
     eff_bind (guard_renew L A) (\<lambda>_.
     eff_bind (verify_base_backup L A (pb_ident m)) (\<lambda>v.
     case wi_modified (br_manifest v) of
       None \<Rightarrow> eff_raise (pitr_failure (''PITR base completion marker has no authoritative modification time: '' @ pb_ident m))
     | Some t \<Rightarrow> eff_return (t, m)))"

text \<open>The bases to keep, as identifiers; \<open>ordered\<close> is the newest first.\<close>

definition retained_ids ::
  "int \<Rightarrow> int \<Rightarrow> string list \<Rightarrow> PitrRemotePin list \<Rightarrow> (int \<times> PitrBaseBackupManifest) list \<Rightarrow> string list checked" where
  "retained_ids newest cutoff pinned pins ordered =
     (let known = map (\<lambda>(t, m). pb_ident m) ordered;
          retained = sort (remdups (take (nat newest) known @ pinned @ map rp_base pins @
            map (\<lambda>(t, m). pb_ident m) (filter (\<lambda>(t, m). cutoff \<le> t) ordered)));
          missing = filter (\<lambda>i. i \<notin> set known) retained in
      bindE (guardE (missing = []) (pitr_failure (''PITR retention cannot resolve pinned bases: '' @ join_with '', '' missing))) (\<lambda>_.
      bindE (guardE (retained \<noteq> []) (pitr_failure ''PITR retention must retain at least one base'')) (\<lambda>_.
      Inr retained)))"

definition base_named :: "(int \<times> PitrBaseBackupManifest) list \<Rightarrow> string \<Rightarrow> PitrBaseBackupManifest" where
  "base_named ordered i = snd (the (List.find (\<lambda>(t, m). pb_ident m = i) ordered))"

text \<open>A pin's WAL is there, unchanged, on its base's timeline, from the base's end on and without a gap.\<close>

definition check_pin :: "(int \<times> PitrBaseBackupManifest) list \<Rightarrow> WalReceipt list \<Rightarrow> PitrRemotePin \<Rightarrow> unit checked" where
  "check_pin ordered remote_wal pin =
     (let base = base_named ordered (rp_base pin); named = ''Remote PITR pin '' @ quoted (rp_ident pin) in
      bindE (mapE (\<lambda>s. case List.find (\<lambda>r. wr_filename r = pn_filename s) remote_wal of
          Some r \<Rightarrow> if wr_sha r = pn_sha s \<and> wr_size r = pn_size s then Inr r
            else Inl (pitr_failure (named @ '' references missing or changed WAL''))
        | None \<Rightarrow> Inl (pitr_failure (named @ '' references missing or changed WAL''))) (rp_segments pin)) (\<lambda>receipts.
      bindE (guardE (wr_filename (hd receipts) = pb_end_wal base \<and> list_all (\<lambda>r. wr_timeline r = pb_timeline base) receipts)
        (pitr_failure (named @ '' is incompatible with its base backup''))) (\<lambda>_.
      bindE (mapE (\<lambda>r. wal_sequence (wr_filename r) (pb_segment_size base)) receipts) (\<lambda>sequences.
      guardE (gap_after sequences = None) (pitr_failure (named @ '' has a WAL gap''))))))"

text \<open>
  The decision: the size of segments, the timeline and the first position to keep, the receipts
  of that timeline.  Sets are walked in the order of their elements.
\<close>

definition retained_graph ::
  "(int \<times> PitrBaseBackupManifest) list \<Rightarrow> string list \<Rightarrow> PitrRemotePin list \<Rightarrow> WalReceipt list \<Rightarrow>
   (int \<times> int \<times> WalReceipt list) checked" where
  "retained_graph ordered retained pins remote_wal =
     bindE (mapE (\<lambda>i. let m = base_named ordered i in wal_sequence (pb_end_wal m) (pb_segment_size m)) retained) (\<lambda>ends.
     let earliest = Min (set ends);
         sizes = remdups (map (\<lambda>i. pb_segment_size (base_named ordered i)) retained);
         timelines = remdups (map (\<lambda>i. pb_timeline (base_named ordered i)) retained) in
     bindE (guardE (length sizes = 1 \<and> length timelines = 1) (pitr_failure ''PITR retention refuses mixed WAL sizes or timelines'')) (\<lambda>_.
     bindE (guardE (distinct (map wr_filename remote_wal)) (pitr_failure ''PITR WAL inventory contains duplicate filenames'')) (\<lambda>_.
     bindE (mapE (check_pin ordered remote_wal) pins) (\<lambda>_.
     let receipts = filter (\<lambda>r. wr_timeline r = hd timelines) remote_wal in
     bindE (index_wal ''PITR retained WAL graph'' (hd sizes) receipts []) (\<lambda>by_sequence.
     let kept = sort (filter (\<lambda>n. earliest \<le> n) (map fst by_sequence)) in
     bindE (guardE (kept \<noteq> [] \<and> hd kept = earliest)
       (pitr_failure ''PITR retained WAL graph is not contiguous from its earliest retained base'')) (\<lambda>_.
     bindE (case gap_after kept of
         None \<Rightarrow> Inr ()
       | Some n \<Rightarrow> missing_segment ''PITR retained WAL graph has a gap after '' n (hd timelines) (hd sizes)) (\<lambda>_.
     Inr (hd sizes, earliest, receipts))))))))"

text \<open>\<open>wal_sequence\<close> of a name that has one.\<close>

definition position :: "int \<Rightarrow> WalReceipt \<Rightarrow> int" where
  "position segment_size r = (case wal_sequence (wr_filename r) segment_size of Inr n \<Rightarrow> n | Inl _ \<Rightarrow> 0)"

definition expired_wal :: "pitr_lib \<Rightarrow> int \<Rightarrow> int \<Rightarrow> int \<Rightarrow> WalReceipt list \<Rightarrow> WalReceipt list checked" where
  "expired_wal L segment_size earliest cutoff receipts =
     bindE (mapE (\<lambda>r. if position segment_size r < earliest
         then bindE (parse_utc L (wr_archived_at r) ''archived_at'') (\<lambda>t. Inr (if t < cutoff then [r] else []))
         else Inr []) receipts) (\<lambda>ls. Inr (sort_key (position segment_size) (concat ls)))"

record PitrRetentionResult =
  pt_retained :: "string list"
  pt_deleted_bases :: "string list"
  pt_deleted_wal :: "string list"

definition delete_expired ::
  "pitr_lib \<Rightarrow> wal_adapter \<Rightarrow> string list \<Rightarrow> WalReceipt list \<Rightarrow> unit pitr" where
  "delete_expired L A idents receipts =
     eff_bind (eff_each (\<lambda>i. eff_bind (guard_renew L A) (\<lambda>_.
         eff_bind (delete_base_backup L A i (\<lambda>_. guard_renew L A)) (\<lambda>_. eff_return ()))) idents) (\<lambda>_.
     eff_each (\<lambda>r. eff_bind (guard_renew L A) (\<lambda>_.
         eff_bind (delete_wal L A (wr_filename r)) (\<lambda>_. eff_return ()))) receipts)"

definition reconcile_retention_locked ::
  "pitr_lib \<Rightarrow> pitr_ctx \<Rightarrow> string \<Rightarrow> int \<Rightarrow> string \<Rightarrow> wal_adapter \<Rightarrow> PitrRetentionResult pitr" where
  "reconcile_retention_locked L X environment now identity A =
     (let newest = pc_base_backups (px_config X); cutoff = now - pc_grace_hours (px_config X) * 3600 * SECOND in
      eff_bind (list_base_backups L X environment identity A) (\<lambda>bases.
      eff_bind (eff_check (bases \<noteq> []) (pitr_failure ''PITR retention refuses to run without a complete base backup'')) (\<lambda>_.
      eff_bind guard_lease (\<lambda>l.
      eff_bind (list_pitr_pins L A l (Some environment)) (\<lambda>pins.
      eff_bind (eff_collect (marker_time L A) bases) (\<lambda>timed.
      let ordered = sort_down (\<lambda>(t, m). (t, pb_ident m)) timed in
      eff_bind (eff_read (pinned_base_ids L environment)) (\<lambda>found.
      eff_bind (eff_lift found) (\<lambda>pinned.
      eff_bind (eff_lift (retained_ids newest cutoff pinned pins ordered)) (\<lambda>retained.
      eff_bind (remote_wal_receipts L X environment identity A) (\<lambda>remote_wal.
      eff_bind (eff_lift (retained_graph ordered retained pins remote_wal)) (\<lambda>(segment_size, earliest, receipts).
      eff_bind (eff_each (verify_receipt L A) (sort_key (position segment_size) receipts)) (\<lambda>_.
      let idents = map (\<lambda>(t, m). pb_ident m) (filter (\<lambda>(t, m). pb_ident m \<notin> set retained) (rev ordered)) in
      eff_bind (eff_lift (expired_wal L segment_size earliest cutoff receipts)) (\<lambda>expired.
      eff_bind (delete_expired L A idents expired) (\<lambda>_.
      eff_return \<lparr>pt_retained = retained, pt_deleted_bases = idents, pt_deleted_wal = map wr_filename expired\<rparr>))))))))))))))"

definition reconcile_retention :: "pitr_lib \<Rightarrow> pitr_ctx \<Rightarrow> string \<Rightarrow> PitrRetentionResult pitr" where
  "reconcile_retention L X environment =
     eff_bind (eff_lift (pitr_config X environment)) (\<lambda>_.
     eff_bind local_now (\<lambda>now.
     eff_bind (resolve_adapter L X environment) (\<lambda>(identity, A).
     eff_bind (random_text L) (\<lambda>token.
     with_guard L A ''pitr-retention'' (''retention-'' @ environment @ ''-'' @ token)
       (reconcile_retention_locked L X environment now identity A)))))"

end
