(* ===== verification/Pitr_Calm.thy ===== *)
theory Pitr_Calm
  imports Pitr_Service
begin

text \<open>
  Reasoning about a bucket other hosts also work on: \<open>calm R w\<close> says that they leave the keys of
  \<open>R\<close> alone, \<open>seen R w\<close> is what there is at those keys, and \<open>stays R J\<close> is a condition on it.
  Reads keep every such condition, and so does whatever touches no key of \<open>R\<close>.
\<close>

definition calm :: "(string \<Rightarrow> bool) \<Rightarrow> pitr_world \<Rightarrow> bool" where
  "calm R w \<longleftrightarrow> (\<forall>p \<in> set (pw_calls w). \<forall>c \<in> set (cp_others p). \<not> R (changed_key c))"

definition seen :: "(string \<Rightarrow> bool) \<Rightarrow> pitr_world \<Rightarrow> string \<Rightarrow> wal_object option" where
  "seen R w = (\<lambda>k. if R k then dict_get (pw_bucket w) k else None)"

definition stays :: "(string \<Rightarrow> bool) \<Rightarrow> ((string \<Rightarrow> wal_object option) \<Rightarrow> bool) \<Rightarrow> pitr_world \<Rightarrow> bool" where
  "stays R J w \<longleftrightarrow> calm R w \<and> J (seen R w)"

named_theorems calm_rules \<open>Code that keeps every condition on what is seen.\<close>

lemma dict_get_fold_change:
  "(\<And>c. c \<in> set cs \<Longrightarrow> changed_key c \<noteq> k) \<Longrightarrow> dict_get (fold apply_change cs b) k = dict_get b k"
proof (induction cs arbitrary: b)
  case (Cons c cs)
  have "dict_get (apply_change c b) k = dict_get b k" using Cons.prems[of c] by (cases c) auto
  then show ?case using Cons by simp
qed simp

lemma next_call_stays:
  assumes "stays R J w"
  shows "stays R J (snd (next_call w))"
proof (cases "pw_calls w")
  case Nil
  then show ?thesis using assms by (simp add: next_call_def)
next
  case (Cons p ps)
  have "seen R (snd (next_call w)) = seen R w"
    using assms Cons by (auto simp: fun_eq_iff seen_def next_call_def stays_def calm_def intro!: dict_get_fold_change)
  then show ?thesis using assms Cons by (auto simp: stays_def calm_def next_call_def)
qed

lemma stays_mono: "stays R J w \<Longrightarrow> (\<And>s. J s \<Longrightarrow> J' s) \<Longrightarrow> stays R J' w"
  by (simp add: stays_def)

lemma stays_bucket_only: "stays R J w \<Longrightarrow> pw_bucket w' = pw_bucket w \<Longrightarrow> pw_calls w' = pw_calls w \<Longrightarrow> stays R J w'"
  by (simp add: stays_def calm_def seen_def cong: if_cong)

lemma seen_del [simp]: "seen R (w\<lparr>pw_bucket := dict_del k b\<rparr>) = (seen R (w\<lparr>pw_bucket := b\<rparr>))(k := None)"
  by (auto simp: seen_def fun_eq_iff)

lemma seen_put_outside: "\<not> R k \<Longrightarrow> seen R (w\<lparr>pw_bucket := dict_put k x b\<rparr>) = seen R (w\<lparr>pw_bucket := b\<rparr>)"
  by (auto simp: seen_def fun_eq_iff)

lemma seen_id [simp]: "seen R (w\<lparr>pw_bucket := pw_bucket w\<rparr>) = seen R w"
  by (simp add: seen_def)

lemma calm_update [simp]: "calm R (w\<lparr>pw_bucket := b\<rparr>) = calm R w"
  by (simp add: calm_def)

section \<open>Calls\<close>

lemma provider_spec:
  assumes act: "\<And>w. stays R J w \<Longrightarrow> (case act w of (Inr x, w') \<Rightarrow> Q x w' \<and> (\<forall>e. E e w') | (Inl e', w') \<Rightarrow> \<forall>e. E e w')"
    and idle: "\<And>e w. stays R J w \<Longrightarrow> E e w"
  shows "eff_spec (stays R J) (provider act) Q E"
  unfolding eff_spec_def provider_def
proof (intro allI impI)
  fix w assume w: "stays R J w"
  obtain p w1 where p: "next_call w = (p, w1)" by force
  have w1: "stays R J w1" using next_call_stays[OF w] p by simp
  show "case let (p, w1) = next_call w in
      eff_external (\<lambda>w. (cp_fate p, w)) (RawFailed (if cp_answered p then Some (header_time w1) else None)) act w1 of
      (Inr x, w') \<Rightarrow> Q x w' | (Inl e, w') \<Rightarrow> E e w'"
    using act[OF w1] idle[OF w1] by (auto simp: p eff_external_def split: prod.splits sum.splits)
qed

lemma request_spec:
  assumes "\<And>w. stays R J w \<Longrightarrow> (case act w of (Inr x, w') \<Rightarrow> Q x w' \<and> (\<forall>e. E e w') | (Inl e', w') \<Rightarrow> \<forall>e. E e w')"
    and "\<And>e w. stays R J w \<Longrightarrow> E e w"
  shows "eff_spec (stays R J) (request A act) Q E"
proof (cases "wal_bucket A")
  case (Inl e)
  then show ?thesis unfolding request_def by (auto intro: eff_spec_raise assms(2))
next
  case (Inr b)
  have "eff_spec (stays R J) (provider act) Q E" by (rule provider_spec) (rule assms, assumption)+
  then show ?thesis by (simp add: request_def Inr)
qed

lemma request_keeps [calm_rules]:
  "(\<And>w. stays R J w \<Longrightarrow> stays R J (snd (act w))) \<Longrightarrow> keeps (stays R J) (request A act)"
  unfolding keeps_def observes_def
  by (rule request_spec) (force split: prod.splits sum.splits)+

lemma local_file_keeps [calm_rules]:
  assumes "\<And>w. pw_bucket (snd (act w)) = pw_bucket w" "\<And>w. pw_calls (snd (act w)) = pw_calls w"
  shows "keeps (stays R J) (local_file act)"
proof -
  have "stays R J (snd (local_file act w))" if w: "stays R J w" for w
  proof -
    obtain p w1 where p: "next_call w = (p, w1)" by force
    have w1: "stays R J w1" using next_call_stays[OF w] p by simp
    have "stays R J (snd (act w1))" by (rule stays_bucket_only[OF w1]) (simp_all add: assms)
    then show ?thesis using w1 by (auto simp: local_file_def p eff_external_def split: prod.splits sum.splits)
  qed
  then show ?thesis by (simp add: keeps_iff)
qed

lemma random_keeps [calm_rules]: "keeps (stays R J) (random_text L)" "keeps (stays R J) (random_uuid L)" "keeps (stays R J) (set_guard g)"
  by (auto simp: keeps_iff random_text_def random_uuid_def set_guard_def intro: stays_bucket_only)

lemma observes_value: "keeps I m \<Longrightarrow> (\<And>w x w'. I w \<Longrightarrow> m w = (Inr x, w') \<Longrightarrow> q x) \<Longrightarrow> observes I m q"
  unfolding keeps_iff observes_def eff_spec_def by (force split: prod.splits sum.splits)

text \<open>What a read returns is what is there, for a key of \<open>R\<close>.\<close>

lemma raw_head_keeps [calm_rules]: "keeps (stays R J) (raw_head A k)"
  unfolding raw_head_def by (rule request_keeps) simp

lemma raw_get_keeps [calm_rules]: "keeps (stays R J) (raw_get A k)"
  unfolding raw_get_def by (rule request_keeps) simp

lemma raw_list_keeps [calm_rules]: "keeps (stays R J) (raw_list L A pre token)"
  unfolding raw_list_def by (rule request_keeps) simp

lemma raw_head_sees: "R k \<Longrightarrow> observes (stays R J) (raw_head A k) (\<lambda>(x, t). \<exists>s. J s \<and> s k = Some x)"
  unfolding raw_head_def observes_def
  by (rule request_spec) (auto simp: stays_def seen_def split: option.splits intro!: exI[of _ "seen R _"])

lemma raw_get_sees: "R k \<Longrightarrow> observes (stays R J) (raw_get A k) (\<lambda>b. \<exists>s x. J s \<and> s k = Some x \<and> b = wo_body x)"
  unfolding raw_get_def observes_def
  by (rule request_spec) (auto simp: stays_def seen_def split: option.splits intro!: exI[of _ "seen R _"])

lemma raw_put_keeps: "\<not> R k \<Longrightarrow> keeps (stays R J) (raw_put L A k body c)"
  unfolding raw_put_def
  by (auto intro!: keep_rules request_keeps simp: stays_def seen_put_outside split: sum.splits)

lemma raw_delete_keeps: "\<not> R k \<Longrightarrow> keeps (stays R J) (raw_delete A k e)"
  unfolding raw_delete_def
  by (rule request_keeps) (auto simp: stays_def seen_def fun_eq_iff split: option.splits elim: back_subst[of J])

section \<open>The operations that touch no key of \<open>R\<close>\<close>

lemma keeps_cases [keep_rules]:
  "(\<And>a b. p = (a, b) \<Longrightarrow> keeps I (f a b)) \<Longrightarrow> keeps I (case p of (a, b) \<Rightarrow> f a b)"
  "(v = None \<Longrightarrow> keeps I n) \<Longrightarrow> (\<And>x. v = Some x \<Longrightarrow> keeps I (g x)) \<Longrightarrow> keeps I (case v of None \<Rightarrow> n | Some x \<Rightarrow> g x)"
  "(\<And>x. r = Inl x \<Longrightarrow> keeps I (h x)) \<Longrightarrow> (\<And>y. r = Inr y \<Longrightarrow> keeps I (h' y)) \<Longrightarrow> keeps I (case r of Inl x \<Rightarrow> h x | Inr y \<Rightarrow> h' y)"
  "keeps I n \<Longrightarrow> (\<And>x xs. l = x # xs \<Longrightarrow> keeps I (g' x xs)) \<Longrightarrow> keeps I (case l of [] \<Rightarrow> n | x # xs \<Rightarrow> g' x xs)"
  by (cases p; simp; fail | cases v; simp; fail | cases r; simp; fail | cases l; simp; fail)+

lemma keeps_bind_lift: "(\<And>x. r = Inr x \<Longrightarrow> keeps I (f x)) \<Longrightarrow> keeps I (eff_bind (eff_lift r) f)"
  unfolding keeps_def by (rule observes_bind_lift)

lemmas read_rules = keep_rules calm_rules

lemma reads_keep [calm_rules]:
  "keeps (stays R J) (wal_head A k)"
  "keeps (stays R J) (open_remote_body A k)"
  unfolding wal_head_def open_remote_body_def by (intro read_rules)+

lemma wal_read_keeps [calm_rules]: "keeps (stays R J) (wal_read L A k d n m)"
  unfolding wal_read_def Let_def by (intro keep_rules calm_rules)

lemma list_pages_keeps: "keeps (stays R J) (list_pages L A pre fuel token found)"
  by (induction fuel arbitrary: token found)
    (auto simp: Let_def intro!: keep_rules calm_rules)

lemma list_objects_keeps [calm_rules]: "keeps (stays R J) (list_objects L A pre)"
  unfolding list_objects_def by (intro keep_rules list_pages_keeps)

lemma list_wal_keeps [calm_rules]: "keeps (stays R J) (list_wal L A)"
  unfolding list_wal_def by (intro keep_rules calm_rules)

lemma verify_wal_keeps [calm_rules]: "keeps (stays R J) (verify_wal L A f d)"
  unfolding verify_wal_def by (intro keep_rules calm_rules)

lemma inspect_base_keeps [calm_rules]: "keeps (stays R J) (inspect_base L A i v)"
  unfolding inspect_base_def by (intro keep_rules calm_rules)

lemma base_reads_keep [calm_rules]:
  "keeps (stays R J) (verify_base_backup L A i)" "keeps (stays R J) (read_base_manifest L A i)" "keeps (stays R J) (remote_base_ids L A)"
  unfolding verify_base_backup_def read_base_manifest_def remote_base_ids_def by (intro keep_rules calm_rules)+

lemma now_keeps [calm_rules]: "keeps (stays R J) local_now"
  unfolding local_now_def by (intro keep_rules)

lemma coordination_head_keeps [calm_rules]: "keeps (stays R J) (coordination_head A k)"
  unfolding coordination_head_def validate_coordination_time_def by (intro keep_rules calm_rules)

lemma read_stable_keeps [calm_rules]: "keeps (stays R J) (read_stable_payload L A k n)"
  unfolding read_stable_payload_def by (intro keep_rules calm_rules)

lemma read_lease_keeps [calm_rules]:
  "keeps (stays R J) (read_coordination_lease L A b)" "keeps (stays R J) (inspect_coordination_lease L A)"
  "keeps (stays R J) (assert_coordination_lease L A l)"
  unfolding read_coordination_lease_def inspect_coordination_lease_def assert_coordination_lease_def
  by (intro keep_rules calm_rules)+

lemma read_pin_keeps [calm_rules]:
  "keeps (stays R J) (read_pitr_pin L A k)" "keeps (stays R J) (get_pitr_pin L A kind i l)"
  "keeps (stays R J) (listed_pin L A pre k)" "keeps (stays R J) (list_pitr_pins L A l e)"
  unfolding get_pitr_pin_def list_pitr_pins_def listed_pin_def read_pitr_pin_def
  by (intro keep_rules calm_rules)+

lemma store_keeps [calm_rules]:
  "keeps (stays R J) (save_pitr_base_manifest L m)" "keeps (stays R J) (save_wal_receipt L r)"
  "keeps (stays R J) (save_pitr_recovery_plan L p)" "keeps (stays R J) (save_pitr_restore L x)"
  unfolding save_pitr_base_manifest_def save_wal_receipt_def save_pitr_recovery_plan_def save_pitr_restore_def write_immutable_def
  by (auto intro!: keep_rules local_file_keeps split: option.splits)

lemma receipts_keep [calm_rules]:
  "keeps (stays R J) (lookup_receipt L r)" "keeps (stays R J) (remote_receipt L X e sy i)" "keeps (stays R J) (remote_wal_receipts L X e sy A)"
  unfolding remote_wal_receipts_def remote_receipt_def lookup_receipt_def Let_def
  by (intro keep_rules calm_rules)+

lemma bases_keep [calm_rules]:
  "keeps (stays R J) (owned_manifest L X e sy A i)" "keeps (stays R J) (list_base_backups L X e sy A)"
  unfolding list_base_backups_def owned_manifest_def by (intro keep_rules calm_rules)+

lemma guard_lease_keeps [calm_rules]: "keeps (stays R J) guard_lease"
  unfolding guard_lease_def by (intro keep_rules)

lemma resolve_keeps [calm_rules]: "keeps (stays R J) (resolve_adapter L X e)"
  unfolding resolve_adapter_def by (intro keep_rules)

end
