(* ===== verification/Pitr_Lease.thy ===== *)
theory Pitr_Lease
  imports Pitr_Calm
begin

text \<open>
  What the adapter's reads tell about the bucket, and the lease: only who finds no lease object
  gets one, and every operation under a lease checks that the object is still its own.
\<close>

section \<open>What a read tells\<close>

text \<open>One of the states \<open>J\<close> allows has \<open>x\<close> at \<open>k\<close>.\<close>

definition held :: "((string \<Rightarrow> wal_object option) \<Rightarrow> bool) \<Rightarrow> string \<Rightarrow> wal_object option \<Rightarrow> bool" where
  "held J k v \<longleftrightarrow> (\<exists>s. J s \<and> s k = v)"

lemma held_fixed [simp]: "held ((=) s0) k v \<longleftrightarrow> s0 k = v"
  by (auto simp: held_def)

lemma observes_match_err:
  assumes m: "eff_spec I m (\<lambda>x w. I w \<and> p x) (\<lambda>e w. I w \<and> (\<forall>x. e = Raised x \<longrightarrow> pe x))"
    and f: "\<And>x. p x \<Longrightarrow> observes I (f x) q" and h: "\<And>e. pe e \<Longrightarrow> observes I (h e) q"
  shows "observes I (eff_match m f h) q"
proof -
  have "case eff_match m f h w of (Inr x, w') \<Rightarrow> I w' \<and> q x | (Inl e, w') \<Rightarrow> I w'" if w: "I w" for w
  proof (cases "m w")
    case (Pair r w1)
    have m': "case r of Inr x \<Rightarrow> I w1 \<and> p x | Inl e \<Rightarrow> I w1 \<and> (\<forall>x. e = Raised x \<longrightarrow> pe x)"
      using m w Pair by (auto simp: eff_spec_def split: sum.splits)
    show ?thesis
    proof (cases r)
      case (Inr x)
      then show ?thesis using m' f[of x] Pair by (simp add: observes_def eff_spec_def eff_match_def)
    next
      case (Inl e)
      then show ?thesis using m' h Pair by (cases e) (simp_all add: observes_def eff_spec_def eff_match_def)
    qed
  qed
  then show ?thesis by (simp add: observes_def eff_spec_def)
qed

lemma raw_head_tells:
  assumes "R k"
  shows "eff_spec (stays R J) (raw_head A k) (\<lambda>x w. stays R J w \<and> held J k (Some (fst x)))
    (\<lambda>e w. stays R J w \<and> (\<forall>x. e = Raised x \<longrightarrow> raw_not_found x \<longrightarrow> held J k None))"
proof (cases "wal_bucket A")
  case (Inl e)
  then show ?thesis by (simp add: raw_head_def request_def eff_spec_raise raw_not_found_def)
next
  case (Inr b)
  show ?thesis unfolding eff_spec_def
  proof (intro allI impI)
    fix w assume w: "stays R J w"
    obtain p w1 where p: "next_call w = (p, w1)" by force
    have w1: "stays R J w1" using next_call_stays[OF w] p by simp
    then have "held J k (dict_get (pw_bucket w1) k)"
      using assms by (auto simp: held_def stays_def seen_def intro!: exI[of _ "seen R w1"])
    then show "case raw_head A k w of (Inr x, w') \<Rightarrow> stays R J w' \<and> held J k (Some (fst x))
        | (Inl e, w') \<Rightarrow> stays R J w' \<and> (\<forall>x. e = Raised x \<longrightarrow> raw_not_found x \<longrightarrow> held J k None)"
      using w1 by (auto simp: raw_head_def request_def Inr provider_def p eff_external_def raw_not_found_def split: option.splits if_splits)
  qed
qed

lemma head_infoD: "head_info k x = Inr i \<Longrightarrow> wi_key i = k \<and> wi_size i = int (length (wo_body x)) \<and> wi_etag i = wo_etag x \<and>
    wi_modified i = wo_modified x \<and> metadata_digest x = Some (wi_sha i)"
  by (auto simp: head_info_def split: option.splits)

definition tells :: "((string \<Rightarrow> wal_object option) \<Rightarrow> bool) \<Rightarrow> (string \<Rightarrow> bool) \<Rightarrow> string \<Rightarrow> WalObjectInfo \<Rightarrow> bool" where
  "tells J R k i \<longleftrightarrow> wi_key i = k \<and> (R k \<longrightarrow> (\<exists>x. held J k (Some x) \<and> head_info k x = Inr i))"

lemma wal_head_tells: "observes (stays R J) (wal_head A k) (tells J R k)"
proof -
  have "observes (stays R J) (raw_head A k) (\<lambda>x. R k \<longrightarrow> held J k (Some (fst x)))"
  proof (cases "R k")
    case True
    then show ?thesis unfolding observes_def by (rule eff_spec_weaken[OF raw_head_tells]) auto
  qed (use raw_head_keeps in \<open>simp add: keeps_def\<close>)
  then show ?thesis unfolding wal_head_def tells_def
    by (intro observe_rules observes_match[where p = "\<lambda>x. R k \<longrightarrow> held J k (Some (fst x))"])
      (auto simp: split_beta dest: head_infoD intro!: observe_rules)
qed

lemma open_body_tells: "observes (stays R J) (open_remote_body A k) (\<lambda>b. R k \<longrightarrow> (\<exists>x. held J k (Some x) \<and> b = wo_body x))"
proof -
  have "observes (stays R J) (raw_get A k) (\<lambda>b. R k \<longrightarrow> (\<exists>x. held J k (Some x) \<and> b = wo_body x))"
  proof (cases "R k")
    case True
    then show ?thesis by (rule observes_mono[OF raw_get_sees]) (auto simp: held_def)
  qed (use raw_get_keeps in \<open>simp add: keeps_def\<close>)
  then show ?thesis unfolding open_remote_body_def
    by (intro observe_rules observes_match[where p = "\<lambda>b. R k \<longrightarrow> (\<exists>x. held J k (Some x) \<and> b = wo_body x)"])
      (auto intro!: observe_rules)
qed

text \<open>A verified read: the body is the one of the announced checksum.\<close>

lemma wal_read_tells:
  "observes (stays R J) (wal_read L A k d n m)
     (\<lambda>(i, b). tells J R k i \<and> wi_sha i = pl_sha L b \<and> wi_size i = int (length b) \<and> (\<forall>h. d = Some h \<longrightarrow> wi_sha i = py_lower h) \<and>
       (\<forall>z. n = Some z \<longrightarrow> wi_size i = z) \<and> (R k \<longrightarrow> (\<exists>x. held J k (Some x) \<and> b = wo_body x)))"
  unfolding wal_read_def Let_def
  by (rule observes_bind[OF wal_head_tells], intro observe_rules, rule observes_bind[OF open_body_tells])
    (auto intro!: observe_rules split: option.splits)

text \<open>The answer of an authoritative head: nothing there, or an object with an entity tag.\<close>

definition head_tells :: "((string \<Rightarrow> wal_object option) \<Rightarrow> bool) \<Rightarrow> (string \<Rightarrow> bool) \<Rightarrow> string \<Rightarrow> CoordinationHead \<Rightarrow> bool" where
  "head_tells J R k h \<longleftrightarrow> (case ch_info h of None \<Rightarrow> R k \<longrightarrow> held J k None | Some i \<Rightarrow> tells J R k i \<and> wi_etag i \<noteq> None)"

lemma coordination_head_ofD: "coordination_head_of k x t = Inr h \<Longrightarrow> \<exists>i. ch_info h = Some i \<and> head_info k x = Inr i \<and> wi_etag i \<noteq> None"
  by (auto simp: coordination_head_of_def bindE_eq_Inr_iff split: option.splits)

lemma validate_time_keeps: "keeps (stays R J) (validate_coordination_time t op)"
  unfolding validate_coordination_time_def by (intro keep_rules calm_rules)

lemma coordination_head_tells: "observes (stays R J) (coordination_head A k) (head_tells J R k)"
proof -
  have keep: "observes (stays R J) (validate_coordination_time t op) (\<lambda>_. True)" for t op
    using validate_time_keeps by (simp add: keeps_def)
  have found: "observes (stays R J) (case p of (x, server) \<Rightarrow> eff_bind (validate_coordination_time (Some server) (''head '' @ k))
      (\<lambda>t. eff_lift (coordination_head_of k x t))) (head_tells J R k)" if "R k \<longrightarrow> held J k (Some (fst p))" for p
    using that by (auto simp: split_beta head_tells_def tells_def dest!: coordination_head_ofD dest: head_infoD
        intro!: observes_bind[OF keep] observe_rules)
  have missing: "observes (stays R J) (eff_bind (validate_coordination_time (response_time e) (''head '' @ k)) (\<lambda>t.
      if raw_not_found e then eff_return \<lparr>ch_info = None, ch_time = t\<rparr> else eff_raise (wal_provider_error A (''head '' @ k) e)))
      (head_tells J R k)" if "raw_not_found e \<longrightarrow> R k \<longrightarrow> held J k None" for e
    using that by (auto simp: head_tells_def intro!: observes_bind[OF keep] observe_rules)
  have "observes (stays R J) (eff_match (raw_head A k)
       (\<lambda>(x, server). eff_bind (validate_coordination_time (Some server) (''head '' @ k)) (\<lambda>t. eff_lift (coordination_head_of k x t)))
       (\<lambda>e. eff_bind (validate_coordination_time (response_time e) (''head '' @ k)) (\<lambda>t.
         if raw_not_found e then eff_return \<lparr>ch_info = None, ch_time = t\<rparr>
         else eff_raise (wal_provider_error A (''head '' @ k) e)))) (head_tells J R k)"
  proof (cases "R k")
    case True
    show ?thesis by (rule observes_match_err[OF raw_head_tells[where R = R and k = k, OF True]]) (rule found, simp, rule missing, blast)
  next
    case False
    show ?thesis
      by (rule observes_match[where p = "\<lambda>_. True"]) (use False raw_head_keeps in \<open>simp add: keeps_def\<close>, rule found, simp add: False, rule missing, simp add: False)
  qed
  then show ?thesis unfolding coordination_head_def by (intro observe_rules)
qed

lemma read_stable_tells:
  "observes (stays R J) (read_stable_payload L A k n)
     (\<lambda>(h, b). \<exists>i. ch_info h = Some i \<and> tells J R k i \<and> wi_etag i \<noteq> None \<and> wi_sha i = pl_sha L b \<and>
       (R k \<longrightarrow> (\<exists>x. held J k (Some x) \<and> b = wo_body x)))"
  unfolding read_stable_payload_def
  apply (rule observes_bind[OF coordination_head_tells])
  apply (rename_tac h, case_tac "ch_info h")
   apply (simp add: observe_rules)
  apply simp
  apply (rule observes_bind[OF wal_read_tells])
  apply (clarsimp)
  apply (rule observes_bind[OF coordination_head_tells])
  apply (intro observe_rules)
  apply (auto simp: head_tells_def split: option.splits)
  done

section \<open>The lease object\<close>

definition lease_text :: "wal_adapter \<Rightarrow> PitrCoordinationLease \<Rightarrow> string" where
  "lease_text A l = lease_payload A (cl_ident l) (cl_owner l) (cl_purpose l) (cl_generation l) (cl_ttl l)"

text \<open>The object of a lease: its entity tag, its time, and the checksum of its text.\<close>

definition lease_object :: "pitr_lib \<Rightarrow> wal_adapter \<Rightarrow> PitrCoordinationLease \<Rightarrow> wal_object \<Rightarrow> bool" where
  "lease_object L A l x \<longleftrightarrow> wo_etag x = Some (cl_etag l) \<and> wo_modified x = Some (cl_acquired l) \<and>
     metadata_digest x = Some (pl_sha L (lease_text A l))"

lemma lease_from_payloadD:
  assumes "lease_from_payload A h b e = Inr l"
  shows "\<exists>i. ch_info h = Some i \<and> cl_key l = wi_key i \<and> wi_etag i = Some (cl_etag l) \<and> wi_modified i = Some (cl_acquired l) \<and>
    b = lease_text A l \<and> (e \<or> \<not> lease_expired l)"
  using assms
  by (auto simp: lease_from_payload_def lease_text_def bindE_eq_Inr_iff Let_def split: option.splits)

definition lease_tells :: "pitr_lib \<Rightarrow> wal_adapter \<Rightarrow> ((string \<Rightarrow> wal_object option) \<Rightarrow> bool) \<Rightarrow> (string \<Rightarrow> bool) \<Rightarrow> PitrCoordinationLease \<Rightarrow> bool" where
  "lease_tells L A J R l \<longleftrightarrow> coordination_lease_key L A = Inr (cl_key l) \<and>
     (R (cl_key l) \<longrightarrow> (\<exists>x. held J (cl_key l) (Some x) \<and> lease_object L A l x))"

lemma parsed_lease_tells:
  assumes "lease_from_payload A h b e = Inr l" "ch_info h = Some i" "tells J R k i" "wi_sha i = pl_sha L b"
    and "coordination_lease_key L A = Inr k"
  shows "lease_tells L A J R l \<and> (e \<or> \<not> lease_expired l)"
  using assms lease_from_payloadD[OF assms(1)]
  by (fastforce simp: lease_tells_def tells_def lease_object_def dest: head_infoD)

lemma read_lease_tells:
  "observes (stays R J) (read_coordination_lease L A e) (\<lambda>l. lease_tells L A J R l \<and> (e \<or> \<not> lease_expired l))"
  unfolding read_coordination_lease_def
proof (rule observes_bind)
  let ?q = "\<lambda>(h, b). \<exists>k i. coordination_lease_key L A = Inr k \<and> ch_info h = Some i \<and> tells J R k i \<and> wi_sha i = pl_sha L b"
  show "observes (stays R J) (eff_catch
         (eff_bind (eff_lift (coordination_lease_key L A)) (\<lambda>k. read_stable_payload L A k (64 * 1024)))
         (\<lambda>e. eff_raise (if failure_class e = ObjectNotFound then wal_lease_error ''PITR coordination lease is missing''
           else if integrity_class (failure_class e) then wal_lease_error ''PITR coordination lease failed byte verification'' else e))) ?q"
    by (intro observes_catch observe_rules observes_mono[OF read_stable_tells]) auto
  show "observes (stays R J) (case x of (head, payload) \<Rightarrow> eff_lift (lease_from_payload A head payload e))
      (\<lambda>l. lease_tells L A J R l \<and> (e \<or> \<not> lease_expired l))" if "?q x" for x
    using that by (auto intro!: observe_rules dest!: parsed_lease_tells simp: split_beta)
qed

lemma assert_lease_tells:
  "observes (stays R J) (assert_coordination_lease L A l)
     (\<lambda>l'. lease_tells L A J R l' \<and> \<not> lease_expired l' \<and> same_lease l l')"
  unfolding assert_coordination_lease_def
  by (rule observes_bind[OF read_lease_tells]) (auto intro!: observe_rules)

section \<open>What lease operations leave alone\<close>

definition apart_from_lease :: "pitr_lib \<Rightarrow> wal_adapter \<Rightarrow> (string \<Rightarrow> bool) \<Rightarrow> bool" where
  "apart_from_lease L A R \<longleftrightarrow> (\<forall>k. coordination_lease_key L A = Inr k \<longrightarrow> \<not> R k)"

lemma raw_attempt_keeps: "keeps (stays R J) m \<Longrightarrow> keeps (stays R J) (raw_attempt m)"
  unfolding raw_attempt_def by (intro keep_rules)

lemma building_keeps: "(\<And>x. r = Inr x \<Longrightarrow> keeps (stays R J) (f x)) \<Longrightarrow> keeps (stays R J) (building r f)"
  unfolding building_def by (cases r) (auto intro: keep_rules)

lemma assert_owned_keyD: "assert_owned_key L A k = Inr k' \<Longrightarrow> k' = k"
  by (auto simp: assert_owned_key_def bindE_eq_Inr_iff)

lemma conditional_delete_keeps: "\<not> R k \<Longrightarrow> keeps (stays R J) (conditional_delete L A k e label)"
  unfolding conditional_delete_def
  by (intro keep_rules calm_rules raw_attempt_keeps building_keeps raw_delete_keeps) (auto dest: assert_owned_keyD)

lemma acquire_keeps: "apart_from_lease L A R \<Longrightarrow> keeps (stays R J) (acquire_coordination_lease L A p owner ttl)"
  unfolding acquire_coordination_lease_def Let_def apart_from_lease_def
  by (intro keeps_bind_lift keep_rules calm_rules raw_attempt_keeps raw_put_keeps) auto

lemma lease_key_outside: "apart_from_lease L A R \<Longrightarrow> lease_tells L A J R l \<Longrightarrow> \<not> R (cl_key l)"
  by (simp add: apart_from_lease_def lease_tells_def)

lemma renew_keeps: "apart_from_lease L A R \<Longrightarrow> keeps (stays R J) (renew_coordination_lease L A l)"
  unfolding renew_coordination_lease_def Let_def
  by (rule keeps_after[OF assert_lease_tells])
    (intro keep_rules calm_rules raw_attempt_keeps building_keeps raw_put_keeps, blast dest: lease_key_outside)

lemma release_keeps: "apart_from_lease L A R \<Longrightarrow> keeps (stays R J) (release_coordination_lease L A l)"
  unfolding release_coordination_lease_def
  by (rule keeps_after[OF read_lease_tells])
    (intro keep_rules conditional_delete_keeps, blast dest: lease_key_outside)

lemma guard_keeps:
  assumes "apart_from_lease L A R"
  shows "keeps (stays R J) (guard_renew L A)" "keeps (stays R J) (guard_release L A)"
  unfolding guard_renew_def guard_release_def
  by (intro keep_rules calm_rules renew_keeps[OF assms] release_keeps[OF assms])+

lemma with_guard_spec:
  assumes R: "apart_from_lease L A R" and body: "eff_spec (stays R J) body (\<lambda>x. stays R (Q x)) (\<lambda>_. stays R E)"
    and JE: "\<And>s. J s \<Longrightarrow> E s" and QE: "\<And>x s. Q x s \<Longrightarrow> E s"
  shows "eff_spec (stays R J) (with_guard L A purpose owner body) (\<lambda>x. stays R (Q x)) (\<lambda>_. stays R E)"
proof -
  have J: "stays R J w \<Longrightarrow> stays R E w" for w by (erule stays_mono) (rule JE)
  have E: "keeps (stays R E) (eff_catch (guard_release L A) (\<lambda>_. eff_return ()))"
    by (intro keep_rules guard_keeps[OF R])
  have failed: "eff_spec (stays R E) (eff_bind (eff_catch (guard_release L A) (\<lambda>_. eff_return ())) (\<lambda>_. eff_fail e))
      (\<lambda>x. stays R (Q x)) (\<lambda>_. stays R E)" for e
    by (rule eff_spec_observe[OF E[unfolded keeps_def]]) (auto intro: eff_spec_fail)
  have finished: "eff_spec (stays R (Q x)) (eff_bind (guard_release L A) (\<lambda>_. eff_return x)) (\<lambda>x. stays R (Q x)) (\<lambda>_. stays R E)" for x
    by (rule eff_spec_observe[OF guard_keeps(2)[OF R, unfolded keeps_def]])
      (auto intro!: eff_spec_return elim: stays_mono QE)
  have caught: "eff_spec (stays R J) (eff_catch_all body
       (\<lambda>e. eff_bind (eff_catch (guard_release L A) (\<lambda>_. eff_return ())) (\<lambda>_. eff_fail e))) (\<lambda>x. stays R (Q x)) (\<lambda>_. stays R E)"
    by (rule eff_spec_catch_all[where R = "\<lambda>_. stays R E"])
      (rule eff_spec_weaken[OF body], simp_all add: failed)
  show ?thesis unfolding with_guard_def
    by (rule eff_spec_observe[OF acquire_keeps[OF R, unfolded keeps_def]],
        rule eff_spec_observe[OF random_keeps(3)[unfolded keeps_def]],
        rule eff_spec_bind[OF caught finished]) (auto intro: J)
qed

section \<open>Exclusion\<close>

text \<open>While any object stands at the lease's key, nobody acquires the lease.\<close>

lemma acquire_refused:
  assumes "coordination_lease_key L A = Inr k" "R k" "\<And>s. J s \<Longrightarrow> s k \<noteq> None"
  shows "observes (stays R J) (acquire_coordination_lease L A p owner ttl) (\<lambda>_. False)"
proof -
  have no: "\<not> held J k None" using assms(3) by (auto simp: held_def)
  have keep: "keeps (stays R J) m \<Longrightarrow> observes (stays R J) m (\<lambda>_. True)" for m :: "'a pitr"
    by (simp add: keeps_def)
  have owner: "keeps (stays R J) (if owner = [] then eff_bind (random_uuid L) (\<lambda>u. eff_return (''odooctl-'' @ u)) else eff_return owner)"
    by (intro keep_rules calm_rules)
  show ?thesis unfolding acquire_coordination_lease_def assms(1)
    apply (intro observe_rules)
    apply (rule observes_bind[OF owner[unfolded keeps_def]])
    apply (intro observe_rules)
    apply (rule observes_bind[OF coordination_head_tells])
    apply (rename_tac h, case_tac "ch_info h")
     apply (use assms(2) no in \<open>force simp: head_tells_def\<close>)
    apply (simp, rule observes_bind[OF read_lease_tells], rule observes_raise)
    done
qed

text \<open>A lease operation succeeds only on the object it is about.\<close>

lemma same_leaseD:
  "same_lease a b \<Longrightarrow> cl_etag a = cl_etag b \<and> cl_acquired a = cl_acquired b \<and> lease_text A a = lease_text A b \<and> cl_key a = cl_key b"
  by (cases a; cases b) (simp add: same_lease_def lease_text_def)

lemma assert_needs_own:
  assumes "coordination_lease_key L A = Inr k" "R k"
  shows "observes (stays R ((=) s0)) (assert_coordination_lease L A l) (\<lambda>l'. \<exists>x. s0 k = Some x \<and> lease_object L A l x)"
  by (rule observes_mono[OF assert_lease_tells])
    (use assms in \<open>auto simp: lease_tells_def lease_object_def dest: same_leaseD[where A = A]\<close>)

end
