(* ===== verification/Pitr_Inventory.thy ===== *)
theory Pitr_Inventory
  imports Pitr_Lease
begin

text \<open>
  What listings and the reads behind them find out: a listing names every object of the region
  the others leave alone, a verified base is the one its marker describes, and a receipt is one
  of an object that is there.
\<close>

section \<open>Listings\<close>

definition after_token :: "string option \<Rightarrow> string \<Rightarrow> bool" where
  "after_token token k \<longleftrightarrow> (case token of None \<Rightarrow> True | Some t \<Rightarrow> t < k)"

lemma sorted_rest:
  assumes "sorted ks" "distinct ks" "Suc n < length ks" "k \<in> set ks" "k \<notin> set (take (Suc n) ks)"
  shows "last (take (Suc n) ks) < k"
proof -
  obtain i where i: "i < length ks" "ks ! i = k" using assms(4) by (auto simp: in_set_conv_nth)
  have "Suc n \<le> i"
  proof (rule ccontr)
    assume "\<not> Suc n \<le> i"
    then have "ks ! i \<in> set (take (Suc n) ks)" using i(1) by (auto simp: in_set_conv_nth intro!: exI[of _ i])
    then show False using i(2) assms(5) by simp
  qed
  moreover have "last (take (Suc n) ks) = ks ! n" using assms(3) by (simp add: take_Suc_conv_app_nth)
  ultimately show ?thesis using assms(1-3) i
    by (metis Suc_le_lessD Suc_lessD nth_eq_iff_index_eq order.not_eq_order_implies_strict order_less_imp_le order_less_irrefl sorted_nth_mono)
qed

lemma page_of_spec:
  assumes "page_of n pre token b = (page, again)"
  shows "(\<forall>k \<in> fst ` set page. starts_with pre k \<and> dict_get b k \<noteq> None) \<and>
    (\<forall>k. dict_get b k \<noteq> None \<longrightarrow> starts_with pre k \<longrightarrow> after_token token k \<longrightarrow> k \<in> fst ` set page \<or> (again \<and> fst (last page) < k)) \<and>
    (again \<longrightarrow> page \<noteq> [] \<and> after_token token (fst (last page)) \<and> fst (last page) \<in> fst ` set page)"
proof -
  define ks where "ks = filter (\<lambda>k. starts_with pre k \<and> after_token token k) (sort (remdups (map fst b)))"
  let ?f = "\<lambda>k. case dict_get b k of None \<Rightarrow> (k, 0, None) | Some x \<Rightarrow> (k, int (length (wo_body x)), wo_modified x)"
  have f: "fst (?f k) = k" for k by (simp split: option.split)
  have page: "page = map ?f (take (Suc n) ks)" and again: "again \<longleftrightarrow> Suc n < length ks"
    using assms by (auto simp: page_of_def ks_def after_token_def Let_def)
  have keys: "map fst page = take (Suc n) ks" unfolding page by (simp add: comp_def f del: take_map)
  have ks: "sorted ks" "distinct ks" "set ks = {k. dict_get b k \<noteq> None \<and> starts_with pre k \<and> after_token token k}"
    by (auto simp: ks_def sorted_wrt_filter dict_get_None_iff image_iff)
  have lastp: "again \<Longrightarrow> page \<noteq> [] \<and> fst (last page) = last (take (Suc n) ks)"
  proof -
    assume again
    then have "page \<noteq> []" using again page by auto
    then show ?thesis unfolding keys[symmetric] by (simp add: last_map)
  qed
  have inks: "x \<in> set (take (Suc n) ks) \<Longrightarrow> x \<in> set ks" for x by (rule in_set_takeD)
  have pk: "fst ` set page = set (take (Suc n) ks)" using keys by (metis list.set_map)
  show ?thesis
    using ks lastp pk inks sorted_rest[OF ks(1,2)] again
    by (auto simp: pk) (metis last_in_set list.map_disc_iff keys inks mem_Collect_eq ks(3))+
qed

lemma fold_put_keys: "fst ` set (fold (\<lambda>(k, n, t). dict_put k (n, t)) page d) = fst ` set d \<union> fst ` set page"
proof (induction page arbitrary: d)
  case (Cons x page)
  obtain k n t where "x = (k, n, t)" by (cases x)
  then show ?case using Cons[of "dict_put k (n, t) d"] by (simp add: dict_keys_put)
qed simp

definition page_tells :: "(string \<Rightarrow> bool) \<Rightarrow> (string \<Rightarrow> wal_object option) \<Rightarrow> string \<Rightarrow> string option \<Rightarrow>
    (string \<times> int \<times> int option) list \<times> bool \<Rightarrow> bool" where
  "page_tells R s0 pre token = (\<lambda>(page, again).
     (\<forall>k \<in> fst ` set page. starts_with pre k \<and> (R k \<longrightarrow> s0 k \<noteq> None)) \<and>
     (\<forall>k. R k \<longrightarrow> s0 k \<noteq> None \<longrightarrow> starts_with pre k \<longrightarrow> after_token token k \<longrightarrow> k \<in> fst ` set page \<or> (again \<and> fst (last page) < k)))"

lemma raw_list_tells: "observes (stays R ((=) s0)) (raw_list L A pre token) (page_tells R s0 pre token)"
proof -
  have "page_tells R s0 pre token (page_of (pl_page L) pre token (pw_bucket w))" if w: "stays R ((=) s0) w" for w
  proof -
    obtain page again where p: "page_of (pl_page L) pre token (pw_bucket w) = (page, again)" by force
    have s0: "R k \<Longrightarrow> s0 k = dict_get (pw_bucket w) k" for k using w by (auto simp: stays_def seen_def)
    show ?thesis using page_of_spec[OF p] by (auto simp: page_tells_def p s0)
  qed
  then show ?thesis unfolding raw_list_def observes_def by (intro request_spec) auto
qed

definition found_tells :: "(string \<Rightarrow> bool) \<Rightarrow> (string \<Rightarrow> wal_object option) \<Rightarrow> string \<Rightarrow> string set \<Rightarrow> bool" where
  "found_tells R s0 pre ks \<longleftrightarrow> (\<forall>k \<in> ks. starts_with pre k \<and> (R k \<longrightarrow> s0 k \<noteq> None))"

definition reached :: "(string \<Rightarrow> bool) \<Rightarrow> (string \<Rightarrow> wal_object option) \<Rightarrow> string \<Rightarrow> string option \<Rightarrow> string set \<Rightarrow> string set \<Rightarrow> bool" where
  "reached R s0 pre token ks ks' \<longleftrightarrow>
     (\<forall>k. R k \<longrightarrow> s0 k \<noteq> None \<longrightarrow> starts_with pre k \<longrightarrow> k \<in> ks \<or> after_token token k \<longrightarrow> k \<in> ks')"

lemma page_adds:
  assumes "page_tells R s0 pre token (page, again)" "found_tells R s0 pre ks"
  shows "found_tells R s0 pre (ks \<union> fst ` set page)"
    and "again \<Longrightarrow> reached R s0 pre (Some (fst (last page))) (ks \<union> fst ` set page) ks' \<Longrightarrow> reached R s0 pre token ks ks'"
    and "\<not> again \<Longrightarrow> reached R s0 pre token ks (ks \<union> fst ` set page)"
  using assms unfolding page_tells_def found_tells_def reached_def after_token_def by (auto, blast+)

lemma list_pages_tell:
  "found_tells R s0 pre (fst ` set found) \<Longrightarrow>
   observes (stays R ((=) s0)) (list_pages L A pre fuel token found)
     (\<lambda>d. found_tells R s0 pre (fst ` set d) \<and> reached R s0 pre token (fst ` set found) (fst ` set d))"
proof (induction fuel arbitrary: token found)
  case 0
  show ?case by (simp add: observes_raise)
next
  case (Suc fuel)
  have step: "observes (stays R ((=) s0)) (case p of (page, again) \<Rightarrow>
         let found' = fold (\<lambda>(k, n, t). dict_put k (n, t)) page found in
         if again then list_pages L A pre fuel (Some (fst (last page))) found' else eff_return found')
     (\<lambda>d. found_tells R s0 pre (fst ` set d) \<and> reached R s0 pre token (fst ` set found) (fst ` set d))"
    if p: "page_tells R s0 pre token p" for p
  proof (cases p)
    case (Pair page again)
    let ?d = "fold (\<lambda>(k, n, t). dict_put k (n, t)) page found"
    note adds = page_adds[OF p[unfolded Pair] Suc.prems, folded fold_put_keys]
    have "observes (stays R ((=) s0)) (list_pages L A pre fuel (Some (fst (last page))) ?d)
        (\<lambda>d. found_tells R s0 pre (fst ` set d) \<and> reached R s0 pre token (fst ` set found) (fst ` set d))" if again
      by (rule observes_mono[OF Suc.IH[OF adds(1)]]) (use adds(2)[OF that] in blast)
    moreover have "observes (stays R ((=) s0)) (eff_return ?d)
        (\<lambda>d. found_tells R s0 pre (fst ` set d) \<and> reached R s0 pre token (fst ` set found) (fst ` set d))" if "\<not> again"
      by (rule observes_return) (use adds(1) adds(3)[OF that] in blast)
    ultimately show ?thesis unfolding Pair Let_def by (cases again) (simp_all only: if_True if_False prod.case simp_thms True_implies_equals)
  qed
  show ?case unfolding list_pages.simps
    by (rule observes_match[OF raw_list_tells]) (erule step, rule observes_raise)
qed

lemma list_objects_tell:
  "observes (stays R ((=) s0)) (list_objects L A pre)
     (\<lambda>xs. found_tells R s0 pre (fst ` set xs) \<and> reached R s0 pre None {} (fst ` set xs))"
proof -
  have "found_tells R s0 pre (fst ` set [])" by (simp add: found_tells_def)
  then show ?thesis unfolding list_objects_def
    by (intro observe_rules, intro observes_bind[OF list_pages_tell]) (auto intro!: observe_rules simp: image_image)
qed

section \<open>Listings end\<close>

text \<open>
  Every page but the last passes at least one key, and only the keys that are there or come by
  a change can be passed: more pages than there are such keys are never asked for.
\<close>

definition keys_ever :: "pitr_world \<Rightarrow> string set" where
  "keys_ever w = fst ` set (pw_bucket w) \<union> changed_key ` (\<Union>p \<in> set (pw_calls w). set (cp_others p))"

lemma finite_keys_ever [simp]: "finite (keys_ever w)"
  by (simp add: keys_ever_def)

lemma keys_apply_change: "fst ` set (apply_change c b) \<subseteq> insert (changed_key c) (fst ` set b)"
  by (cases c) (auto simp: dict_keys_put dict_del_def)

lemma keys_apply_changes: "fst ` set (fold apply_change cs b) \<subseteq> fst ` set b \<union> changed_key ` set cs"
proof (induction cs arbitrary: b)
  case (Cons c cs)
  have "insert (changed_key c) (fst ` set b) \<union> changed_key ` set cs = fst ` set b \<union> changed_key ` set (c # cs)" by simp
  moreover have "fst ` set (apply_change c b) \<union> changed_key ` set cs \<subseteq> insert (changed_key c) (fst ` set b) \<union> changed_key ` set cs"
    by (rule Un_mono[OF keys_apply_change order_refl])
  ultimately show ?case using order_trans[OF Cons[of "apply_change c b"]] by (simp only: fold_simps comp_def)
qed simp

lemma keys_ever_next_call: "keys_ever (snd (next_call w)) \<subseteq> keys_ever w"
proof (cases "pw_calls w")
  case (Cons p ps)
  have "fst ` set (fold apply_change (cp_others p) (pw_bucket w)) \<subseteq> fst ` set (pw_bucket w) \<union> changed_key ` set (cp_others p)"
    by (rule keys_apply_changes)
  then show ?thesis by (auto simp: keys_ever_def next_call_def Cons)
qed (simp add: next_call_def)

lemma raw_list_returns:
  assumes "raw_list L A pre token w = (Inr (page, again), w')"
  shows "page_of (pl_page L) pre token (pw_bucket w') = (page, again) \<and> keys_ever w' \<subseteq> keys_ever w"
proof (cases "wal_bucket A")
  case (Inl e)
  then show ?thesis using assms by (simp add: raw_list_def request_def eff_raise_def)
next
  case (Inr b)
  obtain p w1 where p: "next_call w = (p, w1)" by force
  show ?thesis
    using assms keys_ever_next_call[of w]
    by (auto simp: raw_list_def request_def Inr provider_def p eff_external_def split: if_splits)
qed

lemma page_passes:
  assumes "page_of n pre token (pw_bucket w) = (page, True)"
  shows "card {k \<in> keys_ever w. after_token (Some (fst (last page))) k} < card {k \<in> keys_ever w. after_token token k}"
proof (rule psubset_card_mono)
  have lastp: "after_token token (fst (last page))" "fst (last page) \<in> keys_ever w"
    using page_of_spec[OF assms] by (auto simp: keys_ever_def dict_get_None_iff)
  then show "{k \<in> keys_ever w. after_token (Some (fst (last page))) k} \<subset> {k \<in> keys_ever w. after_token token k}"
    by (auto simp: after_token_def split: option.splits)
qed simp

lemma list_pages_fuel:
  "card {k \<in> keys_ever w. after_token token k} < fuel \<Longrightarrow> card {k \<in> keys_ever w. after_token token k} < fuel' \<Longrightarrow>
   list_pages L A pre fuel token found w = list_pages L A pre fuel' token found w"
proof (induction fuel arbitrary: token found w fuel')
  case (Suc fuel)
  obtain n where n: "fuel' = Suc n" using Suc.prems(2) by (cases fuel') auto
  have "list_pages L A pre fuel (Some (fst (last page))) d w' = list_pages L A pre n (Some (fst (last page))) d w'"
    if "raw_list L A pre token w = (Inr (page, True), w')" for page d w'
  proof -
    have ret: "page_of (pl_page L) pre token (pw_bucket w') = (page, True)" "keys_ever w' \<subseteq> keys_ever w"
      using raw_list_returns[OF that] by auto
    have "card {k \<in> keys_ever w'. after_token token k} \<le> card {k \<in> keys_ever w. after_token token k}"
      by (rule card_mono) (use ret(2) in auto)
    then have "card {k \<in> keys_ever w'. after_token (Some (fst (last page))) k} < fuel \<and>
        card {k \<in> keys_ever w'. after_token (Some (fst (last page))) k} < n"
      using page_passes[OF ret(1)] Suc.prems n by linarith
    then show ?thesis using Suc.IH by blast
  qed
  then show ?case
    by (cases "raw_list L A pre token w")
      (auto simp: n eff_match_def Let_def split: sum.split prod.split failure.split)
qed simp

end
