(* ===== verification/Pitr_Archive.thy ===== *)
theory Pitr_Archive
  imports Pitr_Inventory
begin

text \<open>
  The archive as its clients see it.  The locale \<open>guarded_region\<close> is what retention and planning
  rely on: the others leave the base backups alone, and the lease object lies apart.  Its lemmas
  turn what the reads return into facts about the bucket.  It is interpreted on the region of an
  adapter: base backups, pins and the WAL that is there at the start; new WAL may arrive.
\<close>

section \<open>Keys\<close>

lemma starts_with_iff: "starts_with p s \<longleftrightarrow> (\<exists>t. s = p @ t)"
  unfolding starts_with_def by (metis append_take_drop_id append_eq_conv_conj)

lemma below_scope_iff: "below_scope L A t = Inr k \<longleftrightarrow> (\<exists>s. scope_prefix L A = Inr s \<and> k = s @ ''/'' @ t)"
  by (auto simp: below_scope_def bindE_eq_Inr_iff)

lemma wal_base_id_iff [simp]: "wal_base_id i = Inr j \<longleftrightarrow> wal_component_ok i \<and> j = i"
  by (auto simp: wal_base_id_def)

lemma validate_archive_name_iff [simp]: "validate_archive_name f = Inr g \<longleftrightarrow> is_archive_name f \<and> g = f"
  by (auto simp: validate_archive_name_def)

lemma wal_key_iff: "wal_key L A f = Inr k \<longleftrightarrow> is_archive_name f \<and> (\<exists>s. scope_prefix L A = Inr s \<and> k = s @ ''/wal/'' @ f)"
  by (auto simp: wal_key_def bindE_eq_Inr_iff below_scope_iff)

lemma base_prefix_iff: "base_prefix L A i = Inr p \<longleftrightarrow> wal_component_ok i \<and> (\<exists>s. scope_prefix L A = Inr s \<and> p = s @ ''/bases/'' @ i)"
  by (auto simp: base_prefix_def bindE_eq_Inr_iff below_scope_iff)

lemma base_manifest_key_iff:
  "base_manifest_key L A i = Inr k \<longleftrightarrow> (\<exists>p. base_prefix L A i = Inr p \<and> k = p @ ''/'' @ BASE_COMPLETION_MARKER)"
  by (auto simp: base_manifest_key_def bindE_eq_Inr_iff)

lemma base_object_key_iff:
  "base_object_key L A i rel = Inr k \<longleftrightarrow> (\<exists>p r. base_prefix L A i = Inr p \<and> wal_relative_path rel = Inr r \<and> k = p @ ''/'' @ r)"
  by (auto simp: base_object_key_def bindE_eq_Inr_iff)

lemma component_no_slash: "wal_component_ok i \<Longrightarrow> CHR ''/'' \<notin> set i"
  by (auto simp: wal_component_ok_def name_char_def alnum_def list_all_iff)

lemma base_prefix_apart:
  assumes "base_prefix L A i = Inr p" "base_prefix L A j = Inr q" "starts_with (p @ ''/'') k" "starts_with (q @ ''/'') k"
  shows "i = j"
proof -
  obtain s where s: "p = s @ ''/bases/'' @ i" "q = s @ ''/bases/'' @ j" and ok: "wal_component_ok i" "wal_component_ok j"
    using assms(1,2) by (auto simp: base_prefix_iff)
  obtain t u where "i @ ''/'' @ t = j @ ''/'' @ u" using assms(3,4) by (auto simp: s starts_with_iff)
  then have "split_on (CHR ''/'') (i @ CHR ''/'' # t) = split_on (CHR ''/'') (j @ CHR ''/'' # u)" by simp
  then show "i = j" using component_no_slash[OF ok(1)] component_no_slash[OF ok(2)] by (simp add: split_on_append)
qed

lemma sort_down_simps [simp]: "set (sort_down f xs) = set xs" "distinct (sort_down f xs) = distinct xs"
  by (simp_all add: sort_down_def)

section \<open>Bases\<close>

text \<open>The base \<open>i\<close> stands: its marker \<open>x\<close> is there, describes \<open>d\<close>, and all its payload is there, byte for byte.\<close>

definition base_stands :: "pitr_lib \<Rightarrow> wal_adapter \<Rightarrow> (string \<Rightarrow> wal_object option) \<Rightarrow> string \<Rightarrow> wal_object \<Rightarrow> base_document \<Rightarrow> bool" where
  "base_stands L A s i x d \<longleftrightarrow> (\<exists>mk. base_manifest_key L A i = Inr mk \<and> s mk = Some x) \<and>
     parse_base_manifest A (wo_body x) i = Inr d \<and>
     (\<forall>e \<in> set (bd_artifacts d). \<exists>k y. base_object_key L A i (ae_path e) = Inr k \<and> s k = Some y \<and>
       pl_sha L (wo_body y) = py_lower (ae_sha e))"

locale guarded_region =
  fixes L :: pitr_lib and A :: wal_adapter and R :: "string \<Rightarrow> bool"
  assumes base_keys: "base_prefix L A i = Inr p \<Longrightarrow> starts_with (p @ ''/'') k \<Longrightarrow> R k"
    and lease_apart: "apart_from_lease L A R"
begin

lemma marker_region: "base_manifest_key L A i = Inr k \<Longrightarrow> R k"
  by (auto simp: base_manifest_key_iff starts_with_iff intro!: base_keys[of i])

lemma payload_region: "base_object_key L A i rel = Inr k \<Longrightarrow> R k"
  by (auto simp: base_object_key_iff starts_with_iff intro!: base_keys[of i])

lemma payload_keysD: "payload_keys L A i m = Inr ks \<Longrightarrow>
    (\<forall>(k, e) \<in> set ks. base_object_key L A i (ae_path e) = Inr k) \<and> snd ` set ks = set (bd_artifacts m)"
proof -
  assume a: "payload_keys L A i m = Inr ks"
  have "mapE (\<lambda>e. bindE (base_object_key L A i (ae_path e)) (\<lambda>k. Inr (k, e))) xs = Inr ks \<Longrightarrow>
      (\<forall>(k, e) \<in> set ks. base_object_key L A i (ae_path e) = Inr k) \<and> snd ` set ks = set xs" for xs
    by (induction xs arbitrary: ks) (auto simp: bindE_eq_Inr_iff, metis imageI snd_conv)
  then show ?thesis using a by (simp add: payload_keys_def)
qed

lemma payload_intact:
  assumes "payload_keys L A i d = Inr ks" "\<forall>(k, e) \<in> set ks. \<exists>y. s k = Some y \<and> pl_sha L (wo_body y) = py_lower (ae_sha e)"
  shows "\<forall>e \<in> set (bd_artifacts d). \<exists>k y. base_object_key L A i (ae_path e) = Inr k \<and> s k = Some y \<and> pl_sha L (wo_body y) = py_lower (ae_sha e)"
proof
  fix e assume "e \<in> set (bd_artifacts d)"
  then obtain k where "(k, e) \<in> set ks" using payload_keysD[OF assms(1)] by (metis imageE prod.collapse)
  then show "\<exists>k y. base_object_key L A i (ae_path e) = Inr k \<and> s k = Some y \<and> pl_sha L (wo_body y) = py_lower (ae_sha e)"
    using bspec[OF assms(2)] bspec[OF conjunct1[OF payload_keysD[OF assms(1)]]] by fastforce
qed

lemma inspect_base_tells:
  "observes (stays R ((=) s0)) (inspect_base L A i True)
     (\<lambda>(marker, d, objects). \<exists>x. base_stands L A s0 i x d \<and> wi_modified marker = wo_modified x)"
proof -
  let ?read = "\<lambda>(k, e). if True then eff_bind (wal_read L A k (Some (ae_sha e)) (ae_size e) None) (\<lambda>(info, _). eff_return info)
         else eff_bind (wal_head A k) (\<lambda>info.
           eff_bind (eff_check (wi_sha info = ae_sha e \<and> (case ae_size e of None \<Rightarrow> True | Some n \<Rightarrow> wi_size info = n))
             (wal_integrity (''base artifact '' @ quoted (ae_path e) @ '' metadata does not match''))) (\<lambda>_. eff_return info))"
  have payload: "observes (stays R ((=) s0)) (eff_collect ?read ks)
      (\<lambda>_. \<forall>(k, e) \<in> set ks. \<exists>y. s0 k = Some y \<and> pl_sha L (wo_body y) = py_lower (ae_sha e))"
    if ks: "\<forall>(k, e) \<in> set ks. base_object_key L A i (ae_path e) = Inr k" for ks
  proof (rule observes_mono[OF observes_collect[where p = "\<lambda>(k, e) _. \<exists>y. s0 k = Some y \<and> pl_sha L (wo_body y) = py_lower (ae_sha e)"]])
    fix ke assume "ke \<in> set ks"
    from bspec[OF ks this] have "R (fst ke)" by (cases ke) (auto dest: payload_region)
    then show "observes (stays R ((=) s0)) (?read ke) (case ke of (k, e) \<Rightarrow> \<lambda>_. \<exists>y. s0 k = Some y \<and> pl_sha L (wo_body y) = py_lower (ae_sha e))"
      by (cases ke) (auto intro!: observes_bind[OF wal_read_tells] observe_rules simp: split_beta)
  qed (auto simp: list_all2_conv_all_nth in_set_conv_nth, fastforce)
  show ?thesis unfolding inspect_base_def
    apply (intro observe_rules)
    apply (rule observes_bind[OF wal_read_tells])
    apply (simp only: split_beta)
    apply (intro observe_rules)
    apply (rule observes_bind[OF list_objects_tell])
    apply (intro observe_rules)
    apply (rule observes_bind[OF payload])
     apply (fastforce dest: payload_keysD)
    apply (rule observes_return)
    apply (frule payload_intact, force split: prod.splits)
    apply (auto simp: base_stands_def tells_def marker_region dest!: head_infoD)
    done
qed


text \<open>A marker's name in a listing is the base's.\<close>

lemma marker_text: "wal_component_ok i \<Longrightarrow> split_on (CHR ''/'') (i @ ''/'' @ BASE_COMPLETION_MARKER) = [i, BASE_COMPLETION_MARKER]"
  by (simp add: split_on_append component_no_slash BASE_COMPLETION_MARKER_def)

lemma remote_base_ids_tell:
  "observes (stays R ((=) s0)) (remote_base_ids L A)
     (\<lambda>ids. distinct ids \<and> (\<forall>i k. base_manifest_key L A i = Inr k \<longrightarrow> s0 k \<noteq> None \<longrightarrow> i \<in> set ids))"
proof -
  have done': "observes (stays R ((=) s0)) (eff_return (sort (remdups (collect (\<lambda>k. case split_on (CHR ''/'') (drop (length p + 1) k) of
         [i, name] \<Rightarrow> if name = BASE_COMPLETION_MARKER \<and> wal_component_ok i then Some i else None
       | _ \<Rightarrow> None) (map fst found)))))
     (\<lambda>ids. distinct ids \<and> (\<forall>i k. base_manifest_key L A i = Inr k \<longrightarrow> s0 k \<noteq> None \<longrightarrow> i \<in> set ids))"
    if p: "below_scope L A ''bases'' = Inr p" and found: "reached R s0 (p @ ''/'') None {} (fst ` set found)" for p found
  proof (rule observes_return, intro conjI allI impI)
    fix i k assume k: "base_manifest_key L A i = Inr k" "s0 k \<noteq> None"
    have i: "wal_component_ok i" and kk: "k = p @ ''/'' @ i @ ''/'' @ BASE_COMPLETION_MARKER"
      using k(1) p by (auto simp: base_manifest_key_iff base_prefix_iff below_scope_iff)
    have "k \<in> fst ` set found"
      using found marker_region[OF k(1)] k(2) by (auto simp: reached_def after_token_def kk starts_with_iff)
    moreover have "split_on (CHR ''/'') (drop (length p + 1) k) = [i, BASE_COMPLETION_MARKER]"
      using marker_text[OF i] by (simp add: kk)
    ultimately show "i \<in> set (sort (remdups (collect (\<lambda>k. case split_on (CHR ''/'') (drop (length p + 1) k) of
         [i, name] \<Rightarrow> if name = BASE_COMPLETION_MARKER \<and> wal_component_ok i then Some i else None
       | _ \<Rightarrow> None) (map fst found))))"
      using i by (force simp: set_collect)
  qed simp
  show ?thesis unfolding remote_base_ids_def
    by (intro observe_rules, rule observes_bind[OF list_objects_tell], rule done') auto
qed

lemma read_base_manifest_tells:
  "observes (stays R ((=) s0)) (read_base_manifest L A i) (\<lambda>raw. \<exists>x d. base_stands L A s0 i x d \<and> raw = bd_raw d)"
  unfolding read_base_manifest_def
  by (intro observe_rules, rule observes_bind[OF inspect_base_tells]) (auto intro!: observe_rules)

lemma verify_base_tells:
  "observes (stays R ((=) s0)) (verify_base_backup L A i) (\<lambda>v. \<exists>x d. base_stands L A s0 i x d \<and> wi_modified (br_manifest v) = wo_modified x)"
  unfolding verify_base_backup_def
  by (intro observe_rules, rule observes_bind[OF inspect_base_tells]) (auto intro!: observe_rules)

end

section \<open>Published bases\<close>

text \<open>A base of this project, environment and cluster: \<open>m\<close> is its manifest, \<open>x\<close> its marker.\<close>

definition published ::
  "pitr_lib \<Rightarrow> pitr_ctx \<Rightarrow> string \<Rightarrow> string \<Rightarrow> wal_adapter \<Rightarrow> (string \<Rightarrow> wal_object option) \<Rightarrow> string \<Rightarrow> wal_object \<Rightarrow> PitrBaseBackupManifest \<Rightarrow> bool" where
  "published L X environment system A s i x m \<longleftrightarrow>
     (\<exists>d. base_stands L A s i x d \<and> validate_manifest_ownership L X environment system (bd_raw d) = Inr m)"

text \<open>The typing of a manifest keeps its identity.\<close>

definition keeps_identity :: "pitr_ctx \<Rightarrow> bool" where
  "keeps_identity X \<longleftrightarrow> (\<forall>d m. px_typed_base X d = Inr m \<longrightarrow> dict_get d ''base_backup_id'' = Some (JStr (pb_ident m)))"

lemma validate_baseD: "validate_base L m = Inr n \<Longrightarrow> n = normalized_base L m \<and> base_complaints L m = [] \<and> base_complaint L n = None"
  by (auto simp: validate_base_def report_fields_def split: if_splits option.splits)

lemma validate_manifestD:
  assumes "validate_manifest_ownership L X environment system raw = Inr m"
  shows "\<exists>m0. px_typed_base X raw = Inr m0 \<and> validate_base L m0 = Inr m \<and> pb_status m = BASE_COMPLETE \<and> pb_system m = system \<and>
    pb_environment m = environment \<and> pb_project m = px_project X"
  using assms by (auto simp: validate_manifest_ownership_def bindE_eq_Inr_iff built_def split: sum.splits)

lemma parse_base_manifestD:
  assumes "parse_base_manifest A b i = Inr d" "dict_get (bd_raw d) ''base_backup_id'' = Some (JStr j)"
  shows "i = j"
  using assms by (auto simp: parse_base_manifest_def bindE_eq_Inr_iff not_null_def Let_def split: option.splits json.splits if_splits)

lemma published_fixed:
  assumes "published L X e sy A s i x m" "published L X e sy A s i x' m'"
  shows "x' = x \<and> m' = m"
  using assms by (auto simp: published_def base_stands_def)

lemma published_ident:
  assumes "keeps_identity X" "published L X e sy A s i x m"
  shows "pb_ident m = i"
proof -
  obtain d m0 where d: "parse_base_manifest A (wo_body x) i = Inr d" "px_typed_base X (bd_raw d) = Inr m0" "validate_base L m0 = Inr m"
    using assms(2) by (auto simp: published_def base_stands_def dest!: validate_manifestD)
  then have "i = pb_ident m0" using assms(1) parse_base_manifestD[OF d(1)] by (auto simp: keeps_identity_def)
  then show ?thesis using validate_baseD[OF d(3)] by (simp add: normalized_base_def)
qed

context guarded_region
begin

lemma owned_manifest_tells:
  "observes (stays R ((=) s0)) (owned_manifest L X e sy A i) (\<lambda>m. \<exists>x. published L X e sy A s0 i x m)"
  unfolding owned_manifest_def published_def
  by (rule observes_bind[OF read_base_manifest_tells]) (auto intro!: observe_rules)

text \<open>The listing of the service names every base whose marker is there, and only published ones.\<close>

lemma list_base_backups_tells:
  assumes X: "keeps_identity X"
  shows "observes (stays R ((=) s0)) (list_base_backups L X e sy A)
    (\<lambda>ms. distinct (map pb_ident ms) \<and> (\<forall>m \<in> set ms. \<exists>x. published L X e sy A s0 (pb_ident m) x m) \<and>
      (\<forall>i k. base_manifest_key L A i = Inr k \<longrightarrow> s0 k \<noteq> None \<longrightarrow> i \<in> pb_ident ` set ms))"
proof -
  let ?one = "\<lambda>i. eff_bind (owned_manifest L X e sy A i) (\<lambda>m. eff_bind (save_pitr_base_manifest L m) (\<lambda>_. eff_return m))"
  have one: "observes (stays R ((=) s0)) (?one i) (\<lambda>m. \<exists>x. published L X e sy A s0 i x m)" for i
    by (rule observes_bind[OF owned_manifest_tells], rule observes_bind[OF store_keeps(1)[unfolded keeps_def]])
      (auto intro!: observe_rules)
  have sorted: "observes (stays R ((=) s0)) (eff_return (sort_down base_order ms))
      (\<lambda>ms. distinct (map pb_ident ms) \<and> (\<forall>m \<in> set ms. \<exists>x. published L X e sy A s0 (pb_ident m) x m) \<and>
        (\<forall>i k. base_manifest_key L A i = Inr k \<longrightarrow> s0 k \<noteq> None \<longrightarrow> i \<in> pb_ident ` set ms))"
    if ids: "distinct ids" "\<forall>i k. base_manifest_key L A i = Inr k \<longrightarrow> s0 k \<noteq> None \<longrightarrow> i \<in> set ids"
      and ms: "list_all2 (\<lambda>i m. \<exists>x. published L X e sy A s0 i x m) ids ms" for ids ms
  proof -
    have idents: "map pb_ident ms = ids"
      using ms by (induction rule: list_all2_induct) (auto dest: published_ident[OF X])
    have "distinct (map pb_ident (sort_down base_order ms))" using ids(1) by (simp add: distinct_map flip: idents)
    moreover have "\<exists>x. published L X e sy A s0 (pb_ident m) x m" if "m \<in> set ms" for m
      using that ms published_ident[OF X] by (fastforce simp: list_all2_conv_all_nth in_set_conv_nth)
    moreover have "set ids = pb_ident ` set ms" using idents by (metis list.set_map)
    ultimately show ?thesis using ids(2) by (intro observes_return) auto
  qed
  show ?thesis unfolding list_base_backups_def
    by (rule observes_bind[OF remote_base_ids_tell], rule observes_bind[OF observes_collect[OF one]], rule sorted) auto
qed

end

section \<open>Receipts\<close>

lemma upper_hex_py_upper: "upper_hex_char c \<Longrightarrow> upper_char c = [c]"
  using upper_hex_chars[of c] by (auto simp: upper_char_def)

lemma segment_facts:
  assumes "is_wal_segment f"
  shows "length f = 24" "py_upper f = f" "CHR ''/'' \<notin> set f" "is_archive_name f"
proof -
  have f: "length f = 24" "list_all upper_hex_char f" using assms by (auto simp: is_wal_segment_def is_upper_hex_def)
  show "length f = 24" by (rule f(1))
  have "list_all upper_hex_char g \<Longrightarrow> concat (map upper_char g) = g" for g
    by (induction g) (simp_all add: upper_hex_py_upper)
  then show "py_upper f = f" using f(2) by (simp add: py_upper_def)
  show "CHR ''/'' \<notin> set f" using f(2) by (auto simp: list_all_iff upper_hex_char_def)
  show "is_archive_name f" using assms by (simp add: is_archive_name_def)
qed

lemma archive_segment:
  assumes "is_archive_name f" "length f = 24"
  shows "is_wal_segment f"
proof -
  have "\<not> is_wal_history f" using assms(2) by (auto simp: is_wal_history_def dest: arg_cong[where f = length])
  moreover have "\<not> is_wal_backup f" using assms(2) by (auto simp: is_wal_backup_def)
  ultimately show ?thesis using assms(1) by (simp add: is_archive_name_def)
qed

lemma split_on_mid: "split_on c (p @ c # r) = split_on c p @ split_on c r"
proof (induction p)
  case (Cons x p)
  then show ?case by (cases "split_on c p") auto
qed simp

lemma last_component_below: "CHR ''/'' \<notin> set f \<Longrightarrow> last_component (p @ ''/'' @ f) = f"
  by (simp add: last_component_def split_on_mid split_on_free)

text \<open>The receipt \<open>r\<close> is one of the object \<open>x\<close>.\<close>

definition receipt_of :: "pitr_lib \<Rightarrow> wal_object \<Rightarrow> WalReceipt \<Rightarrow> bool" where
  "receipt_of L x r \<longleftrightarrow> (\<exists>h t. metadata_digest x = Some h \<and> wr_sha r = py_lower h \<and> wr_size r = int (length (wo_body x)) \<and>
     wo_modified x = Some t \<and> wr_archived_at r = stamp L (pitr_timestamp L t))"

definition segment_receipt :: "WalReceipt \<Rightarrow> bool" where
  "segment_receipt r \<longleftrightarrow> is_wal_segment (wr_filename r) \<and> wr_timeline r = int (hex_number (take 8 (wr_filename r)))"

lemma new_receiptD:
  assumes "new_receipt L X e sy f k h n t = Inr r" "is_wal_segment f"
  shows "wr_filename r = f \<and> segment_receipt r \<and> wr_sha r = py_lower h \<and> wr_size r = n \<and> wr_archived_at r = stamp L t"
  using assms segment_facts(2)[OF assms(2)]
  by (auto simp: new_receipt_def built_def validate_receipt_def report_fields_def Let_def segment_receipt_def
      split: sum.splits if_splits option.splits)

text \<open>What a listing of the WAL returns, and what it makes of it.\<close>

definition inventory_tells ::
  "pitr_lib \<Rightarrow> wal_adapter \<Rightarrow> (string \<Rightarrow> bool) \<Rightarrow> (string \<Rightarrow> wal_object option) \<Rightarrow> WalReceipt list \<Rightarrow> bool" where
  "inventory_tells L A R s rs \<longleftrightarrow> (\<forall>r \<in> set rs. segment_receipt r) \<and>
     (\<forall>r \<in> set rs. \<forall>k. wal_key L A (wr_filename r) = Inr k \<longrightarrow> R k \<longrightarrow> (\<exists>x. s k = Some x \<and> receipt_of L x r)) \<and>
     (\<forall>f k. is_wal_segment f \<longrightarrow> wal_key L A f = Inr k \<longrightarrow> R k \<longrightarrow> s k \<noteq> None \<longrightarrow> f \<in> wr_filename ` set rs)"

definition wal_item :: "pitr_lib \<Rightarrow> wal_adapter \<Rightarrow> (string \<Rightarrow> bool) \<Rightarrow> (string \<Rightarrow> wal_object option) \<Rightarrow> WalObjectInfo \<Rightarrow> bool" where
  "wal_item L A R s i \<longleftrightarrow> (\<exists>f. wal_key L A f = Inr (wi_key i) \<and> CHR ''/'' \<notin> set f) \<and>
     (R (wi_key i) \<longrightarrow> (\<exists>x. s (wi_key i) = Some x \<and> head_info (wi_key i) x = Inr i))"

lemma list_wal_tells:
  "observes (stays R ((=) s0)) (list_wal L A)
     (\<lambda>its. (\<forall>i \<in> set its. wal_item L A R s0 i) \<and>
       (\<forall>f k. is_wal_segment f \<longrightarrow> wal_key L A f = Inr k \<longrightarrow> R k \<longrightarrow> s0 k \<noteq> None \<longrightarrow> k \<in> wi_key ` set its))"
proof -
  let ?ok = "\<lambda>p k. let rel = drop (length p + 1) k in CHR ''/'' \<notin> set rel \<and> is_archive_name rel"
  have heads: "observes (stays R ((=) s0)) (eff_collect (wal_head A) ks)
      (\<lambda>its. map wi_key its = ks \<and> (\<forall>i \<in> set its. R (wi_key i) \<longrightarrow> (\<exists>x. s0 (wi_key i) = Some x \<and> head_info (wi_key i) x = Inr i)))" for ks
    by (rule observes_mono[OF observes_collect[OF wal_head_tells]])
      (auto simp: tells_def list_all2_conv_all_nth in_set_conv_nth intro!: nth_equalityI)
  have fin: "(\<forall>i \<in> set its. wal_item L A R s0 i) \<and>
       (\<forall>f k. is_wal_segment f \<longrightarrow> wal_key L A f = Inr k \<longrightarrow> R k \<longrightarrow> s0 k \<noteq> None \<longrightarrow> k \<in> wi_key ` set its)"
    if p: "below_scope L A ''wal'' = Inr p" and found: "found_tells R s0 (p @ ''/'') (fst ` set found)" "reached R s0 (p @ ''/'') None {} (fst ` set found)"
      and ih: "map wi_key its = filter (?ok p) (map fst found) \<and>
        (\<forall>i \<in> set its. R (wi_key i) \<longrightarrow> (\<exists>x. s0 (wi_key i) = Some x \<and> head_info (wi_key i) x = Inr i))" for p found its
  proof (intro conjI ballI allI impI)
    obtain s where s: "scope_prefix L A = Inr s" "p = s @ ''/wal''" using p by (auto simp: below_scope_iff)
    have keys: "wi_key ` set its = {k \<in> fst ` set found. ?ok p k}" using ih by (metis list.set_map set_filter)
    fix i assume i: "i \<in> set its"
    then have k: "wi_key i \<in> fst ` set found" "?ok p (wi_key i)" using keys by blast+
    obtain f where f: "wi_key i = p @ ''/'' @ f" using found(1) k(1) by (auto simp: found_tells_def starts_with_iff)
    then have "wal_key L A f = Inr (wi_key i) \<and> CHR ''/'' \<notin> set f" using k(2) s by (simp add: wal_key_iff Let_def)
    then show "wal_item L A R s0 i" using ih i by (auto simp: wal_item_def)
  next
    obtain s where s: "scope_prefix L A = Inr s" "p = s @ ''/wal''" using p by (auto simp: below_scope_iff)
    have keys: "wi_key ` set its = {k \<in> fst ` set found. ?ok p k}" using ih by (metis list.set_map set_filter)
    fix f k assume f: "is_wal_segment f" and k: "wal_key L A f = Inr k" "R k" "s0 k \<noteq> None"
    have kf: "k = p @ ''/'' @ f" using k(1) s by (auto simp: wal_key_iff)
    then have "k \<in> fst ` set found" using found(2) k(2,3) by (auto simp: reached_def after_token_def starts_with_iff)
    then show "k \<in> wi_key ` set its" unfolding keys using segment_facts[OF f] by (simp add: kf Let_def)
  qed
  show ?thesis unfolding list_wal_def
    by (intro observe_rules, rule observes_bind[OF list_objects_tell], rule observes_mono[OF heads]) (rule fin, auto)
qed

lemma remote_receipt_tells:
  assumes "wal_item L A R s0 i"
  shows "observes (stays R ((=) s0)) (remote_receipt L X e sy i)
    (\<lambda>v. case v of None \<Rightarrow> \<forall>f. is_wal_segment f \<longrightarrow> wal_key L A f \<noteq> Inr (wi_key i)
      | Some r \<Rightarrow> segment_receipt r \<and> wal_key L A (wr_filename r) = Inr (wi_key i) \<and>
          (R (wi_key i) \<longrightarrow> (\<exists>x. s0 (wi_key i) = Some x \<and> receipt_of L x r)))"
proof -
  obtain f s where f: "wi_key i = s @ ''/wal/'' @ f" "is_archive_name f" "CHR ''/'' \<notin> set f" and s: "scope_prefix L A = Inr s"
    using assms by (auto simp: wal_item_def wal_key_iff)
  have lastc: "last_component (wi_key i) = f" using last_component_below[of f "s @ ''/wal''"] f by simp
  have key: "wal_key L A g = Inr (wi_key i) \<longleftrightarrow> g = f" for g using f s by (auto simp: wal_key_iff)
  have new: "segment_receipt r \<and> wal_key L A (wr_filename r) = Inr (wi_key i) \<and>
      (R (wi_key i) \<longrightarrow> (\<exists>x. s0 (wi_key i) = Some x \<and> receipt_of L x r))"
    if "new_receipt L X e sy f (wi_key i) (wi_sha i) (wi_size i) (pitr_timestamp L t) = Inr r" "length f = 24" "wi_modified i = Some t" for r t
    using new_receiptD[OF that(1) archive_segment[OF f(2) that(2)]] key that(3) assms
    by (auto simp: wal_item_def receipt_of_def dest!: head_infoD)
  have look: "observes (stays R ((=) s0)) (lookup_receipt L r) (\<lambda>_. True)" for r
    using receipts_keep(1) by (simp add: keeps_def)
  have save: "observes (stays R ((=) s0)) (case known of None \<Rightarrow> save_wal_receipt L r | Some y \<Rightarrow> eff_check (same_wal_object r y) e') (\<lambda>_. True)" for r known e'
    using store_keeps(2) by (cases known) (auto simp: keeps_def intro: observe_rules)
  show ?thesis unfolding remote_receipt_def Let_def lastc
    by (auto simp: key dest: segment_facts(1) split: option.splits
        intro!: observe_rules observes_bind[OF look] observes_bind[OF save] dest!: new)
qed

lemma list_all2_partner:
  "list_all2 P xs ys \<Longrightarrow> (\<forall>x \<in> set xs. \<exists>y \<in> set ys. P x y) \<and> (\<forall>y \<in> set ys. \<exists>x \<in> set xs. P x y)"
  by (induction rule: list_all2_induct) auto

definition receipt_result ::
  "pitr_lib \<Rightarrow> wal_adapter \<Rightarrow> (string \<Rightarrow> bool) \<Rightarrow> (string \<Rightarrow> wal_object option) \<Rightarrow> WalObjectInfo \<Rightarrow> WalReceipt option \<Rightarrow> bool" where
  "receipt_result L A R s i v \<longleftrightarrow> (case v of None \<Rightarrow> \<forall>f. is_wal_segment f \<longrightarrow> wal_key L A f \<noteq> Inr (wi_key i)
      | Some r \<Rightarrow> segment_receipt r \<and> wal_key L A (wr_filename r) = Inr (wi_key i) \<and>
          (R (wi_key i) \<longrightarrow> (\<exists>x. s (wi_key i) = Some x \<and> receipt_of L x r)))"

lemma collected_receipts:
  assumes l: "list_all2 (receipt_result L A R s) its vs"
    and c: "\<forall>f k. is_wal_segment f \<longrightarrow> wal_key L A f = Inr k \<longrightarrow> R k \<longrightarrow> s k \<noteq> None \<longrightarrow> k \<in> wi_key ` set its"
  shows "inventory_tells L A R s (collect id vs)"
  unfolding inventory_tells_def
proof (intro conjI ballI allI impI)
  fix r assume "r \<in> set (collect id vs)"
  then have "Some r \<in> set vs" by (auto simp: set_collect)
  then obtain i where r: "receipt_result L A R s i (Some r)" using list_all2_partner[OF l] by blast
  then show "segment_receipt r" by (simp add: receipt_result_def)
  fix k assume "wal_key L A (wr_filename r) = Inr k" "R k"
  then show "\<exists>x. s k = Some x \<and> receipt_of L x r" using r by (simp add: receipt_result_def)
next
  fix f k assume f: "is_wal_segment f" "wal_key L A f = Inr k" "R k" "s k \<noteq> None"
  then obtain i where i: "i \<in> set its" "wi_key i = k" using c by blast
  then obtain v where v: "v \<in> set vs" "receipt_result L A R s i v" using list_all2_partner[OF l] by blast
  have "v \<noteq> None"
  proof
    assume "v = None"
    then show False using v(2) f(1,2) i(2) by (simp add: receipt_result_def)
  qed
  then obtain r where r: "v = Some r" by blast
  then have "wr_filename r = f" using v(2) f(2) i(2) by (auto simp: receipt_result_def wal_key_iff)
  moreover have "r \<in> set (collect id vs)" using v(1) r by (auto simp: set_collect)
  ultimately show "f \<in> wr_filename ` set (collect id vs)" by blast
qed

lemma remote_receipts_tell:
  "observes (stays R ((=) s0)) (remote_wal_receipts L X e sy A) (inventory_tells L A R s0)"
proof -
  have one: "observes (stays R ((=) s0)) (remote_receipt L X e sy i) (receipt_result L A R s0 i)" if "wal_item L A R s0 i" for i
    unfolding receipt_result_def by (rule remote_receipt_tells[OF that])
  show ?thesis unfolding remote_wal_receipts_def
    by (intro observe_rules, rule observes_bind[OF list_wal_tells], rule observes_bind[OF observes_collect[OF one]])
      (auto intro!: observe_rules collected_receipts)
qed

end
