(* ===== verification/Pitr_Retention.thy ===== *)
theory Pitr_Retention
  imports Pitr_Archive
begin

text \<open>
  Retention.  However a run ends, what it has done to the archive is \<open>damage\<close>: of the bases it
  decided to delete, only payload whose marker is gone, and WAL only once all those markers are
  gone.  What it decides is the subject of \<open>Pitr_Decision\<close>.
\<close>

section \<open>Deleting\<close>

definition under_base :: "pitr_lib \<Rightarrow> wal_adapter \<Rightarrow> string \<Rightarrow> string \<Rightarrow> bool" where
  "under_base L A i k \<longleftrightarrow> (\<exists>p. base_prefix L A i = Inr p \<and> starts_with (p @ ''/'') k)"

definition marker_gone :: "pitr_lib \<Rightarrow> wal_adapter \<Rightarrow> (string \<Rightarrow> wal_object option) \<Rightarrow> string \<Rightarrow> bool" where
  "marker_gone L A s i \<longleftrightarrow> (\<forall>k. base_manifest_key L A i = Inr k \<longrightarrow> s k = None)"

definition damage ::
  "pitr_lib \<Rightarrow> wal_adapter \<Rightarrow> (string \<Rightarrow> bool) \<Rightarrow> (string \<Rightarrow> wal_object option) \<Rightarrow> string set \<Rightarrow> string set \<Rightarrow>
   (string \<Rightarrow> wal_object option) \<Rightarrow> bool" where
  "damage L A R s0 D W s \<longleftrightarrow> (\<forall>k. R k \<longrightarrow> s k = s0 k \<or> (\<exists>i \<in> D. under_base L A i k \<and> marker_gone L A s i) \<or>
     (k \<in> W \<and> (\<forall>i \<in> D. marker_gone L A s i)))"

lemma damage_none: "damage L A R s0 D W s0"
  by (simp add: damage_def)

lemma damage_more: "damage L A R s0 D {} s \<Longrightarrow> damage L A R s0 D W s"
  by (auto simp: damage_def)

lemma gone_del: "marker_gone L A s i \<Longrightarrow> marker_gone L A (s(k := None)) i"
  by (auto simp: marker_gone_def)

lemma damage_del:
  assumes s: "damage L A R s0 D W s"
    and k: "(\<exists>i \<in> D. under_base L A i k \<and> marker_gone L A (s(k := None)) i) \<or> (k \<in> W \<and> (\<forall>i \<in> D. marker_gone L A s i)) \<or> \<not> R k"
  shows "damage L A R s0 D W (s(k := None))"
  unfolding damage_def
proof (intro allI impI)
  fix j assume j: "R j"
  show "(s(k := None)) j = s0 j \<or> (\<exists>i \<in> D. under_base L A i j \<and> marker_gone L A (s(k := None)) i) \<or>
      (j \<in> W \<and> (\<forall>i \<in> D. marker_gone L A (s(k := None)) i))"
  proof (cases "j = k")
    case True
    then show ?thesis using k j gone_del by blast
  next
    case False
    then show ?thesis using s j gone_del unfolding damage_def fun_upd_def by (metis (no_types, lifting))
  qed
qed

lemma del_outside: "(\<And>k. \<not> R k \<Longrightarrow> s k = None) \<Longrightarrow> \<not> R k \<Longrightarrow> s(k := None) = s"
  by auto

lemma raw_delete_spec:
  assumes "\<And>s. J s \<Longrightarrow> J (s(k := None))"
  shows "eff_spec (stays R J) (raw_delete A k None) (\<lambda>_. stays R (\<lambda>s. J s \<and> s k = None)) (\<lambda>_. stays R J)"
  unfolding raw_delete_def
  by (rule request_spec) (use assms in \<open>auto simp: stays_def\<close>)

lemma eff_spec_match:
  assumes "eff_spec P m (\<lambda>x. Q' x) (\<lambda>e w. case e of Raised x \<Rightarrow> E' x w | Interrupted \<Rightarrow> E Interrupted w | Died \<Rightarrow> E Died w)"
    and "\<And>x. eff_spec (Q' x) (f x) Q E" and "\<And>x. eff_spec (E' x) (h x) Q E"
  shows "eff_spec P (eff_match m f h) Q E"
  using assms unfolding eff_spec_def eff_match_def by (fastforce split: prod.splits sum.splits failure.splits)

lemma eff_spec_bind_lift:
  "(\<And>x. r = Inr x \<Longrightarrow> eff_spec P (f x) Q E) \<Longrightarrow> (\<And>e w. P w \<Longrightarrow> E e w) \<Longrightarrow> eff_spec P (eff_bind (eff_lift r) f) Q E"
  by (rule eff_spec_bind[where R = "\<lambda>x w. P w \<and> r = Inr x"]) (auto simp: eff_spec_def eff_lift_def eff_return_def eff_raise_def split: sum.splits)

lemma delete_owned_key_spec:
  assumes "\<And>s. J s \<Longrightarrow> J (s(k := None))"
  shows "eff_spec (stays R J) (delete_owned_key L A k) (\<lambda>_. stays R (\<lambda>s. J s \<and> s k = None)) (\<lambda>_. stays R J)"
proof -
  have raw: "eff_spec (stays R J) (raw_delete A k None) (\<lambda>_. stays R (\<lambda>s. J s \<and> s k = None))
      (\<lambda>e w. case e of Raised x \<Rightarrow> stays R J w | Interrupted \<Rightarrow> stays R J w | Died \<Rightarrow> stays R J w)"
    by (rule eff_spec_weaken[OF raw_delete_spec[where J = J and k = k, OF assms]]) (auto split: failure.splits)
  show ?thesis unfolding delete_owned_key_def
    by (rule eff_spec_bind_lift, drule assert_owned_keyD, simp, rule eff_spec_bind_lift,
        rule eff_spec_match[OF raw[unfolded failure.case_distrib]]) (auto intro: eff_spec_return eff_spec_raise)
qed

lemma eff_spec_each_acc:
  assumes "\<And>done x. x \<in> set xs \<Longrightarrow> eff_spec (I done) (f x) (\<lambda>_. I (insert x done)) E"
  shows "eff_spec (I acc) (eff_each f xs) (\<lambda>_. I (acc \<union> set xs)) E"
  using assms
proof (induction xs arbitrary: acc)
  case (Cons x xs)
  have "eff_spec (I (insert x acc)) (eff_each f xs) (\<lambda>_. I (insert x acc \<union> set xs)) E"
    by (rule Cons.IH) (simp add: Cons.prems)
  then show ?case using Cons.prems[of x acc] by (auto intro: eff_spec_bind)
qed (simp add: eff_spec_return)

context guarded_region
begin

abbreviation doing :: "(string \<Rightarrow> wal_object option) \<Rightarrow> string set \<Rightarrow> string set \<Rightarrow> (string \<Rightarrow> wal_object option) \<Rightarrow> bool" where
  "doing s0 D gone s \<equiv> damage L A R s0 D {} s \<and> (\<forall>i \<in> gone. marker_gone L A s i)"

lemma renew_spec: "eff_spec (stays R J) (guard_renew L A) (\<lambda>_. stays R J) (\<lambda>_. stays R J)"
  using guard_keeps(1)[OF lease_apart] by (simp add: keeps_def observes_def)

lemma after_renew:
  assumes "eff_spec (stays R J) m Q E" "\<And>e w. stays R J w \<Longrightarrow> E e w"
  shows "eff_spec (stays R J) (eff_bind (guard_renew L A) (\<lambda>_. m)) Q E"
proof (rule eff_spec_bind)
  show "eff_spec (stays R J) (guard_renew L A) (\<lambda>_. stays R J) E"
    by (rule eff_spec_weaken[OF renew_spec]) (assumption, assumption, rule assms(2))
qed (rule assms(1))

text \<open>Deleting a base takes its marker first, then what is under its prefix.\<close>

lemma delete_base_spec:
  assumes i: "i \<in> D"
  shows "eff_spec (stays R (doing s0 D gone)) (delete_base_backup L A i (\<lambda>_. guard_renew L A))
    (\<lambda>_. stays R (doing s0 D (insert i gone))) (\<lambda>_. stays R (\<lambda>s. damage L A R s0 D {} s))"
proof -
  have lose: "stays R (doing s0 D g) w \<Longrightarrow> stays R (\<lambda>s. damage L A R s0 D {} s) w" for g w
    by (erule stays_mono) simp
  have first: "eff_spec (stays R (doing s0 D gone)) (eff_bind (guard_renew L A) (\<lambda>_. delete_owned_key L A mk))
      (\<lambda>_. stays R (doing s0 D (insert i gone))) (\<lambda>_. stays R (\<lambda>s. damage L A R s0 D {} s))"
    if mk: "base_manifest_key L A i = Inr mk" for mk
  proof -
    have u: "under_base L A i mk" using mk by (auto simp: under_base_def base_manifest_key_iff starts_with_iff)
    have g: "marker_gone L A (s(mk := None)) i" for s using mk by (simp add: marker_gone_def)
    have d: "doing s0 D gone s \<Longrightarrow> doing s0 D gone (s(mk := None))" for s
      using i u g gone_del by (auto intro!: damage_del)
    have q: "doing s0 D gone s \<and> s mk = None \<Longrightarrow> doing s0 D (insert i gone) s" for s
      using mk by (simp add: marker_gone_def)
    show ?thesis
    proof (rule after_renew)
      show "eff_spec (stays R (doing s0 D gone)) (delete_owned_key L A mk) (\<lambda>_. stays R (doing s0 D (insert i gone)))
          (\<lambda>_. stays R (\<lambda>s. damage L A R s0 D {} s))"
        by (rule eff_spec_weaken[OF delete_owned_key_spec[where J = "doing s0 D gone", OF d]]) (assumption+, erule stays_mono, erule q, erule lose)
    qed (erule lose)
  qed
  have next': "eff_spec (stays R (doing s0 D (insert i gone))) (eff_bind (guard_renew L A) (\<lambda>_. delete_owned_key L A k))
      (\<lambda>_. stays R (doing s0 D (insert i gone))) (\<lambda>_. stays R (\<lambda>s. damage L A R s0 D {} s))"
    if k: "under_base L A i k" for k
  proof -
    have d: "doing s0 D (insert i gone) s \<Longrightarrow> doing s0 D (insert i gone) (s(k := None))" for s
      using i k gone_del by (auto intro!: damage_del)
    show ?thesis
    proof (rule after_renew)
      show "eff_spec (stays R (doing s0 D (insert i gone))) (delete_owned_key L A k) (\<lambda>_. stays R (doing s0 D (insert i gone)))
          (\<lambda>_. stays R (\<lambda>s. damage L A R s0 D {} s))"
        by (rule eff_spec_weaken[OF delete_owned_key_spec[where J = "doing s0 D (insert i gone)", OF d]])
          (assumption+, erule stays_mono, erule conjunct1, erule lose)
    qed (erule lose)
  qed
  have all: "eff_spec (stays R (doing s0 D gone)) (eff_each (\<lambda>k. eff_bind (guard_renew L A) (\<lambda>_. delete_owned_key L A k)) (mk # ks))
      (\<lambda>_. stays R (doing s0 D (insert i gone))) (\<lambda>_. stays R (\<lambda>s. damage L A R s0 D {} s))"
    if mk: "base_manifest_key L A i = Inr mk" and ks: "\<forall>k \<in> set ks. under_base L A i k" for mk ks
    unfolding eff_each.simps by (rule eff_spec_bind[OF first[OF mk]], rule eff_spec_each) (use next' ks in blast)
  have owned: "\<forall>k \<in> set ks. starts_with (p @ ''/'') k" if "mapE (\<lambda>k. bindE (assert_owned_key L A k) (\<lambda>owned.
         bindE (guardE (starts_with (p @ ''/'') owned) (path_error ''S3 listed a base object outside the requested base backup'')) (\<lambda>_.
         bindE (wal_relative_path (drop (length p + 1) owned)) (\<lambda>_. Inr owned)))) xs = Inr ks" for p xs ks
    using that by (induction xs arbitrary: ks) (auto simp: bindE_eq_Inr_iff)
  have lists: "eff_spec (stays R (doing s0 D gone)) (list_objects L A pre) (\<lambda>_. stays R (doing s0 D gone)) (\<lambda>_. stays R (\<lambda>s. damage L A R s0 D {} s))" for pre
    by (rule eff_spec_weaken[OF list_objects_keeps[of R "doing s0 D gone", unfolded keeps_def observes_def]])
      (assumption, erule conjunct1, erule lose)
  show ?thesis unfolding delete_base_backup_def Let_def
    apply (rule eff_spec_bind_lift)
     apply (drule wal_base_id_iff[THEN iffD1], elim conjE, hypsubst)
     apply (rule eff_spec_bind_lift)
      apply (rule eff_spec_bind_lift)
       apply (rule eff_spec_bind[OF lists])
       apply (rule eff_spec_bind_lift)
        apply (rule eff_spec_bind[OF all])
          apply assumption
         apply (force simp: under_base_def dest!: owned)
        apply (rule eff_spec_return, assumption)
       apply (erule lose)+
    done
qed

lemma delete_expired_spec:
  assumes D: "set idents = D" and W: "W = {k. \<exists>r \<in> set rs. wal_key L A (wr_filename r) = Inr k}"
  shows "eff_spec (stays R ((=) s0)) (delete_expired L A idents rs) (\<lambda>_. stays R (damage L A R s0 D W)) (\<lambda>_. stays R (damage L A R s0 D W))"
proof -
  have lose: "stays R (damage L A R s0 D {}) w \<Longrightarrow> stays R (damage L A R s0 D W) w" for w
    by (erule stays_mono) (rule damage_more)
  have lose': "stays R (doing s0 D g) w \<Longrightarrow> stays R (damage L A R s0 D W) w" for g w
    by (erule stays_mono) (erule damage_more[OF conjunct1])
  let ?base = "\<lambda>i. eff_bind (guard_renew L A) (\<lambda>_. eff_bind (delete_base_backup L A i (\<lambda>_. guard_renew L A)) (\<lambda>_. eff_return ()))"
  have base: "eff_spec (stays R (doing s0 D gone)) (?base i) (\<lambda>_. stays R (doing s0 D (insert i gone))) (\<lambda>_. stays R (damage L A R s0 D W))"
    if "i \<in> D" for i gone
  proof (rule after_renew)
    show "eff_spec (stays R (doing s0 D gone)) (eff_bind (delete_base_backup L A i (\<lambda>_. guard_renew L A)) (\<lambda>_. eff_return ()))
        (\<lambda>_. stays R (doing s0 D (insert i gone))) (\<lambda>_. stays R (damage L A R s0 D W))"
      by (rule eff_spec_bind[OF eff_spec_weaken[OF delete_base_spec[OF that]]]) (assumption, assumption, erule lose, rule eff_spec_return)
  qed (erule lose')
  have bases: "eff_spec (stays R (doing s0 D {})) (eff_each ?base idents) (\<lambda>_. stays R (doing s0 D D)) (\<lambda>_. stays R (damage L A R s0 D W))"
  proof -
    have "eff_spec (stays R (doing s0 D {})) (eff_each ?base idents) (\<lambda>_. stays R (doing s0 D ({} \<union> set idents))) (\<lambda>_. stays R (damage L A R s0 D W))"
      by (rule eff_spec_each_acc[where I = "\<lambda>g. stays R (doing s0 D g)"], rule base, simp only: D)
    then show ?thesis by (simp only: Un_empty_left D)
  qed
  let ?J = "\<lambda>s. damage L A R s0 D W s \<and> (\<forall>i \<in> D. marker_gone L A s i)"
  let ?wal = "\<lambda>r. eff_bind (guard_renew L A) (\<lambda>_. eff_bind (delete_wal L A (wr_filename r)) (\<lambda>_. eff_return ()))"
  have wal: "eff_spec (stays R ?J) (?wal r) (\<lambda>_. stays R ?J) (\<lambda>_. stays R (damage L A R s0 D W))" if r: "r \<in> set rs" for r
  proof (rule after_renew)
    have del: "eff_spec (stays R ?J) (delete_owned_key L A k) (\<lambda>_. stays R ?J) (\<lambda>_. stays R (damage L A R s0 D W))"
      if k: "wal_key L A (wr_filename r) = Inr k" for k
    proof -
      have "k \<in> W" using r k W by auto
      then have "?J s \<Longrightarrow> ?J (s(k := None))" for s
        by (intro conjI damage_del ballI gone_del) blast+
      from delete_owned_key_spec[where J = ?J, OF this] show ?thesis
        by (rule eff_spec_weaken) (assumption, (erule stays_mono, blast)+)
    qed
    show "eff_spec (stays R ?J) (eff_bind (delete_wal L A (wr_filename r)) (\<lambda>_. eff_return ())) (\<lambda>_. stays R ?J) (\<lambda>_. stays R (damage L A R s0 D W))"
      unfolding delete_wal_def
      by (rule eff_spec_bind, rule eff_spec_bind_lift, rule eff_spec_bind, erule del)
        (rule eff_spec_return, assumption, erule stays_mono, erule conjunct1, rule eff_spec_return, assumption)
  qed (erule stays_mono, erule conjunct1)
  have wals: "eff_spec (stays R ?J) (eff_each ?wal rs) (\<lambda>_. stays R ?J) (\<lambda>_. stays R (damage L A R s0 D W))"
    by (rule eff_spec_each) (erule wal)
  have "eff_spec (stays R (doing s0 D {})) (delete_expired L A idents rs) (\<lambda>_. stays R ?J) (\<lambda>_. stays R (damage L A R s0 D W))"
    unfolding delete_expired_def
    by (rule eff_spec_bind[OF bases], rule eff_spec_weaken[OF wals]) (erule stays_mono, use damage_more in blast, assumption+)
  then show ?thesis
    by (rule eff_spec_weaken) (erule stays_mono, simp add: damage_none, erule stays_mono, erule conjunct1, assumption)
qed

end

section \<open>Pins\<close>

text \<open>The pin \<open>p\<close> stands at \<open>k\<close>.\<close>

definition pin_stands :: "pitr_lib \<Rightarrow> wal_adapter \<Rightarrow> (string \<Rightarrow> wal_object option) \<Rightarrow> string \<Rightarrow> PitrRemotePin \<Rightarrow> bool" where
  "pin_stands L A s k p \<longleftrightarrow> (\<exists>x i. s k = Some x \<and> head_info k x = Inr i \<and>
     pin_from_payload L A \<lparr>ch_info = Some i, ch_time = 0\<rparr> (wo_body x) k = Inr p)"

lemma pin_time: "pin_from_payload L A h b k = Inr p \<Longrightarrow> ch_info h = Some i \<Longrightarrow> pin_from_payload L A \<lparr>ch_info = Some i, ch_time = 0\<rparr> b k = Inr p"
  by (simp add: pin_from_payload_def)

lemma pin_stands_fixed: "pin_stands L A s k p \<Longrightarrow> pin_stands L A s k q \<Longrightarrow> p = q"
  by (auto simp: pin_stands_def)

locale pinned_region = guarded_region +
  assumes pin_keys: "pins_prefix L A = Inr p \<Longrightarrow> starts_with (p @ ''/'') k \<Longrightarrow> R k"
begin

lemma read_pin_tells:
  assumes "R k"
  shows "observes (stays R ((=) s0)) (read_pitr_pin L A k) (pin_stands L A s0 k)"
proof -
  let ?q = "\<lambda>(h, b). \<exists>i x. ch_info h = Some i \<and> s0 k = Some x \<and> b = wo_body x \<and> head_info k x = Inr i"
  have read: "observes (stays R ((=) s0)) (read_stable_payload L A k n) ?q" for n
    by (rule observes_mono[OF read_stable_tells]) (use assms in \<open>auto simp: tells_def split: prod.splits\<close>)
  show ?thesis unfolding read_pitr_pin_def
  proof (rule observes_bind, rule observes_catch[OF read], rule observes_raise)
    fix hb :: "CoordinationHead \<times> string" assume "?q hb"
    then show "observes (stays R ((=) s0)) (case hb of (head, payload) \<Rightarrow> eff_lift (pin_from_payload L A head payload k)) (pin_stands L A s0 k)"
      by (auto intro!: observes_lift pin_time simp: pin_stands_def split: prod.splits)
  qed
qed

lemma list_pins_tell:
  "observes (stays R ((=) s0)) (list_pitr_pins L A l (Some e))
     (\<lambda>ps. (\<forall>p \<in> set ps. \<exists>k. pin_stands L A s0 k p) \<and>
       (\<forall>pre k p. pins_prefix L A = Inr pre \<longrightarrow> starts_with (pre @ ''/'') k \<longrightarrow> pin_stands L A s0 k p \<longrightarrow> rp_environment p = e \<longrightarrow> p \<in> set ps))"
proof -
  have one: "observes (stays R ((=) s0)) (listed_pin L A (pre @ ''/'') k) (pin_stands L A s0 k)"
    if "R k" for pre k
    unfolding listed_pin_def
    by (rule observes_bind[where p = "\<lambda>_. True"])
      (use read_pin_tells[OF that] in \<open>auto intro!: observe_rules simp: split: list.splits\<close>)
  have fin: "(\<forall>p \<in> set (sort_key f (filter (\<lambda>x. wanted = None \<or> wanted = Some (rp_environment x)) pins)). \<exists>k. pin_stands L A s0 k p) \<and>
       (\<forall>k p. starts_with (pre @ ''/'') k \<longrightarrow> pin_stands L A s0 k p \<longrightarrow> rp_environment p = e \<longrightarrow>
         p \<in> set (sort_key f (filter (\<lambda>x. wanted = None \<or> wanted = Some (rp_environment x)) pins)))"
    if pre: "pins_prefix L A = Inr pre" and found: "reached R s0 (pre @ ''/'') None {} (fst ` set found)"
      and pins: "list_all2 (pin_stands L A s0) (map fst found) pins" and w: "wanted = Some e"
    for pre found pins wanted and f :: "PitrRemotePin \<Rightarrow> string \<times> string"
  proof (intro conjI allI impI)
    show "\<forall>p \<in> set (sort_key f (filter (\<lambda>x. wanted = None \<or> wanted = Some (rp_environment x)) pins)). \<exists>k. pin_stands L A s0 k p"
      using list_all2_partner[OF pins] by auto
    fix k p assume k: "starts_with (pre @ ''/'') k" "pin_stands L A s0 k p" "rp_environment p = e"
    then have "k \<in> fst ` set found"
      using found pin_keys[OF pre k(1)] by (auto simp: reached_def after_token_def pin_stands_def)
    then obtain q where "q \<in> set pins" "pin_stands L A s0 k q" using list_all2_partner[OF pins] by auto
    then show "p \<in> set (sort_key f (filter (\<lambda>x. wanted = None \<or> wanted = Some (rp_environment x)) pins))"
      using pin_stands_fixed[OF k(2)] k(3) w by auto
  qed
  have region: "R k" if "pins_prefix L A = Inr pre" "found_tells R s0 (pre @ ''/'') (fst ` set found)" "k \<in> set (map fst found)" for pre found k
    using that by (auto simp: found_tells_def intro!: pin_keys)
  show ?thesis unfolding list_pitr_pins_def
    apply (rule observes_bind[OF assert_lease_tells])
    apply (intro observe_rules)
    apply (rule observes_bind[OF list_objects_tell])
    apply (rule observes_bind[OF observes_collect[OF one]])
     apply (rule region, assumption, blast, assumption)
    apply (rule observes_return)
    apply (frule fin, blast, assumption)
     apply (auto simp: bindE_eq_Inr_iff wal_component_def split: if_splits)
    done
qed

end

end
