(* ===== verification/Pitr_Decision.thy ===== *)
theory Pitr_Decision
  imports Pitr_Retention
begin

text \<open>
  What a retention run decides to delete, and what follows for the archive: no base that is
  still advertised loses its payload or the WAL after it, pins hold their base and their WAL,
  and only what has outlived the grace period goes.
\<close>

section \<open>The decision\<close>

definition grace_cutoff :: "pitr_ctx \<Rightarrow> int \<Rightarrow> int" where
  "grace_cutoff X now = now - pc_grace_hours (px_config X) * 3600 * SECOND"

definition timed_ident :: "int \<times> PitrBaseBackupManifest \<Rightarrow> string" where
  "timed_ident = (\<lambda>(t, m). pb_ident m)"

definition timed_key :: "int \<times> PitrBaseBackupManifest \<Rightarrow> int \<times> string" where
  "timed_key = (\<lambda>(t, m). (t, pb_ident m))"

text \<open>The inventory of the bases, the newest first, each with the time of its marker.\<close>

definition base_inventory ::
  "pitr_lib \<Rightarrow> pitr_ctx \<Rightarrow> string \<Rightarrow> string \<Rightarrow> wal_adapter \<Rightarrow> (string \<Rightarrow> wal_object option) \<Rightarrow> (int \<times> PitrBaseBackupManifest) list \<Rightarrow> bool" where
  "base_inventory L X e sy A s ordered \<longleftrightarrow> distinct (map timed_ident ordered) \<and>
     (\<forall>(t, m) \<in> set ordered. \<exists>x. published L X e sy A s (pb_ident m) x m \<and> wo_modified x = Some t) \<and>
     (\<forall>i k. base_manifest_key L A i = Inr k \<longrightarrow> s k \<noteq> None \<longrightarrow> i \<in> timed_ident ` set ordered) \<and>
     sorted_wrt (\<lambda>a b. timed_key b \<le> timed_key a) ordered"

definition pin_inventory ::
  "pitr_lib \<Rightarrow> wal_adapter \<Rightarrow> (string \<Rightarrow> wal_object option) \<Rightarrow> string \<Rightarrow> PitrRemotePin list \<Rightarrow> bool" where
  "pin_inventory L A s e ps \<longleftrightarrow> (\<forall>p \<in> set ps. \<exists>k. pin_stands L A s k p) \<and>
     (\<forall>pre k p. pins_prefix L A = Inr pre \<longrightarrow> starts_with (pre @ ''/'') k \<longrightarrow> pin_stands L A s k p \<longrightarrow> rp_environment p = e \<longrightarrow> p \<in> set ps)"

definition decided ::
  "pitr_lib \<Rightarrow> pitr_ctx \<Rightarrow> string \<Rightarrow> int \<Rightarrow> string \<Rightarrow> wal_adapter \<Rightarrow> (string \<Rightarrow> bool) \<Rightarrow> (string \<Rightarrow> wal_object option) \<Rightarrow> string set \<Rightarrow> string set \<Rightarrow> bool" where
  "decided L X e now sy A R s D W \<longleftrightarrow> (\<exists>ordered pins pinned retained remote n earliest receipts expired.
     base_inventory L X e sy A s ordered \<and> pin_inventory L A s e pins \<and> inventory_tells L A R s remote \<and>
     retained_ids (pc_base_backups (px_config X)) (grace_cutoff X now) pinned pins ordered = Inr retained \<and>
     retained_graph ordered retained pins remote = Inr (n, earliest, receipts) \<and>
     expired_wal L n earliest (grace_cutoff X now) receipts = Inr expired \<and>
     D = timed_ident ` set ordered - set retained \<and> W = {k. \<exists>r \<in> set expired. wal_key L A (wr_filename r) = Inr k})"

definition retention_effect ::
  "pitr_lib \<Rightarrow> pitr_ctx \<Rightarrow> string \<Rightarrow> int \<Rightarrow> string \<Rightarrow> wal_adapter \<Rightarrow> (string \<Rightarrow> bool) \<Rightarrow> (string \<Rightarrow> wal_object option) \<Rightarrow>
   (string \<Rightarrow> wal_object option) \<Rightarrow> bool" where
  "retention_effect L X e now sy A R s0 s \<longleftrightarrow> s = s0 \<or> (\<exists>D W. decided L X e now sy A R s0 D W \<and> damage L A R s0 D W s)"

definition times_of ::
  "pitr_lib \<Rightarrow> pitr_ctx \<Rightarrow> string \<Rightarrow> string \<Rightarrow> wal_adapter \<Rightarrow> (string \<Rightarrow> wal_object option) \<Rightarrow> PitrBaseBackupManifest \<Rightarrow> int \<times> PitrBaseBackupManifest \<Rightarrow> bool" where
  "times_of L X e sy A s m tm \<longleftrightarrow> (\<exists>x. published L X e sy A s (pb_ident m) x m \<and> snd tm = m \<and> wo_modified x = Some (fst tm))"

lemma sort_down_sorted: "sorted_wrt (\<lambda>a b. f b \<le> f a) (sort_down f xs)"
proof -
  have "sorted_wrt (\<lambda>a b. f a \<le> f b) (sort_key f (rev xs))" using sorted_sort_key[of f "rev xs"] by (simp add: sorted_map)
  then show ?thesis by (simp add: sort_down_def sorted_wrt_rev)
qed

context pinned_region
begin

lemma marker_time_tells:
  assumes "published L X e sy A s0 (pb_ident m) x m"
  shows "observes (stays R ((=) s0)) (marker_time L A m) (\<lambda>tm. snd tm = m \<and> wo_modified x = Some (fst tm))"
proof -
  have x: "base_stands L A s0 (pb_ident m) y d \<Longrightarrow> y = x" for y d using assms by (auto simp: published_def base_stands_def)
  show ?thesis unfolding marker_time_def
    by (rule observes_bind[OF guard_keeps(1)[OF lease_apart, unfolded keeps_def]], rule observes_bind[OF verify_base_tells])
      (auto split: option.split intro!: observe_rules dest: x)
qed

lemma times_tell:
  assumes "\<forall>m \<in> set ms. \<exists>x. published L X e sy A s0 (pb_ident m) x m"
  shows "observes (stays R ((=) s0)) (eff_collect (marker_time L A) ms) (list_all2 (times_of L X e sy A s0) ms)"
proof (rule observes_collect)
  fix m assume "m \<in> set ms"
  then obtain x where x: "published L X e sy A s0 (pb_ident m) x m" using assms by blast
  show "observes (stays R ((=) s0)) (marker_time L A m) (times_of L X e sy A s0 m)"
    by (rule observes_mono[OF marker_time_tells[OF x]]) (use x in \<open>auto simp: times_of_def\<close>)
qed

lemma timed_inventory:
  assumes ms: "distinct (map pb_ident ms)" "\<forall>i k. base_manifest_key L A i = Inr k \<longrightarrow> s0 k \<noteq> None \<longrightarrow> i \<in> pb_ident ` set ms"
    and tms: "list_all2 (times_of L X e sy A s0) ms tms"
  shows "base_inventory L X e sy A s0 (sort_down timed_key tms)"
proof -
  have idents: "map timed_ident tms = map pb_ident ms"
    using tms by (induction rule: list_all2_induct) (auto simp: timed_ident_def times_of_def split_beta)
  then have "distinct (map timed_ident (sort_down timed_key tms))" using ms(1) by (simp add: distinct_map flip: idents)
  moreover have "timed_ident ` set tms = pb_ident ` set ms" using idents by (metis list.set_map)
  moreover have "\<exists>x. published L X e sy A s0 (pb_ident m) x m \<and> wo_modified x = Some t" if "(t, m) \<in> set tms" for t m
    using list_all2_partner[OF tms] that by (fastforce simp: times_of_def)
  ultimately show ?thesis using ms(2) sort_down_sorted[of timed_key tms] by (auto simp: base_inventory_def)
qed

lemma observe_keeps: "keeps I m \<Longrightarrow> observes I m (\<lambda>_. True)"
  by (simp add: keeps_def)

lemma verify_receipt_keeps: "keeps (stays R J) (verify_receipt L A r)"
  unfolding verify_receipt_def by (intro keep_rules calm_rules guard_keeps[OF lease_apart])

lemma eff_spec_cases3:
  "(\<And>a b c. p = (a, b, c) \<Longrightarrow> eff_spec P (f a b c) Q E) \<Longrightarrow> eff_spec P (case p of (a, b, c) \<Rightarrow> f a b c) Q E"
  by (cases p) simp

lemma graph_decided:
  assumes "distinct (map pb_ident ms)" "\<forall>i k. base_manifest_key L A i = Inr k \<longrightarrow> s0 k \<noteq> None \<longrightarrow> i \<in> pb_ident ` set ms"
    and "list_all2 (times_of L X e sy A s0) ms tms"
    and ordered: "ordered = sort_down timed_key tms"
    and "\<forall>p \<in> set pins. \<exists>k. pin_stands L A s0 k p"
    and "\<forall>pre k p. pins_prefix L A = Inr pre \<longrightarrow> starts_with (pre @ ''/'') k \<longrightarrow> pin_stands L A s0 k p \<longrightarrow> rp_environment p = e \<longrightarrow> p \<in> set pins"
    and "inventory_tells L A R s0 remote"
    and "retained_ids (pc_base_backups (px_config X)) (grace_cutoff X now) pinned pins ordered = Inr retained"
    and g: "retained_graph ordered retained pins remote = Inr g" "g = (n, earliest, receipts)"
    and "expired_wal L n earliest (grace_cutoff X now) receipts = Inr expired"
  shows "decided L X e now sy A R s0 (set (map timed_ident (filter (\<lambda>(t, m). pb_ident m \<notin> set retained) (rev ordered))))
    {k. \<exists>r \<in> set expired. wal_key L A (wr_filename r) = Inr k}"
proof -
  have "base_inventory L X e sy A s0 ordered" unfolding ordered by (rule timed_inventory) (rule assms)+
  moreover have "pin_inventory L A s0 e pins" using assms by (simp add: pin_inventory_def)
  moreover have "set (map timed_ident (filter (\<lambda>(t, m). pb_ident m \<notin> set retained) (rev ordered))) = timed_ident ` set ordered - set retained"
    by (auto simp: timed_ident_def)
  ultimately show ?thesis unfolding decided_def
    using assms by (intro exI[of _ ordered] exI[of _ pins] exI[of _ pinned] exI[of _ retained] exI[of _ remote] exI[of _ n]
      exI[of _ earliest] exI[of _ receipts] exI[of _ expired]) simp
qed

lemma locked_spec:
  assumes X: "keeps_identity X"
  shows "eff_spec (stays R ((=) s0)) (reconcile_retention_locked L X e now sy A)
    (\<lambda>_. stays R (retention_effect L X e now sy A R s0)) (\<lambda>_. stays R (retention_effect L X e now sy A R s0))"
proof -
  let ?E = "\<lambda>_::pitr_error failure. stays R (retention_effect L X e now sy A R s0)"
  have idle: "stays R ((=) s0) w \<Longrightarrow> ?E f w" for f w by (erule stays_mono) (simp add: retention_effect_def)
  have verified: "keeps (stays R ((=) s0)) (eff_each (verify_receipt L A) rs)" for rs
    by (intro keep_rules verify_receipt_keeps)
  have last_step: "eff_spec (stays R ((=) s0)) (eff_bind (delete_expired L A idents expired) (\<lambda>_. eff_return res))
      (\<lambda>_. stays R (retention_effect L X e now sy A R s0)) ?E"
    if dec: "decided L X e now sy A R s0 (set idents) {k. \<exists>r \<in> set expired. wal_key L A (wr_filename r) = Inr k}"
    for idents expired and res :: PitrRetentionResult
  proof (rule eff_spec_bind, rule eff_spec_weaken[OF delete_expired_spec[OF refl refl]])
    show "stays R (damage L A R s0 (set idents) {k. \<exists>r \<in> set expired. wal_key L A (wr_filename r) = Inr k}) w \<Longrightarrow> ?E f w" for f w
      by (erule stays_mono) (use dec in \<open>auto simp: retention_effect_def\<close>)
    then show "stays R (damage L A R s0 (set idents) {k. \<exists>r \<in> set expired. wal_key L A (wr_filename r) = Inr k}) w \<Longrightarrow>
        stays R (retention_effect L X e now sy A R s0) w" for w by blast
  qed (assumption, rule eff_spec_return, assumption)
  note decision = graph_decided[where X = X and now = now, unfolded timed_ident_def timed_key_def grace_cutoff_def]
  show ?thesis unfolding reconcile_retention_locked_def Let_def
    apply (rule eff_spec_observe[OF list_base_backups_tells[OF X] _ idle])
    apply (rule eff_spec_observe[OF observe_keeps[OF keeps_basic(5)] _ idle])
    apply (rule eff_spec_observe[OF observe_keeps[OF guard_lease_keeps] _ idle])
    apply (rule eff_spec_observe[OF list_pins_tell _ idle])
    apply (rule eff_spec_observe[OF times_tell _ idle], blast)
    apply (rule eff_spec_observe[OF observe_keeps[OF keeps_basic(6)] _ idle])
    apply (rule eff_spec_bind_lift[OF _ idle])
    apply (rule eff_spec_bind_lift[OF _ idle])
    apply (rule eff_spec_observe[OF remote_receipts_tell _ idle])
    apply (rule eff_spec_bind_lift[OF _ idle])
    apply (rule eff_spec_cases3)
    apply (rule eff_spec_observe[OF observe_keeps[OF verified] _ idle])
    apply (rule eff_spec_bind_lift[OF _ idle])
    apply (rule last_step)
    apply (elim conjE, rule decision)
              apply (assumption | rule refl)+
    done
qed

end

section \<open>What it follows from\<close>

lemma base_named_in:
  assumes "distinct (map timed_ident ordered)" "(t, m) \<in> set ordered"
  shows "base_named ordered (pb_ident m) = m"
  using assms
proof (induction ordered)
  case (Cons a ordered)
  then show ?case by (cases a) (force simp: base_named_def timed_ident_def)
qed simp

lemma one_value: "length (remdups xs) = 1 \<Longrightarrow> x \<in> set xs \<Longrightarrow> hd (remdups xs) = x"
  by (metis One_nat_def length_0_conv length_Suc_conv list.sel(1) set_ConsD set_remdups empty_iff list.set(1))

lemma retained_graphD:
  assumes "retained_graph ordered retained pins remote = Inr (n, earliest, receipts)"
  shows "\<forall>i \<in> set retained. pb_segment_size (base_named ordered i) = n \<and>
      (\<exists>q. wal_sequence (pb_end_wal (base_named ordered i)) n = Inr q \<and> earliest \<le> q)"
    and "set receipts \<subseteq> set remote" "distinct (map wr_filename remote)" "\<forall>p \<in> set pins. check_pin ordered remote p = Inr ()"
proof -
  obtain ends where ends: "mapE (\<lambda>i. let m = base_named ordered i in wal_sequence (pb_end_wal m) (pb_segment_size m)) retained = Inr ends"
    and e: "earliest = Min (set ends)" and sizes: "length (remdups (map (\<lambda>i. pb_segment_size (base_named ordered i)) retained)) = 1"
    and n: "n = hd (remdups (map (\<lambda>i. pb_segment_size (base_named ordered i)) retained))"
    and pins: "\<exists>us. mapE (check_pin ordered remote) pins = Inr us" and d: "distinct (map wr_filename remote)" and sub: "set receipts \<subseteq> set remote"
    using assms unfolding retained_graph_def Let_def bindE_eq_Inr_iff by auto
  show "set receipts \<subseteq> set remote" "distinct (map wr_filename remote)" by (rule sub, rule d)
  show "\<forall>i \<in> set retained. pb_segment_size (base_named ordered i) = n \<and>
      (\<exists>q. wal_sequence (pb_end_wal (base_named ordered i)) n = Inr q \<and> earliest \<le> q)"
  proof
    fix i assume i: "i \<in> set retained"
    then obtain j where j: "j < length retained" "retained ! j = i" by (auto simp: in_set_conv_nth)
    have size': "pb_segment_size (base_named ordered i) = n" unfolding n by (rule one_value[OF sizes, symmetric]) (use i in simp)
    have "wal_sequence (pb_end_wal (base_named ordered i)) n = Inr (ends ! j)" "j < length ends"
      using mapE_InrD[OF ends] j size' by (auto simp: Let_def)
    then show "pb_segment_size (base_named ordered i) = n \<and> (\<exists>q. wal_sequence (pb_end_wal (base_named ordered i)) n = Inr q \<and> earliest \<le> q)"
      using size' by (auto simp: e)
  qed
  show "\<forall>p \<in> set pins. check_pin ordered remote p = Inr ()"
  proof
    fix p assume "p \<in> set pins"
    then obtain j where "j < length pins" "pins ! j = p" by (auto simp: in_set_conv_nth)
    then show "check_pin ordered remote p = Inr ()" using pins by (auto dest!: mapE_InrD)
  qed
qed

lemma expired_walD:
  assumes "expired_wal L n earliest cutoff receipts = Inr expired" "r \<in> set expired"
  shows "r \<in> set receipts \<and> position n r < earliest \<and> (\<exists>t. parse_utc L (wr_archived_at r) ''archived_at'' = Inr t \<and> t < cutoff)"
proof -
  let ?f = "\<lambda>r. if position n r < earliest
         then bindE (parse_utc L (wr_archived_at r) ''archived_at'') (\<lambda>t. Inr (if t < cutoff then [r] else []))
         else Inr []"
  obtain ls where ls: "mapE ?f receipts = Inr ls" "r \<in> set (concat ls)"
    using assms by (auto simp: expired_wal_def bindE_eq_Inr_iff)
  then obtain j where j: "j < length ls" "r \<in> set (ls ! j)" by (auto simp: in_set_conv_nth) (metis in_set_conv_nth)
  then have at: "?f (receipts ! j) = Inr (ls ! j)" "receipts ! j \<in> set receipts" using mapE_InrD[OF ls(1)] by auto
  have step: "q = r \<and> position n r < earliest \<and> (\<exists>t. parse_utc L (wr_archived_at r) ''archived_at'' = Inr t \<and> t < cutoff)"
    if "?f q = Inr l" "r \<in> set l" for q l
    using that by (auto simp: bindE_eq_Inr_iff split: if_splits)
  show ?thesis using step[OF at(1) j(2)] at(2) by simp
qed

lemma base_identD:
  assumes "base_inventory L X e sy A s ordered" "keeps_identity X" "published L X e sy A s i x m"
  shows "\<exists>t. wo_modified x = Some t \<and> (t, m) \<in> set ordered \<and> timed_ident (t, m) = i \<and> base_named ordered i = m"
proof -
  have i: "pb_ident m = i" by (rule published_ident[OF assms(2,3)])
  obtain k where "base_manifest_key L A i = Inr k" "s k \<noteq> None" using assms(3) by (auto simp: published_def base_stands_def)
  then obtain t m' where tm: "(t, m') \<in> set ordered" "pb_ident m' = i" using assms(1) by (force simp: base_inventory_def timed_ident_def)
  then obtain x' where x': "published L X e sy A s (pb_ident m') x' m'" "wo_modified x' = Some t" using assms(1) by (auto simp: base_inventory_def)
  then have same: "x' = x \<and> m' = m" using published_fixed[OF assms(3), of x' m'] tm(2) by simp
  have "base_named ordered (pb_ident m') = m'" by (rule base_named_in[OF _ tm(1)]) (use assms(1) in \<open>simp add: base_inventory_def\<close>)
  then show ?thesis using tm x'(2) same i by (intro exI[of _ t]) (simp add: timed_ident_def)
qed

lemma wal_key_same: "wal_key L A f = Inr k \<Longrightarrow> wal_key L A g = Inr k \<Longrightarrow> f = g"
  by (auto simp: wal_key_iff)

lemma wal_not_base: "wal_key L A f = Inr k \<Longrightarrow> \<not> under_base L A i k"
  by (auto simp: wal_key_iff under_base_def base_prefix_iff starts_with_iff)

text \<open>What stays of a base that is not to be deleted: all of it, and the WAL from its end on.\<close>

lemma decided_keeps:
  assumes dec: "decided L X e now sy A R s0 D W" and X: "keeps_identity X" and i: "published L X e sy A s0 i x m" "i \<notin> D"
    and f: "wal_sequence (pb_end_wal m) (pb_segment_size m) = Inr a" "wal_sequence f (pb_segment_size m) = Inr b" "a \<le> b" "wal_key L A f = Inr k"
  shows "k \<notin> W"
proof
  assume k: "k \<in> W"
  obtain ordered pins pinned retained remote n earliest receipts expired where
    d: "base_inventory L X e sy A s0 ordered" "retained_graph ordered retained pins remote = Inr (n, earliest, receipts)"
      "expired_wal L n earliest (grace_cutoff X now) receipts = Inr expired" "D = timed_ident ` set ordered - set retained"
      "W = {k. \<exists>r \<in> set expired. wal_key L A (wr_filename r) = Inr k}"
    using dec unfolding decided_def by blast
  obtain t where t: "(t, m) \<in> set ordered" "timed_ident (t, m) = i" "base_named ordered i = m" using base_identD[OF d(1) X i(1)] by blast
  have "i \<in> timed_ident ` set ordered" using t(1,2) by (metis imageI)
  then have "i \<in> set retained" using i(2) d(4) by simp
  then have n: "n = pb_segment_size m" "earliest \<le> a" using retained_graphD(1)[OF d(2)] t(3) f(1) by auto
  obtain r where r: "r \<in> set expired" "wr_filename r = f" using k f(4) d(5) wal_key_same by blast
  then have "position n r < earliest" using expired_walD[OF d(3)] by blast
  then show False using r(2) f(2,3) n by (simp add: position_def)
qed

text \<open>Only what is neither among the newest, nor recent, nor pinned is to be deleted.\<close>

lemma decided_bases:
  assumes dec: "decided L X e now sy A R s0 D W" and X: "keeps_identity X" and i: "published L X e sy A s0 i x m" "i \<in> D"
  shows "\<exists>t. wo_modified x = Some t \<and> t < grace_cutoff X now \<and>
    (\<exists>newer. distinct newer \<and> length newer = nat (pc_base_backups (px_config X)) \<and>
      (\<forall>j \<in> set newer. \<exists>y m' t'. published L X e sy A s0 j y m' \<and> wo_modified y = Some t' \<and> (t, i) \<le> (t', j) \<and> j \<noteq> i))"
    and "pins_prefix L A = Inr pre \<Longrightarrow> starts_with (pre @ ''/'') k \<Longrightarrow> pin_stands L A s0 k p \<Longrightarrow> rp_environment p = e \<Longrightarrow> rp_base p \<noteq> i"
proof -
  obtain ordered pins pinned retained remote n earliest receipts expired where
    d: "base_inventory L X e sy A s0 ordered" "pin_inventory L A s0 e pins"
      "retained_ids (pc_base_backups (px_config X)) (grace_cutoff X now) pinned pins ordered = Inr retained"
      "D = timed_ident ` set ordered - set retained"
    using dec unfolding decided_def by blast
  let ?N = "nat (pc_base_backups (px_config X))" and ?known = "map timed_ident ordered"
  have retained: "set retained = set (take ?N ?known) \<union> set pinned \<union> rp_base ` set pins \<union>
      {i. \<exists>t m. (t, m) \<in> set ordered \<and> grace_cutoff X now \<le> t \<and> i = pb_ident m}"
    using d(3) by (simp add: retained_ids_def Let_def bindE_eq_Inr_iff timed_ident_def) (elim conjE, hypsubst, force)
  obtain t where t: "wo_modified x = Some t" "(t, m) \<in> set ordered" "timed_ident (t, m) = i" using base_identD[OF d(1) X i(1)] by blast
  obtain j where j: "j < length ordered" "ordered ! j = (t, m)" using t(2) by (auto simp: in_set_conv_nth)
  have dist: "distinct ?known" and sorted: "sorted_wrt (\<lambda>a b. timed_key b \<le> timed_key a) ordered"
    using d(1) by (simp_all add: base_inventory_def)
  have out: "i \<notin> set (take ?N ?known)" "t < grace_cutoff X now" "i \<notin> rp_base ` set pins"
  proof -
    have "i \<notin> set retained" "i = pb_ident m" using i(2) d(4) t(3) by (auto simp: timed_ident_def)
    then show "i \<notin> set (take ?N ?known)" "t < grace_cutoff X now" "i \<notin> rp_base ` set pins"
      using retained t(2) not_less[of t] by blast+
  qed
  have N: "?N \<le> j"
  proof (rule ccontr)
    assume "\<not> ?N \<le> j"
    then have "i \<in> set (take ?N ?known)" using j t(3) by (auto simp: in_set_conv_nth intro!: exI[of _ j])
    then show False using out(1) by simp
  qed
  have newer: "\<exists>y m' t'. published L X e sy A s0 g y m' \<and> wo_modified y = Some t' \<and> (t, i) \<le> (t', g) \<and> g \<noteq> i"
    if member: "g \<in> set (take ?N ?known)" for g
  proof -
    obtain l where "l < length (take ?N ?known)" "take ?N ?known ! l = g" using member by (meson in_set_conv_nth)
    then have l: "l < ?N" "l < length ordered" "timed_ident (ordered ! l) = g" by simp_all
    obtain t' m' where tm: "ordered ! l = (t', m')" by force
    then have "(t', m') \<in> set ordered" using l(2) by (metis nth_mem)
    then obtain y where y: "published L X e sy A s0 (pb_ident m') y m'" "wo_modified y = Some t'" using d(1) by (auto simp: base_inventory_def)
    have "timed_key (ordered ! j) \<le> timed_key (ordered ! l)" using sorted_wrt_nth_less[OF sorted, of l j] l(1) N j(1) by simp
    moreover have g: "pb_ident m' = g" "pb_ident m = i" using l(3) tm t(3) by (simp_all add: timed_ident_def)
    ultimately have "(t, i) \<le> (t', g)" unfolding j(2) tm by (simp add: timed_key_def del: less_eq_prod_simp)
    moreover have "g \<noteq> i" using out(1) member by blast
    ultimately show ?thesis using y unfolding g(1) by blast
  qed
  show "\<exists>t. wo_modified x = Some t \<and> t < grace_cutoff X now \<and>
    (\<exists>newer. distinct newer \<and> length newer = ?N \<and>
      (\<forall>j \<in> set newer. \<exists>y m' t'. published L X e sy A s0 j y m' \<and> wo_modified y = Some t' \<and> (t, i) \<le> (t', j) \<and> j \<noteq> i))"
    using t(1) out(2) newer dist N j(1) by (intro exI[of _ t] conjI exI[of _ "take ?N ?known"]) auto
  show "rp_base p \<noteq> i" if "pins_prefix L A = Inr pre" "starts_with (pre @ ''/'') k" "pin_stands L A s0 k p" "rp_environment p = e"
    using that d(2) out(3) by (auto simp: pin_inventory_def)
qed

lemma decided_wal:
  assumes dec: "decided L X e now sy A R s0 D W" and k: "k \<in> W" "R k"
  shows "\<exists>f x t t'. wal_key L A f = Inr k \<and> is_wal_segment f \<and> s0 k = Some x \<and> wo_modified x = Some t \<and>
    parse_utc L (stamp L (pitr_timestamp L t)) ''archived_at'' = Inr t' \<and> t' < grace_cutoff X now"
proof -
  obtain ordered pins pinned retained remote n earliest receipts expired where
    d: "inventory_tells L A R s0 remote" "retained_graph ordered retained pins remote = Inr (n, earliest, receipts)"
      "expired_wal L n earliest (grace_cutoff X now) receipts = Inr expired" 
      "W = {k. \<exists>r \<in> set expired. wal_key L A (wr_filename r) = Inr k}"
    using dec unfolding decided_def by blast
  obtain r where r: "r \<in> set expired" "wal_key L A (wr_filename r) = Inr k" using k d(4) by blast
  from expired_walD[OF d(3) r(1)] obtain t' where t': "r \<in> set receipts" "parse_utc L (wr_archived_at r) ''archived_at'' = Inr t'" "t' < grace_cutoff X now"
    by blast
  then have "r \<in> set remote" using retained_graphD(2)[OF d(2)] by blast
  then show ?thesis using d(1) r(2) k(2) t' by (fastforce simp: inventory_tells_def receipt_of_def segment_receipt_def)
qed

end
