(* ===== verification/Pitr_Safety.thy ===== *)
theory Pitr_Safety
  imports Pitr_Decision
begin

text \<open>
  What a retention run leaves of the archive, as facts about the bucket before and after it:
  the bases whose marker is still there and the WAL after them, the pins, and the reasons for
  what is gone.  \<open>archive_region\<close> is what the other hosts are expected to leave alone while the
  run holds the lease; they may still archive new WAL.
\<close>

section \<open>From the decision to the bucket\<close>

lemma published_same:
  assumes "published L X e sy A s0 i x m" "\<And>k. under_base L A i k \<Longrightarrow> s k = s0 k"
  shows "published L X e sy A s i x m"
proof -
  have "base_manifest_key L A i = Inr k \<Longrightarrow> under_base L A i k" for k
    by (auto simp: under_base_def base_manifest_key_iff starts_with_iff)
  moreover have "base_object_key L A i p = Inr k \<Longrightarrow> under_base L A i k" for p k
    by (auto simp: under_base_def base_object_key_iff starts_with_iff)
  ultimately show ?thesis using assms unfolding published_def base_stands_def by fastforce
qed

lemma under_base_apart: "under_base L A i k \<Longrightarrow> under_base L A j k \<Longrightarrow> i = j"
  unfolding under_base_def using base_prefix_apart by blast

lemma decided_W: "decided L X e now sy A R s0 D W \<Longrightarrow> k \<in> W \<Longrightarrow> \<exists>f. wal_key L A f = Inr k"
  unfolding decided_def by blast

lemma marker_under: "base_manifest_key L A i = Inr k \<Longrightarrow> under_base L A i k"
  by (auto simp: under_base_def base_manifest_key_iff starts_with_iff)

lemma gap_none: "gap_after ns = None \<Longrightarrow> n \<in> set ns \<Longrightarrow> hd ns \<le> n"
  by (induction ns rule: gap_after.induct) (auto split: if_splits)

text \<open>The WAL a checked pin names starts at the end of its base.\<close>

lemma check_pinD:
  assumes "check_pin ordered remote p = Inr ()" "g \<in> set (rp_segments p)"
  shows "\<exists>a b. wal_sequence (pb_end_wal (base_named ordered (rp_base p))) (pb_segment_size (base_named ordered (rp_base p))) = Inr a \<and>
    wal_sequence (pn_filename g) (pb_segment_size (base_named ordered (rp_base p))) = Inr b \<and> a \<le> b"
proof -
  let ?m = "base_named ordered (rp_base p)"
  let ?missing = "Inl (pitr_failure ((''Remote PITR pin '' @ quoted (rp_ident p)) @ '' references missing or changed WAL''))"
  let ?F = "\<lambda>s. case List.find (\<lambda>r. wr_filename r = pn_filename s) remote of
      Some r \<Rightarrow> if wr_sha r = pn_sha s \<and> wr_size r = pn_size s then Inr r else ?missing | None \<Rightarrow> ?missing"
  obtain receipts sequences where found: "mapE ?F (rp_segments p) = Inr receipts"
    and h: "wr_filename (hd receipts) = pb_end_wal ?m"
    and seqs: "mapE (\<lambda>r. wal_sequence (wr_filename r) (pb_segment_size ?m)) receipts = Inr sequences"
    and gap: "gap_after sequences = None"
    using assms(1) unfolding check_pin_def Let_def by (auto simp: bindE_eq_Inr_iff)
  have named: "?F s = Inr r \<Longrightarrow> wr_filename r = pn_filename s" for s r
    by (auto split: option.splits if_splits dest: find_SomeD)
  obtain j where j: "j < length (rp_segments p)" "rp_segments p ! j = g" using assms(2) by (auto simp: in_set_conv_nth)
  have len: "length receipts = length (rp_segments p)" "length sequences = length (rp_segments p)"
    using mapE_InrD[OF found] mapE_InrD[OF seqs] by simp_all
  have name: "wr_filename (receipts ! j) = pn_filename g"
  proof (rule named)
    show "?F g = Inr (receipts ! j)" using mapE_InrD[OF found] j by blast
  qed
  have seq: "wal_sequence (wr_filename (receipts ! i)) (pb_segment_size ?m) = Inr (sequences ! i)" if "i < length receipts" for i
    using mapE_InrD[OF seqs] that by simp
  have "receipts \<noteq> []" "sequences \<noteq> []" using len j(1) by auto
  then have "wal_sequence (pb_end_wal ?m) (pb_segment_size ?m) = Inr (hd sequences)"
    using seq[of 0] h by (simp add: hd_conv_nth)
  moreover have "hd sequences \<le> sequences ! j" by (rule gap_none[OF gap]) (use len j(1) in simp)
  ultimately show ?thesis using seq[of j] name len j(1) by auto
qed

context pinned_region
begin

lemma effect_cases:
  assumes "retention_effect L X e now sy A R s0 s" "R k"
  obtains "s k = s0 k"
  | D W i where "decided L X e now sy A R s0 D W" "i \<in> D" "under_base L A i k" "marker_gone L A s i"
  | D W where "decided L X e now sy A R s0 D W" "k \<in> W" "\<forall>i \<in> D. marker_gone L A s i"
  using assms unfolding retention_effect_def damage_def by blast

lemma base_region: "under_base L A i k \<Longrightarrow> R k"
  by (auto simp: under_base_def intro: base_keys)

lemma effect_base:
  assumes eff: "retention_effect L X e now sy A R s0 s" and i: "published L X e sy A s0 i x m" "base_manifest_key L A i = Inr mk"
    and there: "s mk \<noteq> None"
  shows "published L X e sy A s i x m"
proof (rule published_same[OF i(1)])
  fix k assume k: "under_base L A i k"
  have stands: "\<not> marker_gone L A s i" using i(2) there by (auto simp: marker_gone_def)
  show "s k = s0 k"
  proof (rule effect_cases[OF eff base_region[OF k]])
    fix D W assume d: "decided L X e now sy A R s0 D W" "k \<in> W"
    show "s k = s0 k" using decided_W[OF d] wal_not_base k by blast
  next
    fix D W j assume "under_base L A j k" "marker_gone L A s j"
    then show "s k = s0 k" using stands under_base_apart[OF _ k] by blast
  qed
qed

lemma effect_wal:
  assumes eff: "retention_effect L X e now sy A R s0 s" and X: "keeps_identity X"
    and i: "published L X e sy A s0 i x m" "base_manifest_key L A i = Inr mk" and there: "s mk \<noteq> None"
    and f: "wal_sequence (pb_end_wal m) (pb_segment_size m) = Inr a" "wal_sequence f (pb_segment_size m) = Inr b" "a \<le> b"
      "wal_key L A f = Inr k" and k: "R k"
  shows "s k = s0 k"
proof -
  have stands: "\<not> marker_gone L A s i" using i(2) there by (auto simp: marker_gone_def)
  show ?thesis
  proof (rule effect_cases[OF eff k])
    fix D W assume d: "decided L X e now sy A R s0 D W" "k \<in> W" "\<forall>i \<in> D. marker_gone L A s i"
    have "i \<notin> D" using d(3) stands by blast
    then show "s k = s0 k" using decided_keeps[OF d(1) X i(1) _ f] d(2) by blast
  qed (use f(4) wal_not_base in blast)+
qed

lemma effect_lost_base:
  assumes eff: "retention_effect L X e now sy A R s0 s" and i: "published L X e sy A s0 i x m" "base_manifest_key L A i = Inr mk"
    and gone: "s mk = None"
  obtains D W where "decided L X e now sy A R s0 D W" "i \<in> D"
proof -
  have changed: "s mk \<noteq> s0 mk" using gone i by (auto simp: published_def base_stands_def)
  show thesis
  proof (rule effect_cases[OF eff base_region[OF marker_under[OF i(2)]]])
    fix D W j assume d: "decided L X e now sy A R s0 D W" "j \<in> D" "under_base L A j mk"
    show thesis by (rule that[OF d(1)]) (use d(2) under_base_apart[OF d(3) marker_under[OF i(2)]] in simp)
  next
    fix D W assume d: "decided L X e now sy A R s0 D W" "mk \<in> W"
    show thesis using decided_W[OF d] wal_not_base marker_under[OF i(2)] by blast
  qed (use changed in simp)
qed

lemma decided_pin:
  assumes dec: "decided L X e now sy A R s0 D W" and X: "keeps_identity X"
    and p: "pins_prefix L A = Inr pre" "starts_with (pre @ ''/'') pk" "pin_stands L A s0 pk p" "rp_environment p = e"
    and i: "published L X e sy A s0 (rp_base p) x m" and g: "g \<in> set (rp_segments p)"
  shows "\<exists>a b. wal_sequence (pb_end_wal m) (pb_segment_size m) = Inr a \<and> wal_sequence (pn_filename g) (pb_segment_size m) = Inr b \<and> a \<le> b"
proof -
  obtain ordered pins pinned retained remote n earliest receipts where
    o: "base_inventory L X e sy A s0 ordered" "pin_inventory L A s0 e pins" "retained_graph ordered retained pins remote = Inr (n, earliest, receipts)"
    using dec unfolding decided_def by blast
  have base: "base_named ordered (rp_base p) = m" using base_identD[OF o(1) X i] by blast
  have "p \<in> set pins" using o(2) p unfolding pin_inventory_def by blast
  from bspec[OF retained_graphD(4)[OF o(3)] this] show ?thesis by (rule check_pinD[of ordered remote p g, OF _ g, unfolded base])
qed

lemma effect_pin:
  assumes eff: "retention_effect L X e now sy A R s0 s" and X: "keeps_identity X"
    and p: "pins_prefix L A = Inr pre" "starts_with (pre @ ''/'') pk" "pin_stands L A s0 pk p" "rp_environment p = e"
    and i: "published L X e sy A s0 (rp_base p) x m"
  shows "published L X e sy A s (rp_base p) x m"
    and "g \<in> set (rp_segments p) \<Longrightarrow> wal_key L A (pn_filename g) = Inr k \<Longrightarrow> R k \<Longrightarrow> s k = s0 k"
proof -
  obtain mk where mk: "base_manifest_key L A (rp_base p) = Inr mk" using i by (auto simp: published_def base_stands_def)
  have there: "s mk \<noteq> None"
  proof
    assume "s mk = None"
    then obtain D W where d: "decided L X e now sy A R s0 D W" "rp_base p \<in> D" by (rule effect_lost_base[OF eff i mk])
    show False using decided_bases(2)[OF d(1) X i d(2) p] by simp
  qed
  show "published L X e sy A s (rp_base p) x m" by (rule effect_base[OF eff i mk there])
  assume g: "g \<in> set (rp_segments p)" "wal_key L A (pn_filename g) = Inr k" "R k"
  show "s k = s0 k"
  proof (rule effect_cases[OF eff g(3)])
    fix D W assume d: "decided L X e now sy A R s0 D W" "k \<in> W" "\<forall>i \<in> D. marker_gone L A s i"
    obtain a b where ab: "wal_sequence (pb_end_wal m) (pb_segment_size m) = Inr a"
        "wal_sequence (pn_filename g) (pb_segment_size m) = Inr b" "a \<le> b"
      using decided_pin[OF d(1) X p i g(1)] by blast
    show "s k = s0 k" by (rule effect_wal[OF eff X i mk there ab g(2,3)])
  qed (use wal_not_base[OF g(2)] in blast)+
qed

lemma effect_lost_wal:
  assumes eff: "retention_effect L X e now sy A R s0 s" and f: "wal_key L A f = Inr k" "R k" and changed: "s k \<noteq> s0 k"
  shows "is_wal_segment f \<and> s0 k \<noteq> None \<and> (\<exists>x t t'. s0 k = Some x \<and> wo_modified x = Some t \<and>
    parse_utc L (stamp L (pitr_timestamp L t)) ''archived_at'' = Inr t' \<and> t' < grace_cutoff X now)"
proof (rule effect_cases[OF eff f(2)])
  fix D W assume d: "decided L X e now sy A R s0 D W" "k \<in> W"
  from decided_wal[OF d f(2)] show ?thesis using wal_key_same[OF f(1)] by blast
qed (use changed wal_not_base[OF f(1)] in blast)+

end

section \<open>The region of an archive\<close>

text \<open>The bases, the pins, and the WAL that is in the bucket \<open>b\<close>.\<close>

definition archive_region :: "pitr_lib \<Rightarrow> wal_adapter \<Rightarrow> (string, wal_object) dict \<Rightarrow> string \<Rightarrow> bool" where
  "archive_region L A b k \<longleftrightarrow> (\<exists>i. under_base L A i k) \<or> (\<exists>p. pins_prefix L A = Inr p \<and> starts_with (p @ ''/'') k) \<or>
     (\<exists>f. wal_key L A f = Inr k \<and> dict_get b k \<noteq> None)"

interpretation archive: pinned_region L A "archive_region L A b" for L A b
proof
  show "base_prefix L A i = Inr p \<Longrightarrow> starts_with (p @ ''/'') k \<Longrightarrow> archive_region L A b k" for i p k
    by (auto simp: archive_region_def under_base_def)
  show "pins_prefix L A = Inr p \<Longrightarrow> starts_with (p @ ''/'') k \<Longrightarrow> archive_region L A b k" for p k
    by (auto simp: archive_region_def)
  show "apart_from_lease L A (archive_region L A b)"
    by (auto simp: apart_from_lease_def archive_region_def under_base_def base_prefix_iff below_scope_iff coordination_lease_key_def
        pins_prefix_def wal_key_iff starts_with_iff)
qed

lemma published_seen:
  "published L X e sy A (seen (archive_region L A b) w) i x m \<longleftrightarrow> published L X e sy A (dict_get (pw_bucket w)) i x m"
proof -
  have "seen (archive_region L A b) w k = dict_get (pw_bucket w) k" if "under_base L A i k" for k
    using archive.base_region[OF that] by (simp add: seen_def)
  then show ?thesis using published_same by metis
qed

lemma pin_seen:
  assumes "pins_prefix L A = Inr pre" "starts_with (pre @ ''/'') k"
  shows "pin_stands L A (seen (archive_region L A b) w) k p \<longleftrightarrow> pin_stands L A (dict_get (pw_bucket w)) k p"
  using archive.pin_keys[OF assms] by (simp add: pin_stands_def seen_def)

lemma wal_seen:
  "wal_key L A f = Inr k \<Longrightarrow> dict_get b k \<noteq> None \<Longrightarrow> archive_region L A b k"
  by (auto simp: archive_region_def)

section \<open>The whole run\<close>

lemma resolve_read: "resolve_adapter L X e w = (r, w') \<Longrightarrow> w' = w"
  by (auto simp: resolve_adapter_def eff_bind_def eff_read_def eff_lift_def eff_return_def eff_raise_def split: sum.splits prod.splits)

text \<open>\<open>now\<close> is this host's clock when the run starts.\<close>

lemma retention_run:
  assumes run: "reconcile_retention L X e w = (r, w')" and A: "fst (resolve_adapter L X e w) = Inr (sy, A)"
    and calm: "calm (archive_region L A (pw_bucket w)) w" and X: "keeps_identity X"
  shows "retention_effect L X e (pw_clock w + pw_skew w) sy A (archive_region L A (pw_bucket w))
    (seen (archive_region L A (pw_bucket w)) w) (seen (archive_region L A (pw_bucket w)) w')"
proof -
  let ?R = "archive_region L A (pw_bucket w)" and ?now = "pw_clock w + pw_skew w"
  let ?E = "retention_effect L X e ?now sy A ?R (seen ?R w)"
  let ?guarded = "\<lambda>token. with_guard L A ''pitr-retention'' (''retention-'' @ e @ ''-'' @ token) (reconcile_retention_locked L X e ?now sy A)"
  have start: "stays ?R ((=) (seen ?R w)) w" using calm by (simp add: stays_def)
  have none: "?E (seen ?R w)" by (simp add: retention_effect_def)
  have guarded: "eff_spec (stays ?R ((=) (seen ?R w))) (?guarded token) (\<lambda>_. stays ?R ?E) (\<lambda>_. stays ?R ?E)" for token
    by (rule with_guard_spec[OF archive.lease_apart archive.locked_spec[OF X]]) (auto simp: retention_effect_def)
  have after: "eff_spec (stays ?R ((=) (seen ?R w))) (eff_bind (random_text L) ?guarded) (\<lambda>_. stays ?R ?E) (\<lambda>_. stays ?R ?E)"
    by (rule eff_spec_observe[OF random_keeps(1)[unfolded keeps_def] guarded]) (auto intro: stays_mono simp: retention_effect_def)
  obtain v where v: "resolve_adapter L X e w = (Inr (sy, A), w)" using A resolve_read by (metis prod.collapse)
  show ?thesis
  proof (cases "pitr_config X e")
    case (Inl f)
    then have "w' = w" using run by (simp add: reconcile_retention_def eff_lift_def eff_bind_def eff_raise_def)
    then show ?thesis using none by simp
  next
    case (Inr c)
    then have "(r, w') = eff_bind (random_text L) ?guarded w"
      using run v by (simp add: reconcile_retention_def local_now_def eff_lift_def eff_bind_def eff_return_def eff_read_def)
    then show ?thesis using after start by (auto simp: eff_spec_def stays_def split: sum.splits)
  qed
qed

end
