(* ===== verification/Pitr_Demo.thy ===== *)
theory Pitr_Demo
  imports Pitr_Safety
begin

text \<open>
  A small archive: project \<open>shop\<close>, one base backup \<open>b1\<close> of one file, for the examples of the
  properties.
\<close>

definition demo_digest :: string where "demo_digest = replicate 64 (CHR ''a'')"

definition demo_pitr_lib :: pitr_lib where
  "demo_pitr_lib = \<lparr>pl_sha = (\<lambda>_. demo_digest), pl_etag = (\<lambda>_. ''e''), pl_instant = (\<lambda>_. Some (Some 0)), pl_isoformat = (\<lambda>_. ''t''),
     pl_micros = (\<lambda>_. ''0''), pl_report = (\<lambda>_. []), pl_token = (\<lambda>_. ''k''), pl_uuid = (\<lambda>_. replicate 32 (CHR ''a'')), pl_page = 1, pl_compact = (\<lambda>_. ''c'')\<rparr>"

definition demo_base :: PitrBaseBackupManifest where
  "demo_base = \<lparr>pb_ident = ''b1'', pb_project = ''shop'', pb_environment = ''prod'', pb_cluster = ''c1'', pb_system = ''7'',
     pb_major = 16, pb_image = ''p@sha256:'' @ demo_digest, pb_timeline = 1, pb_segment_size = 16 * 1024 * 1024,
     pb_started_at = ''t'', pb_completed_at = Some ''t'', pb_start_lsn = ''0/05000000'', pb_end_lsn = ''0/06000000'',
     pb_start_wal = ''000000010000000000000005'', pb_end_wal = ''000000010000000000000006'', pb_artifacts = [''f''],
     pb_checksums = [(''f'', demo_digest)], pb_sizes = [(''f'', 1)], pb_uri = Some ''s3://w/k'', pb_status = BASE_COMPLETE,
     pb_verified_at = Some ''t'', pb_last_error = None\<rparr>"

definition demo_document :: "(string, json) dict" where
  "demo_document = [(''base_backup_id'', JStr ''b1''), (''project'', JStr ''shop''), (''cluster_id'', JStr ''c1''),
     (''system_identifier'', JStr ''7''), (''environment'', JStr ''prod''), (''status'', JStr ''complete''),
     (''checksums'', JObj [(''f'', JStr demo_digest)]), (''artifacts'', JList [JStr ''f''])]"

lemma demo_valid_base: "validate_base demo_pitr_lib demo_base = Inr demo_base"
proof -
  have "base_complaints demo_pitr_lib demo_base = []" "normalized_base demo_pitr_lib demo_base = demo_base" by code_simp+
  moreover have "hex_number ''00000001'' = 1" by (simp add: hex_number_def hex_val_def lower_char_def)
  then have "base_complaint demo_pitr_lib demo_base = None"
    by (simp add: base_complaint_def demo_base_def demo_pitr_lib_def aware_instant_def instant_of_def)
  ultimately show ?thesis by (simp add: validate_base_def report_fields_def)
qed

lemma decode_ascii: "list_all (\<lambda>c. of_char c < (128::nat)) s \<Longrightarrow> utf8_decode s = Some s"
  by (induction s rule: utf8_decode.induct) (simp_all add: Let_def)

lemma demo_load: "load_document (dumps_with compact_layout (JObj demo_document)) = Some (JObj demo_document)"
proof -
  have "wf_layout compact_layout" by (simp add: wf_layout_def compact_layout_def)
  moreover have "wf_json (JObj demo_document)" by (simp add: demo_document_def)
  moreover have "list_all (\<lambda>c. of_char c < (128::nat)) (dumps_with compact_layout (JObj demo_document))" by code_simp
  ultimately show ?thesis by (simp add: load_document_def decode_ascii loads_dumps)
qed

definition demo_object :: "string \<Rightarrow> int \<Rightarrow> wal_object" where
  "demo_object b t = \<lparr>wo_body = b, wo_metadata = Some demo_digest, wo_etag = Some ''e'', wo_modified = Some t\<rparr>"

definition demo_pitr_ctx :: pitr_ctx where
  "demo_pitr_ctx = \<lparr>px_config = \<lparr>pc_enabled = True, pc_environment = ''prod'', pc_cluster = Some ''c1'', pc_system = Some ''7'',
       pc_bucket = Some ''w'', pc_prefix = None, pc_image = None, pc_policy = Some ''database_only'', pc_base_backups = 1,
       pc_grace_hours = 1\<rparr>,
     px_project = ''shop'', px_root = ''/srv'', px_config_path = ''/srv/o'', px_environments = [(''prod'', ''db'')],
     px_client = Inr (), px_sse = Inr (), px_secrets = [], px_detail = (\<lambda>_. []), px_inspect = Inl (pitr_failure []),
     px_backup = (\<lambda>_. Inl (pitr_failure [])),
     px_typed_base = (\<lambda>d. if dict_get d ''base_backup_id'' = Some (JStr ''b1'') then Inr demo_base else Inl []), px_base_text = (\<lambda>_. [])\<rparr>"

definition demo_scope :: string where
  "demo_scope = ''projects/shop-aaaaaaaaaaaaaaaaaaaaaaaa/clusters/c1/7''"

definition demo_adapter :: wal_adapter where
  "demo_adapter = \<lparr>wa_bucket = ''w'', wa_prefix = None, wa_project = ''shop'', wa_cluster = ''c1'', wa_system = ''7'', wa_client = Inr (),
     wa_sse = Inr (), wa_secrets = [], wa_detail = (\<lambda>_. [])\<rparr>"

definition demo_pin_text :: string where
  "demo_pin_text = pin_payload demo_adapter ''plan'' ''p1'' ''prod'' ''b1''
     [\<lparr>pn_filename = ''000000010000000000000006'', pn_sha = demo_digest, pn_size = 1\<rparr>]"

definition demo_pin :: PitrRemotePin where
  "demo_pin = \<lparr>rp_kind = ''plan'', rp_ident = ''p1'', rp_environment = ''prod'', rp_base = ''b1'',
     rp_segments = [\<lparr>pn_filename = ''000000010000000000000006'', pn_sha = demo_digest, pn_size = 1\<rparr>],
     rp_key = demo_scope @ ''/pins/plan/p1.json'', rp_etag = ''e'', rp_sha = demo_digest, rp_modified = 0\<rparr>"

text \<open>One base with the segment after it, and the pin of a plan on both.\<close>

definition demo_archive :: pitr_world where
  "demo_archive = \<lparr>pw_bucket = [(demo_scope @ ''/bases/b1/manifest.json'', demo_object (dumps_with compact_layout (JObj demo_document)) 0),
       (demo_scope @ ''/bases/b1/f'', demo_object ''x'' 0),
       (demo_scope @ ''/wal/000000010000000000000006'', demo_object ''y'' 0),
       (demo_scope @ ''/pins/plan/p1.json'', demo_object demo_pin_text 0)],
     pw_clock = 9 * 3600 * SECOND, pw_skew = 0, pw_tick = 0, pw_calls = [], pw_bases = [], pw_receipts = [], pw_plans = [],
     pw_restores = [], pw_guard = None\<rparr>"

lemma demo_configured: "pitr_config demo_pitr_ctx ''prod'' = Inr (px_config demo_pitr_ctx)"
  by (simp add: pitr_config_def config_env_def demo_pitr_ctx_def dict_get_def)

lemma demo_settings: "px_project demo_pitr_ctx = ''shop''" "pc_cluster (px_config demo_pitr_ctx) = Some ''c1''"
  "pc_system (px_config demo_pitr_ctx) = Some ''7''" "pc_bucket (px_config demo_pitr_ctx) = Some ''w''"
  "pc_prefix (px_config demo_pitr_ctx) = None" "px_client demo_pitr_ctx = Inr ()" "px_sse demo_pitr_ctx = Inr ()"
  "px_secrets demo_pitr_ctx = []" "px_detail demo_pitr_ctx = (\<lambda>_. [])"
  by (simp_all add: demo_pitr_ctx_def)

lemma demo_resolved: "fst (resolve_adapter demo_pitr_lib demo_pitr_ctx ''prod'' demo_archive) = Inr (''7'', demo_adapter)"
proof -
  have "wal_project ''shop'' = Inr ''shop''" "wal_component ''c1'' ''cluster_id'' = Inr ''c1''" "wal_system_identifier ''7'' = Inr ''7''"
    by code_simp+
  then show ?thesis
    by (simp add: resolve_adapter_def eff_bind_def eff_read_def eff_lift_def eff_return_def resolve_system_identifier_def demo_configured
        make_wal_adapter_def make_wal_s3_def demo_adapter_def demo_settings)
qed

lemma demo_scoped: "scope_prefix demo_pitr_lib demo_adapter = Inr demo_scope"
  by code_simp

lemma demo_calm: "calm R demo_archive"
  by (simp add: calm_def demo_archive_def)

lemma demo_identity: "keeps_identity demo_pitr_ctx"
  by (auto simp: keeps_identity_def demo_pitr_ctx_def demo_base_def split: if_splits)

lemma demo_parsed: "parse_base_manifest demo_adapter (dumps_with compact_layout (JObj demo_document)) ''b1'' =
    Inr \<lparr>bd_raw = demo_document, bd_environment = ''prod'', bd_artifacts = [\<lparr>ae_path = ''f'', ae_sha = demo_digest, ae_size = None\<rparr>]\<rparr>"
proof -
  have "manifest_artifacts demo_document = Inr [\<lparr>ae_path = ''f'', ae_sha = demo_digest, ae_size = None\<rparr>]" by code_simp
  moreover have "py_strip ''prod'' = ''prod''" "text_field demo_document ''system_identifier'' = ''7''" by code_simp+
  ultimately show ?thesis
    by (simp add: parse_base_manifest_def demo_load Let_def) (simp add: demo_document_def dict_get_def not_null_def demo_adapter_def)
qed

lemma demo_owned_base: "validate_manifest_ownership demo_pitr_lib demo_pitr_ctx ''prod'' ''7'' demo_document = Inr demo_base"
proof -
  have "px_typed_base demo_pitr_ctx demo_document = Inr demo_base" by code_simp
  then show ?thesis by (simp add: validate_manifest_ownership_def built_def demo_valid_base demo_configured)
    (simp add: demo_base_def demo_pitr_ctx_def)
qed

lemma demo_published:
  "published demo_pitr_lib demo_pitr_ctx ''prod'' ''7'' demo_adapter (dict_get (pw_bucket demo_archive)) ''b1''
     (demo_object (dumps_with compact_layout (JObj demo_document)) 0) demo_base"
proof -
  have keys: "base_manifest_key demo_pitr_lib demo_adapter ''b1'' = Inr (demo_scope @ ''/bases/b1/manifest.json'')"
    "base_object_key demo_pitr_lib demo_adapter ''b1'' ''f'' = Inr (demo_scope @ ''/bases/b1/f'')" by code_simp+
  have "py_lower demo_digest = demo_digest" by code_simp
  then show ?thesis unfolding published_def base_stands_def
    using keys demo_parsed demo_owned_base by (simp add: demo_archive_def demo_object_def demo_pitr_lib_def demo_scope_def dict_get_def)
qed

lemma demo_pinned:
  "pin_stands demo_pitr_lib demo_adapter (dict_get (pw_bucket demo_archive)) (demo_scope @ ''/pins/plan/p1.json'') demo_pin"
proof -
  let ?i = "\<lparr>wi_key = demo_scope @ ''/pins/plan/p1.json'', wi_size = int (length demo_pin_text), wi_sha = demo_digest, wi_etag = Some ''e'', wi_modified = Some 0\<rparr>"
  have "py_lower demo_digest = demo_digest" "is_sha256 demo_digest" by code_simp+
  then have "head_info (demo_scope @ ''/pins/plan/p1.json'') (demo_object demo_pin_text 0) = Inr ?i"
    by (simp add: head_info_def metadata_digest_def demo_object_def)
  moreover have "pin_from_payload demo_pitr_lib demo_adapter \<lparr>ch_info = Some ?i, ch_time = 0\<rparr> demo_pin_text (demo_scope @ ''/pins/plan/p1.json'') = Inr demo_pin"
  proof -
    let ?d = "pin_document demo_adapter ''plan'' ''p1'' ''prod'' ''b1'' (rp_segments demo_pin)"
    let ?item = "JObj [(''filename'', JStr ''000000010000000000000006''), (''sha256'', JStr demo_digest), (''size'', JInt 1)]"
    have payload: "demo_pin_text = pin_payload demo_adapter ''plan'' ''p1'' ''prod'' ''b1'' (rp_segments demo_pin)"
      by (simp add: demo_pin_text_def demo_pin_def)
    have "load_document demo_pin_text = Some (JObj ?d)" by code_simp
    then have "strict_json_object demo_pin_text l c = Inr ?d" for l c
      by (simp add: strict_json_object_def payload pin_payload_def)
    moreover have "fst ` set ?d = {''base_backup_id'', ''cluster_id'', ''environment'', ''first_wal'', ''kind'', ''last_wal'', ''pin_id'',
            ''project'', ''schema_version'', ''system_identifier'', ''type'', ''wal_count'', ''wal_segments''}"
      by (simp add: pin_document_def)
    moreover have "in_scope demo_adapter ?d ''odooctl-pitr-retention-pin''" by code_simp
    moreover have "recast_names (pin_names ?d) = Inr (''plan'', ''p1'', ''prod'', ''b1'')" by code_simp
    moreover have "pin_key demo_pitr_lib demo_adapter ''plan'' ''p1'' = Inr (demo_scope @ ''/pins/plan/p1.json'')" by code_simp
    moreover have "dict_get ?d ''wal_segments'' = Some (JList [?item])" "dict_get ?d ''wal_count'' = Some (JInt 1)"
      "dict_get ?d ''first_wal'' = Some (JStr ''000000010000000000000006'')" "dict_get ?d ''last_wal'' = Some (JStr ''000000010000000000000006'')"
      by (simp_all add: pin_document_def demo_pin_def dict_get_def)
    moreover have "bindE (mapE raw_pinned_entry [?item]) validated_pinned_wal = Inr (rp_segments demo_pin)" by code_simp
    then obtain items where "mapE raw_pinned_entry [?item] = Inr items" "validated_pinned_wal items = Inr (rp_segments demo_pin)"
      by (auto simp: bindE_eq_Inr_iff)
    ultimately show ?thesis
      by (simp add: pin_from_payload_def payload) (simp add: demo_pin_def)
  qed
  ultimately show ?thesis unfolding pin_stands_def
    by (simp add: demo_archive_def demo_scope_def dict_get_def) (simp add: demo_object_def)
qed

end
