(* ===== verification/Pitr_Exact.thy ===== *)
theory Pitr_Exact
  imports Pitr_Inventory
begin

text \<open>
  The listing as its callers understand it: the objects under a prefix, in the order of their
  keys.  The page by page loop of the adapter is that, whatever the size of the provider's pages.
\<close>

definition entry_of :: "(string, wal_object) dict \<Rightarrow> string \<Rightarrow> int \<times> int option" where
  "entry_of b k = (case dict_get b k of None \<Rightarrow> (0, None) | Some x \<Rightarrow> (int (length (wo_body x)), wo_modified x))"

definition listing :: "string \<Rightarrow> (string, wal_object) dict \<Rightarrow> (string \<times> int \<times> int option) list" where
  "listing pre b = map (\<lambda>k. (k, entry_of b k)) (filter (starts_with pre) (sort (remdups (map fst b))))"

lemma raw_list_quiet:
  "pw_calls w = [] \<Longrightarrow> wal_bucket A = Inr b \<Longrightarrow> raw_list L A pre token w = (Inr (page_of (pl_page L) pre token (pw_bucket w)), w)"
  by (simp add: raw_list_def request_def provider_def next_call_def eff_external_def)

lemma page_entries:
  assumes "page_of n pre token b = (page, again)" "x \<in> set page"
  shows "snd x = entry_of b (fst x)"
  using assms by (auto simp: page_of_def Let_def entry_of_def split: option.splits dest!: in_set_takeD)

lemma dict_get_fold_page:
  "(\<forall>x \<in> set page. snd x = entry_of b (fst x)) \<Longrightarrow> dict_get (fold (\<lambda>(k, n, t). dict_put k (n, t)) page d) k =
     (if k \<in> fst ` set page then Some (entry_of b k) else dict_get d k)"
proof (induction page arbitrary: d)
  case (Cons x page)
  obtain k' n t where x: "x = (k', n, t)" by (cases x)
  have "(n, t) = entry_of b k'" using Cons.prems by (simp add: x)
  then show ?case using Cons.IH[of "dict_put k' (n, t) d"] Cons.prems by (auto simp: x)
qed simp

lemma distinct_fold_page:
  "distinct (map fst d) \<Longrightarrow> distinct (map fst (fold (\<lambda>(k, n, t). dict_put k (n, t)) page d))"
  proof (induction page arbitrary: d)
  case (Cons x page)
  have "distinct (map fst (dict_put k v d))" for k v using dict_wf_put Cons.prems by (simp add: dict_wf_def)
  then show ?case using Cons.IH by (simp add: split_beta)
qed simp

definition listed_so_far :: "string \<Rightarrow> string option \<Rightarrow> (string, wal_object) dict \<Rightarrow> (string, int \<times> int option) dict \<Rightarrow> bool" where
  "listed_so_far pre token b d \<longleftrightarrow> distinct (map fst d) \<and>
     (\<forall>k \<in> fst ` set d. starts_with pre k \<and> k \<in> fst ` set b \<and> dict_get d k = Some (entry_of b k)) \<and>
     (\<forall>k \<in> fst ` set b. starts_with pre k \<longrightarrow> \<not> after_token token k \<longrightarrow> k \<in> fst ` set d)"

definition listed_all :: "string \<Rightarrow> (string, wal_object) dict \<Rightarrow> (string, int \<times> int option) dict \<Rightarrow> bool" where
  "listed_all pre b d \<longleftrightarrow> distinct (map fst d) \<and> fst ` set d = {k \<in> fst ` set b. starts_with pre k} \<and>
     (\<forall>k \<in> fst ` set d. dict_get d k = Some (entry_of b k))"

lemma page_step:
  assumes page: "page_of n pre token b = (page, again)" and d: "listed_so_far pre token b d"
  defines "d' \<equiv> fold (\<lambda>(k, n, t). dict_put k (n, t)) page d"
  shows "again \<Longrightarrow> listed_so_far pre (Some (fst (last page))) b d'" and "\<not> again \<Longrightarrow> listed_all pre b d'"
proof -
  note spec = page_of_spec[OF page]
  have get: "dict_get d' k = (if k \<in> fst ` set page then Some (entry_of b k) else dict_get d k)" for k
    unfolding d'_def by (rule dict_get_fold_page) (use page_entries[OF page] in blast)
  have keys: "fst ` set d' = fst ` set d \<union> fst ` set page" unfolding d'_def by (rule fold_put_keys)
  have dist: "distinct (map fst d')" unfolding d'_def by (rule distinct_fold_page) (use d in \<open>simp add: listed_so_far_def\<close>)
  have inb: "k \<in> fst ` set b \<longleftrightarrow> dict_get b k \<noteq> None" for k by (simp add: dict_get_None_iff)
  have found: "\<forall>k \<in> fst ` set page. starts_with pre k \<and> k \<in> fst ` set b" using spec unfolding inb by blast
  have old: "starts_with pre k \<and> k \<in> fst ` set b \<and> dict_get d' k = Some (entry_of b k)" if "k \<in> fst ` set d'" for k
  proof (cases "k \<in> fst ` set page")
    case True
    then show ?thesis using bspec[OF found True] by (simp add: get)
  next
    case False
    then have "k \<in> fst ` set d" using that unfolding keys by blast
    then have "starts_with pre k \<and> k \<in> fst ` set b \<and> dict_get d k = Some (entry_of b k)"
      using d unfolding listed_so_far_def by blast
    then show ?thesis using False by (simp only: get if_False simp_thms)
  qed
  have reach: "k \<in> fst ` set d' \<or> (again \<and> fst (last page) < k)" if k: "k \<in> fst ` set b" "starts_with pre k" for k
  proof (cases "after_token token k")
    case True
    then show ?thesis using k spec unfolding inb keys by blast
  next
    case False
    then have "k \<in> fst ` set d" using k d unfolding listed_so_far_def by blast
    then show ?thesis unfolding keys by blast
  qed
  show "listed_so_far pre (Some (fst (last page))) b d'" if again
    unfolding listed_so_far_def using dist old reach by (simp add: after_token_def) blast
  show "listed_all pre b d'" if "\<not> again"
    using dist old reach that unfolding listed_all_def by blast
qed

lemma list_pages_quiet:
  assumes quiet: "pw_calls w = []" "wal_bucket A = Inr bn"
  shows "card {k \<in> fst ` set (pw_bucket w). after_token token k} < fuel \<Longrightarrow> listed_so_far pre token (pw_bucket w) d \<Longrightarrow>
    \<exists>d'. list_pages L A pre fuel token d w = (Inr d', w) \<and> listed_all pre (pw_bucket w) d'"
proof (induction fuel arbitrary: token d)
  case (Suc fuel)
  obtain page again where page: "page_of (pl_page L) pre token (pw_bucket w) = (page, again)" by force
  let ?d = "fold (\<lambda>(k, n, t). dict_put k (n, t)) page d"
  have run: "list_pages L A pre (Suc fuel) token d w =
      (if again then list_pages L A pre fuel (Some (fst (last page))) ?d w else (Inr ?d, w))"
    by (simp add: eff_match_def raw_list_quiet[OF quiet] page Let_def eff_return_def)
  show ?case
  proof (cases again)
    case True
    have "keys_ever w = fst ` set (pw_bucket w)" using quiet by (simp add: keys_ever_def)
    then have "card {k \<in> fst ` set (pw_bucket w). after_token (Some (fst (last page))) k} < fuel"
      using page_passes[of "pl_page L" pre token w page] page True Suc.prems(1) by simp
    then show ?thesis using Suc.IH page_step(1)[OF page Suc.prems(2) True] run True by simp
  next
    case False
    then show ?thesis using page_step(2)[OF page Suc.prems(2)] run by simp
  qed
qed simp

lemma listed_is_listing:
  assumes "listed_all pre b d"
  shows "map (\<lambda>k. (k, the (dict_get d k))) (sort (map fst d)) = listing pre b"
proof -
  have "sort (map fst d) = filter (starts_with pre) (sort (remdups (map fst b)))"
    by (rule sorted_distinct_set_unique) (use assms in \<open>auto simp: listed_all_def sorted_wrt_filter\<close>)
  moreover have "the (dict_get d k) = entry_of b k" if "k \<in> fst ` set d" for k
    using bspec[OF conjunct2[OF conjunct2[OF assms[unfolded listed_all_def]]] that] by simp
  then have "map (\<lambda>k. (k, the (dict_get d k))) (sort (map fst d)) = map (\<lambda>k. (k, entry_of b k)) (sort (map fst d))"
    by (intro map_cong refl) (simp only: set_sort set_map)
  ultimately show ?thesis by (simp only: listing_def)
qed

lemma list_objects_quiet:
  assumes "pw_calls w = []" "wa_client A = Inr ()" "wal_bucket A = Inr bn" "card (fst ` set (pw_bucket w)) < MAX_LIST_PAGES"
  shows "list_objects L A pre w = (Inr (listing pre (pw_bucket w)), w)"
proof -
  have "listed_so_far pre None (pw_bucket w) []" by (simp add: listed_so_far_def after_token_def)
  then obtain d where "list_pages L A pre MAX_LIST_PAGES None [] w = (Inr d, w)" "listed_all pre (pw_bucket w) d"
    using list_pages_quiet[OF assms(1,3), of None MAX_LIST_PAGES pre "[]"] assms(4) by (auto simp: after_token_def)
  then show ?thesis
    using listed_is_listing assms(2,3) by (simp add: list_objects_def eff_bind_def eff_lift_def eff_return_def)
qed

end
