(* ===== verification/Pitr_Planning.thy ===== *)
theory Pitr_Planning
  imports Pitr_Safety
begin

text \<open>
  What a recovery plan promises: the base it names is the latest complete one before the target,
  its WAL starts where the base ends and goes on without a gap to the last segment the archive
  had, and every segment was read and found intact.
\<close>

section \<open>Choosing the base\<close>

lemma first_max_spec: "first_max key x xs \<in> set (x # xs) \<and> (\<forall>y \<in> set (x # xs). key y \<le> key (first_max key x xs))"
proof (induction xs arbitrary: x)
  case (Cons y ys)
  let ?z = "if key x < key y then y else x"
  note ih = Cons[of ?z]
  have "key x \<le> key ?z" "key y \<le> key ?z" by auto
  then have "\<forall>u \<in> set (x # y # ys). key u \<le> key (first_max key ?z ys)" using ih by (auto intro: order_trans)
  then show ?case using ih by auto
qed simp

definition completed_by :: "pitr_lib \<Rightarrow> PitrBaseBackupManifest \<Rightarrow> int \<Rightarrow> int \<Rightarrow> bool" where
  "completed_by L m target t \<longleftrightarrow> pb_status m = BASE_COMPLETE \<and> t \<le> target \<and>
     (\<exists>c. pb_completed_at m = Some c \<and> parse_utc L c ''completed_at'' = Inr t)"

lemma eligible_members:
  assumes "eligible_bases L target wanted bases = Inr es"
  shows "(t, m) \<in> set es \<longleftrightarrow> m \<in> set bases \<and> completed_by L m target t \<and> (wanted = None \<or> wanted = Some (pb_ident m))"
proof -
  let ?f = "\<lambda>m. case pb_completed_at m of
         None \<Rightarrow> Inr []
       | Some c \<Rightarrow> bindE (parse_utc L c ''completed_at'') (\<lambda>t.
           Inr (if t \<le> target \<and> (wanted = None \<or> wanted = Some (pb_ident m)) then [(t, m)] else []))"
  let ?bs = "filter (\<lambda>m. pb_status m = BASE_COMPLETE) bases"
  obtain ls where ls: "mapE ?f ?bs = Inr ls" "es = concat ls"
    using assms by (auto simp: eligible_bases_def bindE_eq_Inr_iff)
  have one: "(t, m) \<in> set l \<longleftrightarrow> m = b \<and> t \<le> target \<and> (\<exists>c. pb_completed_at m = Some c \<and> parse_utc L c ''completed_at'' = Inr t) \<and>
      (wanted = None \<or> wanted = Some (pb_ident m))" if "?f b = Inr l" for b l
    using that by (auto simp: bindE_eq_Inr_iff split: option.splits if_splits)
  let ?ok = "\<lambda>b. m = b \<and> t \<le> target \<and> (\<exists>c. pb_completed_at m = Some c \<and> parse_utc L c ''completed_at'' = Inr t) \<and>
      (wanted = None \<or> wanted = Some (pb_ident m))"
  have at: "(t, m) \<in> set (ls ! j) \<longleftrightarrow> ?ok (?bs ! j)" if "j < length ?bs" for j
    by (rule one) (use mapE_InrD[OF ls(1)] that in blast)
  have len: "length ls = length ?bs" using mapE_InrD[OF ls(1)] by blast
  have "(t, m) \<in> set es \<longleftrightarrow> (\<exists>l \<in> set ls. (t, m) \<in> set l)" by (simp add: ls(2))
  also have "\<dots> \<longleftrightarrow> (\<exists>j < length ls. (t, m) \<in> set (ls ! j))" by (metis in_set_conv_nth)
  also have "\<dots> \<longleftrightarrow> (\<exists>b \<in> set ?bs. ?ok b)" using at len by (metis in_set_conv_nth)
  finally show ?thesis by (auto simp: completed_by_def)
qed

lemma select_base_spec:
  assumes "select_base L target wanted bases = Inr m"
  shows "\<exists>t. m \<in> set bases \<and> completed_by L m target t \<and> (wanted = None \<or> wanted = Some (pb_ident m)) \<and>
    (\<forall>m' \<in> set bases. \<forall>t'. completed_by L m' target t' \<longrightarrow> wanted = None \<or> wanted = Some (pb_ident m') \<longrightarrow> t' \<le> t)"
proof -
  let ?key = "\<lambda>(t, m). (t, pb_ident m)"
  obtain xs where xs: "eligible_bases L target wanted bases = Inr xs"
    and c: "(case xs of [] \<Rightarrow> Inl (pitr_failure ''No complete PITR base backup precedes the requested target'')
       | e # es \<Rightarrow> Inr (snd (first_max ?key e es))) = Inr m"
    using assms unfolding select_base_def bindE_eq_Inr_iff by blast
  from c obtain e es where e: "xs = e # es" and m: "m = snd (first_max ?key e es)" by (cases xs) simp_all
  obtain t where t: "first_max ?key e es = (t, m)" using m by (metis prod.collapse)
  note best = first_max_spec[of ?key e es, unfolded t, folded e]
  note members = eligible_members[OF xs]
  have le: "t' \<le> t" if "(t', m') \<in> set xs" for t' m'
    using bspec[OF conjunct2[OF best] that] by (auto simp: less_eq_prod_def)
  have "m \<in> set bases \<and> completed_by L m target t \<and> (wanted = None \<or> wanted = Some (pb_ident m))"
    using best members by simp
  moreover have "t' \<le> t" if "m' \<in> set bases" "completed_by L m' target t'" "wanted = None \<or> wanted = Some (pb_ident m')" for m' t'
    by (rule le[of t' m']) (use members that in simp)
  ultimately show ?thesis by (intro exI[of _ t]) simp
qed

section \<open>Choosing the WAL\<close>

lemma index_wal_spec:
  "index_wal what n rs d = Inr d' \<Longrightarrow> distinct (map fst d) \<Longrightarrow>
   distinct (map fst d') \<and> (\<forall>q r. dict_get d' q = Some r \<longleftrightarrow> dict_get d q = Some r \<or> (r \<in> set rs \<and> wal_sequence (wr_filename r) n = Inr q)) \<and>
   (\<forall>r \<in> set rs. \<exists>q. wal_sequence (wr_filename r) n = Inr q)"
proof (induction rs arbitrary: d)
  case (Cons r rs)
  obtain q where q: "wal_sequence (wr_filename r) n = Inr q" "dict_get d q = None" "index_wal what n rs (dict_put q r d) = Inr d'"
    using Cons.prems(1) by (auto simp: bindE_eq_Inr_iff)
  have "distinct (map fst (dict_put q r d))" using dict_wf_put Cons.prems(2) by (simp add: dict_wf_def)
  from Cons.IH[OF q(3) this] q(1,2) show ?case by auto
qed simp

lemma gap_none_nth:
  "gap_after ns = None \<Longrightarrow> i < length ns \<Longrightarrow> ns ! i = hd ns + int i"
proof (induction ns arbitrary: i rule: gap_after.induct)
  case (1 a b ns)
  then show ?case by (cases i) (auto split: if_splits)
qed auto

text \<open>Consecutive segments of one timeline from number \<open>a\<close> on.\<close>

definition consecutive :: "int \<Rightarrow> int \<Rightarrow> int \<Rightarrow> WalReceipt list \<Rightarrow> bool" where
  "consecutive n timeline a rs \<longleftrightarrow> rs \<noteq> [] \<and>
     (\<forall>i < length rs. wal_sequence (wr_filename (rs ! i)) n = Inr (a + int i) \<and> wr_timeline (rs ! i) = timeline)"

lemma select_wal_spec:
  assumes "select_wal base wanted receipts = Inr (timeline, selected)"
  shows "\<exists>a. timeline = pb_timeline base \<and> wal_sequence (pb_end_wal base) (pb_segment_size base) = Inr a \<and>
    consecutive (pb_segment_size base) timeline a selected \<and> set selected \<subseteq> set receipts \<and>
    int (length selected) \<le> MAX_PITR_WAL_SEGMENTS \<and>
    (\<forall>r \<in> set receipts. \<forall>q. wr_timeline r = timeline \<longrightarrow> wal_sequence (wr_filename r) (pb_segment_size base) = Inr q \<longrightarrow> a \<le> q \<longrightarrow> r \<in> set selected)"
proof -
  let ?n = "pb_segment_size base" and ?rs = "filter (\<lambda>r. wr_timeline r = timeline) receipts"
  obtain what d a where t: "timeline = pb_timeline base" and d: "index_wal what ?n ?rs [] = Inr d"
    and a: "wal_sequence (pb_end_wal base) ?n = Inr a" and
    o: "sort (filter (\<lambda>n. a \<le> n) (map fst d)) \<noteq> []" "hd (sort (filter (\<lambda>n. a \<le> n) (map fst d))) = a"
      "gap_after (sort (filter (\<lambda>n. a \<le> n) (map fst d))) = None"
      "int (length (sort (filter (\<lambda>n. a \<le> n) (map fst d)))) \<le> MAX_PITR_WAL_SEGMENTS"
    and sel: "selected = map (\<lambda>n. the (dict_get d n)) (sort (filter (\<lambda>n. a \<le> n) (map fst d)))"
    using assms unfolding select_wal_def Let_def
    by (auto simp: bindE_eq_Inr_iff missing_segment_def split: if_splits option.splits)
  define ns where "ns = sort (filter (\<lambda>n. a \<le> n) (map fst d))"
  note o = o[folded ns_def] and sel = sel[folded ns_def]
  have spec: "(\<forall>q r. dict_get d q = Some r \<longleftrightarrow> r \<in> set ?rs \<and> wal_sequence (wr_filename r) ?n = Inr q)"
    using index_wal_spec[OF d] by (simp add: dict_get_def)
  have ns: "q \<in> set ns \<longleftrightarrow> a \<le> q \<and> (\<exists>r. dict_get d q = Some r)" for q
    using dict_get_None_iff[of d q] by (auto simp: ns_def)
  have at: "selected ! i \<in> set ?rs \<and> wal_sequence (wr_filename (selected ! i)) ?n = Inr (a + int i)" if "i < length selected" for i
  proof -
    have i: "i < length ns" using that by (simp add: sel)
    then obtain r where r: "dict_get d (ns ! i) = Some r" using ns by (meson nth_mem)
    then have "selected ! i = r" "ns ! i = a + int i" using i gap_none_nth[OF o(3) i] o(2) by (simp_all add: sel)
    then show ?thesis using spec r by simp
  qed
  have "r \<in> set selected" if "r \<in> set receipts" "wr_timeline r = timeline" "wal_sequence (wr_filename r) ?n = Inr q" "a \<le> q" for r q
  proof -
    have r: "dict_get d q = Some r" using spec that(1-3) by simp
    then have "q \<in> set ns" using ns that(4) by blast
    then show ?thesis using r by (force simp: sel)
  qed
  moreover have "set selected \<subseteq> set receipts" using at by (force simp: in_set_conv_nth)
  moreover have "consecutive ?n timeline a selected" using at o(1) by (auto simp: consecutive_def sel)
  ultimately show ?thesis using t a o(4) by (intro exI[of _ a]) (auto simp: sel)
qed

section \<open>What planning reads and writes\<close>

text \<open>The bases, and the WAL that is in the bucket \<open>b\<close>: planning adds a pin.\<close>

definition plan_region :: "pitr_lib \<Rightarrow> wal_adapter \<Rightarrow> (string, wal_object) dict \<Rightarrow> string \<Rightarrow> bool" where
  "plan_region L A b k \<longleftrightarrow> (\<exists>i. under_base L A i k) \<or> (\<exists>f. wal_key L A f = Inr k \<and> dict_get b k \<noteq> None)"

interpretation planning: guarded_region L A "plan_region L A b" for L A b
proof
  show "base_prefix L A i = Inr p \<Longrightarrow> starts_with (p @ ''/'') k \<Longrightarrow> plan_region L A b k" for i p k
    by (auto simp: plan_region_def under_base_def)
  show "apart_from_lease L A (plan_region L A b)"
    by (auto simp: apart_from_lease_def plan_region_def under_base_def base_prefix_iff below_scope_iff coordination_lease_key_def
        wal_key_iff starts_with_iff)
qed

lemma pin_outside: "pin_key L A kind ident = Inr k \<Longrightarrow> \<not> plan_region L A b k"
  by (auto simp: plan_region_def under_base_def base_prefix_iff below_scope_iff pin_key_def pins_prefix_def wal_key_iff starts_with_iff
      bindE_eq_Inr_iff)

lemma put_bytes_keeps: "\<not> R k \<Longrightarrow> keeps (stays R J) (put_bytes_immutable L A payload k)"
  unfolding put_bytes_immutable_def reconcile_immutable_def Let_def
  by (intro keep_rules calm_rules raw_put_keeps)

lemma create_pin_keeps:
  assumes "\<And>kind ident k. pin_key L A kind ident = Inr k \<Longrightarrow> \<not> R k"
  shows "keeps (stays R J) (create_pitr_pin L A kind ident e base segments l)"
  unfolding create_pitr_pin_def Let_def
  by (intro keeps_bind_lift keep_rules calm_rules put_bytes_keeps) (erule assms)

text \<open>The object is what its checksum says.\<close>

definition intact :: "pitr_lib \<Rightarrow> wal_object \<Rightarrow> bool" where
  "intact L y \<longleftrightarrow> metadata_digest y = Some (pl_sha L (wo_body y))"

definition found_intact :: "pitr_lib \<Rightarrow> wal_adapter \<Rightarrow> (string \<Rightarrow> bool) \<Rightarrow> (string \<Rightarrow> wal_object option) \<Rightarrow> string \<Rightarrow> bool" where
  "found_intact L A R s f \<longleftrightarrow> (\<forall>k. wal_key L A f = Inr k \<longrightarrow> R k \<longrightarrow> (\<exists>y. s k = Some y \<and> intact L y))"

lemma report_fieldsD: "report_fields L cs c x = Inr y \<Longrightarrow> y = x"
  by (auto simp: report_fields_def split: if_splits option.splits)

lemma built_planD:
  "built (validate_plan L p) = Inr q \<Longrightarrow> pp_base q = pp_base p \<and> pp_timeline q = pp_timeline p \<and> pp_wal_count q = pp_wal_count p \<and>
     pp_first_wal q = py_upper (pp_first_wal p) \<and> pp_last_wal q = py_upper (pp_last_wal p)"
proof -
  assume "built (validate_plan L p) = Inr q"
  then have "validate_plan L p = Inr q" by (simp add: built_def split: sum.splits)
  from report_fieldsD[OF this[unfolded validate_plan_def Let_def]] show ?thesis by simp
qed

lemma built_fields:
  assumes "built (validate_plan L \<lparr>pp_ident = a1, pp_project = a2, pp_environment = a3, pp_cluster = a4, pp_system = a5, pp_base = a6,
     pp_database = a7, pp_new_database = a8, pp_target_time = a9, pp_timeline = a10, pp_first_wal = a11, pp_last_wal = a12,
     pp_wal_count = a13, pp_wal_bytes = a14, pp_image = a15, pp_created_at = a16, pp_status = a17\<rparr>) = Inr q"
  shows "pp_base (q\<lparr>pp_created_at := c\<rparr>) = a6 \<and> pp_timeline (q\<lparr>pp_created_at := c\<rparr>) = a10 \<and>
    pp_first_wal (q\<lparr>pp_created_at := c\<rparr>) = py_upper a11 \<and> pp_last_wal (q\<lparr>pp_created_at := c\<rparr>) = py_upper a12 \<and>
    pp_wal_count (q\<lparr>pp_created_at := c\<rparr>) = a13"
  using built_planD[OF assms] by simp

lemma models_now_keeps: "keeps (stays R J) (models_now L)"
  unfolding models_now_def by (intro keep_rules calm_rules)

lemma new_plan_fields:
  "observes (stays R J) (new_plan L X e identity plan_id token target base timeline selected)
     (\<lambda>p. pp_base p = pb_ident base \<and> pp_timeline p = timeline \<and> pp_first_wal p = py_upper (wr_filename (hd selected)) \<and>
       pp_last_wal p = py_upper (wr_filename (last selected)) \<and> pp_wal_count p = int (length selected))"
  unfolding new_plan_def
  apply (rule observes_bind_lift)
  apply (rule observes_bind_lift)
  apply (rule observes_bind[OF models_now_keeps[unfolded keeps_def]])
  apply (rule observes_bind_lift)
  apply (rule observes_return)
  apply (erule built_fields)
  done

text \<open>What a plan says of the archive it was made from.\<close>

definition plan_sound ::
  "pitr_lib \<Rightarrow> pitr_ctx \<Rightarrow> string \<Rightarrow> string \<Rightarrow> wal_adapter \<Rightarrow> (string \<Rightarrow> bool) \<Rightarrow> (string \<Rightarrow> wal_object option) \<Rightarrow> int \<Rightarrow> string option \<Rightarrow> PitrRecoveryPlan \<Rightarrow> bool" where
  "plan_sound L X e sy A R s target wanted p \<longleftrightarrow> (\<exists>x m t a names.
     published L X e sy A s (pp_base p) x m \<and> completed_by L m target t \<and> (wanted = None \<or> wanted = Some (pp_base p)) \<and>
     (wanted = None \<longrightarrow> (\<forall>j y m' t'. published L X e sy A s j y m' \<longrightarrow> completed_by L m' target t' \<longrightarrow> t' \<le> t)) \<and>
     pp_timeline p = pb_timeline m \<and> wal_sequence (pb_end_wal m) (pb_segment_size m) = Inr a \<and>
     names \<noteq> [] \<and> int (length names) = pp_wal_count p \<and> pp_wal_count p \<le> MAX_PITR_WAL_SEGMENTS \<and> hd names = pp_first_wal p \<and> last names = pp_last_wal p \<and>
     (\<forall>i < length names. wal_name_for_sequence (a + int i) (pp_timeline p) (pb_segment_size m) = Inr (names ! i) \<and>
       found_intact L A R s (names ! i)) \<and>
     (\<forall>f q k. wal_name_for_sequence q (pp_timeline p) (pb_segment_size m) = Inr f \<longrightarrow> a \<le> q \<longrightarrow> wal_key L A f = Inr k \<longrightarrow> R k \<longrightarrow>
       s k \<noteq> None \<longrightarrow> f \<in> set names))"

lemma observes_cases: "(\<And>a b. p = (a, b) \<Longrightarrow> observes I (f a b) q) \<Longrightarrow> observes I (case p of (a, b) \<Rightarrow> f a b) q"
  by (cases p) simp

lemma wal_name_iff:
  "wal_name_for_sequence n t seg = Inr f \<longleftrightarrow> wal_sequence f seg = Inr n \<and> t = int (hex_number (take 8 f))"
proof
  assume a: "wal_name_for_sequence n t seg = Inr f"
  then have "1 \<le> t" by (auto simp: wal_name_for_sequence_def bindE_eq_Inr_iff)
  then show "wal_sequence f seg = Inr n \<and> t = int (hex_number (take 8 f))" using sequence_of_name(1,2)[OF a] by simp
next
  assume "wal_sequence f seg = Inr n \<and> t = int (hex_number (take 8 f))"
  then show "wal_name_for_sequence n t seg = Inr f" using name_of_sequence wal_sequence_segment by blast
qed

lemma published_complete: "published L X e sy A s i x m \<Longrightarrow> pb_status m = BASE_COMPLETE"
  by (auto simp: published_def dest!: validate_manifestD)

lemma plan_from_parts:
  assumes X: "keeps_identity X"
    and ms: "\<forall>m \<in> set ms. \<exists>x. published L X e sy A s0 (pb_ident m) x m" "\<forall>i k. base_manifest_key L A i = Inr k \<longrightarrow> s0 k \<noteq> None \<longrightarrow> i \<in> pb_ident ` set ms"
    and base: "select_base L target wanted ms = Inr m"
    and inventory: "inventory_tells L A R s0 receipts" and wal: "select_wal m timeline receipts = Inr (chosen, selected)"
    and read: "\<forall>r \<in> set selected. found_intact L A R s0 (wr_filename r)"
    and p: "pp_base p = pb_ident m" "pp_timeline p = chosen" "pp_first_wal p = py_upper (wr_filename (hd selected))"
      "pp_last_wal p = py_upper (wr_filename (last selected))" "pp_wal_count p = int (length selected)"
  shows "plan_sound L X e sy A R s0 target wanted p"
proof -
  obtain t where t: "m \<in> set ms" "completed_by L m target t" "wanted = None \<or> wanted = Some (pb_ident m)"
    and latest: "\<forall>m' \<in> set ms. \<forall>t'. completed_by L m' target t' \<longrightarrow> wanted = None \<or> wanted = Some (pb_ident m') \<longrightarrow> t' \<le> t"
    using select_base_spec[OF base] by blast
  obtain x where x: "published L X e sy A s0 (pb_ident m) x m" using ms(1) t(1) by blast
  obtain a where a: "chosen = pb_timeline m" "wal_sequence (pb_end_wal m) (pb_segment_size m) = Inr a"
    "consecutive (pb_segment_size m) chosen a selected" "set selected \<subseteq> set receipts" "int (length selected) \<le> MAX_PITR_WAL_SEGMENTS"
    "\<forall>r \<in> set receipts. \<forall>q. wr_timeline r = chosen \<longrightarrow> wal_sequence (wr_filename r) (pb_segment_size m) = Inr q \<longrightarrow> a \<le> q \<longrightarrow> r \<in> set selected"
    using select_wal_spec[OF wal] by blast
  have segment: "is_wal_segment (wr_filename r) \<and> wr_timeline r = int (hex_number (take 8 (wr_filename r)))" if "r \<in> set receipts" for r
    using inventory that by (simp add: inventory_tells_def segment_receipt_def)
  have sel: "selected \<noteq> []" using a(3) by (simp add: consecutive_def)
  let ?names = "map wr_filename selected"
  have upper: "py_upper (wr_filename r) = wr_filename r" if "r \<in> set selected" for r
    using segment_facts(2) segment a(4) that by blast
  have ends: "hd ?names = pp_first_wal p" "last ?names = pp_last_wal p"
    using sel upper p by (simp_all add: hd_map last_map)
  have named: "wal_name_for_sequence (a + int i) chosen (pb_segment_size m) = Inr (?names ! i)" if "i < length selected" for i
  proof -
    have "selected ! i \<in> set receipts" using a(4) that by (meson nth_mem subsetD)
    then have "wr_timeline (selected ! i) = int (hex_number (take 8 (wr_filename (selected ! i))))" using segment by blast
    moreover have "wal_sequence (wr_filename (selected ! i)) (pb_segment_size m) = Inr (a + int i)" "wr_timeline (selected ! i) = chosen"
      using a(3) that by (simp_all add: consecutive_def)
    ultimately show ?thesis using that by (simp add: wal_name_iff)
  qed
  have all: "f \<in> set ?names" if f: "wal_name_for_sequence q chosen (pb_segment_size m) = Inr f" "a \<le> q" "wal_key L A f = Inr k" "R k" "s0 k \<noteq> None" for f q k
  proof -
    have seq: "wal_sequence f (pb_segment_size m) = Inr q" "chosen = int (hex_number (take 8 f))" using f(1) by (simp_all add: wal_name_iff)
    have "is_wal_segment f" using wal_sequence_segment[OF seq(1)] by simp
    then obtain r where r: "r \<in> set receipts" "wr_filename r = f" using inventory f(3-5) unfolding inventory_tells_def by blast
    then have "r \<in> set selected" using a(6) f(2) seq segment[OF r(1)] by simp
    then show ?thesis using r(2) by auto
  qed
  have best: "t' \<le> t" if free: "wanted = None" and other: "published L X e sy A s0 j y m'" and ended: "completed_by L m' target t'" for j y m' t'
  proof -
    obtain k where "base_manifest_key L A j = Inr k" "s0 k \<noteq> None" using other by (auto simp: published_def base_stands_def)
    then obtain m'' where m'': "m'' \<in> set ms" "pb_ident m'' = j" using ms(2) by blast
    then have "m'' = m'" using ms(1) published_fixed[OF other] by blast
    then show ?thesis using latest m''(1) free ended by blast
  qed
  show ?thesis unfolding plan_sound_def
    apply (rule exI[of _ x], rule exI[of _ m], rule exI[of _ t], rule exI[of _ a], rule exI[of _ ?names], intro conjI)
    using x t a(1,2,5) p sel ends named read all best by simp_all
qed

context guarded_region
begin

lemma verify_wal_tells:
  "observes (stays R ((=) s0)) (verify_wal L A f d) (\<lambda>_. found_intact L A R s0 f)"
  unfolding verify_wal_def
proof (rule observes_bind_lift, rule observes_bind[OF wal_read_tells])
  fix k ib
  assume k: "wal_key L A f = Inr k" and ib: "case ib of (i, b) \<Rightarrow> tells ((=) s0) R k i \<and> wi_sha i = pl_sha L b \<and> wi_size i = int (length b) \<and>
    (\<forall>h. d = Some h \<longrightarrow> wi_sha i = py_lower h) \<and> (\<forall>z. None = Some z \<longrightarrow> wi_size i = z) \<and> (R k \<longrightarrow> (\<exists>x. held ((=) s0) k (Some x) \<and> b = wo_body x))"
  obtain i b where p: "ib = (i, b)" by force
  have "found_intact L A R s0 f" unfolding found_intact_def
  proof (intro allI impI)
    fix k' assume "wal_key L A f = Inr k'" and R: "R k'"
    then have k': "k' = k" using k by simp
    obtain x where x: "s0 k = Some x" "head_info k x = Inr i" using ib R by (auto simp: p k' tells_def)
    then have "b = wo_body x" "wi_sha i = pl_sha L b" using ib R by (auto simp: p k')
    then show "\<exists>y. s0 k' = Some y \<and> intact L y" using x head_infoD[OF x(2)] by (auto simp: k' intact_def)
  qed
  then show "observes (stays R ((=) s0)) (case ib of (i, uu) \<Rightarrow> eff_return i) (\<lambda>_. found_intact L A R s0 f)"
    by (simp add: p observes_return)
qed

lemma verify_receipt_tells:
  "observes (stays R ((=) s0)) (verify_receipt L A r) (\<lambda>_. found_intact L A R s0 (wr_filename r))"
  unfolding verify_receipt_def
  by (rule observes_bind[OF guard_keeps(1)[OF lease_apart, unfolded keeps_def]], rule observes_bind[OF verify_wal_tells], rule observes_check)

lemma create_pin_tells:
  assumes "\<And>kind ident k. pin_key L A kind ident = Inr k \<Longrightarrow> \<not> R k"
  shows "observes (stays R ((=) s0)) (create_pitr_pin L A kind ident e base segments l) (\<lambda>_. True)"
  using create_pin_keeps[OF assms] by (simp add: keeps_def)

lemma guarded_plan_tells:
  assumes X: "keeps_identity X" and pins: "\<And>kind ident k. pin_key L A kind ident = Inr k \<Longrightarrow> \<not> R k"
  shows "observes (stays R ((=) s0)) (plan_restore_guarded L X e target timeline wanted sy A token plan_id)
    (plan_sound L X e sy A R s0 target wanted)"
  unfolding plan_restore_guarded_def
  apply (rule observes_bind[OF list_base_backups_tells[OF X]])
  apply (rule observes_bind_lift)
  apply (rule observes_bind[OF guard_keeps(1)[OF lease_apart, unfolded keeps_def]])
  apply (rule observes_bind[OF base_reads_keep(1)[unfolded keeps_def]])
  apply (rule observes_bind[OF remote_receipts_tell])
  apply (rule observes_bind_lift)
  apply (rule observes_cases)
  apply (rule observes_bind[OF observes_each[OF verify_receipt_tells]])
  apply (rule observes_bind[OF new_plan_fields])
  apply (rule observes_bind[OF guard_keeps(1)[OF lease_apart, unfolded keeps_def]])
  apply (rule observes_bind[OF guard_lease_keeps[unfolded keeps_def]])
  apply (rule observes_bind[OF create_pin_tells[OF pins]], assumption)
  apply (rule observes_bind_lift)
  apply (rule observes_bind[OF store_keeps(3)[unfolded keeps_def]])
  apply (rule observes_return)
  apply (elim conjE, hypsubst)
  apply (rule plan_from_parts[OF X])
           apply (assumption | rule refl)+
  done

end

section \<open>The whole run\<close>

lemma plan_seen:
  assumes "plan_sound L X e sy A (plan_region L A (pw_bucket w)) (seen (plan_region L A (pw_bucket w)) w) target wanted p"
  shows "plan_sound L X e sy A (plan_region L A (pw_bucket w)) (dict_get (pw_bucket w)) target wanted p"
proof -
  let ?R = "plan_region L A (pw_bucket w)"
  have under: "seen ?R w k = dict_get (pw_bucket w) k" if "under_base L A i k" for i k
    using that by (auto simp: seen_def plan_region_def)
  have pub: "published L X e sy A (seen ?R w) i x m \<longleftrightarrow> published L X e sy A (dict_get (pw_bucket w)) i x m" for i x m
    using published_same under by metis
  have intact: "found_intact L A ?R (seen ?R w) f \<longleftrightarrow> found_intact L A ?R (dict_get (pw_bucket w)) f" for f
    by (simp add: found_intact_def seen_def)
  have there: "?R k \<and> seen ?R w k \<noteq> None \<longleftrightarrow> ?R k \<and> dict_get (pw_bucket w) k \<noteq> None" for k
    by (simp add: seen_def)
  show ?thesis using assms unfolding plan_sound_def pub intact by (simp add: seen_def)
qed

lemma planning_run:
  assumes run: "plan_restore L X e target_time timeline wanted w = (Inr p, w')" and A: "fst (resolve_adapter L X e w) = Inr (sy, A)"
    and calm: "calm (plan_region L A (pw_bucket w)) w" and X: "keeps_identity X"
  shows "\<exists>target. parse_utc L target_time ''target_time'' = Inr target \<and> target \<le> pw_clock w + pw_skew w \<and>
    plan_sound L X e sy A (plan_region L A (pw_bucket w)) (dict_get (pw_bucket w)) target wanted p"
proof -
  let ?R = "plan_region L A (pw_bucket w)"
  have v: "resolve_adapter L X e w = (Inr (sy, A), w)" using A resolve_read by (metis prod.collapse)
  obtain c target where t: "pitr_config X e = Inr c" "parse_utc L target_time ''target_time'' = Inr target" "target \<le> pw_clock w + pw_skew w"
    using run by (auto simp: plan_restore_def eff_bind_def eff_lift_def eff_return_def eff_raise_def eff_check_def local_now_def eff_read_def
        split: sum.splits if_splits)
  let ?guarded = "\<lambda>token. with_guard L A ''pitr-plan'' (e @ ''_pitr_plan_'' @ token)
      (plan_restore_guarded L X e target timeline wanted sy A token (e @ ''_pitr_plan_'' @ token))"
  have body: "eff_spec (stays ?R ((=) (seen ?R w))) (plan_restore_guarded L X e target timeline wanted sy A token plan_id)
      (\<lambda>q. stays ?R (\<lambda>s. s = seen ?R w \<and> plan_sound L X e sy A ?R (seen ?R w) target wanted q)) (\<lambda>_. stays ?R ((=) (seen ?R w)))" for token plan_id
    by (rule eff_spec_weaken[OF planning.guarded_plan_tells[OF X pin_outside, unfolded observes_def]]) (auto simp: stays_def)
  have guarded: "eff_spec (stays ?R ((=) (seen ?R w))) (?guarded token)
      (\<lambda>q. stays ?R (\<lambda>s. s = seen ?R w \<and> plan_sound L X e sy A ?R (seen ?R w) target wanted q)) (\<lambda>_. stays ?R ((=) (seen ?R w)))" for token
    by (rule with_guard_spec[OF planning.lease_apart body]) auto
  have after: "eff_spec (stays ?R ((=) (seen ?R w))) (eff_bind (random_text L) ?guarded)
      (\<lambda>q. stays ?R (\<lambda>s. s = seen ?R w \<and> plan_sound L X e sy A ?R (seen ?R w) target wanted q)) (\<lambda>_. stays ?R ((=) (seen ?R w)))"
    by (rule eff_spec_observe[OF random_keeps(1)[unfolded keeps_def] guarded])
  have "(Inr p, w') = eff_bind (random_text L) ?guarded w"
    using run v t by (simp add: plan_restore_def local_now_def eff_lift_def eff_bind_def eff_return_def eff_read_def eff_check_def Let_def)
  moreover have "stays ?R ((=) (seen ?R w)) w" using calm by (simp add: stays_def)
  ultimately have "plan_sound L X e sy A ?R (seen ?R w) target wanted p"
    using after by (auto simp: eff_spec_def stays_def split: sum.splits)
  then show ?thesis using t plan_seen by blast
qed

end
