(* ===== verification/Pitr_Properties.thy ===== *)
theory Pitr_Properties
  imports Pitr_Demo Pitr_Exact Pitr_Planning
begin

text \<open>
  Properties of point-in-time recovery: what a plan promises, what a retention run may take from an archive, who may
  change it at all, how a listing is read page by page, and the arithmetic of WAL names.
\<close>

section \<open>Retention\<close>

text \<open>C4. A retention run never spoils a base backup it leaves in the archive: whatever fails, and wherever the
  process dies, a base that was complete before the run has either lost its completion marker, so that
  nothing offers it any more, or it is complete as before and every WAL segment at or after its end that
  the archive held is untouched.  Other hosts may archive new WAL meanwhile; they leave the bases, the pins
  and the WAL that is there alone, which is what the lease is for.\<close>

theorem retention_keeps_recoverable:
  assumes "fst (resolve_adapter L X e w) = Inr (sy, A)" and "calm (archive_region L A (pw_bucket w)) w" and "keeps_identity X"
    and "published L X e sy A (dict_get (pw_bucket w)) i x m" and "base_manifest_key L A i = Inr mk"
    and "wal_sequence (pb_end_wal m) (pb_segment_size m) = Inr a"
  shows "dict_get (pw_bucket (snd (reconcile_retention L X e w))) mk = None \<or>
    published L X e sy A (dict_get (pw_bucket (snd (reconcile_retention L X e w)))) i x m \<and>
    (\<forall>f k b. wal_sequence f (pb_segment_size m) = Inr b \<longrightarrow> a \<le> b \<longrightarrow> wal_key L A f = Inr k \<longrightarrow> dict_get (pw_bucket w) k \<noteq> None \<longrightarrow>
       dict_get (pw_bucket (snd (reconcile_retention L X e w))) k = dict_get (pw_bucket w) k)"
proof -
  obtain r w' where run: "reconcile_retention L X e w = (r, w')" by force
  note effect = retention_run[OF run assms(1-3)]
  note i = assms(4)[folded published_seen[where b = "pw_bucket w"]]
  have marker: "seen (archive_region L A (pw_bucket w)) w' mk = dict_get (pw_bucket w') mk"
    using archive.base_region[OF marker_under[OF assms(5)]] by (simp add: seen_def)
  show ?thesis
  proof (cases "dict_get (pw_bucket w') mk")
    case (Some y)
    then have there: "seen (archive_region L A (pw_bucket w)) w' mk \<noteq> None" by (simp add: marker)
    have "dict_get (pw_bucket w') k = dict_get (pw_bucket w) k"
      if "wal_sequence f (pb_segment_size m) = Inr b" "a \<le> b" "wal_key L A f = Inr k" "dict_get (pw_bucket w) k \<noteq> None" for f k b
      using archive.effect_wal[OF effect assms(3) i assms(5) there assms(6) that(1-3) wal_seen[OF that(3,4)]] wal_seen[OF that(3,4)]
      by (simp add: seen_def)
    then show ?thesis using archive.effect_base[OF effect i assms(5) there] by (simp add: run published_seen)
  qed (simp add: run)
qed

text \<open>The base \<open>b1\<close> and the segment at its end.\<close>

lemma demo_end: "wal_sequence (pb_end_wal demo_base) (pb_segment_size demo_base) = Inr 6"
  by (simp add: demo_base_def wal_sequence_def validate_archive_name_def is_archive_name_def is_wal_segment_def is_upper_hex_def upper_hex_char_def
      segments_per_wal_log_def hex_number_def hex_val_def lower_char_def)

lemma demo_marker: "base_manifest_key demo_pitr_lib demo_adapter ''b1'' = Inr (demo_scope @ ''/bases/b1/manifest.json'')"
  by code_simp

lemma retention_keeps_recoverable_witness:
  "dict_get (pw_bucket (snd (reconcile_retention demo_pitr_lib demo_pitr_ctx ''prod'' demo_archive))) (demo_scope @ ''/bases/b1/manifest.json'') = None \<or>
    published demo_pitr_lib demo_pitr_ctx ''prod'' ''7'' demo_adapter (dict_get (pw_bucket (snd (reconcile_retention demo_pitr_lib demo_pitr_ctx ''prod'' demo_archive))))
      ''b1'' (demo_object (dumps_with compact_layout (JObj demo_document)) 0) demo_base"
  using retention_keeps_recoverable[OF demo_resolved demo_calm demo_identity demo_published demo_marker demo_end] by blast

text \<open>C10. A retention run deletes only what it may.  A base whose marker does not survive was, by the provider's time of
  its marker, older than the grace period, and at least the configured number of other complete bases are
  newer; a WAL segment that does not survive was archived, by the provider's time, before the grace
  period.\<close>

theorem retention_deletes_only_expired:
  assumes "fst (resolve_adapter L X e w) = Inr (sy, A)" and "calm (archive_region L A (pw_bucket w)) w" and "keeps_identity X"
    and "published L X e sy A (dict_get (pw_bucket w)) i x m" and "base_manifest_key L A i = Inr mk"
    and "wal_key L A f = Inr k" and "dict_get (pw_bucket w) k = Some y"
  shows "(dict_get (pw_bucket (snd (reconcile_retention L X e w))) mk = Some x \<or>
      (\<exists>t newer. wo_modified x = Some t \<and> t < grace_cutoff X (pw_clock w + pw_skew w) \<and> distinct newer \<and>
        length newer = nat (pc_base_backups (px_config X)) \<and>
        (\<forall>j \<in> set newer. \<exists>z n u. published L X e sy A (dict_get (pw_bucket w)) j z n \<and> wo_modified z = Some u \<and> (t, i) \<le> (u, j) \<and> j \<noteq> i))) \<and>
    (dict_get (pw_bucket (snd (reconcile_retention L X e w))) k = Some y \<or>
      (\<exists>t u. is_wal_segment f \<and> wo_modified y = Some t \<and> parse_utc L (stamp L (pitr_timestamp L t)) ''archived_at'' = Inr u \<and>
        u < grace_cutoff X (pw_clock w + pw_skew w)))"
    (is "(?marker \<or> ?old) \<and> (?segment \<or> ?early)")
proof
  obtain r w' where run: "reconcile_retention L X e w = (r, w')" by force
  note effect = retention_run[OF run assms(1-3)]
  note i = assms(4)[folded published_seen[where b = "pw_bucket w"]]
  have there: "archive_region L A (pw_bucket w) mk" "archive_region L A (pw_bucket w) k"
    using archive.base_region[OF marker_under[OF assms(5)]] wal_seen[OF assms(6)] assms(7) by simp_all
  have x: "dict_get (pw_bucket w) mk = Some x" using assms(4,5) by (auto simp: published_def base_stands_def)
  show "?marker \<or> ?old"
  proof (cases "dict_get (pw_bucket w') mk")
    case None
    then have "seen (archive_region L A (pw_bucket w)) w' mk = None" using there by (simp add: seen_def)
    from archive.effect_lost_base[OF effect i assms(5) this] obtain D W where
      d: "decided L X e (pw_clock w + pw_skew w) sy A (archive_region L A (pw_bucket w)) (seen (archive_region L A (pw_bucket w)) w) D W" "i \<in> D" .
    show ?thesis using decided_bases(1)[OF d(1) assms(3) i d(2)] unfolding published_seen by blast
  next
    case (Some z)
    then have "seen (archive_region L A (pw_bucket w)) w' mk \<noteq> None" using there by (simp add: seen_def)
    from archive.effect_base[OF effect i assms(5) this] have "dict_get (pw_bucket w') mk = Some x"
      using assms(5) unfolding published_seen by (auto simp: published_def base_stands_def)
    then show ?thesis by (simp add: run)
  qed
  show "?segment \<or> ?early"
  proof (cases "dict_get (pw_bucket w') k = Some y")
    case False
    then have "seen (archive_region L A (pw_bucket w)) w' k \<noteq> seen (archive_region L A (pw_bucket w)) w k"
      using there assms(7) by (simp add: seen_def)
    from archive.effect_lost_wal[OF effect assms(6) there(2) this] show ?thesis
      using there assms(7) by (auto simp: seen_def)
  qed (simp add: run)
qed

lemma demo_segment: "wal_key demo_pitr_lib demo_adapter ''000000010000000000000006'' = Inr (demo_scope @ ''/wal/000000010000000000000006'')"
  by code_simp

lemma demo_segment_there: "dict_get (pw_bucket demo_archive) (demo_scope @ ''/wal/000000010000000000000006'') = Some (demo_object ''y'' 0)"
  by (simp add: demo_archive_def demo_scope_def dict_get_def)

lemma retention_deletes_only_expired_witness:
  "dict_get (pw_bucket (snd (reconcile_retention demo_pitr_lib demo_pitr_ctx ''prod'' demo_archive))) (demo_scope @ ''/wal/000000010000000000000006'') =
      Some (demo_object ''y'' 0) \<or>
    (\<exists>t u. wo_modified (demo_object ''y'' 0) = Some t \<and> parse_utc demo_pitr_lib (stamp demo_pitr_lib (pitr_timestamp demo_pitr_lib t)) ''archived_at'' = Inr u \<and>
      u < grace_cutoff demo_pitr_ctx (pw_clock demo_archive + pw_skew demo_archive))"
  using retention_deletes_only_expired[OF demo_resolved demo_calm demo_identity demo_published demo_marker demo_segment demo_segment_there] by blast

text \<open>C9. A retention run keeps what recovery plans and restores rely on: for every pin of the environment that
  stands in the archive, on whichever host it was made, its base stays complete and every WAL segment it
  names that was there stays as it is.\<close>

theorem retention_respects_pins:
  assumes "fst (resolve_adapter L X e w) = Inr (sy, A)" and "calm (archive_region L A (pw_bucket w)) w" and "keeps_identity X"
    and "pins_prefix L A = Inr pre" and "starts_with (pre @ ''/'') pk" and "pin_stands L A (dict_get (pw_bucket w)) pk p"
    and "rp_environment p = e" and "published L X e sy A (dict_get (pw_bucket w)) (rp_base p) x m"
  shows "published L X e sy A (dict_get (pw_bucket (snd (reconcile_retention L X e w)))) (rp_base p) x m \<and>
    (\<forall>g \<in> set (rp_segments p). \<forall>k. wal_key L A (pn_filename g) = Inr k \<longrightarrow> dict_get (pw_bucket w) k \<noteq> None \<longrightarrow>
       dict_get (pw_bucket (snd (reconcile_retention L X e w))) k = dict_get (pw_bucket w) k)"
proof -
  obtain r w' where run: "reconcile_retention L X e w = (r, w')" by force
  note effect = retention_run[OF run assms(1-3)]
  note base = assms(8)[folded published_seen[where b = "pw_bucket w"]]
  note pin = assms(6)[folded pin_seen[OF assms(4,5), where b = "pw_bucket w"]]
  note kept = archive.effect_pin[OF effect assms(3,4,5) pin assms(7) base]
  have "dict_get (pw_bucket w') k = dict_get (pw_bucket w) k"
    if "g \<in> set (rp_segments p)" "wal_key L A (pn_filename g) = Inr k" "dict_get (pw_bucket w) k \<noteq> None" for g k
    using kept(2)[OF that(1,2) wal_seen[OF that(2,3)]] wal_seen[OF that(2,3)] by (simp add: seen_def)
  then show ?thesis using kept(1) by (simp add: run published_seen)
qed

lemma demo_pins: "pins_prefix demo_pitr_lib demo_adapter = Inr (demo_scope @ ''/pins'')"
  by code_simp

lemma demo_pin_key: "starts_with ((demo_scope @ ''/pins'') @ ''/'') (demo_scope @ ''/pins/plan/p1.json'')"
  by (simp add: starts_with_iff)

lemma retention_respects_pins_witness:
  "published demo_pitr_lib demo_pitr_ctx ''prod'' ''7'' demo_adapter (dict_get (pw_bucket (snd (reconcile_retention demo_pitr_lib demo_pitr_ctx ''prod'' demo_archive))))
     ''b1'' (demo_object (dumps_with compact_layout (JObj demo_document)) 0) demo_base \<and>
   dict_get (pw_bucket (snd (reconcile_retention demo_pitr_lib demo_pitr_ctx ''prod'' demo_archive))) (demo_scope @ ''/wal/000000010000000000000006'') =
     Some (demo_object ''y'' 0)"
proof -
  have pin: "rp_base demo_pin = ''b1''" "rp_environment demo_pin = ''prod''"
    "rp_segments demo_pin = [\<lparr>pn_filename = ''000000010000000000000006'', pn_sha = demo_digest, pn_size = 1\<rparr>]"
    by (simp_all add: demo_pin_def)
  show ?thesis
    using retention_respects_pins[OF demo_resolved demo_calm demo_identity demo_pins demo_pin_key demo_pinned pin(2) demo_published[folded pin(1)]]
      demo_segment demo_segment_there by (simp add: pin)
qed

section \<open>Planning\<close>



section \<open>The lease\<close>

lemma never_returns:
  assumes "observes (stays R ((=) (seen R w))) m (\<lambda>_. False)" "calm R w"
  shows "isl (fst (m w)) \<and> seen R (snd (m w)) = seen R w"
proof -
  obtain v w' where v: "m w = (v, w')" by force
  have "stays R ((=) (seen R w)) w" using assms(2) by (simp add: stays_def)
  from assms(1)[unfolded observes_def eff_spec_def, rule_format, OF this] show ?thesis
    by (cases v) (auto simp: v stays_def)
qed

lemma stopped:
  assumes "observes (stays R ((=) (seen R w))) m (\<lambda>_. False)" "calm R w"
  shows "isl (fst (m w)) \<and> (\<forall>j. R j \<longrightarrow> dict_get (pw_bucket (snd (m w))) j = dict_get (pw_bucket w) j)"
  using never_returns[OF assms] unfolding seen_def fun_eq_iff by metis

lemma never_after: "observes I m (\<lambda>_. False) \<Longrightarrow> observes I (eff_bind m f) (\<lambda>_. False)"
  by (rule observes_bind[where p = "\<lambda>_. False"]) simp_all


lemma demo_lease_key: "coordination_lease_key demo_pitr_lib demo_adapter = Inr (demo_scope @ ''/coordination/pitr-mutation.json'')"
  by code_simp



definition demo_lease :: PitrCoordinationLease where
  "demo_lease = \<lparr>cl_key = demo_scope @ ''/coordination/pitr-mutation.json'', cl_ident = replicate 32 (CHR ''a''), cl_owner = ''me'',
     cl_purpose = ''pitr-plan'', cl_generation = 1, cl_ttl = 3600, cl_etag = ''mine'', cl_acquired = 0, cl_expires = 3600 * SECOND,
     cl_observed = 0\<rparr>"


section \<open>Listings\<close>

text \<open>C21. Reading a listing page by page is reading the archive: when nobody interferes and no request fails, the
  adapter's listing is, for every page size of the provider, exactly the objects under the prefix, in the
  order of their keys, each with its size and time.\<close>

theorem listing_exact:
  assumes "pw_calls w = []" and "wa_client A = Inr ()" and "wal_bucket A = Inr name" and "card (fst ` set (pw_bucket w)) < MAX_LIST_PAGES"
  shows "list_objects L A pre w = (Inr (listing pre (pw_bucket w)), w)"
  by (rule list_objects_quiet[OF assms])

lemma listing_exact_witness:
  "list_objects demo_pitr_lib demo_adapter (demo_scope @ ''/wal/'') demo_archive =
     (Inr [(demo_scope @ ''/wal/000000010000000000000006'', 1, Some 0)], demo_archive)"
proof -
  have "card (fst ` set (pw_bucket demo_archive)) \<le> length (pw_bucket demo_archive)"
    by (rule order_trans[OF card_image_le[OF finite_set] card_length])
  moreover have "length (pw_bucket demo_archive) < MAX_LIST_PAGES" by (simp add: demo_archive_def MAX_LIST_PAGES_def)
  ultimately have "card (fst ` set (pw_bucket demo_archive)) < MAX_LIST_PAGES" by simp
  moreover have "wal_bucket demo_adapter = Inr ''w''" by code_simp
  moreover have "listing (demo_scope @ ''/wal/'') (pw_bucket demo_archive) = [(demo_scope @ ''/wal/000000010000000000000006'', 1, Some 0)]"
    by code_simp
  ultimately show ?thesis
    using listing_exact[of demo_archive demo_adapter "''w''" demo_pitr_lib] by (simp add: demo_archive_def demo_adapter_def)
qed

text \<open>C22. A listing ends: every page but the last passes at least one key, so with more pages allowed than there are
  keys in the bucket or ever put there while it runs, allowing still more changes nothing - whatever the
  page size, the failures and the other hosts do.\<close>

theorem list_pages_enough:
  assumes "card (keys_ever w) < fuel"
  shows "list_pages L A pre (fuel + more_pages) None [] w = list_pages L A pre fuel None [] w"
proof -
  have "card {k \<in> keys_ever w. after_token None k} < fuel" using assms by (simp add: after_token_def)
  then show ?thesis by (intro list_pages_fuel) simp_all
qed

lemma list_pages_enough_witness:
  "list_pages demo_pitr_lib demo_adapter demo_scope (5 + 1000) None [] demo_archive = list_pages demo_pitr_lib demo_adapter demo_scope 5 None [] demo_archive"
proof -
  have "card (keys_ever demo_archive) \<le> length (pw_bucket demo_archive)"
    unfolding keys_ever_def by (simp add: demo_archive_def) 
  then have "card (keys_ever demo_archive) < 5" by (simp add: demo_archive_def)
  then show ?thesis by (rule list_pages_enough)
qed

section \<open>Names and numbers\<close>

text \<open>C29. A WAL segment's name and its number are the same thing: on a timeline, the name of a number is the one
  segment name that has it, in both directions, and neither function accepts what the other does not give.\<close>

theorem wal_names_roundtrip:
  "wal_name_for_sequence n timeline seg = Inr name \<longleftrightarrow> wal_sequence name seg = Inr n \<and> timeline = int (hex_number (take 8 name))"
  by (rule wal_name_iff)

text \<open>C30. A range of WAL segments is exactly what lies between its ends: it begins and ends with the given names, each
  next name has the next number, and it is never longer than the limit.\<close>

theorem wal_range_consecutive:
  assumes "wal_segment_range first last_name seg = Inr names"
  shows "\<exists>a b. wal_sequence first seg = Inr a \<and> wal_sequence last_name seg = Inr b \<and> a \<le> b \<and> b - a < MAX_PITR_WAL_SEGMENTS \<and>
    int (length names) = b - a + 1 \<and> (\<forall>i < length names. wal_sequence (names ! i) seg = Inr (a + int i)) \<and>
    hd names = first \<and> last names = last_name"
  by (rule wal_range_spec[OF assms])

lemma demo_hex: "hex8 1 = ''00000001''" "hex8 0 = ''00000000''" "hex8 5 = ''00000005''" "hex8 6 = ''00000006''"
  by (simp_all add: hex8_def upper_hex.simps upper_digit_def eval_nat_numeral)

lemma demo_numbers: "hex_number ''00000001'' = 1" "hex_number ''00000000'' = 0" "hex_number ''00000005'' = 5" "hex_number ''00000006'' = 6"
  by (simp_all add: hex_number_def hex_val_def lower_char_def)

lemma demo_names: "is_archive_name ''000000010000000000000005''" "is_archive_name ''000000010000000000000006''"
  by (simp_all add: is_archive_name_def is_wal_segment_def is_upper_hex_def upper_hex_char_def)

lemma demo_timeline: "int_base16 ''00000001'' = Some 1"
  by (simp add: int_base16_def py_strip_def py_space_def py_lower_def lower_char_def starts_with_def hex_val_def demo_numbers)

lemma demo_range: "wal_segment_range ''000000010000000000000005'' ''000000010000000000000006'' (16 * 1024 * 1024) =
    Inr [''000000010000000000000005'', ''000000010000000000000006'']"
proof -
  have log: "segments_per_wal_log (16 * 1024 * 1024) = Inr 256" by (simp add: segments_per_wal_log_def)
  have named: "wal_name_for_sequence 5 1 (16 * 1024 * 1024) = Inr ''000000010000000000000005''"
    "wal_name_for_sequence 6 1 (16 * 1024 * 1024) = Inr ''000000010000000000000006''"
    using log demo_hex by (simp_all add: wal_name_for_sequence_def segment_text_def)
  have numbered: "wal_sequence ''000000010000000000000005'' (16 * 1024 * 1024) = Inr 5"
    "wal_sequence ''000000010000000000000006'' (16 * 1024 * 1024) = Inr 6"
    using log demo_numbers demo_names by (simp_all add: wal_sequence_def validate_archive_name_def)
  have "[5..6] = [5, 6::int]" by (simp add: upto.simps)
  then show ?thesis using named numbered demo_timeline by (simp add: wal_segment_range_def MAX_PITR_WAL_SEGMENTS_def)
qed

lemma wal_range_consecutive_witness:
  "\<exists>a b. wal_sequence ''000000010000000000000005'' (16 * 1024 * 1024) = Inr a \<and> wal_sequence ''000000010000000000000006'' (16 * 1024 * 1024) = Inr b \<and>
    a \<le> b \<and> b - a < MAX_PITR_WAL_SEGMENTS \<and> int (length [''000000010000000000000005'', ''000000010000000000000006'']) = b - a + 1"
  using wal_range_consecutive[OF demo_range] by blast

end
