(* ===== verification/Spec2Isabelle.thy ===== *)
theory Spec2Isabelle
  imports Operation_Properties Security_Properties Database_Properties Api_Dispatch Filestore_Properties Pitr_Properties
begin

text \<open>
  odooctl operates Odoo instances: an HTTP API (\<open>src/odooctl/api\<close>) accepts operations on
  registered projects, a runner (\<open>src/odooctl/runner/worker.py\<close>) executes them through
  services, and both keep their state in files of the project's state directory.  This
  development models the control plane, the replacement of a database, the migration of a
  filestore and the archive of point-in-time recovery.

  Parts and theories.

  \<^item> Values and texts.  \<open>Prelude\<close> (results, insertion-ordered dictionaries, string
    operations), \<open>Encoding\<close> (UTF-8, base64), \<open>Py_Json\<close> and \<open>Py_Text\<close> (\<open>json\<close>, \<open>str\<close>,
    \<open>repr\<close>), \<open>Jsonl\<close> (files of one JSON text per line).
  \<^item> Records of work.  \<open>Op_Models\<close> and \<open>Op_Store\<close> (\<open>operations/models.py\<close>,
    \<open>operations/store.py\<close>), \<open>Audit_Log\<close> (\<open>operations/audit.py\<close>), \<open>Env_Locks\<close>
    (\<open>operations/locks.py\<close>), \<open>Op_Engine\<close> (\<open>operations/engine.py\<close>: \<open>run_operation\<close> with
    every way it ends).
  \<^item> Who may do what.  \<open>Principals\<close>, \<open>Rbac\<close>, \<open>Tokens\<close>, \<open>Users\<close>, \<open>Sessions\<close>,
    \<open>Redaction\<close> (the files of \<open>security/\<close> with these names, and \<open>redact\<close> of
    \<open>utils/shell.py\<close>), \<open>Api_Auth\<close> (\<open>api/auth.py\<close>, \<open>api/routes_auth.py\<close>).
  \<^item> From request to execution.  \<open>Api_Ops\<close> (\<open>api/routes_operations.py\<close>) writes an operation
    and a token into the queue \<open>Api_Queue\<close> (\<open>api/queue.py\<close>); \<open>Runner\<close> claims the entry,
    verifies the token, the role and the nonce (\<open>Nonces\<close>) and runs it under the environment
    lock; \<open>Dispatch\<close> is the choice of the service and the checks of its parameters.
  \<^item> Replacing a live database.  \<open>Db_Names\<close> and \<open>Db_Cutover\<close> (\<open>odoo/db_swap.py\<close>).
  \<^item> Moving a filestore.  \<open>Filestore_Models\<close> and \<open>Filestore_World\<close> (the manifest of
    \<open>metadata/models.py\<close> with its validators, its files in \<open>metadata/store.py\<close>, the disk,
    \<open>scan_filestore\<close>), \<open>Filestore_Config\<close> (\<open>config.py\<close>, the client settings of
    \<open>adapters/s3.py\<close>), \<open>Filestore_Objects\<close> (\<open>adapters/object_filestore.py\<close> and the verified
    reads and writes of \<open>adapters/s3.py\<close>), \<open>Filestore_Storage\<close>
    (\<open>services/filestore_storage.py\<close>).  They are written over \<open>Effects\<close>, code with effects in
    a world under faults, and \<open>Fs_Tree\<close>, folders with symbolic links; \<open>Fs_Scan\<close>,
    \<open>Filestore_Proofs\<close>, \<open>Filestore_Lifecycle\<close> and \<open>Filestore_Cutover\<close> hold the arguments.
  \<^item> Point-in-time recovery.  \<open>Pitr_Wal\<close> (archive names, LSNs and the arithmetic on segments),
    \<open>Pitr_Models\<close> and \<open>Pitr_World\<close> (the recovery models of \<open>metadata/models.py\<close> with their
    validators, their files in \<open>metadata/store.py\<close>, the bucket with other hosts at work on it),
    \<open>Wal_S3\<close> and \<open>Wal_Lease\<close> (\<open>adapters/wal_s3.py\<close>: keys, listings, verified reads, immutable
    writes, base backups; the coordination lease and the retention pins), \<open>Pitr_Service\<close>
    (\<open>services/pitr.py\<close>: archiving, base backups, recovery planning, retention).  \<open>Pitr_Calm\<close>,
    \<open>Pitr_Lease\<close>, \<open>Pitr_Inventory\<close>, \<open>Pitr_Exact\<close>, \<open>Pitr_Archive\<close>, \<open>Pitr_Retention\<close>,
    \<open>Pitr_Decision\<close>, \<open>Pitr_Safety\<close> and \<open>Pitr_Planning\<close> hold the arguments, \<open>Pitr_Demo\<close> a small archive for the
    examples.

  State.  A record of the code is a \<open>record\<close> with the same fields; a file is its text; a
  directory is a dictionary from names to texts, in the order of creation where the code can
  see it, with modification times where it sorts by them.  A function that writes returns the
  new state.  An exception is the left side of a result, with its text where the code shows
  it.  Every definition stands for the function of the same name unless its text says
  otherwise.

  Lemmas and properties.  Each component's theory holds its invariant, what each operation
  does to it and the round trips of its files.  The contracts between components are locales:
  \<open>line_codec\<close> (a record type whose lines can be appended and read back; operations and
  audit), \<open>record_store\<close> (operations), \<open>single_use\<close> (nonces), \<open>fifo_queue\<close> (queue
  entries), \<open>ledger_view\<close> (the manifests of migrations), \<open>guarded_region\<close> and
  \<open>pinned_region\<close> (the archive of recovery), each interpreted on the model.  \<open>Api_Auth_Proofs\<close>, \<open>Db_Cutover_Proofs\<close> and
  \<open>Api_Dispatch\<close> hold the longer arguments; the properties are in \<open>Operation_Properties\<close>,
  \<open>Security_Properties\<close>, \<open>Database_Properties\<close>, \<open>Filestore_Properties\<close>,
  \<open>Pitr_Properties\<close> and here, where those that span the API
  and the runner follow.  Concurrent behaviour is stated over explicit interleavings:
  \<open>lock_move\<close> runs several processes over one lock file at the grain of its system calls,
  \<open>runner_reach\<close> is any sequence of queue entries executed by one runner, \<open>accounts_reach\<close>
  any sequence of account requests.

  External code.  SHA-256, HMAC and scrypt are arguments; tamper evidence is proved as a
  reduction, by exhibiting a collision.  Clocks and random values are arguments or functions
  of a tick counter in the world.  Services are functions from the arguments of a call to the
  way it ends.  The database server is a table of names and identities; each command takes
  its fate from a schedule of faults, whose exhaustion means no further faults.
  The world of a filestore is the tree of the host, the tree of the container's volume, the
  bucket and the manifests; each call to the disk, the container or the object store takes its
  fate from a schedule: carried out, carried out with the answer lost, rejected, interrupted,
  or the process dies before or after it.  \<open>eff_spec\<close> is the condition on all ways a piece of
  code ends, \<open>observes\<close> that it changes nothing an invariant sees and returns what holds in it,
  \<open>keeps\<close> that it keeps an invariant.  Following a symbolic link takes one of \<open>MAX_LINKS\<close> = 40
  steps, the limit of Linux; a path that exceeds it is left as it is.  The rendering of
  validation errors by pydantic is an argument.

  The world of recovery is the bucket, the clocks, and the metadata files; each request to the
  object store and each metadata file takes from a schedule its fate, the time it takes, the
  skew of the clock and the changes other hosts make to the bucket before it.  \<open>calm R w\<close> says
  that those leave the keys of \<open>R\<close> alone, \<open>seen R w\<close> is what is at them, \<open>stays R J\<close> a condition
  on it.  The locales \<open>guarded_region\<close> and \<open>pinned_region\<close> are what the arguments on bases and
  pins need of \<open>R\<close>; they are interpreted on \<open>archive_region\<close>, the bases, the pins and the WAL
  that is there when a run starts, and on \<open>plan_region\<close>, the same without the pins, for planning,
  which adds one; \<open>plan_sound\<close> is what a plan says of the archive.  What a run of retention decides is \<open>decided\<close>, what it may
  have done to the bucket at any moment \<open>damage\<close>.  The digest, the parsing and printing of
  times, the page size of listings and how a JSON document becomes a typed manifest are
  arguments; that the typing keeps the identity of a base is the hypothesis \<open>keeps_identity\<close>.

  Bounds and fuel.  Integers are unbounded, as in Python.  The JSON parser takes the length
  of its text as fuel, which every step of the grammar decreases (\<open>loads_dumps\<close> needs no
  bound).  A listing takes \<open>MAX_LIST_PAGES\<close> pages, enough for every bucket with fewer keys
  (\<open>list_pages_enough\<close>).  \<open>run_loop\<close>, an endless loop, takes a number of rounds.  Retry loops of locks and
  streams take the list of what they observe.  Every other recursion is structural or has a
  termination proof.

  Not modelled.  Characters are 8-bit, so a text with a code point above 255 is outside the
  model, and the arrow in two messages is written \<open>->\<close>.  JSON numbers with a fraction do not
  parse.  \<open>OSError\<close> of the file system is not modelled: a read of an existing file and a
  write succeed.  The pydantic validation of the project configuration, the command line,
  template rendering, the wrappers around docker, kubectl, psql and git processes, and the
  parsing of their output are left out, because what they do lies in the external program.
  Of a filestore: reading or writing a file is one step, so the checks that a file does not
  change meanwhile have no counterpart; a relative link is recorded as the absolute path it
  stands for; opening a FIFO (which blocks) reads as a special file; the temporary folder an
  archive is extracted to is not part of the disk.

  Of recovery: running a restore and its cutover (\<open>execute_restore\<close>, \<open>cutover_restore\<close>), the
  downloads of WAL and base backups, the recovery container (\<open>adapters/pitr_runtime.py\<close>) and
  the queries of \<open>adapters/pitr_postgres.py\<close>; \<open>pg_basebackup\<close> is the folder it leaves.  A
  verified read is one step, so an object that changes while it is streamed is not covered.
\<close>

section \<open>From the request to the execution\<close>


definition demo_api :: api_env where
  "demo_api = \<lparr>ap_hmac = (\<lambda>k m. []), ap_key = ''key'', ap_uid = ''0123456789abcdef'', ap_nonce = ''n1'', ap_now = ''t'',
     ap_seconds = 1000, ap_mtime = 1\<rparr>"

definition demo_caller :: Principal where
  "demo_caller = service_principal ''ops'' ''acme'' {OPERATOR}"

definition demo_backup :: OperationRequest where
  "demo_backup = \<lparr>rq_kind = ''backup'', rq_environment = ''staging'', rq_params = []\<rparr>"

definition demo_pr :: api_project where
  "demo_pr = \<lparr>pr_config = demo_config, pr_state = demo_state_dir []\<rparr>"

lemma demo_accepts: "\<exists>reg' resp. enqueue_operation demo_api (Some ''shop'') demo_caller (demo_registry []) ''shop'' demo_backup = Inr (reg', resp)"
proof -
  have "validate_request demo_config demo_caller demo_backup = Inr K_BACKUP"
    by (simp add: validate_request_def demo_config_def demo_backup_def demo_caller_def validate_pitr_def validate_filestore_def
        starts_with_def kind_protected_def is_protected_def PROJECT_WIDE_DISRUPTION_KINDS_def API_KIND_ACTION_def
        require_rbac_def roles_allow_def service_principal_def rbac_defs OperationKind_of_def kind_table_def)
  then show ?thesis
    by (simp add: enqueue_operation_def enforce_project_scope_def load_ctx_def demo_registry_def mint_capability Let_def)
qed

lemma enqueued_op_load:
  assumes "wf_json (JObj (rq_params rq))"
  shows "store_load (store_save mt (enqueued_op ap project p rq kind) s) (take 12 (ap_uid ap)) = Inr (enqueued_op ap project p rq kind)"
    "op_status (enqueued_op ap project p rq kind) = QUEUED" "operation_wf (enqueued_op ap project p rq kind)"
    "op_ident (enqueued_op ap project p rq kind) = take 12 (ap_uid ap)"
proof -
  have wf: "operation_wf (enqueued_op ap project p rq kind)"
    using redact_json_wf[OF assms, of "[]"] by (simp add: operation_wf_def enqueued_op_def del: redact_json.simps wf_json.simps)
  then show "operation_wf (enqueued_op ap project p rq kind)" .
  show i: "op_ident (enqueued_op ap project p rq kind) = take 12 (ap_uid ap)" by (simp add: enqueued_op_def)
  from load_save_same[OF wf, of mt s] i
  show "store_load (store_save mt (enqueued_op ap project p rq kind) s) (take 12 (ap_uid ap)) = Inr (enqueued_op ap project p rq kind)"
    by simp
qed (simp add: enqueued_op_def operation_create_def)

text \<open>What a project and its runner need so that an accepted request is the next thing to run.\<close>

definition ready_to_run :: "api_env \<Rightarrow> runner \<Rightarrow> QueueEntry \<Rightarrow> string \<Rightarrow> api_project \<Rightarrow> bool" where
  "ready_to_run ap rn e env pr \<longleftrightarrow>
     rn_hmac rn = ap_hmac ap \<and> rn_api_key rn = ap_key ap \<and> rn_envs rn = ac_envs (pr_config pr) \<and>
     pending_ok (rw_queue (pr_state pr)) \<and> queued_entries (rw_queue (pr_state pr)) = [] \<and>
     queue_fits (ap_mtime ap, e) (rw_queue (pr_state pr)) \<and>
     rn_seconds rn (w_tick (rw_world (pr_state pr))) < ap_seconds ap + DEFAULT_TTL_SECONDS \<and>
     timestamp_ok (ap_seconds ap + DEFAULT_TTL_SECONDS) \<and>
     world_inv (rn_rt rn) (rw_world (pr_state pr)) \<and>
     store_load_events (w_ops (rw_world (pr_state pr))) (take 12 (ap_uid ap)) = [] \<and>
     iso_ok (rn_iso rn) \<and> nonces_ok (rn_iso rn) (rw_nonces (pr_state pr)) \<and>
     \<not> nonce_blocked (rn_iso rn) (rw_nonces (pr_state pr)) (ap_nonce ap) (rn_micros rn (w_tick (rw_world (pr_state pr)))) \<and>
     (env \<in> th_held (w_thread (rw_world (pr_state pr))) \<or> dict_get (w_locks (rw_world (pr_state pr))) env = None) \<and>
     bl_end (rn_dispatch rn e) \<noteq> BlockInterrupted"

lemma accepted_run:
  assumes acc: "enqueue_operation ap claim p reg project rq = Inr (reg', resp)" and reg: "dict_get reg project = Some (Inr pr)"
    and ready: "ready_to_run ap rn (enqueued_entry ap project p rq) (rq_environment rq) pr"
    and wf: "wf_json (JObj (rq_params rq))"
  shows "\<exists>pr' w0 w' msg. dict_get reg' project = Some (Inr pr') \<and>
    claim_and_run [Some (rn, pr_state pr')]
      = ([Some (rn, w')], Inr (True, bl_end (rn_dispatch rn (enqueued_entry ap project p rq)) = BlockOk)) \<and>
    rw_world w0 = rw_world (pr_state pr') \<and>
    entry_recorded rn (enqueued_entry ap project p rq) (bl_end (rn_dispatch rn (enqueued_entry ap project p rq)) = BlockOk) msg
      (length (bl_emits (rn_dispatch rn (enqueued_entry ap project p rq))) + 2) w0 w'"
proof -
  let ?e = "enqueued_entry ap project p rq" and ?s = "pr_state pr"
  note R = ready[unfolded ready_to_run_def]
  obtain kind where reg': "reg' = dict_put project (Inr (pr\<lparr>pr_state := ?s
        \<lparr>rw_world := (rw_world ?s)\<lparr>w_ops := store_save (ap_mtime ap) (enqueued_op ap project p rq kind) (w_ops (rw_world ?s))\<rparr>,
         rw_queue := enqueue (ap_mtime ap) ?e (rw_queue ?s)\<rparr>\<rparr>)) reg"
    using enqueue_accepted[OF acc] reg by (metis Inr_inject option.inject)
  let ?s' = "?s\<lparr>rw_world := (rw_world ?s)\<lparr>w_ops := store_save (ap_mtime ap) (enqueued_op ap project p rq kind) (w_ops (rw_world ?s))\<rparr>,
         rw_queue := enqueue (ap_mtime ap) ?e (rw_queue ?s)\<rparr>"
  have g: "dict_get reg' project = Some (Inr (pr\<lparr>pr_state := ?s'\<rparr>))" by (simp add: reg')
  have eid: "qe_op_id ?e = take 12 (ap_uid ap)" "qe_environment ?e = rq_environment rq"
    by (simp_all add: enqueued_entry_def entry_create_def)
  have wfe: "entry_wf ?e"
    using redact_json_wf[OF wf, of "[]"] by (simp add: entry_wf_def enqueued_entry_def entry_create_def del: redact_json.simps wf_json.simps)
  have q: "pending_ok (rw_queue ?s')" "queued_entries (rw_queue ?s') = [?e]"
    using R enqueue_ok[OF _ wfe] enqueue_items[of "ap_mtime ap" ?e "rw_queue ?s"] by auto
  obtain q' where q': "claim_next (rw_queue ?s') = (q', Some ?e)"
    using claim_next_first[OF q(1) q(2)] by (metis prod.collapse)
  let ?w = "?s'\<lparr>rw_queue := q'\<rparr>"
  note ld = enqueued_op_load[OF wf]
  have "admitted rn ?e ?w"
    by (rule enqueued_admitted[OF acc reg]) (use R ld in simp_all)
  then obtain f where f: "admission rn ?e ?w = Some f" by blast
  let ?w0 = "?w\<lparr>rw_nonces := f\<rparr>"
  have st: "startable rn ?e (enqueued_op ap project p rq kind) ?w0"
    using R ld wfe by (simp add: startable_def eid world_inv_def)
  have lock: "qe_environment ?e \<in> th_held (w_thread (rw_world ?w0)) \<or> dict_get (w_locks (rw_world ?w0)) (qe_environment ?e) = None"
    using R by (simp add: eid)
  have fin: "bl_end (rn_dispatch rn ?e) \<noteq> BlockInterrupted" using R by simp
  from run_entry_acquired[OF st lock fin] obtain w' msg where
    run: "run_entry rn ?e ?w0 = (w', Inr (bl_end (rn_dispatch rn ?e) = BlockOk))"
    "entry_recorded rn ?e (bl_end (rn_dispatch rn ?e) = BlockOk) msg (length (bl_emits (rn_dispatch rn ?e)) + 2) ?w0 w'" by blast
  have "claim_and_run [Some (rn, ?s')] = ([Some (rn, w')], Inr (True, bl_end (rn_dispatch rn ?e) = BlockOk))"
    using q' execute_admitted[OF f] run(1) by simp
  with g run(2) show ?thesis
    by (intro exI[of _ "pr\<lparr>pr_state := ?s'\<rparr>"] exI[of _ ?w0] exI[of _ w'] exI[of _ msg]) simp
qed

text \<open>C1. End to end: when the API has accepted a request on a project where nothing else waits, the next
  round of the runner claims exactly its entry, passes all its checks, runs it under the lock and
  leaves a complete record: terminal status, gapless events, one audit entry, the lock as before.\<close>

theorem accepted_request_runs:
  assumes acc: "enqueue_operation ap claim p reg project rq = Inr (reg', resp)" and reg: "dict_get reg project = Some (Inr pr)"
    and ready: "ready_to_run ap rn (enqueued_entry ap project p rq) (rq_environment rq) pr"
    and wf: "wf_json (JObj (rq_params rq))"
  shows "\<exists>pr' w0 w' msg. dict_get reg' project = Some (Inr pr') \<and>
    claim_and_run [Some (rn, pr_state pr')]
      = ([Some (rn, w')], Inr (True, bl_end (rn_dispatch rn (enqueued_entry ap project p rq)) = BlockOk)) \<and>
    rw_world w0 = rw_world (pr_state pr') \<and>
    entry_recorded rn (enqueued_entry ap project p rq) (bl_end (rn_dispatch rn (enqueued_entry ap project p rq)) = BlockOk) msg
      (length (bl_emits (rn_dispatch rn (enqueued_entry ap project p rq))) + 2) w0 w'"
  by (rule accepted_run[OF assms])

abbreviation demo_queued :: QueueEntry where
  "demo_queued \<equiv> enqueued_entry demo_api ''shop'' demo_caller demo_backup"

lemma demo_ready_to_run:
  assumes "rq_params rq = []" "bl_end (rn_dispatch demo_runner (enqueued_entry demo_api ''shop'' demo_caller rq)) \<noteq> BlockInterrupted"
  shows "ready_to_run demo_api demo_runner (enqueued_entry demo_api ''shop'' demo_caller rq) ''staging'' demo_pr"
proof -
  have "entry_wf (enqueued_entry demo_api ''shop'' demo_caller rq)"
    using assms(1) by (simp add: entry_wf_def enqueued_entry_def entry_create_def)
  then have "queue_fits (ap_mtime demo_api, enqueued_entry demo_api ''shop'' demo_caller rq) queue_init"
    by (simp add: queue_fits_def queue_init_def)
  moreover have "world_inv demo_runtime (demo_world\<lparr>w_ops := []\<rparr>)" using demo_world_inv by (simp add: demo_world_def)
  moreover have "rn_rt demo_runner = demo_runtime" "rn_hmac demo_runner = ap_hmac demo_api" "rn_api_key demo_runner = ap_key demo_api"
    "iso_ok (rn_iso demo_runner)" "rn_seconds demo_runner n < ap_seconds demo_api + DEFAULT_TTL_SECONDS"
    "timestamp_ok (ap_seconds demo_api + DEFAULT_TTL_SECONDS)" "ap_mtime demo_api = 1" for n
    using demo_iso_ok by (simp_all add: demo_runner_def demo_api_def DEFAULT_TTL_SECONDS_def timestamp_ok_def)
  moreover have "nonces_ok I None" "\<not> nonce_blocked I None nn t" for I nn t
    by (simp_all add: nonces_ok_def nonce_blocked_def nonce_expiry_def)
  ultimately show ?thesis using assms(2)
    by (simp add: ready_to_run_def demo_runner_envs demo_pr_def demo_state_dir_def queue_init_ok demo_world_def
        store_load_events_def)
qed

theorem accepted_request_runs_witness:
  "\<exists>reg' resp pr' w'. enqueue_operation demo_api (Some ''shop'') demo_caller (demo_registry []) ''shop'' demo_backup = Inr (reg', resp) \<and>
     dict_get reg' ''shop'' = Some (Inr pr') \<and>
     claim_and_run [Some (demo_runner, pr_state pr')] = ([Some (demo_runner, w')], Inr (True, True))"
proof -
  obtain reg' resp where a: "enqueue_operation demo_api (Some ''shop'') demo_caller (demo_registry []) ''shop'' demo_backup = Inr (reg', resp)"
    using demo_accepts by blast
  have ok: "bl_end (rn_dispatch demo_runner demo_queued) = BlockOk"
    by (rule demo_runner_backup) (simp add: enqueued_entry_def entry_create_def demo_backup_def)
  have r: "dict_get (demo_registry []) ''shop'' = Some (Inr demo_pr)" by (simp add: demo_registry_def demo_pr_def)
  have ready: "ready_to_run demo_api demo_runner demo_queued (rq_environment demo_backup) demo_pr"
    using demo_ready_to_run[of demo_backup] ok by (simp add: demo_backup_def)
  have wf: "wf_json (JObj (rq_params demo_backup))" by (simp add: demo_backup_def)
  from accepted_request_runs[OF a r ready wf] a show ?thesis unfolding ok simp_thms by blast
qed

text \<open>C18. The kinds the runner does not know: a request for a restore, deployment, promotion, creation or
  destruction of an environment, module update or rollback that the API accepted is claimed in the next
  round and fails; its operation is recorded as failed.\<close>

theorem accepted_but_unsupported:
  assumes "enqueue_operation ap claim p reg project rq = Inr (reg', resp)" "dict_get reg project = Some (Inr pr)"
    "ready_to_run ap rn (enqueued_entry ap project p rq) (rq_environment rq) pr" "wf_json (JObj (rq_params rq))"
    and kind: "rq_kind rq = kind_value k" "k \<in> UNSUPPORTED_KINDS"
  shows "\<exists>pr' w' op. dict_get reg' project = Some (Inr pr') \<and>
    claim_and_run [Some (rn, pr_state pr')] = ([Some (rn, w')], Inr (True, False)) \<and>
    store_load (w_ops (rw_world w')) (take 12 (ap_uid ap)) = Inr op \<and> op_status op = FAILED"
proof -
  have "OperationKind_of (qe_kind (enqueued_entry ap project p rq)) = Some k"
    using kind(1) by (simp add: enqueued_fields)
  then have "bl_end (rn_dispatch rn (enqueued_entry ap project p rq)) \<noteq> BlockOk"
    unfolding rn_dispatch_def using dispatch_unsupported kind(2) by (metis block.select_convs(2) block_end.distinct(1))
  moreover have "qe_op_id (enqueued_entry ap project p rq) = take 12 (ap_uid ap)"
    by (simp add: enqueued_entry_def entry_create_def)
  ultimately show ?thesis using accepted_run[OF assms(1-4)] by (auto simp: entry_recorded_def)
qed

definition demo_deploy :: OperationRequest where
  "demo_deploy = \<lparr>rq_kind = ''deploy'', rq_environment = ''staging'', rq_params = []\<rparr>"

theorem accepted_but_unsupported_witness:
  "\<exists>reg' resp pr' w'. enqueue_operation demo_api (Some ''shop'') demo_caller (demo_registry []) ''shop'' demo_deploy = Inr (reg', resp) \<and>
     dict_get reg' ''shop'' = Some (Inr pr') \<and>
     claim_and_run [Some (demo_runner, pr_state pr')] = ([Some (demo_runner, w')], Inr (True, False))"
proof -
  have "validate_request demo_config demo_caller demo_deploy = Inr K_DEPLOY"
    by (simp add: validate_request_def demo_config_def demo_deploy_def demo_caller_def validate_pitr_def validate_filestore_def
        starts_with_def kind_protected_def is_protected_def PROJECT_WIDE_DISRUPTION_KINDS_def API_KIND_ACTION_def
        require_rbac_def roles_allow_def service_principal_def rbac_defs OperationKind_of_def kind_table_def)
  then obtain reg' resp where a: "enqueue_operation demo_api (Some ''shop'') demo_caller (demo_registry []) ''shop'' demo_deploy = Inr (reg', resp)"
    by (simp add: enqueue_operation_def enforce_project_scope_def load_ctx_def demo_registry_def mint_capability Let_def)
  have r: "dict_get (demo_registry []) ''shop'' = Some (Inr demo_pr)" by (simp add: demo_registry_def demo_pr_def)
  have k: "rq_kind demo_deploy = kind_value K_DEPLOY" "K_DEPLOY \<in> UNSUPPORTED_KINDS"
    by (simp_all add: demo_deploy_def kind_value_def kind_table_def UNSUPPORTED_KINDS_def)
  have "OperationKind_of (qe_kind (enqueued_entry demo_api ''shop'' demo_caller demo_deploy)) = Some K_DEPLOY"
    using k(1) by (simp add: enqueued_fields)
  then have e: "bl_end (rn_dispatch demo_runner (enqueued_entry demo_api ''shop'' demo_caller demo_deploy)) \<noteq> BlockInterrupted"
    unfolding rn_dispatch_def using dispatch_unsupported[OF _ k(2)] by simp
  have ready: "ready_to_run demo_api demo_runner (enqueued_entry demo_api ''shop'' demo_caller demo_deploy) (rq_environment demo_deploy) demo_pr"
    using demo_ready_to_run[OF _ e] by (simp add: demo_deploy_def)
  have wf: "wf_json (JObj (rq_params demo_deploy))" by (simp add: demo_deploy_def)
  from accepted_but_unsupported[OF a r ready wf k] a show ?thesis by blast
qed

text \<open>C16. Confirmations reach the services: whatever the runner calls for an accepted request is on the
  environment, service or directory the entry may touch, and a cutover, a deletion of a migrated source or
  of a remote marker is called with the exact confirmations the API demanded, redaction in between or not.\<close>

theorem accepted_calls_are_confirmed:
  assumes "enqueue_operation ap claim p reg project rq = Inr (reg', resp)" "dict_get reg project = Some (Inr pr)"
    and "CHR ''$'' \<notin> set (rq_environment rq)"
      "\<forall>c. dict_get (ac_envs (pr_config pr)) (rq_environment rq) = Some c \<longrightarrow> CHR ''$'' \<notin> set (env_db_name c)"
  shows "\<forall>call \<in> set (calls_of (dispatch cfg S (enqueued_entry ap project p rq))).
    admissible_call cfg (enqueued_entry ap project p rq) call \<and> confirmed_call (ac_envs (pr_config pr)) call"
proof -
  obtain kind where "validate_request (pr_config pr) p rq = Inr kind"
    using enqueue_accepted[OF assms(1)] assms(2) by (metis Inr_inject option.inject)
  then show ?thesis
    using accepted_calls_confirmed assms(3,4) act_sat_calls[OF dispatch_admissible] by blast
qed

definition demo_cutover :: OperationRequest where
  "demo_cutover = \<lparr>rq_kind = ''pitr_cutover'', rq_environment = ''staging'', rq_params =
     [(''restore_id'', JStr ''r1''), (''confirm_environment'', JStr ''staging''), (''confirm_database'', JStr ''db''),
      (''accept_database_only'', JBool True)]\<rparr>"

definition demo_pitr_pr :: api_project where
  "demo_pitr_pr = \<lparr>pr_config = demo_config\<lparr>ac_pitr_enabled := True, ac_pitr_environment := ''staging''\<rparr>, pr_state = demo_state_dir []\<rparr>"

theorem accepted_calls_are_confirmed_witness:
  "\<exists>r. enqueue_operation demo_api (Some ''shop'') demo_caller [(''shop'', Inr demo_pitr_pr)] ''shop'' demo_cutover = Inr r \<and>
     calls_of (dispatch demo_dispatch_config demo_services (enqueued_entry demo_api ''shop'' demo_caller demo_cutover)) \<noteq> [] \<and>
     (\<forall>call \<in> set (calls_of (dispatch demo_dispatch_config demo_services (enqueued_entry demo_api ''shop'' demo_caller demo_cutover))).
       confirmed_call (ac_envs demo_config) call)"
proof -
  have "validate_request (pr_config demo_pitr_pr) demo_caller demo_cutover = Inr K_PITR_CUTOVER"
    by (simp add: validate_request_def demo_config_def demo_pitr_pr_def demo_cutover_def demo_caller_def validate_pitr_def
        validate_filestore_def require_safe_operation_id_def safe_operation_id_def alnum_char_def
        starts_with_def kind_protected_def is_protected_def PROJECT_WIDE_DISRUPTION_KINDS_def API_KIND_ACTION_def
        require_rbac_def roles_allow_def service_principal_def rbac_defs OperationKind_of_def kind_table_def)
  then obtain r where a: "enqueue_operation demo_api (Some ''shop'') demo_caller [(''shop'', Inr demo_pitr_pr)] ''shop'' demo_cutover = Inr r"
    by (simp add: enqueue_operation_def enforce_project_scope_def load_ctx_def mint_capability Let_def)
  have r: "dict_get [(''shop'', Inr demo_pitr_pr)] ''shop'' = Some (Inr demo_pitr_pr)" by simp
  have e: "CHR ''$'' \<notin> set (rq_environment demo_cutover)"
    "\<forall>c. dict_get (ac_envs (pr_config demo_pitr_pr)) (rq_environment demo_cutover) = Some c \<longrightarrow> CHR ''$'' \<notin> set (env_db_name c)"
    by (simp_all add: demo_cutover_def demo_pitr_pr_def demo_config_def)
  have "calls_of (dispatch demo_dispatch_config demo_services (enqueued_entry demo_api ''shop'' demo_caller demo_cutover)) \<noteq> []"
    by (simp add: dispatch_def enqueued_fields demo_cutover_def OperationKind_of_def kind_table_def dispatch_pitr_cutover_def
        id_param_def text_param_def bool_param_def param_def enqueued_entry_def entry_create_def opt_field_def
        act_bind_def act_call_def act_check_def act_return_def calls_of_def is_secret_key_def SECRET_KEY_TOKENS_def
        py_lower_def lower_char_def starts_with_def redact_text_plain demo_services_def)
  moreover have "ac_envs (pr_config demo_pitr_pr) = ac_envs demo_config" by (simp add: demo_pitr_pr_def)
  ultimately show ?thesis using a accepted_calls_are_confirmed[OF _ r e, of demo_api "Some ''shop''"] by (cases r) auto
qed

text \<open>The demo project with the accepted operation in its store.\<close>

definition demo_accepted :: runner_world where
  "demo_accepted = demo_state_dir (store_save 1 (enqueued_op demo_api ''shop'' demo_caller demo_backup K_BACKUP) [])"

lemma demo_accepted_op:
  "store_load (w_ops (rw_world demo_accepted)) (take 12 (ap_uid demo_api)) = Inr (enqueued_op demo_api ''shop'' demo_caller demo_backup K_BACKUP)"
  "op_status (enqueued_op demo_api ''shop'' demo_caller demo_backup K_BACKUP) = QUEUED"
  using enqueued_op_load(1)[of demo_backup 1 demo_api "''shop''" demo_caller K_BACKUP "[]"]
    enqueued_op_load(2)[of demo_backup demo_api "''shop''" demo_caller K_BACKUP]
  by (simp_all add: demo_accepted_def demo_state_dir_def demo_backup_def)

lemma demo_fresh_nonce: "nonces_ok (rn_iso demo_runner) (rw_nonces demo_accepted)"
  "\<not> nonce_blocked (rn_iso demo_runner) (rw_nonces demo_accepted) n t"
  by (simp_all add: demo_accepted_def demo_state_dir_def nonces_ok_def nonce_blocked_def nonce_expiry_def)

lemma demo_same: "rn_hmac demo_runner = ap_hmac demo_api" "rn_api_key demo_runner = ap_key demo_api"
  "rn_envs demo_runner = ac_envs (pr_config demo_pr)" "iso_ok (rn_iso demo_runner)"
  "rn_seconds demo_runner n < ap_seconds demo_api + DEFAULT_TTL_SECONDS" "timestamp_ok (ap_seconds demo_api + DEFAULT_TTL_SECONDS)"
  using demo_iso_ok
  by (simp_all add: demo_runner_def demo_dispatch_config_def demo_api_def demo_pr_def DEFAULT_TTL_SECONDS_def timestamp_ok_def)

lemma demo_reg: "dict_get (demo_registry []) ''shop'' = Some (Inr demo_pr)"
  by (simp add: demo_registry_def demo_pr_def)


section \<open>Tokens at the runner\<close>


lemma demo_text_nonce: "text_nonce demo_runner demo_queued"
proof -
  have "verify_entry demo_runner demo_queued 1000 = Inr (sorted_payload (capability_payload demo_api ''shop'' demo_caller demo_backup))"
    by (rule capability_verifies) (simp_all add: demo_same(1,2), simp add: demo_api_def DEFAULT_TTL_SECONDS_def)
  then show ?thesis unfolding text_nonce_def
    using verify_entry_payload by (fastforce simp: opt_field_def capability_fields)
qed

lemma demo_accepted_inv: "runner_inv demo_runner demo_accepted"
proof -
  have "events_closed (store_save 1 op [])" for op by simp
  then have "world_inv demo_runtime (rw_world demo_accepted)"
    by (simp add: world_inv_def demo_accepted_def demo_state_dir_def demo_world_def audit_inv_init)
  moreover have "rn_rt demo_runner = demo_runtime" "rw_queue demo_accepted = queue_init"
    by (simp_all add: demo_runner_def demo_accepted_def demo_state_dir_def)
  ultimately show ?thesis using demo_same(4) demo_fresh_nonce(1) queue_init_ok(1) by (simp add: runner_inv_def)
qed




end
